(* ===== verification/Gs_Prelude.thy ===== *)
theory Gs_Prelude
  imports Complex_Main "HOL-Library.AList" "HOL-Library.Sublist"
begin

text \<open>
  What the components of the console share: JavaScript values as far as the console exchanges them
  with the API (\<open>js\<close>), the operators \<^verbatim>\<open>?.\<close>, \<^verbatim>\<open>??\<close> and object spread, the result of a call that
  may throw (\<open>error + value\<close>), HTTP requests as the console hands them to its client, and the
  list, option and string facts the component theories use.
\<close>

named_theorems js_simps "evaluation of JavaScript operators on model values"
named_theorems hook_defs "definitions of the query and mutation hooks"

section \<open>JavaScript values\<close>

text \<open>
  Values that travel in requests, responses and cache keys. Numbers are exact rationals: the values
  the console computes with (megabytes, page numbers, counts, dyadic fractions) are represented
  exactly by a double, so no rounding is lost. An object is the association list of its own
  properties in insertion order.
\<close>

datatype js =
    JUndef
  | JNull
  | JBool bool
  | JNum rat
  | JStr string
  | JArr "js list"
  | JObj "(string \<times> js) list"

text \<open>Property access \<^verbatim>\<open>v?.k\<close>: absent properties, and every property of a non-object, are undefined.\<close>

fun js_get :: "string \<Rightarrow> js \<Rightarrow> js" where
  "js_get k (JObj kvs) = (case map_of kvs k of None \<Rightarrow> JUndef | Some v \<Rightarrow> v)"
| "js_get k _ = JUndef"

fun nullish :: "js \<Rightarrow> bool" where
  "nullish JUndef = True"
| "nullish JNull = True"
| "nullish _ = False"

text \<open>The operator \<^verbatim>\<open>v ?? w\<close>.\<close>

definition coalesce :: "js \<Rightarrow> js \<Rightarrow> js" where
  "coalesce v w = (if nullish v then w else v)"

text \<open>\<^verbatim>\<open>Boolean(v)\<close>.\<close>

fun truthy :: "js \<Rightarrow> bool" where
  "truthy JUndef = False"
| "truthy JNull = False"
| "truthy (JBool b) = b"
| "truthy (JNum n) = (n \<noteq> 0)"
| "truthy (JStr s) = (s \<noteq> [])"
| "truthy (JArr _) = True"
| "truthy (JObj _) = True"

fun is_array :: "js \<Rightarrow> bool" where
  "is_array (JArr _) = True"
| "is_array _ = False"

text \<open>The elements of a value whose static type is an array.\<close>

fun js_elems :: "js \<Rightarrow> js list" where
  "js_elems (JArr xs) = xs"
| "js_elems _ = []"

text \<open>\<^verbatim>\<open>{ ...base, k1: v1, k2: v2 }\<close>: later properties win, an existing key keeps its position.\<close>

definition obj_spread :: "(string \<times> js) list \<Rightarrow> (string \<times> js) list \<Rightarrow> (string \<times> js) list" where
  "obj_spread base over = fold (\<lambda>(k, v) acc. AList.update k v acc) over base"

text \<open>
  Optional string arguments (\<^verbatim>\<open>s?: string | null\<close>): \<open>None\<close> stands for both undefined and null, which
  the code never tells apart. \<open>str_truthy\<close> is \<^verbatim>\<open>!!s\<close>, \<open>str_or\<close> is \<^verbatim>\<open>s ?? d\<close>.
\<close>

definition str_truthy :: "string option \<Rightarrow> bool" where
  "str_truthy s = (case s of None \<Rightarrow> False | Some t \<Rightarrow> t \<noteq> [])"

definition str_or :: "string option \<Rightarrow> string \<Rightarrow> string" where
  "str_or s d = (case s of None \<Rightarrow> d | Some t \<Rightarrow> t)"

text \<open>The value of an optional string (\<open>js_opt\<close>), and the entry \<^verbatim>\<open>if (s) query.k = s\<close> contributes.\<close>

definition js_opt :: "string option \<Rightarrow> js" where
  "js_opt s = (case s of None \<Rightarrow> JUndef | Some t \<Rightarrow> JStr t)"

definition opt_param :: "string \<Rightarrow> string option \<Rightarrow> (string \<times> js) list" where
  "opt_param k s = (if str_truthy s then [(k, js_opt s)] else [])"

text \<open>\<^verbatim>\<open>s || undefined\<close> on a string that may be absent, and \<^verbatim>\<open>x ?? d\<close>.\<close>

definition nonempty :: "string option \<Rightarrow> string option" where
  "nonempty v = (if str_truthy v then v else None)"

definition or_else :: "'a option \<Rightarrow> 'a option \<Rightarrow> 'a option" where
  "or_else a b = (case a of None \<Rightarrow> b | Some v \<Rightarrow> Some v)"

definition opt_else :: "'a option \<Rightarrow> 'a \<Rightarrow> 'a" where
  "opt_else a d = (case a of None \<Rightarrow> d | Some v \<Rightarrow> v)"

section \<open>Strings\<close>

text \<open>Decimal rendering of integers, as \<^verbatim>\<open>String(n)\<close> and template literals do.\<close>

definition digit_char :: "nat \<Rightarrow> char" where
  "digit_char d = char_of (48 + d)"

fun show_nat :: "nat \<Rightarrow> string" where
  "show_nat n = (if n < 10 then [digit_char n] else show_nat (n div 10) @ [digit_char (n mod 10)])"

definition show_int :: "int \<Rightarrow> string" where
  "show_int i = (if i < 0 then CHR 0x2D # show_nat (nat (- i)) else show_nat (nat i))"

declare show_nat.simps [simp del]

text \<open>\<^verbatim>\<open>xs.join(sep)\<close> on strings and \<^verbatim>\<open>s.split(c)\<close> at a one-character separator.\<close>

fun join :: "string \<Rightarrow> string list \<Rightarrow> string" where
  "join sep [] = []"
| "join sep [x] = x"
| "join sep (x # y # ys) = x @ sep @ join sep (y # ys)"

fun split_on :: "char \<Rightarrow> string \<Rightarrow> string list" where
  "split_on c [] = [[]]"
| "split_on c (x # xs) =
     (if x = c then [] # split_on c xs
      else (case split_on c xs of [] \<Rightarrow> [[x]] | w # ws \<Rightarrow> (x # w) # ws))"

text \<open>\<^verbatim>\<open>s.toLowerCase()\<close> and \<^verbatim>\<open>s.toUpperCase()\<close> on the ASCII letters; other characters are kept.\<close>

definition lower_char :: "char \<Rightarrow> char" where
  "lower_char c = (if 65 \<le> (of_char c :: nat) \<and> (of_char c :: nat) \<le> 90 then char_of ((of_char c :: nat) + 32) else c)"

definition to_lower :: "string \<Rightarrow> string" where
  "to_lower s = map lower_char s"

text \<open>White space as \<^verbatim>\<open>\s\<close> and \<^verbatim>\<open>trim()\<close> read it, on the ASCII range.\<close>

definition js_space :: "char \<Rightarrow> bool" where
  "js_space c = ((of_char c :: nat) \<in> {9, 10, 11, 12, 13, 32})"

definition trim :: "string \<Rightarrow> string" where
  "trim s = rev (dropWhile js_space (rev (dropWhile js_space s)))"

text \<open>\<^verbatim>\<open>s.endsWith(suf)\<close>, \<^verbatim>\<open>s.startsWith(pre)\<close> and \<^verbatim>\<open>s.includes(t)\<close>.\<close>

definition ends_with :: "string \<Rightarrow> string \<Rightarrow> bool" where
  "ends_with s suf = (length suf \<le> length s \<and> drop (length s - length suf) s = suf)"

definition starts_with :: "string \<Rightarrow> string \<Rightarrow> bool" where
  "starts_with s pre = (take (length pre) s = pre)"

fun str_includes :: "string \<Rightarrow> string \<Rightarrow> bool" where
  "str_includes [] t = (t = [])"
| "str_includes (c # s) t = (starts_with (c # s) t \<or> str_includes s t)"

text \<open>
  \<^verbatim>\<open>String(v)\<close>. The rendering of a non-integral number is the argument \<open>sf\<close>; array elements that are
  null or undefined render as the empty string.
\<close>

fun js_to_string :: "(rat \<Rightarrow> string) \<Rightarrow> js \<Rightarrow> string" where
  "js_to_string sf JUndef = ''undefined''"
| "js_to_string sf JNull = ''null''"
| "js_to_string sf (JBool b) = (if b then ''true'' else ''false'')"
| "js_to_string sf (JNum q) = (if q = of_int \<lfloor>q\<rfloor> then show_int \<lfloor>q\<rfloor> else sf q)"
| "js_to_string sf (JStr s) = s"
| "js_to_string sf (JArr xs) = join '','' (map (\<lambda>x. if nullish x then [] else js_to_string sf x) xs)"
| "js_to_string sf (JObj kvs) = ''[object Object]''"

section \<open>Requests and results\<close>

datatype http_method = GET | POST | PUT | PATCH | DELETE

text \<open>
  A request as a hook builds it: the path template of the API schema, the values of its path
  parameters, the query object, the extra headers and the body.
\<close>

record request =
  rq_method :: http_method
  rq_path :: string
  rq_params :: "(string \<times> string) list"
  rq_query :: "(string \<times> js) list"
  rq_headers :: "(string \<times> string) list"
  rq_body :: "js option"

definition http_get :: "string \<Rightarrow> (string \<times> string) list \<Rightarrow> (string \<times> js) list \<Rightarrow> request" where
  "http_get path params query =
     \<lparr>rq_method = GET, rq_path = path, rq_params = params, rq_query = query,
      rq_headers = [], rq_body = None\<rparr>"

definition http_send ::
  "http_method \<Rightarrow> string \<Rightarrow> (string \<times> string) list \<Rightarrow> js option \<Rightarrow> (string \<times> string) list \<Rightarrow> request" where
  "http_send meth path params body headers =
     \<lparr>rq_method = meth, rq_path = path, rq_params = params, rq_query = [],
      rq_headers = headers, rq_body = body\<rparr>"

text \<open>Sequencing of calls that may throw, and a pure continuation.\<close>

definition bind_res :: "'e + 'a \<Rightarrow> ('a \<Rightarrow> 'e + 'b) \<Rightarrow> 'e + 'b" where
  "bind_res r f = (case r of Inl e \<Rightarrow> Inl e | Inr a \<Rightarrow> f a)"

definition map_res :: "('a \<Rightarrow> 'b) \<Rightarrow> 'e + 'a \<Rightarrow> 'e + 'b" where
  "map_res f r = (case r of Inl e \<Rightarrow> Inl e | Inr a \<Rightarrow> Inr (f a))"

section \<open>Shared facts\<close>

lemma coalesce_simps [simp, js_simps]:
  "coalesce JUndef w = w"
  "coalesce JNull w = w"
  "coalesce (JBool b) w = JBool b"
  "coalesce (JNum n) w = JNum n"
  "coalesce (JStr s) w = JStr s"
  "coalesce (JArr xs) w = JArr xs"
  "coalesce (JObj kvs) w = JObj kvs"
  by (simp_all add: coalesce_def)

lemma coalesce_not_nullish [simp]: "\<not> nullish w \<Longrightarrow> \<not> nullish (coalesce v w)"
  by (simp add: coalesce_def)

lemma bind_res_simps [simp]: "bind_res (Inl e) f = Inl e" "bind_res (Inr a) f = f a"
  by (simp_all add: bind_res_def)

lemma map_res_simps [simp]: "map_res f (Inl e) = Inl e" "map_res f (Inr a) = Inr (f a)"
  by (simp_all add: map_res_def)

lemma bind_res_Inr_iff: "bind_res r f = Inr b \<longleftrightarrow> (\<exists>a. r = Inr a \<and> f a = Inr b)"
  by (cases r) auto

lemma bind_res_Inl_iff: "bind_res r f = Inl e \<longleftrightarrow> r = Inl e \<or> (\<exists>a. r = Inr a \<and> f a = Inl e)"
  by (cases r) auto

lemma map_res_Inr_iff: "map_res f r = Inr b \<longleftrightarrow> (\<exists>a. r = Inr a \<and> b = f a)"
  by (cases r) auto

lemma str_truthy_simps [simp]: "\<not> str_truthy None" "str_truthy (Some s) \<longleftrightarrow> s \<noteq> []"
  by (simp_all add: str_truthy_def)

lemma str_or_simps [simp]: "str_or None d = d" "str_or (Some s) d = s"
  by (simp_all add: str_or_def)

lemma nonempty_simps [simp]: "nonempty None = None" "nonempty (Some []) = None" "v \<noteq> [] \<Longrightarrow> nonempty (Some v) = Some v"
  "nonempty (nonempty u) = nonempty u" "str_or (nonempty (Some v)) [] = v"
  by (auto simp: nonempty_def)

lemma nonempty_Some_iff: "nonempty v = Some w \<longleftrightarrow> v = Some w \<and> w \<noteq> []"
  by (cases v) (auto simp: nonempty_def)

lemma or_else_simps [simp]: "or_else None b = b" "or_else (Some v) b = Some v"
  by (simp_all add: or_else_def)

lemma opt_else_simps [simp]: "opt_else None d = d" "opt_else (Some v) d = v"
  by (simp_all add: opt_else_def)

lemma js_opt_simps [simp]: "js_opt None = JUndef" "js_opt (Some s) = JStr s"
  by (simp_all add: js_opt_def)

lemma opt_param_simps [simp]:
  "opt_param k None = []"
  "s \<noteq> [] \<Longrightarrow> opt_param k (Some s) = [(k, JStr s)]"
  "opt_param k (Some []) = []"
  by (simp_all add: opt_param_def)

text \<open>
  A falsy optional string contributes no entry, so what it contributes is decided by \<^verbatim>\<open>s ?? ''\<close>:
  this is what makes a cache key built from \<^verbatim>\<open>s ?? ''\<close> determine the request.
\<close>

lemma opt_param_str_or: "str_or s [] = str_or t [] \<Longrightarrow> opt_param k s = opt_param k t"
  by (cases s; cases t) (auto simp: opt_param_def)

lemma str_truthy_str_or: "str_or s [] = str_or t [] \<Longrightarrow> str_truthy s = str_truthy t"
  by (cases s; cases t) auto

lemma map_of_obj_spread: "map_of (obj_spread base over) = map_of base ++ map_of (rev over)"
proof (induction over arbitrary: base)
  case Nil
  then show ?case by (simp add: obj_spread_def)
next
  case (Cons kv over)
  have "obj_spread base (kv # over) = obj_spread (AList.update (fst kv) (snd kv) base) over"
    by (simp add: obj_spread_def split_beta)
  moreover have "map_of (AList.update (fst kv) (snd kv) base) = (map_of base)(fst kv \<mapsto> snd kv)"
    by (simp add: update_conv')
  ultimately show ?case using Cons.IH
    by (auto simp: fun_eq_iff map_add_def split: option.splits)
qed

lemma obj_spread_Nil [simp]: "obj_spread base [] = base"
  by (simp add: obj_spread_def)

lemma obj_spread_empty2 [simp]:
  "k \<noteq> l \<Longrightarrow> obj_spread [] [(k, v), (l, w)] = [(k, v), (l, w)]"
  by (simp add: obj_spread_def)

lemma split_on_not_Nil [simp]: "split_on c s \<noteq> []"
  by (induction s) (auto split: list.splits)

text \<open>Splitting and joining at the same character are inverse.\<close>

lemma join_split_on: "join [c] (split_on c s) = s"
proof (induction s)
  case (Cons x s)
  obtain w ws where w: "split_on c s = w # ws" by (cases "split_on c s") auto
  with Cons show ?case by (cases ws) auto
qed simp

lemma split_on_nosep: "c \<notin> set s \<Longrightarrow> split_on c s = [s]"
  by (induction s) auto

lemma split_on_append: "c \<notin> set s \<Longrightarrow> split_on c (s @ c # t) = s # split_on c t"
  by (induction s) auto

lemma split_on_join:
  "xs \<noteq> [] \<Longrightarrow> (\<And>x. x \<in> set xs \<Longrightarrow> c \<notin> set x) \<Longrightarrow> split_on c (join [c] xs) = xs"
  by (induction "[c]" xs rule: join.induct) (auto simp: split_on_nosep split_on_append)

lemma set_split_on: "w \<in> set (split_on c s) \<Longrightarrow> c \<notin> set w"
proof (induction s arbitrary: w)
  case (Cons x s)
  then show ?case by (auto split: if_splits list.splits)
qed simp

lemma join_not_Nil: "xs \<noteq> [] \<Longrightarrow> hd xs \<noteq> [] \<Longrightarrow> join sep xs \<noteq> []"
  by (induction sep xs rule: join.induct) auto

lemma show_nat_not_Nil [simp]: "show_nat n \<noteq> []"
  by (subst show_nat.simps) simp

lemma ends_with_suffix: "ends_with s suf \<longleftrightarrow> suffix suf s"
proof
  assume "ends_with s suf"
  then have "s = take (length s - length suf) s @ suf" by (metis append_take_drop_id ends_with_def)
  then show "suffix suf s" by (auto simp: suffix_def)
qed (auto simp: ends_with_def suffix_def)

lemma starts_with_prefix: "starts_with s pre \<longleftrightarrow> prefix pre s"
  by (metis append_eq_conv_conj prefix_def starts_with_def)

lemma str_includes_sublist: "str_includes s t \<longleftrightarrow> sublist t s"
  by (induction s) (auto simp: starts_with_prefix sublist_Cons_right)

text \<open>Windows of a list: consecutive pages concatenate.\<close>

lemma take_append_window: "take n xs @ take m (drop n xs) = take (n + m) xs"
  by (simp add: take_add)

lemma length_window: "length (take m (drop n xs)) = min m (length xs - n)"
  by simp

section \<open>Reachable states and inductive invariants\<close>

text \<open>
  The stateful parts of the console are transition systems: an initial state, a step relation, and
  the states reachable through it. The interface asks a component for an invariant that holds
  initially and that every step keeps; its client gets the invariant in every reachable state.
\<close>

inductive reach :: "'s \<Rightarrow> ('s \<Rightarrow> 's \<Rightarrow> bool) \<Rightarrow> 's \<Rightarrow> bool" for s0 step where
  reach_init: "reach s0 step s0"
| reach_step: "reach s0 step s \<Longrightarrow> step s t \<Longrightarrow> reach s0 step t"

locale inductive_invariant =
  fixes s0 :: 's and step :: "'s \<Rightarrow> 's \<Rightarrow> bool" and inv :: "'s \<Rightarrow> bool"
  assumes inv_init: "inv s0"
    and inv_step: "inv s \<Longrightarrow> step s t \<Longrightarrow> inv t"
begin

lemma inv_reach: "reach s0 step s \<Longrightarrow> inv s"
  by (induction rule: reach.induct) (auto intro: inv_init inv_step)

lemma reach_induct_inv:
  assumes "reach s0 step s" and "P s0"
    and "\<And>s t. inv s \<Longrightarrow> P s \<Longrightarrow> step s t \<Longrightarrow> P t"
  shows "P s"
  using assms(1) by (induction rule: reach.induct) (auto intro: assms(2,3) inv_reach)

end

end
