(* ===== verification/Rbac.thy ===== *)
theory Rbac
  imports Gs_Prelude
begin

text \<open>
  Roles and their order (\<^verbatim>\<open>frontend/src/lib/rbac.ts\<close>) and the highest role of a list of roles
  (\<^verbatim>\<open>highestRole\<close> of \<^verbatim>\<open>frontend/src/auth/authStore.ts\<close>). Roles are strings, as in the code: a token
  may carry a role this console does not know, and such a role ranks below every known one.
\<close>

definition ROLE_ORDER :: "string list" where
  "ROLE_ORDER = [''guest'', ''member'', ''group_admin'', ''org_admin'', ''super_admin'']"

text \<open>\<^verbatim>\<open>Array.prototype.indexOf\<close>: the first position, or -1.\<close>

fun index_of :: "'a list \<Rightarrow> 'a \<Rightarrow> int" where
  "index_of [] y = -1"
| "index_of (x # xs) y =
     (if x = y then 0 else (let i = index_of xs y in if i < 0 then -1 else i + 1))"

definition rank :: "string \<Rightarrow> int" where
  "rank r = index_of ROLE_ORDER r"

definition atLeast_role :: "string option \<Rightarrow> string option \<Rightarrow> bool" where
  "atLeast_role have need =
     (if \<not> str_truthy have \<or> \<not> str_truthy need then False
      else rank (the have) \<ge> rank (the need))"

fun highest_from :: "string option \<Rightarrow> int \<Rightarrow> string list \<Rightarrow> string option" where
  "highest_from best bestRank [] = best"
| "highest_from best bestRank (r # rs) =
     (if rank r > bestRank then highest_from (Some r) (rank r) rs
      else highest_from best bestRank rs)"

definition highestRole :: "string list \<Rightarrow> string option" where
  "highestRole roles = highest_from None (-1) roles"

section \<open>Ranks\<close>

lemma index_of_ge: "-1 \<le> index_of xs y"
  by (induction xs) (auto simp: Let_def)

lemma index_of_neg_iff: "index_of xs y < 0 \<longleftrightarrow> y \<notin> set xs"
proof (induction xs)
  case (Cons x xs)
  then show ?case using index_of_ge [of xs y] by (auto simp: Let_def)
qed simp

lemma index_of_nth: "0 \<le> index_of xs y \<Longrightarrow> xs ! nat (index_of xs y) = y"
proof (induction xs)
  case (Cons x xs)
  show ?case
  proof (cases "x = y \<or> index_of xs y < 0")
    case True
    with Cons.prems show ?thesis by (auto simp: Let_def split: if_splits)
  next
    case False
    then have "nat (index_of xs y + 1) = Suc (nat (index_of xs y))"
      by (auto simp: nat_add_distrib)
    with False Cons.IH show ?thesis by (simp add: Let_def)
  qed
qed simp

lemma index_of_inj:
  assumes "index_of xs a = index_of xs b" and "0 \<le> index_of xs a"
  shows "a = b"
  using assms by (metis index_of_nth)

lemma rank_ge: "-1 \<le> rank r"
  by (simp add: rank_def index_of_ge)

lemma rank_known_iff: "0 \<le> rank r \<longleftrightarrow> r \<in> set ROLE_ORDER"
  using index_of_neg_iff [of ROLE_ORDER r] by (auto simp: rank_def)

lemma rank_inj: "rank a = rank b \<Longrightarrow> 0 \<le> rank a \<Longrightarrow> a = b"
  unfolding rank_def by (rule index_of_inj)

lemma rank_simps [simp]:
  "rank ''guest'' = 0"
  "rank ''member'' = 1"
  "rank ''group_admin'' = 2"
  "rank ''org_admin'' = 3"
  "rank ''super_admin'' = 4"
  by (simp_all add: rank_def ROLE_ORDER_def)

lemma rank_le_4: "rank r \<le> 4"
  by (simp add: rank_def ROLE_ORDER_def)

section \<open>The comparison\<close>

lemma atLeast_role_iff:
  "need \<noteq> [] \<Longrightarrow>
   atLeast_role have (Some need) \<longleftrightarrow> (\<exists>h. have = Some h \<and> h \<noteq> [] \<and> rank need \<le> rank h)"
  by (cases "have") (auto simp: atLeast_role_def)

lemma atLeast_role_mono:
  assumes "atLeast_role h (Some b)" and "rank a \<le> rank b" and "a \<noteq> []"
  shows "atLeast_role h (Some a)"
  using assms by (cases h) (auto simp: atLeast_role_def split: if_splits)

lemma atLeast_role_None [simp]: "\<not> atLeast_role None need"
  by (simp add: atLeast_role_def)

section \<open>The highest role\<close>

lemma highest_from_known:
  "highest_from best b rs = Some r \<Longrightarrow> -1 \<le> b \<Longrightarrow> best = Some r \<or> (r \<in> set rs \<and> 0 \<le> rank r)"
proof (induction rs arbitrary: best b)
  case (Cons x rs)
  show ?case
  proof (cases "rank x > b")
    case True
    with Cons.prems have "highest_from (Some x) (rank x) rs = Some r" by simp
    then show ?thesis using Cons.IH [of "Some x" "rank x"] rank_ge [of x] True Cons.prems(2)
      by auto
  next
    case False
    with Cons.prems Cons.IH [of best b] show ?thesis by auto
  qed
qed simp

text \<open>The loop's invariant: the current best has the current best rank.\<close>

lemma highest_from_ge:
  assumes "\<And>r. best = Some r \<Longrightarrow> rank r = b" and "best = None \<longleftrightarrow> b = -1" and "-1 \<le> b"
  shows "case highest_from best b rs of
           None \<Rightarrow> b = -1 \<and> (\<forall>x \<in> set rs. rank x = -1)
         | Some r \<Rightarrow> b \<le> rank r \<and> (\<forall>x \<in> set rs. rank x \<le> rank r)"
  using assms
proof (induction rs arbitrary: best b)
  case Nil
  then show ?case by (cases best) auto
next
  case (Cons x rs)
  show ?case
  proof (cases "rank x > b")
    case True
    have "case highest_from (Some x) (rank x) rs of
            None \<Rightarrow> rank x = -1 \<and> (\<forall>y \<in> set rs. rank y = -1)
          | Some r \<Rightarrow> rank x \<le> rank r \<and> (\<forall>y \<in> set rs. rank y \<le> rank r)"
      using True Cons.prems by (intro Cons.IH) auto
    with True Cons.prems show ?thesis by (auto split: option.splits)
  next
    case False
    have "case highest_from best b rs of
            None \<Rightarrow> b = -1 \<and> (\<forall>y \<in> set rs. rank y = -1)
          | Some r \<Rightarrow> b \<le> rank r \<and> (\<forall>y \<in> set rs. rank y \<le> rank r)"
      using Cons.prems by (rule Cons.IH)
    with False rank_ge [of x] show ?thesis by (auto split: option.splits)
  qed
qed

lemma highestRole_Some:
  assumes "highestRole rs = Some r"
  shows "r \<in> set rs" and "0 \<le> rank r" and "\<And>x. x \<in> set rs \<Longrightarrow> rank x \<le> rank r"
proof -
  from assms have h: "highest_from None (-1) rs = Some r" by (simp add: highestRole_def)
  from highest_from_known [OF h] show "r \<in> set rs" and "0 \<le> rank r" by auto
  from highest_from_ge [of None "-1" rs] h
  show "\<And>x. x \<in> set rs \<Longrightarrow> rank x \<le> rank r" by auto
qed

lemma highestRole_None_iff: "highestRole rs = None \<longleftrightarrow> (\<forall>x \<in> set rs. x \<notin> set ROLE_ORDER)"
proof
  assume "highestRole rs = None"
  then have "\<forall>x \<in> set rs. rank x = -1"
    using highest_from_ge [of None "-1" rs] by (simp add: highestRole_def)
  then show "\<forall>x \<in> set rs. x \<notin> set ROLE_ORDER" by (force simp flip: rank_known_iff)
next
  assume unknown: "\<forall>x \<in> set rs. x \<notin> set ROLE_ORDER"
  show "highestRole rs = None"
  proof (cases "highestRole rs")
    case (Some r)
    with highestRole_Some [OF Some] unknown show ?thesis by (auto simp flip: rank_known_iff)
  qed
qed

lemma highestRole_gate:
  assumes "need \<in> set ROLE_ORDER"
  shows "atLeast_role (highestRole roles) (Some need) \<longleftrightarrow>
         (\<exists>r \<in> set roles. atLeast_role (Some r) (Some need))"
proof (cases "highestRole roles")
  case None
  then have "rank r < rank need" if "r \<in> set roles" for r
    using that assms rank_ge [of r] rank_known_iff [of r] rank_known_iff [of need]
    by (auto simp: highestRole_None_iff)
  with None show ?thesis by (force simp: atLeast_role_def)
next
  case (Some h)
  note hi = highestRole_Some [OF Some]
  have ne: "h \<noteq> []" "need \<noteq> []"
    using hi(2) assms by (auto simp: rank_known_iff ROLE_ORDER_def)
  show ?thesis
  proof
    assume "atLeast_role (highestRole roles) (Some need)"
    with Some hi(1) show "\<exists>r \<in> set roles. atLeast_role (Some r) (Some need)" by auto
  next
    assume "\<exists>r \<in> set roles. atLeast_role (Some r) (Some need)"
    then obtain r where "r \<in> set roles" and "rank need \<le> rank r"
      using ne by (auto simp: atLeast_role_iff)
    with hi(3) ne Some show "atLeast_role (highestRole roles) (Some need)"
      by (force simp: atLeast_role_iff)
  qed
qed

text \<open>The rank that gates the console is the best one: a user passes a minimum-role check with the highest of their
  roles exactly when some role they hold passes it (every role that a check names is a known one).\<close>

theorem highestRole_gates_as_any_role:
  assumes "need \<in> set ROLE_ORDER"
  shows "atLeast_role (highestRole roles) (Some need) \<longleftrightarrow>
         (\<exists>r \<in> set roles. atLeast_role (Some r) (Some need))"
  using assms by (rule highestRole_gate)

theorem highestRole_gates_as_any_role_witness:
  "atLeast_role (highestRole [''member'', ''org_admin'', ''auditor'']) (Some ''group_admin'') \<and>
   (\<exists>r \<in> set [''member'', ''org_admin'', ''auditor'']. atLeast_role (Some r) (Some ''group_admin''))"
  using highestRole_gates_as_any_role
          [of "''group_admin''" "[''member'', ''org_admin'', ''auditor'']"]
  by (simp add: ROLE_ORDER_def atLeast_role_def)

end
