(* ===== verification/Api_Errors.thy ===== *)
theory Api_Errors
  imports Gs_Prelude
begin

text \<open>
  The error envelope every failed call is turned into and its rendering
  (\<^verbatim>\<open>frontend/src/lib/errors.ts\<close>). The translation library (i18next) is the record \<open>i18n\<close> of the two
  functions the code calls; nothing is assumed of them.
\<close>

record i18n =
  i18n_exists :: "string \<Rightarrow> bool"
  i18n_t :: "string \<Rightarrow> (string \<times> js) list \<Rightarrow> string"

record api_error =
  ae_code :: js
  ae_message :: js
  ae_status :: "nat option"
  ae_details :: js
  ae_requestId :: js

definition toApiError :: "i18n \<Rightarrow> js \<Rightarrow> nat option \<Rightarrow> api_error" where
  "toApiError tr body status =
     (let e = coalesce (js_get ''error'' body) (JObj []) in
      \<lparr>ae_code = coalesce (js_get ''code'' e) (JStr ''internal_error''),
       ae_message = coalesce (js_get ''message'' e) (JStr (i18n_t tr ''error.unknown'' [])),
       ae_status = status,
       ae_details = js_get ''details'' e,
       ae_requestId = js_get ''request_id'' e\<rparr>)"

text \<open>The first element of an array-typed value, undefined when there is none (\<^verbatim>\<open>v?.[0]\<close>).\<close>

definition first_elem :: "js \<Rightarrow> js" where
  "first_elem v = (case js_elems v of [] \<Rightarrow> JUndef | x # _ \<Rightarrow> x)"

definition quota_detail :: "i18n \<Rightarrow> string \<Rightarrow> api_error \<Rightarrow> string option" where
  "quota_detail tr base err =
     (let d = ae_details err in
      if ae_code err = JStr ''quota_exceeded'' \<and> truthy d \<and>
         \<not> nullish (js_get ''resource'' d) \<and> \<not> nullish (js_get ''limit'' d)
      then Some (i18n_t tr ''error.quota_exceeded_detail''
             [(''resource'', js_get ''resource'' d),
              (''used'', coalesce (js_get ''used'' d) (JNum 0)),
              (''limit'', js_get ''limit'' d),
              (''request'', coalesce (js_get ''request'' d) (JNum 0)),
              (''defaultValue'', JStr base)])
      else None)"

definition validation_detail :: "(rat \<Rightarrow> string) \<Rightarrow> string \<Rightarrow> api_error \<Rightarrow> string option" where
  "validation_detail sf base err =
     (let f = first_elem (js_get ''errors'' (ae_details err)) in
      if ae_code err = JStr ''validation_failed'' \<and> truthy f then
        (let loc = filter (\<lambda>p. p \<noteq> JStr ''body'') (js_elems (coalesce (js_get ''loc'' f) (JArr [])));
             fld = join ''.'' (map (\<lambda>x. if nullish x then [] else js_to_string sf x) loc);
             msg = js_get ''msg'' f
         in if fld \<noteq> [] \<or> truthy msg
            then Some (base @ '' ('' @
                   join '': '' ((if fld \<noteq> [] then [fld] else []) @
                                (if truthy msg then [js_to_string sf msg] else [])) @ '')'')
            else None)
      else None)"

definition humanizeError :: "i18n \<Rightarrow> (rat \<Rightarrow> string) \<Rightarrow> api_error \<Rightarrow> string" where
  "humanizeError tr sf err =
     (let key = ''error.'' @ js_to_string sf (ae_code err);
          base = (if i18n_exists tr key then i18n_t tr key [] else js_to_string sf (ae_message err))
      in case quota_detail tr base err of
           Some s \<Rightarrow> s
         | None \<Rightarrow> (case validation_detail sf base err of Some s \<Rightarrow> s | None \<Rightarrow> base))"

section \<open>The envelope is always complete\<close>

lemma toApiError_code_present: "\<not> nullish (ae_code (toApiError tr body st))"
  by (simp add: toApiError_def Let_def)

lemma toApiError_message_present: "\<not> nullish (ae_message (toApiError tr body st))"
  by (simp add: toApiError_def Let_def)

lemma toApiError_status [simp]: "ae_status (toApiError tr body st) = st"
  by (simp add: toApiError_def Let_def)

lemma toApiError_no_envelope:
  assumes "nullish (js_get ''error'' body)"
  shows "ae_code (toApiError tr body st) = JStr ''internal_error''"
    and "ae_message (toApiError tr body st) = JStr (i18n_t tr ''error.unknown'' [])"
  using assms by (simp_all add: toApiError_def coalesce_def)

text \<open>Whatever the server answers (no body, a non-JSON body, an envelope with missing fields), the error a caller
  catches carries a code, a message and the status of the response; a body without an envelope becomes
  \<^verbatim>\<open>internal_error\<close> with the generic message, and a code and message the server did send are kept.\<close>

theorem toApiError_total:
  "\<not> nullish (ae_code (toApiError tr body st)) \<and> \<not> nullish (ae_message (toApiError tr body st)) \<and>
   ae_status (toApiError tr body st) = st \<and>
   (nullish (js_get ''error'' body) \<longrightarrow>
      ae_code (toApiError tr body st) = JStr ''internal_error'') \<and>
   (\<not> nullish (js_get ''code'' (js_get ''error'' body)) \<longrightarrow>
      ae_code (toApiError tr body st) = js_get ''code'' (js_get ''error'' body)) \<and>
   (\<not> nullish (js_get ''message'' (js_get ''error'' body)) \<longrightarrow>
      ae_message (toApiError tr body st) = js_get ''message'' (js_get ''error'' body))"
proof -
  have "js_get k (js_get ''error'' body) = js_get k (coalesce (js_get ''error'' body) (JObj []))" for k
    by (cases "js_get ''error'' body") auto
  then show ?thesis
    using toApiError_code_present toApiError_message_present toApiError_no_envelope(1)
    by (auto simp: toApiError_def Let_def coalesce_def)
qed

theorem toApiError_total_witness:
  "\<not> nullish (ae_code (toApiError \<lparr>i18n_exists = (\<lambda>_. False), i18n_t = (\<lambda>k _. k)\<rparr> JUndef (Some 502)))"
  using toApiError_total [of "\<lparr>i18n_exists = (\<lambda>_. False), i18n_t = (\<lambda>k _. k)\<rparr>" JUndef "Some 502"]
  by blast

section \<open>Rendering\<close>

lemma humanize_plain:
  assumes "ae_code err \<noteq> JStr ''quota_exceeded''" and "ae_code err \<noteq> JStr ''validation_failed''"
  shows "humanizeError tr sf err =
     (if i18n_exists tr (''error.'' @ js_to_string sf (ae_code err))
      then i18n_t tr (''error.'' @ js_to_string sf (ae_code err)) []
      else js_to_string sf (ae_message err))"
  using assms by (simp add: humanizeError_def quota_detail_def validation_detail_def Let_def)

lemma validation_detail_base:
  "validation_detail sf base err = Some s \<Longrightarrow> \<exists>d. s = base @ '' ('' @ d @ '')''"
  by (auto simp: validation_detail_def Let_def split: if_splits)

text \<open>A validation error names the offending field: when the first pydantic error has the location
  \<^verbatim>\<open>["body", f1, ..., fn]\<close> and the message \<open>m\<close>, the text is the translated base followed by \<^verbatim>\<open>(f1. ... .fn: m)\<close>.\<close>

theorem humanizeError_names_the_field:
  assumes "ae_code err = JStr ''validation_failed''"
    and "js_get ''errors'' (ae_details err) =
         JArr (JObj [(''loc'', JArr (JStr ''body'' # map JStr fs)), (''msg'', JStr m)] # rest)"
    and "fs \<noteq> []" and "''body'' \<notin> set fs" and "[] \<notin> set fs" and "m \<noteq> []"
  shows "humanizeError tr sf err =
     (if i18n_exists tr ''error.validation_failed'' then i18n_t tr ''error.validation_failed'' []
      else js_to_string sf (ae_message err)) @ '' ('' @ join ''.'' fs @ '': '' @ m @ '')''"
proof -
  have loc: "filter (\<lambda>p. p \<noteq> JStr ''body'') (map JStr fs) = map JStr fs"
    using assms(4) by (auto simp: filter_id_conv)
  have str: "map (\<lambda>x. if nullish x then [] else js_to_string sf x) (map JStr fs) = fs"
    by (simp add: comp_def)
  have ne: "join ''.'' fs \<noteq> []"
    using assms(3,5) join_not_Nil [of fs "''.''"] by (cases fs) auto
  show ?thesis
    using assms(1,2,6) ne
    by (simp add: humanizeError_def quota_detail_def validation_detail_def first_elem_def Let_def
        loc str del: map_map)
qed

theorem humanizeError_names_the_field_witness:
  "humanizeError \<lparr>i18n_exists = (\<lambda>_. True), i18n_t = (\<lambda>k _. ''Invalid'')\<rparr> (\<lambda>_. [])
     \<lparr>ae_code = JStr ''validation_failed'', ae_message = JStr ''x'', ae_status = Some 422,
      ae_details = JObj [(''errors'', JArr [JObj [(''loc'', JArr [JStr ''body'', JStr ''limits'', JStr ''cpu'']),
                                                  (''msg'', JStr ''must be positive'')]])],
      ae_requestId = JUndef\<rparr>
   = ''Invalid (limits.cpu: must be positive)''"
  by (subst humanizeError_names_the_field [where fs = "[''limits'', ''cpu'']" and m = "''must be positive''" and rest = "[]"])
    simp_all

end
