(* ===== verification/Base64.thy ===== *)
theory Base64
  imports Gs_Prelude
begin

text \<open>
  Base64 as the runtime's \<^verbatim>\<open>atob\<close> and \<^verbatim>\<open>btoa\<close> compute it, used to read a token's payload
  (\<^verbatim>\<open>frontend/src/lib/jwt.ts\<close>) and to wrap a kubeconfig (\<^verbatim>\<open>toB64\<close> of \<^verbatim>\<open>api/hooks/useClusters.ts\<close>), with the
  round trips both rely on. Strings are byte strings: a text is its UTF-8 encoding, which is what
  \<^verbatim>\<open>unescape(encodeURIComponent(s))\<close> produces.
\<close>

section \<open>Decoding\<close>

text \<open>Base64 (\<^verbatim>\<open>atob\<close>): the value of a character, and groups of four characters to three bytes.\<close>

definition b64_value :: "char \<Rightarrow> nat option" where
  "b64_value c =
     (let n = of_char c :: nat in
      if 65 \<le> n \<and> n \<le> 90 then Some (n - 65)
      else if 97 \<le> n \<and> n \<le> 122 then Some (n - 71)
      else if 48 \<le> n \<and> n \<le> 57 then Some (n + 4)
      else if n = 43 then Some 62
      else if n = 47 then Some 63
      else None)"

fun b64_bytes :: "nat list \<Rightarrow> char list option" where
  "b64_bytes [] = Some []"
| "b64_bytes [a] = None"
| "b64_bytes [a, b] = Some [char_of (4 * a + b div 16)]"
| "b64_bytes [a, b, c] = Some [char_of (4 * a + b div 16), char_of ((b mod 16) * 16 + c div 4)]"
| "b64_bytes (a # b # c # d # rest) =
     map_option (\<lambda>bs. char_of (4 * a + b div 16) # char_of ((b mod 16) * 16 + c div 4) #
                      char_of ((c mod 4) * 64 + d) # bs) (b64_bytes rest)"

text \<open>
  \<^verbatim>\<open>atob\<close> first removes ASCII whitespace; when the rest has a length divisible by four, one or two
  trailing \<^verbatim>\<open>=\<close> are dropped. A character outside the alphabet, or a length of one modulo four, throws.
\<close>

definition is_ws :: "char \<Rightarrow> bool" where
  "is_ws c \<longleftrightarrow> c \<in> {CHR 0x09, CHR 0x0A, CHR 0x0C, CHR 0x0D, CHR 0x20}"

definition strip_padding :: "string \<Rightarrow> string" where
  "strip_padding s =
     (if length s mod 4 = 0 then
        (if take 2 (rev s) = ''=='' then take (length s - 2) s
         else if take 1 (rev s) = ''='' then take (length s - 1) s
         else s)
      else s)"

definition atob :: "string \<Rightarrow> string option" where
  "atob s =
     (let t = strip_padding (filter (\<lambda>c. \<not> is_ws c) s);
          vs = map b64_value t
      in if None \<in> set vs then None else b64_bytes (map the vs))"

section \<open>Encoding\<close>

text \<open>Three bytes to four sextets; one or two bytes left over give two or three sextets.\<close>

fun b64_sextets :: "nat list \<Rightarrow> nat list" where
  "b64_sextets [] = []"
| "b64_sextets [x] = [x div 4, (x mod 4) * 16]"
| "b64_sextets [x, y] = [x div 4, (x mod 4) * 16 + y div 16, (y mod 16) * 4]"
| "b64_sextets (x # y # z # rest) =
     [x div 4, (x mod 4) * 16 + y div 16, (y mod 16) * 4 + z div 64, z mod 64] @ b64_sextets rest"


definition b64_char :: "nat \<Rightarrow> char" where
  "b64_char n =
     (if n < 26 then char_of (n + 65) else if n < 52 then char_of (n + 71)
      else if n < 62 then char_of (n - 4) else if n = 62 then CHR ''+'' else CHR ''/'')"


definition b64_code :: "string \<Rightarrow> string" where
  "b64_code s = map b64_char (b64_sextets (map of_char s))"

text \<open>\<^verbatim>\<open>btoa\<close> pads the code to a multiple of four; \<open>toB64\<close> is \<^verbatim>\<open>btoa\<close> of the UTF-8 bytes.\<close>

definition btoa :: "string \<Rightarrow> string" where
  "btoa s = b64_code s @ replicate ((3 - length s mod 3) mod 3) (CHR ''='')"

definition toB64 :: "string \<Rightarrow> string" where
  "toB64 s = btoa s"

section \<open>Sextets and bytes\<close>

lemma glue_div: "c < b \<Longrightarrow> (k * b + c) div b = (k::nat)"
  by simp

lemma glue_mod: "c < b \<Longrightarrow> (k * b + c) mod b = (c::nat)"
  by simp

lemma byte1:
  assumes "y < 256"
  shows "4 * (x div 4) + ((x mod 4) * 16 + y div 16) div 16 = (x::nat)"
proof -
  from assms have "y div 16 < 16" by (simp add: less_mult_imp_div_less)
  then have "((x mod 4) * 16 + y div 16) div 16 = x mod 4" by (rule glue_div)
  then show ?thesis by simp
qed

lemma byte2:
  assumes "y < 256" and "z < 256"
  shows "(((x mod 4) * 16 + y div 16) mod 16) * 16 + ((y mod 16) * 4 + z div 64) div 4 = (y::nat)"
proof -
  from assms have "y div 16 < 16" and "z div 64 < 4" by (simp_all add: less_mult_imp_div_less)
  then have "((x mod 4) * 16 + y div 16) mod 16 = y div 16" and "((y mod 16) * 4 + z div 64) div 4 = y mod 16"
    by (simp_all only: glue_mod glue_div)
  then show ?thesis by simp
qed

lemma byte3:
  assumes "z < 256"
  shows "(((y mod 16) * 4 + z div 64) mod 4) * 64 + z mod 64 = (z::nat)"
proof -
  from assms have "z div 64 < 4" by (simp add: less_mult_imp_div_less)
  then have "((y mod 16) * 4 + z div 64) mod 4 = z div 64" by (rule glue_mod)
  then show ?thesis by simp
qed

lemma b64_bytes_sextets:
  "\<forall>x \<in> set xs. x < 256 \<Longrightarrow> b64_bytes (b64_sextets xs) = Some (map char_of xs)"
proof (induction xs rule: b64_sextets.induct)
  case (2 x)
  then show ?case using byte1 [of 0 x] by simp
next
  case (3 x y)
  then show ?case using byte1 [of y x] byte2 [of y 0 x] by simp
next
  case (4 x y z rest)
  then have "x < 256" "y < 256" "z < 256" by simp_all
  then have "b64_bytes (b64_sextets (x # y # z # rest)) =
      map_option (\<lambda>bs. char_of x # char_of y # char_of z # bs) (b64_bytes (b64_sextets rest))"
    by (simp only: b64_sextets.simps append.simps b64_bytes.simps byte1 byte2 byte3)
  with 4 show ?case by simp
qed simp

lemma b64_sextets_bound: "\<forall>x \<in> set xs. x < 256 \<Longrightarrow> \<forall>v \<in> set (b64_sextets xs). v < 64"
  by (induction xs rule: b64_sextets.induct) auto

lemma b64_value_char: "n < 64 \<Longrightarrow> b64_value (b64_char n) = Some n"
  by (auto simp: b64_char_def b64_value_def Let_def)

lemma b64_char_not_special: "n < 64 \<Longrightarrow> b64_char n \<noteq> CHR ''='' \<and> \<not> is_ws (b64_char n)"
  using b64_value_char [of n] by (auto simp: is_ws_def b64_value_def Let_def)

lemma bytes_bound: "\<forall>x \<in> set (map of_char s). x < (256::nat)"
  by auto

lemma b64_code_clean: "c \<in> set (b64_code s) \<Longrightarrow> c \<noteq> CHR ''='' \<and> \<not> is_ws c"
  using b64_sextets_bound [OF bytes_bound, of s] b64_char_not_special by (auto simp: b64_code_def)

lemma length_b64_sextets:
  "length (b64_sextets xs) mod 4 = (if length xs mod 3 = 0 then 0 else Suc (length xs mod 3))"
proof (induction xs rule: b64_sextets.induct)
  case (4 x y z rest)
  have "length (x # y # z # rest) mod 3 = length rest mod 3" by simp
  moreover have "length (b64_sextets (x # y # z # rest)) mod 4 = length (b64_sextets rest) mod 4"
    by simp
  ultimately show ?case using 4 by simp
qed simp_all

section \<open>Round trips\<close>

lemma filter_ws_clean: "(\<And>c. c \<in> set s \<Longrightarrow> \<not> is_ws c) \<Longrightarrow> filter (\<lambda>c. \<not> is_ws c) s = s"
  by (auto simp: filter_id_conv)

lemma strip_padding_clean: "CHR ''='' \<notin> set s \<Longrightarrow> strip_padding s = s"
  by (cases s rule: rev_cases) (auto simp: strip_padding_def)

text \<open>What \<open>atob\<close> does once the padding is gone.\<close>

lemma atob_core:
  assumes "strip_padding (filter (\<lambda>c. \<not> is_ws c) t) = b64_code s"
  shows "atob t = Some s"
proof -
  have vs: "map b64_value (b64_code s) = map Some (b64_sextets (map of_char s))"
    using b64_sextets_bound [OF bytes_bound] by (simp add: b64_code_def b64_value_char)
  have "b64_bytes (b64_sextets (map of_char s)) = Some s"
    using b64_bytes_sextets [OF bytes_bound, of s] by (simp add: comp_def)
  then show ?thesis unfolding atob_def Let_def assms vs by (auto simp: comp_def)
qed

lemma atob_b64_code: "atob (b64_code s) = Some s"
proof (rule atob_core)
  have "CHR ''='' \<notin> set (b64_code s)" using b64_code_clean by blast
  then show "strip_padding (filter (\<lambda>c. \<not> is_ws c) (b64_code s)) = b64_code s"
    using b64_code_clean [of _ s] by (simp add: filter_ws_clean strip_padding_clean)
qed

lemma atob_btoa: "atob (btoa s) = Some s"
proof (rule atob_core)
  have clean: "CHR ''='' \<notin> set (b64_code s)" using b64_code_clean by blast
  have flt: "filter (\<lambda>c. \<not> is_ws c) (btoa s) = btoa s"
    using b64_code_clean [of _ s] by (intro filter_ws_clean) (auto simp: btoa_def is_ws_def)
  have len: "length (b64_code s) mod 4 = (if length s mod 3 = 0 then 0 else Suc (length s mod 3))"
    using length_b64_sextets [of "map of_char s"] by (simp add: b64_code_def)
  consider "length s mod 3 = 0" | "length s mod 3 = 1" | "length s mod 3 = 2" by fastforce
  then have "strip_padding (btoa s) = b64_code s"
  proof cases
    case 1
    then show ?thesis using clean by (simp add: btoa_def strip_padding_clean)
  next
    case 2
    then have "(length (b64_code s) + 2) mod 4 = 0" using len by presburger
    with 2 show ?thesis by (simp add: btoa_def strip_padding_def numeral_2_eq_2)
  next
    case 3
    then have "(length (b64_code s) + 1) mod 4 = 0" using len by presburger
    with 3 clean show ?thesis
      by (cases "b64_code s" rule: rev_cases) (auto simp: btoa_def strip_padding_def numeral_2_eq_2)
  qed
  with flt show "strip_padding (filter (\<lambda>c. \<not> is_ws c) (btoa s)) = b64_code s" by simp
qed

text \<open>Registering a cluster loses nothing of its kubeconfig: decoding the base64 the console sends gives back exactly
  the bytes of the text the administrator pasted.\<close>

theorem toB64_roundtrip: "atob (toB64 kubeconfig) = Some kubeconfig"
  by (simp add: toB64_def atob_btoa)

end
