(* ===== verification/Auth_Store.thy ===== *)
theory Auth_Store
  imports Rbac Api_Errors Base64
begin

text \<open>
  The authentication store (\<^verbatim>\<open>frontend/src/auth/authStore.ts\<close>), the token decoding it uses
  (\<^verbatim>\<open>lib/jwt.ts\<close>), the two authentication calls (\<^verbatim>\<open>auth/authApi.ts\<close>), the guards that read the store
  (\<^verbatim>\<open>auth/RequireAuth.tsx\<close>, \<^verbatim>\<open>auth/RequireRole.tsx\<close>), and the store as a state machine over user
  actions, API answers and page reloads. Every operation that the code lets touch the query cache
  returns the cache commands it issues.
\<close>

section \<open>Cache commands\<close>

text \<open>What the console asks of its query client: invalidate a key prefix, set one entry, drop everything.\<close>

datatype cache_cmd = InvalidateQueries "js list" | SetQueryData "js list" js | ClearCache

section \<open>Token claims\<close>

record JwtClaims =
  jc_sub :: "string option"
  jc_email :: "string option"
  jc_global_role :: "string option"
  jc_group_id :: "string option"
  jc_must_change_password :: bool
  jc_exp :: "rat option"

definition no_claims :: JwtClaims where
  "no_claims = \<lparr>jc_sub = None, jc_email = None, jc_global_role = None, jc_group_id = None,
                jc_must_change_password = False, jc_exp = None\<rparr>"

text \<open>A claims object read at its declared types (\<^verbatim>\<open>JSON.parse(json) as JwtClaims\<close>).\<close>

fun js_str :: "js \<Rightarrow> string option" where
  "js_str (JStr s) = Some s"
| "js_str _ = None"

fun js_num :: "js \<Rightarrow> rat option" where
  "js_num (JNum n) = Some n"
| "js_num _ = None"

definition claims_of :: "js \<Rightarrow> JwtClaims" where
  "claims_of j =
     \<lparr>jc_sub = js_str (js_get ''sub'' j), jc_email = js_str (js_get ''email'' j),
      jc_global_role = js_str (js_get ''global_role'' j), jc_group_id = js_str (js_get ''group_id'' j),
      jc_must_change_password = truthy (js_get ''must_change_password'' j),
      jc_exp = js_num (js_get ''exp'' j)\<rparr>"

text \<open>
  \<^verbatim>\<open>parseJwt\<close>: the second dot-separated part, URL-safe characters mapped back, decoded and parsed; any
  exception on the way yields the empty claims. \<open>json_parse\<close> is the runtime's \<^verbatim>\<open>JSON.parse\<close>, \<open>None\<close> where
  it throws.
\<close>

definition parseJwt :: "(string \<Rightarrow> js option) \<Rightarrow> string \<Rightarrow> JwtClaims" where
  "parseJwt json_parse token =
     (case split_on (CHR ''.'') token of
        _ # payload # _ \<Rightarrow>
          (case atob (map (\<lambda>c. if c = CHR ''-'' then CHR ''+'' else if c = CHR ''_'' then CHR ''/'' else c) payload) of
             None \<Rightarrow> no_claims
           | Some json \<Rightarrow> (case json_parse json of None \<Rightarrow> no_claims | Some j \<Rightarrow> claims_of j))
      | _ \<Rightarrow> no_claims)"

section \<open>The store\<close>

record Membership =
  mb_group_id :: string
  mb_project_name :: string
  mb_org_id :: "string option"
  mb_org_name :: "string option"
  mb_role :: string
  mb_has_group_admin :: "bool option"

record AuthState =
  accessToken :: "string option"
  claims :: JwtClaims
  memberships :: "Membership list"
  displayName :: "string option"
  orgAdminOrgs :: "string list"
  activeProjectId :: "string option"
  membershipRole :: "string option"
  isAuthed :: bool
  meLoaded :: bool

definition initial_auth :: AuthState where
  "initial_auth =
     \<lparr>accessToken = None, claims = no_claims, memberships = [], displayName = None, orgAdminOrgs = [],
      activeProjectId = None, membershipRole = None, isAuthed = False, meLoaded = False\<rparr>"

text \<open>The store's operations. \<open>parse\<close> is \<open>parseJwt\<close> of the runtime.\<close>

definition applyTokens :: "(string \<Rightarrow> JwtClaims) \<Rightarrow> string \<Rightarrow> AuthState \<Rightarrow> AuthState" where
  "applyTokens parse access s =
     s\<lparr>accessToken := Some access, claims := parse access, isAuthed := True\<rparr>"

text \<open>
  \<^verbatim>\<open>loginPassword\<close> once the call has answered: a failure is rethrown and nothing changes; a token clears
  the cache, drops the previous account's context and is applied.
\<close>

definition loginPassword ::
  "(string \<Rightarrow> JwtClaims) \<Rightarrow> api_error + string \<Rightarrow> AuthState \<Rightarrow> AuthState \<times> cache_cmd list \<times> api_error option" where
  "loginPassword parse answer s =
     (case answer of
        Inl e \<Rightarrow> (s, [], Some e)
      | Inr access_token \<Rightarrow>
          (applyTokens parse access_token
             (s\<lparr>memberships := [], orgAdminOrgs := [], activeProjectId := None,
                membershipRole := None, meLoaded := False, displayName := None\<rparr>),
           [ClearCache], None))"

text \<open>\<^verbatim>\<open>changePassword\<close>: refused without a token; otherwise a request, whose answer is applied when it arrives.\<close>

definition changePassword_start :: "AuthState \<Rightarrow> string option" where
  "changePassword_start s = (if str_truthy (accessToken s) then accessToken s else None)"

definition changePassword_done ::
  "(string \<Rightarrow> JwtClaims) \<Rightarrow> api_error + string \<Rightarrow> AuthState \<Rightarrow> AuthState \<times> api_error option" where
  "changePassword_done parse answer s =
     (case answer of Inl e \<Rightarrow> (s, Some e) | Inr access_token \<Rightarrow> (applyTokens parse access_token s, None))"

definition logout :: "AuthState \<Rightarrow> AuthState \<times> cache_cmd list" where
  "logout s =
     (s\<lparr>accessToken := None, claims := no_claims, memberships := [], orgAdminOrgs := [],
        isAuthed := False, activeProjectId := None, membershipRole := None, meLoaded := False,
        displayName := None\<rparr>,
      [ClearCache])"

definition setActiveProject :: "string \<Rightarrow> AuthState \<Rightarrow> AuthState" where
  "setActiveProject pid s = s\<lparr>activeProjectId := Some pid\<rparr>"

definition held_roles :: "Membership list \<Rightarrow> string list \<Rightarrow> string list" where
  "held_roles ms orgs = map mb_role ms @ (if orgs \<noteq> [] then [''org_admin''] else [])"

definition setMeContext :: "Membership list \<Rightarrow> string list \<Rightarrow> string option \<Rightarrow> AuthState \<Rightarrow> AuthState" where
  "setMeContext ms orgs name s =
     s\<lparr>memberships := ms, orgAdminOrgs := orgs, membershipRole := highestRole (held_roles ms orgs),
       meLoaded := True, displayName := name\<rparr>"

definition setMeLoaded :: "AuthState \<Rightarrow> AuthState" where
  "setMeLoaded s = s\<lparr>meLoaded := True\<rparr>"

text \<open>A page load: the persisted fields (\<^verbatim>\<open>partialize\<close>) are merged over the initial state.\<close>

definition rehydrate :: "AuthState \<Rightarrow> AuthState" where
  "rehydrate s =
     initial_auth\<lparr>accessToken := accessToken s, claims := claims s, isAuthed := isAuthed s,
       memberships := memberships s, orgAdminOrgs := orgAdminOrgs s, membershipRole := membershipRole s,
       activeProjectId := activeProjectId s, displayName := displayName s\<rparr>"

section \<open>Authentication calls and guards\<close>

text \<open>The two requests of \<^verbatim>\<open>authApi.ts\<close>, which go to \<^verbatim>\<open>fetch\<close> directly and not through the API client.\<close>

definition passwordLogin_request :: "string \<Rightarrow> string \<Rightarrow> request" where
  "passwordLogin_request email password =
     http_send POST ''/auth/login'' [] (Some (JObj [(''email'', JStr email), (''password'', JStr password)]))
       [(''Content-Type'', ''application/json'')]"

definition changePassword_request :: "string \<Rightarrow> string \<Rightarrow> string option \<Rightarrow> request" where
  "changePassword_request token newPw currentPw =
     http_send POST ''/auth/change-password'' []
       (Some (JObj [(''new_password'', JStr newPw), (''current_password'', js_opt currentPw)]))
       [(''Content-Type'', ''application/json''), (''Authorization'', ''Bearer '' @ token)]"

text \<open>The answer of either call: a non-2xx status throws the envelope, built from \<open>{}\<close> when the body is not JSON.\<close>

definition token_answer :: "i18n \<Rightarrow> nat \<Rightarrow> js option \<Rightarrow> string \<Rightarrow> api_error + string" where
  "token_answer tr status body access_token =
     (if 200 \<le> status \<and> status \<le> 299 then Inr access_token
      else Inl (toApiError tr (case body of None \<Rightarrow> JObj [] | Some b \<Rightarrow> b) (Some status)))"

text \<open>\<^verbatim>\<open>useLoadMembershipContext\<close> when \<^verbatim>\<open>/auth/me\<close> answers: \<open>None\<close> is an answer without data or a failure.\<close>

definition me_answer :: "(Membership list \<times> string list \<times> string option) option \<Rightarrow> AuthState \<Rightarrow> AuthState" where
  "me_answer data s =
     (case data of
        None \<Rightarrow> setMeLoaded s
      | Some (ms, orgs, name) \<Rightarrow>
          (let s1 = setMeContext ms orgs name s; cur = activeProjectId s1 in
           if (\<not> str_truthy cur \<or> the cur \<notin> mb_group_id ` set ms) \<and> ms \<noteq> []
           then setActiveProject (mb_group_id (hd ms)) s1 else s1))"

datatype auth_outcome = ToLogin string | ToChangePassword | Shell

definition RequireAuth :: "string \<Rightarrow> AuthState \<Rightarrow> auth_outcome" where
  "RequireAuth path s =
     (if \<not> isAuthed s then ToLogin path
      else if jc_must_change_password (claims s) then ToChangePassword
      else Shell)"

datatype role_outcome = Admit | Loading | Forbidden

definition effective_role :: "string option \<Rightarrow> string option \<Rightarrow> string option" where
  "effective_role globalRole memRole = (case globalRole of None \<Rightarrow> memRole | Some g \<Rightarrow> Some g)"

definition RequireRole :: "string option \<Rightarrow> string option \<Rightarrow> AuthState \<Rightarrow> role_outcome" where
  "RequireRole role mn s =
     (let g = jc_global_role (claims s); eff = effective_role g (membershipRole s) in
      if g = Some ''super_admin'' then Admit
      else if \<not> meLoaded s \<and> \<not> str_truthy g then Loading
      else if (if str_truthy role then eff = role else if str_truthy mn then atLeast_role eff mn else True)
           then Admit else Forbidden)"

section \<open>The store as a state machine\<close>

text \<open>
  The store with the calls in flight: password changes that have been sent and not answered
  (\<open>pwPending\<close>), and an \<^verbatim>\<open>/auth/me\<close> request whose effect has not been cleaned up (\<open>mePending\<close>). The effect
  that loads the memberships depends on \<^verbatim>\<open>isAuthed\<close>, so signing out, signing in (the sign-in page does
  not mount it) and a page load cancel it. A password change is not cancelled by anything but a page
  load.
\<close>

record console =
  auth :: AuthState
  pwPending :: nat
  mePending :: bool

definition console_init :: console where
  "console_init = \<lparr>auth = initial_auth, pwPending = 0, mePending = False\<rparr>"

inductive auth_step :: "(string \<Rightarrow> JwtClaims) \<Rightarrow> console \<Rightarrow> console \<Rightarrow> bool" for parse where
  step_login: "loginPassword parse answer (auth c) = (s', cmds, err) \<Longrightarrow>
     auth_step parse c (c\<lparr>auth := s', mePending := mePending c \<and> err \<noteq> None\<rparr>)"
| step_pw_start: "changePassword_start (auth c) \<noteq> None \<Longrightarrow>
     auth_step parse c (c\<lparr>pwPending := Suc (pwPending c)\<rparr>)"
| step_pw_done: "0 < pwPending c \<Longrightarrow> changePassword_done parse answer (auth c) = (s', err) \<Longrightarrow>
     auth_step parse c (c\<lparr>auth := s', pwPending := pwPending c - 1\<rparr>)"
| step_logout: "auth_step parse c (c\<lparr>auth := fst (logout (auth c)), mePending := False\<rparr>)"
| step_me_start: "isAuthed (auth c) \<Longrightarrow> auth_step parse c (c\<lparr>mePending := True\<rparr>)"
| step_me_done: "mePending c \<Longrightarrow>
     auth_step parse c (c\<lparr>auth := me_answer answer' (auth c), mePending := False\<rparr>)"
| step_reload: "auth_step parse c \<lparr>auth = rehydrate (auth c), pwPending = 0, mePending = False\<rparr>"

text \<open>
  What holds in every reachable state: the flag and the token agree, the claims are those of the
  token, the gating role is the best of the roles held, and a signed-out store holds nothing of an
  account.
\<close>

definition auth_inv :: "(string \<Rightarrow> JwtClaims) \<Rightarrow> AuthState \<Rightarrow> bool" where
  "auth_inv parse s \<longleftrightarrow>
     (isAuthed s \<longleftrightarrow> accessToken s \<noteq> None) \<and>
     claims s = (case accessToken s of None \<Rightarrow> no_claims | Some t \<Rightarrow> parse t) \<and>
     membershipRole s = highestRole (held_roles (memberships s) (orgAdminOrgs s)) \<and>
     (\<not> isAuthed s \<longrightarrow> s = initial_auth)"

definition console_inv :: "(string \<Rightarrow> JwtClaims) \<Rightarrow> console \<Rightarrow> bool" where
  "console_inv parse c \<longleftrightarrow> auth_inv parse (auth c) \<and> (mePending c \<longrightarrow> isAuthed (auth c))"

section \<open>Every operation keeps the invariant\<close>

lemma highestRole_Nil [simp]: "highestRole [] = None"
  by (simp add: highestRole_def)

lemma held_roles_Nil [simp]: "held_roles [] [] = []"
  by (simp add: held_roles_def)

lemma initial_auth_simps [simp]:
  "accessToken initial_auth = None" "claims initial_auth = no_claims" "memberships initial_auth = []"
  "displayName initial_auth = None" "orgAdminOrgs initial_auth = []" "activeProjectId initial_auth = None"
  "membershipRole initial_auth = None" "\<not> isAuthed initial_auth" "\<not> meLoaded initial_auth"
  by (simp_all add: initial_auth_def)

lemma auth_inv_initial: "auth_inv parse initial_auth"
  by (simp add: auth_inv_def)

lemma logout_initial: "fst (logout s) = initial_auth"
  by (cases s) (simp add: logout_def initial_auth_def)

lemma auth_inv_login:
  "auth_inv parse s \<Longrightarrow> auth_inv parse (fst (loginPassword parse answer s))"
  by (cases answer) (simp_all add: loginPassword_def auth_inv_def applyTokens_def)

lemma auth_inv_pw:
  "auth_inv parse s \<Longrightarrow> auth_inv parse (fst (changePassword_done parse answer s))"
  by (cases answer) (auto simp: changePassword_done_def auth_inv_def applyTokens_def)

lemma me_answer_frame:
  "accessToken (me_answer d s) = accessToken s" "claims (me_answer d s) = claims s"
  "isAuthed (me_answer d s) = isAuthed s"
  by (auto simp: me_answer_def setMeLoaded_def setMeContext_def setActiveProject_def Let_def
      split: option.splits)

lemma me_answer_role:
  assumes "membershipRole s = highestRole (held_roles (memberships s) (orgAdminOrgs s))"
  shows "membershipRole (me_answer d s) =
         highestRole (held_roles (memberships (me_answer d s)) (orgAdminOrgs (me_answer d s)))"
  using assms
  by (auto simp: me_answer_def setMeLoaded_def setMeContext_def setActiveProject_def Let_def
      split: option.splits)

lemma auth_inv_me: "auth_inv parse s \<Longrightarrow> isAuthed s \<Longrightarrow> auth_inv parse (me_answer d s)"
  by (simp add: auth_inv_def me_answer_frame me_answer_role)

lemma auth_inv_rehydrate: "auth_inv parse s \<Longrightarrow> auth_inv parse (rehydrate s)"
  by (auto simp: auth_inv_def rehydrate_def)

lemma login_error_unchanged: "loginPassword parse answer s = (s', cmds, Some e) \<Longrightarrow> s' = s"
  by (auto simp: loginPassword_def split: sum.splits)

lemma changePassword_done_authed: "isAuthed s \<Longrightarrow> isAuthed (fst (changePassword_done parse answer s))"
  by (auto simp: changePassword_done_def applyTokens_def split: sum.splits)

lemma console_inv_step:
  assumes c: "console_inv parse c" and step: "auth_step parse c c'"
  shows "console_inv parse c'"
  using step
proof cases
  case (step_login answer s' cmds err)
  have "auth_inv parse s'"
    using auth_inv_login [of parse "auth c" answer] c step_login(2) by (simp add: console_inv_def)
  moreover have "err \<noteq> None \<longrightarrow> s' = auth c"
    using step_login(2) by (auto dest: login_error_unchanged)
  ultimately show ?thesis using c by (auto simp: step_login(1) console_inv_def)
next
  case (step_pw_done answer s' err)
  then show ?thesis
    using auth_inv_pw [of parse "auth c" answer] changePassword_done_authed [of "auth c" parse answer] c
    by (simp add: console_inv_def)
qed (use c in \<open>auto simp: console_inv_def logout_initial auth_inv_initial auth_inv_me auth_inv_rehydrate\<close>)

interpretation auth_machine: inductive_invariant console_init "auth_step parse" "console_inv parse" for parse
proof unfold_locales
  show "console_inv parse console_init"
    by (simp add: console_init_def console_inv_def auth_inv_initial)
qed (rule console_inv_step)

text \<open>C1: In every state the console can reach, by any interleaving of sign-ins, password changes, sign-outs, answers of
  \<^verbatim>\<open>/auth/me\<close> and page reloads: it is signed in exactly when it holds a token, its claims are the token's, the role
  that gates the screens is the highest of the membership roles (plus org_admin for an organization administrator),
  and a signed-out console holds nothing of any account.\<close>

theorem reachable_auth_inv:
  assumes "reach console_init (auth_step parse) c"
  shows "auth_inv parse (auth c)"
  using auth_machine.inv_reach [OF assms] by (simp add: console_inv_def)

theorem reachable_auth_inv_witness:
  "auth_inv (\<lambda>_. no_claims) (fst (loginPassword (\<lambda>_. no_claims) (Inr ''t'') initial_auth))"
proof -
  let ?parse = "\<lambda>_::string. no_claims"
  have "auth_step ?parse console_init
          (console_init\<lparr>auth := fst (loginPassword ?parse (Inr ''t'') initial_auth), mePending := False\<rparr>)"
    using step_login [of ?parse "Inr ''t''" console_init] by (simp add: loginPassword_def console_init_def)
  then have "reach console_init (auth_step ?parse)
          (console_init\<lparr>auth := fst (loginPassword ?parse (Inr ''t'') initial_auth), mePending := False\<rparr>)"
    by (rule reach_step [OF reach_init])
  from reachable_auth_inv [OF this] show ?thesis by simp
qed

section \<open>What a sign-in leaves of the previous account\<close>

text \<open>C32: Signing in leaves nothing of the account that used the browser before: the state afterwards depends on the new
  token alone, and the query cache is cleared.\<close>

theorem login_forgets_previous_account:
  "fst (loginPassword parse (Inr token) s) = fst (loginPassword parse (Inr token) s') \<and>
   fst (snd (loginPassword parse (Inr token) s)) = [ClearCache] \<and>
   memberships (fst (loginPassword parse (Inr token) s)) = [] \<and>
   membershipRole (fst (loginPassword parse (Inr token) s)) = None"
  by (cases s; cases s') (simp add: loginPassword_def applyTokens_def)

section \<open>Role guards\<close>

lemma RequireRole_min:
  assumes "mn \<noteq> []"
  shows "RequireRole None (Some mn) s =
    (if jc_global_role (claims s) = Some ''super_admin'' then Admit
     else if \<not> meLoaded s \<and> \<not> str_truthy (jc_global_role (claims s)) then Loading
     else if atLeast_role (effective_role (jc_global_role (claims s)) (membershipRole s)) (Some mn)
          then Admit else Forbidden)"
  using assms by (simp add: RequireRole_def Let_def)

text \<open>C3: In every reachable state of an account without a global role, a minimum-role guard waits until \<^verbatim>\<open>/auth/me\<close> has
  answered and from then on admits exactly the accounts that hold a sufficient role in some group or administer an
  organization: a legitimate administrator is never sent to 403, and nobody else gets in.\<close>

theorem RequireRole_min_exact:
  assumes "reach console_init (auth_step parse) c" and "need \<in> set ROLE_ORDER"
    and "jc_global_role (claims (auth c)) = None"
  shows "RequireRole None (Some need) (auth c) =
    (if \<not> meLoaded (auth c) then Loading
     else if \<exists>r \<in> set (held_roles (memberships (auth c)) (orgAdminOrgs (auth c))). atLeast_role (Some r) (Some need)
          then Admit else Forbidden)"
proof -
  have "need \<noteq> []" using assms(2) by (auto simp: ROLE_ORDER_def)
  moreover have "membershipRole (auth c) = highestRole (held_roles (memberships (auth c)) (orgAdminOrgs (auth c)))"
    using auth_machine.inv_reach [OF assms(1)] by (simp add: console_inv_def auth_inv_def)
  ultimately show ?thesis
    using assms(3) by (simp add: RequireRole_min effective_role_def highestRole_gate [OF assms(2)])
qed

text \<open>The console after a sign-in and the answer of \<^verbatim>\<open>/auth/me\<close>.\<close>

definition signed_in :: "(string \<Rightarrow> JwtClaims) \<Rightarrow> string \<Rightarrow> (Membership list \<times> string list \<times> string option) option \<Rightarrow> console" where
  "signed_in parse token d =
     \<lparr>auth = me_answer d (fst (loginPassword parse (Inr token) initial_auth)), pwPending = 0, mePending = False\<rparr>"

lemma reach_signed_in: "reach console_init (auth_step parse) (signed_in parse token d)"
proof -
  let ?s = "fst (loginPassword parse (Inr token) initial_auth)"
  let ?c1 = "console_init\<lparr>auth := ?s, mePending := False\<rparr>"
  have "auth_step parse console_init ?c1"
    using step_login [of parse "Inr token" console_init] by (simp add: loginPassword_def console_init_def)
  then have "reach console_init (auth_step parse) ?c1" by (rule reach_step [OF reach_init])
  moreover have "auth_step parse ?c1 (?c1\<lparr>mePending := True\<rparr>)"
    by (rule step_me_start) (simp add: loginPassword_def applyTokens_def)
  ultimately have "reach console_init (auth_step parse) (?c1\<lparr>mePending := True\<rparr>)" by (rule reach_step)
  then have "reach console_init (auth_step parse)
      ((?c1\<lparr>mePending := True\<rparr>)\<lparr>auth := me_answer d (auth (?c1\<lparr>mePending := True\<rparr>)), mePending := False\<rparr>)"
    by (rule reach_step) (rule step_me_done, simp)
  then show ?thesis by (simp add: signed_in_def console_init_def)
qed

theorem RequireRole_min_exact_witness:
  "RequireRole None (Some ''group_admin'')
     (auth (signed_in (\<lambda>_. no_claims) ''t''
        (Some ([\<lparr>mb_group_id = ''g1'', mb_project_name = ''A'', mb_org_id = None, mb_org_name = None,
                 mb_role = ''member'', mb_has_group_admin = None\<rparr>,
                \<lparr>mb_group_id = ''g2'', mb_project_name = ''B'', mb_org_id = None, mb_org_name = None,
                 mb_role = ''group_admin'', mb_has_group_admin = None\<rparr>], [], None)))) = Admit"
  by (subst RequireRole_min_exact [OF reach_signed_in])
    (simp_all add: ROLE_ORDER_def signed_in_def me_answer_def setMeContext_def setActiveProject_def
      loginPassword_def applyTokens_def no_claims_def held_roles_def atLeast_role_def Let_def)

section \<open>The active group\<close>

text \<open>After \<^verbatim>\<open>/auth/me\<close> has answered with at least one membership, the active group (the \<^verbatim>\<open>X-Project-Id\<close> every request
  carries) is one of the caller's own groups, and it is kept when it already was one.\<close>

theorem me_answer_active_group:
  assumes "ms \<noteq> []" and "\<forall>m \<in> set ms. mb_group_id m \<noteq> []"
  shows "\<exists>g. activeProjectId (me_answer (Some (ms, orgs, name)) s) = Some g \<and> g \<in> mb_group_id ` set ms \<and>
             (activeProjectId s = Some h \<and> h \<in> mb_group_id ` set ms \<longrightarrow> g = h)"
proof (cases "activeProjectId s")
  case None
  then show ?thesis using assms(1)
    by (simp add: me_answer_def setMeContext_def setActiveProject_def Let_def)
next
  case (Some p)
  then show ?thesis using assms
    by (cases "p \<in> mb_group_id ` set ms")
      (auto simp: me_answer_def setMeContext_def setActiveProject_def Let_def)
qed

theorem me_answer_active_group_witness:
  "\<exists>g. activeProjectId (me_answer (Some ([\<lparr>mb_group_id = ''g1'', mb_project_name = ''A'', mb_org_id = None,
          mb_org_name = None, mb_role = ''member'', mb_has_group_admin = None\<rparr>], [], None)) initial_auth) = Some g"
  using me_answer_active_group
    [of "[\<lparr>mb_group_id = ''g1'', mb_project_name = ''A'', mb_org_id = None, mb_org_name = None,
           mb_role = ''member'', mb_has_group_admin = None\<rparr>]" "[]" None initial_auth "[]"]
  by simp

section \<open>Reading a token\<close>

text \<open>The payload of a token: the base64 code of the claims' bytes in the URL-safe alphabet, unpadded.\<close>

definition b64url :: "string \<Rightarrow> string" where
  "b64url s = map (\<lambda>c. if c = CHR ''+'' then CHR ''-'' else if c = CHR ''/'' then CHR ''_'' else c) (b64_code s)"

lemma b64_code_value: "c \<in> set (b64_code s) \<Longrightarrow> b64_value c \<noteq> None"
  using b64_sextets_bound [OF bytes_bound, of s] by (auto simp: b64_code_def b64_value_char)

lemma b64_code_no_url_chars: "c \<in> set (b64_code s) \<Longrightarrow> c \<noteq> CHR ''-'' \<and> c \<noteq> CHR ''_'' \<and> c \<noteq> CHR ''.''"
  using b64_code_value [of c s] by (auto simp: b64_value_def)

lemma b64url_back:
  "map (\<lambda>c. if c = CHR ''-'' then CHR ''+'' else if c = CHR ''_'' then CHR ''/'' else c) (b64url s) = b64_code s"
  using b64_code_no_url_chars [of _ s] by (auto simp: b64url_def comp_def intro!: map_idI)

lemma b64url_no_dot: "CHR ''.'' \<notin> set (b64url s)"
  using b64_code_no_url_chars [of _ s] by (auto simp: b64url_def)

text \<open>The claims the console works with are the ones the server signed: for a token built the way a JWT is (header,
  payload and signature joined by dots, the payload base64url-encoded), parsing yields exactly the JSON that was
  encoded, read at the claims' types.\<close>

theorem parseJwt_reads_payload:
  assumes "CHR ''.'' \<notin> set header"
  shows "parseJwt json_parse (header @ ''.'' @ b64url json @ ''.'' @ signature) =
         (case json_parse json of None \<Rightarrow> no_claims | Some j \<Rightarrow> claims_of j)"
proof -
  have "split_on (CHR ''.'') (header @ ''.'' @ b64url json @ ''.'' @ signature) =
        header # b64url json # split_on (CHR ''.'') signature"
    using assms b64url_no_dot by (simp add: split_on_append)
  then show ?thesis by (simp add: parseJwt_def b64url_back atob_b64_code)
qed

theorem parseJwt_reads_payload_witness:
  "jc_global_role (parseJwt (\<lambda>s. Some (JObj [(''global_role'', JStr s)]))
     (''hdr'' @ ''.'' @ b64url ''super_admin'' @ ''.'' @ ''sig'')) = Some ''super_admin''"
  by (subst parseJwt_reads_payload) (simp_all add: claims_of_def)

end
