(* ===== verification/Api_Client.thy ===== *)
theory Api_Client
  imports Auth_Store
begin

text \<open>
  The API client (\<^verbatim>\<open>frontend/src/api/client.ts\<close>) and the retry rule of the query client
  (\<^verbatim>\<open>api/queryClient.ts\<close>): the two middlewares around every call, the idempotency keys, and the number
  of times a failing query is tried. The transport is the argument \<open>fetch\<close>: the response the browser
  delivers for a request, \<open>None\<close> when the call is rejected without one.
\<close>

section \<open>Middlewares\<close>

text \<open>A response as the middlewares see it: its status, and its body when that parses as JSON.\<close>

record response =
  rs_status :: nat
  rs_json :: "js option"

definition rs_ok :: "response \<Rightarrow> bool" where
  "rs_ok r = (200 \<le> rs_status r \<and> rs_status r \<le> 299)"

text \<open>\<^verbatim>\<open>Headers.set\<close>: names are compared without case, and the one entry of a name is replaced.\<close>

definition set_header :: "string \<Rightarrow> string \<Rightarrow> (string \<times> string) list \<Rightarrow> (string \<times> string) list" where
  "set_header k v hs = filter (\<lambda>(k', _). to_lower k' \<noteq> to_lower k) hs @ [(k, v)]"

definition get_header :: "string \<Rightarrow> (string \<times> string) list \<Rightarrow> string option" where
  "get_header k hs = map_of (map (\<lambda>(k', v). (to_lower k', v)) hs) (to_lower k)"

definition authMiddleware :: "AuthState \<Rightarrow> request \<Rightarrow> request" where
  "authMiddleware s rq =
     (let rq1 = (if str_truthy (accessToken s)
                 then rq\<lparr>rq_headers := set_header ''Authorization'' (''Bearer '' @ the (accessToken s)) (rq_headers rq)\<rparr>
                 else rq)
      in if str_truthy (activeProjectId s)
         then rq1\<lparr>rq_headers := set_header ''X-Project-Id'' (the (activeProjectId s)) (rq_headers rq1)\<rparr>
         else rq1)"

text \<open>
  What one response does: the new store, the cache commands, the page the browser is sent to, and the
  response passed on or the error thrown. \<^verbatim>\<open>logout('expired')\<close> is \<open>logout\<close>: the store's function takes no
  argument (\<^verbatim>\<open>authStore.ts:87\<close>), so the reason reaches nobody.
\<close>

record reaction =
  re_auth :: AuthState
  re_cache :: "cache_cmd list"
  re_goto :: "string option"
  re_result :: "api_error + response"

definition body_or_empty :: "response \<Rightarrow> js" where
  "body_or_empty r = (case rs_json r of None \<Rightarrow> JObj [] | Some b \<Rightarrow> b)"

definition errorMiddleware :: "i18n \<Rightarrow> string \<Rightarrow> AuthState \<Rightarrow> response \<Rightarrow> reaction" where
  "errorMiddleware tr pathname s r =
     (if rs_status r = 401 then
        (let (s', cmds) = logout s in
         \<lparr>re_auth = s', re_cache = cmds, re_goto = None,
          re_result = Inl (toApiError tr (body_or_empty r) (Some 401))\<rparr>)
      else if \<not> rs_ok r then
        (let err = toApiError tr (body_or_empty r) (Some (rs_status r)) in
         \<lparr>re_auth = s, re_cache = [],
          re_goto = (if ae_code err = JStr ''password_change_required'' \<and> \<not> ends_with pathname ''/change-password''
                     then Some ''/change-password'' else None),
          re_result = Inl err\<rparr>)
      else \<lparr>re_auth = s, re_cache = [], re_goto = None, re_result = Inr r\<rparr>)"

text \<open>
  One call: the request leaves with the headers of the store at that moment (\<open>s\<close>), and its response
  meets the store as it is when it arrives (\<open>s'\<close>). \<open>None\<close> is a call the transport rejects.
\<close>

definition api_call ::
  "i18n \<Rightarrow> string \<Rightarrow> (request \<Rightarrow> response option) \<Rightarrow> AuthState \<Rightarrow> AuthState \<Rightarrow> request \<Rightarrow> reaction option" where
  "api_call tr pathname fetch s s' rq = map_option (errorMiddleware tr pathname s') (fetch (authMiddleware s rq))"

section \<open>Idempotency keys\<close>

definition hex_digit :: "nat \<Rightarrow> char" where
  "hex_digit n = ''0123456789abcdef'' ! n"

text \<open>
  \<open>rnd\<close> is the sequence of random bytes drawn, one per replaced character (from \<^verbatim>\<open>getRandomValues\<close> or
  \<^verbatim>\<open>Math.floor(Math.random() * 256)\<close>).
\<close>

fun fill_template :: "(nat \<Rightarrow> nat) \<Rightarrow> string \<Rightarrow> string" where
  "fill_template rnd [] = []"
| "fill_template rnd (ch # rest) =
     (if ch = CHR ''x'' then hex_digit (rnd 0 mod 16) # fill_template (rnd \<circ> Suc) rest
      else if ch = CHR ''y'' then hex_digit (rnd 0 mod 16 mod 4 + 8) # fill_template (rnd \<circ> Suc) rest
      else ch # fill_template rnd rest)"

definition uuid_template :: string where
  "uuid_template = ''xxxxxxxx-xxxx-4xxx-yxxx-xxxxxxxxxxxx''"

definition idemKey :: "string option \<Rightarrow> (nat \<Rightarrow> nat) \<Rightarrow> string" where
  "idemKey randomUUID rnd = (case randomUUID of Some u \<Rightarrow> u | None \<Rightarrow> fill_template rnd uuid_template)"

section \<open>Retrying queries\<close>

definition retry :: "nat \<Rightarrow> nat option \<Rightarrow> bool" where
  "retry failureCount status =
     (if status \<noteq> None \<and> the status \<noteq> 0 \<and> the status \<in> {401, 403, 404} then False
      else failureCount < 2)"

text \<open>
  The attempts at a query: the query client asks the rule after every failure, with the number of
  earlier failures, and tries again while it says so. \<open>outcome n\<close> is what attempt \<open>n\<close> gives: \<open>Inl\<close> the
  status carried by the error. The rule admits at most two retries, so three attempts are enough fuel.
\<close>

fun attempts :: "nat \<Rightarrow> (nat \<Rightarrow> nat option + 'a) \<Rightarrow> nat \<Rightarrow> (nat option + 'a) option" where
  "attempts 0 outcome n = None"
| "attempts (Suc fuel) outcome n =
     (case outcome n of
        Inr a \<Rightarrow> Some (Inr a)
      | Inl st \<Rightarrow> if retry n st then attempts fuel outcome (Suc n) else Some (Inl st))"

section \<open>Lemmas\<close>

lemma lower_char_idem [simp]: "lower_char (lower_char c) = lower_char c"
  by (cases "(of_char c :: nat)" rule: linorder_cases [of _ 65])
     (auto simp: lower_char_def)

lemma to_lower_idem [simp]: "to_lower (to_lower s) = to_lower s"
  by (simp add: to_lower_def)

lemma get_set_header:
  "get_header k (set_header k' v hs) = (if to_lower k = to_lower k' then Some v else get_header k hs)"
  by (induction hs) (auto simp: get_header_def set_header_def)

lemma authMiddleware_headers:
  assumes "to_lower ''Authorization'' \<noteq> to_lower k" "to_lower ''X-Project-Id'' \<noteq> to_lower k"
  shows "get_header k (rq_headers (authMiddleware s rq)) = get_header k (rq_headers rq)"
  using assms by (auto simp: authMiddleware_def Let_def get_set_header)

lemma lower_names:
  "to_lower ''Authorization'' = ''authorization''"
  "to_lower ''X-Project-Id'' = ''x-project-id''"
  "to_lower ''Idempotency-Key'' = ''idempotency-key''"
  by code_simp+

lemma errorMiddleware_auth:
  "re_auth (errorMiddleware tr pathname s r) = (if rs_status r = 401 then initial_auth else s)"
  using logout_initial [of s] by (auto simp: errorMiddleware_def Let_def split: prod.splits)

lemma errorMiddleware_result:
  "re_result (errorMiddleware tr pathname s r) =
     (if rs_ok r then Inr r else Inl (toApiError tr (body_or_empty r) (Some (rs_status r))))"
  by (auto simp: errorMiddleware_def Let_def rs_ok_def split: prod.splits)

text \<open>Every call of a signed-in console carries the bearer token of the store and the active group, leaves every
  other header (the idempotency key included) as the caller set it, and does not touch the method, the path, the query
  or the body.\<close>

theorem authMiddleware_sends_identity:
  assumes "accessToken s = Some tok" and "tok \<noteq> []"
  shows "get_header ''Authorization'' (rq_headers (authMiddleware s rq)) = Some (''Bearer '' @ tok) \<and>
         (str_truthy (activeProjectId s) \<longrightarrow>
            get_header ''x-project-id'' (rq_headers (authMiddleware s rq)) = activeProjectId s) \<and>
         get_header ''Idempotency-Key'' (rq_headers (authMiddleware s rq)) = get_header ''Idempotency-Key'' (rq_headers rq) \<and>
         (authMiddleware s rq)\<lparr>rq_headers := rq_headers rq\<rparr> = rq"
proof -
  have low: "to_lower ''x-project-id'' = ''x-project-id''" by code_simp
  show ?thesis
    using assms
    by (auto simp: authMiddleware_def Let_def get_set_header lower_names low str_truthy_def split: option.splits)
qed

theorem authMiddleware_sends_identity_witness:
  "get_header ''Authorization''
     (rq_headers (authMiddleware (initial_auth\<lparr>accessToken := Some ''t''\<rparr>) (http_get ''/x'' [] []))) = Some ''Bearer t''"
  using authMiddleware_sends_identity [of "initial_auth\<lparr>accessToken := Some ''t''\<rparr>" "''t''" "http_get ''/x'' [] []"]
  by simp

text \<open>The error object of a response: \<^verbatim>\<open>body.error\<close>, undefined where the body is not JSON or has none.\<close>

definition sent_error :: "response \<Rightarrow> js" where
  "sent_error r = (case rs_json r of None \<Rightarrow> JUndef | Some b \<Rightarrow> js_get ''error'' b)"

lemma sent_error_field: "js_get k (coalesce (js_get ''error'' (body_or_empty r)) (JObj [])) = js_get k (sent_error r)"
proof -
  have "js_get k (coalesce j (JObj [])) = js_get k j" for j by (cases j) auto
  then show ?thesis by (simp add: sent_error_def body_or_empty_def split: option.splits)
qed

lemma thrown_envelope:
  "toApiError tr (body_or_empty r) st =
     \<lparr>ae_code = coalesce (js_get ''code'' (sent_error r)) (JStr ''internal_error''),
      ae_message = coalesce (js_get ''message'' (sent_error r)) (JStr (i18n_t tr ''error.unknown'' [])),
      ae_status = st, ae_details = js_get ''details'' (sent_error r),
      ae_requestId = js_get ''request_id'' (sent_error r)\<rparr>"
  by (simp add: toApiError_def Let_def sent_error_field)

lemma errorMiddleware_401:
  assumes "rs_status r = 401"
  shows "errorMiddleware tr pathname s r =
     \<lparr>re_auth = initial_auth, re_cache = [ClearCache], re_goto = None,
      re_result = Inl (toApiError tr (body_or_empty r) (Some 401))\<rparr>"
  using assms logout_initial [of s] by (auto simp: errorMiddleware_def logout_def split: prod.splits)

text \<open>C5: What a call does with the response it gets, to the last field. A 2xx response is handed to the caller and
  nothing else happens. Any other one is thrown, with the status of the response, the code, the message, the details and
  the request id the server put in its error object, and \<^verbatim>\<open>internal_error\<close> and the generic text where it put none (no
  body, a body that is not JSON, an object without the field). A 401 also ends the session: the store is the signed-out
  one and the cache is cleared. Every other failure leaves the store and the cache alone, and sends the browser to
  \<^verbatim>\<open>/change-password\<close> exactly when the server demands a new password and the browser is not there already. In every
  case the store that results is one the console's own machine reaches.\<close>

theorem api_call_reaction:
  assumes "reach console_init (auth_step parse) c"
    and "api_call tr pathname fetch s (auth c) rq = Some re"
  shows "(\<exists>c'. reach console_init (auth_step parse) c' \<and> auth c' = re_auth re) \<and>
         (\<exists>r. fetch (authMiddleware s rq) = Some r \<and>
           (if 200 \<le> rs_status r \<and> rs_status r \<le> 299
            then re = \<lparr>re_auth = auth c, re_cache = [], re_goto = None, re_result = Inr r\<rparr>
            else \<exists>e. re_result re = Inl e \<and> ae_status e = Some (rs_status r) \<and>
              ae_code e = (if nullish (js_get ''code'' (sent_error r)) then JStr ''internal_error''
                           else js_get ''code'' (sent_error r)) \<and>
              ae_message e = (if nullish (js_get ''message'' (sent_error r)) then JStr (i18n_t tr ''error.unknown'' [])
                              else js_get ''message'' (sent_error r)) \<and>
              ae_details e = js_get ''details'' (sent_error r) \<and>
              ae_requestId e = js_get ''request_id'' (sent_error r) \<and>
              (if rs_status r = 401
               then re_auth re = initial_auth \<and> re_cache re = [ClearCache] \<and> re_goto re = None
               else re_auth re = auth c \<and> re_cache re = [] \<and>
                    re_goto re = (if js_get ''code'' (sent_error r) = JStr ''password_change_required'' \<and>
                                     \<not> ends_with pathname ''/change-password''
                                  then Some ''/change-password'' else None))))"
proof -
  obtain r where r: "fetch (authMiddleware s rq) = Some r" "re = errorMiddleware tr pathname (auth c) r"
    using assms(2) by (auto simp: api_call_def)
  have reached: "\<exists>c'. reach console_init (auth_step parse) c' \<and> auth c' = re_auth re"
  proof (cases "rs_status r = 401")
    case True
    have "reach console_init (auth_step parse) (c\<lparr>auth := fst (logout (auth c)), mePending := False\<rparr>)"
      using assms(1) step_logout by (rule reach_step)
    then show ?thesis using True r(2) by (force simp: errorMiddleware_auth logout_initial)
  qed (use assms(1) r(2) in \<open>auto simp: errorMiddleware_auth\<close>)
  consider "rs_status r = 401" | "rs_ok r" "rs_status r \<noteq> 401" | "\<not> rs_ok r" "rs_status r \<noteq> 401" by blast
  then show ?thesis
  proof cases
    case 1
    then show ?thesis using r reached by (simp add: errorMiddleware_401 thrown_envelope coalesce_def)
  next
    case 2
    then show ?thesis using r reached by (simp add: errorMiddleware_def rs_ok_def)
  next
    case 3
    then have "\<not> (200 \<le> rs_status r \<and> rs_status r \<le> 299)" by (simp add: rs_ok_def)
    then show ?thesis using 3 r reached
      by (auto simp: errorMiddleware_def Let_def thrown_envelope coalesce_def)
  qed
qed

text \<open>A signed-in console whose call is answered 401, and one told to change its password while on another page.\<close>

theorem api_call_reaction_witness:
  "(\<exists>re. api_call \<lparr>i18n_exists = \<lambda>_. False, i18n_t = \<lambda>_ _. ''?''\<rparr> ''/''
          (\<lambda>_. Some \<lparr>rs_status = 403, rs_json = Some (JObj [(''error'', JObj [(''code'', JStr ''password_change_required'')])])\<rparr>)
          initial_auth (auth (signed_in (\<lambda>_. no_claims) ''t'' None)) (http_get ''/x'' [] []) = Some re \<and>
        re_goto re = Some ''/change-password'' \<and> accessToken (re_auth re) = Some ''t'' \<and>
        (\<exists>e. re_result re = Inl e \<and> ae_message e = JStr ''?'')) \<and>
   (\<exists>re. api_call \<lparr>i18n_exists = \<lambda>_. False, i18n_t = \<lambda>_ _. ''?''\<rparr> ''/''
          (\<lambda>_. Some \<lparr>rs_status = 401, rs_json = None\<rparr>)
          initial_auth (auth (signed_in (\<lambda>_. no_claims) ''t'' None)) (http_get ''/x'' [] []) = Some re \<and>
        re_auth re = initial_auth \<and> re_cache re = [ClearCache] \<and>
        accessToken (auth (signed_in (\<lambda>_. no_claims) ''t'' None)) \<noteq> None)"
  using api_call_reaction [OF reach_signed_in, of "\<lparr>i18n_exists = \<lambda>_. False, i18n_t = \<lambda>_ _. ''?''\<rparr>" "''/''"
      "\<lambda>_. Some \<lparr>rs_status = 403, rs_json = Some (JObj [(''error'', JObj [(''code'', JStr ''password_change_required'')])])\<rparr>"
      initial_auth "\<lambda>_. no_claims" "''t''" None "http_get ''/x'' [] []"]
    api_call_reaction [OF reach_signed_in, of "\<lparr>i18n_exists = \<lambda>_. False, i18n_t = \<lambda>_ _. ''?''\<rparr>" "''/''"
      "\<lambda>_. Some \<lparr>rs_status = 401, rs_json = None\<rparr>" initial_auth "\<lambda>_. no_claims" "''t''" None "http_get ''/x'' [] []"]
  by (auto simp: api_call_def signed_in_def sent_error_def ends_with_def me_answer_def setMeLoaded_def loginPassword_def applyTokens_def)

section \<open>The fallback key is a version 4 UUID\<close>

definition hex_chars :: "char set" where
  "hex_chars = set ''0123456789abcdef''"

text \<open>The shape of a version 4 UUID: 8-4-4-4-12 hexadecimal digits, version digit 4, variant digit 8, 9, a or b.\<close>

definition uuid_v4 :: "string \<Rightarrow> bool" where
  "uuid_v4 u \<longleftrightarrow> length u = 36 \<and>
     (\<forall>i < 36. if i \<in> {8, 13, 18, 23} then u ! i = CHR ''-''
               else if i = 14 then u ! i = CHR ''4''
               else if i = 19 then u ! i \<in> set ''89ab''
               else u ! i \<in> hex_chars)"

lemma hex_digit_chars: "n < 16 \<Longrightarrow> hex_digit n \<in> hex_chars"
  unfolding hex_digit_def hex_chars_def by (rule nth_mem) simp

lemma less4: "n < (4::nat) \<Longrightarrow> n \<in> {0, 1, 2, 3}"
  by (simp add: numeral_eq_Suc less_Suc_eq)

lemma hex_digit_variant: "n < 4 \<Longrightarrow> hex_digit (n + 8) \<in> set ''89ab''"
  by (drule less4) (auto simp: hex_digit_def)

text \<open>The shape a template prescribes, position by position.\<close>

definition fits :: "char \<Rightarrow> char \<Rightarrow> bool" where
  "fits t c = (if t = CHR ''x'' then c \<in> hex_chars else if t = CHR ''y'' then c \<in> set ''89ab'' else c = t)"

lemma fill_template_fits: "list_all2 fits t (fill_template rnd t)"
  by (induction t arbitrary: rnd) (auto simp: fits_def hex_digit_chars simp del: list.set intro: hex_digit_variant)

lemma template_at:
  "i < 36 \<Longrightarrow> uuid_template ! i =
     (if i \<in> {8, 13, 18, 23} then CHR ''-'' else if i = 14 then CHR ''4'' else if i = 19 then CHR ''y'' else CHR ''x'')"
proof -
  have "\<forall>i \<in> set [0..<36]. uuid_template ! i =
     (if i \<in> {8, 13, 18, 23} then CHR ''-'' else if i = 14 then CHR ''4'' else if i = 19 then CHR ''y'' else CHR ''x'')"
    by code_simp
  then show "i < 36 \<Longrightarrow> ?thesis" by simp
qed

text \<open>Where the browser offers no \<^verbatim>\<open>crypto.randomUUID\<close>, the generated idempotency key is a well-formed version 4 UUID for
  every sequence of random bytes.\<close>

theorem idemKey_fallback_uuid: "uuid_v4 (idemKey None rnd)"
proof -
  let ?k = "idemKey None rnd"
  have fit: "list_all2 fits uuid_template ?k"
    by (simp add: idemKey_def fill_template_fits)
  then have len: "length ?k = 36" by (auto simp: uuid_template_def dest: list_all2_lengthD)
  have at: "i < 36 \<Longrightarrow> fits (uuid_template ! i) (?k ! i)" for i
    using fit len by (simp add: list_all2_conv_all_nth)
  have "if i \<in> {8, 13, 18, 23} then ?k ! i = CHR ''-''
        else if i = 14 then ?k ! i = CHR ''4''
        else if i = 19 then ?k ! i \<in> set ''89ab''
        else ?k ! i \<in> hex_chars" if "i < 36" for i
    using at [OF that] template_at [OF that] by (auto simp: fits_def simp del: list.set split: if_splits)
  then show ?thesis using len by (simp add: uuid_v4_def del: list.set)
qed

section \<open>Retries are bounded\<close>

lemma attempts_done: "\<exists>r. attempts (Suc (2 - n)) outcome n = Some r"
proof (induction "2 - n" arbitrary: n)
  case 0
  then show ?case by (cases "outcome n") (auto simp: retry_def)
next
  case (Suc k)
  then have "Suc (2 - n) = Suc (Suc (2 - Suc n))" "k = 2 - Suc n" by auto
  then show ?case using Suc(1) [of "Suc n"] by (cases "outcome n") auto
qed

text \<open>C26: A query always settles within three attempts, at once on a 401, 403 or 404; any other failure is retried twice.\<close>

theorem attempts_settle:
  "(\<exists>r. attempts 3 outcome 0 = Some r) \<and>
   (outcome 0 = Inl (Some st) \<and> st \<in> {401, 403, 404} \<longrightarrow> attempts 3 outcome 0 = Some (Inl (Some st))) \<and>
   ((\<forall>n < 2. \<exists>st. outcome n = Inl st \<and> st \<notin> {Some 401, Some 403, Some 404}) \<longrightarrow>
      attempts 3 outcome 0 = Some (outcome 2))"
proof -
  have "\<exists>r. attempts 3 outcome 0 = Some r" using attempts_done [of 0 outcome] by (simp add: numeral_3_eq_3)
  moreover have "attempts 3 outcome 0 = Some (outcome 2)"
    if h: "\<forall>n < 2. \<exists>st. outcome n = Inl st \<and> st \<notin> {Some 401, Some 403, Some 404}"
  proof -
    obtain a b where "outcome 0 = Inl a" "a \<notin> {Some 401, Some 403, Some 404}"
        "outcome (Suc 0) = Inl b" "b \<notin> {Some 401, Some 403, Some 404}"
      using h [rule_format, of 0] h [rule_format, of 1] by auto
    then have "attempts 3 outcome 0 = attempts 1 outcome 2"
      by (auto simp: numeral_3_eq_3 numeral_2_eq_2 retry_def)
    then show ?thesis by (cases "outcome 2") (auto simp: retry_def)
  qed
  ultimately show ?thesis by (auto simp: numeral_3_eq_3 retry_def)
qed

theorem attempts_settle_witness:
  "attempts 3 (\<lambda>n. if n < 2 then Inl (Some 422) else Inr ''ok'') 0 = Some (Inr ''ok'') \<and>
   attempts 3 (\<lambda>_. Inl (Some 404) :: nat option + string) 0 = Some (Inl (Some 404))"
  using attempts_settle [of "\<lambda>n. if n < 2 then Inl (Some 422) else Inr ''ok''"]
    attempts_settle [of "\<lambda>_. Inl (Some 404) :: nat option + string" 404] by simp

end
