(* ===== verification/Paging.thy ===== *)
theory Paging
  imports Api_Client
begin

text \<open>
  Collecting a listing page by page (\<^verbatim>\<open>frontend/src/api/paging.ts\<close>). A call is a function \<open>send\<close> from
  requests to a thrown error or the decoded body; the interface \<open>paged_listing\<close> states what the
  endpoints promise about the pages of one collection, and is discharged on the server's own
  \<^verbatim>\<open>Pagination\<close> rule (\<^verbatim>\<open>backend/app/api/deps.py\<close>).
\<close>

section \<open>The client's loop\<close>

definition PAGE_MAX :: nat where
  "PAGE_MAX = 100"

text \<open>\<^verbatim>\<open>Array.isArray(env) ? env : env?.data ?? []\<close>\<close>

definition env_rows :: "js \<Rightarrow> js list" where
  "env_rows env = (if is_array env then js_elems env else js_elems (coalesce (js_get ''data'' env) (JArr [])))"

text \<open>\<^verbatim>\<open>data?.data ?? []\<close>\<close>

definition data_rows :: "js \<Rightarrow> js list" where
  "data_rows env = js_elems (coalesce (js_get ''data'' env) (JArr []))"

definition page_query :: "(string \<times> js) list \<Rightarrow> nat \<Rightarrow> (string \<times> js) list" where
  "page_query query page = obj_spread query [(''page'', JNum (of_nat page)), (''size'', JNum (of_nat PAGE_MAX))]"

definition page_request :: "string \<Rightarrow> (string \<times> js) list \<Rightarrow> nat \<Rightarrow> request" where
  "page_request path query page = http_get path [] (page_query query page)"

text \<open>The \<^verbatim>\<open>for\<close> loop: \<open>out\<close> holds what has been collected before \<open>page\<close> is fetched.\<close>

function page_loop ::
  "(request \<Rightarrow> 'e + js) \<Rightarrow> string \<Rightarrow> (string \<times> js) list \<Rightarrow> rat \<Rightarrow> nat \<Rightarrow> nat \<Rightarrow> js list \<Rightarrow> 'e + js list" where
  "page_loop send path query tot maxPages page out =
     (if maxPages < page then Inr out
      else case send (page_request path query page) of
             Inl e \<Rightarrow> Inl e
           | Inr data \<Rightarrow>
               (let rows = env_rows data; out' = out @ rows in
                if length rows < PAGE_MAX \<or> tot \<le> of_nat (length out') then Inr out'
                else page_loop send path query tot maxPages (Suc page) out'))"
  by pat_completeness auto
termination
  by (relation "measure (\<lambda>(_, _, _, _, maxPages, page, _). Suc maxPages - page)") auto

declare page_loop.simps [simp del]

definition fetchRestOfPages ::
  "(request \<Rightarrow> 'e + js) \<Rightarrow> string \<Rightarrow> (string \<times> js) list \<Rightarrow> js list \<Rightarrow> rat option \<Rightarrow> nat \<Rightarrow> 'e + js list" where
  "fetchRestOfPages send path query first tot maxPages =
     (case tot of
        None \<Rightarrow> Inr first
      | Some t \<Rightarrow>
          if t \<le> of_nat (length first) \<or> length first < PAGE_MAX then Inr first
          else page_loop send path query t maxPages 2 first)"

definition pageTotal :: "js \<Rightarrow> rat option" where
  "pageTotal env = js_num (js_get ''total'' (js_get ''pagination'' env))"

text \<open>
  The idiom of the list hooks: fetch page 1 themselves, read its rows with \<open>rows_of\<close> and the reported
  total with \<open>total_of\<close>, and append the rest with the default of 20 pages.
\<close>

definition fetch_listing ::
  "(request \<Rightarrow> 'e + js) \<Rightarrow> string \<Rightarrow> (string \<times> js) list \<Rightarrow> (js \<Rightarrow> js list) \<Rightarrow> (js \<Rightarrow> rat option) \<Rightarrow> 'e + js list" where
  "fetch_listing send path query rows_of total_of =
     bind_res (send (page_request path query 1))
       (\<lambda>data. fetchRestOfPages send path query (rows_of data) (total_of data) 20)"

section \<open>The server's pages\<close>

text \<open>
  \<^verbatim>\<open>Pagination\<close> of the backend: page (from 1) and size (20 unless asked, at most 100); other values are
  refused. A listing answers with the window at \<^verbatim>\<open>offset = (page - 1) * size\<close>.
\<close>

record Pagination =
  pg_page :: nat
  pg_size :: nat

definition query_nat :: "string \<Rightarrow> nat \<Rightarrow> request \<Rightarrow> nat option" where
  "query_nat k d rq =
     (case map_of (rq_query rq) k of
        None \<Rightarrow> Some d
      | Some (JNum q) \<Rightarrow> if q = of_int \<lfloor>q\<rfloor> \<and> 1 \<le> q then Some (nat \<lfloor>q\<rfloor>) else None
      | Some _ \<Rightarrow> None)"

definition Pagination_of :: "request \<Rightarrow> Pagination option" where
  "Pagination_of rq =
     (case (query_nat ''page'' 1 rq, query_nat ''size'' 20 rq) of
        (Some p, Some s) \<Rightarrow> if s \<le> 100 then Some \<lparr>pg_page = p, pg_size = s\<rparr> else None
      | _ \<Rightarrow> None)"

definition pg_offset :: "Pagination \<Rightarrow> nat" where
  "pg_offset p = (pg_page p - 1) * pg_size p"

definition page_window :: "'a list \<Rightarrow> Pagination \<Rightarrow> 'a list" where
  "page_window rows p = take (pg_size p) (drop (pg_offset p) rows)"

text \<open>
  The three shapes of a listing's answer: an envelope with the total, an envelope without one, and a
  bare array. A request the \<^verbatim>\<open>Pagination\<close> rule refuses is answered with 422.
\<close>

datatype listing_shape = Envelope | Envelope_no_total | Bare

definition listing_body :: "listing_shape \<Rightarrow> js list \<Rightarrow> Pagination \<Rightarrow> js" where
  "listing_body shape rows p =
     (case shape of
        Envelope \<Rightarrow> JObj [(''data'', JArr (page_window rows p)),
                      (''pagination'', JObj [(''page'', JNum (of_nat (pg_page p))), (''size'', JNum (of_nat (pg_size p))),
                                           (''total'', JNum (of_nat (length rows)))])]
      | Envelope_no_total \<Rightarrow> JObj [(''data'', JArr (page_window rows p))]
      | Bare \<Rightarrow> JArr (page_window rows p))"

definition serve_listing :: "listing_shape \<Rightarrow> js list \<Rightarrow> request \<Rightarrow> nat + js" where
  "serve_listing shape rows rq =
     (case Pagination_of rq of None \<Rightarrow> Inl 422 | Some p \<Rightarrow> Inr (listing_body shape rows p))"

section \<open>The contract of a paged listing\<close>

text \<open>The general form: \<open>req p\<close> is the request for page \<open>p\<close>, \<open>body p\<close> its answer.\<close>

locale paged_requests =
  fixes send :: "request \<Rightarrow> 'e + js" and req :: "nat \<Rightarrow> request"
    and rows :: "js list" and body :: "nat \<Rightarrow> js"
  assumes page_answer: "1 \<le> p \<Longrightarrow> send (req p) = Inr (body p)"
    and page_rows: "1 \<le> p \<Longrightarrow> env_rows (body p) = take PAGE_MAX (drop ((p - 1) * PAGE_MAX) rows)"
begin

lemma pages_so_far:
  "1 \<le> p \<Longrightarrow> take ((p - 1) * PAGE_MAX) rows @ env_rows (body p) = take (p * PAGE_MAX) rows"
proof -
  assume p: "1 \<le> p"
  then have "p * PAGE_MAX = (p - 1) * PAGE_MAX + PAGE_MAX"
    by (cases p) simp_all
  then show ?thesis using p by (simp add: page_rows take_append_window)
qed

lemma page_full_or_last:
  assumes "1 \<le> p" and "length (env_rows (body p)) < PAGE_MAX"
  shows "length rows \<le> p * PAGE_MAX"
proof (rule ccontr)
  assume "\<not> ?thesis"
  then have "PAGE_MAX + (p - 1) * PAGE_MAX < length rows" using assms(1) by (cases p) auto
  then show False using assms by (simp add: page_rows)
qed

end

text \<open>The requests of \<open>fetchRestOfPages\<close>.\<close>

locale paged_listing = paged_requests send "page_request path query" rows body
  for send :: "request \<Rightarrow> 'e + js" and path query rows body
begin

text \<open>The loop started with the pages before \<open>page\<close> returns every row up to the page limit.\<close>

lemma page_loop_all:
  assumes "1 \<le> page" and "page \<le> Suc maxPages"
  shows "page_loop send path query (of_nat (length rows)) maxPages page (take ((page - 1) * PAGE_MAX) rows)
         = Inr (take (maxPages * PAGE_MAX) rows)"
  using assms
proof (induction "Suc maxPages - page" arbitrary: page)
  case 0
  then have "page = Suc maxPages" by simp
  then show ?case by (simp add: page_loop.simps)
next
  case (Suc k)
  then have le: "1 \<le> page" "page \<le> maxPages" by auto
  let ?rows = "env_rows (body page)"
  have out: "take ((page - 1) * PAGE_MAX) rows @ ?rows = take (page * PAGE_MAX) rows"
    using le pages_so_far by simp
  have step: "page_loop send path query (of_nat (length rows)) maxPages page (take ((page - 1) * PAGE_MAX) rows) =
      (if length ?rows < PAGE_MAX \<or> length rows \<le> length (take (page * PAGE_MAX) rows)
       then Inr (take (page * PAGE_MAX) rows)
       else page_loop send path query (of_nat (length rows)) maxPages (Suc page) (take (page * PAGE_MAX) rows))"
    using le by (subst page_loop.simps) (simp add: page_answer [OF le(1)] out Let_def del: One_nat_def length_append length_take)
  show ?case
  proof (cases "length ?rows < PAGE_MAX \<or> length rows \<le> page * PAGE_MAX")
    case True
    then have "length rows \<le> page * PAGE_MAX" using page_full_or_last [OF le(1)] by blast
    moreover from this have "length rows \<le> maxPages * PAGE_MAX"
      using le by (meson le_trans mult_le_mono1)
    ultimately have "take (page * PAGE_MAX) rows = rows" "take (maxPages * PAGE_MAX) rows = rows" by simp_all
    then show ?thesis by (simp add: step del: One_nat_def)
  next
    case False
    have "page_loop send path query (of_nat (length rows)) maxPages (Suc page) (take (page * PAGE_MAX) rows)
          = Inr (take (maxPages * PAGE_MAX) rows)"
      using Suc(1) [of "Suc page"] Suc(2) le by simp
    then show ?thesis using False by (simp add: step del: One_nat_def)
  qed
qed

lemma fetch_rest_all:
  assumes "1 \<le> maxPages"
  shows "fetchRestOfPages send path query (env_rows (body 1)) (Some (of_nat (length rows))) maxPages
         = Inr (take (maxPages * PAGE_MAX) rows)"
proof (cases "length rows \<le> PAGE_MAX")
  case True
  moreover from this have "length rows \<le> maxPages * PAGE_MAX" using assms by (cases maxPages) auto
  ultimately show ?thesis by (simp add: fetchRestOfPages_def page_rows)
next
  case False
  then show ?thesis
    using page_loop_all [of 2 maxPages] assms
    by (simp add: fetchRestOfPages_def page_rows)
qed

text \<open>A listing whose reported total is the length of the first page is never read beyond that page.\<close>

lemma fetch_rest_own_length:
  "fetchRestOfPages send path query (env_rows (body 1)) (Some (of_nat (length (env_rows (body 1))))) maxPages
   = Inr (take PAGE_MAX rows)"
  by (simp add: fetchRestOfPages_def page_rows)

lemma fetch_rest_no_total:
  "fetchRestOfPages send path query (env_rows (body 1)) None maxPages = Inr (take PAGE_MAX rows)"
  by (simp add: fetchRestOfPages_def page_rows)

lemma fetch_listing_all:
  assumes "rows_of (body 1) = env_rows (body 1)" and "total_of (body 1) = Some (of_nat (length rows))"
  shows "fetch_listing send path query rows_of total_of = Inr (take 2000 rows)"
  using page_answer [of 1] assms fetch_rest_all [of 20] by (simp add: fetch_listing_def PAGE_MAX_def)

lemma fetch_listing_first_page:
  assumes "rows_of (body 1) = env_rows (body 1)"
    and "total_of (body 1) \<in> {None, Some (of_nat (length (env_rows (body 1))))}"
  shows "fetch_listing send path query rows_of total_of = Inr (take 100 rows)"
  using page_answer [of 1] assms fetch_rest_own_length [of 20] fetch_rest_no_total [of 20]
  by (auto simp: fetch_listing_def PAGE_MAX_def)

end

section \<open>The server keeps the contract\<close>

lemma map_of_page_query:
  "map_of (page_query query p) ''page'' = Some (JNum (of_nat p))"
  "map_of (page_query query p) ''size'' = Some (JNum 100)"
  by (simp_all add: page_query_def map_of_obj_spread PAGE_MAX_def)

lemma Pagination_of_page_request:
  "1 \<le> p \<Longrightarrow> Pagination_of (page_request path query p) = Some \<lparr>pg_page = p, pg_size = 100\<rparr>"
  by (simp add: Pagination_of_def query_nat_def page_request_def http_get_def map_of_page_query)

lemma env_rows_listing_body [simp]: "env_rows (listing_body shape rows p) = page_window rows p"
  by (cases shape) (simp_all add: listing_body_def env_rows_def)

lemma data_rows_listing_body [simp]: "shape \<noteq> Bare \<Longrightarrow> data_rows (listing_body shape rows p) = page_window rows p"
  by (cases shape) (simp_all add: listing_body_def data_rows_def)

lemma pageTotal_listing_body [simp]:
  "pageTotal (listing_body shape rows p) = (if shape = Envelope then Some (of_nat (length rows)) else None)"
  by (cases shape) (simp_all add: listing_body_def pageTotal_def)

interpretation served: paged_listing "serve_listing shape rows" path query rows
  "\<lambda>p. listing_body shape rows \<lparr>pg_page = p, pg_size = 100\<rparr>" for shape rows path query
  by unfold_locales
    (simp_all add: serve_listing_def Pagination_of_page_request page_window_def pg_offset_def PAGE_MAX_def)

text \<open>C2: Against the server's paging rule, a listing that reports its total is collected completely and in order, up to the
  2,000 rows the loop's 20 pages of 100 can hold, whatever the query; every request stays within the size the server
  accepts (none is refused).\<close>

theorem fetch_listing_complete:
  "fetch_listing (serve_listing Envelope rows) path query data_rows pageTotal = Inr (take 2000 rows)"
  by (rule served.fetch_listing_all) simp_all

text \<open>A listing whose answer carries no total (a bare array passed with its own length, or an envelope without
  \<^verbatim>\<open>pagination.total\<close>) is never read past the first 100 rows, although the server would serve the rest.\<close>

theorem fetch_listing_truncates_without_total:
  "fetch_listing (serve_listing Bare rows) path query js_elems (\<lambda>d. Some (of_nat (length (js_elems d)))) = Inr (take 100 rows) \<and>
   fetch_listing (serve_listing Envelope_no_total rows) path query data_rows pageTotal = Inr (take 100 rows)"
proof -
  have "js_elems (listing_body Bare rows p) = env_rows (listing_body Bare rows p)" for p
    by (simp add: listing_body_def env_rows_def)
  then show ?thesis
    using served.fetch_listing_first_page [of js_elems Bare rows "\<lambda>d. Some (of_nat (length (js_elems d)))" path query]
      served.fetch_listing_first_page [of data_rows Envelope_no_total rows pageTotal path query]
    by simp
qed

end
