(* ===== verification/Query_Core.thy ===== *)
theory Query_Core
  imports Paging
begin

text \<open>
  What a query hook and a mutation hook hand to the query client, and what the query client does with
  the cache commands. The query client (TanStack Query) is not part of the program: the hooks are
  modelled as the options they pass to it, and the matching of an invalidation filter against a cache
  key is the parameter \<open>matches\<close> of the interface \<open>query_matching\<close>, with the documented law that a filter
  matches the keys that start with it.
\<close>

section \<open>Hook options\<close>

text \<open>
  The options of \<^verbatim>\<open>useQuery\<close>: key, enabled, query function (from the call \<open>send\<close> to an error or the
  value cached), \<^verbatim>\<open>refetchOnMount: 'always'\<close>, \<^verbatim>\<open>refetchInterval\<close> as a function of the cached data
  (milliseconds, \<open>None\<close> for false), and \<^verbatim>\<open>staleTime\<close>, 30 seconds unless the hook says otherwise
  (\<^verbatim>\<open>api/queryClient.ts\<close>).
\<close>

record 'e query_def =
  qd_key :: "js list"
  qd_enabled :: bool
  qd_fetch :: "(request \<Rightarrow> 'e + js) \<Rightarrow> 'e + js"
  qd_always :: bool
  qd_interval :: "js \<Rightarrow> nat option"
  qd_stale :: nat

definition use_query :: "js list \<Rightarrow> ((request \<Rightarrow> 'e + js) \<Rightarrow> 'e + js) \<Rightarrow> 'e query_def" where
  "use_query key fetch =
     \<lparr>qd_key = key, qd_enabled = True, qd_fetch = fetch, qd_always = False,
      qd_interval = (\<lambda>_. None), qd_stale = 30000\<rparr>"

text \<open>A query function that makes one call and passes the body through \<open>f\<close>.\<close>

definition one_call :: "request \<Rightarrow> (js \<Rightarrow> js) \<Rightarrow> (request \<Rightarrow> 'e + js) \<Rightarrow> 'e + js" where
  "one_call rq f send = map_res f (send rq)"

text \<open>The readings of a body: \<^verbatim>\<open>data\<close>, \<^verbatim>\<open>data ?? []\<close> and \<^verbatim>\<open>data?.data ?? []\<close>.\<close>

definition or_empty :: "js \<Rightarrow> js" where
  "or_empty data = coalesce data (JArr [])"

definition data_or_empty :: "js \<Rightarrow> js" where
  "data_or_empty data = coalesce (js_get ''data'' data) (JArr [])"

text \<open>
  The options of \<^verbatim>\<open>useMutation\<close> applied to its variables: the request, the value returned from the body,
  and the cache commands issued by \<^verbatim>\<open>onSuccess\<close>.
\<close>

record mutation_def =
  mu_request :: request
  mu_result :: "js \<Rightarrow> js"
  mu_done :: "js \<Rightarrow> cache_cmd list"

definition use_mutation :: "request \<Rightarrow> cache_cmd list \<Rightarrow> mutation_def" where
  "use_mutation rq cmds = \<lparr>mu_request = rq, mu_result = (\<lambda>d. d), mu_done = (\<lambda>_. cmds)\<rparr>"

text \<open>A mutation that throws issues no cache command.\<close>

definition run_mutation :: "(request \<Rightarrow> 'e + js) \<Rightarrow> mutation_def \<Rightarrow> ('e + js) \<times> cache_cmd list" where
  "run_mutation send m =
     (case send (mu_request m) of
        Inl e \<Rightarrow> (Inl e, [])
      | Inr d \<Rightarrow> (Inr (mu_result m d), mu_done m d))"

text \<open>The header every call with an idempotency key sends.\<close>

definition idem_header :: "string \<Rightarrow> (string \<times> string) list" where
  "idem_header key = [(''Idempotency-Key'', key)]"

text \<open>Cache keys built of strings.\<close>

definition skey :: "string list \<Rightarrow> js list" where
  "skey = map JStr"

section \<open>Refreshing the cache\<close>

text \<open>A command refreshes a cached query: an invalidation that matches it, its own replacement, or the clearing of everything.\<close>

definition refreshed_by :: "(js list \<Rightarrow> js list \<Rightarrow> bool) \<Rightarrow> cache_cmd \<Rightarrow> js list \<Rightarrow> bool" where
  "refreshed_by matches c key =
     (case c of InvalidateQueries k \<Rightarrow> matches k key | SetQueryData k _ \<Rightarrow> k = key | ClearCache \<Rightarrow> True)"

definition refreshed :: "(js list \<Rightarrow> js list \<Rightarrow> bool) \<Rightarrow> cache_cmd list \<Rightarrow> js list \<Rightarrow> bool" where
  "refreshed matches cmds key = (\<exists>c \<in> set cmds. refreshed_by matches c key)"

locale query_matching =
  fixes matches :: "js list \<Rightarrow> js list \<Rightarrow> bool"
  assumes prefix_matches: "prefix k key \<Longrightarrow> matches k key"
begin

lemma refreshed_prefix: "InvalidateQueries k \<in> set cmds \<Longrightarrow> prefix k key \<Longrightarrow> refreshed matches cmds key"
  by (auto simp: refreshed_def refreshed_by_def intro!: bexI [of _ "InvalidateQueries k"] prefix_matches)

lemma refreshed_of_member:
  "c \<in> set cmds \<Longrightarrow> c = InvalidateQueries k \<Longrightarrow> key = k @ rest \<Longrightarrow> refreshed matches cmds key"
  by (rule refreshed_prefix) (auto simp: prefix_def)

end

text \<open>The reference matching: exactly the keys that start with the filter.\<close>

definition prefix_key :: "js list \<Rightarrow> js list \<Rightarrow> bool" where
  "prefix_key k key = (take (length k) key = k)"

lemma prefix_key_prefix: "prefix_key k key \<longleftrightarrow> prefix k key"
  by (metis append_eq_conv_conj prefix_def prefix_key_def)

interpretation pm: query_matching prefix_key
  by unfold_locales (simp add: prefix_key_prefix)

lemma refreshed_prefix_key:
  "refreshed prefix_key cmds key \<longleftrightarrow>
     (\<exists>c \<in> set cmds. case c of InvalidateQueries k \<Rightarrow> prefix_key k key | SetQueryData k _ \<Rightarrow> k = key | ClearCache \<Rightarrow> True)"
  by (simp add: refreshed_def refreshed_by_def)

text \<open>Whether executing the commands makes the client refetch (or replaces) the entry of a key.\<close>

definition stale_after :: "cache_cmd list \<Rightarrow> js list \<Rightarrow> bool" where
  "stale_after cmds key = refreshed prefix_key cmds key"

lemma stale_after_Nil [simp]: "\<not> stale_after [] key"
  by (simp add: stale_after_def refreshed_prefix_key)

lemma stale_after_Cons [simp]:
  "stale_after (InvalidateQueries k # cmds) key \<longleftrightarrow> prefix_key k key \<or> stale_after cmds key"
  "stale_after (SetQueryData k d # cmds) key \<longleftrightarrow> k = key \<or> stale_after cmds key"
  "stale_after (ClearCache # cmds) key"
  by (auto simp: stale_after_def refreshed_prefix_key)

lemma prefix_key_simps [simp]:
  "prefix_key [] key"
  "prefix_key (a # k) (b # key) \<longleftrightarrow> a = b \<and> prefix_key k key"
  "\<not> prefix_key (a # k) []"
  by (auto simp: prefix_key_def)

lemma stale_after_append [simp]: "stale_after (cs @ ds) key \<longleftrightarrow> stale_after cs key \<or> stale_after ds key"
  by (auto simp: stale_after_def refreshed_prefix_key)

section \<open>Keys determine what is fetched\<close>

text \<open>
  The contract that makes a cache sound: two uses of a hook with the same key fetch the same thing, so
  data cached for one argument is never shown for another. A family is one hook, by its arguments.
\<close>

text \<open>
  Everything that writes to the cache: a fetch of one of the hooks (an argument of the hook with the server it was
  answered by), a mutation (with its server), the clearing of a sign-in or sign-out, and the query client dropping an
  entry nobody uses. A previous key's data shown while a new key loads (\<^verbatim>\<open>placeholderData\<close>) is not written to it.
\<close>

datatype ('a, 'e) cache_event =
    Fetched 'a "request \<Rightarrow> 'e + js" | Mutated mutation_def "request \<Rightarrow> 'e + js" | Cleared | Dropped "js list"

type_synonym query_cache = "js list \<Rightarrow> js option"

fun apply_cmd :: "cache_cmd \<Rightarrow> query_cache \<Rightarrow> query_cache" where
  "apply_cmd (InvalidateQueries k) c = c"
| "apply_cmd (SetQueryData k d) c = c(k := Some d)"
| "apply_cmd ClearCache c = (\<lambda>_. None)"

text \<open>The cache after a history, latest event first: an enabled query that succeeds stores its result under its key.\<close>

fun fill_cache :: "('a \<Rightarrow> 'e query_def) \<Rightarrow> ('a, 'e) cache_event list \<Rightarrow> query_cache" where
  "fill_cache hook [] = (\<lambda>_. None)"
| "fill_cache hook (Fetched a send # hist) =
     (if qd_enabled (hook a)
      then (case qd_fetch (hook a) send of
              Inl _ \<Rightarrow> fill_cache hook hist
            | Inr d \<Rightarrow> (fill_cache hook hist)(qd_key (hook a) := Some d))
      else fill_cache hook hist)"
| "fill_cache hook (Mutated m send # hist) = fold apply_cmd (snd (run_mutation send m)) (fill_cache hook hist)"
| "fill_cache hook (Cleared # hist) = apply_cmd ClearCache (fill_cache hook hist)"
| "fill_cache hook (Dropped k # hist) = (fill_cache hook hist)(k := None)"

lemma fold_apply_cmd:
  "fold apply_cmd cs c key = Some d \<Longrightarrow> SetQueryData key d \<in> set cs \<or> c key = Some d"
proof (induction cs arbitrary: c)
  case (Cons x cs)
  then have "SetQueryData key d \<in> set cs \<or> apply_cmd x c key = Some d" by simp
  then show ?case by (cases x) (auto split: if_splits)
qed simp

text \<open>The data a mutation of the history wrote under a key itself.\<close>

definition set_by_mutation :: "('a, 'e) cache_event list \<Rightarrow> js list \<Rightarrow> js \<Rightarrow> bool" where
  "set_by_mutation hist key d =
     (\<exists>m send r. Mutated m send \<in> set hist \<and> send (mu_request m) = Inr r \<and> SetQueryData key d \<in> set (mu_done m r))"

lemma set_by_mutation_Cons: "set_by_mutation hist key d \<Longrightarrow> set_by_mutation (e # hist) key d"
  by (auto simp: set_by_mutation_def)

locale keyed_queries =
  fixes hook :: "'a \<Rightarrow> 'e query_def"
  assumes key_determines: "qd_key (hook a) = qd_key (hook b) \<Longrightarrow> qd_enabled (hook a) \<Longrightarrow> qd_enabled (hook b) \<Longrightarrow>
      qd_fetch (hook a) = qd_fetch (hook b)"
begin

lemma cached_is_own:
  assumes "fill_cache hook hist (qd_key (hook b)) = Some d" and "qd_enabled (hook b)"
  shows "(\<exists>a send. Fetched a send \<in> set hist \<and> qd_fetch (hook b) send = Inr d) \<or> set_by_mutation hist (qd_key (hook b)) d"
  using assms(1)
proof (induction hist)
  case (Cons e hist)
  show ?case
  proof (cases "fill_cache hook hist (qd_key (hook b)) = Some d")
    case True
    then show ?thesis using Cons.IH set_by_mutation_Cons by fastforce
  next
    case False
    note new = Cons.prems False
    show ?thesis
    proof (cases e)
      case (Fetched a send)
      then have "qd_enabled (hook a)" "qd_key (hook a) = qd_key (hook b)" "qd_fetch (hook a) send = Inr d"
        using new by (auto split: if_splits sum.splits)
      then show ?thesis using key_determines [of a b] assms(2) Fetched by fastforce
    next
      case (Mutated m send)
      then have "SetQueryData (qd_key (hook b)) d \<in> set (snd (run_mutation send m))"
        using new fold_apply_cmd by fastforce
      then obtain r where "send (mu_request m) = Inr r" "SetQueryData (qd_key (hook b)) d \<in> set (mu_done m r)"
        by (auto simp: run_mutation_def split: sum.splits)
      then have "set_by_mutation (e # hist) (qd_key (hook b)) d"
        unfolding set_by_mutation_def Mutated by (intro exI [of _ m] exI [of _ send] exI [of _ r]) simp
      then show ?thesis ..
    qed (use new in \<open>auto split: if_splits\<close>)
  qed
qed simp

end

lemma use_query_simps [simp]:
  "qd_key (use_query key f) = key" "qd_enabled (use_query key f)" "qd_fetch (use_query key f) = f"
  "\<not> qd_always (use_query key f)" "qd_interval (use_query key f) = (\<lambda>_. None)" "qd_stale (use_query key f) = 30000"
  by (simp_all add: use_query_def)

lemma use_mutation_simps [simp]:
  "mu_request (use_mutation rq cmds) = rq" "mu_result (use_mutation rq cmds) = (\<lambda>d. d)"
  "mu_done (use_mutation rq cmds) = (\<lambda>_. cmds)"
  by (simp_all add: use_mutation_def)

lemma run_mutation_cmds:
  "run_mutation send m = (r, cmds) \<Longrightarrow> cmds \<noteq> [] \<Longrightarrow> \<exists>d. send (mu_request m) = Inr d \<and> cmds = mu_done m d"
  by (auto simp: run_mutation_def split: sum.splits)

lemma skey_simps [simp]: "skey [] = []" "skey (s # ss) = JStr s # skey ss"
  by (simp_all add: skey_def)

lemma skey_inj [simp]: "skey xs = skey ys \<longleftrightarrow> xs = ys"
  by (simp add: skey_def inj_map_eq_map inj_def)

definition js_nat_opt :: "nat option \<Rightarrow> js" where
  "js_nat_opt n = (case n of None \<Rightarrow> JUndef | Some k \<Rightarrow> JNum (of_nat k))"

lemma js_opt_inj [simp]: "js_opt s = js_opt t \<longleftrightarrow> s = t"
  by (cases s; cases t) simp_all

lemma js_nat_opt_inj [simp]: "js_nat_opt s = js_nat_opt t \<longleftrightarrow> s = t"
  by (cases s; cases t) (simp_all add: js_nat_opt_def)

text \<open>
  The two ways an optional argument reaches a key as \<^verbatim>\<open>s ?? ''\<close> and the request: a path parameter of a query
  that is enabled only when it is given, and a query parameter that is only sent when it is non-empty.
\<close>

lemma same_id_call:
  "str_truthy s \<Longrightarrow> str_truthy t \<Longrightarrow> str_or s [] = str_or t [] \<Longrightarrow>
   one_call (http_get p ((k, str_or s d) # ps) q) f = one_call (http_get p ((k, str_or t d) # ps) q) f"
  by (cases s; cases t) simp_all

lemma same_param_call:
  "str_or s [] = str_or t [] \<Longrightarrow>
   one_call (http_get p ps (q @ opt_param k s)) f = one_call (http_get p ps (q @ opt_param k t)) f"
  "str_or s [] = str_or t [] \<Longrightarrow>
   one_call (http_get p ps (opt_param k s)) f = one_call (http_get p ps (opt_param k t)) f"
  "str_or s [] = str_or t [] \<Longrightarrow>
   one_call (http_get p ps (a # opt_param k s)) f = one_call (http_get p ps (a # opt_param k t)) f"
  "str_or s [] = str_or t [] \<Longrightarrow>
   one_call (http_get p ps (a # b # opt_param k s)) f = one_call (http_get p ps (a # b # opt_param k t)) f"
  using opt_param_str_or [of s t k] by simp_all

text \<open>The requests of a query function: what it sends first, read off by a server that throws every request back.\<close>

definition first_request :: "request query_def \<Rightarrow> request option" where
  "first_request q = (case qd_fetch q Inl of Inl rq \<Rightarrow> Some rq | Inr _ \<Rightarrow> None)"

lemma one_call_first [simp]: "one_call rq f Inl = Inl rq"
  by (simp add: one_call_def)

end
