(* ===== verification/Session_Hooks.thy ===== *)
theory Session_Hooks
  imports Query_Core
begin

text \<open>
  The hooks over sessions and the queue (\<^verbatim>\<open>api/hooks/useSessions.ts\<close>, \<^verbatim>\<open>useCreateSession.ts\<close>, \<^verbatim>\<open>useQueue.ts\<close>,
  \<^verbatim>\<open>useDashboard.ts\<close>, \<^verbatim>\<open>useMonitor.ts\<close>) and the event streams (\<^verbatim>\<open>lib/sse.ts\<close>).
\<close>

section \<open>Sessions\<close>

definition sessionKeys_all :: "js list" where
  "sessionKeys_all = skey [''sessions'']"

definition sessionKeys_list :: "js \<Rightarrow> js list" where
  "sessionKeys_list f = skey [''sessions'', ''list''] @ [f]"

definition sessionKeys_detail :: "string \<Rightarrow> js list" where
  "sessionKeys_detail sid = skey [''sessions'', ''detail'', sid]"

definition invalidateSessionAdjacent :: "cache_cmd list" where
  "invalidateSessionAdjacent =
     [InvalidateQueries sessionKeys_all,
      InvalidateQueries (skey [''dashboard'']),
      InvalidateQueries (skey [''gpu-availability'']),
      InvalidateQueries (skey [''wallet'']),
      InvalidateQueries (skey [''monitor''])]"

definition useTerminateSession :: "string \<Rightarrow> mutation_def" where
  "useTerminateSession sid =
     (use_mutation (http_send DELETE ''/api/v1/sessions/{session_id}'' [(''session_id'', sid)] None [])
       invalidateSessionAdjacent)\<lparr>mu_result := \<lambda>_. JUndef\<rparr>"

definition useBulkTerminateSessions :: "string list \<Rightarrow> mutation_def" where
  "useBulkTerminateSessions ids =
     use_mutation (http_send POST ''/api/v1/sessions/bulk-terminate'' []
         (Some (JObj [(''session_ids'', JArr (map JStr ids))])) [])
       invalidateSessionAdjacent"

definition useSessionAction :: "string \<Rightarrow> string \<Rightarrow> mutation_def" where
  "useSessionAction action sid =
     use_mutation (http_send POST (''/api/v1/sessions/{session_id}/'' @ action) [(''session_id'', sid)] None [])
       (InvalidateQueries (sessionKeys_detail sid) # invalidateSessionAdjacent)"

definition useStopSession :: "string \<Rightarrow> mutation_def" where
  "useStopSession = useSessionAction ''stop''"

definition useStartSession :: "string \<Rightarrow> mutation_def" where
  "useStartSession = useSessionAction ''start''"

definition useRestartSession :: "string \<Rightarrow> mutation_def" where
  "useRestartSession = useSessionAction ''restart''"

record session_filter =
  sf_status :: "string option"
  sf_page :: "nat option"

definition js_session_filter :: "session_filter \<Rightarrow> js" where
  "js_session_filter f = JObj [(''status'', js_opt (sf_status f)), (''page'', js_nat_opt (sf_page f))]"

text \<open>\<^verbatim>\<open>pageTotal(data) ?? rows.length\<close>\<close>

definition total_or_length :: "js \<Rightarrow> rat option" where
  "total_or_length data =
     Some (case pageTotal data of None \<Rightarrow> of_nat (length (env_rows data)) | Some t \<Rightarrow> t)"

definition useSessions :: "session_filter \<Rightarrow> 'e query_def" where
  "useSessions flt =
     (use_query (sessionKeys_list (js_session_filter flt))
       (\<lambda>send. map_res JArr
          (fetch_listing send ''/api/v1/sessions'' [(''status'', js_opt (sf_status flt))] env_rows total_or_length)))
     \<lparr>qd_always := True\<rparr>"

definition useSession :: "string \<Rightarrow> 'e query_def" where
  "useSession sid =
     (use_query (sessionKeys_detail sid)
       (one_call (http_get ''/api/v1/sessions/{session_id}'' [(''session_id'', sid)] []) (\<lambda>d. d)))
     \<lparr>qd_always := True,
      qd_interval := \<lambda>d. if coalesce (js_get ''status'' d) (JStr []) \<in> {JStr ''terminated'', JStr ''error''}
                         then None else Some 4000\<rparr>"

definition useSessionTimeline :: "string \<Rightarrow> 'e query_def" where
  "useSessionTimeline sid =
     (use_query (skey [''sessions'', ''timeline'', sid])
       (one_call (http_get ''/api/v1/sessions/{session_id}/timeline'' [(''session_id'', sid)] []) data_or_empty))
     \<lparr>qd_interval := \<lambda>_. Some 15000\<rparr>"

definition useSessionConnections :: "string \<Rightarrow> bool \<Rightarrow> 'e query_def" where
  "useSessionConnections sid enabled =
     (use_query (skey [''sessions'', ''connections'', sid])
       (one_call (http_get ''/api/v1/sessions/{session_id}/connections'' [(''session_id'', sid)] []) or_empty))
     \<lparr>qd_enabled := enabled\<rparr>"

definition useOwnSessionUsage :: "string option \<Rightarrow> 'e query_def" where
  "useOwnSessionUsage sid =
     (use_query (skey [''session'', str_or sid [], ''usage''])
       (one_call (http_get ''/api/v1/sessions/{session_id}/usage'' [(''session_id'', str_or sid ''undefined'')] []) (\<lambda>d. d)))
     \<lparr>qd_enabled := str_truthy sid, qd_interval := \<lambda>_. Some 5000\<rparr>"

definition useOwnSessionUsageSeries :: "string option \<Rightarrow> string \<Rightarrow> bool \<Rightarrow> 'e query_def" where
  "useOwnSessionUsageSeries sid rng live =
     (use_query (skey [''session'', str_or sid [], ''usage-series'', rng])
       (one_call (http_get ''/api/v1/sessions/{session_id}/usage/timeseries''
          [(''session_id'', str_or sid ''undefined'')] [(''range'', JStr rng)]) (\<lambda>d. d)))
     \<lparr>qd_enabled := str_truthy sid,
      qd_interval := \<lambda>_. if live then Some (if rng = ''15m'' then 5000 else 15000) else None\<rparr>"

definition useOwnSessionUsageLive :: "string option \<Rightarrow> bool \<Rightarrow> 'e query_def" where
  "useOwnSessionUsageLive sid enabled =
     (use_query (skey [''session'', str_or sid [], ''usage-live''])
       (one_call (http_get ''/api/v1/sessions/{session_id}/usage/live'' [(''session_id'', str_or sid ''undefined'')] []) (\<lambda>d. d)))
     \<lparr>qd_enabled := str_truthy sid \<and> enabled,
      qd_interval := \<lambda>_. if enabled then Some 1000 else None\<rparr>"

section \<open>Creating sessions, the queue, the dashboard\<close>

definition useCreateSession :: "js \<Rightarrow> string \<Rightarrow> mutation_def" where
  "useCreateSession body key =
     use_mutation (http_send POST ''/api/v1/sessions'' [] (Some body) (idem_header key)) invalidateSessionAdjacent"

definition usePreviewCost :: "js \<Rightarrow> mutation_def" where
  "usePreviewCost body = use_mutation (http_send POST ''/api/v1/sessions/preview-cost'' [] (Some body) []) []"

definition useQueue :: "string option \<Rightarrow> 'e query_def" where
  "useQueue clusterId =
     (use_query (skey [''queue'', ''mine'', str_or clusterId []])
       (one_call (http_get ''/api/v1/queue/mine'' [] (opt_param ''cluster_id'' clusterId)) data_or_empty))
     \<lparr>qd_interval := \<lambda>_. Some 5000\<rparr>"

definition useCancelQueueEntry :: "string \<Rightarrow> mutation_def" where
  "useCancelQueueEntry entryId =
     (use_mutation (http_send DELETE ''/api/v1/queue/{queue_entry_id}'' [(''queue_entry_id'', entryId)] None [])
       [InvalidateQueries (skey [''queue'', ''mine''])])\<lparr>mu_result := \<lambda>_. JUndef\<rparr>"

definition useDashboardSummary :: "'e query_def" where
  "useDashboardSummary =
     (use_query (skey [''dashboard'', ''summary'']) (one_call (http_get ''/api/v1/dashboard/summary'' [] []) (\<lambda>d. d)))
     \<lparr>qd_always := True, qd_interval := \<lambda>_. Some 15000\<rparr>"

section \<open>The administrators' monitor\<close>

definition monitorKeys_sessions :: "js \<Rightarrow> js list" where
  "monitorKeys_sessions f = skey [''monitor'', ''sessions''] @ [f]"

definition monitorKeys_queue :: "js \<Rightarrow> js list" where
  "monitorKeys_queue f = skey [''monitor'', ''queue''] @ [f]"

definition monitorKeys_nodes :: "js \<Rightarrow> js list" where
  "monitorKeys_nodes f = skey [''monitor'', ''nodes''] @ [f]"

definition monitorKeys_cluster :: "js list" where
  "monitorKeys_cluster = skey [''monitor'', ''cluster'']"

record SessionMonitorFilter =
  mf_status :: "string option"
  mf_cluster_id :: "string option"
  mf_group_id :: "string option"
  mf_owner_id :: "string option"
  mf_node_id :: "string option"
  mf_page :: "nat option"
  mf_size :: "nat option"

definition js_monitor_filter :: "SessionMonitorFilter \<Rightarrow> js" where
  "js_monitor_filter f =
     JObj [(''status'', js_opt (mf_status f)), (''cluster_id'', js_opt (mf_cluster_id f)),
           (''group_id'', js_opt (mf_group_id f)), (''owner_id'', js_opt (mf_owner_id f)),
           (''node_id'', js_opt (mf_node_id f)), (''page'', js_nat_opt (mf_page f)), (''size'', js_nat_opt (mf_size f))]"

definition all_sessions_request :: "SessionMonitorFilter \<Rightarrow> nat \<Rightarrow> request" where
  "all_sessions_request f page =
     http_get ''/api/v1/sessions'' []
       [(''status'', js_opt (mf_status f)), (''group_id'', js_opt (mf_group_id f)), (''cluster_id'', js_opt (mf_cluster_id f)),
        (''page'', JNum (of_nat page)), (''size'', JNum 100), (''scope'', JStr ''all'')]"

text \<open>The hook's own loop over the pages, with \<^verbatim>\<open>SIZE = 100\<close> and at most 20 pages.\<close>

function all_sessions_loop ::
  "(request \<Rightarrow> 'e + js) \<Rightarrow> SessionMonitorFilter \<Rightarrow> nat \<Rightarrow> js list \<Rightarrow> 'e + js list" where
  "all_sessions_loop send f page out =
     (if 20 < page then Inr out
      else case send (all_sessions_request f page) of
             Inl e \<Rightarrow> Inl e
           | Inr env \<Rightarrow>
               (let rows = env_rows env;
                    out' = out @ rows;
                    tot = (if is_array env then of_nat (length out')
                           else case pageTotal env of None \<Rightarrow> of_nat (length out') | Some t \<Rightarrow> t)
                in if length rows < 100 \<or> tot \<le> of_nat (length out') then Inr out'
                   else all_sessions_loop send f (Suc page) out'))"
  by pat_completeness auto
termination
  by (relation "measure (\<lambda>(_, _, page, _). 21 - page)") auto

declare all_sessions_loop.simps [simp del]

definition useAllSessions :: "SessionMonitorFilter \<Rightarrow> bool \<Rightarrow> 'e query_def" where
  "useAllSessions flt livePaused =
     (use_query (monitorKeys_sessions (js_monitor_filter flt))
       (\<lambda>send. map_res JArr (all_sessions_loop send flt 1 [])))
     \<lparr>qd_interval := \<lambda>_. if livePaused then Some 4000 else None\<rparr>"

record QueueFilter =
  qf_status :: "string option"
  qf_group_id :: "string option"
  qf_cluster_id :: "string option"
  qf_page :: "nat option"
  qf_size :: "nat option"

definition js_queue_filter :: "QueueFilter \<Rightarrow> js" where
  "js_queue_filter f =
     JObj [(''status'', js_opt (qf_status f)), (''group_id'', js_opt (qf_group_id f)), (''cluster_id'', js_opt (qf_cluster_id f)),
           (''page'', js_nat_opt (qf_page f)), (''size'', js_nat_opt (qf_size f))]"

definition useAdminQueue :: "QueueFilter \<Rightarrow> bool \<Rightarrow> 'e query_def" where
  "useAdminQueue flt livePaused =
     (use_query (monitorKeys_queue (js_queue_filter flt))
       (\<lambda>send. map_res JArr (fetch_listing send ''/api/v1/queue''
          [(''group_id'', js_opt (qf_group_id flt)), (''cluster_id'', js_opt (qf_cluster_id flt))] data_rows pageTotal)))
     \<lparr>qd_interval := \<lambda>_. if livePaused then Some 5000 else None\<rparr>"

definition useNodes :: "string option \<Rightarrow> string option \<Rightarrow> string option \<Rightarrow> bool \<Rightarrow> 'e query_def" where
  "useNodes status region gpu_mode enabled =
     (use_query (monitorKeys_nodes (JObj [(''status'', js_opt status), (''region'', js_opt region), (''gpu_mode'', js_opt gpu_mode)]))
       (\<lambda>send. map_res JArr (fetch_listing send ''/api/v1/nodes''
          [(''status'', js_opt status), (''region'', js_opt region)] data_rows pageTotal)))
     \<lparr>qd_enabled := enabled, qd_interval := \<lambda>_. Some 15000\<rparr>"

definition useClusterMetrics :: "string option \<Rightarrow> string option \<Rightarrow> bool \<Rightarrow> 'e query_def" where
  "useClusterMetrics region cluster_id enabled =
     (let query = [(''region'', js_opt region), (''cluster_id'', js_opt cluster_id)] in
      (use_query (monitorKeys_cluster @ [JObj query]) (one_call (http_get ''/api/v1/metrics/cluster'' [] query) (\<lambda>d. d)))
      \<lparr>qd_enabled := enabled, qd_interval := \<lambda>_. Some 15000\<rparr>)"

definition useForceTerminate :: "string \<Rightarrow> string \<Rightarrow> string \<Rightarrow> mutation_def" where
  "useForceTerminate sessionId reason key =
     use_mutation (http_send POST ''/api/v1/sessions/{session_id}/force-terminate'' [(''session_id'', sessionId)]
         (Some (JObj [(''reason'', JStr reason)])) (idem_header key))
       [InvalidateQueries (skey [''monitor''])]"

definition useSetQueuePriority :: "string \<Rightarrow> rat \<Rightarrow> mutation_def" where
  "useSetQueuePriority entryId priority =
     use_mutation (http_send PATCH ''/api/v1/queue/{queue_entry_id}'' [(''queue_entry_id'', entryId)]
         (Some (JObj [(''priority'', JNum priority)])) [])
       [InvalidateQueries (skey [''monitor'', ''queue''])]"

definition useSessionUsage :: "string option \<Rightarrow> 'e query_def" where
  "useSessionUsage sid =
     (use_query (skey [''monitor'', ''session-usage'', str_or sid []])
       (one_call (http_get ''/api/v1/monitoring/sessions/{session_id}/usage'' [(''session_id'', str_or sid ''undefined'')] []) (\<lambda>d. d)))
     \<lparr>qd_enabled := str_truthy sid, qd_interval := \<lambda>_. Some 5000\<rparr>"

section \<open>Event streams\<close>

text \<open>
  The source a subscription opens: path and query parameters, before URL encoding. The token travels as
  a parameter because an \<^verbatim>\<open>EventSource\<close> sets no headers.
\<close>

record event_source =
  es_path :: string
  es_params :: "(string \<times> string) list"

definition if_param :: "string \<Rightarrow> string option \<Rightarrow> (string \<times> string) list" where
  "if_param k v = (if str_truthy v then [(k, the v)] else [])"

definition subscribeSessionEvents :: "AuthState \<Rightarrow> string \<Rightarrow> event_source" where
  "subscribeSessionEvents s sessionId =
     \<lparr>es_path = ''/sessions/'' @ sessionId @ ''/events'',
      es_params = if_param ''access_token'' (accessToken s) @ if_param ''group_id'' (activeProjectId s)\<rparr>"

definition subscribeNotifications :: "AuthState \<Rightarrow> event_source" where
  "subscribeNotifications s =
     \<lparr>es_path = ''/notifications/events'', es_params = if_param ''access_token'' (accessToken s)\<rparr>"

record MonitorSseOptions =
  ms_scope :: "string option"
  ms_scope_id :: "string option"
  ms_group_id :: "string option"

definition sessions_stream_source :: "AuthState \<Rightarrow> MonitorSseOptions \<Rightarrow> event_source" where
  "sessions_stream_source s opts =
     \<lparr>es_path = ''/sessions/events'',
      es_params = if_param ''access_token'' (accessToken s) @ if_param ''scope'' (ms_scope opts) @
        if_param ''scope_id'' (ms_scope_id opts) @
        if_param ''group_id'' (case ms_group_id opts of None \<Rightarrow> activeProjectId s | Some g \<Rightarrow> Some g)\<rparr>"

text \<open>
  \<^verbatim>\<open>useSessionsStream\<close> as a machine: what the browser delivers, the flag the hook returns, and the cache
  commands each event issues. A named event outside the three the hook listens to (a heartbeat) does
  nothing; a cleaned-up effect closes the source.
\<close>

datatype sse_event = SseOpen | SseNamed string | SseMessage | SseError | SseCleanup | SseMount

record stream =
  st_open :: bool
  st_connected :: bool

definition stream_refresh :: "cache_cmd list" where
  "stream_refresh =
     [InvalidateQueries (skey [''monitor'', ''sessions'']),
      InvalidateQueries (skey [''monitor'', ''queue'']),
      InvalidateQueries (skey [''sessions'']),
      InvalidateQueries (skey [''dashboard'']),
      InvalidateQueries (skey [''gpu-availability'']),
      InvalidateQueries (skey [''wallet''])]"

fun stream_step :: "stream \<Rightarrow> sse_event \<Rightarrow> stream \<times> cache_cmd list" where
  "stream_step s SseMount = (s\<lparr>st_open := True\<rparr>, [])"
| "stream_step s SseCleanup = (s\<lparr>st_open := False, st_connected := False\<rparr>, [])"
| "stream_step s SseOpen = (if st_open s then (s\<lparr>st_connected := True\<rparr>, []) else (s, []))"
| "stream_step s SseError = (if st_open s then (s\<lparr>st_connected := False\<rparr>, []) else (s, []))"
| "stream_step s SseMessage = (if st_open s then (s, stream_refresh) else (s, []))"
| "stream_step s (SseNamed e) =
     (if st_open s \<and> e \<in> {''session.status_changed'', ''session.assigned'', ''queue.updated''}
      then (s, stream_refresh) else (s, []))"

definition stream_init :: stream where
  "stream_init = \<lparr>st_open = False, st_connected = False\<rparr>"

fun stream_run :: "stream \<Rightarrow> sse_event list \<Rightarrow> stream \<times> cache_cmd list" where
  "stream_run s [] = (s, [])"
| "stream_run s (e # es) =
     (let (s1, c1) = stream_step s e; (s2, c2) = stream_run s1 es in (s2, c1 @ c2))"

text \<open>\<^verbatim>\<open>Monitor.tsx\<close>: \<^verbatim>\<open>const livePaused = !connected\<close>, the second argument of the screen's two listings.\<close>

definition monitor_livePaused :: "stream \<Rightarrow> bool" where
  "monitor_livePaused s = (\<not> st_connected s)"

lemmas session_hook_defs = useSessions_def useSession_def useSessionTimeline_def useSessionConnections_def
  useOwnSessionUsage_def useOwnSessionUsageSeries_def useOwnSessionUsageLive_def useQueue_def
  useDashboardSummary_def useAllSessions_def useAdminQueue_def useNodes_def useClusterMetrics_def useSessionUsage_def

lemmas session_key_defs = sessionKeys_all_def sessionKeys_list_def sessionKeys_detail_def
  monitorKeys_sessions_def monitorKeys_queue_def monitorKeys_nodes_def monitorKeys_cluster_def

declare session_hook_defs [hook_defs]

section \<open>The monitor's own loop\<close>

lemma all_sessions_page_query:
  "1 \<le> p \<Longrightarrow> Pagination_of (all_sessions_request f p) = Some \<lparr>pg_page = p, pg_size = 100\<rparr>"
  by (simp add: Pagination_of_def query_nat_def all_sessions_request_def http_get_def)

interpretation monitor_pages: paged_requests "serve_listing shape rows" "all_sessions_request f" rows
  "\<lambda>p. listing_body shape rows \<lparr>pg_page = p, pg_size = 100\<rparr>" for shape rows f
  by unfold_locales
    (simp_all add: serve_listing_def all_sessions_page_query page_window_def pg_offset_def PAGE_MAX_def)

lemma all_sessions_loop_all:
  assumes "1 \<le> page" and "page \<le> 21"
  shows "all_sessions_loop (serve_listing Envelope rows) f page (take ((page - 1) * 100) rows) = Inr (take 2000 rows)"
  using assms
proof (induction "21 - page" arbitrary: page)
  case 0
  then show ?case by (simp add: all_sessions_loop.simps)
next
  case (Suc k)
  then have le: "1 \<le> page" "page \<le> 20" by auto
  let ?body = "listing_body Envelope rows \<lparr>pg_page = page, pg_size = 100\<rparr>"
  have out: "take ((page - 1) * 100) rows @ env_rows ?body = take (page * 100) rows"
    using monitor_pages.pages_so_far [OF le(1)] by (simp add: PAGE_MAX_def)
  have arr: "\<not> is_array ?body" by (simp add: listing_body_def)
  have step: "all_sessions_loop (serve_listing Envelope rows) f page (take ((page - 1) * 100) rows) =
      (if length (env_rows ?body) < 100 \<or> length rows \<le> length (take (page * 100) rows)
       then Inr (take (page * 100) rows)
       else all_sessions_loop (serve_listing Envelope rows) f (Suc page) (take (page * 100) rows))"
    using le by (subst all_sessions_loop.simps)
      (simp add: monitor_pages.page_answer [OF le(1)] out arr Let_def
        del: One_nat_def length_append length_take env_rows_listing_body)
  show ?case
  proof (cases "length (env_rows ?body) < 100 \<or> length rows \<le> page * 100")
    case True
    then have "length rows \<le> page * 100"
      using monitor_pages.page_full_or_last [OF le(1), of Envelope rows] by (auto simp: PAGE_MAX_def)
    then have "take (page * 100) rows = rows" "take 2000 rows = rows" using le by simp_all
    then show ?thesis by (simp add: step del: One_nat_def)
  next
    case False
    have "all_sessions_loop (serve_listing Envelope rows) f (Suc page) (take (page * 100) rows) = Inr (take 2000 rows)"
      using Suc(1) [of "Suc page"] Suc(2) le by simp
    then show ?thesis using False by (simp add: step del: One_nat_def)
  qed
qed

text \<open>C15: The session monitor and the user's session list hold every session the server has, in the server's order, up to
  2,000: the hand-written loop of the monitor collects what the shared paging helper does.\<close>

theorem session_lists_complete:
  "qd_fetch (useAllSessions f livePaused) (serve_listing Envelope rows) = Inr (JArr (take 2000 rows)) \<and>
   qd_fetch (useSessions g) (serve_listing Envelope rows) = Inr (JArr (take 2000 rows))"
proof
  show "qd_fetch (useAllSessions f livePaused) (serve_listing Envelope rows) = Inr (JArr (take 2000 rows))"
    using all_sessions_loop_all [of 1] by (simp add: useAllSessions_def)
  have "fetch_listing (serve_listing Envelope rows) path query env_rows total_or_length = Inr (take 2000 rows)" for path query
    by (rule served.fetch_listing_all) (simp_all add: total_or_length_def)
  then show "qd_fetch (useSessions g) (serve_listing Envelope rows) = Inr (JArr (take 2000 rows))"
    by (simp add: useSessions_def)
qed

section \<open>Live updates or polling\<close>

text \<open>
  The two facts about a subscription, read off its history alone: the source exists when it was created and not cleaned
  up since, and the stream is live when a source that exists has opened and has neither failed nor been cleaned up since.
\<close>

definition stream_mounted :: "sse_event list \<Rightarrow> bool" where
  "stream_mounted es = (\<exists>pre post. es = pre @ SseMount # post \<and> (\<forall>e \<in> set post. e \<noteq> SseCleanup))"

definition stream_live :: "sse_event list \<Rightarrow> bool" where
  "stream_live es =
     (\<exists>pre post. es = pre @ SseOpen # post \<and> stream_mounted pre \<and> (\<forall>e \<in> set post. e \<notin> {SseError, SseCleanup}))"

lemma last_occurrence_snoc:
  "(\<exists>pre post. es @ [e] = pre @ x # post \<and> P pre \<and> (\<forall>y \<in> set post. R y)) \<longleftrightarrow>
   (e = x \<and> P es) \<or> (R e \<and> (\<exists>pre post. es = pre @ x # post \<and> P pre \<and> (\<forall>y \<in> set post. R y)))" (is "?l \<longleftrightarrow> ?r")
proof
  assume ?l
  then obtain pre post where h: "es @ [e] = pre @ x # post" "P pre" "\<forall>y \<in> set post. R y" by blast
  then show ?r by (cases post rule: rev_cases) auto
next
  assume ?r
  then show ?l
  proof (elim disjE conjE exE)
    assume "e = x" "P es"
    then show ?l by (intro exI [of _ es] exI [of _ "[]"]) simp
  next
    fix pre post
    assume "R e" "es = pre @ x # post" "P pre" "\<forall>y \<in> set post. R y"
    then show ?l by (intro exI [of _ pre] exI [of _ "post @ [e]"]) simp
  qed
qed

lemma stream_mounted_snoc: "stream_mounted (es @ [e]) \<longleftrightarrow> e = SseMount \<or> (stream_mounted es \<and> e \<noteq> SseCleanup)"
  using last_occurrence_snoc [of es e SseMount "\<lambda>_. True" "\<lambda>y. y \<noteq> SseCleanup"]
  by (auto simp: stream_mounted_def)

lemma stream_live_snoc:
  "stream_live (es @ [e]) \<longleftrightarrow> (e = SseOpen \<and> stream_mounted es) \<or> (stream_live es \<and> e \<notin> {SseError, SseCleanup})"
  unfolding stream_live_def last_occurrence_snoc by blast

lemma not_mounted_Nil: "\<not> stream_mounted []" "\<not> stream_live []"
  by (simp_all add: stream_mounted_def stream_live_def)

lemma stream_run_snoc: "fst (stream_run s (es @ [e])) = fst (stream_step (fst (stream_run s es)) e)"
  by (induction es arbitrary: s) (simp_all add: split_beta Let_def)

lemma stream_history:
  "st_open (fst (stream_run stream_init es)) = stream_mounted es \<and>
   st_connected (fst (stream_run stream_init es)) = stream_live es \<and> (stream_live es \<longrightarrow> stream_mounted es)"
proof (induction es rule: rev_induct)
  case Nil
  then show ?case by (simp add: stream_init_def not_mounted_Nil)
next
  case (snoc e es)
  then show ?case by (cases e) (auto simp: stream_run_snoc stream_mounted_snoc stream_live_snoc)
qed

text \<open>C19: The monitor polls exactly while its event stream is not live. Over every history of the subscription, as long as
  the stream is live (it opened, and has not failed or been torn down since) the two listings do not poll, and every change
  it announces makes the session, queue, dashboard, GPU-availability and wallet queries stale; at every other moment the
  session list is refetched every 4 seconds and the queue every 5, and a subscription that was torn down refreshes
  nothing.\<close>

theorem monitor_live_or_polling:
  "let s = fst (stream_run stream_init es) in
     (if stream_live es
      then qd_interval (useAllSessions f (monitor_livePaused s)) d = None \<and> qd_interval (useAdminQueue q (monitor_livePaused s)) d = None \<and>
           (\<forall>e \<in> {SseMessage, SseNamed ''session.status_changed'', SseNamed ''session.assigned'', SseNamed ''queue.updated''}.
              \<forall>key \<in> {qd_key (useAllSessions f b), qd_key (useAdminQueue q b), qd_key (useSessions g), qd_key (useSession sid),
                       qd_key useDashboardSummary, skey [''gpu-availability'', ''mine'', []], skey [''wallet'', ''me'']}.
                stale_after (snd (stream_step s e)) key)
      else qd_interval (useAllSessions f (monitor_livePaused s)) d = Some 4000 \<and>
           qd_interval (useAdminQueue q (monitor_livePaused s)) d = Some 5000) \<and>
     (\<not> stream_mounted es \<longrightarrow> (\<forall>e. snd (stream_step s e) = []))"
proof -
  define s where "s = fst (stream_run stream_init es)"
  have h: "st_open s = stream_mounted es" "st_connected s = stream_live es" "stream_live es \<Longrightarrow> stream_mounted es"
    using stream_history [of es] by (auto simp: s_def)
  have "snd (stream_step s e) = []" if "\<not> stream_mounted es" for e
    using that h by (cases e) auto
  then show ?thesis
    unfolding s_def [symmetric] Let_def using h
    by (cases "stream_live es") (simp_all add: monitor_livePaused_def stream_refresh_def session_hook_defs session_key_defs)
qed

text \<open>A stream that opened and then failed is not live, and the session list polls again.\<close>

theorem monitor_live_or_polling_witness:
  "\<not> stream_live [SseMount, SseOpen, SseError] \<and>
   qd_interval (useAllSessions \<lparr>mf_status = None, mf_cluster_id = None, mf_group_id = None, mf_owner_id = None,
      mf_node_id = None, mf_page = None, mf_size = None\<rparr>
      (monitor_livePaused (fst (stream_run stream_init [SseMount, SseOpen, SseError])))) JUndef = Some 4000"
proof -
  have dead: "\<not> stream_live [SseMount, SseOpen, SseError]"
    using stream_live_snoc [of "[SseMount, SseOpen]" SseError] by simp
  then show ?thesis
    using monitor_live_or_polling [of "[SseMount, SseOpen, SseError]"
        "\<lparr>mf_status = None, mf_cluster_id = None, mf_group_id = None, mf_owner_id = None,
          mf_node_id = None, mf_page = None, mf_size = None\<rparr>" JUndef
        "\<lparr>qf_status = None, qf_group_id = None, qf_cluster_id = None, qf_page = None, qf_size = None\<rparr>" True
        "\<lparr>sf_status = None, sf_page = None\<rparr>" "''s''"]
    by (auto simp: Let_def useAllSessions_def split: if_splits)
qed

section \<open>What a session action refreshes\<close>

text \<open>An administrator's forced termination refreshes only the monitor: the user-facing session queries, the dashboard
  and the wallet it changes keep their cached values, unlike after every other way of ending a session.\<close>

theorem force_terminate_leaves_session_queries:
  "\<not> stale_after (mu_done (useForceTerminate sid reason key) d) (qd_key (useSessions f)) \<and>
   \<not> stale_after (mu_done (useForceTerminate sid reason key) d) (qd_key (useSession sid)) \<and>
   \<not> stale_after (mu_done (useForceTerminate sid reason key) d) (qd_key useDashboardSummary) \<and>
   stale_after (mu_done (useTerminateSession sid) d) (qd_key (useSessions f)) \<and>
   stale_after (mu_done (useTerminateSession sid) d) (qd_key (useSession sid)) \<and>
   stale_after (mu_done (useTerminateSession sid) d) (qd_key useDashboardSummary)"
  by (simp add: useForceTerminate_def useTerminateSession_def invalidateSessionAdjacent_def session_hook_defs session_key_defs)

section \<open>Keys determine fetches\<close>

text \<open>Every query hook of this theory, with its arguments.\<close>

datatype session_query_use =
    QSessions session_filter | QSession string | QTimeline string | QConnections string bool
  | QUsage "string option" | QUsageSeries "string option" string bool | QUsageLive "string option" bool
  | QQueue "string option" | QDashboard
  | QAllSessions SessionMonitorFilter bool | QAdminQueue QueueFilter bool
  | QNodes "string option" "string option" "string option" bool
  | QClusterMetrics "string option" "string option" bool | QSessionUsage "string option"

fun session_query :: "session_query_use \<Rightarrow> 'e query_def" where
  "session_query (QSessions f) = useSessions f"
| "session_query (QSession i) = useSession i"
| "session_query (QTimeline i) = useSessionTimeline i"
| "session_query (QConnections i b) = useSessionConnections i b"
| "session_query (QUsage i) = useOwnSessionUsage i"
| "session_query (QUsageSeries i r b) = useOwnSessionUsageSeries i r b"
| "session_query (QUsageLive i b) = useOwnSessionUsageLive i b"
| "session_query (QQueue c) = useQueue c"
| "session_query QDashboard = useDashboardSummary"
| "session_query (QAllSessions f b) = useAllSessions f b"
| "session_query (QAdminQueue q b) = useAdminQueue q b"
| "session_query (QNodes s r g b) = useNodes s r g b"
| "session_query (QClusterMetrics r c b) = useClusterMetrics r c b"
| "session_query (QSessionUsage i) = useSessionUsage i"

lemma js_session_filter_eq: "js_session_filter f = js_session_filter g \<longleftrightarrow> f = g"
  by (cases f; cases g) (auto simp: js_session_filter_def)

lemma js_monitor_filter_eq: "js_monitor_filter f = js_monitor_filter g \<longleftrightarrow> f = g"
  by (cases f; cases g) (auto simp: js_monitor_filter_def)

lemma js_queue_filter_eq: "js_queue_filter f = js_queue_filter g \<longleftrightarrow> f = g"
  by (cases f; cases g) (auto simp: js_queue_filter_def)

interpretation session_keys: keyed_queries session_query
proof
  fix a b :: session_query_use
  assume "qd_key (session_query a :: 'e query_def) = qd_key (session_query b :: 'e query_def)"
    "qd_enabled (session_query a :: 'e query_def)" "qd_enabled (session_query b :: 'e query_def)"
  then show "qd_fetch (session_query a) = (qd_fetch (session_query b) :: (request \<Rightarrow> 'e + js) \<Rightarrow> 'e + js)"
    by (cases a; cases b)
      (auto simp: session_hook_defs session_key_defs js_session_filter_eq js_monitor_filter_eq js_queue_filter_eq Let_def
        intro: same_id_call same_param_call)
qed

end
