(* ===== verification/Billing_Hooks.thy ===== *)
theory Billing_Hooks
  imports Session_Hooks
begin

text \<open>
  The hooks over wallets, top-ups and credit allocation (\<^verbatim>\<open>api/hooks/useWallet.ts\<close>, \<^verbatim>\<open>useBilling.ts\<close>,
  \<^verbatim>\<open>useAllocations.ts\<close>). Amounts travel as strings; request bodies are the objects the screens pass.
\<close>

section \<open>The caller's wallet\<close>

definition useWallet :: "'e query_def" where
  "useWallet = use_query (skey [''wallet'', ''me'']) (one_call (http_get ''/api/v1/credits/wallets/me'' [] []) (\<lambda>d. d))"

text \<open>\<^verbatim>\<open>Array.isArray(body) ? body : body?.data ?? body?.items ?? []\<close>\<close>

definition unwrapList :: "js \<Rightarrow> js" where
  "unwrapList body =
     (if is_array body then body
      else coalesce (js_get ''data'' body) (coalesce (js_get ''items'' body) (JArr [])))"

definition useWalletTransactions :: "string option \<Rightarrow> 'e query_def" where
  "useWalletTransactions walletId =
     (use_query (skey [''wallet'', ''transactions''] @ [js_opt walletId])
       (one_call (http_get ''/api/v1/credits/wallets/{wallet_id}/transactions'' [(''wallet_id'', str_or walletId ''undefined'')]
          [(''size'', JNum 50), (''group'', JStr ''session'')]) unwrapList))
     \<lparr>qd_enabled := str_truthy walletId, qd_interval := \<lambda>_. Some 15000\<rparr>"

definition useMyTopupRequests :: "'e query_def" where
  "useMyTopupRequests =
     use_query (skey [''topup-requests'', ''mine''])
       (one_call (http_get ''/api/v1/credits/topup-requests'' [] [(''page'', JNum 1), (''size'', JNum 100)]) data_or_empty)"

definition useTopupRequest :: "js \<Rightarrow> string \<Rightarrow> mutation_def" where
  "useTopupRequest body key =
     use_mutation (http_send POST ''/api/v1/credits/topup-requests'' [] (Some body) (idem_header key))
       [InvalidateQueries (skey [''wallet''])]"

text \<open>\<open>tz\<close> is the viewer's \<^verbatim>\<open>new Date().getTimezoneOffset()\<close>.\<close>

definition useSpendDaily :: "int \<Rightarrow> string option \<Rightarrow> string \<Rightarrow> string \<Rightarrow> 'e query_def" where
  "useSpendDaily tz walletId from to =
     (use_query (skey [''wallet'', ''spend-daily''] @ [js_opt walletId, JStr from, JStr to])
       (one_call (http_get ''/api/v1/credits/wallets/{wallet_id}/spend-daily'' [(''wallet_id'', str_or walletId ''undefined'')]
          [(''from'', JStr from), (''to'', JStr to), (''tz_offset_min'', JNum (of_int (- tz)))]) or_empty))
     \<lparr>qd_enabled := str_truthy walletId \<and> from \<noteq> [] \<and> to \<noteq> []\<rparr>"

section \<open>Wallets, top-up requests and the settlement report\<close>

definition billingKeys_wallets :: "js \<Rightarrow> js list" where
  "billingKeys_wallets f = skey [''credits'', ''wallets''] @ [f]"

definition billingKeys_topupRequests :: "js \<Rightarrow> js list" where
  "billingKeys_topupRequests f = skey [''credits'', ''topup-requests''] @ [f]"

definition billingKeys_report :: "js \<Rightarrow> js list" where
  "billingKeys_report q = skey [''metrics'', ''billing-report''] @ [q]"

record WalletFilter =
  wf_owner_type :: "string option"
  wf_owner_id :: "string option"
  wf_page :: "nat option"
  wf_size :: "nat option"

definition js_wallet_filter :: "WalletFilter \<Rightarrow> (string \<times> js) list" where
  "js_wallet_filter f =
     [(''owner_type'', js_opt (wf_owner_type f)), (''owner_id'', js_opt (wf_owner_id f)),
      (''page'', js_nat_opt (wf_page f)), (''size'', js_nat_opt (wf_size f))]"

text \<open>\<^verbatim>\<open>rows = data ?? []\<close>, with \<^verbatim>\<open>rows.length\<close> passed as the total.\<close>

definition own_length :: "js \<Rightarrow> rat option" where
  "own_length data = Some (of_nat (length (js_elems data)))"

definition useWallets :: "WalletFilter \<Rightarrow> 'e query_def" where
  "useWallets flt =
     use_query (billingKeys_wallets (JObj (js_wallet_filter flt)))
       (\<lambda>send. map_res JArr (fetch_listing send ''/api/v1/credits/wallets'' (js_wallet_filter flt) js_elems own_length))"

record TopupRequestFilter =
  tf_status :: "string option"
  tf_wallet_id :: "string option"
  tf_page :: "nat option"
  tf_size :: "nat option"
  tf_scope :: "string option"

definition js_topup_filter :: "TopupRequestFilter \<Rightarrow> (string \<times> js) list" where
  "js_topup_filter f =
     [(''status'', js_opt (tf_status f)), (''wallet_id'', js_opt (tf_wallet_id f)), (''page'', js_nat_opt (tf_page f)),
      (''size'', js_nat_opt (tf_size f)), (''scope'', js_opt (tf_scope f))]"

text \<open>\<^verbatim>\<open>{ ...(data ?? {}), data: rows }\<close>\<close>

fun js_fields :: "js \<Rightarrow> (string \<times> js) list" where
  "js_fields (JObj kvs) = kvs"
| "js_fields _ = []"

definition with_rows :: "js \<Rightarrow> js list \<Rightarrow> js" where
  "with_rows data rows = JObj (obj_spread (js_fields data) [(''data'', JArr rows)])"

text \<open>The listing hooks that return the envelope of the first page with all rows in it.\<close>

definition fetch_envelope ::
  "(request \<Rightarrow> 'e + js) \<Rightarrow> string \<Rightarrow> (string \<times> js) list \<Rightarrow> 'e + js" where
  "fetch_envelope send path query =
     bind_res (send (page_request path query 1))
       (\<lambda>data. map_res (with_rows data) (fetchRestOfPages send path query (data_rows data) (pageTotal data) 20))"

definition useTopupRequests :: "TopupRequestFilter \<Rightarrow> bool \<Rightarrow> 'e query_def" where
  "useTopupRequests flt enabled =
     (use_query (billingKeys_topupRequests (JObj (js_topup_filter flt)))
       (\<lambda>send. fetch_envelope send ''/api/v1/credits/topup-requests'' (js_topup_filter flt)))
     \<lparr>qd_enabled := enabled\<rparr>"

definition useCreateTopupRequest :: "js \<Rightarrow> mutation_def" where
  "useCreateTopupRequest body =
     use_mutation (http_send POST ''/api/v1/credits/topup-requests'' [] (Some body) [])
       [InvalidateQueries (skey [''credits''])]"

text \<open>The three direct movements: \<^verbatim>\<open>{ walletId, ...body }\<close> puts the wallet in the path and the rest in the body.\<close>

definition useTopup :: "string \<Rightarrow> js \<Rightarrow> string \<Rightarrow> mutation_def" where
  "useTopup walletId body key =
     use_mutation (http_send POST ''/api/v1/credits/wallets/{wallet_id}/topup'' [(''wallet_id'', walletId)] (Some body) (idem_header key))
       [InvalidateQueries (skey [''credits''])]"

definition useAdjust :: "string \<Rightarrow> js \<Rightarrow> string \<Rightarrow> mutation_def" where
  "useAdjust walletId body key =
     use_mutation (http_send POST ''/api/v1/credits/wallets/{wallet_id}/adjust'' [(''wallet_id'', walletId)] (Some body) (idem_header key))
       [InvalidateQueries (skey [''credits''])]"

definition useTransfer :: "string \<Rightarrow> js \<Rightarrow> string \<Rightarrow> mutation_def" where
  "useTransfer walletId body key =
     use_mutation (http_send POST ''/api/v1/credits/wallets/{wallet_id}/transfer'' [(''wallet_id'', walletId)] (Some body) (idem_header key))
       [InvalidateQueries (skey [''credits''])]"

definition useApproveTopupRequest :: "string \<Rightarrow> string \<Rightarrow> mutation_def" where
  "useApproveTopupRequest rid key =
     use_mutation (http_send POST ''/api/v1/credits/topup-requests/{request_id}/approve'' [(''request_id'', rid)] None (idem_header key))
       [InvalidateQueries (skey [''credits''])]"

definition useRejectTopupRequest :: "string \<Rightarrow> string \<Rightarrow> mutation_def" where
  "useRejectTopupRequest rid reason =
     use_mutation (http_send POST ''/api/v1/credits/topup-requests/{request_id}/reject'' [(''request_id'', rid)]
         (Some (JObj [(''reason'', JStr reason)])) [])
       [InvalidateQueries (skey [''credits''])]"

record BillingReportQuery =
  br_scope :: string
  br_scope_id :: "string option"
  br_from :: string
  br_to :: string
  br_group_by :: "string option"
  br_format :: "string option"

definition js_report_query :: "BillingReportQuery \<Rightarrow> js" where
  "js_report_query q =
     JObj [(''scope'', JStr (br_scope q)), (''scope_id'', js_opt (br_scope_id q)), (''from'', JStr (br_from q)),
           (''to'', JStr (br_to q)), (''group_by'', js_opt (br_group_by q)), (''format'', js_opt (br_format q))]"

definition report_request :: "BillingReportQuery \<Rightarrow> request" where
  "report_request q =
     http_get ''/api/v1/metrics/billing-report'' []
       [(''scope'', JStr (br_scope q)), (''scope_id'', js_opt (br_scope_id q)), (''from'', JStr (br_from q)),
        (''to'', JStr (br_to q)), (''group_by'', js_opt (br_group_by q)), (''format'', JStr ''json'')]"

text \<open>The query function dereferences the query; it only runs when the hook is enabled, that is when there is one.\<close>

definition useBillingReport :: "BillingReportQuery option \<Rightarrow> 'e query_def" where
  "useBillingReport query =
     (use_query (billingKeys_report (case query of None \<Rightarrow> JObj [] | Some q \<Rightarrow> js_report_query q))
       (one_call (report_request (the query)) (\<lambda>d. d)))
     \<lparr>qd_enabled := (case query of None \<Rightarrow> False | Some q \<Rightarrow> br_from q \<noteq> [] \<and> br_to q \<noteq> [])\<rparr>"

section \<open>Allocation\<close>

definition unwrap_alloc :: "js \<Rightarrow> js" where
  "unwrap_alloc d =
     (if is_array d then d else coalesce (js_get ''data'' d) (coalesce (js_get ''items'' d) (JArr [])))"

definition useAllocationRequests :: "string \<Rightarrow> bool \<Rightarrow> 'e query_def" where
  "useAllocationRequests box enabled =
     (use_query (skey [''alloc-reqs'', box])
       (one_call (http_get ''/api/v1/credits/allocation-requests'' [] [(''box'', JStr box), (''size'', JNum 100)]) unwrap_alloc))
     \<lparr>qd_enabled := enabled, qd_interval := \<lambda>_. Some 8000\<rparr>"

definition useCreateAllocationRequest :: "js \<Rightarrow> mutation_def" where
  "useCreateAllocationRequest body =
     use_mutation (http_send POST ''/api/v1/credits/allocation-requests'' [] (Some body) [])
       [InvalidateQueries (skey [''alloc-reqs''])]"

definition reqAction :: "string \<Rightarrow> string \<Rightarrow> js \<Rightarrow> string \<Rightarrow> mutation_def" where
  "reqAction action rid body key =
     use_mutation (http_send POST (''/api/v1/credits/allocation-requests/{request_id}/'' @ action) [(''request_id'', rid)]
         (Some (coalesce body (JObj []))) (idem_header key))
       [InvalidateQueries (skey [''alloc-reqs'']), InvalidateQueries (skey [''alloc-wallets'']),
        InvalidateQueries (skey [''alloc-scope''])]"

definition useApproveRequest :: "string \<Rightarrow> js \<Rightarrow> string \<Rightarrow> mutation_def" where
  "useApproveRequest = reqAction ''approve''"

definition useRejectRequest :: "string \<Rightarrow> js \<Rightarrow> string \<Rightarrow> mutation_def" where
  "useRejectRequest = reqAction ''reject''"

definition useAllocate :: "js \<Rightarrow> string \<Rightarrow> mutation_def" where
  "useAllocate body key =
     use_mutation (http_send POST ''/api/v1/credits/allocate'' [] (Some body) (idem_header key))
       [InvalidateQueries (skey [''alloc-wallets'']), InvalidateQueries (skey [''alloc-scope''])]"

definition useBulkAllocate :: "js \<Rightarrow> string \<Rightarrow> mutation_def" where
  "useBulkAllocate body key =
     use_mutation (http_send POST ''/api/v1/credits/bulk-allocate'' [] (Some body) (idem_header key))
       [InvalidateQueries (skey [''alloc-wallets'']), InvalidateQueries (skey [''alloc-scope''])]"

definition useBulkMonthlyGrant :: "js \<Rightarrow> mutation_def" where
  "useBulkMonthlyGrant body =
     use_mutation (http_send POST ''/api/v1/credits/bulk-monthly-grant'' [] (Some body) [])
       [InvalidateQueries (skey [''alloc-scope'']), InvalidateQueries (skey [''alloc-wallets''])]"

definition useTopupWallet :: "string \<Rightarrow> string \<Rightarrow> string option \<Rightarrow> string \<Rightarrow> mutation_def" where
  "useTopupWallet walletId amount note key =
     use_mutation (http_send POST ''/api/v1/credits/wallets/{wallet_id}/topup'' [(''wallet_id'', walletId)]
         (Some (JObj [(''amount'', JStr amount), (''note'', js_opt note)])) (idem_header key))
       [InvalidateQueries (skey [''alloc-scope'']), InvalidateQueries (skey [''alloc-wallets''])]"

definition useSetMonthlyGrant :: "string \<Rightarrow> string \<Rightarrow> mutation_def" where
  "useSetMonthlyGrant walletId amount =
     use_mutation (http_send POST ''/api/v1/credits/wallets/{id}/monthly-grant'' [(''id'', walletId)]
         (Some (JObj [(''amount'', JStr amount)])) [])
       [InvalidateQueries (skey [''alloc-scope'']), InvalidateQueries (skey [''alloc-wallets''])]"

definition useAllocationScope :: "'e query_def" where
  "useAllocationScope =
     use_query (skey [''alloc-scope''])
       (one_call (http_get ''/api/v1/credits/allocation-scope'' [] [])
          (\<lambda>d. coalesce d (JObj [(''pools'', JArr []), (''children'', JObj []), (''system'', JNull)])))"

definition useRefillSchedule :: "'e query_def" where
  "useRefillSchedule =
     use_query (skey [''refill-schedule'']) (one_call (http_get ''/api/v1/credits/refill-schedule'' [] []) (\<lambda>d. d))"

definition useSetRefillSchedule :: "rat \<Rightarrow> rat \<Rightarrow> mutation_def" where
  "useSetRefillSchedule day hour =
     use_mutation (http_send PUT ''/api/v1/credits/refill-schedule'' [] (Some (JObj [(''day'', JNum day), (''hour'', JNum hour)])) [])
       [InvalidateQueries (skey [''refill-schedule''])]"

lemmas billing_hook_defs = useWallet_def useWalletTransactions_def useMyTopupRequests_def useSpendDaily_def
  useWallets_def useTopupRequests_def useBillingReport_def useAllocationRequests_def useAllocationScope_def
  useRefillSchedule_def

lemmas billing_key_defs = billingKeys_wallets_def billingKeys_topupRequests_def billingKeys_report_def

lemmas billing_mutation_defs = useTopupRequest_def useCreateTopupRequest_def useTopup_def useAdjust_def useTransfer_def
  useApproveTopupRequest_def useRejectTopupRequest_def useCreateAllocationRequest_def reqAction_def
  useApproveRequest_def useRejectRequest_def useAllocate_def useBulkAllocate_def useBulkMonthlyGrant_def
  useTopupWallet_def useSetMonthlyGrant_def useSetRefillSchedule_def

declare billing_hook_defs [hook_defs]

section \<open>Which rows the listings hold\<close>

lemma fetch_envelope_rows:
  "fetch_envelope send path query = Inr d \<Longrightarrow> map_of (js_fields d) ''data'' \<noteq> None"
  by (auto simp: fetch_envelope_def bind_res_Inr_iff map_res_Inr_iff with_rows_def map_of_obj_spread)

lemma fetch_envelope_listing:
  "fetch_envelope send path query = Inr d \<Longrightarrow>
   fetch_listing send path query data_rows pageTotal = Inr (data_rows d)"
  by (auto simp: fetch_envelope_def fetch_listing_def bind_res_Inr_iff map_res_Inr_iff with_rows_def data_rows_def
      map_of_obj_spread split: option.splits)

lemma fetch_envelope_ok:
  "fetch_listing send path query data_rows pageTotal = Inr rows \<Longrightarrow>
   \<exists>d. fetch_envelope send path query = Inr d \<and> data_rows d = rows"
  by (auto simp: fetch_envelope_def fetch_listing_def bind_res_Inr_iff map_res_Inr_iff with_rows_def data_rows_def
      map_of_obj_spread split: option.splits)

text \<open>The wallet list and the top-up inbox never hold more than the first 100 rows: the wallets endpoint answers with a
  bare array whose own length is passed as the total, and the top-up endpoint reports no total, so the paging helper the
  two hooks call to read everything stops after one page.\<close>

theorem billing_lists_truncated:
  "qd_fetch (useWallets f) (serve_listing Bare rows) = Inr (JArr (take 100 rows)) \<and>
   (\<exists>d. qd_fetch (useTopupRequests g b) (serve_listing Envelope_no_total rows) = Inr d \<and> data_rows d = take 100 rows)"
proof
  have "fetch_listing (serve_listing Bare rows) path query js_elems own_length = Inr (take 100 rows)" for path query
    by (rule served.fetch_listing_first_page) (simp_all add: own_length_def listing_body_def env_rows_def)
  then show "qd_fetch (useWallets f) (serve_listing Bare rows) = Inr (JArr (take 100 rows))"
    by (simp add: useWallets_def)
  have "fetch_listing (serve_listing Envelope_no_total rows) path query data_rows pageTotal = Inr (take 100 rows)" for path query
    by (rule served.fetch_listing_first_page) simp_all
  from fetch_envelope_ok [OF this]
  show "\<exists>d. qd_fetch (useTopupRequests g b) (serve_listing Envelope_no_total rows) = Inr d \<and> data_rows d = take 100 rows"
    by (simp add: useTopupRequests_def)
qed

section \<open>Idempotency\<close>

text \<open>
  The state-changing routes of the three routers the session and credit hooks call, in the order the routers declare
  them, and whether the handler calls \<^verbatim>\<open>require_idem\<close> (a call without the header is then refused). All of them are
  mounted under \<^verbatim>\<open>/api/v1\<close>.
\<close>

type_synonym route = "http_method \<times> string \<times> bool"

definition credits_routes :: "route list" where
  "credits_routes =
     [(POST, ''/api/v1/credits/wallets/{wallet_id}/topup'', True),
      (POST, ''/api/v1/credits/wallets/{wallet_id}/adjust'', True),
      (POST, ''/api/v1/credits/wallets/{wallet_id}/transfer'', True),
      (PUT, ''/api/v1/credits/refill-schedule'', False),
      (POST, ''/api/v1/credits/allocate'', True),
      (POST, ''/api/v1/credits/wallets/{wallet_id}/monthly-grant'', False),
      (POST, ''/api/v1/credits/bulk-allocate'', True),
      (POST, ''/api/v1/credits/bulk-monthly-grant'', False),
      (POST, ''/api/v1/credits/allocation-requests'', False),
      (POST, ''/api/v1/credits/allocation-requests/{request_id}/approve'', True),
      (POST, ''/api/v1/credits/allocation-requests/{request_id}/reject'', False),
      (POST, ''/api/v1/credits/topup-requests'', False),
      (POST, ''/api/v1/credits/topup-requests/{request_id}/approve'', True),
      (POST, ''/api/v1/credits/topup-requests/{request_id}/reject'', False)]"

definition sessions_routes :: "route list" where
  "sessions_routes =
     [(POST, ''/api/v1/sessions/preview-cost'', False),
      (POST, ''/api/v1/sessions'', True),
      (POST, ''/api/v1/sessions/{session_id}/start'', False),
      (POST, ''/api/v1/sessions/{session_id}/stop'', False),
      (POST, ''/api/v1/sessions/{session_id}/restart'', False),
      (DELETE, ''/api/v1/sessions/{session_id}'', False),
      (POST, ''/api/v1/sessions/{session_id}/force-terminate'', False),
      (POST, ''/api/v1/sessions/bulk-terminate'', False),
      (POST, ''/api/v1/sessions/{session_id}/checkpoints'', False),
      (POST, ''/api/v1/sessions/{session_id}/checkpoints/{checkpoint_id}/restore'', False)]"

definition queue_routes :: "route list" where
  "queue_routes =
     [(DELETE, ''/api/v1/queue/{queue_entry_id}'', False),
      (PATCH, ''/api/v1/queue/{queue_entry_id}'', False)]"

text \<open>Two path templates name the same route when they differ only in the names of their parameters.\<close>

definition same_segment :: "string \<Rightarrow> string \<Rightarrow> bool" where
  "same_segment u v = (u = v \<or> (u \<noteq> [] \<and> hd u = CHR ''{'' \<and> v \<noteq> [] \<and> hd v = CHR ''{''))"

definition same_template :: "string \<Rightarrow> string \<Rightarrow> bool" where
  "same_template p q = list_all2 same_segment (split_on (CHR ''/'') p) (split_on (CHR ''/'') q)"

text \<open>The handler a request meets: whether it demands the key, \<open>None\<close> where no route of the table matches.\<close>

definition demands_key :: "http_method \<Rightarrow> string \<Rightarrow> bool option" where
  "demands_key meth path =
     map_option (\<lambda>(_, _, d). d)
       (List.find (\<lambda>(m, p, _). m = meth \<and> same_template p path) (credits_routes @ sessions_routes @ queue_routes))"

definition require_idem :: "string option \<Rightarrow> nat + string" where
  "require_idem key = (case key of None \<Rightarrow> Inl 400 | Some k \<Rightarrow> Inr k)"

text \<open>What the handler's first lines do with the request: a key it demands and does not find is a 400.\<close>

definition idem_outcome :: "request \<Rightarrow> (nat + string option) option" where
  "idem_outcome rq =
     map_option (\<lambda>d. let h = get_header ''Idempotency-Key'' (rq_headers rq) in
                     if d then map_res Some (require_idem h) else Inr h)
       (demands_key (rq_method rq) (rq_path rq))"

text \<open>Every mutation hook of the billing and session theories, with its arguments and the key of the click.\<close>

datatype funds_mutation_use =
    MTerminate string | MBulkTerminate "string list" | MStop string | MStart string | MRestart string
  | MCreateSession js | MPreviewCost js | MCancelQueue string | MForceTerminate string string | MSetPriority string rat
  | MTopupRequest js | MCreateTopupRequest js | MTopup string js | MAdjust string js | MTransfer string js
  | MApproveTopup string | MRejectTopup string string | MCreateAllocation js | MApproveAllocation string js
  | MRejectAllocation string js | MAllocate js | MBulkAllocate js | MBulkGrant js
  | MTopupWallet string string "string option" | MSetGrant string string | MSetRefill rat rat

fun funds_mutation :: "string \<Rightarrow> funds_mutation_use \<Rightarrow> mutation_def" where
  "funds_mutation key (MTerminate i) = useTerminateSession i"
| "funds_mutation key (MBulkTerminate is) = useBulkTerminateSessions is"
| "funds_mutation key (MStop i) = useStopSession i"
| "funds_mutation key (MStart i) = useStartSession i"
| "funds_mutation key (MRestart i) = useRestartSession i"
| "funds_mutation key (MCreateSession b) = useCreateSession b key"
| "funds_mutation key (MPreviewCost b) = usePreviewCost b"
| "funds_mutation key (MCancelQueue i) = useCancelQueueEntry i"
| "funds_mutation key (MForceTerminate i r) = useForceTerminate i r key"
| "funds_mutation key (MSetPriority i p) = useSetQueuePriority i p"
| "funds_mutation key (MTopupRequest b) = useTopupRequest b key"
| "funds_mutation key (MCreateTopupRequest b) = useCreateTopupRequest b"
| "funds_mutation key (MTopup w b) = useTopup w b key"
| "funds_mutation key (MAdjust w b) = useAdjust w b key"
| "funds_mutation key (MTransfer w b) = useTransfer w b key"
| "funds_mutation key (MApproveTopup i) = useApproveTopupRequest i key"
| "funds_mutation key (MRejectTopup i r) = useRejectTopupRequest i r"
| "funds_mutation key (MCreateAllocation b) = useCreateAllocationRequest b"
| "funds_mutation key (MApproveAllocation i b) = useApproveRequest i b key"
| "funds_mutation key (MRejectAllocation i b) = useRejectRequest i b key"
| "funds_mutation key (MAllocate b) = useAllocate b key"
| "funds_mutation key (MBulkAllocate b) = useBulkAllocate b key"
| "funds_mutation key (MBulkGrant b) = useBulkMonthlyGrant b"
| "funds_mutation key (MTopupWallet w a n) = useTopupWallet w a n key"
| "funds_mutation key (MSetGrant w a) = useSetMonthlyGrant w a"
| "funds_mutation key (MSetRefill d h) = useSetRefillSchedule d h"

lemma get_header_Nil [simp]: "get_header k [] = None"
  by (simp add: get_header_def)

lemma get_idem_header [simp]: "get_header ''Idempotency-Key'' (idem_header key) = Some key"
  by (simp add: get_header_def idem_header_def)

lemma http_send_simps [simp]:
  "rq_method (http_send meth path ps body hs) = meth" "rq_path (http_send meth path ps body hs) = path"
  "rq_headers (http_send meth path ps body hs) = hs" "rq_params (http_send meth path ps body hs) = ps"
  "rq_body (http_send meth path ps body hs) = body"
  by (simp_all add: http_send_def)

text \<open>What each route the hooks call demands, read off the tables.\<close>

lemma routes_demand:
  "demands_key POST ''/api/v1/credits/wallets/{wallet_id}/topup'' = Some True"
  "demands_key POST ''/api/v1/credits/wallets/{wallet_id}/adjust'' = Some True"
  "demands_key POST ''/api/v1/credits/wallets/{wallet_id}/transfer'' = Some True"
  "demands_key POST ''/api/v1/credits/allocate'' = Some True"
  "demands_key POST ''/api/v1/credits/bulk-allocate'' = Some True"
  "demands_key POST ''/api/v1/credits/allocation-requests/{request_id}/approve'' = Some True"
  "demands_key POST ''/api/v1/credits/topup-requests/{request_id}/approve'' = Some True"
  "demands_key POST ''/api/v1/sessions'' = Some True"
  by code_simp+

lemma routes_free:
  "demands_key PUT ''/api/v1/credits/refill-schedule'' = Some False"
  "demands_key POST ''/api/v1/credits/wallets/{id}/monthly-grant'' = Some False"
  "demands_key POST ''/api/v1/credits/bulk-monthly-grant'' = Some False"
  "demands_key POST ''/api/v1/credits/allocation-requests'' = Some False"
  "demands_key POST ''/api/v1/credits/allocation-requests/{request_id}/reject'' = Some False"
  "demands_key POST ''/api/v1/credits/topup-requests'' = Some False"
  "demands_key POST ''/api/v1/credits/topup-requests/{request_id}/reject'' = Some False"
  "demands_key POST ''/api/v1/sessions/preview-cost'' = Some False"
  "demands_key POST ''/api/v1/sessions/{session_id}/start'' = Some False"
  "demands_key POST ''/api/v1/sessions/{session_id}/stop'' = Some False"
  "demands_key POST ''/api/v1/sessions/{session_id}/restart'' = Some False"
  "demands_key DELETE ''/api/v1/sessions/{session_id}'' = Some False"
  "demands_key POST ''/api/v1/sessions/{session_id}/force-terminate'' = Some False"
  "demands_key POST ''/api/v1/sessions/bulk-terminate'' = Some False"
  "demands_key DELETE ''/api/v1/queue/{queue_entry_id}'' = Some False"
  "demands_key PATCH ''/api/v1/queue/{queue_entry_id}'' = Some False"
  by code_simp+

lemmas session_mutation_hooks = useTerminateSession_def useBulkTerminateSessions_def useStopSession_def useStartSession_def
  useRestartSession_def useSessionAction_def useCreateSession_def usePreviewCost_def useCancelQueueEntry_def
  useForceTerminate_def useSetQueuePriority_def

lemma mutation_meets_route:
  "case demands_key (rq_method (mu_request (funds_mutation key m))) (rq_path (mu_request (funds_mutation key m))) of
     None \<Rightarrow> False
   | Some d \<Rightarrow> (d \<longrightarrow> get_header ''Idempotency-Key'' (rq_headers (mu_request (funds_mutation key m))) = Some key) \<and>
       get_header ''Idempotency-Key'' (rq_headers (mu_request (funds_mutation key m))) \<in> {None, Some key}"
  by (cases m) (simp_all add: billing_mutation_defs session_mutation_hooks routes_demand routes_free)

lemma idem_key_kept:
  "get_header ''Idempotency-Key'' (rq_headers (authMiddleware s rq)) = get_header ''Idempotency-Key'' (rq_headers rq)"
  "rq_method (authMiddleware s rq) = rq_method rq" "rq_path (authMiddleware s rq) = rq_path rq"
  by (rule authMiddleware_headers) (simp_all add: lower_names authMiddleware_def Let_def)

text \<open>C7: Every session and credit operation of the console meets a route of the server, and none is refused for a
  missing idempotency key: as it leaves the client, a request whose handler demands the key carries the one drawn for that
  click, and no request carries any other. Where the handler demands none the hooks are not uniform: a top-up request can
  be raised by two hooks that post the same body to the same route, one with the key (its comment says the key is
  required) and one without, and the server, which does not read it there, takes both.\<close>

theorem funds_requests_carry_key:
  "(\<exists>sent. idem_outcome (authMiddleware s (mu_request (funds_mutation key m))) = Some (Inr sent) \<and>
      sent = get_header ''Idempotency-Key'' (rq_headers (mu_request (funds_mutation key m))) \<and> sent \<in> {None, Some key} \<and>
      (demands_key (rq_method (mu_request (funds_mutation key m))) (rq_path (mu_request (funds_mutation key m))) = Some True \<longrightarrow>
         sent = Some key)) \<and>
   (\<forall>body. let p = mu_request (funds_mutation key (MTopupRequest body)); q = mu_request (funds_mutation key (MCreateTopupRequest body)) in
      rq_method p = rq_method q \<and> rq_path p = rq_path q \<and> rq_body p = rq_body q \<and>
      demands_key (rq_method q) (rq_path q) = Some False \<and>
      get_header ''Idempotency-Key'' (rq_headers p) = Some key \<and> get_header ''Idempotency-Key'' (rq_headers q) = None)"
proof
  let ?rq = "mu_request (funds_mutation key m)"
  obtain d where d: "demands_key (rq_method ?rq) (rq_path ?rq) = Some d"
      "d \<longrightarrow> get_header ''Idempotency-Key'' (rq_headers ?rq) = Some key"
      "get_header ''Idempotency-Key'' (rq_headers ?rq) \<in> {None, Some key}"
    using mutation_meets_route [of key m] by (simp split: option.splits)
  have "idem_outcome (authMiddleware s ?rq) = Some (Inr (get_header ''Idempotency-Key'' (rq_headers ?rq)))"
    using d(1,2) by (cases d) (simp_all add: idem_outcome_def idem_key_kept require_idem_def Let_def)
  then show "\<exists>sent. idem_outcome (authMiddleware s ?rq) = Some (Inr sent) \<and>
      sent = get_header ''Idempotency-Key'' (rq_headers ?rq) \<and> sent \<in> {None, Some key} \<and>
      (demands_key (rq_method ?rq) (rq_path ?rq) = Some True \<longrightarrow> sent = Some key)"
    using d by simp
next
  show "\<forall>body. let p = mu_request (funds_mutation key (MTopupRequest body)); q = mu_request (funds_mutation key (MCreateTopupRequest body)) in
      rq_method p = rq_method q \<and> rq_path p = rq_path q \<and> rq_body p = rq_body q \<and>
      demands_key (rq_method q) (rq_path q) = Some False \<and>
      get_header ''Idempotency-Key'' (rq_headers p) = Some key \<and> get_header ''Idempotency-Key'' (rq_headers q) = None"
    by (simp add: Let_def useTopupRequest_def useCreateTopupRequest_def routes_free)
qed

theorem funds_requests_carry_key_witness:
  "demands_key POST ''/api/v1/credits/allocate'' = Some True \<and>
   get_header ''Idempotency-Key'' (rq_headers (mu_request (funds_mutation ''k1'' (MAllocate JNull)))) = Some ''k1'' \<and>
   idem_outcome (authMiddleware initial_auth (mu_request (funds_mutation ''k1'' (MAllocate JNull)))) = Some (Inr (Some ''k1''))"
  using funds_requests_carry_key [of initial_auth "''k1''" "MAllocate JNull"]
  by (auto simp: routes_demand useAllocate_def)

section \<open>What a movement of credits refreshes\<close>

text \<open>Approving a member's allocation request refreshes the allocation pools, the inbox and its counts; approving a
  top-up request refreshes the wallet list and the top-up inbox but leaves the allocation pools, whose balance it
  changed, as they were cached. A member's own new top-up request leaves their list of top-up requests stale.\<close>

theorem approvals_refresh:
  "stale_after (mu_done (useApproveRequest rid body key) d) (qd_key useAllocationScope) \<and>
   (\<forall>box b. stale_after (mu_done (useApproveRequest rid body key) d) (qd_key (useAllocationRequests box b))) \<and>
   (\<forall>f. stale_after (mu_done (useApproveTopupRequest rid key) d) (qd_key (useWallets f))) \<and>
   (\<forall>g b. stale_after (mu_done (useApproveTopupRequest rid key) d) (qd_key (useTopupRequests g b))) \<and>
   \<not> stale_after (mu_done (useApproveTopupRequest rid key) d) (qd_key useAllocationScope) \<and>
   \<not> stale_after (mu_done (useTopupRequest body key) d) (qd_key useMyTopupRequests)"
  by (simp add: billing_mutation_defs billing_hook_defs billing_key_defs)

section \<open>Keys determine fetches\<close>

datatype billing_query_use =
    QWallet | QTransactions "string option" | QMyTopups | QSpendDaily "string option" string string
  | QWallets WalletFilter | QTopups TopupRequestFilter bool | QReport "BillingReportQuery option"
  | QAllocRequests string bool | QAllocScope | QRefill

fun billing_query :: "int \<Rightarrow> billing_query_use \<Rightarrow> 'e query_def" where
  "billing_query tz QWallet = useWallet"
| "billing_query tz (QTransactions w) = useWalletTransactions w"
| "billing_query tz QMyTopups = useMyTopupRequests"
| "billing_query tz (QSpendDaily w f t) = useSpendDaily tz w f t"
| "billing_query tz (QWallets f) = useWallets f"
| "billing_query tz (QTopups f b) = useTopupRequests f b"
| "billing_query tz (QReport q) = useBillingReport q"
| "billing_query tz (QAllocRequests box b) = useAllocationRequests box b"
| "billing_query tz QAllocScope = useAllocationScope"
| "billing_query tz QRefill = useRefillSchedule"

lemma js_wallet_filter_eq: "js_wallet_filter f = js_wallet_filter g \<longleftrightarrow> f = g"
  by (cases f; cases g) (auto simp: js_wallet_filter_def)

lemma js_topup_filter_eq: "js_topup_filter f = js_topup_filter g \<longleftrightarrow> f = g"
  by (cases f; cases g) (auto simp: js_topup_filter_def)

lemma js_report_query_eq: "js_report_query f = js_report_query g \<longleftrightarrow> f = g"
  by (cases f; cases g) (auto simp: js_report_query_def)

lemma billing_key_determines:
  assumes "qd_key (billing_query tz a :: 'e query_def) = qd_key (billing_query tz b :: 'e query_def)"
    "qd_enabled (billing_query tz a :: 'e query_def)" "qd_enabled (billing_query tz b :: 'e query_def)"
  shows "qd_fetch (billing_query tz a) = (qd_fetch (billing_query tz b) :: (request \<Rightarrow> 'e + js) \<Rightarrow> 'e + js)"
  using assms
  by (cases a; cases b)
    (auto simp: billing_hook_defs billing_key_defs js_wallet_filter_eq js_topup_filter_eq js_report_query_eq
      split: option.splits)

interpretation billing_keys: keyed_queries "billing_query tz" for tz
  by unfold_locales (rule billing_key_determines)

end
