(* ===== verification/Identity_Hooks.thy ===== *)
theory Identity_Hooks
  imports Billing_Hooks
begin

text \<open>
  The hooks over users, organizations, groups and the caller's profile (\<^verbatim>\<open>api/hooks/useUsers.ts\<close>,
  \<^verbatim>\<open>useGroups.ts\<close>, \<^verbatim>\<open>useAccount.ts\<close>).
\<close>

section \<open>Users\<close>

record UserListFilter =
  uf_q :: "string option"
  uf_status :: "string option"
  uf_org_id :: "string option"
  uf_group_id :: "string option"
  uf_page :: "nat option"
  uf_size :: "nat option"

definition js_user_filter :: "UserListFilter \<Rightarrow> js" where
  "js_user_filter f =
     JObj [(''q'', js_opt (uf_q f)), (''status'', js_opt (uf_status f)), (''org_id'', js_opt (uf_org_id f)),
           (''group_id'', js_opt (uf_group_id f)), (''page'', js_nat_opt (uf_page f)), (''size'', js_nat_opt (uf_size f))]"

definition userKeys_all :: "js list" where
  "userKeys_all = skey [''users'']"

definition userKeys_list :: "UserListFilter \<Rightarrow> js list" where
  "userKeys_list f = skey [''users'', ''list''] @ [js_user_filter f]"

definition useUser :: "string option \<Rightarrow> 'e query_def" where
  "useUser uid =
     (use_query (skey [''user'', str_or uid []])
       (one_call (http_get ''/api/v1/users/{user_id}'' [(''user_id'', str_or uid ''undefined'')] []) (\<lambda>d. d)))
     \<lparr>qd_enabled := str_truthy uid\<rparr>"

text \<open>\<^verbatim>\<open>n ?? d\<close> on optional numbers.\<close>

definition nat_or :: "nat option \<Rightarrow> nat \<Rightarrow> js" where
  "nat_or n d = JNum (of_nat (case n of None \<Rightarrow> d | Some k \<Rightarrow> k))"

definition users_query :: "UserListFilter \<Rightarrow> (string \<times> js) list" where
  "users_query f =
     [(''page'', nat_or (uf_page f) 1), (''size'', nat_or (uf_size f) 50)] @
     opt_param ''q'' (uf_q f) @ opt_param ''status'' (uf_status f) @
     opt_param ''org_id'' (uf_org_id f) @ opt_param ''group_id'' (uf_group_id f)"

definition users_page :: "UserListFilter \<Rightarrow> js \<Rightarrow> js" where
  "users_page f page =
     JObj [(''data'', coalesce (js_get ''data'' page) (JArr [])),
           (''pagination'', coalesce (js_get ''pagination'' page)
              (JObj [(''page'', nat_or (uf_page f) 1), (''size'', nat_or (uf_size f) 50),
                     (''total'', JNum (of_nat (length (js_elems (js_get ''data'' page)))))]))]"

definition useUsersPage :: "UserListFilter \<Rightarrow> bool \<Rightarrow> 'e query_def" where
  "useUsersPage flt enabled =
     (use_query (userKeys_list flt) (one_call (http_get ''/api/v1/users'' [] (users_query flt)) (users_page flt)))
     \<lparr>qd_enabled := enabled\<rparr>"

text \<open>\<^verbatim>\<open>useUsers\<close> shares the query of \<^verbatim>\<open>useUsersPage\<close> and reads the rows out of the cached page.\<close>

definition useUsers :: "UserListFilter \<Rightarrow> bool \<Rightarrow> 'e query_def \<times> (js \<Rightarrow> js)" where
  "useUsers flt enabled = (useUsersPage flt enabled, js_get ''data'')"

definition useBulkCreateUsers :: "js \<Rightarrow> string \<Rightarrow> mutation_def" where
  "useBulkCreateUsers body idem =
     use_mutation (http_send POST ''/api/v1/users/bulk'' [] (Some body) (idem_header idem)) [InvalidateQueries userKeys_all]"

definition useCreateUser :: "js \<Rightarrow> mutation_def" where
  "useCreateUser body = use_mutation (http_send POST ''/api/v1/users'' [] (Some body) []) [InvalidateQueries userKeys_all]"

definition useResetUserPassword :: "string \<Rightarrow> string \<Rightarrow> mutation_def" where
  "useResetUserPassword uid key =
     use_mutation (http_send POST ''/api/v1/users/{user_id}/password-reset'' [(''user_id'', uid)] None (idem_header key))
       [InvalidateQueries userKeys_all]"

definition useUpdateUser :: "string \<Rightarrow> js \<Rightarrow> mutation_def" where
  "useUpdateUser uid body =
     use_mutation (http_send PATCH ''/api/v1/users/{user_id}'' [(''user_id'', uid)] (Some body) [])
       [InvalidateQueries userKeys_all]"

definition useSetUserDepartment :: "string \<Rightarrow> string option \<Rightarrow> mutation_def" where
  "useSetUserDepartment uid group_id =
     use_mutation (http_send PUT ''/api/v1/users/{user_id}/department'' [(''user_id'', uid)]
         (Some (JObj [(''group_id'', case group_id of None \<Rightarrow> JNull | Some g \<Rightarrow> JStr g)])) [])
       [InvalidateQueries userKeys_all]"

definition useApproveUser :: "string \<Rightarrow> js \<Rightarrow> mutation_def" where
  "useApproveUser userId body =
     use_mutation (http_send POST ''/api/v1/users/{user_id}/approve'' [(''user_id'', userId)] (Some body) [])
       [InvalidateQueries userKeys_all]"

definition useDeleteUser :: "string \<Rightarrow> mutation_def" where
  "useDeleteUser uid =
     (use_mutation (http_send DELETE ''/api/v1/users/{user_id}'' [(''user_id'', uid)] None [])
       [InvalidateQueries userKeys_all])\<lparr>mu_result := \<lambda>_. JUndef\<rparr>"

definition useUserUsage :: "string option \<Rightarrow> 'e query_def" where
  "useUserUsage uid =
     (use_query (skey [''user'', str_or uid [], ''usage''])
       (one_call (http_get ''/api/v1/users/{user_id}/usage'' [(''user_id'', str_or uid ''undefined'')] []) (\<lambda>d. d)))
     \<lparr>qd_enabled := str_truthy uid\<rparr>"

section \<open>Organizations, groups, memberships\<close>

definition groupKeys_orgs :: "js list" where
  "groupKeys_orgs = skey [''organizations'']"

definition groupKeys_projects :: "string option \<Rightarrow> js list" where
  "groupKeys_projects orgId = skey [''projects'', str_or orgId ''all'']"

definition groupKeys_memberships :: "string \<Rightarrow> js list" where
  "groupKeys_memberships projectId = skey [''memberships'', projectId]"

definition groupKeys_orgAdmins :: "string \<Rightarrow> js list" where
  "groupKeys_orgAdmins orgId = skey [''org-admins'', orgId]"

definition useOrganization :: "string option \<Rightarrow> 'e query_def" where
  "useOrganization oid =
     (use_query (skey [''organization'', str_or oid []])
       (one_call (http_get ''/api/v1/organizations/{org_id}'' [(''org_id'', str_or oid ''undefined'')] []) (\<lambda>d. d)))
     \<lparr>qd_enabled := str_truthy oid\<rparr>"

definition useProject :: "string option \<Rightarrow> 'e query_def" where
  "useProject pid =
     (use_query (skey [''project'', str_or pid []])
       (one_call (http_get ''/api/v1/projects/{group_id}'' [(''group_id'', str_or pid ''undefined'')] []) (\<lambda>d. d)))
     \<lparr>qd_enabled := str_truthy pid\<rparr>"

definition useOrganizations :: "bool \<Rightarrow> 'e query_def" where
  "useOrganizations enabled =
     (use_query groupKeys_orgs
       (one_call (http_get ''/api/v1/organizations'' [] [(''page'', JNum 1), (''size'', JNum 100)]) data_or_empty))
     \<lparr>qd_enabled := enabled\<rparr>"

definition useCreateOrganization :: "js \<Rightarrow> mutation_def" where
  "useCreateOrganization body =
     use_mutation (http_send POST ''/api/v1/organizations'' [] (Some body) []) [InvalidateQueries groupKeys_orgs]"

definition useUpdateOrganization :: "string \<Rightarrow> js \<Rightarrow> mutation_def" where
  "useUpdateOrganization oid body =
     use_mutation (http_send PATCH ''/api/v1/organizations/{org_id}'' [(''org_id'', oid)] (Some body) [])
       [InvalidateQueries groupKeys_orgs]"

definition useDeleteOrganization :: "string \<Rightarrow> mutation_def" where
  "useDeleteOrganization oid =
     (use_mutation (http_send DELETE ''/api/v1/organizations/{org_id}'' [(''org_id'', oid)] None [])
       [InvalidateQueries groupKeys_orgs])\<lparr>mu_result := \<lambda>_. JUndef\<rparr>"

definition useOrgAdmins :: "string option \<Rightarrow> 'e query_def" where
  "useOrgAdmins orgId =
     (use_query (groupKeys_orgAdmins (str_or orgId []))
       (one_call (http_get ''/api/v1/organizations/{org_id}/admins'' [(''org_id'', str_or orgId ''null'')] []) data_or_empty))
     \<lparr>qd_enabled := str_truthy orgId\<rparr>"

definition useAddOrgAdmin :: "string \<Rightarrow> string \<Rightarrow> mutation_def" where
  "useAddOrgAdmin orgId user_id =
     use_mutation (http_send POST ''/api/v1/organizations/{org_id}/admins'' [(''org_id'', orgId)]
         (Some (JObj [(''user_id'', JStr user_id)])) [])
       [InvalidateQueries (groupKeys_orgAdmins orgId)]"

definition useRemoveOrgAdmin :: "string \<Rightarrow> string \<Rightarrow> mutation_def" where
  "useRemoveOrgAdmin orgId userId =
     (use_mutation (http_send DELETE ''/api/v1/organizations/{org_id}/admins/{user_id}'' [(''org_id'', orgId), (''user_id'', userId)] None [])
       [InvalidateQueries (groupKeys_orgAdmins orgId)])\<lparr>mu_result := \<lambda>_. JUndef\<rparr>"

definition useProjects :: "string option \<Rightarrow> 'e query_def" where
  "useProjects orgId =
     use_query (groupKeys_projects orgId)
       (one_call (http_get ''/api/v1/projects'' []
          ([(''page'', JNum 1), (''size'', JNum 100)] @ opt_param ''org_id'' orgId)) data_or_empty)"

definition useCreateProject :: "js \<Rightarrow> mutation_def" where
  "useCreateProject body =
     use_mutation (http_send POST ''/api/v1/projects'' [] (Some body) []) [InvalidateQueries (skey [''projects''])]"

definition useUpdateProject :: "string \<Rightarrow> js \<Rightarrow> mutation_def" where
  "useUpdateProject pid body =
     use_mutation (http_send PATCH ''/api/v1/projects/{group_id}'' [(''group_id'', pid)] (Some body) [])
       [InvalidateQueries (skey [''projects''])]"

definition useDeleteProject :: "string \<Rightarrow> mutation_def" where
  "useDeleteProject pid =
     (use_mutation (http_send DELETE ''/api/v1/projects/{group_id}'' [(''group_id'', pid)] None [])
       [InvalidateQueries (skey [''projects''])])\<lparr>mu_result := \<lambda>_. JUndef\<rparr>"

definition useMemberships :: "string option \<Rightarrow> 'e query_def" where
  "useMemberships projectId =
     (use_query (groupKeys_memberships (str_or projectId []))
       (one_call (http_get ''/api/v1/projects/{group_id}/memberships'' [(''group_id'', str_or projectId ''null'')] []) data_or_empty))
     \<lparr>qd_enabled := str_truthy projectId\<rparr>"

definition useAddMembership :: "string \<Rightarrow> js \<Rightarrow> mutation_def" where
  "useAddMembership projectId body =
     use_mutation (http_send POST ''/api/v1/projects/{group_id}/memberships'' [(''group_id'', projectId)] (Some body) [])
       [InvalidateQueries (groupKeys_memberships projectId)]"

definition useUpdateMembership :: "string \<Rightarrow> string \<Rightarrow> string \<Rightarrow> mutation_def" where
  "useUpdateMembership projectId membershipId role =
     use_mutation (http_send PATCH ''/api/v1/projects/{group_id}/memberships/{membership_id}''
         [(''group_id'', projectId), (''membership_id'', membershipId)] (Some (JObj [(''role'', JStr role)])) [])
       [InvalidateQueries (groupKeys_memberships projectId)]"

definition useRemoveMembership :: "string \<Rightarrow> string \<Rightarrow> mutation_def" where
  "useRemoveMembership projectId membershipId =
     (use_mutation (http_send DELETE ''/api/v1/projects/{group_id}/memberships/{membership_id}''
         [(''group_id'', projectId), (''membership_id'', membershipId)] None [])
       [InvalidateQueries (groupKeys_memberships projectId)])\<lparr>mu_result := \<lambda>_. JUndef\<rparr>"

section \<open>The caller's profile\<close>

definition accountKeys_me :: "js list" where
  "accountKeys_me = skey [''account'', ''me'']"

definition useMyProfile :: "'e query_def" where
  "useMyProfile =
     use_query accountKeys_me
       (one_call (http_get ''/api/v1/auth/me'' [] []) (\<lambda>d. coalesce (coalesce (js_get ''user'' d) d) JNull))"

definition useUpdateProfile :: "string \<Rightarrow> js \<Rightarrow> mutation_def" where
  "useUpdateProfile userId body =
     use_mutation (http_send PATCH ''/api/v1/users/{user_id}'' [(''user_id'', userId)] (Some body) [])
       [InvalidateQueries accountKeys_me]"

lemmas identity_hook_defs = useUser_def useUsersPage_def useUserUsage_def useOrganization_def useProject_def
  useOrganizations_def useOrgAdmins_def useProjects_def useMemberships_def useMyProfile_def

lemmas identity_key_defs = userKeys_all_def userKeys_list_def groupKeys_orgs_def groupKeys_projects_def
  groupKeys_memberships_def groupKeys_orgAdmins_def accountKeys_me_def

lemmas identity_mutation_defs = useBulkCreateUsers_def useCreateUser_def useResetUserPassword_def useUpdateUser_def
  useSetUserDepartment_def useApproveUser_def useDeleteUser_def useCreateOrganization_def useUpdateOrganization_def
  useDeleteOrganization_def useAddOrgAdmin_def useRemoveOrgAdmin_def useCreateProject_def useUpdateProject_def
  useDeleteProject_def useAddMembership_def useUpdateMembership_def useRemoveMembership_def useUpdateProfile_def

declare identity_hook_defs [hook_defs]

section \<open>Keys determine fetches\<close>

datatype identity_query_use =
    QUser "string option" | QUsersPage UserListFilter bool | QUserUsage "string option"
  | QOrganization "string option" | QProject "string option" | QOrganizations bool | QOrgAdmins "string option"
  | QProjects "string option" | QMemberships "string option" | QMyProfile

fun identity_query :: "identity_query_use \<Rightarrow> 'e query_def" where
  "identity_query (QUser u) = useUser u"
| "identity_query (QUsersPage f b) = useUsersPage f b"
| "identity_query (QUserUsage u) = useUserUsage u"
| "identity_query (QOrganization u) = useOrganization u"
| "identity_query (QProject u) = useProject u"
| "identity_query (QOrganizations b) = useOrganizations b"
| "identity_query (QOrgAdmins u) = useOrgAdmins u"
| "identity_query (QProjects u) = useProjects u"
| "identity_query (QMemberships u) = useMemberships u"
| "identity_query QMyProfile = useMyProfile"

text \<open>
  The key of \<^verbatim>\<open>useProjects\<close> writes \<^verbatim>\<open>all\<close> for no organization, so it determines the fetch as long as no
  organization has that string for its id; ids are generated by the server.
\<close>

definition real_org_ids :: "identity_query_use \<Rightarrow> bool" where
  "real_org_ids q = (case q of QProjects (Some o') \<Rightarrow> o' \<noteq> ''all'' | _ \<Rightarrow> True)"

lemma js_user_filter_eq: "js_user_filter f = js_user_filter g \<longleftrightarrow> f = g"
  by (cases f; cases g) (auto simp: js_user_filter_def)

lemma projects_key_determines:
  assumes "str_or o1 ''all'' = str_or o2 ''all''" and "o1 \<noteq> Some ''all''" and "o2 \<noteq> Some ''all''"
  shows "o1 = o2"
  using assms by (cases o1; cases o2) auto

lemma identity_key_determines:
  assumes "qd_key (identity_query a :: 'e query_def) = qd_key (identity_query b :: 'e query_def)"
    "qd_enabled (identity_query a :: 'e query_def)" "qd_enabled (identity_query b :: 'e query_def)"
    and "real_org_ids a" "real_org_ids b"
  shows "qd_fetch (identity_query a) = (qd_fetch (identity_query b) :: (request \<Rightarrow> 'e + js) \<Rightarrow> 'e + js)"
  using assms
  by (cases a; cases b)
    (auto simp: identity_hook_defs identity_key_defs js_user_filter_eq real_org_ids_def
      dest!: projects_key_determines intro: same_id_call split: option.splits)

text \<open>The interface is met by the hook uses with server-generated organization ids.\<close>

definition identity_query_real :: "identity_query_use \<Rightarrow> 'e query_def" where
  "identity_query_real q = (if real_org_ids q then identity_query q else (identity_query q)\<lparr>qd_enabled := False\<rparr>)"

interpretation identity_keys: keyed_queries identity_query_real
proof
  fix a b :: identity_query_use
  assume "qd_key (identity_query_real a :: 'e query_def) = qd_key (identity_query_real b :: 'e query_def)"
    "qd_enabled (identity_query_real a :: 'e query_def)" "qd_enabled (identity_query_real b :: 'e query_def)"
  then show "qd_fetch (identity_query_real a) = (qd_fetch (identity_query_real b) :: (request \<Rightarrow> 'e + js) \<Rightarrow> 'e + js)"
    by (auto simp: identity_query_real_def split: if_splits intro: identity_key_determines)
qed

section \<open>What a change of an account, organization or group refreshes\<close>

text \<open>Updating a user, an organization or a group refreshes the lists it appears in, but not the cached detail of that
  very object (the keys \<^verbatim>\<open>user\<close>, \<^verbatim>\<open>organization\<close> and \<^verbatim>\<open>project\<close> lie outside the invalidated prefixes), so the edit
  page reopened within the stale time starts from the values before the edit; changes of an organization's
  administrators or a group's members do refresh the list they act on.\<close>

theorem identity_updates_refresh:
  "stale_after (mu_done (useUpdateUser i body) d) (qd_key (useUsersPage f b)) \<and>
   \<not> stale_after (mu_done (useUpdateUser i body) d) (qd_key (useUser (Some i))) \<and>
   stale_after (mu_done (useUpdateOrganization i body) d) (qd_key (useOrganizations b)) \<and>
   \<not> stale_after (mu_done (useUpdateOrganization i body) d) (qd_key (useOrganization (Some i))) \<and>
   stale_after (mu_done (useUpdateProject i body) d) (qd_key (useProjects u)) \<and>
   \<not> stale_after (mu_done (useUpdateProject i body) d) (qd_key (useProject (Some i))) \<and>
   stale_after (mu_done (useAddOrgAdmin i j) d) (qd_key (useOrgAdmins (Some i))) \<and>
   stale_after (mu_done (useRemoveOrgAdmin i j) d) (qd_key (useOrgAdmins (Some i))) \<and>
   stale_after (mu_done (useAddMembership i body) d) (qd_key (useMemberships (Some i))) \<and>
   stale_after (mu_done (useUpdateMembership i j r) d) (qd_key (useMemberships (Some i))) \<and>
   stale_after (mu_done (useRemoveMembership i j) d) (qd_key (useMemberships (Some i)))"
  by (simp add: identity_mutation_defs identity_hook_defs identity_key_defs)

text \<open>\<^verbatim>\<open>POST /users/bulk\<close> calls \<^verbatim>\<open>require_idem\<close> first (\<^verbatim>\<open>users_router.py:706\<close>): the import's request passes it.\<close>

lemma bulk_import_key:
  "require_idem (get_header ''Idempotency-Key'' (rq_headers (authMiddleware s (mu_request (useBulkCreateUsers body idem))))) = Inr idem"
  by (simp add: idem_key_kept useBulkCreateUsers_def require_idem_def)

end
