(* ===== verification/Resource_Hooks.thy ===== *)
theory Resource_Hooks
  imports Identity_Hooks
begin

text \<open>
  The hooks over offerings, presets and policies (\<^verbatim>\<open>api/hooks/useResources.ts\<close>), images (\<^verbatim>\<open>useImages.ts\<close>),
  volumes (\<^verbatim>\<open>useVolumes.ts\<close>), storage pools (\<^verbatim>\<open>useStoragePools.ts\<close>) and quota requests
  (\<^verbatim>\<open>useResourceRequests.ts\<close>).
\<close>

section \<open>Offerings, presets and policies\<close>

definition resourceKeys_offerings :: "js list" where
  "resourceKeys_offerings = skey [''offerings'']"

definition resourceKeys_presets :: "js list" where
  "resourceKeys_presets = skey [''resource-presets'']"

definition resourceKeys_policies :: "string option \<Rightarrow> js list" where
  "resourceKeys_policies scope = skey [''resource-policies'', str_or scope ''all'']"

definition useGpuAvailability :: "bool \<Rightarrow> string option \<Rightarrow> 'e query_def" where
  "useGpuAvailability fleet clusterId =
     (use_query (skey [''gpu-availability'', if fleet then ''fleet'' else ''mine'', str_or clusterId []])
       (one_call (http_get ''/api/v1/sessions/gpu-availability'' []
          ((if fleet then [(''fleet'', JBool True)] else []) @ opt_param ''cluster_id'' clusterId)) data_or_empty))
     \<lparr>qd_interval := \<lambda>_. Some 15000, qd_stale := 0\<rparr>"

definition useOffering :: "string option \<Rightarrow> 'e query_def" where
  "useOffering oid =
     (use_query (skey [''offering'', str_or oid []])
       (one_call (http_get ''/api/v1/offerings/{offering_id}'' [(''offering_id'', str_or oid ''undefined'')] []) (\<lambda>d. d)))
     \<lparr>qd_enabled := str_truthy oid\<rparr>"

definition usePreset :: "string option \<Rightarrow> 'e query_def" where
  "usePreset pid =
     (use_query (skey [''resource-preset'', str_or pid []])
       (one_call (http_get ''/api/v1/resource-presets/{preset_id}'' [(''preset_id'', str_or pid ''undefined'')] []) (\<lambda>d. d)))
     \<lparr>qd_enabled := str_truthy pid\<rparr>"

definition usePolicy :: "string option \<Rightarrow> 'e query_def" where
  "usePolicy pid =
     (use_query (skey [''resource-policy'', str_or pid []])
       (one_call (http_get ''/api/v1/resource-policies/{policy_id}'' [(''policy_id'', str_or pid ''undefined'')] []) (\<lambda>d. d)))
     \<lparr>qd_enabled := str_truthy pid\<rparr>"

definition useOfferings :: "'e query_def" where
  "useOfferings =
     use_query resourceKeys_offerings
       (one_call (http_get ''/api/v1/offerings'' [] [(''page'', JNum 1), (''size'', JNum 100)]) data_or_empty)"

definition useCreateOffering :: "js \<Rightarrow> mutation_def" where
  "useCreateOffering body =
     use_mutation (http_send POST ''/api/v1/offerings'' [] (Some body) []) [InvalidateQueries resourceKeys_offerings]"

definition useUpdateOffering :: "string \<Rightarrow> js \<Rightarrow> mutation_def" where
  "useUpdateOffering oid body =
     use_mutation (http_send PATCH ''/api/v1/offerings/{offering_id}'' [(''offering_id'', oid)] (Some body) [])
       [InvalidateQueries resourceKeys_offerings]"

definition useDeleteOffering :: "string \<Rightarrow> mutation_def" where
  "useDeleteOffering oid =
     (use_mutation (http_send DELETE ''/api/v1/offerings/{offering_id}'' [(''offering_id'', oid)] None [])
       [InvalidateQueries resourceKeys_offerings])\<lparr>mu_result := \<lambda>_. JUndef\<rparr>"

definition usePresets :: "string option \<Rightarrow> 'e query_def" where
  "usePresets kind =
     use_query (resourceKeys_presets @ skey [str_or kind ''all''])
       (one_call (http_get ''/api/v1/resource-presets'' []
          ([(''page'', JNum 1), (''size'', JNum 100)] @ opt_param ''kind'' kind)) data_or_empty)"

definition useCreatePreset :: "js \<Rightarrow> mutation_def" where
  "useCreatePreset body =
     use_mutation (http_send POST ''/api/v1/resource-presets'' [] (Some body) []) [InvalidateQueries resourceKeys_presets]"

definition useUpdatePreset :: "string \<Rightarrow> js \<Rightarrow> mutation_def" where
  "useUpdatePreset pid body =
     use_mutation (http_send PATCH ''/api/v1/resource-presets/{preset_id}'' [(''preset_id'', pid)] (Some body) [])
       [InvalidateQueries resourceKeys_presets]"

definition useDeletePreset :: "string \<Rightarrow> mutation_def" where
  "useDeletePreset pid =
     (use_mutation (http_send DELETE ''/api/v1/resource-presets/{preset_id}'' [(''preset_id'', pid)] None [])
       [InvalidateQueries resourceKeys_presets])\<lparr>mu_result := \<lambda>_. JUndef\<rparr>"

definition usePolicies :: "string option \<Rightarrow> 'e query_def" where
  "usePolicies scope =
     use_query (resourceKeys_policies scope)
       (one_call (http_get ''/api/v1/resource-policies'' []
          ([(''page'', JNum 1), (''size'', JNum 100)] @ opt_param ''scope'' scope)) data_or_empty)"

definition useCreatePolicy :: "js \<Rightarrow> mutation_def" where
  "useCreatePolicy body =
     use_mutation (http_send POST ''/api/v1/resource-policies'' [] (Some body) []) [InvalidateQueries (skey [''resource-policies''])]"

definition useUpdatePolicy :: "string \<Rightarrow> js \<Rightarrow> mutation_def" where
  "useUpdatePolicy pid body =
     use_mutation (http_send PATCH ''/api/v1/resource-policies/{policy_id}'' [(''policy_id'', pid)] (Some body) [])
       [InvalidateQueries (skey [''resource-policies''])]"

definition useEffectivePolicy :: "string option \<Rightarrow> 'e query_def" where
  "useEffectivePolicy groupId =
     use_query (skey [''policy-effective'', str_or groupId []])
       (one_call (http_get ''/api/v1/resource-policies/effective'' [] (opt_param ''group_id'' groupId))
          (\<lambda>d. coalesce d (JObj [(''has_policy'', JBool False)])))"

definition useDeletePolicy :: "string \<Rightarrow> mutation_def" where
  "useDeletePolicy pid =
     (use_mutation (http_send DELETE ''/api/v1/resource-policies/{policy_id}'' [(''policy_id'', pid)] None [])
       [InvalidateQueries (skey [''resource-policies''])])\<lparr>mu_result := \<lambda>_. JUndef\<rparr>"

section \<open>Images\<close>

definition imageKeys_all :: "js list" where
  "imageKeys_all = skey [''images'']"

definition imageKeys_list :: "js \<Rightarrow> js list" where
  "imageKeys_list f = skey [''images'', ''list''] @ [f]"

definition imageKeys_builds :: "js \<Rightarrow> js list" where
  "imageKeys_builds f = skey [''image-builds'', ''list''] @ [f]"

definition js_bool_opt :: "bool option \<Rightarrow> js" where
  "js_bool_opt b = (case b of None \<Rightarrow> JUndef | Some v \<Rightarrow> JBool v)"

record ImageFilter =
  if_kind :: "string option"
  if_q :: "string option"
  if_tag :: "string option"
  if_public :: "bool option"
  if_mine :: "bool option"
  if_page :: "nat option"
  if_size :: "nat option"

definition js_image_filter :: "ImageFilter \<Rightarrow> (string \<times> js) list" where
  "js_image_filter f =
     [(''kind'', js_opt (if_kind f)), (''q'', js_opt (if_q f)), (''tag'', js_opt (if_tag f)),
      (''public'', js_bool_opt (if_public f)), (''mine'', js_bool_opt (if_mine f)),
      (''page'', js_nat_opt (if_page f)), (''size'', js_nat_opt (if_size f))]"

text \<open>The two image listings return an empty envelope when the answer carries no body.\<close>

definition empty_envelope :: js where
  "empty_envelope =
     JObj [(''data'', JArr []),
           (''pagination'', JObj [(''page'', JNum 1), (''size'', JNum 20), (''total'', JNum 0), (''total_pages'', JNum 0)])]"

definition fetch_images :: "(request \<Rightarrow> 'e + js) \<Rightarrow> string \<Rightarrow> (string \<times> js) list \<Rightarrow> 'e + js" where
  "fetch_images send path query =
     bind_res (send (page_request path query 1))
       (\<lambda>data. if \<not> truthy data then Inr empty_envelope
               else map_res (with_rows data) (fetchRestOfPages send path query (data_rows data) (pageTotal data) 20))"

definition useImages :: "ImageFilter \<Rightarrow> 'e query_def" where
  "useImages flt =
     use_query (imageKeys_list (JObj (js_image_filter flt)))
       (\<lambda>send. fetch_images send ''/api/v1/images'' (js_image_filter flt))"

definition useImportImage :: "js \<Rightarrow> mutation_def" where
  "useImportImage body =
     use_mutation (http_send POST ''/api/v1/images/import'' [] (Some body) []) [InvalidateQueries imageKeys_all]"

definition useUpdateImage :: "string \<Rightarrow> js \<Rightarrow> mutation_def" where
  "useUpdateImage iid body =
     use_mutation (http_send PATCH ''/api/v1/images/{image_id}'' [(''image_id'', iid)] (Some body) [])
       [InvalidateQueries imageKeys_all]"

record ImageBuildFilter =
  bf_group_id :: "string option"
  bf_status :: "string option"
  bf_source :: "string option"
  bf_page :: "nat option"
  bf_size :: "nat option"
  bf_sort :: "string option"

definition js_build_filter :: "ImageBuildFilter \<Rightarrow> (string \<times> js) list" where
  "js_build_filter f =
     [(''group_id'', js_opt (bf_group_id f)), (''status'', js_opt (bf_status f)), (''source'', js_opt (bf_source f)),
      (''page'', js_nat_opt (bf_page f)), (''size'', js_nat_opt (bf_size f)), (''sort'', js_opt (bf_sort f))]"

text \<open>A build is in progress unless its status is one of the three final ones; a missing status counts as in progress.\<close>

definition build_pending :: "js \<Rightarrow> bool" where
  "build_pending r = (coalesce (js_get ''status'' r) (JStr []) \<notin> {JStr ''succeeded'', JStr ''failed'', JStr ''cancelled''})"

definition useImageBuilds :: "ImageBuildFilter \<Rightarrow> 'e query_def" where
  "useImageBuilds flt =
     (use_query (imageKeys_builds (JObj (js_build_filter flt)))
       (\<lambda>send. fetch_images send ''/api/v1/image-builds'' (js_build_filter flt)))
     \<lparr>qd_interval := \<lambda>d. if \<exists>r \<in> set (data_rows d). build_pending r then Some 5000 else None\<rparr>"

section \<open>Volumes\<close>

definition unwrap_volumes :: "js \<Rightarrow> js" where
  "unwrap_volumes d =
     (if is_array d then d else coalesce (js_get ''data'' d) (coalesce (js_get ''items'' d) (JArr [])))"

definition useVolumes :: "'e query_def" where
  "useVolumes =
     (use_query (skey [''volumes''])
       (\<lambda>send. map_res JArr (fetch_listing send ''/api/v1/storage/volumes'' [] js_elems own_length)))
     \<lparr>qd_always := True\<rparr>"

text \<open>The first page asks for \<^verbatim>\<open>{ all: true, page: 1, size }\<close>, which is the query of \<open>fetch_listing\<close>.\<close>

definition useAllVolumes :: "'e query_def" where
  "useAllVolumes =
     use_query (skey [''volumes'', ''all''])
       (\<lambda>send. map_res JArr (fetch_listing send ''/api/v1/storage/volumes'' [(''all'', JBool True)] js_elems own_length))"

definition useLeaveShare :: "string \<Rightarrow> string \<Rightarrow> mutation_def" where
  "useLeaveShare volumeId userId =
     (use_mutation (http_send DELETE ''/api/v1/storage/volumes/{volume_id}/permissions/{user_id}''
         [(''volume_id'', volumeId), (''user_id'', userId)] None [])
       [InvalidateQueries (skey [''volumes''])])\<lparr>mu_result := \<lambda>_. JUndef\<rparr>"

definition useVolume :: "string option \<Rightarrow> 'e query_def" where
  "useVolume vid =
     (use_query (skey [''volume'', str_or vid []])
       (one_call (http_get ''/api/v1/storage/volumes/{volume_id}'' [(''volume_id'', str_or vid ''undefined'')] []) (\<lambda>d. d)))
     \<lparr>qd_enabled := str_truthy vid\<rparr>"

definition useStorageQuotaUsage :: "string \<Rightarrow> string option \<Rightarrow> 'e query_def" where
  "useStorageQuotaUsage scope scopeId =
     (use_query (skey [''storage-quota-usage'', scope, str_or scopeId []])
       (one_call (http_get ''/api/v1/storage/volumes/quota-usage'' [] [(''scope'', JStr scope), (''scope_id'', js_opt scopeId)])
          (\<lambda>d. coalesce d (JObj [(''has_limit'', JBool False), (''allocated_gb'', JNum 0)]))))
     \<lparr>qd_enabled := str_truthy scopeId\<rparr>"

definition useCreateVolume :: "js \<Rightarrow> mutation_def" where
  "useCreateVolume body =
     use_mutation (http_send POST ''/api/v1/storage/volumes'' [] (Some body) []) [InvalidateQueries (skey [''volumes''])]"

text \<open>The confirm parameter has to equal the volume id; a plain string argument is \<open>force = False\<close>.\<close>

definition useDeleteVolume :: "string \<Rightarrow> bool \<Rightarrow> mutation_def" where
  "useDeleteVolume vid force =
     (use_mutation ((http_send DELETE ''/api/v1/storage/volumes/{volume_id}'' [(''volume_id'', vid)] None [])
         \<lparr>rq_query := (''confirm'', JStr vid) # (if force then [(''force'', JBool True)] else [])\<rparr>)
       [InvalidateQueries (skey [''volumes''])])\<lparr>mu_result := \<lambda>_. JUndef\<rparr>"

definition useVolumePermissions :: "string option \<Rightarrow> 'e query_def" where
  "useVolumePermissions volumeId =
     (use_query [JStr ''volume-perms'', case volumeId of None \<Rightarrow> JNull | Some v \<Rightarrow> JStr v]
       (one_call (http_get ''/api/v1/storage/volumes/{volume_id}/permissions'' [(''volume_id'', str_or volumeId ''null'')] [])
          unwrap_volumes))
     \<lparr>qd_enabled := str_truthy volumeId\<rparr>"

definition useGrantPermission :: "string \<Rightarrow> js \<Rightarrow> mutation_def" where
  "useGrantPermission volumeId body =
     use_mutation (http_send POST ''/api/v1/storage/volumes/{volume_id}/permissions'' [(''volume_id'', volumeId)] (Some body) [])
       [InvalidateQueries (skey [''volume-perms'', volumeId])]"

definition useRevokePermission :: "string \<Rightarrow> string \<Rightarrow> mutation_def" where
  "useRevokePermission volumeId userId =
     (use_mutation (http_send DELETE ''/api/v1/storage/volumes/{volume_id}/permissions/{user_id}''
         [(''volume_id'', volumeId), (''user_id'', userId)] None [])
       [InvalidateQueries (skey [''volume-perms'', volumeId])])\<lparr>mu_result := \<lambda>_. JUndef\<rparr>"

definition useUpdateVolumeQuota :: "string \<Rightarrow> rat \<Rightarrow> mutation_def" where
  "useUpdateVolumeQuota volumeId quota_gb =
     use_mutation (http_send PATCH ''/api/v1/storage/volumes/{volume_id}'' [(''volume_id'', volumeId)]
         (Some (JObj [(''quota_gb'', JNum quota_gb)])) [])
       [InvalidateQueries (skey [''volumes''])]"

definition useSetVolumeLock :: "string \<Rightarrow> bool \<Rightarrow> mutation_def" where
  "useSetVolumeLock vid locked =
     use_mutation (http_send PATCH ''/api/v1/storage/volumes/{volume_id}'' [(''volume_id'', vid)]
         (Some (JObj [(''mount_locked'', JBool locked)])) [])
       [InvalidateQueries (skey [''volumes''])]"

section \<open>Storage pools\<close>

definition storagePoolKeys_all :: "js list" where
  "storagePoolKeys_all = skey [''storage-pools'']"

definition storagePoolKeys_list :: "string option \<Rightarrow> js list" where
  "storagePoolKeys_list clusterId = skey [''storage-pools'', str_or clusterId ''all'']"

definition useStoragePools :: "string option \<Rightarrow> bool \<Rightarrow> 'e query_def" where
  "useStoragePools clusterId enabled =
     (use_query (storagePoolKeys_list clusterId)
       (one_call (http_get ''/api/v1/storage/pools'' [] (opt_param ''cluster_id'' clusterId)) data_or_empty))
     \<lparr>qd_enabled := enabled\<rparr>"

definition useInvalidatePools :: "cache_cmd list" where
  "useInvalidatePools =
     [InvalidateQueries storagePoolKeys_all, InvalidateQueries (skey [''metrics'', ''cluster'']),
      InvalidateQueries (skey [''volumes''])]"

definition useCreateStoragePool :: "js \<Rightarrow> string \<Rightarrow> mutation_def" where
  "useCreateStoragePool body key =
     use_mutation (http_send POST ''/api/v1/storage/pools'' [] (Some body) (idem_header key)) useInvalidatePools"

definition useUpdateStoragePool :: "string \<Rightarrow> js \<Rightarrow> string \<Rightarrow> mutation_def" where
  "useUpdateStoragePool pid body key =
     use_mutation (http_send PATCH ''/api/v1/storage/pools/{pool_id}'' [(''pool_id'', pid)] (Some body) (idem_header key))
       useInvalidatePools"

definition useDeleteStoragePool :: "string \<Rightarrow> string \<Rightarrow> mutation_def" where
  "useDeleteStoragePool pid key =
     (use_mutation (http_send DELETE ''/api/v1/storage/pools/{pool_id}'' [(''pool_id'', pid)] None (idem_header key))
       useInvalidatePools)\<lparr>mu_result := \<lambda>_. JUndef\<rparr>"

section \<open>Quota requests\<close>

definition requestKeys_box :: "string \<Rightarrow> js list" where
  "requestKeys_box box = skey [''resource-requests'', box]"

definition useResourceRequests :: "string \<Rightarrow> bool \<Rightarrow> 'e query_def" where
  "useResourceRequests box enabled =
     (use_query (requestKeys_box box)
       (one_call (http_get ''/api/v1/resource-policies/requests'' [] [(''box'', JStr box)]) data_or_empty))
     \<lparr>qd_enabled := enabled, qd_interval := \<lambda>_. Some 15000\<rparr>"

definition useCreateResourceRequest :: "js \<Rightarrow> mutation_def" where
  "useCreateResourceRequest body =
     use_mutation (http_send POST ''/api/v1/resource-policies/requests'' [] (Some body) [])
       [InvalidateQueries (skey [''resource-requests''])]"

definition useDecideResourceRequest :: "string \<Rightarrow> bool \<Rightarrow> string option \<Rightarrow> mutation_def" where
  "useDecideResourceRequest rid approve reason =
     use_mutation (http_send POST
         (if approve then ''/api/v1/resource-policies/requests/{request_id}/approve''
          else ''/api/v1/resource-policies/requests/{request_id}/reject'') [(''request_id'', rid)]
         (if approve then None else Some (JObj [(''reason'', js_opt reason)])) [])
       [InvalidateQueries (skey [''resource-requests''])]"

lemmas resource_hook_defs = useGpuAvailability_def useOffering_def usePreset_def usePolicy_def useOfferings_def
  usePresets_def usePolicies_def useEffectivePolicy_def useImages_def useImageBuilds_def useVolumes_def useAllVolumes_def
  useVolume_def useStorageQuotaUsage_def useVolumePermissions_def useStoragePools_def useResourceRequests_def

lemmas resource_key_defs = resourceKeys_offerings_def resourceKeys_presets_def resourceKeys_policies_def
  imageKeys_all_def imageKeys_list_def imageKeys_builds_def storagePoolKeys_all_def storagePoolKeys_list_def requestKeys_box_def

lemmas resource_mutation_defs = useCreateOffering_def useUpdateOffering_def useDeleteOffering_def useCreatePreset_def
  useUpdatePreset_def useDeletePreset_def useCreatePolicy_def useUpdatePolicy_def useDeletePolicy_def useImportImage_def
  useUpdateImage_def useLeaveShare_def useCreateVolume_def useDeleteVolume_def useGrantPermission_def
  useRevokePermission_def useUpdateVolumeQuota_def useSetVolumeLock_def useInvalidatePools_def useCreateStoragePool_def
  useUpdateStoragePool_def useDeleteStoragePool_def useCreateResourceRequest_def useDecideResourceRequest_def

declare resource_hook_defs [hook_defs]

section \<open>Which rows the listings hold\<close>

lemma own_length_listing:
  "fetch_listing (serve_listing Bare rows) path query js_elems own_length = Inr (take 100 rows)"
  by (rule served.fetch_listing_first_page) (simp_all add: own_length_def listing_body_def env_rows_def)

text \<open>The volume lists (the user's page and mount picker, and the fleet view of administrators) hold at most the first 100
  volumes although the paging helper is called to hold every one of them: the endpoint answers with a bare array and the
  hooks pass the length of the first page as the total.\<close>

theorem volume_lists_truncated:
  "qd_fetch useVolumes (serve_listing Bare rows) = Inr (JArr (take 100 rows)) \<and>
   qd_fetch useAllVolumes (serve_listing Bare rows) = Inr (JArr (take 100 rows))"
  by (simp add: useVolumes_def useAllVolumes_def own_length_listing)

lemma fetch_images_served:
  "\<exists>d. fetch_images (serve_listing Envelope rows) path query = Inr d \<and> data_rows d = take 2000 rows"
proof -
  let ?body = "listing_body Envelope rows \<lparr>pg_page = 1, pg_size = 100\<rparr>"
  have "fetchRestOfPages (serve_listing Envelope rows) path query (data_rows ?body) (pageTotal ?body) 20 = Inr (take 2000 rows)"
    using served.fetch_rest_all [of 20 Envelope rows path query] by (simp add: PAGE_MAX_def)
  moreover have "truthy ?body" by (simp add: listing_body_def)
  ultimately show ?thesis
    using served.page_answer [of 1 Envelope rows path query]
    by (simp add: fetch_images_def with_rows_def data_rows_def map_of_obj_spread)
qed

text \<open>The image catalogue and the build list hold every row up to 2,000, and the build list is polled exactly while some
  build it holds has not reached a final status.\<close>

theorem image_lists_complete:
  "(\<exists>d. qd_fetch (useImages f) (serve_listing Envelope rows) = Inr d \<and> data_rows d = take 2000 rows) \<and>
   (\<exists>d. qd_fetch (useImageBuilds g) (serve_listing Envelope rows) = Inr d \<and> data_rows d = take 2000 rows \<and>
        (qd_interval (useImageBuilds g :: nat query_def) d = None \<longleftrightarrow>
           filter (\<lambda>r. js_get ''status'' r \<notin> {JStr ''succeeded'', JStr ''failed'', JStr ''cancelled''}) (take 2000 rows) = []))"
proof
  show "\<exists>d. qd_fetch (useImages f) (serve_listing Envelope rows) = Inr d \<and> data_rows d = take 2000 rows"
    using fetch_images_served by (simp add: useImages_def)
  obtain d where d: "fetch_images (serve_listing Envelope rows) ''/api/v1/image-builds'' (js_build_filter g) = Inr d"
      "data_rows d = take 2000 rows"
    using fetch_images_served by blast
  have "build_pending r \<longleftrightarrow> js_get ''status'' r \<notin> {JStr ''succeeded'', JStr ''failed'', JStr ''cancelled''}" for r
    by (cases "js_get ''status'' r") (auto simp: build_pending_def)
  then show "\<exists>d. qd_fetch (useImageBuilds g) (serve_listing Envelope rows) = Inr d \<and> data_rows d = take 2000 rows \<and>
        (qd_interval (useImageBuilds g :: nat query_def) d = None \<longleftrightarrow>
           filter (\<lambda>r. js_get ''status'' r \<notin> {JStr ''succeeded'', JStr ''failed'', JStr ''cancelled''}) (take 2000 rows) = [])"
    using d by (intro exI [of _ d]) (auto simp: useImageBuilds_def filter_empty_conv)
qed

section \<open>What is refreshed\<close>

text \<open>A change of an offering, preset, policy or volume refreshes every list that shows it and leaves the cached detail of
  that very object stale; and no session action refreshes the caller's effective policy, whose used and remaining figures
  it changes.\<close>

theorem resource_updates_refresh:
  "stale_after (mu_done (useUpdateOffering i body) d) (qd_key useOfferings) \<and>
   stale_after (mu_done (useUpdatePreset i body) d) (qd_key (usePresets kind)) \<and>
   stale_after (mu_done (useUpdatePolicy i body) d) (qd_key (usePolicies scope)) \<and>
   stale_after (mu_done (useUpdateVolumeQuota i quota) d) (qd_key useVolumes) \<and>
   stale_after (mu_done (useUpdateVolumeQuota i quota) d) (qd_key useAllVolumes) \<and>
   stale_after (mu_done (useGrantPermission i body) d) (qd_key (useVolumePermissions (Some i))) \<and>
   stale_after (mu_done (useRevokePermission i j) d) (qd_key (useVolumePermissions (Some i))) \<and>
   \<not> stale_after (mu_done (useUpdateOffering i body) d) (qd_key (useOffering (Some i))) \<and>
   \<not> stale_after (mu_done (useUpdatePreset i body) d) (qd_key (usePreset (Some i))) \<and>
   \<not> stale_after (mu_done (useUpdatePolicy i body) d) (qd_key (usePolicy (Some i))) \<and>
   \<not> stale_after (mu_done (useUpdateVolumeQuota i quota) d) (qd_key (useVolume (Some i))) \<and>
   \<not> stale_after (mu_done (useCreateSession body key) d) (qd_key (useEffectivePolicy g))"
  by (simp add: resource_mutation_defs resource_hook_defs resource_key_defs useCreateSession_def
      invalidateSessionAdjacent_def sessionKeys_all_def)

section \<open>Keys determine fetches\<close>

datatype resource_query_use =
    QGpuAvailability bool "string option" | QOffering "string option" | QPreset "string option" | QPolicy "string option"
  | QOfferings | QPresets "string option" | QPolicies "string option" | QEffectivePolicy "string option"
  | QImages ImageFilter | QImageBuilds ImageBuildFilter | QVolumes | QAllVolumes | QVolume "string option"
  | QStorageQuota string "string option" | QVolumePermissions "string option" | QStoragePools "string option" bool
  | QResourceRequests string bool

fun resource_query :: "resource_query_use \<Rightarrow> 'e query_def" where
  "resource_query (QGpuAvailability f c) = useGpuAvailability f c"
| "resource_query (QOffering i) = useOffering i"
| "resource_query (QPreset i) = usePreset i"
| "resource_query (QPolicy i) = usePolicy i"
| "resource_query QOfferings = useOfferings"
| "resource_query (QPresets k) = usePresets k"
| "resource_query (QPolicies s) = usePolicies s"
| "resource_query (QEffectivePolicy g) = useEffectivePolicy g"
| "resource_query (QImages f) = useImages f"
| "resource_query (QImageBuilds f) = useImageBuilds f"
| "resource_query QVolumes = useVolumes"
| "resource_query QAllVolumes = useAllVolumes"
| "resource_query (QVolume i) = useVolume i"
| "resource_query (QStorageQuota s i) = useStorageQuotaUsage s i"
| "resource_query (QVolumePermissions i) = useVolumePermissions i"
| "resource_query (QStoragePools c b) = useStoragePools c b"
| "resource_query (QResourceRequests box b) = useResourceRequests box b"

text \<open>The word \<^verbatim>\<open>all\<close> stands for no filter in three of the keys; it is no preset kind, policy scope or cluster id.\<close>

definition real_filters :: "resource_query_use \<Rightarrow> bool" where
  "real_filters q =
     (case q of QPresets k \<Rightarrow> k \<noteq> Some ''all'' | QPolicies s \<Rightarrow> s \<noteq> Some ''all''
      | QStoragePools c b \<Rightarrow> c \<noteq> Some ''all'' | _ \<Rightarrow> True)"

lemma js_bool_opt_inj [simp]: "js_bool_opt a = js_bool_opt b \<longleftrightarrow> a = b"
  by (cases a; cases b) (simp_all add: js_bool_opt_def)

lemma js_image_filter_eq: "js_image_filter f = js_image_filter g \<longleftrightarrow> f = g"
  by (cases f; cases g) (auto simp: js_image_filter_def)

lemma js_build_filter_eq: "js_build_filter f = js_build_filter g \<longleftrightarrow> f = g"
  by (cases f; cases g) (auto simp: js_build_filter_def)

lemma quota_scope_call:
  "str_truthy s \<Longrightarrow> str_truthy t \<Longrightarrow> str_or s [] = str_or t [] \<Longrightarrow>
   one_call (http_get p ps [a, (k, js_opt s)]) f = one_call (http_get p ps [a, (k, js_opt t)]) f"
  by (cases s; cases t) simp_all

lemma resource_key_determines:
  assumes "qd_key (resource_query a :: 'e query_def) = qd_key (resource_query b :: 'e query_def)"
    "qd_enabled (resource_query a :: 'e query_def)" "qd_enabled (resource_query b :: 'e query_def)"
    and "real_filters a" "real_filters b"
  shows "qd_fetch (resource_query a) = (qd_fetch (resource_query b) :: (request \<Rightarrow> 'e + js) \<Rightarrow> 'e + js)"
  using assms
  by (cases a; cases b)
    (auto simp: resource_hook_defs resource_key_defs js_image_filter_eq js_build_filter_eq real_filters_def
      dest!: projects_key_determines
      intro: same_id_call same_param_call quota_scope_call split: option.splits if_splits)

definition resource_query_real :: "resource_query_use \<Rightarrow> 'e query_def" where
  "resource_query_real q = (if real_filters q then resource_query q else (resource_query q)\<lparr>qd_enabled := False\<rparr>)"

interpretation resource_keys: keyed_queries resource_query_real
proof
  fix a b :: resource_query_use
  assume "qd_key (resource_query_real a :: 'e query_def) = qd_key (resource_query_real b :: 'e query_def)"
    "qd_enabled (resource_query_real a :: 'e query_def)" "qd_enabled (resource_query_real b :: 'e query_def)"
  then show "qd_fetch (resource_query_real a) = (qd_fetch (resource_query_real b) :: (request \<Rightarrow> 'e + js) \<Rightarrow> 'e + js)"
    by (auto simp: resource_query_real_def split: if_splits intro: resource_key_determines)
qed

end
