(* ===== verification/Infra_Hooks.thy ===== *)
theory Infra_Hooks
  imports Resource_Hooks
begin

text \<open>
  The hooks over the infrastructure and the instance: nodes and cards (\<^verbatim>\<open>api/hooks/useNodes.ts\<close>), node pools
  (\<^verbatim>\<open>useNodePools.ts\<close>), clusters (\<^verbatim>\<open>useClusters.ts\<close>), metric panels (\<^verbatim>\<open>useMonitoring.ts\<close>), the admin dashboard
  (\<^verbatim>\<open>useAdminDashboard.ts\<close>), system settings (\<^verbatim>\<open>useSystem.ts\<close>), the audit log (\<^verbatim>\<open>useAudit.ts\<close>) and notifications
  (\<^verbatim>\<open>useNotifications.ts\<close>).
\<close>

section \<open>Nodes and cards\<close>

definition nodeKeys_all :: "js list" where
  "nodeKeys_all = skey [''nodes'']"

definition nodeKeys_devices :: "string option \<Rightarrow> js list" where
  "nodeKeys_devices nodeId = skey [''gpu-devices'', str_or nodeId ''all'']"

definition useNode :: "string option \<Rightarrow> 'e query_def" where
  "useNode nid =
     (use_query (skey [''node'', str_or nid []])
       (one_call (http_get ''/api/v1/nodes/{node_id}'' [(''node_id'', str_or nid ''undefined'')] []) (\<lambda>d. d)))
     \<lparr>qd_enabled := str_truthy nid\<rparr>"

text \<open>\<^verbatim>\<open>useNodes\<close> of \<^verbatim>\<open>useNodes.ts\<close>, the inventory; the monitor has its own hook of that name.\<close>

record NodeFilter =
  nf_status :: "string option"
  nf_region :: "string option"
  nf_cluster_id :: "string option"

definition js_node_filter :: "NodeFilter \<Rightarrow> js" where
  "js_node_filter f =
     JObj [(''status'', js_opt (nf_status f)), (''region'', js_opt (nf_region f)), (''cluster_id'', js_opt (nf_cluster_id f))]"

definition useNodes_inventory :: "NodeFilter \<Rightarrow> bool \<Rightarrow> 'e query_def" where
  "useNodes_inventory flt enabled =
     (use_query (nodeKeys_all @ [js_node_filter flt])
       (one_call (http_get ''/api/v1/nodes'' []
          ([(''page'', JNum 1), (''size'', JNum 100)] @ opt_param ''status'' (nf_status flt) @
           opt_param ''region'' (nf_region flt) @ opt_param ''cluster_id'' (nf_cluster_id flt))) data_or_empty))
     \<lparr>qd_enabled := enabled, qd_interval := \<lambda>_. Some 20000\<rparr>"

text \<open>\<^verbatim>\<open>null\<close> or a string.\<close>

definition js_null_or :: "string option \<Rightarrow> js" where
  "js_null_or s = (case s of None \<Rightarrow> JNull | Some t \<Rightarrow> JStr t)"

definition useSetDeviceMode :: "string \<Rightarrow> string option \<Rightarrow> mutation_def" where
  "useSetDeviceMode deviceId desired_mode =
     use_mutation (http_send PUT ''/api/v1/gpu-devices/{device_id}/mode'' [(''device_id'', deviceId)]
         (Some (JObj [(''desired_mode'', js_null_or desired_mode)])) [])
       [InvalidateQueries (skey [''gpu-devices''])]"

definition useSetPoolTargets :: "string \<Rightarrow> rat \<Rightarrow> mutation_def" where
  "useSetPoolTargets clusterId mig_cards =
     use_mutation (http_send PUT ''/api/v1/gpu-pools/{cluster_id}'' [(''cluster_id'', clusterId)]
         (Some (JObj [(''mig_cards'', JNum mig_cards)])) [])
       [InvalidateQueries (skey [''gpu-devices'']), InvalidateQueries nodeKeys_all]"

definition useGpuDevices :: "string option \<Rightarrow> bool \<Rightarrow> string option \<Rightarrow> 'e query_def" where
  "useGpuDevices nodeId enabled cluster_id =
     (use_query (nodeKeys_devices nodeId @ skey [str_or cluster_id []])
       (one_call (http_get ''/api/v1/gpu-devices'' []
          ([(''page'', JNum 1), (''size'', JNum 200)] @ opt_param ''node_id'' nodeId @ opt_param ''cluster_id'' cluster_id))
          data_or_empty))
     \<lparr>qd_enabled := enabled\<rparr>"

definition useSetDeviceAlias :: "string \<Rightarrow> string option \<Rightarrow> mutation_def" where
  "useSetDeviceAlias deviceId alias =
     use_mutation (http_send PUT ''/api/v1/gpu-devices/{device_id}/alias'' [(''device_id'', deviceId)]
         (Some (JObj [(''alias'', js_null_or alias)])) [])
       [InvalidateQueries (skey [''gpu-devices'']), InvalidateQueries nodeKeys_all]"

definition useSetDeviceHealth :: "string \<Rightarrow> string \<Rightarrow> string option \<Rightarrow> mutation_def" where
  "useSetDeviceHealth deviceId status reason =
     use_mutation (http_send PUT ''/api/v1/gpu-devices/{device_id}/health'' [(''device_id'', deviceId)]
         (Some (JObj [(''status'', JStr status), (''reason'', js_opt reason)])) [])
       [InvalidateQueries (skey [''gpu-devices'']), InvalidateQueries nodeKeys_all]"

definition useCordonNode :: "string \<Rightarrow> bool \<Rightarrow> string option \<Rightarrow> mutation_def" where
  "useCordonNode nodeId cordon reason =
     use_mutation (http_send POST ''/api/v1/nodes/{node_id}/cordon'' [(''node_id'', nodeId)]
         (Some (JObj [(''cordon'', JBool cordon), (''reason'', js_opt reason)])) [])
       [InvalidateQueries nodeKeys_all]"

definition useDrainNode :: "string \<Rightarrow> string option \<Rightarrow> string option \<Rightarrow> mutation_def" where
  "useDrainNode nodeId mode reason =
     use_mutation (http_send POST ''/api/v1/nodes/{node_id}/drain'' [(''node_id'', nodeId)]
         (Some (JObj [(''mode'', JStr (str_or mode ''reschedule'')), (''reason'', js_opt reason)])) [])
       [InvalidateQueries nodeKeys_all]"

definition useDeleteNode :: "string \<Rightarrow> mutation_def" where
  "useDeleteNode nodeId =
     (use_mutation (http_send DELETE ''/api/v1/nodes/{node_id}'' [(''node_id'', nodeId)] None [])
       [InvalidateQueries nodeKeys_all])\<lparr>mu_result := \<lambda>_. JUndef\<rparr>"

section \<open>Node pools\<close>

definition nodePoolKeys_all :: "js list" where
  "nodePoolKeys_all = skey [''node-pools'']"

definition nodePoolKeys_list :: "string option \<Rightarrow> js list" where
  "nodePoolKeys_list clusterId = skey [''node-pools'', str_or clusterId ''all'']"

definition useNodePools :: "string option \<Rightarrow> bool \<Rightarrow> 'e query_def" where
  "useNodePools clusterId enabled =
     (use_query (nodePoolKeys_list clusterId)
       (one_call (http_get ''/api/v1/node-pools'' [] (opt_param ''cluster_id'' clusterId)) data_or_empty))
     \<lparr>qd_enabled := enabled\<rparr>"

definition invalidatePoolsAndNodes :: "cache_cmd list" where
  "invalidatePoolsAndNodes =
     [InvalidateQueries nodePoolKeys_all, InvalidateQueries nodeKeys_all, InvalidateQueries (skey [''node''])]"

definition useCreateNodePool :: "js \<Rightarrow> string \<Rightarrow> mutation_def" where
  "useCreateNodePool body key =
     use_mutation (http_send POST ''/api/v1/node-pools'' [] (Some body) (idem_header key)) invalidatePoolsAndNodes"

definition useUpdateNodePool :: "string \<Rightarrow> js \<Rightarrow> string \<Rightarrow> mutation_def" where
  "useUpdateNodePool pid body key =
     use_mutation (http_send PATCH ''/api/v1/node-pools/{pool_id}'' [(''pool_id'', pid)] (Some body) (idem_header key))
       invalidatePoolsAndNodes"

definition useDeleteNodePool :: "string \<Rightarrow> string \<Rightarrow> mutation_def" where
  "useDeleteNodePool pid key =
     (use_mutation (http_send DELETE ''/api/v1/node-pools/{pool_id}'' [(''pool_id'', pid)] None (idem_header key))
       invalidatePoolsAndNodes)\<lparr>mu_result := \<lambda>_. JUndef\<rparr>"

definition useSetNodePool :: "string \<Rightarrow> string option \<Rightarrow> string \<Rightarrow> mutation_def" where
  "useSetNodePool nodeId pool_id key =
     use_mutation (http_send PUT ''/api/v1/nodes/{node_id}/pool'' [(''node_id'', nodeId)]
         (Some (JObj [(''pool_id'', js_null_or pool_id)])) (idem_header key))
       invalidatePoolsAndNodes"

definition useGrantPool :: "string \<Rightarrow> js \<Rightarrow> string \<Rightarrow> mutation_def" where
  "useGrantPool poolId body key =
     use_mutation (http_send POST ''/api/v1/node-pools/{pool_id}/grants'' [(''pool_id'', poolId)] (Some body) (idem_header key))
       [InvalidateQueries nodePoolKeys_all]"

definition useRevokePoolGrant :: "string \<Rightarrow> string \<Rightarrow> string \<Rightarrow> mutation_def" where
  "useRevokePoolGrant poolId grantId key =
     (use_mutation (http_send DELETE ''/api/v1/node-pools/{pool_id}/grants/{grant_id}''
         [(''pool_id'', poolId), (''grant_id'', grantId)] None (idem_header key))
       [InvalidateQueries nodePoolKeys_all])\<lparr>mu_result := \<lambda>_. JUndef\<rparr>"

section \<open>Clusters\<close>

definition useClusters :: "bool \<Rightarrow> 'e query_def" where
  "useClusters enabled =
     (use_query (skey [''clusters''])
       (\<lambda>send. map_res JArr (fetch_listing send ''/api/v1/clusters'' [] data_rows pageTotal)))
     \<lparr>qd_enabled := enabled\<rparr>"

definition useCluster :: "string option \<Rightarrow> 'e query_def" where
  "useCluster cid =
     (use_query (skey [''cluster'', str_or cid []])
       (one_call (http_get ''/api/v1/clusters/{cluster_id}'' [(''cluster_id'', str_or cid ''undefined'')] []) (\<lambda>d. d)))
     \<lparr>qd_enabled := str_truthy cid\<rparr>"

definition useRegisterCluster :: "string \<Rightarrow> string \<Rightarrow> string option \<Rightarrow> string \<Rightarrow> mutation_def" where
  "useRegisterCluster name kubeconfig role key =
     use_mutation (http_send POST ''/api/v1/clusters'' []
         (Some (JObj [(''name'', JStr name), (''role'', JStr (str_or role ''primary'')),
                      (''kubeconfig_b64'', JStr (toB64 kubeconfig))])) (idem_header key))
       [InvalidateQueries (skey [''clusters''])]"

definition useUpdateCluster :: "string \<Rightarrow> js \<Rightarrow> mutation_def" where
  "useUpdateCluster cid body =
     use_mutation (http_send PATCH ''/api/v1/clusters/{cluster_id}'' [(''cluster_id'', cid)] (Some body) [])
       [InvalidateQueries (skey [''clusters''])]"

definition useDeleteCluster :: "string \<Rightarrow> mutation_def" where
  "useDeleteCluster cid =
     (use_mutation (http_send DELETE ''/api/v1/clusters/{cluster_id}'' [(''cluster_id'', cid)] None [])
       [InvalidateQueries (skey [''clusters''])])\<lparr>mu_result := \<lambda>_. JUndef\<rparr>"

definition useClusterSummary :: "'e query_def" where
  "useClusterSummary =
     (use_query (skey [''clusters'', ''summary'']) (one_call (http_get ''/api/v1/clusters/summary'' [] []) data_or_empty))
     \<lparr>qd_stale := 60000\<rparr>"

record ClusterSummary =
  cs_id :: string
  cs_name :: string
  cs_status :: string

text \<open>
  \<^verbatim>\<open>useActiveCluster\<close> over the loaded summary and the store's \<^verbatim>\<open>activeClusterId\<close>: the filter a screen applies,
  whether there is a choice, and the name shown for an id.
\<close>

record active_cluster =
  ac_id :: "string option"
  ac_multi :: bool
  ac_name :: "string option \<Rightarrow> string"

definition useActiveCluster :: "ClusterSummary list \<Rightarrow> string option \<Rightarrow> active_cluster" where
  "useActiveCluster clusters activeClusterId =
     (let multi = 1 < length clusters;
          known = (if str_truthy activeClusterId \<and> (\<exists>c \<in> set clusters. Some (cs_id c) = activeClusterId)
                   then activeClusterId else None)
      in \<lparr>ac_id = (if multi then known else None), ac_multi = multi,
          ac_name = (\<lambda>cid. case find (\<lambda>c. Some (cs_id c) = cid) clusters of
                              Some c \<Rightarrow> cs_name c | None \<Rightarrow> str_or cid ''-'')\<rparr>)"

section \<open>Metric panels\<close>

datatype RangeKey = R15m | R1h | R6h | R24h | R7d

fun range_str :: "RangeKey \<Rightarrow> string" where
  "range_str R15m = ''15m''" | "range_str R1h = ''1h''" | "range_str R6h = ''6h''"
| "range_str R24h = ''24h''" | "range_str R7d = ''7d''"

fun AUTO_MS :: "RangeKey \<Rightarrow> nat" where
  "AUTO_MS R15m = 15000" | "AUTO_MS R1h = 30000" | "AUTO_MS R6h = 60000"
| "AUTO_MS R24h = 300000" | "AUTO_MS R7d = 900000"

definition useMonitoringStatus :: "'e query_def" where
  "useMonitoringStatus =
     (use_query (skey [''monitoring'', ''status''])
       (one_call (http_get ''/api/v1/monitoring/status'' [] [])
          (\<lambda>d. coalesce d (JObj [(''available'', JBool False), (''targets'', JNum 0)]))))
     \<lparr>qd_interval := \<lambda>_. Some 60000\<rparr>"

definition empty_panel :: "string \<Rightarrow> js" where
  "empty_panel panel = JObj [(''panel'', JStr panel), (''unit'', JStr []), (''series'', JArr [])]"

definition usePanel :: "string \<Rightarrow> RangeKey \<Rightarrow> string option \<Rightarrow> bool \<Rightarrow> string option \<Rightarrow> 'e query_def" where
  "usePanel panel rng node live gpu =
     (use_query (skey [''monitoring'', ''ts'', panel, range_str rng, str_or node [], str_or gpu []])
       (one_call (http_get ''/api/v1/monitoring/timeseries'' []
          ([(''panel'', JStr panel), (''range'', JStr (range_str rng))] @ opt_param ''node'' node @ opt_param ''gpu'' gpu))
          (\<lambda>d. coalesce d (empty_panel panel))))
     \<lparr>qd_interval := \<lambda>_. if live then Some (AUTO_MS rng) else None\<rparr>"

definition useGpuInventory :: "bool \<Rightarrow> 'e query_def" where
  "useGpuInventory live =
     (use_query (skey [''monitoring'', ''gpu-inventory''])
       (one_call (http_get ''/api/v1/monitoring/gpu-inventory'' [] []) data_or_empty))
     \<lparr>qd_interval := \<lambda>_. if live then Some 20000 else None\<rparr>"

definition useInstant :: "string \<Rightarrow> string option \<Rightarrow> bool \<Rightarrow> 'e query_def" where
  "useInstant panel node live =
     (use_query (skey [''monitoring'', ''instant'', panel, str_or node []])
       (one_call (http_get ''/api/v1/monitoring/instant'' [] ((''panel'', JStr panel) # opt_param ''node'' node))
          (\<lambda>d. coalesce d (empty_panel panel))))
     \<lparr>qd_interval := \<lambda>_. if live then Some 20000 else None\<rparr>"

definition useSessionUsageSeries :: "string option \<Rightarrow> RangeKey \<Rightarrow> bool \<Rightarrow> 'e query_def" where
  "useSessionUsageSeries sid rng live =
     (use_query (skey [''monitoring'', ''session-usage-series'', str_or sid [], range_str rng])
       (one_call (http_get ''/api/v1/monitoring/sessions/{session_id}/usage/timeseries''
          [(''session_id'', str_or sid ''undefined'')] [(''range'', JStr (range_str rng))]) (\<lambda>d. d)))
     \<lparr>qd_enabled := str_truthy sid,
      qd_interval := \<lambda>_. if live then Some (if rng = R15m then 5000 else AUTO_MS rng) else None\<rparr>"

section \<open>The admin dashboard\<close>

definition useClusterMetrics_admin :: "string option \<Rightarrow> string option \<Rightarrow> bool \<Rightarrow> 'e query_def" where
  "useClusterMetrics_admin region cluster_id enabled =
     (use_query (skey [''metrics'', ''cluster''] @ [JObj [(''region'', js_opt region), (''cluster_id'', js_opt cluster_id)]])
       (one_call (http_get ''/api/v1/metrics/cluster'' [] [(''region'', js_opt region), (''cluster_id'', js_opt cluster_id)]) (\<lambda>d. d)))
     \<lparr>qd_enabled := enabled, qd_interval := \<lambda>_. Some 15000\<rparr>"

definition useDashboardSummary_scoped :: "string \<Rightarrow> 'e query_def" where
  "useDashboardSummary_scoped scope =
     (use_query (skey [''dashboard'', ''summary'', scope])
       (one_call (http_get ''/api/v1/dashboard/summary'' [] [(''scope'', JStr scope)]) (\<lambda>d. d)))
     \<lparr>qd_interval := \<lambda>_. Some 15000\<rparr>"

section \<open>System settings\<close>

definition DEFAULT_SERVICE_NAME :: string where
  "DEFAULT_SERVICE_NAME = ''gShare''"

text \<open>
  The branding kept in the browser's storage: \<open>stored\<close> is the item under the cache key (\<open>None\<close> when
  absent, or when reading it throws), \<open>json_parse\<close> the runtime's parser (\<open>None\<close> where it throws).
\<close>

definition cachedBranding :: "(string \<Rightarrow> js option) \<Rightarrow> string option \<Rightarrow> js" where
  "cachedBranding json_parse stored =
     (let fallback = JObj [(''service_name'', JStr DEFAULT_SERVICE_NAME), (''logo'', JNull)] in
      if str_truthy stored then
        (case json_parse (the stored) of
           None \<Rightarrow> fallback
         | Some b \<Rightarrow> (case js_get ''service_name'' b of JStr n \<Rightarrow> if n \<noteq> [] then b else fallback | _ \<Rightarrow> fallback))
      else fallback)"

text \<open>\<^verbatim>\<open>rememberBranding\<close>: the new stored item; a storage that refuses the write keeps the old one.\<close>

definition rememberBranding :: "(js \<Rightarrow> string) \<Rightarrow> bool \<Rightarrow> js \<Rightarrow> string option \<Rightarrow> string option" where
  "rememberBranding json_stringify writable b stored = (if writable then Some (json_stringify b) else stored)"

definition systemKeys_branding :: "js list" where
  "systemKeys_branding = skey [''system'', ''branding'']"

definition systemKeys_signup :: "js list" where
  "systemKeys_signup = skey [''system'', ''signup'']"

definition systemKeys_placement :: "js list" where
  "systemKeys_placement = skey [''system'', ''placement'']"

definition useBranding :: "'e query_def" where
  "useBranding =
     (use_query systemKeys_branding (one_call (http_get ''/api/v1/system/branding'' [] []) (\<lambda>d. d)))\<lparr>qd_stale := 300000\<rparr>"

definition useSetBranding :: "js \<Rightarrow> mutation_def" where
  "useSetBranding body =
     (use_mutation (http_send PUT ''/api/v1/system/branding'' [] (Some body) []) [])
     \<lparr>mu_done := \<lambda>d. [SetQueryData systemKeys_branding d]\<rparr>"

definition useSignupPolicy :: "'e query_def" where
  "useSignupPolicy =
     (use_query systemKeys_signup (one_call (http_get ''/api/v1/system/signup'' [] []) (\<lambda>d. d)))\<lparr>qd_stale := 300000\<rparr>"

definition useSetSignupPolicy :: "js \<Rightarrow> mutation_def" where
  "useSetSignupPolicy body =
     (use_mutation (http_send PUT ''/api/v1/system/signup'' [] (Some body) []) [])
     \<lparr>mu_done := \<lambda>d. [SetQueryData systemKeys_signup d]\<rparr>"

definition useSignup :: "string \<Rightarrow> string \<Rightarrow> string \<Rightarrow> mutation_def" where
  "useSignup email name password =
     use_mutation (http_send POST ''/api/v1/auth/signup'' []
       (Some (JObj [(''email'', JStr email), (''name'', JStr name), (''password'', JStr password)])) []) []"

definition usePlacement :: "'e query_def" where
  "usePlacement =
     (use_query systemKeys_placement (one_call (http_get ''/api/v1/system/placement'' [] []) (\<lambda>d. d)))\<lparr>qd_stale := 60000\<rparr>"

definition useSetPlacement :: "string \<Rightarrow> mutation_def" where
  "useSetPlacement gpu_packing =
     (use_mutation (http_send PUT ''/api/v1/system/placement'' [] (Some (JObj [(''gpu_packing'', JStr gpu_packing)])) []) [])
     \<lparr>mu_done := \<lambda>d. [SetQueryData systemKeys_placement d]\<rparr>"

section \<open>The audit log\<close>

text \<open>A filter is the object the screen builds: its own properties with their values, in order.\<close>

definition auditKeys_list :: "(string \<times> js) list \<Rightarrow> js list" where
  "auditKeys_list f = skey [''audit-logs'', ''list''] @ [JObj f]"

definition useAuditLogs :: "(string \<times> js) list \<Rightarrow> 'e query_def" where
  "useAuditLogs flt =
     use_query (auditKeys_list flt)
       (one_call (http_get ''/api/v1/audit-logs'' [] flt) (\<lambda>d. coalesce d empty_envelope))"

definition export_params :: "(rat \<Rightarrow> string) \<Rightarrow> (string \<times> js) list \<Rightarrow> (string \<times> string) list" where
  "export_params sf flt =
     map (\<lambda>(k, v). (k, js_to_string sf v))
       (filter (\<lambda>(k, v). \<not> (nullish v \<or> v = JStr [] \<or> k \<in> {''page'', ''size'', ''sort''})) flt)"

definition export_headers :: "AuthState \<Rightarrow> (string \<times> string) list" where
  "export_headers s =
     (if str_truthy (accessToken s) then [(''Authorization'', ''Bearer '' @ the (accessToken s))] else []) @
     (if str_truthy (activeProjectId s) then [(''X-Project-Id'', the (activeProjectId s))] else [])"

text \<open>The request \<^verbatim>\<open>exportAuditCsv\<close> hands to \<^verbatim>\<open>fetch\<close>, and what it does with the answer: a status that is not 2xx throws.\<close>

definition exportAuditCsv :: "(rat \<Rightarrow> string) \<Rightarrow> AuthState \<Rightarrow> (string \<times> js) list \<Rightarrow> request" where
  "exportAuditCsv sf s flt =
     (http_get ''/api/v1/audit-logs/export'' [] (map (\<lambda>(k, v). (k, JStr v)) (export_params sf flt)))
     \<lparr>rq_headers := export_headers s\<rparr>"

section \<open>Notifications\<close>

definition unwrap_notifications :: "js \<Rightarrow> js" where
  "unwrap_notifications body = coalesce (js_get ''data'' body) (coalesce (js_get ''items'' body) (JArr []))"

definition notificationKeys_all :: "js list" where
  "notificationKeys_all = skey [''notifications'']"

definition useNotificationLog :: "'e query_def" where
  "useNotificationLog =
     use_query (notificationKeys_all @ skey [''log''])
       (one_call (http_get ''/api/v1/notifications'' [] [(''size'', JNum 100), (''include_deleted'', JBool True)]) unwrap_notifications)"

definition useNotifications :: "bool \<Rightarrow> 'e query_def" where
  "useNotifications unreadOnly =
     (use_query (notificationKeys_all @ [JObj [(''unreadOnly'', JBool unreadOnly)]])
       (one_call (http_get ''/api/v1/notifications'' []
          ((''size'', JNum 50) # (if unreadOnly then [(''unread'', JBool True)] else []))) unwrap_notifications))
     \<lparr>qd_interval := \<lambda>_. Some 30000\<rparr>"

definition useMarkRead :: "string \<Rightarrow> mutation_def" where
  "useMarkRead nid =
     (use_mutation (http_send POST ''/api/v1/notifications/{id}/read'' [(''id'', nid)] None []) [InvalidateQueries notificationKeys_all])\<lparr>mu_result := \<lambda>_. JUndef\<rparr>"

definition useMarkAllRead :: "mutation_def" where
  "useMarkAllRead =
     (use_mutation (http_send POST ''/api/v1/notifications/read-all'' [] None []) [InvalidateQueries notificationKeys_all])\<lparr>mu_result := \<lambda>_. JUndef\<rparr>"

definition useDeleteNotification :: "string \<Rightarrow> mutation_def" where
  "useDeleteNotification nid =
     (use_mutation (http_send DELETE ''/api/v1/notifications/{id}'' [(''id'', nid)] None []) [InvalidateQueries notificationKeys_all])\<lparr>mu_result := \<lambda>_. JUndef\<rparr>"

definition useDeleteAllNotifications :: "mutation_def" where
  "useDeleteAllNotifications =
     (use_mutation (http_send DELETE ''/api/v1/notifications'' [] None []) [InvalidateQueries notificationKeys_all])\<lparr>mu_result := \<lambda>_. JUndef\<rparr>"

lemmas infra_hook_defs = useNode_def useNodes_inventory_def useGpuDevices_def useNodePools_def useClusters_def useCluster_def
  useClusterSummary_def useMonitoringStatus_def usePanel_def useGpuInventory_def useInstant_def useSessionUsageSeries_def
  useClusterMetrics_admin_def useDashboardSummary_scoped_def useBranding_def useSignupPolicy_def usePlacement_def
  useAuditLogs_def useNotificationLog_def useNotifications_def

lemmas infra_key_defs = nodeKeys_all_def nodeKeys_devices_def nodePoolKeys_all_def nodePoolKeys_list_def
  systemKeys_branding_def systemKeys_signup_def systemKeys_placement_def auditKeys_list_def notificationKeys_all_def

lemmas infra_mutation_defs = useSetDeviceMode_def useSetPoolTargets_def useSetDeviceAlias_def useSetDeviceHealth_def
  useCordonNode_def useDrainNode_def useDeleteNode_def invalidatePoolsAndNodes_def useCreateNodePool_def
  useUpdateNodePool_def useDeleteNodePool_def useSetNodePool_def useGrantPool_def useRevokePoolGrant_def
  useRegisterCluster_def useUpdateCluster_def useDeleteCluster_def useSetBranding_def useSetSignupPolicy_def
  useSignup_def useSetPlacement_def useMarkRead_def useMarkAllRead_def useDeleteNotification_def useDeleteAllNotifications_def

declare infra_hook_defs [hook_defs]

section \<open>The cluster filter\<close>

text \<open>The cluster a screen filters by is always one the instance still has: with fewer than two clusters, or when the
  stored choice no longer exists, no filter is applied, and a stored choice that exists is applied as it is; the name
  shown for a known id is that cluster's name.\<close>

theorem useActiveCluster_valid:
  "case ac_id (useActiveCluster clusters chosen) of
     None \<Rightarrow> length clusters \<le> 1 \<or> chosen \<notin> Some ` cs_id ` set clusters \<or> chosen = Some []
   | Some cid \<Rightarrow> chosen = Some cid \<and> 1 < length clusters \<and> cid \<in> cs_id ` set clusters \<and>
       ac_name (useActiveCluster clusters chosen) (Some cid) \<in> cs_name ` {c \<in> set clusters. cs_id c = cid}"
proof (cases "ac_id (useActiveCluster clusters chosen)")
  case None
  then show ?thesis
    by (cases chosen) (auto simp: useActiveCluster_def Let_def split: if_splits)
next
  case (Some cid)
  then have c: "chosen = Some cid" "1 < length clusters" "\<exists>c \<in> set clusters. cs_id c = cid"
    by (auto simp: useActiveCluster_def Let_def split: if_splits)
  then have "find (\<lambda>c. Some (cs_id c) = Some cid) clusters \<noteq> None" by (auto simp: find_None_iff)
  then obtain c0 where "find (\<lambda>c. Some (cs_id c) = Some cid) clusters = Some c0" by blast
  moreover from this have "c0 \<in> set clusters" "cs_id c0 = cid" by (auto simp: find_Some_iff)
  ultimately show ?thesis using Some c by (auto simp: useActiveCluster_def Let_def)
qed

theorem useActiveCluster_valid_witness:
  "let a = \<lparr>cs_id = ''c1'', cs_name = ''Lab'', cs_status = ''connected''\<rparr>; b = \<lparr>cs_id = ''c2'', cs_name = ''Edge'', cs_status = ''connected''\<rparr>
   in ac_id (useActiveCluster [a, b] (Some ''c2'')) = Some ''c2'' \<and>
      ac_name (useActiveCluster [a, b] (Some ''c2'')) (Some ''c2'') = ''Edge''"
  using useActiveCluster_valid [of "[\<lparr>cs_id = ''c1'', cs_name = ''Lab'', cs_status = ''connected''\<rparr>,
      \<lparr>cs_id = ''c2'', cs_name = ''Edge'', cs_status = ''connected''\<rparr>]" "Some ''c2''"]
  by (auto simp: useActiveCluster_def Let_def)

section \<open>The audit export\<close>

lemma export_param_iff:
  "(k, v) \<in> set (export_params sf flt) \<longleftrightarrow>
     (\<exists>x. (k, x) \<in> set flt \<and> v = js_to_string sf x \<and> \<not> nullish x \<and> x \<noteq> JStr [] \<and> k \<notin> {''page'', ''size'', ''sort''})"
  by (auto simp: export_params_def image_iff)

text \<open>The exported file covers the view on the screen and nothing else: a filter of the list request is sent to the export
  exactly when it carries a value and does not concern paging or sorting, as the same text, and the request identifies
  the caller as the API client would.\<close>

theorem export_covers_view:
  "(\<forall>k x. (k, x) \<in> set flt \<and> \<not> nullish x \<and> x \<noteq> JStr [] \<and> k \<notin> {''page'', ''size'', ''sort''} \<longrightarrow>
      (k, JStr (js_to_string sf x)) \<in> set (rq_query (exportAuditCsv sf s flt))) \<and>
   (\<forall>k v. (k, v) \<in> set (rq_query (exportAuditCsv sf s flt)) \<longrightarrow>
      (\<exists>x. (k, x) \<in> set flt \<and> v = JStr (js_to_string sf x) \<and> \<not> nullish x \<and> k \<notin> {''page'', ''size'', ''sort''})) \<and>
   (\<forall>h \<in> {''Authorization'', ''X-Project-Id''}.
      get_header h (rq_headers (exportAuditCsv sf s flt)) =
      get_header h (rq_headers (authMiddleware s (http_get ''/api/v1/audit-logs'' [] flt))))"
proof -
  have q: "rq_query (exportAuditCsv sf s flt) = map (\<lambda>(k, v). (k, JStr v)) (export_params sf flt)"
    by (simp add: exportAuditCsv_def http_get_def)
  have mem: "(k, w) \<in> set (rq_query (exportAuditCsv sf s flt)) \<longleftrightarrow> (\<exists>v. (k, v) \<in> set (export_params sf flt) \<and> w = JStr v)" for k w
    unfolding q by (force simp: image_iff)
  have "get_header h (export_headers s) = get_header h (rq_headers (authMiddleware s (http_get ''/api/v1/audit-logs'' [] flt)))"
    if "h \<in> {''Authorization'', ''X-Project-Id''}" for h
    using that by (auto simp: export_headers_def authMiddleware_def Let_def set_header_def lower_names http_get_def
        get_header_def)
  moreover have "rq_headers (exportAuditCsv sf s flt) = export_headers s" by (simp add: exportAuditCsv_def)
  ultimately show ?thesis by (auto simp: mem export_param_iff)
qed

theorem export_covers_view_witness:
  "(''action'', JStr ''login'') \<in>
     set (rq_query (exportAuditCsv (\<lambda>_. []) initial_auth [(''action'', JStr ''login''), (''page'', JNum 2)]))"
  using export_covers_view [THEN conjunct1, rule_format,
      of "''action''" "JStr ''login''" "[(''action'', JStr ''login''), (''page'', JNum 2)]" "\<lambda>_. []" initial_auth]
  by simp

section \<open>Branding\<close>

text \<open>The branding shown before the first answer always has a non-empty service name, whatever the storage holds, and is
  the branding last stored when the storage took it.\<close>

theorem cachedBranding_total:
  "(\<exists>n. js_get ''service_name'' (cachedBranding parse stored) = JStr n \<and> n \<noteq> []) \<and>
   (\<forall>b n. parse (stringify b) = Some b \<and> stringify b \<noteq> [] \<and> js_get ''service_name'' b = JStr n \<and> n \<noteq> [] \<longrightarrow>
      cachedBranding parse (rememberBranding stringify True b stored) = b)"
proof -
  have "\<exists>n. js_get ''service_name'' (cachedBranding parse stored) = JStr n \<and> n \<noteq> []"
    by (auto simp: cachedBranding_def DEFAULT_SERVICE_NAME_def Let_def split: option.splits js.splits)
  then show ?thesis by (auto simp: cachedBranding_def rememberBranding_def Let_def)
qed

theorem cachedBranding_total_witness:
  "cachedBranding (\<lambda>_. Some (JObj [(''service_name'', JStr ''Lab'')]))
     (rememberBranding (\<lambda>_. ''x'') True (JObj [(''service_name'', JStr ''Lab'')]) None) = JObj [(''service_name'', JStr ''Lab'')]"
  using cachedBranding_total [of "\<lambda>_. Some (JObj [(''service_name'', JStr ''Lab'')])" None "\<lambda>_. ''x''"] by simp

section \<open>What is refreshed\<close>

text \<open>Changes of the infrastructure refresh the queries that show it: storage-pool changes the pool and volume lists and
  the dashboard's cluster metrics, node-pool changes the pools and every node list and detail, card changes the card
  lists of every node, setting changes the setting itself, and every notification action the bell, the unread count and
  the log.\<close>

theorem infra_changes_refresh:
  "stale_after (mu_done (useCreateStoragePool body key) d) (qd_key (useStoragePools c b)) \<and>
   stale_after (mu_done (useCreateStoragePool body key) d) (qd_key (useClusterMetrics_admin r c b)) \<and>
   stale_after (mu_done (useDeleteStoragePool i key) d) (qd_key useVolumes) \<and>
   stale_after (mu_done (useSetNodePool i p key) d) (qd_key (useNodePools c b)) \<and>
   stale_after (mu_done (useSetNodePool i p key) d) (qd_key (useNodes_inventory nf b)) \<and>
   stale_after (mu_done (useSetNodePool i p key) d) (qd_key (useNode (Some i))) \<and>
   stale_after (mu_done (useSetDeviceHealth i st reason) d) (qd_key (useGpuDevices n b c)) \<and>
   stale_after (mu_done (useSetDeviceMode i p) d) (qd_key (useGpuDevices n b c)) \<and>
   stale_after (mu_done (useCordonNode i cordon reason) d) (qd_key (useNodes_inventory nf b)) \<and>
   stale_after (mu_done (useRegisterCluster name kc role key) d) (qd_key useClusterSummary) \<and>
   stale_after (mu_done (useSetBranding body) d) (qd_key useBranding) \<and>
   stale_after (mu_done (useSetSignupPolicy body) d) (qd_key useSignupPolicy) \<and>
   stale_after (mu_done (useSetPlacement packing) d) (qd_key usePlacement) \<and>
   stale_after (mu_done (useMarkRead i) d) (qd_key (useNotifications b)) \<and>
   stale_after (mu_done (useMarkRead i) d) (qd_key useNotificationLog) \<and>
   stale_after (mu_done useMarkAllRead d) (qd_key (useNotifications b)) \<and>
   stale_after (mu_done (useDeleteNotification i) d) (qd_key (useNotifications b)) \<and>
   stale_after (mu_done (useDeleteNotification i) d) (qd_key useNotificationLog) \<and>
   stale_after (mu_done useDeleteAllNotifications d) (qd_key (useNotifications b)) \<and>
   stale_after (mu_done useDeleteAllNotifications d) (qd_key useNotificationLog)"
  by (simp add: infra_mutation_defs infra_hook_defs infra_key_defs resource_mutation_defs resource_hook_defs resource_key_defs)

section \<open>Keys determine fetches\<close>

datatype infra_query_use =
    QNode "string option" | QInventory NodeFilter bool | QGpuDevices "string option" bool "string option"
  | QNodePools "string option" bool | QClusters bool | QCluster "string option" | QClusterSummary
  | QMonitoringStatus | QPanel string RangeKey "string option" bool "string option" | QGpuInventory bool
  | QInstant string "string option" bool | QUsageSeriesOf "string option" RangeKey bool
  | QMetrics "string option" "string option" bool | QScopedSummary string | QBranding | QSignup | QPlacement
  | QAudit "(string \<times> js) list" | QNotificationLog | QNotifications bool

fun infra_query :: "infra_query_use \<Rightarrow> 'e query_def" where
  "infra_query (QNode i) = useNode i"
| "infra_query (QInventory f b) = useNodes_inventory f b"
| "infra_query (QGpuDevices n b c) = useGpuDevices n b c"
| "infra_query (QNodePools c b) = useNodePools c b"
| "infra_query (QClusters b) = useClusters b"
| "infra_query (QCluster c) = useCluster c"
| "infra_query QClusterSummary = useClusterSummary"
| "infra_query QMonitoringStatus = useMonitoringStatus"
| "infra_query (QPanel p r n l g) = usePanel p r n l g"
| "infra_query (QGpuInventory l) = useGpuInventory l"
| "infra_query (QInstant p n l) = useInstant p n l"
| "infra_query (QUsageSeriesOf i r l) = useSessionUsageSeries i r l"
| "infra_query (QMetrics r c b) = useClusterMetrics_admin r c b"
| "infra_query (QScopedSummary s) = useDashboardSummary_scoped s"
| "infra_query QBranding = useBranding"
| "infra_query QSignup = useSignupPolicy"
| "infra_query QPlacement = usePlacement"
| "infra_query (QAudit f) = useAuditLogs f"
| "infra_query QNotificationLog = useNotificationLog"
| "infra_query (QNotifications b) = useNotifications b"

text \<open>No node or cluster has the id \<^verbatim>\<open>all\<close>, which two of the keys use for no filter.\<close>

definition real_nodes :: "infra_query_use \<Rightarrow> bool" where
  "real_nodes q = (case q of QGpuDevices n b c \<Rightarrow> n \<noteq> Some ''all'' | QNodePools c b \<Rightarrow> c \<noteq> Some ''all'' | _ \<Rightarrow> True)"

lemma range_str_inj: "range_str r = range_str q \<longleftrightarrow> r = q"
  by (cases r; cases q) simp_all

lemma js_node_filter_eq: "js_node_filter f = js_node_filter g \<longleftrightarrow> f = g"
  by (cases f; cases g) (auto simp: js_node_filter_def)

lemma panel_call:
  "str_or n [] = str_or n' [] \<Longrightarrow> str_or g [] = str_or g' [] \<Longrightarrow>
   one_call (http_get p ps (a # b # opt_param k n @ opt_param l g)) f =
   one_call (http_get p ps (a # b # opt_param k n' @ opt_param l g')) f"
  using opt_param_str_or [of n n' k] opt_param_str_or [of g g' l] by simp

lemma infra_key_determines:
  assumes "qd_key (infra_query a :: 'e query_def) = qd_key (infra_query b :: 'e query_def)"
    "qd_enabled (infra_query a :: 'e query_def)" "qd_enabled (infra_query b :: 'e query_def)"
    and "real_nodes a" "real_nodes b"
  shows "qd_fetch (infra_query a) = (qd_fetch (infra_query b) :: (request \<Rightarrow> 'e + js) \<Rightarrow> 'e + js)"
  using assms
  by (cases a; cases b)
    (auto simp: infra_hook_defs infra_key_defs js_node_filter_eq range_str_inj real_nodes_def
      dest!: projects_key_determines intro: same_id_call same_param_call panel_call)

definition infra_query_real :: "infra_query_use \<Rightarrow> 'e query_def" where
  "infra_query_real q = (if real_nodes q then infra_query q else (infra_query q)\<lparr>qd_enabled := False\<rparr>)"

interpretation infra_keys: keyed_queries infra_query_real
proof
  fix a b :: infra_query_use
  assume "qd_key (infra_query_real a :: 'e query_def) = qd_key (infra_query_real b :: 'e query_def)"
    "qd_enabled (infra_query_real a :: 'e query_def)" "qd_enabled (infra_query_real b :: 'e query_def)"
  then show "qd_fetch (infra_query_real a) = (qd_fetch (infra_query_real b) :: (request \<Rightarrow> 'e + js) \<Rightarrow> 'e + js)"
    by (auto simp: infra_query_real_def split: if_splits intro: infra_key_determines)
qed

end
