(* ===== verification/Console_Queries.thy ===== *)
theory Console_Queries
  imports Infra_Hooks
begin

text \<open>
  All query hooks of the console together: they share one cache, so a key has to determine what is
  fetched across hooks too, not only between two uses of the same hook.
\<close>

datatype console_query_use =
    SessionQ session_query_use | BillingQ billing_query_use | IdentityQ identity_query_use
  | ResourceQ resource_query_use | InfraQ infra_query_use

text \<open>\<open>tz\<close> is the viewer's time zone offset, constant while the console runs.\<close>

fun console_query :: "int \<Rightarrow> console_query_use \<Rightarrow> 'e query_def" where
  "console_query tz (SessionQ q) = session_query q"
| "console_query tz (BillingQ q) = billing_query tz q"
| "console_query tz (IdentityQ q) = identity_query q"
| "console_query tz (ResourceQ q) = resource_query q"
| "console_query tz (InfraQ q) = infra_query q"

text \<open>The arguments that could be mistaken for the word \<^verbatim>\<open>all\<close>, which five of the keys use for no filter.\<close>

fun real_ids :: "console_query_use \<Rightarrow> bool" where
  "real_ids (IdentityQ q) = real_org_ids q"
| "real_ids (ResourceQ q) = real_filters q"
| "real_ids (InfraQ q) = real_nodes q"
| "real_ids _ = True"

text \<open>The family a key belongs to, read off its first elements.\<close>

definition session_heads :: "js list" where
  "session_heads = skey [''sessions'', ''session'', ''queue'', ''dashboard'', ''monitor'']"

definition billing_heads :: "js list" where
  "billing_heads = skey [''wallet'', ''topup-requests'', ''credits'', ''metrics'', ''alloc-reqs'', ''alloc-scope'', ''refill-schedule'']"

definition identity_heads :: "js list" where
  "identity_heads = skey [''user'', ''users'', ''organization'', ''project'', ''organizations'', ''org-admins'', ''projects'',
     ''memberships'', ''account'']"

definition resource_heads :: "js list" where
  "resource_heads = skey [''gpu-availability'', ''offering'', ''resource-preset'', ''resource-policy'', ''offerings'',
     ''resource-presets'', ''resource-policies'', ''policy-effective'', ''images'', ''image-builds'', ''volumes'', ''volume'',
     ''storage-quota-usage'', ''volume-perms'', ''storage-pools'', ''resource-requests'']"

definition key_family :: "js list \<Rightarrow> nat" where
  "key_family key =
     (if prefix_key (skey [''metrics'', ''cluster'']) key \<or> (prefix_key (skey [''dashboard'']) key \<and> length key = 3) then 4
      else if hd key \<in> set session_heads then 0
      else if hd key \<in> set billing_heads then 1
      else if hd key \<in> set identity_heads then 2
      else if hd key \<in> set resource_heads then 3
      else 4)"

lemmas head_defs = session_heads_def billing_heads_def identity_heads_def resource_heads_def

lemma family_session: "key_family (qd_key (session_query q :: 'e query_def)) = 0"
  by (cases q) (simp_all add: key_family_def head_defs session_hook_defs session_key_defs Let_def)

lemma family_billing: "key_family (qd_key (billing_query tz q :: 'e query_def)) = 1"
  by (cases q) (simp_all add: key_family_def head_defs billing_hook_defs billing_key_defs)

lemma family_identity: "key_family (qd_key (identity_query q :: 'e query_def)) = 2"
  by (cases q) (simp_all add: key_family_def head_defs identity_hook_defs identity_key_defs)

lemma family_resource: "key_family (qd_key (resource_query q :: 'e query_def)) = 3"
  by (cases q) (simp_all add: key_family_def head_defs resource_hook_defs resource_key_defs)

lemma family_infra: "key_family (qd_key (infra_query q :: 'e query_def)) = 4"
  by (cases q) (simp_all add: key_family_def head_defs infra_hook_defs infra_key_defs)

lemma console_key_determines:
  assumes key: "qd_key (console_query tz a :: 'e query_def) = qd_key (console_query tz b :: 'e query_def)"
    and en: "qd_enabled (console_query tz a :: 'e query_def)" "qd_enabled (console_query tz b :: 'e query_def)"
    and real: "real_ids a" "real_ids b"
  shows "qd_fetch (console_query tz a) = (qd_fetch (console_query tz b) :: (request \<Rightarrow> 'e + js) \<Rightarrow> 'e + js)"
proof -
  have fam: "key_family (qd_key (console_query tz a :: 'e query_def)) = key_family (qd_key (console_query tz b :: 'e query_def))"
    using key by simp
  note fams = family_session family_billing family_identity family_resource family_infra
  show ?thesis
  proof (cases a)
    case (SessionQ x)
    with fam obtain y where b: "b = SessionQ y" by (cases b) (simp_all add: fams)
    show ?thesis unfolding SessionQ b console_query.simps
      by (rule session_keys.key_determines) (use key en real SessionQ b in \<open>simp_all only: console_query.simps real_ids.simps\<close>)
  next
    case (BillingQ x)
    with fam obtain y where b: "b = BillingQ y" by (cases b) (simp_all add: fams)
    show ?thesis unfolding BillingQ b console_query.simps
      by (rule billing_key_determines) (use key en real BillingQ b in \<open>simp_all only: console_query.simps real_ids.simps\<close>)
  next
    case (IdentityQ x)
    with fam obtain y where b: "b = IdentityQ y" by (cases b) (simp_all add: fams)
    show ?thesis unfolding IdentityQ b console_query.simps
      by (rule identity_key_determines) (use key en real IdentityQ b in \<open>simp_all only: console_query.simps real_ids.simps\<close>)
  next
    case (ResourceQ x)
    with fam obtain y where b: "b = ResourceQ y" by (cases b) (simp_all add: fams)
    show ?thesis unfolding ResourceQ b console_query.simps
      by (rule resource_key_determines) (use key en real ResourceQ b in \<open>simp_all only: console_query.simps real_ids.simps\<close>)
  next
    case (InfraQ x)
    with fam obtain y where b: "b = InfraQ y" by (cases b) (simp_all add: fams)
    show ?thesis unfolding InfraQ b console_query.simps
      by (rule infra_key_determines) (use key en real InfraQ b in \<open>simp_all only: console_query.simps real_ids.simps\<close>)
  qed
qed

text \<open>Uses with a mistakable argument never occur; the interface is met by the others.\<close>

definition console_query_real :: "int \<Rightarrow> console_query_use \<Rightarrow> 'e query_def" where
  "console_query_real tz q =
     (if real_ids q then console_query tz q else (console_query tz q)\<lparr>qd_enabled := False\<rparr>)"

interpretation console_keys: keyed_queries "console_query_real tz" for tz
proof
  fix a b :: console_query_use
  assume "qd_key (console_query_real tz a :: 'e query_def) = qd_key (console_query_real tz b :: 'e query_def)"
    "qd_enabled (console_query_real tz a :: 'e query_def)" "qd_enabled (console_query_real tz b :: 'e query_def)"
  then show "qd_fetch (console_query_real tz a) = (qd_fetch (console_query_real tz b) :: (request \<Rightarrow> 'e + js) \<Rightarrow> 'e + js)"
    by (auto simp: console_query_real_def split: if_splits intro: console_key_determines)
qed

text \<open>Every mutation hook of the console, with any arguments: the session and credit ones, then the others in the order of
  their files.\<close>

inductive console_mutation :: "mutation_def \<Rightarrow> bool" where
  "console_mutation (funds_mutation key u)"
| "console_mutation (useBulkCreateUsers b k)"
| "console_mutation (useCreateUser b)"
| "console_mutation (useResetUserPassword i b')"
| "console_mutation (useUpdateUser i b)"
| "console_mutation (useSetUserDepartment i g)"
| "console_mutation (useApproveUser i b)"
| "console_mutation (useDeleteUser i)"
| "console_mutation (useCreateOrganization b)"
| "console_mutation (useUpdateOrganization i b)"
| "console_mutation (useDeleteOrganization i)"
| "console_mutation (useAddOrgAdmin i j)"
| "console_mutation (useRemoveOrgAdmin i j)"
| "console_mutation (useCreateProject b)"
| "console_mutation (useUpdateProject i b)"
| "console_mutation (useDeleteProject i)"
| "console_mutation (useAddMembership i b)"
| "console_mutation (useUpdateMembership i j r)"
| "console_mutation (useRemoveMembership i j)"
| "console_mutation (useUpdateProfile i b)"
| "console_mutation (useCreateOffering b)"
| "console_mutation (useUpdateOffering i b)"
| "console_mutation (useDeleteOffering i)"
| "console_mutation (useCreatePreset b)"
| "console_mutation (useUpdatePreset i b)"
| "console_mutation (useDeletePreset i)"
| "console_mutation (useCreatePolicy b)"
| "console_mutation (useUpdatePolicy i b)"
| "console_mutation (useDeletePolicy i)"
| "console_mutation (useImportImage b)"
| "console_mutation (useUpdateImage i b)"
| "console_mutation (useLeaveShare i j)"
| "console_mutation (useCreateVolume b)"
| "console_mutation (useDeleteVolume i f)"
| "console_mutation (useGrantPermission i b)"
| "console_mutation (useRevokePermission i j)"
| "console_mutation (useUpdateVolumeQuota i q)"
| "console_mutation (useSetVolumeLock i f)"
| "console_mutation (useCreateStoragePool b k)"
| "console_mutation (useUpdateStoragePool i b k)"
| "console_mutation (useDeleteStoragePool i k)"
| "console_mutation (useCreateResourceRequest b)"
| "console_mutation (useDecideResourceRequest i f g)"
| "console_mutation (useSetDeviceMode i g)"
| "console_mutation (useSetPoolTargets i q)"
| "console_mutation (useSetDeviceAlias i g)"
| "console_mutation (useSetDeviceHealth i r g)"
| "console_mutation (useCordonNode i f g)"
| "console_mutation (useDrainNode i g h)"
| "console_mutation (useDeleteNode i)"
| "console_mutation (useCreateNodePool b k)"
| "console_mutation (useUpdateNodePool i b k)"
| "console_mutation (useDeleteNodePool i k)"
| "console_mutation (useSetNodePool i g k)"
| "console_mutation (useGrantPool i b k)"
| "console_mutation (useRevokePoolGrant i j k)"
| "console_mutation (useRegisterCluster i j g k)"
| "console_mutation (useUpdateCluster i b)"
| "console_mutation (useDeleteCluster i)"
| "console_mutation (useSetBranding b)"
| "console_mutation (useSetSignupPolicy b)"
| "console_mutation (useSignup i j r)"
| "console_mutation (useSetPlacement r)"
| "console_mutation (useMarkRead i)"
| "console_mutation useMarkAllRead"
| "console_mutation (useDeleteNotification i)"
| "console_mutation useDeleteAllNotifications"

lemmas console_mutation_hooks = billing_mutation_defs session_mutation_hooks identity_mutation_defs resource_mutation_defs
  infra_mutation_defs

text \<open>The settings whose mutation writes its answer straight into the cache: the query, and the path both use.\<close>

definition settings_queries :: "(console_query_use \<times> string) list" where
  "settings_queries =
     [(InfraQ QBranding, ''/api/v1/system/branding''), (InfraQ QSignup, ''/api/v1/system/signup''),
      (InfraQ QPlacement, ''/api/v1/system/placement'')]"

lemma funds_mutation_sets_nothing: "SetQueryData k d \<notin> set (mu_done (funds_mutation key u) r)"
  by (cases u) (simp_all add: billing_mutation_defs session_mutation_hooks invalidateSessionAdjacent_def)

lemma mutation_sets_settings:
  assumes "console_mutation m" and "SetQueryData k d \<in> set (mu_done m r)"
  shows "d = r \<and> (\<exists>(b, path) \<in> set settings_queries. \<exists>body.
           k = qd_key (console_query tz b :: 'e query_def) \<and> mu_request m = http_send PUT path [] (Some body) [])"
  using assms
  by (induction rule: console_mutation.induct)
    (simp_all add: funds_mutation_sets_nothing console_mutation_hooks settings_queries_def useBranding_def
      useSignupPolicy_def usePlacement_def http_send_def split: if_splits)

text \<open>Two settings queries, or a settings query and any other, never share a key.\<close>

lemma settings_key_unique:
  assumes "(a, path) \<in> set settings_queries"
    and "qd_key (console_query tz a :: 'e query_def) = qd_key (console_query tz b :: 'e query_def)"
  shows "b = a"
proof -
  have "\<exists>x. a = InfraQ x" using assms(1) by (auto simp: settings_queries_def)
  then have "key_family (qd_key (console_query tz a :: 'e query_def)) = 4" using family_infra by auto
  then have "key_family (qd_key (console_query tz b :: 'e query_def)) = 4" using assms(2) by simp
  then obtain q where b: "b = InfraQ q"
    by (cases b) (simp_all add: family_session family_billing family_identity family_resource)
  show ?thesis
    using assms unfolding b
    by (cases q) (auto simp: settings_queries_def infra_hook_defs infra_key_defs Let_def)
qed

lemma settings_fetch:
  "(b, path) \<in> set settings_queries \<Longrightarrow>
   qd_fetch (console_query tz b :: 'e query_def) = one_call (http_get path [] []) (\<lambda>d. d)"
  by (auto simp: settings_queries_def useBranding_def useSignupPolicy_def usePlacement_def)

lemma fill_cache_real:
  fixes hist :: "(console_query_use, 'e) cache_event list"
  assumes "\<forall>a send. Fetched a send \<in> set hist \<longrightarrow> real_ids a"
  shows "fill_cache (console_query_real tz) hist = fill_cache (console_query tz) hist"
  using assms
proof (induction hist)
  case (Cons e hist)
  have ih: "fill_cache (console_query_real tz) hist = fill_cache (console_query tz) hist"
    by (rule Cons.IH) (use Cons.prems in auto)
  have "console_query_real tz a = (console_query tz a :: 'e query_def)" if "Fetched a send = e" for a send
    using Cons.prems that by (auto simp: console_query_real_def)
  with ih show ?case by (cases e) (auto split: sum.splits)
qed simp

text \<open>C11: The console's cache never holds one query's data under another's key. After any history of fetches of all the
  query hooks with all their arguments, of mutations of all the mutation hooks, of sign-ins and sign-outs, data found
  under the key of an enabled query is an answer of that very query's own fetch (to some server state it was sent to), or
  the query is one of the three system settings and the data is the server's answer to a \<^verbatim>\<open>PUT\<close> of the very path the
  query reads. No two of the 71 hooks share a key, two uses of a hook share one only when they fetch the same, and no
  other mutation writes data into the cache. The one assumption is that no organization, cluster, node, preset kind or
  policy scope is called \<^verbatim>\<open>all\<close>.\<close>

theorem console_cache_sound:
  assumes "fill_cache (console_query tz) hist (qd_key (console_query tz b :: 'e query_def)) = Some d"
    and "qd_enabled (console_query tz b :: 'e query_def)"
    and "real_ids b" and "\<forall>a send. Fetched a send \<in> set hist \<longrightarrow> real_ids a"
    and "\<forall>m send. Mutated m send \<in> set hist \<longrightarrow> console_mutation m"
  shows "(\<exists>a send. Fetched a send \<in> set hist \<and> qd_fetch (console_query tz b :: 'e query_def) send = Inr d) \<or>
         (\<exists>m send path body. Mutated m send \<in> set hist \<and> (b, path) \<in> set settings_queries \<and>
            mu_request m = http_send PUT path [] (Some body) [] \<and> send (mu_request m) = Inr d \<and>
            qd_fetch (console_query tz b :: 'e query_def) = one_call (http_get path [] []) (\<lambda>d. d))"
proof -
  have "(\<exists>a send. Fetched a send \<in> set hist \<and> qd_fetch (console_query tz b :: 'e query_def) send = Inr d) \<or>
        set_by_mutation hist (qd_key (console_query tz b :: 'e query_def)) d"
    using console_keys.cached_is_own [of tz hist b d] assms(1-3) fill_cache_real [OF assms(4)]
    by (simp add: console_query_real_def)
  then show ?thesis
  proof
    assume "set_by_mutation hist (qd_key (console_query tz b :: 'e query_def)) d"
    then obtain m send r where m: "Mutated m send \<in> set hist" "send (mu_request m) = Inr r"
        "SetQueryData (qd_key (console_query tz b :: 'e query_def)) d \<in> set (mu_done m r)"
      by (auto simp: set_by_mutation_def)
    then have "console_mutation m" using assms(5) by blast
    from mutation_sets_settings [OF this m(3), of tz] obtain a path body where s: "d = r" "(a, path) \<in> set settings_queries"
        "qd_key (console_query tz b :: 'e query_def) = qd_key (console_query tz a :: 'e query_def)"
        "mu_request m = http_send PUT path [] (Some body) []"
      by blast
    then have "b = a" using settings_key_unique by metis
    then show ?thesis using m s settings_fetch by blast
  qed simp
qed

text \<open>A dashboard fetched among others, and a placement setting saved after it was read.\<close>

theorem console_cache_sound_witness:
  "(\<exists>a send. Fetched a send \<in> set [Fetched (InfraQ (QScopedSummary ''mine'')) (\<lambda>_. Inr JNull :: string + js),
                       Mutated (useStopSession ''s1'') (\<lambda>_. Inr JNull),
                       Fetched (SessionQ QDashboard) (\<lambda>_. Inr (JStr ''summary''))] \<and>
     qd_fetch (console_query 0 (SessionQ QDashboard)) send = Inr (JStr ''summary'')) \<and>
   (\<exists>m send path body.
      Mutated m send \<in> set [Mutated (useSetPlacement ''spread'') (\<lambda>_. Inr (JStr ''saved'') :: string + js),
                             Fetched (InfraQ QPlacement) (\<lambda>_. Inr (JStr ''old''))] \<and>
      mu_request m = http_send PUT path [] (Some body) [] \<and> send (mu_request m) = Inr (JStr ''saved''))"
proof -
  let ?h1 = "[Fetched (InfraQ (QScopedSummary ''mine'')) (\<lambda>_. Inr JNull :: string + js),
              Mutated (useStopSession ''s1'') (\<lambda>_. Inr JNull), Fetched (SessionQ QDashboard) (\<lambda>_. Inr (JStr ''summary''))]"
  let ?h2 = "[Mutated (useSetPlacement ''spread'') (\<lambda>_. Inr (JStr ''saved'') :: string + js),
              Fetched (InfraQ QPlacement) (\<lambda>_. Inr (JStr ''old''))]"
  have c1: "console_mutation (useStopSession ''s1'')" using console_mutation.intros(1) [of "[]" "MStop ''s1''"] by simp
  have c2: "console_mutation (useSetPlacement ''spread'')" by (rule console_mutation.intros)
  have f1: "fill_cache (console_query 0) ?h1 (qd_key (console_query 0 (SessionQ QDashboard) :: string query_def)) = Some (JStr ''summary'')"
    by (simp add: useDashboardSummary_def useDashboardSummary_scoped_def one_call_def run_mutation_def useStopSession_def
        useSessionAction_def invalidateSessionAdjacent_def)
  have f2: "fill_cache (console_query 0) ?h2 (qd_key (console_query 0 (InfraQ QPlacement) :: string query_def)) = Some (JStr ''saved'')"
    by (simp add: usePlacement_def one_call_def run_mutation_def useSetPlacement_def)
  have "\<exists>a send. Fetched a send \<in> set ?h1 \<and> qd_fetch (console_query 0 (SessionQ QDashboard)) send = Inr (JStr ''summary'')"
    using console_cache_sound [OF f1] c1
    by (auto simp: useDashboardSummary_def real_org_ids_def real_nodes_def settings_queries_def)
  moreover have "\<exists>m send path body. Mutated m send \<in> set ?h2 \<and> mu_request m = http_send PUT path [] (Some body) [] \<and>
      send (mu_request m) = Inr (JStr ''saved'')"
    using console_cache_sound [OF f2] c2 by (auto simp: usePlacement_def real_nodes_def one_call_def)
  ultimately show ?thesis by blast
qed

section \<open>What a session action makes the console refetch\<close>

















end
