(* ===== verification/Ui_Store.thy ===== *)
theory Ui_Store
  imports Gs_Prelude
begin

text \<open>
  The interface store (\<^verbatim>\<open>frontend/src/store/uiStore.ts\<close>): theme, toasts and their timers, the chosen cluster
  and the folded navigation groups. The theme attribute of the document and the pending timers are part
  of the state, since the operations change them.
\<close>

record Toast =
  to_id :: string
  to_kind :: string
  to_message :: string
  to_action :: "string option"

record UiState =
  ui_theme :: string
  ui_toasts :: "Toast list"
  ui_activeClusterId :: "string option"
  ui_navGroupsClosed :: "string list"

text \<open>The store with its surroundings: the document's theme attribute and the timers, each a toast id and the time it fires.\<close>

record ui =
  ui_state :: UiState
  ui_document :: "string option"
  ui_timers :: "(string \<times> nat) list"

definition ui_init :: ui where
  "ui_init =
     \<lparr>ui_state = \<lparr>ui_theme = ''dark'', ui_toasts = [], ui_activeClusterId = None, ui_navGroupsClosed = []\<rparr>,
      ui_document = None, ui_timers = []\<rparr>"

definition setActiveCluster :: "string option \<Rightarrow> UiState \<Rightarrow> UiState" where
  "setActiveCluster cid s = s\<lparr>ui_activeClusterId := cid\<rparr>"

definition toggleNavGroup :: "string \<Rightarrow> UiState \<Rightarrow> UiState" where
  "toggleNavGroup key s =
     (let closed = ui_navGroupsClosed s in
      s\<lparr>ui_navGroupsClosed := if key \<in> set closed then filter (\<lambda>k. k \<noteq> key) closed else closed @ [key]\<rparr>)"

definition openNavGroup :: "string \<Rightarrow> UiState \<Rightarrow> UiState" where
  "openNavGroup key s =
     (let closed = ui_navGroupsClosed s in
      if key \<in> set closed then s\<lparr>ui_navGroupsClosed := filter (\<lambda>k. k \<noteq> key) closed\<rparr> else s)"

definition toggleTheme :: "ui \<Rightarrow> ui" where
  "toggleTheme u =
     (let nxt = (if ui_theme (ui_state u) = ''dark'' then ''light'' else ''dark'') in
      u\<lparr>ui_document := Some nxt, ui_state := (ui_state u)\<lparr>ui_theme := nxt\<rparr>\<rparr>)"

definition applyTheme :: "ui \<Rightarrow> ui" where
  "applyTheme u = u\<lparr>ui_document := Some (ui_theme (ui_state u))\<rparr>"

definition dismissToast :: "string \<Rightarrow> UiState \<Rightarrow> UiState" where
  "dismissToast i s = s\<lparr>ui_toasts := filter (\<lambda>t. to_id t \<noteq> i) (ui_toasts s)\<rparr>"

text \<open>\<open>i\<close> is the id drawn for the toast, \<open>now\<close> the time of the call in milliseconds.\<close>

definition pushToast :: "nat \<Rightarrow> string \<Rightarrow> string \<Rightarrow> string \<Rightarrow> string option \<Rightarrow> ui \<Rightarrow> ui" where
  "pushToast now i kind message action u =
     u\<lparr>ui_state := (ui_state u)\<lparr>ui_toasts := ui_toasts (ui_state u) @
           [\<lparr>to_id = i, to_kind = kind, to_message = message, to_action = action\<rparr>]\<rparr>,
       ui_timers := ui_timers u @ [(i, now + (if action \<noteq> None then 10000 else 5000))]\<rparr>"

text \<open>The timers due at \<open>now\<close> fire, in the order they were set.\<close>

definition fire_timers :: "nat \<Rightarrow> ui \<Rightarrow> ui" where
  "fire_timers now u =
     u\<lparr>ui_state := fold (\<lambda>(i, _). dismissToast i) (filter (\<lambda>(_, t). t \<le> now) (ui_timers u)) (ui_state u),
       ui_timers := filter (\<lambda>(_, t). \<not> t \<le> now) (ui_timers u)\<rparr>"

text \<open>A page load keeps what \<^verbatim>\<open>partialize\<close> persists.\<close>

definition ui_rehydrate :: "ui \<Rightarrow> ui" where
  "ui_rehydrate u =
     ui_init\<lparr>ui_state := (ui_state ui_init)\<lparr>ui_activeClusterId := ui_activeClusterId (ui_state u),
       ui_theme := ui_theme (ui_state u), ui_navGroupsClosed := ui_navGroupsClosed (ui_state u)\<rparr>\<rparr>"

section \<open>The store as a machine\<close>

text \<open>The store paired with the clock; time only moves forward, and due timers fire when it does.\<close>

inductive ui_step :: "ui \<times> nat \<Rightarrow> ui \<times> nat \<Rightarrow> bool" where
  step_push: "ui_step (u, now) (pushToast now i kind message action u, now)"
| step_dismiss: "ui_step (u, now) (u\<lparr>ui_state := dismissToast i (ui_state u)\<rparr>, now)"
| step_cluster: "ui_step (u, now) (u\<lparr>ui_state := setActiveCluster cid (ui_state u)\<rparr>, now)"
| step_toggle_group: "ui_step (u, now) (u\<lparr>ui_state := toggleNavGroup key (ui_state u)\<rparr>, now)"
| step_open_group: "ui_step (u, now) (u\<lparr>ui_state := openNavGroup key (ui_state u)\<rparr>, now)"
| step_theme: "ui_step (u, now) (toggleTheme u, now)"
| step_apply: "ui_step (u, now) (applyTheme u, now)"
| step_time: "now \<le> later \<Longrightarrow> ui_step (u, now) (fire_timers later u, later)"
| step_ui_reload: "ui_step (u, now) (ui_rehydrate u, now)"

text \<open>
  Every toast on the screen has a timer that fires within ten seconds, the folded groups are listed once,
  the theme is one of the two, and the document shows the store's theme once it shows any.
\<close>

definition ui_inv :: "ui \<times> nat \<Rightarrow> bool" where
  "ui_inv un \<longleftrightarrow>
     (\<forall>t \<in> set (ui_toasts (ui_state (fst un))). \<exists>due. (to_id t, due) \<in> set (ui_timers (fst un)) \<and> due \<le> snd un + 10000) \<and>
     distinct (ui_navGroupsClosed (ui_state (fst un))) \<and>
     ui_theme (ui_state (fst un)) \<in> {''light'', ''dark''} \<and>
     ui_document (fst un) \<in> {None, Some (ui_theme (ui_state (fst un)))}"

lemma fold_dismiss:
  "fold (\<lambda>(i, _). dismissToast i) ts s = s\<lparr>ui_toasts := filter (\<lambda>t. to_id t \<notin> fst ` set ts) (ui_toasts s)\<rparr>"
proof (induction ts arbitrary: s)
  case (Cons t ts)
  have "(\<lambda>x. to_id x \<noteq> fst t \<and> to_id x \<notin> fst ` set ts) = (\<lambda>x. to_id x \<notin> fst ` set (t # ts))" by auto
  then show ?case using Cons.IH by (simp add: dismissToast_def split_beta conj_commute)
qed simp

lemma fire_timers_simps [simp]:
  "ui_toasts (ui_state (fire_timers now u)) =
     filter (\<lambda>t. to_id t \<notin> fst ` set (filter (\<lambda>(_, d). d \<le> now) (ui_timers u))) (ui_toasts (ui_state u))"
  "ui_timers (fire_timers now u) = filter (\<lambda>(_, t). \<not> t \<le> now) (ui_timers u)"
  "ui_theme (ui_state (fire_timers now u)) = ui_theme (ui_state u)"
  "ui_navGroupsClosed (ui_state (fire_timers now u)) = ui_navGroupsClosed (ui_state u)"
  "ui_document (fire_timers now u) = ui_document u"
  by (simp_all add: fire_timers_def fold_dismiss)

lemma toast_survives:
  assumes "t \<in> set (ui_toasts (ui_state (fire_timers later u)))" "(to_id t, due) \<in> set (ui_timers u)"
  shows "(to_id t, due) \<in> set (ui_timers (fire_timers later u))"
proof -
  have "to_id t \<notin> fst ` set (filter (\<lambda>(_, d). d \<le> later) (ui_timers u))" using assms(1) by auto
  then have "\<not> due \<le> later" using assms(2) by (force simp: image_iff)
  then show ?thesis using assms(2) by simp
qed

lemma ui_inv_step:
  assumes inv: "ui_inv un" and step: "ui_step un un'"
  shows "ui_inv un'"
  using step
proof cases
  case (step_push u now i kind message action)
  then show ?thesis using inv by (fastforce simp: ui_inv_def pushToast_def)
next
  case (step_dismiss u now i)
  then show ?thesis using inv by (fastforce simp: ui_inv_def dismissToast_def)
next
  case (step_time now later u)
  have "\<exists>due. (to_id t, due) \<in> set (ui_timers (fire_timers later u)) \<and> due \<le> later + 10000"
    if t: "t \<in> set (ui_toasts (ui_state (fire_timers later u)))" for t
  proof -
    have "t \<in> set (ui_toasts (ui_state u))" using t by simp
    then obtain due where due: "(to_id t, due) \<in> set (ui_timers u)" "due \<le> now + 10000"
      using inv step_time(1) by (auto simp: ui_inv_def)
    show ?thesis
      by (rule exI [of _ due]) (use toast_survives [OF t due(1)] due(2) step_time(3) in simp)
  qed
  then show ?thesis using inv step_time(1,2) by (simp add: ui_inv_def)
qed (use inv in \<open>auto simp: ui_inv_def setActiveCluster_def toggleNavGroup_def openNavGroup_def toggleTheme_def
      applyTheme_def ui_rehydrate_def ui_init_def Let_def\<close>)

interpretation ui_machine: inductive_invariant "(ui_init, 0)" ui_step ui_inv
proof unfold_locales
  show "ui_inv (ui_init, 0)" by (simp add: ui_inv_def ui_init_def)
qed (rule ui_inv_step)

text \<open>No toast stays. In every state the interface can reach, a toast on the screen has a pending timer that fires at
  most ten seconds later, so ten seconds of further time without new toasts leave none, whatever else happened before.\<close>

theorem toasts_expire:
  assumes "reach (ui_init, 0) ui_step (u, now)"
  shows "ui_toasts (ui_state (fire_timers (now + 10000) u)) = []"
proof -
  have "ui_inv (u, now)" using ui_machine.inv_reach [OF assms] .
  then have "to_id t \<in> fst ` set (filter (\<lambda>(_, d). d \<le> now + 10000) (ui_timers u))"
    if "t \<in> set (ui_toasts (ui_state u))" for t
    using that by (force simp: ui_inv_def image_iff)
  then show ?thesis by (simp add: filter_empty_conv)
qed

theorem toasts_expire_witness:
  "ui_toasts (ui_state (fire_timers 10000 (pushToast 0 ''t1'' ''info'' ''saved'' (Some ''undo'') ui_init))) = []"
proof -
  have "reach (ui_init, 0) ui_step (pushToast 0 ''t1'' ''info'' ''saved'' (Some ''undo'') ui_init, 0)"
    by (rule reach_step [OF reach_init]) (rule step_push)
  from toasts_expire [OF this] show ?thesis by simp
qed

lemma openNavGroup_opens: "key \<notin> set (ui_navGroupsClosed (openNavGroup key s))"
  by (simp add: openNavGroup_def Let_def)

lemma toggle_twice: "distinct (ui_navGroupsClosed s) \<Longrightarrow>
   set (ui_navGroupsClosed (toggleNavGroup key (toggleNavGroup key s))) = set (ui_navGroupsClosed s)"
  by (auto simp: toggleNavGroup_def Let_def)

end
