(* ===== verification/Navigation.thy ===== *)
theory Navigation
  imports Console_Queries Ui_Store
begin

text \<open>
  The navigation of the console (\<^verbatim>\<open>components/Layout.tsx\<close>) and the admin routes with their guards
  (\<^verbatim>\<open>routes/router.tsx\<close>). The two tables live in different files; what makes them agree is proved here.
\<close>

section \<open>The navigation tables\<close>

record NavItem =
  ni_to :: string
  ni_badge :: "string option"
  ni_labelKey :: string
  ni_minRole :: "string option"
  ni_exactGlobal :: "string option"

definition nav :: "string \<Rightarrow> string \<Rightarrow> string option \<Rightarrow> string option \<Rightarrow> string option \<Rightarrow> NavItem" where
  "nav to labelKey minRole exactGlobal badge =
     \<lparr>ni_to = to, ni_badge = badge, ni_labelKey = labelKey, ni_minRole = minRole, ni_exactGlobal = exactGlobal\<rparr>"

definition USER_NAV :: "NavItem list" where
  "USER_NAV =
     [nav ''/'' ''nav.user.dashboard'' None None None,
      nav ''/sessions'' ''nav.user.sessions'' None None None,
      nav ''/queue'' ''nav.user.queue'' None None None,
      nav ''/data'' ''nav.user.data'' None None None,
      nav ''/wallet'' ''nav.user.wallet'' None None None]"

definition ADMIN_DASHBOARD :: NavItem where
  "ADMIN_DASHBOARD = nav ''/admin'' ''nav.admin.dashboard'' (Some ''group_admin'') None None"

definition ADMIN_GROUPS :: "(string \<times> NavItem list) list" where
  "ADMIN_GROUPS =
     [(''nav.adminGroup.tenancy'',
       [nav ''/admin/orgs'' ''nav.admin.orgs'' None (Some ''super_admin'') None,
        nav ''/admin/groups'' ''nav.admin.groups'' (Some ''group_admin'') None None,
        nav ''/admin/users'' ''nav.admin.users'' (Some ''group_admin'') None (Some ''signups'')]),
      (''nav.adminGroup.infra'',
       [nav ''/admin/clusters'' ''nav.admin.clusters'' None (Some ''super_admin'') None,
        nav ''/admin/nodes'' ''nav.admin.nodes'' (Some ''org_admin'') None None,
        nav ''/admin/gpus'' ''nav.admin.gpus'' None (Some ''super_admin'') None]),
      (''nav.adminGroup.resources'',
       [nav ''/admin/resources'' ''nav.admin.resources'' None (Some ''super_admin'') None,
        nav ''/admin/policies'' ''nav.admin.policies'' (Some ''group_admin'') None (Some ''quota''),
        nav ''/admin/images'' ''nav.admin.images'' None (Some ''super_admin'') None,
        nav ''/admin/volumes'' ''nav.admin.volumes'' None (Some ''super_admin'') None,
        nav ''/admin/allocations'' ''nav.admin.allocations'' (Some ''group_admin'') None (Some ''credits'')]),
      (''nav.adminGroup.ops'',
       [nav ''/admin/monitor'' ''nav.admin.monitor'' (Some ''group_admin'') None None,
        nav ''/admin/monitoring'' ''nav.admin.monitoring'' None (Some ''super_admin'') None,
        nav ''/admin/audit'' ''nav.admin.audit'' (Some ''group_admin'') None None,
        nav ''/admin/system'' ''nav.admin.system'' None (Some ''super_admin'') None])]"

definition canSee :: "NavItem \<Rightarrow> string option \<Rightarrow> string option \<Rightarrow> bool" where
  "canSee item globalRole memRole =
     (let effective = effective_role globalRole memRole in
      if str_truthy (ni_exactGlobal item)
      then globalRole = ni_exactGlobal item \<or> effective = ni_exactGlobal item
      else if str_truthy (ni_minRole item) then atLeast_role effective (ni_minRole item)
      else True)"

section \<open>The admin routes\<close>

text \<open>A guard is a use of \<^verbatim>\<open>RequireRole\<close>: \<open>(role, min)\<close>. Each admin page stands below the guard of the subtree and, where it has one, its own.\<close>

type_synonym guard = "string option \<times> string option"

definition subtree_guard :: guard where
  "subtree_guard = (None, Some ''group_admin'')"

definition super_only :: "guard list" where
  "super_only = [(Some ''super_admin'', None)]"

definition min_role :: "string \<Rightarrow> guard list" where
  "min_role r = [(None, Some r)]"

definition admin_routes :: "(string \<times> guard list) list" where
  "admin_routes = map (\<lambda>(p, gs). (p, subtree_guard # gs))
     [(''/admin'', []),
      (''/admin/orgs'', super_only),
      (''/admin/orgs/:orgId/admins'', super_only),
      (''/admin/users'', min_role ''group_admin''),
      (''/admin/users/bulk'', min_role ''org_admin''),
      (''/admin/users/:userId/delete'', min_role ''group_admin''),
      (''/admin/groups'', min_role ''group_admin''),
      (''/admin/groups/:groupId/admins'', min_role ''group_admin''),
      (''/admin/groups/:groupId/delete'', min_role ''group_admin''),
      (''/admin/resources'', super_only),
      (''/admin/system'', super_only),
      (''/admin/policies'', min_role ''group_admin''),
      (''/admin/policies/new'', super_only),
      (''/admin/policies/:policyId/edit'', super_only),
      (''/admin/clusters'', super_only),
      (''/admin/nodes'', min_role ''org_admin''),
      (''/admin/gpus'', super_only),
      (''/admin/nodes/:nodeId/drain'', super_only),
      (''/admin/nodes/:nodeId/devices'', super_only),
      (''/admin/allocations'', []),
      (''/admin/monitor'', []),
      (''/admin/monitoring'', super_only),
      (''/admin/monitor/sessions/:sessionId/terminate'', []),
      (''/admin/audit'', min_role ''group_admin''),
      (''/admin/images'', super_only),
      (''/admin/volumes'', super_only)]"

text \<open>Nested guards render from the outside in: the first that does not admit decides.\<close>

fun guards_outcome :: "guard list \<Rightarrow> AuthState \<Rightarrow> role_outcome" where
  "guards_outcome [] s = Admit"
| "guards_outcome ((role, mn) # gs) s =
     (case RequireRole role mn s of Admit \<Rightarrow> guards_outcome gs s | other \<Rightarrow> other)"

definition route_outcome :: "string \<Rightarrow> AuthState \<Rightarrow> role_outcome option" where
  "route_outcome path s = map_option (\<lambda>gs. guards_outcome gs s) (map_of admin_routes path)"

section \<open>The shell\<close>

definition activeProject :: "AuthState \<Rightarrow> Membership option" where
  "activeProject s = find (\<lambda>m. Some (mb_group_id m) = activeProjectId s) (memberships s)"

definition adminRole :: "AuthState \<Rightarrow> string option" where
  "adminRole s =
     (let memRole = (case activeProject s of Some m \<Rightarrow> Some (mb_role m) | None \<Rightarrow> membershipRole s);
          g = jc_global_role (claims s)
      in if g = Some ''super_admin'' then Some ''super_admin''
         else if g = Some ''org_admin'' \<or> atLeast_role memRole (Some ''org_admin'') then Some ''org_admin''
         else if atLeast_role memRole (Some ''group_admin'') then Some ''group_admin''
         else None)"

text \<open>The pending counts of the badges, from the cached data of the four inbox queries (undefined while a query has none).\<close>

record pending_counts =
  pc_credits :: nat
  pc_quota :: nat
  pc_signups :: nat

definition count_pending :: "js \<Rightarrow> nat" where
  "count_pending rows =
     length (filter (\<lambda>r. coalesce (js_get ''status'' r) (JStr ''pending'') = JStr ''pending'') (js_elems rows))"

definition usePendingApprovals :: "bool \<Rightarrow> js \<Rightarrow> js \<Rightarrow> js \<Rightarrow> js \<Rightarrow> pending_counts" where
  "usePendingApprovals isAdminConsole allocs topups quota signups =
     (if \<not> isAdminConsole then \<lparr>pc_credits = 0, pc_quota = 0, pc_signups = 0\<rparr>
      else \<lparr>pc_credits = count_pending allocs + count_pending (js_get ''data'' topups),
            pc_quota = count_pending quota,
            pc_signups = length (js_elems (js_get ''data'' signups))\<rparr>)"

definition pending_of :: "pending_counts \<Rightarrow> string option \<Rightarrow> nat" where
  "pending_of p badge =
     (if badge = Some ''credits'' then pc_credits p else if badge = Some ''quota'' then pc_quota p
      else if badge = Some ''signups'' then pc_signups p else 0)"

text \<open>Landing on a page opens the group that holds it; the admin sidebar then lists the groups with something visible.\<close>

definition open_holding :: "string \<Rightarrow> UiState \<Rightarrow> UiState" where
  "open_holding pathname u =
     (case find (\<lambda>(_, items). \<exists>i \<in> set items. starts_with pathname (ni_to i)) ADMIN_GROUPS of
        None \<Rightarrow> u | Some (labelKey, _) \<Rightarrow> openNavGroup labelKey u)"

record nav_group =
  ng_label :: string
  ng_visible :: "NavItem list"
  ng_open :: bool
  ng_waiting :: nat

definition sidebar :: "bool \<Rightarrow> pending_counts \<Rightarrow> AuthState \<Rightarrow> UiState \<Rightarrow> nav_group list" where
  "sidebar collapsed pending s u =
     filter (\<lambda>g. ng_visible g \<noteq> [])
       (map (\<lambda>(labelKey, items).
          let visible = filter (\<lambda>i. canSee i (jc_global_role (claims s)) (membershipRole s)) items in
          \<lparr>ng_label = labelKey, ng_visible = visible,
           ng_open = collapsed \<or> labelKey \<notin> set (ui_navGroupsClosed u),
           ng_waiting = sum_list (map (\<lambda>i. pending_of pending (ni_badge i)) visible)\<rparr>) ADMIN_GROUPS)"

section \<open>Navigation and guards agree\<close>

definition admin_items :: "NavItem list" where
  "admin_items = ADMIN_DASHBOARD # concat (map snd ADMIN_GROUPS)"

text \<open>What a role has to be for an item, and for its route, in one form: the two tables are compared entry by entry.\<close>

definition item_guard :: "NavItem \<Rightarrow> guard" where
  "item_guard i = (ni_exactGlobal i, ni_minRole i)"

definition same_demand :: "guard \<Rightarrow> guard list \<Rightarrow> bool" where
  "same_demand g gs =
     (gs = [subtree_guard] \<and> g = subtree_guard \<or> gs = [subtree_guard, g] \<and>
      g \<in> {(Some ''super_admin'', None), (None, Some ''org_admin''), (None, Some ''group_admin'')})"

lemma tables_agree: "\<forall>i \<in> set admin_items. \<exists>gs. map_of admin_routes (ni_to i) = Some gs \<and> same_demand (item_guard i) gs"
  by (simp add: admin_items_def ADMIN_DASHBOARD_def ADMIN_GROUPS_def nav_def admin_routes_def same_demand_def
      item_guard_def subtree_guard_def super_only_def min_role_def)

definition guard_ok :: "guard \<Rightarrow> string option \<Rightarrow> bool" where
  "guard_ok g eff = (case g of (role, mn) \<Rightarrow>
     if str_truthy role then eff = role else if str_truthy mn then atLeast_role eff mn else True)"

lemma RequireRole_ok:
  "RequireRole role mn s =
     (if jc_global_role (claims s) = Some ''super_admin'' then Admit
      else if \<not> meLoaded s \<and> \<not> str_truthy (jc_global_role (claims s)) then Loading
      else if guard_ok (role, mn) (effective_role (jc_global_role (claims s)) (membershipRole s)) then Admit else Forbidden)"
  by (auto simp: RequireRole_def guard_ok_def Let_def)

lemma guards_outcome_ok:
  "guards_outcome gs s =
     (if gs = [] \<or> jc_global_role (claims s) = Some ''super_admin'' then Admit
      else if \<not> meLoaded s \<and> \<not> str_truthy (jc_global_role (claims s)) then Loading
      else if list_all (\<lambda>g. guard_ok g (effective_role (jc_global_role (claims s)) (membershipRole s))) gs then Admit else Forbidden)"
  by (induction gs) (auto simp: RequireRole_ok)

lemma atLeast_trans_admin:
  assumes "eff = Some ''super_admin'' \<or> atLeast_role eff (Some ''org_admin'') \<or> atLeast_role eff (Some ''group_admin'')"
  shows "atLeast_role eff (Some ''group_admin'')"
  using assms by (cases eff) (auto simp: atLeast_role_def rank_def ROLE_ORDER_def split: if_splits)

lemma same_demand_ok:
  assumes "same_demand g gs"
  shows "list_all (\<lambda>h. guard_ok h eff) gs \<longleftrightarrow> guard_ok g eff"
  using assms atLeast_trans_admin [of eff]
  by (auto simp: same_demand_def guard_ok_def subtree_guard_def)

lemma canSee_guard:
  assumes "same_demand (item_guard i) gs"
  shows "canSee i g m \<longleftrightarrow> g = Some ''super_admin'' \<or> guard_ok (item_guard i) (effective_role g m)"
proof -
  have "atLeast_role (Some ''super_admin'') (Some ''org_admin'')" "atLeast_role (Some ''super_admin'') (Some ''group_admin'')"
    by (simp_all add: atLeast_role_def rank_def ROLE_ORDER_def)
  then show ?thesis
    using assms by (auto simp: canSee_def same_demand_def item_guard_def guard_ok_def subtree_guard_def effective_role_def Let_def)
qed

text \<open>C12: The sidebar and the router agree. Every admin navigation entry has a route, and once the memberships are known (or
  the token itself names a role) an entry is shown exactly when its route admits the account; before that, no shown entry
  is ever refused. An administrator is never shown a link that leads to 403, and never misses one that would open.\<close>

theorem nav_matches_guards:
  assumes "i \<in> set admin_items"
  shows "\<exists>out. route_outcome (ni_to i) s = Some out \<and>
     (canSee i (jc_global_role (claims s)) (membershipRole s) \<longrightarrow> out \<noteq> Forbidden) \<and>
     (meLoaded s \<or> str_truthy (jc_global_role (claims s)) \<longrightarrow>
        (canSee i (jc_global_role (claims s)) (membershipRole s) \<longleftrightarrow> out = Admit))"
proof -
  obtain gs where gs: "map_of admin_routes (ni_to i) = Some gs" "same_demand (item_guard i) gs"
    using assms tables_agree by blast
  then have "gs \<noteq> []" by (auto simp: same_demand_def)
  then show ?thesis using gs
    by (simp add: route_outcome_def guards_outcome_ok same_demand_ok [OF gs(2)] canSee_guard [OF gs(2)])
qed

theorem nav_matches_guards_witness:
  "\<exists>out. route_outcome (ni_to ADMIN_DASHBOARD) (initial_auth\<lparr>meLoaded := True, membershipRole := Some ''member''\<rparr>) = Some out \<and> out \<noteq> Admit"
  using nav_matches_guards [of ADMIN_DASHBOARD "initial_auth\<lparr>meLoaded := True, membershipRole := Some ''member''\<rparr>"]
  by (auto simp: admin_items_def canSee_def ADMIN_DASHBOARD_def nav_def effective_role_def atLeast_role_def rank_def
      ROLE_ORDER_def no_claims_def)

section \<open>The switch to the admin console\<close>

lemma member_is_no_admin:
  assumes "jc_global_role (claims s) = None" and "find (\<lambda>m. Some (mb_group_id m) = activeProjectId s) (memberships s) = Some m"
    and "mb_role m = ''member''"
  shows "adminRole s = None"
  using assms by (simp add: adminRole_def activeProject_def atLeast_role_def rank_def ROLE_ORDER_def)

lemma group_admin_admitted:
  assumes "jc_global_role (claims s) = None" and "meLoaded s" and "membershipRole s = Some ''group_admin''"
  shows "route_outcome ''/admin'' s = Some Admit"
proof -
  have "map_of admin_routes ''/admin'' = Some [subtree_guard]" by (simp add: admin_routes_def)
  moreover have "atLeast_role (Some ''group_admin'') (Some ''group_admin'')" by (simp add: atLeast_role_def)
  ultimately show ?thesis
    using assms by (simp add: route_outcome_def guards_outcome_ok guard_ok_def subtree_guard_def effective_role_def)
qed

definition two_groups :: "Membership list" where
  "two_groups =
     [\<lparr>mb_group_id = ''g1'', mb_project_name = ''A'', mb_org_id = None, mb_org_name = None,
       mb_role = ''member'', mb_has_group_admin = None\<rparr>,
      \<lparr>mb_group_id = ''g2'', mb_project_name = ''B'', mb_org_id = None, mb_org_name = None,
       mb_role = ''group_admin'', mb_has_group_admin = None\<rparr>]"

text \<open>An administrator can lose the way into the admin console: when a token names no global role, there is a reachable
  state of the console in which the account administers a group, the guard of \<^verbatim>\<open>/admin\<close> admits it, and the shell
  still offers no switch and reads no inbox counts, because it asks for the role in the active group (the first
  membership) instead of the highest role.\<close>

theorem admin_switch_can_be_missing:
  assumes "jc_global_role (parse tok) = None"
  shows "\<exists>c. reach console_init (auth_step parse) c \<and>
       (\<exists>m \<in> set (memberships (auth c)). mb_role m = ''group_admin'') \<and>
       route_outcome ''/admin'' (auth c) = Some Admit \<and> adminRole (auth c) = None"
proof -
  define c where "c = signed_in parse tok (Some (two_groups, [], None))"
  have role: "highestRole (map mb_role two_groups) = Some ''group_admin''"
    by (simp add: two_groups_def highestRole_def rank_def ROLE_ORDER_def)
  have ms: "memberships (auth c) = two_groups" and act: "activeProjectId (auth c) = Some ''g1''" and "meLoaded (auth c)"
    and mr: "membershipRole (auth c) = highestRole (map mb_role two_groups)" and cl: "claims (auth c) = parse tok"
    unfolding c_def by (simp_all add: signed_in_def me_answer_def setMeContext_def setActiveProject_def loginPassword_def
        applyTokens_def held_roles_def Let_def two_groups_def)
  have "route_outcome ''/admin'' (auth c) = Some Admit"
    using group_admin_admitted assms \<open>meLoaded (auth c)\<close> mr role cl by simp
  moreover have "adminRole (auth c) = None"
    by (rule member_is_no_admin [of _ "hd two_groups"]) (simp_all add: cl assms ms act two_groups_def)
  moreover have "\<exists>m \<in> set (memberships (auth c)). mb_role m = ''group_admin''" unfolding ms by (simp add: two_groups_def)
  moreover have "reach console_init (auth_step parse) c" unfolding c_def by (rule reach_signed_in)
  ultimately show ?thesis by blast
qed

theorem admin_switch_can_be_missing_witness:
  "\<exists>c. reach console_init (auth_step (\<lambda>_. no_claims)) c \<and> route_outcome ''/admin'' (auth c) = Some Admit \<and> adminRole (auth c) = None"
  using admin_switch_can_be_missing [of "\<lambda>_. no_claims" "''t''"] by (auto simp: no_claims_def)

section \<open>The badge of the sign-up inbox\<close>

text \<open>The sign-up badge of the users entry never shows: the shell reads the rows of the pending accounts out of what
  \<^verbatim>\<open>useUsers\<close> returns, but that hook already returns the rows themselves, so the count is zero whatever list of accounts
  the server answers with, while the credit and quota badges count their inboxes.\<close>

theorem signup_badge_never_counts:
  "pc_signups (usePendingApprovals True allocs topups quota
     (snd (useUsers f b :: 'e query_def \<times> (js \<Rightarrow> js)) (users_page f (JObj [(''data'', JArr rows)])))) = 0 \<and>
   pc_quota (usePendingApprovals True allocs topups (JArr (replicate n (JObj [(''status'', JStr ''pending'')]))) signups) = n"
  by (simp add: usePendingApprovals_def useUsers_def users_page_def count_pending_def filter_replicate)

section \<open>The group of the current page is open\<close>

text \<open>Landing on a page of the admin console unfolds the group it belongs to: after the effect the entry of the page is in
  a group the sidebar shows open, if the account can see it at all, even when the reader had folded that group.\<close>

theorem landing_opens_group:
  assumes "(labelKey, items) \<in> set ADMIN_GROUPS" and "i \<in> set items"
    and "canSee i (jc_global_role (claims s)) (membershipRole s)"
  shows "\<exists>g \<in> set (sidebar collapsed pending s (open_holding (ni_to i) u)). ng_label g = labelKey \<and> ng_open g \<and> i \<in> set (ng_visible g)"
proof -
  have found: "\<forall>(lk, its) \<in> set ADMIN_GROUPS. \<forall>it \<in> set its.
      (case find (\<lambda>(_, items). \<exists>i \<in> set items. starts_with (ni_to it) (ni_to i)) ADMIN_GROUPS of
         None \<Rightarrow> False | Some (l, _) \<Rightarrow> l = lk)"
    by (simp add: ADMIN_GROUPS_def nav_def starts_with_def)
  have "open_holding (ni_to i) u = openNavGroup labelKey u"
    using found [rule_format, OF assms(1)] assms(2)
    by (auto simp: open_holding_def split: option.splits)
  then have closed: "labelKey \<notin> set (ui_navGroupsClosed (open_holding (ni_to i) u))"
    by (simp add: openNavGroup_opens)
  let ?g = "\<lparr>ng_label = labelKey, ng_visible = filter (\<lambda>i. canSee i (jc_global_role (claims s)) (membershipRole s)) items,
      ng_open = collapsed \<or> labelKey \<notin> set (ui_navGroupsClosed (open_holding (ni_to i) u)),
      ng_waiting = sum_list (map (\<lambda>i. pending_of pending (ni_badge i))
        (filter (\<lambda>i. canSee i (jc_global_role (claims s)) (membershipRole s)) items))\<rparr>"
  have vis: "i \<in> set (ng_visible ?g)" using assms(2,3) by simp
  then have "?g \<in> set (sidebar collapsed pending s (open_holding (ni_to i) u))"
    using assms(1) unfolding sidebar_def
    by (auto simp: image_iff Let_def filter_empty_conv intro!: bexI [of _ "(labelKey, items)"])
  then show ?thesis using vis closed by (intro bexI [of _ ?g]) auto
qed

theorem landing_opens_group_witness:
  "\<exists>g \<in> set (sidebar False \<lparr>pc_credits = 0, pc_quota = 0, pc_signups = 0\<rparr>
       (initial_auth\<lparr>membershipRole := Some ''super_admin''\<rparr>)
       (open_holding ''/admin/audit'' \<lparr>ui_theme = ''dark'', ui_toasts = [], ui_activeClusterId = None,
          ui_navGroupsClosed = [''nav.adminGroup.ops'']\<rparr>)). ng_label g = ''nav.adminGroup.ops'' \<and> ng_open g"
proof -
  let ?i = "nav ''/admin/audit'' ''nav.admin.audit'' (Some ''group_admin'') None None"
  have "canSee ?i (jc_global_role (claims (initial_auth\<lparr>membershipRole := Some ''super_admin''\<rparr>)))
      (membershipRole (initial_auth\<lparr>membershipRole := Some ''super_admin''\<rparr>))"
    by (simp add: canSee_def nav_def effective_role_def atLeast_role_def rank_def ROLE_ORDER_def no_claims_def)
  from landing_opens_group [OF _ _ this, of "''nav.adminGroup.ops''" "snd (ADMIN_GROUPS ! 3)" False
      "\<lparr>pc_credits = 0, pc_quota = 0, pc_signups = 0\<rparr>"
      "\<lparr>ui_theme = ''dark'', ui_toasts = [], ui_activeClusterId = None, ui_navGroupsClosed = [''nav.adminGroup.ops'']\<rparr>"]
  show ?thesis by (auto simp: ADMIN_GROUPS_def nav_def)
qed

end
