(* ===== verification/Js_Number.thy ===== *)
theory Js_Number
  imports Gs_Prelude
begin

text \<open>
  JavaScript numbers where the console reads them from text or writes them into it: \<^verbatim>\<open>Number(string)\<close>,
  \<^verbatim>\<open>Math.round\<close>, \<^verbatim>\<open>toFixed\<close> and \<^verbatim>\<open>padStart\<close>. Finite values are exact rationals; \<open>NaN\<close> and the infinities are
  values of their own, since the code tests for them.
\<close>

datatype jsnum = NaN | NegInf | Fin rat | PosInf

text \<open>Falsy numbers are zero and \<open>NaN\<close>.\<close>

fun num_truthy :: "jsnum \<Rightarrow> bool" where
  "num_truthy NaN = False"
| "num_truthy (Fin r) = (r \<noteq> 0)"
| "num_truthy _ = True"

fun is_finite :: "jsnum \<Rightarrow> bool" where
  "is_finite (Fin r) = True"
| "is_finite _ = False"

section \<open>Reading numbers\<close>

definition is_digit :: "char \<Rightarrow> bool" where
  "is_digit c = (48 \<le> (of_char c :: nat) \<and> (of_char c :: nat) \<le> 57)"

definition digit_val :: "char \<Rightarrow> nat" where
  "digit_val c = of_char c - 48"

definition nat_of_digits :: "string \<Rightarrow> nat" where
  "nat_of_digits ds = foldl (\<lambda>a c. a * 10 + digit_val c) 0 ds"

text \<open>The exponent part, if the rest of a literal is one: \<^verbatim>\<open>e\<close>, an optional sign, digits to the end.\<close>

definition exponent_of :: "string \<Rightarrow> rat option" where
  "exponent_of s =
     (case s of
        [] \<Rightarrow> Some 1
      | e # r \<Rightarrow>
          (let (neg, ds) = (case r of c # q \<Rightarrow> if c = CHR ''-'' then (True, q) else if c = CHR ''+'' then (False, q) else (False, r)
                            | [] \<Rightarrow> (False, []))
           in if e \<in> {CHR ''e'', CHR ''E''} \<and> ds \<noteq> [] \<and> list_all is_digit ds
              then Some (if neg then 1 / 10 ^ nat_of_digits ds else 10 ^ nat_of_digits ds) else None))"

definition unsigned_literal :: "string \<Rightarrow> rat option" where
  "unsigned_literal s =
     (let ip = takeWhile is_digit s;
          r1 = dropWhile is_digit s;
          (fp, r2) = (case r1 of c # q \<Rightarrow> if c = CHR ''.'' then (takeWhile is_digit q, dropWhile is_digit q) else ([], r1)
                      | [] \<Rightarrow> ([], []))
      in if ip = [] \<and> fp = [] then None
         else map_option (\<lambda>e. of_nat (nat_of_digits (ip @ fp)) / 10 ^ length fp * e) (exponent_of r2))"

text \<open>A literal in base 2, 8 or 16 after its prefix.\<close>

definition radix_digit :: "char \<Rightarrow> nat" where
  "radix_digit c = (let k = of_char (lower_char c) :: nat in
     if is_digit c then k - 48 else if 97 \<le> k \<and> k \<le> 102 then k - 87 else 16)"

definition radix_literal :: "nat \<Rightarrow> string \<Rightarrow> jsnum" where
  "radix_literal b ds =
     (if ds \<noteq> [] \<and> list_all (\<lambda>c. radix_digit c < b) ds
      then Fin (of_nat (foldl (\<lambda>a c. a * b + radix_digit c) 0 ds)) else NaN)"

definition js_number :: "string \<Rightarrow> jsnum" where
  "js_number s =
     (let t = trim s; p = to_lower (take 2 t); body = (if take 1 t \<in> {''+'', ''-''} then drop 1 t else t);
          neg = (take 1 t = ''-'')
      in if t = [] then Fin 0
         else if p = ''0x'' then radix_literal 16 (drop 2 t)
         else if p = ''0o'' then radix_literal 8 (drop 2 t)
         else if p = ''0b'' then radix_literal 2 (drop 2 t)
         else if body = ''Infinity'' then (if neg then NegInf else PosInf)
         else case unsigned_literal body of None \<Rightarrow> NaN | Some r \<Rightarrow> Fin (if neg then - r else r))"

section \<open>Writing numbers\<close>

text \<open>\<^verbatim>\<open>Math.round\<close> rounds halves up.\<close>

definition js_round :: "rat \<Rightarrow> int" where
  "js_round x = \<lfloor>x + 1 / 2\<rfloor>"

definition pad_start :: "nat \<Rightarrow> char \<Rightarrow> string \<Rightarrow> string" where
  "pad_start n c s = replicate (n - length s) c @ s"

text \<open>\<^verbatim>\<open>toFixed\<close>: the nearest multiple of \<open>1/10^f\<close>, the larger one when two are equally near; the sign is handled apart.\<close>

definition fixed_units :: "nat \<Rightarrow> rat \<Rightarrow> nat" where
  "fixed_units f x = nat \<lfloor>x * 10 ^ f + 1 / 2\<rfloor>"

definition fixed_digits :: "nat \<Rightarrow> nat \<Rightarrow> string" where
  "fixed_digits f n =
     (if f = 0 then show_nat n else show_nat (n div 10 ^ f) @ ''.'' @ pad_start f (CHR ''0'') (show_nat (n mod 10 ^ f)))"

definition to_fixed :: "nat \<Rightarrow> rat \<Rightarrow> string" where
  "to_fixed f x = (if x < 0 then ''-'' @ fixed_digits f (fixed_units f (- x)) else fixed_digits f (fixed_units f x))"

section \<open>What is written is read back\<close>

lemma is_digit_char: "d < 10 \<Longrightarrow> is_digit (digit_char d)" and digit_val_char: "d < 10 \<Longrightarrow> digit_val (digit_char d) = d"
  by (simp_all add: is_digit_def digit_val_def digit_char_def)

lemma nat_of_digits_append: "nat_of_digits (xs @ ys) = nat_of_digits xs * 10 ^ length ys + nat_of_digits ys"
proof -
  have "foldl (\<lambda>a c. a * 10 + digit_val c) b ys = b * 10 ^ length ys + foldl (\<lambda>a c. a * 10 + digit_val c) 0 ys" for b
    by (induction ys rule: rev_induct) (simp_all add: algebra_simps)
  from this [of "foldl (\<lambda>a c. a * 10 + digit_val c) 0 xs"] show ?thesis by (simp add: nat_of_digits_def)
qed

lemma show_nat_digits [simp]: "list_all is_digit (show_nat n)"
proof (induction n rule: show_nat.induct)
  case (1 n)
  then show ?case by (subst show_nat.simps) (simp add: is_digit_char)
qed

lemma nat_of_show_nat [simp]: "nat_of_digits (show_nat n) = n"
proof (induction n rule: show_nat.induct)
  case (1 n)
  have one: "nat_of_digits [digit_char d] = d" if "d < 10" for d
    using that by (simp add: nat_of_digits_def digit_val_char)
  show ?case
    by (cases "n < 10"; subst show_nat.simps) (simp_all add: one nat_of_digits_append 1)
qed

lemma show_nat_inj [simp]: "show_nat m = show_nat n \<longleftrightarrow> m = n"
  by (metis nat_of_show_nat)

lemma digits_span [simp]:
  assumes "list_all is_digit ds" and "r = [] \<or> \<not> is_digit (hd r)"
  shows "takeWhile is_digit (ds @ r) = ds" and "dropWhile is_digit (ds @ r) = r"
  using assms by (induction ds) (auto, (cases r; auto)+)

lemma not_digit_chars [simp]: "\<not> is_digit (CHR ''.'')" "\<not> is_digit (CHR ''x'')" "\<not> is_digit (CHR ''o'')" "\<not> is_digit (CHR ''b'')"
  "\<not> is_digit (CHR ''-'')" "\<not> is_digit (CHR ''+'')" "\<not> is_digit (CHR ''I'')"
  by (simp_all add: is_digit_def)

lemma digits_not_space: "is_digit c \<Longrightarrow> \<not> js_space c"
  by (auto simp: is_digit_def js_space_def)

lemma trim_no_space: "list_all (\<lambda>c. \<not> js_space c) s \<Longrightarrow> trim s = s"
proof -
  assume ns: "list_all (\<lambda>c. \<not> js_space c) s"
  then have "dropWhile js_space s = s" by (auto simp: dropWhile_eq_self_iff list_all_iff)
  moreover have "dropWhile js_space (rev s) = rev s"
    using ns by (cases s rule: rev_cases) (auto simp: list_all_iff)
  ultimately show ?thesis by (simp add: trim_def)
qed

lemma lower_not_digit: "\<not> is_digit (lower_char c) \<Longrightarrow> \<not> is_digit c"
  by (auto simp: lower_char_def is_digit_def)

lemma to_lower_take2:
  assumes "is_digit c \<or> c = CHR ''.''"
  shows "lower_char c \<notin> {CHR ''x'', CHR ''o'', CHR ''b''}"
  using assms by (auto simp: lower_char_def is_digit_def split: if_splits)

lemma digits_unsigned:
  assumes "ip \<noteq> []" and "list_all is_digit ip" and "list_all is_digit fp"
  shows "unsigned_literal (ip @ (if fp = [] then [] else CHR ''.'' # fp)) = Some (of_nat (nat_of_digits (ip @ fp)) / 10 ^ length fp)"
proof -
  have fp: "takeWhile is_digit fp = fp" "dropWhile is_digit fp = []" and ip: "takeWhile is_digit ip = ip" "dropWhile is_digit ip = []"
    using digits_span [of fp "[]"] digits_span [of ip "[]"] assms(2,3) by (simp_all only: append_Nil2 simp_thms)
  show ?thesis
    using assms(1,2) by (cases "fp = []") (simp_all add: unsigned_literal_def exponent_of_def fp ip)
qed

lemma js_number_decimal:
  assumes "ip \<noteq> []" and "list_all is_digit ip" and "list_all is_digit fp"
  shows "js_number (ip @ (if fp = [] then [] else CHR ''.'' # fp)) = Fin (of_nat (nat_of_digits (ip @ fp)) / 10 ^ length fp)"
proof -
  let ?s = "ip @ (if fp = [] then [] else CHR ''.'' # fp)"
  obtain c r where s: "?s = c # r" "is_digit c" using assms by (cases ip) auto
  have dots: "list_all (\<lambda>c. is_digit c \<or> c = CHR ''.'') ?s" using assms by (auto simp: list_all_iff)
  have "\<not> js_space (CHR ''.'')" by (simp add: js_space_def)
  then have "list_all (\<lambda>c. \<not> js_space c) ?s"
    using dots digits_not_space unfolding list_all_iff by metis
  then have trim: "trim ?s = ?s" by (rule trim_no_space)
  have snd: "to_lower (take 2 (c # r)) \<notin> {''0x'', ''0o'', ''0b''}"
  proof (cases r)
    case (Cons d q)
    then have "is_digit d \<or> d = CHR ''.''" using dots s by simp
    from to_lower_take2 [OF this] Cons show ?thesis by (auto simp: to_lower_def)
  qed (simp add: to_lower_def)
  have "c \<notin> {CHR ''+'', CHR ''-'', CHR ''I''}" using s(2) by (auto simp: is_digit_def)
  then show ?thesis
    using snd digits_unsigned [OF assms] trim unfolding s(1) by (simp add: js_number_def Let_def)
qed

lemma js_number_show_nat [simp]: "js_number (show_nat n) = Fin (of_nat n)"
  using js_number_decimal [of "show_nat n" "[]"] by simp

lemma length_show_nat: "n < 10 ^ f \<Longrightarrow> 0 < f \<Longrightarrow> length (show_nat n) \<le> f"
proof (induction f arbitrary: n)
  case (Suc f)
  show ?case
  proof (cases "n < 10")
    case True
    then show ?thesis by (simp add: show_nat.simps)
  next
    case False
    then have "0 < f" using Suc.prems by (cases f) auto
    moreover have "n div 10 < 10 ^ f" using Suc.prems by (simp add: less_mult_imp_div_less mult.commute)
    ultimately show ?thesis using Suc.IH False by (subst show_nat.simps) simp
  qed
qed simp

lemma nat_of_digits_pad: "nat_of_digits (pad_start f (CHR ''0'') s) = nat_of_digits s"
proof -
  have "nat_of_digits (replicate k (CHR ''0'')) = 0" for k
    by (induction k) (simp_all add: nat_of_digits_def digit_val_def)
  then show ?thesis by (simp add: pad_start_def nat_of_digits_append)
qed

lemma js_number_fixed_digits: "js_number (fixed_digits f n) = Fin (of_nat n / 10 ^ f)"
proof (cases "f = 0")
  case False
  let ?fp = "pad_start f (CHR ''0'') (show_nat (n mod 10 ^ f))"
  have len: "length ?fp = f" using length_show_nat [of "n mod 10 ^ f" f] False by (simp add: pad_start_def)
  then have ne: "?fp \<noteq> []" using False by auto
  have "list_all is_digit ?fp" by (auto simp: pad_start_def list_all_iff is_digit_def show_nat_digits [unfolded list_all_iff is_digit_def])
  from js_number_decimal [OF _ _ this, of "show_nat (n div 10 ^ f)"] ne False
  have "js_number (fixed_digits f n) = Fin (of_nat (n div 10 ^ f * 10 ^ f + n mod 10 ^ f) / 10 ^ f)"
    by (simp add: fixed_digits_def nat_of_digits_append len nat_of_digits_pad)
  then show ?thesis by (simp only: div_mult_mod_eq)
qed (simp add: fixed_digits_def)

text \<open>A value written with \<open>f\<close> decimals is off by at most half a unit of the last one.\<close>

lemma to_fixed_close:
  assumes "0 \<le> x"
  shows "\<exists>y. js_number (to_fixed f x) = Fin y \<and> \<bar>y - x\<bar> \<le> 1 / (2 * 10 ^ f)"
proof -
  let ?n = "\<lfloor>x * 10 ^ f + 1 / 2\<rfloor>"
  have nn: "0 \<le> ?n" using assms by simp
  have "of_int ?n \<le> x * 10 ^ f + 1 / 2" "x * 10 ^ f + 1 / 2 < of_int ?n + 1" by linarith+
  then have "\<bar>of_int ?n - x * 10 ^ f\<bar> \<le> 1 / 2" by linarith
  moreover have "of_int ?n / 10 ^ f - x = (of_int ?n - x * 10 ^ f) / 10 ^ f" by (simp add: field_simps)
  ultimately have "\<bar>of_int ?n / 10 ^ f - x\<bar> \<le> 1 / 2 / 10 ^ f"
    using divide_right_mono [of "\<bar>of_int ?n - x * 10 ^ f\<bar>" "1 / 2" "10 ^ f"] by (simp only: abs_divide) simp
  moreover have "js_number (to_fixed f x) = Fin (of_int ?n / 10 ^ f)"
    using assms nn by (simp add: to_fixed_def js_number_fixed_digits fixed_units_def of_nat_nat)
  ultimately show ?thesis by simp
qed

end
