(* ===== verification/Format.thy ===== *)
theory Format
  imports Js_Number Api_Errors
begin

text \<open>
  The formatting helpers (\<^verbatim>\<open>frontend/src/lib/format.ts\<close>). Translations are the record \<open>i18n\<close>; the engine's number and
  date formatters and its reading of a timestamp (\<open>date\<close>, milliseconds or no date) are arguments.
\<close>

section \<open>Labels\<close>

definition upper_char :: "char \<Rightarrow> char" where
  "upper_char c = (if 97 \<le> (of_char c :: nat) \<and> (of_char c :: nat) \<le> 122 then char_of ((of_char c :: nat) - 32) else c)"

definition capitalize :: "string \<Rightarrow> string" where
  "capitalize w = (case w of [] \<Rightarrow> [] | c # r \<Rightarrow> upper_char c # r)"

definition roleLabel :: "i18n \<Rightarrow> string option \<Rightarrow> string" where
  "roleLabel tr role =
     (case nonempty role of
        None \<Rightarrow> []
      | Some r \<Rightarrow>
          (let key = ''enum.role.'' @ r in
           if i18n_exists tr key then i18n_t tr key [] else join '' '' (map capitalize (split_on (CHR ''_'') r))))"

definition label_of :: "i18n \<Rightarrow> string \<Rightarrow> string option \<Rightarrow> string" where
  "label_of tr kind code =
     (case nonempty code of
        None \<Rightarrow> ''-''
      | Some c \<Rightarrow> (let key = ''enum.'' @ kind @ ''.'' @ c in if i18n_exists tr key then i18n_t tr key [] else c))"

definition userStatusLabel :: "i18n \<Rightarrow> string option \<Rightarrow> string" where
  "userStatusLabel tr = label_of tr ''userStatus''"

definition statusLabel :: "i18n \<Rightarrow> string option \<Rightarrow> string" where
  "statusLabel tr = label_of tr ''status''"

definition scopeLabel :: "i18n \<Rightarrow> string option \<Rightarrow> string" where
  "scopeLabel tr = label_of tr ''scope''"

definition accessModeLabel :: "i18n \<Rightarrow> string option \<Rightarrow> string" where
  "accessModeLabel tr = label_of tr ''accessMode''"

definition sessionStatusLabel :: "i18n \<Rightarrow> string option \<Rightarrow> string" where
  "sessionStatusLabel tr = label_of tr ''sessionStatus''"

definition reqStatusLabel :: "i18n \<Rightarrow> string option \<Rightarrow> string" where
  "reqStatusLabel tr = label_of tr ''reqStatus''"

section \<open>Amounts\<close>

text \<open>\<open>nf\<close> is the locale's number format with at most two decimals.\<close>

definition formatCredit :: "(rat \<Rightarrow> string) \<Rightarrow> js \<Rightarrow> string" where
  "formatCredit nf amount =
     (if nullish amount \<or> amount = JStr [] then ''-''
      else case (case amount of JStr s \<Rightarrow> js_number s | JNum q \<Rightarrow> Fin q | _ \<Rightarrow> NaN) of Fin q \<Rightarrow> nf q | _ \<Rightarrow> ''-'')"

text \<open>Memory sizes are whole megabytes, as the API types them.\<close>

definition formatVram :: "int option \<Rightarrow> string" where
  "formatVram mb =
     (case mb of
        None \<Rightarrow> ''-''
      | Some m \<Rightarrow>
          if m = 0 then ''0 GiB''
          else if 1024 \<le> m then to_fixed (if m mod 1024 = 0 then 0 else 1) (of_int m / 1024) @ '' GiB''
          else show_int m @ '' MiB'')"

definition formatGiB :: "(rat \<Rightarrow> string) \<Rightarrow> rat option \<Rightarrow> string" where
  "formatGiB nf gb = (case gb of None \<Rightarrow> ''-'' | Some g \<Rightarrow> nf g @ '' GiB'')"

section \<open>Time\<close>

definition em_dash :: string where
  "em_dash = [CHR 0xE2, CHR 0x80, CHR 0x94]"

definition formatDateTime :: "(string \<Rightarrow> rat option) \<Rightarrow> (rat \<Rightarrow> string) \<Rightarrow> string option \<Rightarrow> string" where
  "formatDateTime date df stamp =
     (case nonempty stamp of None \<Rightarrow> ''-'' | Some s \<Rightarrow> (case date s of None \<Rightarrow> ''-'' | Some d \<Rightarrow> df d))"

definition pad2 :: "int \<Rightarrow> string" where
  "pad2 n = pad_start 2 (CHR ''0'') (show_int n)"

definition formatDuration :: "(string \<Rightarrow> rat option) \<Rightarrow> rat \<Rightarrow> string option \<Rightarrow> rat option \<Rightarrow> string" where
  "formatDuration date now fromIso toMs =
     (case Option.bind (nonempty fromIso) date of
        None \<Rightarrow> em_dash
      | Some start \<Rightarrow>
          (let sec = max 0 \<lfloor>(opt_else toMs now - start) / 1000\<rfloor>;
               h = sec div 3600; sec1 = sec - h * 3600; m = sec1 div 60; s = sec1 - m * 60
           in if 0 < h then show_int h @ ''h '' @ pad2 m @ ''m''
              else if 0 < m then show_int m @ ''m '' @ pad2 s @ ''s''
              else show_int s @ ''s''))"

definition hoursElapsed :: "(string \<Rightarrow> rat option) \<Rightarrow> rat \<Rightarrow> string option \<Rightarrow> rat option \<Rightarrow> rat" where
  "hoursElapsed date now fromIso toMs =
     (case Option.bind (nonempty fromIso) date of None \<Rightarrow> 0 | Some start \<Rightarrow> max 0 ((opt_else toMs now - start) / 3600000))"

text \<open>An unreadable expiry gives \<open>NaN\<close> on both sides of the colon.\<close>

definition countdown :: "(string \<Rightarrow> rat option) \<Rightarrow> rat \<Rightarrow> string option \<Rightarrow> string" where
  "countdown date now expiresAt =
     (case nonempty expiresAt of
        None \<Rightarrow> ''-''
      | Some e \<Rightarrow>
          (case date e of
             None \<Rightarrow> ''NaN:NaN''
           | Some x \<Rightarrow> (let left = max 0 \<lfloor>(x - now) / 1000\<rfloor> in pad2 (left div 60) @ '':'' @ pad2 (left mod 60))))"

record burning =
  bu_status :: string
  bu_rate :: "rat option"
  bu_occupancy :: "rat option"

definition sessionBurnPerHour :: "burning list option \<Rightarrow> rat" where
  "sessionBurnPerHour sessions =
     foldl (\<lambda>acc s. acc + (if bu_status s = ''running'' then opt_else (bu_rate s) 0 * opt_else (bu_occupancy s) 1 else 0)) 0
       (opt_else sessions [])"

definition runwayLabel :: "i18n \<Rightarrow> rat \<Rightarrow> string" where
  "runwayLabel tr h =
     (let n = (\<lambda>x. [(''n'', JNum (of_int (js_round x)))]); days = h / 24; months = days / (3044 / 100) in
      if h < 48 then i18n_t tr ''wallet.durHours'' (n h)
      else if days < 60 then i18n_t tr ''wallet.durDays'' (n days)
      else if months < 24 then i18n_t tr ''wallet.durMonths'' (n months)
      else i18n_t tr ''wallet.durYears'' (n (days / (36525 / 100))))"

section \<open>Image references\<close>

definition shortImageRef :: "string option \<Rightarrow> string" where
  "shortImageRef ref =
     (case nonempty ref of
        None \<Rightarrow> []
      | Some r \<Rightarrow>
          (let parts = split_on (CHR ''/'') r in
           if length parts = 1 then r
           else join ''/'' (drop (if CHR ''.'' \<in> set (hd parts) \<or> CHR '':'' \<in> set (hd parts) then 1 else 0) parts)))"

section \<open>What the figures say\<close>

lemma shortImageRef_host:
  assumes "CHR ''/'' \<notin> set host"
  shows "shortImageRef (Some (host @ ''/'' @ path)) =
    (if CHR ''.'' \<in> set host \<or> CHR '':'' \<in> set host then path else host @ ''/'' @ path)"
proof -
  have sp: "split_on (CHR ''/'') (host @ CHR ''/'' # path) = host # split_on (CHR ''/'') path" by (rule split_on_append [OF assms])
  moreover have "join ''/'' (split_on (CHR ''/'') path) = path" "join ''/'' (host # split_on (CHR ''/'') path) = host @ ''/'' @ path"
    using join_split_on [of "CHR ''/''"] sp [symmetric] by (auto simp: join_split_on)
  ultimately show ?thesis by (simp add: shortImageRef_def)
qed

lemma vram_figure:
  assumes "0 < mb"
  shows "\<exists>d y. formatVram (Some (int mb)) = d @ (if 1024 \<le> mb then '' GiB'' else '' MiB'') \<and> js_number d = Fin y \<and>
      (if mb < 1024 then y = of_nat mb
       else \<bar>y * 1024 - of_nat mb\<bar> < 52 \<and> (1024 dvd mb \<longrightarrow> y * 1024 = of_nat mb))"
proof (cases "mb < 1024")
  case True
  then have "formatVram (Some (int mb)) = show_nat mb @ '' MiB''"
    using assms by (simp add: formatVram_def show_int_def)
  then show ?thesis using True by auto
next
  case False
  let ?x = "of_nat mb / 1024 :: rat"
  have fmt: "formatVram (Some (int mb)) = to_fixed (if 1024 dvd mb then 0 else 1) ?x @ '' GiB''"
  proof -
    have "int mb mod 1024 = 0 \<longleftrightarrow> 1024 dvd mb" by presburger
    then show ?thesis using False by (simp add: formatVram_def)
  qed
  show ?thesis
  proof (cases "1024 dvd mb")
    case True
    then obtain k where k: "mb = 1024 * k" by blast
    then have "?x = of_nat k" by simp
    moreover have "fixed_units 0 (of_nat k) = k"
    proof -
      have "\<lfloor>(1 / 2 :: rat)\<rfloor> = 0" by (rule floor_unique) simp_all
      then show ?thesis by (simp add: fixed_units_def)
    qed
    ultimately have "formatVram (Some (int mb)) = show_nat k @ '' GiB''"
      using fmt True by (simp add: to_fixed_def fixed_digits_def)
    then show ?thesis using False k by auto
  next
    case ndvd: False
    have "formatVram (Some (int mb)) = to_fixed 1 ?x @ '' GiB''" using fmt ndvd by simp
    moreover obtain y where "js_number (to_fixed 1 ?x) = Fin y" "\<bar>y - ?x\<bar> \<le> 1 / (2 * 10 ^ 1)"
      using to_fixed_close [of ?x 1] by auto
    moreover have "\<bar>y * 1024 - of_nat mb\<bar> < 52" if "\<bar>y - ?x\<bar> \<le> 1 / (2 * 10 ^ 1)" for y
    proof -
      have "y - ?x \<le> 1 / 20" "- (y - ?x) \<le> 1 / 20" using abs_le_D1 [OF that] abs_le_D2 [OF that] by simp_all
      then have "y * 1024 - of_nat mb < 52" "- (y * 1024 - of_nat mb) < 52" by linarith+
      then show ?thesis by (rule abs_less_iff [THEN iffD2, OF conjI])
    qed
    ultimately show ?thesis using False ndvd by auto
  qed
qed

text \<open>The rendered figures are true to their values. A duration shows the whole seconds between two times split into
  hours, minutes below 60 and seconds below 60, leaving out the seconds from one hour on; a memory size of a GiB or more
  is off by less than 52 MB and exact for whole GiB, and a smaller one is exact.\<close>

theorem figures_true:
  assumes "date stamp = Some start" and "start \<le> now" and "stamp \<noteq> []" and "0 < mb"
  shows "(\<exists>h m s. \<lfloor>(now - start) / 1000\<rfloor> = 3600 * h + 60 * m + s \<and> 0 \<le> h \<and> 0 \<le> m \<and> m < 60 \<and> 0 \<le> s \<and> s < 60 \<and>
      formatDuration date now (Some stamp) None =
        (if 0 < h then show_int h @ ''h '' @ pad2 m @ ''m'' else if 0 < m then show_int m @ ''m '' @ pad2 s @ ''s'' else show_int s @ ''s'')) \<and>
    (\<exists>d y. formatVram (Some (int mb)) = d @ (if 1024 \<le> mb then '' GiB'' else '' MiB'') \<and> js_number d = Fin y \<and>
      (if mb < 1024 then y = of_nat mb
       else \<bar>y * 1024 - of_nat mb\<bar> < 52 \<and> (1024 dvd mb \<longrightarrow> y * 1024 = of_nat mb)))"
proof -
  define sec where "sec = \<lfloor>(now - start) / 1000\<rfloor>"
  have sec0: "0 \<le> sec" using assms(2) by (simp add: sec_def)
  let ?h = "sec div 3600" and ?m = "(sec mod 3600) div 60" and ?s = "(sec mod 3600) mod 60"
  have split: "sec = 3600 * ?h + 60 * ?m + ?s" by presburger
  have parts: "sec - ?h * 3600 = sec mod 3600" "sec mod 3600 - ?m * 60 = ?s" by (simp_all add: minus_div_mult_eq_mod)
  have "formatDuration date now (Some stamp) None =
      (if 0 < ?h then show_int ?h @ ''h '' @ pad2 ?m @ ''m'' else if 0 < ?m then show_int ?m @ ''m '' @ pad2 ?s @ ''s'' else show_int ?s @ ''s'')"
    using assms(1,3) sec0 by (simp add: formatDuration_def Let_def sec_def [symmetric] parts minus_div_mult_eq_mod)
  then have dur: "\<exists>h m s. sec = 3600 * h + 60 * m + s \<and> 0 \<le> h \<and> 0 \<le> m \<and> m < 60 \<and> 0 \<le> s \<and> s < 60 \<and>
      formatDuration date now (Some stamp) None =
        (if 0 < h then show_int h @ ''h '' @ pad2 m @ ''m'' else if 0 < m then show_int m @ ''m '' @ pad2 s @ ''s'' else show_int s @ ''s'')"
    using split sec0 by (intro exI [of _ ?h] exI [of _ ?m] exI [of _ ?s]) auto
  have vram: "\<exists>d y. formatVram (Some (int mb)) = d @ (if 1024 \<le> mb then '' GiB'' else '' MiB'') \<and> js_number d = Fin y \<and>
      (if mb < 1024 then y = of_nat mb
       else \<bar>y * 1024 - of_nat mb\<bar> < 52 \<and> (1024 dvd mb \<longrightarrow> y * 1024 = of_nat mb))"
    by (rule vram_figure [OF assms(4)])
  show ?thesis using dur vram unfolding sec_def by blast
qed

theorem figures_true_witness:
  "(\<exists>d y. formatVram (Some (int 48935)) = d @ '' GiB'' \<and> js_number d = Fin y \<and> \<bar>y * 1024 - of_nat 48935\<bar> < 52) \<and>
   formatDuration (\<lambda>_. Some 0) 7980000 (Some ''2026-06-13T00:00:00Z'') None \<noteq> []"
  using figures_true [of "\<lambda>_. Some 0" "''2026-06-13T00:00:00Z''" 0 7980000 48935] by (auto simp: show_int_def)

end
