(* ===== verification/Notice_Board.thy ===== *)
theory Notice_Board
  imports Navigation Format
begin

text \<open>
  The notification bell (\<^verbatim>\<open>components/NotificationBell.tsx\<close>): where a notification leads, how it is worded, what clicking it
  does; and the times beside rows (\<^verbatim>\<open>components/Timestamp.tsx\<close>).
\<close>

section \<open>Notifications\<close>

record Notification =
  no_id :: string
  no_type :: string
  no_title :: string
  no_body :: "string option"
  no_ref :: "(string \<times> string) list"
  no_params :: "(string \<times> js) list"
  no_read_at :: "string option"

definition ref_get :: "string \<Rightarrow> Notification \<Rightarrow> string option" where
  "ref_get k n = nonempty (map_of (no_ref n) k)"

definition hrefFor :: "Notification \<Rightarrow> string option" where
  "hrefFor n =
     (let t = no_type n in
      case ref_get ''session_id'' n of
        Some sid \<Rightarrow> Some (''/sessions/'' @ sid)
      | None \<Rightarrow>
          if starts_with t ''credit_allocation''
          then Some (if ends_with t ''approved'' \<or> ends_with t ''rejected'' then ''/wallet'' else ''/admin/allocations'')
          else if starts_with t ''budget'' then Some ''/wallet''
          else if starts_with t ''credit_topup'' then Some (if ends_with t ''request'' then ''/admin/allocations'' else ''/wallet'')
          else if t = ''low_balance'' \<or> starts_with t ''credit'' then Some ''/wallet''
          else if starts_with t ''volume'' then Some ''/data''
          else if t = ''cluster_health'' then Some ''/admin/clusters''
          else if t = ''node_health'' then Some ''/admin/nodes''
          else if starts_with t ''membership'' \<or> t = ''org_admin_added'' then Some ''/account''
          else None)"

text \<open>The wording: the console's template for the type with the values of the notification, unless it leaves a placeholder.\<close>

definition is_nonempty_string :: "js \<Rightarrow> bool" where
  "is_nonempty_string v = (case v of JStr s \<Rightarrow> s \<noteq> [] | _ \<Rightarrow> False)"

definition notice_context :: "Notification \<Rightarrow> js" where
  "notice_context n =
     (let p = JObj (no_params n) in
      if is_nonempty_string (js_get ''reason'' p) then js_get ''reason'' p
      else if is_nonempty_string (js_get ''scope'' p) then js_get ''scope'' p
      else if truthy (js_get ''escalated'' p) then JStr ''escalated'' else JUndef)"

definition or_stored :: "string \<Rightarrow> string option \<Rightarrow> string" where
  "or_stored rendered stored = (if str_includes rendered ''{{'' then str_or stored rendered else rendered)"

definition localize :: "i18n \<Rightarrow> (rat \<Rightarrow> string) \<Rightarrow> Notification \<Rightarrow> string \<times> string option" where
  "localize tr sf n =
     (let args = (\<lambda>dv. obj_spread (no_params n) [(''context'', notice_context n), (''defaultValue'', JStr dv)]);
          title = or_stored (i18n_t tr (''notif.'' @ no_type n @ ''.title'') (args (no_title n))) (Some (no_title n));
          body = nonempty (Some (or_stored (i18n_t tr (''notif.'' @ no_type n @ ''.body'') (args (str_or (no_body n) []))) (no_body n)));
          msg = js_get ''message'' (JObj (no_params n))
      in (title,
          if no_type n = ''session_error'' \<and> truthy msg
          then map_option (\<lambda>b. b @ '' ('' @ js_to_string sf msg @ '')'') body else body))"

definition unread :: "Notification list \<Rightarrow> nat" where
  "unread items = length (filter (\<lambda>n. no_read_at n = None) items)"

text \<open>Clicking an item: what is sent and where the console goes. The panel closes.\<close>

definition onItemClick :: "Notification \<Rightarrow> mutation_def option \<times> string option" where
  "onItemClick n = (if no_read_at n = None then Some (useMarkRead (no_id n)) else None, hrefFor n)"

definition mark_all_enabled :: "Notification list \<Rightarrow> bool \<Rightarrow> bool" where
  "mark_all_enabled items pending = (unread items \<noteq> 0 \<and> \<not> pending)"

definition delete_all_enabled :: "Notification list \<Rightarrow> bool \<Rightarrow> bool" where
  "delete_all_enabled items pending = (items \<noteq> [] \<and> \<not> pending)"

definition bell_push :: "cache_cmd list" where
  "bell_push = [InvalidateQueries notificationKeys_all]"

section \<open>Times\<close>

definition MINUTE :: rat where
  "MINUTE = 60000"

definition DAY :: rat where
  "DAY = 86400000"

text \<open>A difference in milliseconds as a whole number of the largest unit that fits.\<close>

definition relativeParts :: "rat \<Rightarrow> int \<times> string" where
  "relativeParts deltaMs =
     (let s = js_round (deltaMs / 1000); a = \<bar>s\<bar> in
      if a < 60 then (s, ''second'')
      else if a < 3600 then (js_round (of_int s / 60), ''minute'')
      else (js_round (of_int s / 3600), ''hour''))"

text \<open>\<open>cal\<close> reads the local calendar fields of an instant: year, month, day, hour, minute.\<close>

definition formatPlainDateTime :: "(rat \<Rightarrow> int \<times> int \<times> int \<times> int \<times> int) \<Rightarrow> rat \<Rightarrow> string" where
  "formatPlainDateTime cal d =
     (case cal d of (y, mo, da, h, mi) \<Rightarrow>
        show_int y @ ''-'' @ pad2 mo @ ''-'' @ pad2 da @ '' '' @ pad2 h @ '':'' @ pad2 mi)"

text \<open>The plain time and, within a day of now, the relative one; \<open>None\<close> renders as a dash.\<close>

definition timestamp_parts ::
  "(string \<Rightarrow> rat option) \<Rightarrow> (rat \<Rightarrow> int \<times> int \<times> int \<times> int \<times> int) \<Rightarrow> rat \<Rightarrow> string option \<Rightarrow> bool \<Rightarrow> (string \<times> (int \<times> string) option) option" where
  "timestamp_parts date cal now v relative =
     map_option
       (\<lambda>d. (formatPlainDateTime cal d, if relative \<and> \<bar>d - now\<bar> < DAY then Some (relativeParts (d - now)) else None))
       (Option.bind (nonempty v) date)"

section \<open>Where notifications lead\<close>

text \<open>The pages of the user console (\<^verbatim>\<open>routes/router.tsx\<close>).\<close>

definition user_routes :: "string list" where
  "user_routes = [''/'', ''/sessions/new'', ''/sessions'', ''/sessions/:id'', ''/sessions/:id/connect'', ''/queue'', ''/wallet'',
     ''/wallet/request'', ''/data'', ''/account'', ''/account/password'']"

lemma href_cases:
  "hrefFor n = Some h \<Longrightarrow>
     (\<exists>sid. ref_get ''session_id'' n = Some sid \<and> h = ''/sessions/'' @ sid) \<or>
     h \<in> {''/wallet'', ''/data'', ''/account'', ''/admin/allocations'', ''/admin/clusters'', ''/admin/nodes''}"
  by (auto simp: hrefFor_def Let_def split: option.splits if_splits)

lemma linked_pages: "{''/wallet'', ''/data'', ''/account''} \<subseteq> set user_routes"
  "{''/admin/allocations'', ''/admin/clusters'', ''/admin/nodes''} \<subseteq> fst ` set admin_routes"
  by (simp_all add: user_routes_def admin_routes_def)

text \<open>Notifications the server sends to operators and users about something they can act on, for which no page is opened
  (\<^verbatim>\<open>domain/node_status.py\<close>, \<^verbatim>\<open>api/policies_router.py\<close>).\<close>

definition unlinked_types :: "string list" where
  "unlinked_types = [''node_offline'', ''node_online'', ''resource_request'', ''resource_request_approved'', ''resource_request_rejected'']"

lemma unlinked: "ref_get ''session_id'' n = None \<Longrightarrow> no_type n \<in> set unlinked_types \<Longrightarrow> hrefFor n = None"
  by (auto simp: hrefFor_def unlinked_types_def starts_with_def)

text \<open>A notification leads to a page of the console or nowhere. Clicking one opens the session it names, or a page that the
  router knows, and marks it read if it was not; but the server's notices of a node going offline or coming back and of a
  quota request name no session and open nothing, although the node and quota pages exist.\<close>

theorem notices_lead_somewhere:
  assumes "snd (onItemClick n) = Some h"
  shows "((\<exists>sid. sid \<noteq> [] \<and> (''session_id'', sid) \<in> set (no_ref n) \<and> h = ''/sessions/'' @ sid) \<or>
      h \<in> set user_routes \<or> h \<in> fst ` set admin_routes) \<and>
    \<not> (ref_get ''session_id'' n = None \<and> no_type n \<in> set unlinked_types) \<and>
    (fst (onItemClick n) = None \<longleftrightarrow> no_read_at n \<noteq> None)"
proof -
  have h: "hrefFor n = Some h" using assms by (simp add: onItemClick_def)
  have "(\<exists>sid. sid \<noteq> [] \<and> (''session_id'', sid) \<in> set (no_ref n) \<and> h = ''/sessions/'' @ sid) \<or> h \<in> set user_routes \<or> h \<in> fst ` set admin_routes"
    using href_cases [OF h] linked_pages by (auto simp: ref_get_def nonempty_Some_iff dest!: map_of_SomeD)
  moreover have "\<not> (ref_get ''session_id'' n = None \<and> no_type n \<in> set unlinked_types)" using unlinked h by auto
  ultimately show ?thesis by (auto simp: onItemClick_def)
qed

definition sample_notice :: Notification where
  "sample_notice =
     \<lparr>no_id = ''n1'', no_type = ''credit_topup_request'', no_title = ''Top-up'', no_body = None, no_ref = [], no_params = [], no_read_at = None\<rparr>"

theorem notices_lead_somewhere_witness:
  "snd (onItemClick sample_notice) = Some ''/admin/allocations'' \<and> ''/admin/allocations'' \<in> fst ` set admin_routes \<and>
   fst (onItemClick sample_notice) \<noteq> None"
proof -
  have "snd (onItemClick sample_notice) = Some ''/admin/allocations''"
    by (simp add: onItemClick_def sample_notice_def hrefFor_def ref_get_def starts_with_def ends_with_def)
  from notices_lead_somewhere [OF this] this show ?thesis
    by (auto simp: sample_notice_def user_routes_def)
qed

text \<open>A relative time stays within its unit up to rounding: under a minute in seconds, at most 60 minutes, and hours beyond.\<close>

lemma js_round_bounds: "of_int (js_round x) \<le> x + 1 / 2" "x - 1 / 2 < of_int (js_round x)"
  by (simp_all add: js_round_def) linarith+

lemma relative_parts_bounds:
  assumes "relativeParts d = (k, u)"
  shows "(u = ''second'' \<and> \<bar>k\<bar> < 60) \<or> (u = ''minute'' \<and> 1 \<le> \<bar>k\<bar> \<and> \<bar>k\<bar> \<le> 60) \<or> (u = ''hour'' \<and> 1 \<le> \<bar>k\<bar>)"
proof -
  define s where "s = js_round (d / 1000)"
  consider "\<bar>s\<bar> < 60" "(k, u) = (s, ''second'')" | "60 \<le> \<bar>s\<bar>" "\<bar>s\<bar> < 3600" "(k, u) = (js_round (of_int s / 60), ''minute'')"
    | "3600 \<le> \<bar>s\<bar>" "(k, u) = (js_round (of_int s / 3600), ''hour'')"
    using assms by (auto simp: relativeParts_def Let_def s_def [symmetric] split: if_splits)
  then show ?thesis
  proof cases
    case 2
    then show ?thesis using js_round_bounds [of "of_int s / 60"] by (auto simp: abs_if split: if_splits)
  next
    case 3
    then show ?thesis using js_round_bounds [of "of_int s / 3600"] by (auto simp: abs_if split: if_splits)
  qed auto
qed

end
