(* ===== verification/Chart_Axis.thy ===== *)
theory Chart_Axis
  imports Js_Number
begin

text \<open>
  The axis helpers of the charts (\<^verbatim>\<open>components/timeSeriesAxis.ts\<close>): values with their unit, the vertical range of a
  chart anchored at zero, and the labels of its gridlines. Values are finite numbers, absent, or the values a
  computation can leave behind (\<open>jsnum\<close>).
\<close>

section \<open>Values\<close>

text \<open>The division loop of the byte rates, at most three times.\<close>

definition rate_units :: "string list" where
  "rate_units = [''B/s'', ''KiB/s'', ''MiB/s'', ''GiB/s'']"

fun scale_rate :: "nat \<Rightarrow> rat \<Rightarrow> nat \<Rightarrow> rat \<times> nat" where
  "scale_rate 0 n i = (n, i)"
| "scale_rate (Suc k) n i = (if 1024 \<le> n then scale_rate k (n / 1024) (Suc i) else (n, i))"

definition degrees :: string where
  "degrees = [CHR 0xC2, CHR 0xB0, CHR ''C'']"

definition format_finite :: "rat \<Rightarrow> string \<Rightarrow> string" where
  "format_finite v unit =
     (if unit = ''percent'' then to_fixed (if v < 10 then 1 else 0) v @ ''%''
      else if unit = ''cores'' then to_fixed (if v < 10 then 2 else 1) v
      else if unit = ''mib'' then (if 1024 \<le> v then to_fixed 1 (v / 1024) @ '' GiB'' else to_fixed 0 v @ '' MiB'')
      else if unit = ''celsius'' then to_fixed 0 v @ degrees
      else if unit = ''watt'' then to_fixed 0 v @ '' W''
      else if unit = ''mhz'' then to_fixed 0 v @ '' MHz''
      else if unit = ''bytes_per_sec''
      then (let (n, i) = scale_rate (length rate_units - 1) v 0 in to_fixed (if n < 10 then 1 else 0) n @ '' '' @ rate_units ! i)
      else to_fixed 0 v)"

text \<open>An infinite value keeps its name through \<^verbatim>\<open>toFixed\<close>.\<close>

definition format_infinite :: "bool \<Rightarrow> string \<Rightarrow> string" where
  "format_infinite neg unit =
     (if neg then ''-Infinity'' else ''Infinity'') @
     (if unit = ''percent'' then ''%'' else if unit = ''mib'' then (if neg then '' MiB'' else '' GiB'')
      else if unit = ''celsius'' then degrees else if unit = ''watt'' then '' W'' else if unit = ''mhz'' then '' MHz''
      else if unit = ''bytes_per_sec'' then (if neg then '' B/s'' else '' GiB/s'') else [])"

definition formatValue :: "jsnum option \<Rightarrow> string \<Rightarrow> string" where
  "formatValue v unit =
     (case v of
        None \<Rightarrow> ''-''
      | Some n \<Rightarrow>
          (case n of NaN \<Rightarrow> ''-'' | Fin r \<Rightarrow> format_finite r unit | PosInf \<Rightarrow> format_infinite False unit | NegInf \<Rightarrow> format_infinite True unit))"

section \<open>The range\<close>

definition MIN_SPAN :: "string \<Rightarrow> rat option" where
  "MIN_SPAN = map_of [(''cores'', 1 / 10), (''percent'', 10), (''mib'', 64), (''bytes_per_sec'', 1024), (''count'', 4)]"

definition zeroAnchoredRange :: "jsnum \<Rightarrow> string \<Rightarrow> rat \<times> rat" where
  "zeroAnchoredRange peak unit =
     (let top = (case peak of Fin m \<Rightarrow> max m 0 | _ \<Rightarrow> 0)
      in (0, max (top * (115 / 100)) (case MIN_SPAN unit of None \<Rightarrow> 1 | Some s \<Rightarrow> s)))"

section \<open>Gridlines\<close>

text \<open>\<^verbatim>\<open>Math.ceil(-Math.log10(s))\<close> for \<open>s\<close> below one is the least number of decimals that shows a unit of \<open>s\<close>; the code
  caps it at six.\<close>

definition axis_decimals :: "rat \<Rightarrow> nat" where
  "axis_decimals s =
     (if 1 \<le> s \<or> s \<le> 0 then 0
      else case find (\<lambda>k. 1 \<le> s * 10 ^ k) [1..<7] of Some k \<Rightarrow> k | None \<Rightarrow> 6)"

definition axis_step :: "rat list \<Rightarrow> rat" where
  "axis_step vals = (case vals of a # b # _ \<Rightarrow> \<bar>b - a\<bar> | _ \<Rightarrow> 1)"

definition axis_label :: "rat list \<Rightarrow> string \<Rightarrow> rat \<Rightarrow> string" where
  "axis_label vals unit v =
     (let step = axis_step vals; top = (if vals = [] then 0 else last vals) in
      if unit = ''mib''
      then (if 1024 \<le> v \<or> 1024 \<le> top
            then to_fixed (let d = axis_decimals (step / 1024) in if d = 0 then 1 else d) (v / 1024) @ '' GiB''
            else to_fixed (axis_decimals step) v @ '' MiB'')
      else if unit = ''cores'' then to_fixed (axis_decimals step) v
      else if unit = ''percent'' then to_fixed (axis_decimals step) v @ ''%''
      else formatValue (Some (Fin v)) unit)"

definition formatAxis :: "rat list \<Rightarrow> string \<Rightarrow> string list" where
  "formatAxis vals unit = map (axis_label vals unit) vals"

section \<open>Distinct labels\<close>

lemma fixed_digits_inj:
  assumes "fixed_digits f m = fixed_digits f n"
  shows "m = n"
proof -
  have "Fin (of_nat m / 10 ^ f) = Fin (of_nat n / 10 ^ f)" using assms by (metis js_number_fixed_digits)
  then show ?thesis by simp
qed

lemma fixed_digits_hd: "fixed_digits f n \<noteq> CHR ''-'' # s"
proof -
  have "is_digit (hd (fixed_digits f n))"
    using show_nat_digits [of "n div 10 ^ f"] show_nat_digits [of n]
    by (cases "show_nat n"; cases "show_nat (n div 10 ^ f)") (auto simp: fixed_digits_def)
  then show ?thesis by (auto simp: is_digit_def)
qed

lemma fixed_units_gap:
  assumes "0 \<le> x" and "x + 1 / 10 ^ d \<le> y"
  shows "fixed_units d x < fixed_units d y"
proof -
  have "(x + 1 / 10 ^ d) * 10 ^ d \<le> y * 10 ^ d" using assms(2) by (rule mult_right_mono) simp
  then have "x * 10 ^ d + 1 / 2 + 1 \<le> y * 10 ^ d + 1 / 2" by (simp add: distrib_right)
  then have "\<lfloor>x * 10 ^ d + 1 / 2\<rfloor> + 1 \<le> \<lfloor>y * 10 ^ d + 1 / 2\<rfloor>" by (simp add: le_floor_iff) linarith
  moreover have "0 \<le> \<lfloor>x * 10 ^ d + 1 / 2\<rfloor>" using assms(1) by simp
  ultimately show ?thesis unfolding fixed_units_def by linarith
qed

text \<open>Values at least one unit of the last place apart are written differently.\<close>

lemma to_fixed_gap:
  assumes "x + 1 / 10 ^ d \<le> y"
  shows "to_fixed d x \<noteq> to_fixed d y"
proof -
  have pos: "(0 :: rat) < 1 / 10 ^ d" by simp
  consider "0 \<le> x" | "x < 0" "0 \<le> y" | "y < 0" by linarith
  then show ?thesis
  proof cases
    case 1
    then have "\<not> y < 0" "\<not> x < 0" using assms pos by linarith+
    then show ?thesis using fixed_units_gap [OF 1 assms] fixed_digits_inj by (fastforce simp: to_fixed_def)
  next
    case 2
    then show ?thesis using fixed_digits_hd [of d "fixed_units d y"] by (simp add: to_fixed_def) metis
  next
    case 3
    then have "x < 0" "0 \<le> - y" "- y + 1 / 10 ^ d \<le> - x" using assms pos by linarith+
    then show ?thesis
      using 3 fixed_units_gap [of "- y" d "- x"] fixed_digits_inj by (fastforce simp: to_fixed_def)
  qed
qed

lemma axis_decimals_fine:
  assumes "1 / 10 ^ 6 \<le> s"
  shows "1 / 10 ^ axis_decimals s \<le> s"
proof (cases "1 \<le> s \<or> s \<le> 0")
  case True
  then show ?thesis using assms by (auto simp: axis_decimals_def)
next
  case False
  show ?thesis
  proof (cases "find (\<lambda>k. 1 \<le> s * 10 ^ k) [1..<7]")
    case None
    then show ?thesis using assms False by (simp add: axis_decimals_def)
  next
    case (Some k)
    then have "1 \<le> s * 10 ^ k" by (auto simp: find_Some_iff)
    then show ?thesis using Some False by (simp add: axis_decimals_def divide_le_eq)
  qed
qed

lemma spaced_pairs:
  assumes "sorted_wrt (\<lambda>a b. a + s \<le> b) vals" and "0 < s" and "\<And>a b. a \<in> set vals \<Longrightarrow> b \<in> set vals \<Longrightarrow> a + s \<le> b \<Longrightarrow> f a \<noteq> f b"
  shows "distinct (map f vals)"
  using assms(1,3)
proof (induction vals)
  case (Cons a vals)
  then have "f a \<notin> f ` set vals" by force
  then show ?case using Cons by simp
qed simp

text \<open>The labels of the gridlines tell the gridlines apart. On an axis of cores, percent or memory whose gridlines rise by
  at least a constant step of a millionth (a thousandth of a MiB for memory), no two gridlines carry the same label,
  however small the step is.\<close>

theorem axis_labels_distinct:
  assumes "unit \<in> {''cores'', ''percent'', ''mib''}" and "2 \<le> length vals"
    and "sorted_wrt (\<lambda>a b. a + axis_step vals \<le> b) vals"
    and "(if unit = ''mib'' then 1024 / 10 ^ 6 else 1 / 10 ^ 6) \<le> axis_step vals"
  shows "distinct (formatAxis vals unit)"
proof -
  define step where "step = axis_step vals"
  have pos: "0 < step" using assms(4) by (auto simp: step_def split: if_splits)
  have fine: "1 / 10 ^ axis_decimals step \<le> step" using assms(4) by (intro axis_decimals_fine) (auto simp: step_def split: if_splits)
  have sorted_step: "sorted_wrt (\<lambda>a b. a + step \<le> b) vals" using assms(3) by (simp add: step_def)
  have top: "v \<le> last vals" if "v \<in> set vals" for v
    using sorted_step that pos
  proof (induction vals)
    case (Cons a xs)
    then show ?case by (cases "xs = []") (force dest: last_in_set)+
  qed simp
  have giga: "1 / 10 ^ (let d = axis_decimals (step / 1024) in if d = 0 then 1 else d) \<le> step / 1024" if "unit = ''mib''"
  proof -
    have "1 / 10 ^ axis_decimals (step / 1024) \<le> step / 1024" using assms(4) that by (intro axis_decimals_fine) (simp add: step_def)
    then show ?thesis by (auto simp: Let_def)
  qed
  have "axis_label vals unit a \<noteq> axis_label vals unit b" if ab: "a \<in> set vals" "b \<in> set vals" "a + step \<le> b" for a b
  proof (cases "unit = ''mib'' \<and> 1024 \<le> last vals")
    case True
    have "a / 1024 + 1 / 10 ^ (let d = axis_decimals (step / 1024) in if d = 0 then 1 else d) \<le> b / 1024"
      using giga True ab(3) by linarith
    then show ?thesis using True ab to_fixed_gap by (auto simp: axis_label_def Let_def step_def [symmetric])
  next
    case False
    have "a + 1 / 10 ^ axis_decimals step \<le> b" using fine ab(3) by linarith
    from to_fixed_gap [OF this] show ?thesis
      using False assms(1) ab top [OF ab(1)] top [OF ab(2)]
      by (auto simp: axis_label_def Let_def step_def [symmetric])
  qed
  then show ?thesis unfolding formatAxis_def by (rule spaced_pairs [OF sorted_step pos])
qed

theorem axis_labels_distinct_witness: "distinct (formatAxis [0, 1 / 1000, 2 / 1000, 3 / 1000] ''cores'')"
  by (rule axis_labels_distinct) (simp_all add: axis_step_def)

section \<open>Values and ranges\<close>

lemma scale_rate_spec:
  assumes "scale_rate k n i = (m, j)"
  shows "i \<le> j \<and> j \<le> i + k \<and> m * 1024 ^ (j - i) = n \<and> (j < i + k \<longrightarrow> m < 1024) \<and> (i < j \<longrightarrow> 1 \<le> m)"
  using assms
proof (induction k arbitrary: n i)
  case (Suc k)
  show ?case
  proof (cases "1024 \<le> n")
    case True
    then have "scale_rate k (n / 1024) (Suc i) = (m, j)" using Suc.prems by simp
    from Suc.IH [OF this]
    have *: "Suc i \<le> j" "j \<le> Suc i + k" "m * 1024 ^ (j - Suc i) = n / 1024" "j < Suc i + k \<longrightarrow> m < 1024" "Suc i < j \<longrightarrow> 1 \<le> m" by auto
    have "m * 1024 ^ (j - i) = n" using * by (simp add: Suc_diff_le [symmetric] Suc_diff_Suc field_simps flip: power_Suc)
    moreover have "1 \<le> m" using * True by (cases "Suc i < j") auto
    ultimately show ?thesis using * by auto
  qed (use Suc.prems in auto)
qed simp

text \<open>A chart anchored at zero holds its whole series with headroom, and never spans less than the unit's minimum.\<close>

lemma zero_anchored_range:
  assumes "zeroAnchoredRange peak unit = (lo, hi)"
  shows "lo = 0 \<and> 0 < hi \<and> (case peak of Fin m \<Rightarrow> m \<le> hi \<and> (0 < m \<longrightarrow> m < hi) | _ \<Rightarrow> True) \<and>
    (case MIN_SPAN unit of Some s \<Rightarrow> s \<le> hi | None \<Rightarrow> 1 \<le> hi)"
  using assms by (auto simp: zeroAnchoredRange_def Let_def MIN_SPAN_def max_def split: jsnum.splits option.splits if_splits)

end
