(* ===== verification/Table_State.thy ===== *)
theory Table_State
  imports Js_Number "HOL-Library.Multiset" "HOL-Library.List_Lexorder" "HOL-Library.Char_ord"
begin

text \<open>
  Lists on a page: search, sort, tab and page number kept in the query string (\<^verbatim>\<open>hooks/useTableState.ts\<close>),
  the select filters beside them (\<^verbatim>\<open>hooks/useUrlFilters.ts\<close>), the ordering of rows, and the selection and the pager of
  the shared table (\<^verbatim>\<open>components/Table.tsx\<close>).
\<close>

section \<open>Query parameters\<close>

text \<open>\<^verbatim>\<open>URLSearchParams\<close>: an ordered list of names and values. \<^verbatim>\<open>get\<close> reads the first value of a name, \<^verbatim>\<open>set\<close> replaces
  it and drops the others, \<^verbatim>\<open>delete\<close> drops them all.\<close>

type_synonym params = "(string \<times> string) list"

definition usp_get :: "string \<Rightarrow> params \<Rightarrow> string option" where
  "usp_get n ps = map_of ps n"

definition usp_delete :: "string \<Rightarrow> params \<Rightarrow> params" where
  "usp_delete n ps = filter (\<lambda>(k, _). k \<noteq> n) ps"

fun usp_set :: "string \<Rightarrow> string \<Rightarrow> params \<Rightarrow> params" where
  "usp_set n v [] = [(n, v)]"
| "usp_set n v ((k, w) # ps) = (if k = n then (n, v) # usp_delete n ps else (k, w) # usp_set n v ps)"

text \<open>The loop over \<^verbatim>\<open>Object.entries(changes)\<close>: null and the empty string delete.\<close>

type_synonym changes = "(string \<times> string option) list"

definition change_one :: "string \<times> string option \<Rightarrow> params \<Rightarrow> params" where
  "change_one c ps = (case nonempty (snd c) of None \<Rightarrow> usp_delete (fst c) ps | Some w \<Rightarrow> usp_set (fst c) w ps)"

locale url_params =
  fixes get_param :: "string \<Rightarrow> 'p \<Rightarrow> string option"
    and set_param :: "string \<Rightarrow> string \<Rightarrow> 'p \<Rightarrow> 'p"
    and del_param :: "string \<Rightarrow> 'p \<Rightarrow> 'p"
  assumes get_set: "get_param n (set_param m v ps) = (if n = m then Some v else get_param n ps)"
    and get_del: "get_param n (del_param m ps) = (if n = m then None else get_param n ps)"
begin

lemma get_changes:
  "get_param n (fold (\<lambda>c ps. case nonempty (snd c) of None \<Rightarrow> del_param (fst c) ps | Some w \<Rightarrow> set_param (fst c) w ps) cs ps) =
     (case map_of (rev cs) n of None \<Rightarrow> get_param n ps | Some v \<Rightarrow> nonempty v)"
  by (induction cs arbitrary: ps) (auto simp: get_set get_del map_add_def split: option.splits)

lemma get_del_all: "get_param n (fold del_param ms ps) = (if n \<in> set ms then None else get_param n ps)"
  by (induction ms arbitrary: ps) (auto simp: get_del)

end

lemma usp_get_delete: "usp_get n (usp_delete m ps) = (if n = m then None else usp_get n ps)"
  by (induction ps) (auto simp: usp_get_def usp_delete_def)

lemma usp_get_set: "usp_get n (usp_set m v ps) = (if n = m then Some v else usp_get n ps)"
proof (induction ps)
  case (Cons kw ps)
  obtain k w where kw: "kw = (k, w)" by force
  show ?case using Cons usp_get_delete [of n m ps] unfolding kw by (auto simp: usp_get_def)
qed (simp add: usp_get_def)

interpretation usp: url_params usp_get usp_set usp_delete
  by unfold_locales (simp_all add: usp_get_set usp_get_delete)

lemma get_change_fold:
  "usp_get n (fold change_one cs ps) = (case map_of (rev cs) n of None \<Rightarrow> usp_get n ps | Some v \<Rightarrow> nonempty v)"
  using usp.get_changes [of n cs ps] by (simp add: change_one_def [abs_def])

section \<open>The state of a table\<close>

record table_defaults =
  td_sort :: "string option"
  td_dir :: "string option"
  td_tab :: "string option"

record TableState =
  ts_query :: string
  ts_sort :: "string option"
  ts_dir :: string
  ts_page :: jsnum
  ts_tab :: "string option"

definition param_key :: "string \<Rightarrow> string \<Rightarrow> string" where
  "param_key pre name = (if pre \<noteq> [] then pre @ ''_'' @ name else name)"

text \<open>\<^verbatim>\<open>set(changes)\<close>: any change to the result set restarts paging.\<close>

definition set_params :: "string \<Rightarrow> changes \<Rightarrow> params \<Rightarrow> params" where
  "set_params pre changes prev =
     (let nxt = fold change_one changes prev in
      if ''page'' \<notin> fst ` set changes \<and> (\<exists>n \<in> fst ` set changes. n \<noteq> param_key pre ''page'')
      then usp_delete (param_key pre ''page'') nxt else nxt)"

text \<open>\<^verbatim>\<open>Number(page ?? '1') || 1\<close>.\<close>

definition page_number :: "string option \<Rightarrow> jsnum" where
  "page_number v = (let n = js_number (str_or v ''1'') in if num_truthy n then n else Fin 1)"

definition useTableState :: "string \<Rightarrow> table_defaults \<Rightarrow> params \<Rightarrow> TableState" where
  "useTableState pre d ps =
     \<lparr>ts_query = str_or (usp_get (param_key pre ''q'') ps) [],
      ts_sort = or_else (usp_get (param_key pre ''sort'') ps) (td_sort d),
      ts_dir = str_or (or_else (usp_get (param_key pre ''dir'') ps) (td_dir d)) ''asc'',
      ts_page = page_number (usp_get (param_key pre ''page'') ps),
      ts_tab = or_else (usp_get (param_key pre ''tab'') ps) (td_tab d)\<rparr>"

definition isFiltered :: "table_defaults \<Rightarrow> TableState \<Rightarrow> bool" where
  "isFiltered d s = (ts_query s \<noteq> [] \<or> str_truthy (ts_tab s) \<and> ts_tab s \<noteq> td_tab d)"

definition toggleSort :: "string \<Rightarrow> table_defaults \<Rightarrow> string \<Rightarrow> params \<Rightarrow> params" where
  "toggleSort pre d key ps =
     (let s = useTableState pre d ps in
      if ts_sort s = Some key
      then set_params pre [(param_key pre ''dir'', Some (if ts_dir s = ''asc'' then ''desc'' else ''asc''))] ps
      else set_params pre [(param_key pre ''sort'', Some key), (param_key pre ''dir'', Some ''asc'')] ps)"

definition clear_table :: "string \<Rightarrow> params \<Rightarrow> params" where
  "clear_table pre =
     set_params pre [(param_key pre ''q'', None), (param_key pre ''sort'', None), (param_key pre ''dir'', None),
       (param_key pre ''page'', None), (param_key pre ''tab'', None)]"

definition setQuery :: "string \<Rightarrow> string \<Rightarrow> params \<Rightarrow> params" where
  "setQuery pre v = set_params pre [(param_key pre ''q'', nonempty (Some v))]"

definition setPage :: "string \<Rightarrow> int \<Rightarrow> params \<Rightarrow> params" where
  "setPage pre n = set_params pre [(param_key pre ''page'', if n > 1 then Some (show_int n) else None)]"

definition setTab :: "string \<Rightarrow> string option \<Rightarrow> params \<Rightarrow> params" where
  "setTab pre v = set_params pre [(param_key pre ''tab'', v)]"

datatype table_op = SetQuery string | ToggleSort string | SetPage int | SetTab "string option" | ClearTable

fun table_apply :: "string \<Rightarrow> table_defaults \<Rightarrow> table_op \<Rightarrow> params \<Rightarrow> params" where
  "table_apply pre d (SetQuery v) ps = setQuery pre v ps"
| "table_apply pre d (ToggleSort key) ps = toggleSort pre d key ps"
| "table_apply pre d (SetPage n) ps = setPage pre n ps"
| "table_apply pre d (SetTab v) ps = setTab pre v ps"
| "table_apply pre d ClearTable ps = clear_table pre ps"

text \<open>What each operation promises of the state the table shows.\<close>

definition table_init :: "table_defaults \<Rightarrow> TableState" where
  "table_init d = \<lparr>ts_query = [], ts_sort = td_sort d, ts_dir = str_or (td_dir d) ''asc'', ts_page = Fin 1, ts_tab = td_tab d\<rparr>"

fun view_apply :: "table_defaults \<Rightarrow> table_op \<Rightarrow> TableState \<Rightarrow> TableState" where
  "view_apply d (SetQuery v) s = s\<lparr>ts_query := v, ts_page := Fin 1\<rparr>"
| "view_apply d (ToggleSort key) s =
     s\<lparr>ts_sort := (if ts_sort s = Some key then Some key else or_else (nonempty (Some key)) (td_sort d)),
       ts_dir := (if ts_sort s = Some key \<and> ts_dir s = ''asc'' then ''desc'' else ''asc''), ts_page := Fin 1\<rparr>"
| "view_apply d (SetPage n) s = s\<lparr>ts_page := Fin (of_int (max 1 n))\<rparr>"
| "view_apply d (SetTab v) s = s\<lparr>ts_tab := or_else (nonempty v) (td_tab d), ts_page := Fin 1\<rparr>"
| "view_apply d ClearTable s = table_init d"

lemma param_key_inj:
  assumes "CHR ''_'' \<notin> set n" and "CHR ''_'' \<notin> set m"
  shows "param_key p n = param_key q m \<longleftrightarrow> p = q \<and> n = m"
proof -
  have "p = q \<and> n = m" if eq: "p @ CHR ''_'' # n = q @ CHR ''_'' # m"
  proof -
    have tw: "takeWhile (\<lambda>c. c \<noteq> CHR ''_'') (rev xs @ CHR ''_'' # ys) = rev xs" if "CHR ''_'' \<notin> set xs" for xs ys
      using that by (subst takeWhile_append2) auto
    have "rev n @ CHR ''_'' # rev p = rev m @ CHR ''_'' # rev q" using arg_cong [OF eq, of rev] by simp
    then have "rev n = rev m" using tw [OF assms(1), of "rev p"] tw [OF assms(2), of "rev q"] by simp
    then show ?thesis using eq by simp
  qed
  then show ?thesis using assms by (auto simp: param_key_def)
qed

lemma plain_names [simp]:
  "CHR ''_'' \<notin> set ''q''" "CHR ''_'' \<notin> set ''sort''" "CHR ''_'' \<notin> set ''dir''" "CHR ''_'' \<notin> set ''page''" "CHR ''_'' \<notin> set ''tab''"
  by simp_all

lemmas table_keys = param_key_inj [OF plain_names(1)] param_key_inj [OF plain_names(2)] param_key_inj [OF plain_names(3)]
  param_key_inj [OF plain_names(4)] param_key_inj [OF plain_names(5)]

lemma param_key_page [simp]: "CHR ''_'' \<notin> set n \<Longrightarrow> ''page'' = param_key p n \<longleftrightarrow> p = [] \<and> n = ''page''"
  using param_key_inj [OF plain_names(4), of n "[]" p] by (auto simp: param_key_def)

lemma get_set_params:
  "usp_get k (set_params pre cs ps) =
     (if k = param_key pre ''page'' \<and> ''page'' \<notin> fst ` set cs \<and> (\<exists>n \<in> fst ` set cs. n \<noteq> param_key pre ''page'') then None
      else case map_of (rev cs) k of None \<Rightarrow> usp_get k ps | Some v \<Rightarrow> nonempty v)"
  by (auto simp: set_params_def Let_def usp_get_delete get_change_fold)

lemma page_number_show: "n > 1 \<Longrightarrow> page_number (Some (show_int n)) = Fin (of_int n)"
  by (simp add: page_number_def show_int_def)

lemma page_number_None [simp]: "page_number None = Fin 1"
proof -
  have "js_number ''1'' = Fin 1" by code_simp
  then show ?thesis by (simp add: page_number_def)
qed

lemma nonempty_show_int [simp]: "nonempty (Some (show_int n)) = Some (show_int n)"
  by (simp add: show_int_def)

lemmas table_view = useTableState_def get_set_params table_keys

text \<open>The operations of one table are seen by that table as promised, and by a table of another prefix not at all.\<close>

lemma table_refines_set:
  "useTableState p d (setQuery p v ps) = view_apply d (SetQuery v) (useTableState p d ps)"
  "useTableState p d (setTab p w ps) = view_apply d (SetTab w) (useTableState p d ps)"
  "useTableState p d (setPage p n ps) = view_apply d (SetPage n) (useTableState p d ps)"
  "useTableState p d (clear_table p ps) = view_apply d ClearTable (useTableState p d ps)"
  subgoal by (simp add: setQuery_def table_view)
  subgoal by (simp add: setTab_def table_view)
  subgoal by (simp add: setPage_def table_view page_number_show)
  subgoal by (simp add: clear_table_def table_view table_init_def)
  done

lemma table_refines_sort: "useTableState p d (toggleSort p d key ps) = view_apply d (ToggleSort key) (useTableState p d ps)"
  by (cases "ts_sort (useTableState p d ps) = Some key") (simp_all add: toggleSort_def table_view)

lemma table_refines: "useTableState p d (table_apply p d op ps) = view_apply d op (useTableState p d ps)"
  by (cases op) (simp_all only: table_apply.simps table_refines_set table_refines_sort)

lemma table_apply_other:
  assumes "q \<noteq> p"
  shows "useTableState q e (table_apply p d op ps) = useTableState q e ps"
  using assms assms [symmetric]
  by (cases op) (simp_all add: setQuery_def setTab_def setPage_def clear_table_def toggleSort_def Let_def table_view)

text \<open>C8: The URL is a faithful store of a table's view. Every operation changes what the table shows exactly as promised (a
  search, a sort or a tab change restarts paging, a page change keeps everything else, clearing returns to the
  defaults), and a table with another prefix on the same page sees no change at all.\<close>

theorem table_state_refines:
  assumes "q \<noteq> p"
  shows "useTableState p d (table_apply p d op ps) = view_apply d op (useTableState p d ps) \<and>
    useTableState q e (table_apply p d op ps) = useTableState q e ps \<and>
    \<not> isFiltered d (useTableState p d (table_apply p d ClearTable ps))"
  using table_refines [of p d op ps] table_apply_other [OF assms] table_refines [of p d ClearTable ps]
  by (simp add: isFiltered_def table_init_def)

theorem table_state_refines_witness:
  "ts_page (useTableState ''q'' \<lparr>td_sort = None, td_dir = None, td_tab = None\<rparr> (setQuery [] ''gpu'' [(''q_page'', ''3'')])) = Fin 3 \<and>
   ts_page (useTableState [] \<lparr>td_sort = None, td_dir = None, td_tab = None\<rparr> (setQuery [] ''gpu'' [(''page'', ''7'')])) = Fin 1"
proof -
  let ?d = "\<lparr>td_sort = None, td_dir = None, td_tab = None\<rparr>"
  have three: "ts_page (useTableState ''q'' ?d [(''q_page'', ''3'')]) = Fin 3" by code_simp
  show ?thesis
    using table_state_refines [of "''q''" "[]" ?d "SetQuery ''gpu''" "[(''q_page'', ''3'')]" ?d]
      table_state_refines [of "''q''" "[]" ?d "SetQuery ''gpu''" "[(''page'', ''7'')]" ?d] three
    by simp
qed

section \<open>Select filters\<close>

definition filter_values :: "string \<Rightarrow> params \<Rightarrow> string \<Rightarrow> string" where
  "filter_values pre ps n = str_or (usp_get (param_key pre n) ps) []"

definition set_filter :: "string \<Rightarrow> string \<Rightarrow> string \<Rightarrow> params \<Rightarrow> params" where
  "set_filter pre name v prev =
     usp_delete (param_key pre ''page'')
       (if v \<noteq> [] then usp_set (param_key pre name) v prev else usp_delete (param_key pre name) prev)"

definition clear_filters :: "string list \<Rightarrow> string \<Rightarrow> params \<Rightarrow> params" where
  "clear_filters names pre prev =
     usp_delete (param_key pre ''page'') (fold (\<lambda>n. usp_delete (param_key pre n)) names prev)"

definition any_filter :: "string list \<Rightarrow> string \<Rightarrow> params \<Rightarrow> bool" where
  "any_filter names pre ps = (\<exists>n \<in> set names. filter_values pre ps n \<noteq> [])"

text \<open>Names a table uses itself; a filter of such a name would share its parameter.\<close>

definition free_name :: "string \<Rightarrow> bool" where
  "free_name n = (CHR ''_'' \<notin> set n \<and> n \<notin> {''q'', ''sort'', ''dir'', ''page'', ''tab''})"

lemma get_clear_filters:
  "usp_get k (clear_filters names pre ps) =
     (if k = param_key pre ''page'' \<or> k \<in> param_key pre ` set names then None else usp_get k ps)"
proof -
  have "fold (\<lambda>n. usp_delete (param_key pre n)) names ps = fold usp_delete (map (param_key pre) names) ps"
    by (simp add: fold_map comp_def)
  then show ?thesis by (simp add: clear_filters_def usp_get_delete usp.get_del_all)
qed

text \<open>Setting a filter restarts the paging of its table and keeps the rest of its view; clearing the filters too.\<close>

lemma filter_view:
  assumes "free_name n"
  shows "useTableState pre d (set_filter pre n v ps) = (useTableState pre d ps)\<lparr>ts_page := Fin 1\<rparr>"
    and "filter_values pre (set_filter pre n v ps) n = v"
  using assms
  by (auto simp: free_name_def set_filter_def filter_values_def useTableState_def usp_get_delete usp_get_set table_keys param_key_inj)

lemma clear_filters_view:
  assumes "list_all free_name names"
  shows "useTableState pre d (clear_filters names pre ps) = (useTableState pre d ps)\<lparr>ts_page := Fin 1\<rparr>"
    and "\<not> any_filter names pre (clear_filters names pre ps)"
proof -
  have "param_key pre m \<notin> param_key pre ` set names" if "m \<in> {''q'', ''sort'', ''dir'', ''page'', ''tab''}" for m
    using assms that param_key_inj [of m] by (auto simp: list_all_iff free_name_def)
  then show "useTableState pre d (clear_filters names pre ps) = (useTableState pre d ps)\<lparr>ts_page := Fin 1\<rparr>"
    by (simp add: useTableState_def get_clear_filters table_keys)
  show "\<not> any_filter names pre (clear_filters names pre ps)"
    by (auto simp: any_filter_def filter_values_def get_clear_filters)
qed

text \<open>
  Several updates in one event handler. How the router combines them is the router's: \<open>router\<close> is what its parameters
  are after the updates, given those of the last render.
\<close>

definition clearAll :: "string list \<Rightarrow> string \<Rightarrow> (params \<Rightarrow> params) list" where
  "clearAll names pre = [clear_table pre, clear_filters names pre]"

text \<open>Clearing everything clears only the filters. The router computes every update of a handler from the parameters of the
  last render and keeps the last one (its documented behaviour), so in \<^verbatim>\<open>clearAll\<close> the table's own clear is lost: the
  search, the sort and the tab stay, and a list emptied by a search stays empty.\<close>

theorem clear_all_keeps_search:
  assumes router: "\<And>us u ps. router (us @ [u]) ps = u ps" and names: "list_all free_name names"
  shows "useTableState pre d (router (clearAll names pre) ps) = (useTableState pre d ps)\<lparr>ts_page := Fin 1\<rparr> \<and>
     \<not> any_filter names pre (router (clearAll names pre) ps)"
  using clear_filters_view [OF names] router [of "[clear_table pre]" "clear_filters names pre" ps]
  by (simp add: clearAll_def)

theorem clear_all_keeps_search_witness:
  "ts_query (useTableState [] \<lparr>td_sort = Some ''live'', td_dir = Some ''desc'', td_tab = Some ''active''\<rparr>
     (last (clearAll [''class'', ''model''] []) [(''q'', ''nothing-like-this''), (''class'', ''gpu'')])) = ''nothing-like-this''"
  using clear_all_keeps_search [of "\<lambda>us ps. last us ps" "[''class'', ''model'']" "[]"
      "\<lparr>td_sort = Some ''live'', td_dir = Some ''desc'', td_tab = Some ''active''\<rparr>" "[(''q'', ''nothing-like-this''), (''class'', ''gpu'')]"]
  by (simp add: free_name_def useTableState_def usp_get_def param_key_def)

end
