(* ===== verification/Row_Order.thy ===== *)
theory Row_Order
  imports Table_State
begin

text \<open>
  Ordering and selecting rows: \<^verbatim>\<open>Array.prototype.sort\<close> as the language specifies it (stable, for a consistent
  comparison), \<^verbatim>\<open>sortRows\<close> (\<^verbatim>\<open>hooks/useTableState.ts\<close>), the option lists of \<^verbatim>\<open>hooks/useUrlFilters.ts\<close>, and the row
  selection, sort accessor and pager of \<^verbatim>\<open>components/Table.tsx\<close>.
\<close>

section \<open>Sorting with a comparison\<close>

text \<open>Insertion from the right, before the first element that is not smaller. The language leaves the algorithm open; the
  laws below fix the result whenever the comparison is consistent on the elements.\<close>

fun insert_row :: "('a \<Rightarrow> 'a \<Rightarrow> bool) \<Rightarrow> 'a \<Rightarrow> 'a list \<Rightarrow> 'a list" where
  "insert_row le x [] = [x]"
| "insert_row le x (y # ys) = (if le x y then x # y # ys else y # insert_row le x ys)"

definition js_sort :: "('a \<Rightarrow> 'a \<Rightarrow> bool) \<Rightarrow> 'a list \<Rightarrow> 'a list" where
  "js_sort le xs = foldr (insert_row le) xs []"

lemma mset_insert_row [simp]: "mset (insert_row le x ys) = add_mset x (mset ys)"
  by (induction ys) auto

lemma mset_js_sort [simp]: "mset (js_sort le xs) = mset xs"
  by (induction xs) (simp_all add: js_sort_def)

lemma set_js_sort [simp]: "set (js_sort le xs) = set xs"
  by (metis mset_js_sort set_mset_mset)

lemma length_js_sort [simp]: "length (js_sort le xs) = length xs"
  by (metis mset_js_sort size_mset)

definition tied :: "('a \<Rightarrow> 'a \<Rightarrow> bool) \<Rightarrow> 'a \<Rightarrow> 'a \<Rightarrow> bool" where
  "tied le x y = (le x y \<and> le y x)"

locale comparison =
  fixes le :: "'a \<Rightarrow> 'a \<Rightarrow> bool" and A :: "'a set"
  assumes le_total: "x \<in> A \<Longrightarrow> y \<in> A \<Longrightarrow> le x y \<or> le y x"
    and le_trans: "x \<in> A \<Longrightarrow> y \<in> A \<Longrightarrow> z \<in> A \<Longrightarrow> le x y \<Longrightarrow> le y z \<Longrightarrow> le x z"
begin

lemma le_refl: "x \<in> A \<Longrightarrow> le x x"
  using le_total by blast

lemma insert_sorted:
  assumes "x \<in> A" and "set ys \<subseteq> A" and "sorted_wrt le ys"
  shows "sorted_wrt le (insert_row le x ys)"
  using assms
proof (induction ys)
  case (Cons y ys)
  have set: "set (insert_row le x ys) = insert x (set ys)" by (metis mset_insert_row set_mset_add_mset_insert set_mset_mset)
  show ?case
  proof (cases "le x y")
    case True
    then have "\<forall>z \<in> set ys. le x z" using Cons.prems le_trans by (metis insert_subset list.simps(15) sorted_wrt.simps(2) subsetD)
    then show ?thesis using True Cons.prems by simp
  next
    case False
    then have "le y x" using le_total Cons.prems by auto
    then show ?thesis using False Cons set by auto
  qed
qed simp

lemma sort_sorted: "set xs \<subseteq> A \<Longrightarrow> sorted_wrt le (js_sort le xs)"
proof (induction xs)
  case (Cons x xs)
  then have "sorted_wrt le (insert_row le x (js_sort le xs))" by (intro insert_sorted) auto
  then show ?case by (simp add: js_sort_def)
qed (simp add: js_sort_def)

lemma insert_stable:
  assumes "x \<in> A" and "set ys \<subseteq> A" and "z \<in> A"
  shows "filter (tied le z) (insert_row le x ys) = filter (tied le z) (x # ys)"
  using assms
proof (induction ys)
  case (Cons y ys)
  have "\<not> (tied le z x \<and> tied le z y)" if "\<not> le x y"
    using that Cons.prems le_trans [of x z y] unfolding tied_def by auto
  then show ?case using Cons by auto
qed simp

lemma sort_stable: "set xs \<subseteq> A \<Longrightarrow> z \<in> A \<Longrightarrow> filter (tied le z) (js_sort le xs) = filter (tied le z) xs"
proof (induction xs)
  case (Cons x xs)
  then have "filter (tied le z) (insert_row le x (js_sort le xs)) = filter (tied le z) (x # js_sort le xs)"
    by (intro insert_stable) auto
  then show ?case using Cons by (simp add: js_sort_def)
qed (simp add: js_sort_def)

text \<open>Two sorted lists that list every class of tied elements alike are the same list.\<close>

lemma sorted_unique:
  assumes "sorted_wrt le xs" and "sorted_wrt le ys" and "set xs \<subseteq> A" and "set ys \<subseteq> A"
    and "\<forall>z \<in> A. filter (tied le z) xs = filter (tied le z) ys"
  shows "xs = ys"
  using assms
proof (induction xs arbitrary: ys)
  case Nil
  show ?case
  proof (cases ys)
    case (Cons y ys')
    then have "tied le y y" using Nil le_refl by (simp add: tied_def)
    moreover have "filter (tied le y) ys = []" using Nil.prems(5) Cons Nil.prems(4) by (metis filter.simps(1) list.set_intros(1) subsetD)
    ultimately show ?thesis using Cons by simp
  qed simp
next
  case (Cons a xs')
  have a: "a \<in> A" "tied le a a" using Cons.prems(3) le_refl by (auto simp: tied_def)
  have fa: "filter (tied le a) ys = a # filter (tied le a) xs'" using Cons.prems(5) a by (metis filter.simps(2))
  then obtain b ys' where ys: "ys = b # ys'" by (cases ys) auto
  have b: "b \<in> A" "tied le b b" using Cons.prems(4) ys le_refl by (auto simp: tied_def)
  have "a \<in> set (filter (tied le a) ys)" unfolding fa by simp
  then have "a \<in> set ys" by simp
  then have ba: "le b a" using ys Cons.prems(2) b by (auto simp: tied_def)
  have "filter (tied le b) (a # xs') = b # filter (tied le b) ys'" using Cons.prems(5) b ys by (metis filter.simps(2))
  then have "b \<in> set (filter (tied le b) (a # xs'))" by (simp only: list.set_intros(1))
  then have "b \<in> set (a # xs')" by (simp only: set_filter mem_Collect_eq)
  then have ab: "le a b" using Cons.prems(1) a by (auto simp: tied_def)
  have "tied le a b" using ab ba by (simp add: tied_def)
  then have eq: "a = b" using fa ys by simp
  have "filter (tied le z) xs' = filter (tied le z) ys'" if "z \<in> A" for z
    using Cons.prems(5) that ys eq by (metis filter.simps(2) list.inject)
  then have "xs' = ys'" using Cons.IH [of ys'] Cons.prems ys by auto
  then show ?case using eq ys by simp
qed

lemma sort_unique:
  assumes "set xs \<subseteq> A" and "sorted_wrt le ys" and "mset ys = mset xs" and "\<forall>z \<in> A. filter (tied le z) ys = filter (tied le z) xs"
  shows "ys = js_sort le xs"
proof (rule sorted_unique)
  show "sorted_wrt le (js_sort le xs)" using sort_sorted assms(1) .
  show "set ys \<subseteq> A" using assms(1,3) by (metis set_mset_mset)
  show "\<forall>z \<in> A. filter (tied le z) ys = filter (tied le z) (js_sort le xs)" using sort_stable assms by simp
qed (use assms in auto)

end

lemma comparison_subset: "comparison le A \<Longrightarrow> B \<subseteq> A \<Longrightarrow> comparison le B"
  unfolding comparison_def by blast

section \<open>sortRows\<close>

text \<open>What an accessor returns: null or undefined, a number, or another value, of which only its text \<^verbatim>\<open>String(x)\<close> matters.\<close>

datatype sort_key = KNull | KNum jsnum | KOther string

fun key_text :: "(jsnum \<Rightarrow> string) \<Rightarrow> sort_key \<Rightarrow> string" where
  "key_text num_str (KNum n) = num_str n"
| "key_text num_str (KOther s) = s"
| "key_text num_str KNull = ''null''"

text \<open>The sign of \<^verbatim>\<open>x - y\<close>; the sort reads \<open>NaN\<close> as zero.\<close>

fun num_diff :: "jsnum \<Rightarrow> jsnum \<Rightarrow> int" where
  "num_diff (Fin a) (Fin b) = (if a < b then -1 else if a = b then 0 else 1)"
| "num_diff NaN y = 0"
| "num_diff x NaN = 0"
| "num_diff PosInf PosInf = 0"
| "num_diff NegInf NegInf = 0"
| "num_diff PosInf y = 1"
| "num_diff NegInf y = -1"
| "num_diff x PosInf = -1"
| "num_diff x NegInf = 1"

text \<open>\<open>coll\<close> is \<^verbatim>\<open>localeCompare\<close> with the numeric, case-blind collation of the viewer's language.\<close>

definition value_compare :: "(string \<Rightarrow> string \<Rightarrow> int) \<Rightarrow> (jsnum \<Rightarrow> string) \<Rightarrow> sort_key \<Rightarrow> sort_key \<Rightarrow> int" where
  "value_compare coll num_str x y =
     (case (x, y) of (KNum a, KNum b) \<Rightarrow> num_diff a b | _ \<Rightarrow> coll (key_text num_str x) (key_text num_str y))"

definition row_compare ::
  "(string \<Rightarrow> string \<Rightarrow> int) \<Rightarrow> (jsnum \<Rightarrow> string) \<Rightarrow> string \<Rightarrow> sort_key \<Rightarrow> sort_key \<Rightarrow> int" where
  "row_compare coll num_str dir x y =
     (if x = KNull \<and> y = KNull then 0 else if x = KNull then 1 else if y = KNull then -1
      else (let cmp = value_compare coll num_str x y in if dir = ''asc'' then cmp else - cmp))"

definition row_le ::
  "(string \<Rightarrow> string \<Rightarrow> int) \<Rightarrow> (jsnum \<Rightarrow> string) \<Rightarrow> string \<Rightarrow> ('r \<Rightarrow> sort_key) \<Rightarrow> 'r \<Rightarrow> 'r \<Rightarrow> bool" where
  "row_le coll num_str dir acc a b = (row_compare coll num_str dir (acc a) (acc b) \<le> 0)"

definition sortRows ::
  "(string \<Rightarrow> string \<Rightarrow> int) \<Rightarrow> (jsnum \<Rightarrow> string) \<Rightarrow> 'r list \<Rightarrow> ('r \<Rightarrow> sort_key) option \<Rightarrow> string \<Rightarrow> 'r list" where
  "sortRows coll num_str rows accessor dir =
     (case accessor of None \<Rightarrow> rows | Some acc \<Rightarrow> js_sort (row_le coll num_str dir acc) rows)"

text \<open>A collation is a consistent comparison of texts; a column is uniform when its values are all numbers or all not.\<close>

definition collation :: "(string \<Rightarrow> string \<Rightarrow> int) \<Rightarrow> bool" where
  "collation coll = ((\<forall>x y. sgn (coll x y) = - sgn (coll y x)) \<and> (\<forall>x y z. coll x y \<le> 0 \<and> coll y z \<le> 0 \<longrightarrow> coll x z \<le> 0))"

fun is_number_key :: "sort_key \<Rightarrow> bool" where
  "is_number_key (KNum n) = (n \<noteq> NaN)"
| "is_number_key _ = False"

fun is_other_key :: "sort_key \<Rightarrow> bool" where
  "is_other_key (KOther s) = True"
| "is_other_key _ = False"

definition uniform_keys :: "sort_key list \<Rightarrow> bool" where
  "uniform_keys ks = (list_all (\<lambda>k. k = KNull \<or> is_number_key k) ks \<or> list_all (\<lambda>k. k = KNull \<or> is_other_key k) ks)"

lemma num_diff_total: "x \<noteq> NaN \<Longrightarrow> y \<noteq> NaN \<Longrightarrow> num_diff x y \<le> 0 \<longleftrightarrow> 0 \<le> num_diff y x"
  by (cases x; cases y) auto

lemma num_diff_trans:
  "x \<noteq> NaN \<Longrightarrow> y \<noteq> NaN \<Longrightarrow> z \<noteq> NaN \<Longrightarrow> num_diff x y \<le> 0 \<Longrightarrow> num_diff y z \<le> 0 \<Longrightarrow> num_diff x z \<le> 0"
  by (cases x; cases y; cases z) (auto split: if_splits)

lemma collation_total: "collation coll \<Longrightarrow> coll x y \<le> 0 \<longleftrightarrow> 0 \<le> coll y x"
proof -
  assume "collation coll"
  then have "sgn (coll x y) = - sgn (coll y x)" unfolding collation_def by blast
  then show ?thesis by (auto simp: sgn_if split: if_splits)
qed

definition alike :: "sort_key \<Rightarrow> sort_key \<Rightarrow> bool" where
  "alike x y = (is_number_key x \<and> is_number_key y \<or> is_other_key x \<and> is_other_key y)"

lemma alikeE:
  assumes "alike x y"
  obtains a b where "x = KNum a" "y = KNum b" "a \<noteq> NaN" "b \<noteq> NaN" | s u where "x = KOther s" "y = KOther u"
  using assms by (cases x; cases y) (auto simp: alike_def)

lemma value_compare_flip:
  assumes "collation coll" and "alike x y"
  shows "value_compare coll ns x y \<le> 0 \<longleftrightarrow> 0 \<le> value_compare coll ns y x"
  using assms(2)
proof (cases rule: alikeE)
  case (1 a b)
  then show ?thesis using num_diff_total [of a b] by (simp add: value_compare_def)
next
  case (2 s u)
  then show ?thesis using collation_total [OF assms(1), of s u] by (simp add: value_compare_def)
qed

lemma value_compare_trans:
  assumes "collation coll" and "alike x y" and "alike y z"
    and "value_compare coll ns x y \<le> 0" and "value_compare coll ns y z \<le> 0"
  shows "value_compare coll ns x z \<le> 0"
  using assms(2)
proof (cases rule: alikeE)
  case (1 a b)
  then obtain c where "z = KNum c" "c \<noteq> NaN" using assms(3) by (cases z) (auto simp: alike_def)
  then show ?thesis using num_diff_trans [of a b c] assms(4,5) 1 by (simp add: value_compare_def)
next
  case (2 s u)
  then obtain w where "z = KOther w" using assms(3) by (cases z) (auto simp: alike_def)
  moreover have "coll s u \<le> 0" "coll u w \<le> 0" using assms(4,5) 2 \<open>z = KOther w\<close> by (simp_all add: value_compare_def)
  moreover have "coll s u \<le> 0 \<and> coll u w \<le> 0 \<longrightarrow> coll s w \<le> 0" using assms(1) unfolding collation_def by blast
  ultimately show ?thesis using 2 by (simp add: value_compare_def)
qed

lemma row_le_cases:
  "row_le coll ns dir acc x y \<longleftrightarrow>
     acc y = KNull \<or> (acc x \<noteq> KNull \<and>
       (if dir = ''asc'' then value_compare coll ns (acc x) (acc y) \<le> 0 else 0 \<le> value_compare coll ns (acc x) (acc y)))"
  by (auto simp: row_le_def row_compare_def Let_def)

lemma row_comparison:
  assumes "collation coll" and "uniform_keys (map acc rows)"
  shows "comparison (row_le coll ns dir acc) (set rows)"
proof
  have keys: "alike (acc x) (acc y)" if "x \<in> set rows" "y \<in> set rows" "acc x \<noteq> KNull" "acc y \<noteq> KNull" for x y
    using assms(2) that by (auto simp: uniform_keys_def list_all_iff alike_def)
  have le: "row_le coll ns dir acc x y \<longleftrightarrow> acc y = KNull \<or> (acc x \<noteq> KNull \<and>
      (if dir = ''asc'' then value_compare coll ns (acc x) (acc y) \<le> 0 else value_compare coll ns (acc y) (acc x) \<le> 0))"
    if "x \<in> set rows" "y \<in> set rows" for x y
    unfolding row_le_cases using value_compare_flip [OF assms(1) keys] that by meson
  have total: "value_compare coll ns (acc x) (acc y) \<le> 0 \<or> value_compare coll ns (acc y) (acc x) \<le> 0"
    if "x \<in> set rows" "y \<in> set rows" "acc x \<noteq> KNull" "acc y \<noteq> KNull" for x y
    using value_compare_flip [OF assms(1) keys [OF that], of ns] by linarith
  show "row_le coll ns dir acc x y \<or> row_le coll ns dir acc y x" if "x \<in> set rows" "y \<in> set rows" for x y
    using total [OF that] le [OF that] le [OF that(2,1)] by auto
  show "row_le coll ns dir acc x z"
    if xyz: "x \<in> set rows" "y \<in> set rows" "z \<in> set rows" and "row_le coll ns dir acc x y" "row_le coll ns dir acc y z" for x y z
    using that(4,5) value_compare_trans [OF assms(1) keys keys, of x y z ns] value_compare_trans [OF assms(1) keys keys, of z y x ns]
    unfolding le [OF xyz(1,2)] le [OF xyz(2,3)] le [OF xyz(1,3)] using xyz by (auto split: if_splits)
qed

lemma nulls_last:
  assumes "sorted_wrt (row_le coll ns dir acc) s"
  shows "s = filter (\<lambda>r. acc r \<noteq> KNull) s @ filter (\<lambda>r. acc r = KNull) s"
  using assms
proof (induction s)
  case (Cons r s)
  show ?case
  proof (cases "acc r = KNull")
    case True
    then have "\<forall>q \<in> set s. acc q = KNull" using Cons.prems by (auto simp: row_le_def row_compare_def split: if_splits)
    then show ?thesis using True by (simp add: filter_empty_conv)
  qed (use Cons in simp)
qed simp

definition stably_sorted :: "('r \<Rightarrow> 'r \<Rightarrow> bool) \<Rightarrow> 'r list \<Rightarrow> 'r list \<Rightarrow> bool" where
  "stably_sorted le rows s =
     (mset s = mset rows \<and> sorted_wrt le s \<and> list_all (\<lambda>r. filter (tied le r) s = filter (tied le r) rows) rows)"

lemma stably_sorted_js_sort:
  assumes "comparison le (set rows)"
  shows "stably_sorted le rows s \<longleftrightarrow> s = js_sort le rows"
  using comparison.sort_sorted [OF assms, of rows] comparison.sort_stable [OF assms, of rows]
    comparison.sort_unique [OF assms, of rows s]
  by (auto simp: stably_sorted_def list_all_iff)

text \<open>C16: Sorting a column is right. For a column whose values are all numbers or all texts, compared by any consistent
  collation, the result is the one arrangement of the rows that is ordered by the column in the chosen direction and
  keeps rows with equal values in their previous order, whatever algorithm the engine uses; rows without a value come
  last in both directions, in their previous order.\<close>

theorem sortRows_correct:
  assumes "collation coll" and "uniform_keys (map acc rows)"
  shows "(stably_sorted (row_le coll ns dir acc) rows s \<longleftrightarrow> s = sortRows coll ns rows (Some acc) dir) \<and>
    sortRows coll ns rows (Some acc) dir =
      filter (\<lambda>r. acc r \<noteq> KNull) (sortRows coll ns rows (Some acc) dir) @ filter (\<lambda>r. acc r = KNull) rows"
proof -
  let ?le = "row_le coll ns dir acc" and ?s = "sortRows coll ns rows (Some acc) dir"
  have cmp: "comparison ?le (set rows)" by (rule row_comparison [OF assms])
  have s: "?s = js_sort ?le rows" by (simp add: sortRows_def)
  have ok: "stably_sorted ?le rows ?s" unfolding s using stably_sorted_js_sort [OF cmp] by blast
  have nulls: "filter (\<lambda>r. acc r = KNull) ?s = filter (\<lambda>r. acc r = KNull) rows"
  proof (cases "\<exists>r \<in> set rows. acc r = KNull")
    case True
    then obtain r where r: "r \<in> set rows" "acc r = KNull" by blast
    then have "tied ?le r = (\<lambda>q. acc q = KNull)" by (auto simp: fun_eq_iff tied_def row_le_cases)
    then show ?thesis using ok r(1) by (simp add: stably_sorted_def list_all_iff) metis
  next
    case False
    then show ?thesis unfolding s by (simp add: filter_empty_conv)
  qed
  have "?s = filter (\<lambda>r. acc r \<noteq> KNull) ?s @ filter (\<lambda>r. acc r = KNull) ?s"
    by (rule nulls_last [of coll ns dir]) (use ok in \<open>simp add: stably_sorted_def\<close>)
  then show ?thesis unfolding nulls using stably_sorted_js_sort [OF cmp, of s] s by simp
qed

definition by_length :: "string \<Rightarrow> string \<Rightarrow> int" where
  "by_length x y = int (length x) - int (length y)"

theorem sortRows_correct_witness:
  "sortRows by_length (\<lambda>_. []) [(2::nat, KNull), (1, KNum (Fin 7)), (3, KNum PosInf), (4, KNum (Fin 1))] (Some snd) ''desc'' =
     [(3, KNum PosInf), (1, KNum (Fin 7)), (4, KNum (Fin 1)), (2, KNull)]"
proof -
  let ?rows = "[(2::nat, KNull), (1, KNum (Fin 7)), (3, KNum PosInf), (4, KNum (Fin 1))]"
  let ?s = "[(3::nat, KNum PosInf), (1, KNum (Fin 7)), (4, KNum (Fin 1)), (2, KNull)]"
  have c: "collation by_length" by (auto simp: collation_def by_length_def sgn_if)
  have u: "uniform_keys (map snd ?rows)" by (simp add: uniform_keys_def)
  have "stably_sorted (row_le by_length (\<lambda>_. []) ''desc'' snd) ?rows ?s"
    by (simp add: stably_sorted_def tied_def row_le_cases value_compare_def)
  then show ?thesis using sortRows_correct [OF c u, of "\<lambda>_. []" "''desc''" ?s] by simp
qed

section \<open>Option lists of filters\<close>

text \<open>\<^verbatim>\<open>new Set(values)\<close> keeps the first occurrence of each; the default sort orders by code units.\<close>

definition uniq :: "'a list \<Rightarrow> 'a list" where
  "uniq xs = rev (remdups (rev xs))"

definition distinct_values :: "('r \<Rightarrow> string option) \<Rightarrow> 'r list \<Rightarrow> string list" where
  "distinct_values pick rows = sort (uniq (map the (filter str_truthy (map pick rows))))"

fun first_labels :: "('r \<Rightarrow> string option) \<Rightarrow> ('r \<Rightarrow> string option) \<Rightarrow> 'r list \<Rightarrow> (string \<times> string) list \<Rightarrow> (string \<times> string) list" where
  "first_labels ident label [] m = m"
| "first_labels ident label (r # rs) m =
     first_labels ident label rs
       (case nonempty (ident r) of
          None \<Rightarrow> m
        | Some v \<Rightarrow> if v \<in> fst ` set m then m else m @ [(v, str_or (nonempty (label r)) v)])"

definition distinctPairs ::
  "(string \<Rightarrow> string \<Rightarrow> int) \<Rightarrow> ('r \<Rightarrow> string option) \<Rightarrow> ('r \<Rightarrow> string option) \<Rightarrow> 'r list \<Rightarrow> (string \<times> string) list" where
  "distinctPairs coll ident label rows = js_sort (\<lambda>a b. coll (snd a) (snd b) \<le> 0) (first_labels ident label rows [])"

lemma distinct_values_ok:
  "sorted (distinct_values pick rows) \<and> distinct (distinct_values pick rows) \<and>
   set (distinct_values pick rows) = {v. v \<noteq> [] \<and> Some v \<in> pick ` set rows}"
proof -
  have "set (map the (filter str_truthy (map pick rows))) = {v. v \<noteq> [] \<and> Some v \<in> pick ` set rows}"
    by (force simp: str_truthy_def image_iff split: option.splits)
  then show ?thesis by (simp add: distinct_values_def uniq_def)
qed

lemma first_labels_ok:
  "distinct (map fst m) \<Longrightarrow> distinct (map fst (first_labels ident label rows m)) \<and>
     fst ` set (first_labels ident label rows m) = fst ` set m \<union> {v. v \<noteq> [] \<and> Some v \<in> ident ` set rows} \<and>
     map_of m \<subseteq>\<^sub>m map_of (first_labels ident label rows m)"
proof (induction rows arbitrary: m)
  case (Cons r rs)
  define m' where "m' = (case nonempty (ident r) of None \<Rightarrow> m
      | Some v \<Rightarrow> if v \<in> fst ` set m then m else m @ [(v, str_or (nonempty (label r)) v)])"
  have "distinct (map fst m')" "map_of m \<subseteq>\<^sub>m map_of m'"
    using Cons.prems by (auto simp: m'_def map_le_def map_add_def split: option.splits)
  moreover have "fst ` set m' = fst ` set m \<union> {v. v \<noteq> [] \<and> Some v = ident r}"
  proof (cases "nonempty (ident r)")
    case None
    then show ?thesis by (cases "ident r") (simp_all add: m'_def nonempty_def split: if_splits)
  next
    case (Some v)
    moreover have "ident r = Some v" "v \<noteq> []" using Some by (simp_all add: nonempty_Some_iff)
    ultimately show ?thesis by (auto simp: m'_def)
  qed
  moreover have "first_labels ident label (r # rs) m = first_labels ident label rs m'" by (simp add: m'_def)
  ultimately show ?case using Cons.IH [of m'] by (auto intro: map_le_trans)
qed simp

text \<open>An option list offers each value of the data once, and no other; ids keep the label of their first row.\<close>

lemma distinctPairs_ok:
  "distinct (map fst (distinctPairs coll ident label rows)) \<and>
   fst ` set (distinctPairs coll ident label rows) = {v. v \<noteq> [] \<and> Some v \<in> ident ` set rows}"
proof -
  have "distinct (map fst (js_sort le xs)) = distinct (map fst xs)" for le and xs :: "(string \<times> string) list"
    by (rule mset_eq_imp_distinct_iff) simp
  then show ?thesis using first_labels_ok [of "[]" ident label rows] by (simp add: distinctPairs_def)
qed

section \<open>Columns, selection and pages\<close>

record 'r Column =
  co_key :: string
  co_sortBy :: "('r \<Rightarrow> sort_key) option"
  co_sortable :: "bool option"

text \<open>\<open>field\<close> reads the raw property of a row.\<close>

definition sortAccessor :: "(string \<Rightarrow> 'r \<Rightarrow> sort_key) \<Rightarrow> 'r Column list \<Rightarrow> string option \<Rightarrow> ('r \<Rightarrow> sort_key) option" where
  "sortAccessor field columns key =
     (case nonempty key of
        None \<Rightarrow> None
      | Some k \<Rightarrow>
          (case find (\<lambda>c. co_key c = k) columns of
             None \<Rightarrow> None
           | Some c \<Rightarrow>
               if co_sortable c = Some False then None
               else Some (case co_sortBy c of Some f \<Rightarrow> f | None \<Rightarrow> field k)))"

definition selectableRows :: "('r \<Rightarrow> bool) option \<Rightarrow> 'r list \<Rightarrow> 'r list" where
  "selectableRows selectable rows = filter (\<lambda>r. case selectable of Some f \<Rightarrow> f r | None \<Rightarrow> True) rows"

definition allSelected :: "('r \<Rightarrow> string) \<Rightarrow> 'r list \<Rightarrow> string set \<Rightarrow> bool" where
  "allSelected rowKey rows selected = (rows \<noteq> [] \<and> list_all (\<lambda>r. rowKey r \<in> selected) rows)"

definition someSelected :: "('r \<Rightarrow> string) \<Rightarrow> 'r list \<Rightarrow> string set \<Rightarrow> bool" where
  "someSelected rowKey rows selected = list_ex (\<lambda>r. rowKey r \<in> selected) rows"

text \<open>\<open>rows\<close> are the selectable rows.\<close>

definition toggleAll :: "('r \<Rightarrow> string) \<Rightarrow> 'r list \<Rightarrow> string set \<Rightarrow> string set" where
  "toggleAll rowKey rows selected =
     (if allSelected rowKey rows selected then fold (\<lambda>r s. s - {rowKey r}) rows selected
      else fold (\<lambda>r s. insert (rowKey r) s) rows selected)"

definition toggleOne :: "string \<Rightarrow> string set \<Rightarrow> string set" where
  "toggleOne i selected = (if i \<in> selected then selected - {i} else insert i selected)"

definition page_count :: "nat \<Rightarrow> nat \<Rightarrow> nat" where
  "page_count total_rows pageSize = max 1 (nat \<lceil>(of_nat total_rows :: rat) / of_nat pageSize\<rceil>)"

text \<open>The range the pager states and the buttons it enables, on page \<open>p\<close>.\<close>

definition page_from :: "rat \<Rightarrow> nat \<Rightarrow> rat" where
  "page_from p pageSize = (p - 1) * of_nat pageSize + 1"

definition page_to :: "rat \<Rightarrow> nat \<Rightarrow> nat \<Rightarrow> rat" where
  "page_to p pageSize total_rows = min (of_nat total_rows) (p * of_nat pageSize)"

definition can_previous :: "rat \<Rightarrow> bool" where
  "can_previous p = (\<not> p \<le> 1)"

definition can_next :: "rat \<Rightarrow> nat \<Rightarrow> nat \<Rightarrow> bool" where
  "can_next p pageSize total_rows = (\<not> of_nat (page_count total_rows pageSize) \<le> p)"

text \<open>\<^verbatim>\<open>xs.slice(a, b)\<close>: the bounds are truncated, negative ones count from the end.\<close>

fun slice_index :: "nat \<Rightarrow> jsnum \<Rightarrow> nat" where
  "slice_index len NaN = 0"
| "slice_index len NegInf = 0"
| "slice_index len PosInf = len"
| "slice_index len (Fin r) =
     (let i = (if r < 0 then \<lceil>r\<rceil> else \<lfloor>r\<rfloor>) in nat (if i < 0 then max 0 (int len + i) else min (int len) i))"

definition js_slice :: "jsnum \<Rightarrow> jsnum \<Rightarrow> 'a list \<Rightarrow> 'a list" where
  "js_slice a b xs = (let i = slice_index (length xs) a; j = slice_index (length xs) b in take (j - i) (drop i xs))"

fun scale_num :: "nat \<Rightarrow> rat \<Rightarrow> jsnum \<Rightarrow> jsnum" where
  "scale_num k off (Fin p) = Fin ((p - off) * of_nat k)"
| "scale_num k off x = x"

text \<open>The rows of a page, \<^verbatim>\<open>rows.slice((page - 1) * size, page * size)\<close>.\<close>

definition page_rows :: "nat \<Rightarrow> jsnum \<Rightarrow> 'a list \<Rightarrow> 'a list" where
  "page_rows pageSize page rows = js_slice (scale_num pageSize 1 page) (scale_num pageSize 0 page) rows"

lemma toggleAll_ok:
  "toggleAll rowKey rows sel = (if allSelected rowKey rows sel then sel - rowKey ` set rows else sel \<union> rowKey ` set rows)"
proof -
  have "fold (\<lambda>r s. s - {rowKey r}) rs s = s - rowKey ` set rs" "fold (\<lambda>r s. insert (rowKey r) s) rs s = s \<union> rowKey ` set rs" for rs s
    by (induction rs arbitrary: s) auto
  then show ?thesis by (simp add: toggleAll_def)
qed

lemma slice_index_nat: "slice_index len (Fin (of_int (int n))) = min len n"
  by (simp add: nat_eq_iff)

lemma page_rows_nat: "page_rows s (Fin (of_nat (Suc k))) rows = take s (drop (k * s) rows)"
proof -
  have m: "(of_nat (Suc k) - 1) * of_nat s = (of_int (int (k * s)) :: rat)" "(of_nat (Suc k) - 0) * of_nat s = (of_int (int (Suc k * s)) :: rat)"
    by (simp_all add: algebra_simps)
  have "page_rows s (Fin (of_nat (Suc k))) rows =
      js_slice (Fin (of_int (int (k * s)))) (Fin (of_int (int (Suc k * s)))) rows"
    unfolding page_rows_def scale_num.simps m ..
  also have "\<dots> = take (min (length rows) (Suc k * s) - min (length rows) (k * s)) (drop (min (length rows) (k * s)) rows)"
    by (simp only: js_slice_def Let_def slice_index_nat)
  also have "\<dots> = take s (drop (k * s) rows)"
    by (cases "k * s \<le> length rows") (auto simp: min_def take_all_iff)
  finally show ?thesis .
qed

lemma concat_pages: "concat (map (\<lambda>k. take s (drop (k * s) xs)) [0..<m]) = take (m * s) xs"
  by (induction m) (simp_all add: take_append_window add.commute)

lemma page_count_covers:
  assumes "0 < s"
  shows "n \<le> page_count n s * s"
proof -
  have "(of_nat n :: rat) / of_nat s \<le> of_int \<lceil>(of_nat n :: rat) / of_nat s\<rceil>" by simp
  also have "\<dots> \<le> of_nat (page_count n s)" by (simp add: page_count_def)
  finally have "(of_nat n :: rat) \<le> of_nat (page_count n s * s)" using assms by (simp add: pos_divide_le_eq)
  then show ?thesis by linarith
qed

text \<open>Paging loses no row and shows none twice: the pages from the first to the last the pager counts list the rows of the
  list exactly once, in order; the next button is enabled on every page but the last and the previous one on every page
  but the first.\<close>

theorem pages_partition_rows:
  assumes "0 < s"
  shows "concat (map (\<lambda>p. page_rows s (Fin (of_nat p)) rows) [1..<Suc (page_count (length rows) s)]) = rows \<and>
    (1 \<le> p \<and> p \<le> page_count (length rows) s \<longrightarrow>
       can_next (of_nat p) s (length rows) = (p < page_count (length rows) s) \<and> can_previous (of_nat p) = (1 < p))"
proof -
  let ?m = "page_count (length rows) s"
  have "map (\<lambda>p. page_rows s (Fin (of_nat p)) rows) [1..<Suc ?m] = map (\<lambda>k. take s (drop (k * s) rows)) [0..<?m]"
    by (rule nth_equalityI) (simp_all add: page_rows_nat del: of_nat_Suc upt_Suc)
  then have "concat (map (\<lambda>p. page_rows s (Fin (of_nat p)) rows) [1..<Suc ?m]) = rows"
    using concat_pages [of s rows ?m] page_count_covers [OF assms, of "length rows"] by simp
  moreover have "can_next (of_nat p) s (length rows) = (p < ?m)" "can_previous (of_nat p) = (1 < p)"
    by (simp_all add: can_next_def can_previous_def not_le)
  ultimately show ?thesis by simp
qed

theorem pages_partition_rows_witness:
  "concat (map (\<lambda>p. page_rows 25 (Fin (of_nat p)) [0..<60]) [1..<Suc (page_count (length [0..<60]) 25)]) = [0..<60] \<and>
   can_next (of_nat 2) 25 (length [0..<60])"
proof -
  have "\<lceil>(12 / 5 :: rat)\<rceil> = 3" by (rule ceiling_unique) simp_all
  then have "page_count (length [0..<60]) 25 = 3" by (simp add: page_count_def)
  then show ?thesis using pages_partition_rows [of 25 "[0..<60]" 2] by (simp del: upt_Suc)
qed

end
