(* ===== verification/Fleet_Charts.thy ===== *)
theory Fleet_Charts
  imports Chart_Axis Row_Order Infra_Hooks
begin

text \<open>
  Charts and the screens made of them: the data and the readout of \<^verbatim>\<open>components/TimeSeriesChart.tsx\<close>, the usage panel
  (\<^verbatim>\<open>components/SessionUsagePanel.tsx\<close>, \<^verbatim>\<open>Meter.tsx\<close>) and the telemetry page (\<^verbatim>\<open>features/admin/Monitoring.tsx\<close>). The drawing
  library is not part of the program.
\<close>

section \<open>Chart data\<close>

record Series =
  sr_labels :: "(string \<times> string) list"
  sr_uuid :: "string option"
  sr_points :: "(rat \<times> rat option) list"

definition CHART_COLORS :: "string list" where
  "CHART_COLORS = [''#38bdf8'', ''#f59e0b'', ''#34d399'', ''#f472b6'', ''#a78bfa'', ''#fb7185'', ''#22d3ee'', ''#facc15'']"

definition colorForIndex :: "nat \<Rightarrow> string" where
  "colorForIndex i = CHART_COLORS ! (i mod length CHART_COLORS)"

text \<open>The shared time axis, and a column per series: the value at each time, null where the series has no point.\<close>

definition chart_xs :: "Series list \<Rightarrow> rat list" where
  "chart_xs series = sort (uniq (concat (map (\<lambda>s. map fst (sr_points s)) series)))"

definition put_point :: "rat list \<Rightarrow> rat \<times> rat option \<Rightarrow> rat option list \<Rightarrow> rat option list" where
  "put_point xs p col = (let i = index_of xs (fst p) in if 0 \<le> i then col[nat i := snd p] else col)"

definition chart_column :: "rat list \<Rightarrow> Series \<Rightarrow> rat option list" where
  "chart_column xs s = fold (put_point xs) (sr_points s) (replicate (length xs) None)"

definition chart_data :: "Series list \<Rightarrow> rat list \<times> rat option list list" where
  "chart_data series = (let xs = chart_xs series in (xs, map (chart_column xs) series))"

text \<open>The hover readout at index \<open>i\<close>: a row per series with a value there; where it is placed, in pixels.\<close>

definition tip_rows :: "string \<Rightarrow> string list \<Rightarrow> rat option list list \<Rightarrow> nat \<Rightarrow> (string \<times> string) list" where
  "tip_rows unit labels cols i =
     concat (map (\<lambda>(k, col). case col ! i of None \<Rightarrow> [] | Some v \<Rightarrow> [(if k < length labels then labels ! k else [], formatValue (Some (Fin v)) unit)])
       (enumerate 0 cols))"

definition tip_left :: "rat \<Rightarrow> rat \<Rightarrow> rat \<Rightarrow> rat" where
  "tip_left left w clientWidth = max 0 (if clientWidth < left + w + 16 then left - w - 12 else left + 12)"

definition tip_top :: "rat option \<Rightarrow> rat \<Rightarrow> rat \<Rightarrow> rat" where
  "tip_top y h clientHeight = max 0 (min (opt_else y 0 - 8) (clientHeight - h - 4))"

section \<open>The usage panel\<close>

record UsageLimits =
  ul_isGpu :: bool
  ul_cpu :: "rat option"
  ul_mem_gb :: "rat option"
  ul_gpu_mem_mb :: "rat option"
  ul_gpu_cores :: "rat option"

record UsageNow =
  un_cpu_cores :: "rat option"
  un_mem_bytes :: "rat option"
  un_gpu_core_pct :: "rat option"
  un_vram_bytes :: "rat option"

type_synonym points = "(rat \<times> rat option) list"

record UsageSeries =
  us_cpu_cores :: points
  us_mem_mib :: points
  us_vram_mib :: points
  us_gpu_core_pct :: points

text \<open>A sample of the node agent: time, cores, bytes.\<close>

type_synonym sample = "rat \<times> rat \<times> rat"

definition pctOf :: "rat option \<Rightarrow> rat option \<Rightarrow> rat option" where
  "pctOf v limit =
     (case (v, limit) of (Some x, Some l) \<Rightarrow> if l \<noteq> 0 then Some (min 100 (x / l * 100)) else None | _ \<Rightarrow> None)"

definition meter_variant :: "rat option \<Rightarrow> string" where
  "meter_variant pct = (case pct of None \<Rightarrow> ''primary'' | Some p \<Rightarrow> if 90 \<le> p then ''danger'' else if 70 \<le> p then ''warn'' else ''primary'')"

definition meter_value :: "rat \<Rightarrow> rat" where
  "meter_value v = max 0 (min 100 v)"

definition lastOf :: "points \<Rightarrow> rat option" where
  "lastOf pts = Option.bind (find (\<lambda>p. snd p \<noteq> None) (rev pts)) snd"

definition liveCpu :: "sample list option \<Rightarrow> points" where
  "liveCpu live = map (\<lambda>(t, c, m). (t, Some c)) (opt_else live [])"

definition liveMem :: "sample list option \<Rightarrow> points" where
  "liveMem live = map (\<lambda>(t, c, m). (t, Some (m / 1048576))) (opt_else live [])"

definition hasLive :: "sample list option \<Rightarrow> bool" where
  "hasLive live = (1 < length (opt_else live []))"

definition zeroFilled :: "UsageSeries option \<Rightarrow> points option \<Rightarrow> points" where
  "zeroFilled m pts =
     (case pts of
        Some (p # ps) \<Rightarrow> map (\<lambda>(t, v). (t, Some (opt_else v 0))) (p # ps)
      | _ \<Rightarrow> map (\<lambda>(t, v). (t, Some 0)) (case m of Some u \<Rightarrow> us_cpu_cores u | None \<Rightarrow> []))"

definition series_last :: "(UsageSeries \<Rightarrow> points) \<Rightarrow> UsageSeries option \<Rightarrow> rat option" where
  "series_last f m = Option.bind m (\<lambda>u. lastOf (f u))"

definition usage_field :: "(UsageNow \<Rightarrow> rat option) \<Rightarrow> UsageNow option \<Rightarrow> rat option" where
  "usage_field f usage = Option.bind usage f"

definition cpuNow :: "sample list option \<Rightarrow> UsageNow option \<Rightarrow> UsageSeries option \<Rightarrow> rat" where
  "cpuNow live usage m =
     (if hasLive live then opt_else (lastOf (liveCpu live)) 0
      else opt_else (or_else (usage_field un_cpu_cores usage) (series_last us_cpu_cores m)) 0)"

definition memGib :: "sample list option \<Rightarrow> UsageNow option \<Rightarrow> UsageSeries option \<Rightarrow> rat" where
  "memGib live usage m =
     (if hasLive live then opt_else (lastOf (liveMem live)) 0 / 1024
      else case usage_field un_mem_bytes usage of
             Some b \<Rightarrow> b / 2 ^ 30
           | None \<Rightarrow> (case series_last us_mem_mib m of Some v \<Rightarrow> v / 1024 | None \<Rightarrow> 0))"

definition vramGib :: "UsageNow option \<Rightarrow> UsageSeries option \<Rightarrow> rat" where
  "vramGib usage m =
     (case usage_field un_vram_bytes usage of Some b \<Rightarrow> b / 2 ^ 30 | None \<Rightarrow> opt_else (series_last us_vram_mib m) 0 / 1024)"

definition corePct :: "UsageNow option \<Rightarrow> UsageSeries option \<Rightarrow> rat" where
  "corePct usage m = opt_else (or_else (usage_field un_gpu_core_pct usage) (series_last us_gpu_core_pct m)) 0"

section \<open>The telemetry page\<close>

record MonNode =
  mn_id :: string
  mn_hostname :: string
  mn_device_count :: "int option"

record GpuInventoryRow =
  gi_id :: string
  gi_uuid :: "string option"
  gi_node :: "string option"

definition mon_ranges :: "string list" where
  "mon_ranges = map range_str [R15m, R1h, R6h, R24h, R7d]"

definition mon_tab :: "params \<Rightarrow> string" where
  "mon_tab ps = (if usp_get ''tab'' ps = Some ''host'' then ''host'' else ''gpu'')"

definition mon_range :: "params \<Rightarrow> string" where
  "mon_range ps = (case usp_get ''range'' ps of Some r \<Rightarrow> if r \<in> set mon_ranges then r else ''1h'' | None \<Rightarrow> ''1h'')"

definition mon_node :: "params \<Rightarrow> string option" where
  "mon_node ps = nonempty (usp_get ''node'' ps)"

definition mon_gpu :: "params \<Rightarrow> string option" where
  "mon_gpu ps = nonempty (usp_get ''gpu'' ps)"

text \<open>\<^verbatim>\<open>set(patch)\<close>: an empty value deletes its parameter.\<close>

definition mon_set :: "changes \<Rightarrow> params \<Rightarrow> params" where
  "mon_set patch prev = fold change_one patch prev"

text \<open>\<open>data\<close> is the loaded list of nodes, \<open>None\<close> until it arrives.\<close>

definition mon_nodes :: "string \<Rightarrow> MonNode list option \<Rightarrow> MonNode list" where
  "mon_nodes tab data =
     (let all_nodes = opt_else data [] in
      if tab = ''gpu'' then filter (\<lambda>n. 0 < opt_else (mn_device_count n) 0) all_nodes else all_nodes)"

text \<open>The effect on \<^verbatim>\<open>[tab, nodes.length]\<close>, which also runs when the page opens.\<close>

definition drop_unknown_node :: "MonNode list option \<Rightarrow> params \<Rightarrow> params" where
  "drop_unknown_node data ps =
     (case mon_node ps of
        None \<Rightarrow> ps
      | Some n \<Rightarrow>
          if \<not> list_ex (\<lambda>x. mn_hostname x = n) (mon_nodes (mon_tab ps) data)
          then mon_set [(''node'', None), (''gpu'', None)] ps else ps)"

definition pick_node :: "string \<Rightarrow> params \<Rightarrow> params" where
  "pick_node v = mon_set [(''node'', nonempty (Some v)), (''gpu'', None)]"

definition pick_gpu :: "string \<Rightarrow> params \<Rightarrow> params" where
  "pick_gpu v = mon_set [(''gpu'', nonempty (Some v))]"

definition pick_range :: "string \<Rightarrow> params \<Rightarrow> params" where
  "pick_range r = mon_set [(''range'', if r = ''1h'' then None else Some r)]"

definition pick_tab :: "string \<Rightarrow> params \<Rightarrow> params" where
  "pick_tab v = mon_set [(''tab'', if v = ''gpu'' then None else Some v)]"

definition cardsOnNode :: "params \<Rightarrow> GpuInventoryRow list \<Rightarrow> GpuInventoryRow list" where
  "cardsOnNode ps inventory = filter (\<lambda>d. mon_node ps = None \<or> gi_node d = mon_node ps) inventory"

definition visibleCards :: "params \<Rightarrow> GpuInventoryRow list \<Rightarrow> GpuInventoryRow list" where
  "visibleCards ps inventory = filter (\<lambda>d. mon_gpu ps = None \<or> gi_uuid d = mon_gpu ps) (cardsOnNode ps inventory)"

text \<open>Colours by identity: cards in inventory order, nodes in the order of their names; a later entry of a key wins.\<close>

definition gpuColors :: "GpuInventoryRow list \<Rightarrow> string \<Rightarrow> string option" where
  "gpuColors inventory =
     map_of (rev (concat (map (\<lambda>(i, d). case nonempty (gi_uuid d) of None \<Rightarrow> [] | Some u \<Rightarrow> [(u, colorForIndex i)]) (enumerate 0 inventory))))"

definition nodeColors :: "(string \<Rightarrow> string \<Rightarrow> int) \<Rightarrow> MonNode list \<Rightarrow> string \<Rightarrow> string option" where
  "nodeColors coll nodes =
     map_of (rev (map (\<lambda>(i, n). (mn_hostname n, colorForIndex i))
       (enumerate 0 (js_sort (\<lambda>a b. coll (mn_hostname a) (mn_hostname b) \<le> 0) nodes))))"

definition series_color :: "(string \<Rightarrow> string option) \<Rightarrow> (string \<Rightarrow> string option) \<Rightarrow> string \<Rightarrow> Series \<Rightarrow> nat \<Rightarrow> string" where
  "series_color gcol ncol tab s i =
     (if tab = ''gpu''
      then str_or (Option.bind (nonempty (sr_uuid s)) (\<lambda>u. nonempty (gcol u))) (colorForIndex i)
      else str_or (ncol (str_or (map_of (sr_labels s) ''node'') [])) (colorForIndex i))"

section \<open>Alignment\<close>

lemma index_of_at: "0 \<le> index_of xs y \<Longrightarrow> nat (index_of xs y) < length xs \<and> xs ! nat (index_of xs y) = y"
proof (induction xs)
  case (Cons x xs)
  show ?case
  proof (cases "x = y")
    case False
    then have "0 \<le> index_of xs y" using Cons.prems by (simp add: Let_def split: if_splits)
    then show ?thesis using Cons.IH False by (simp add: Let_def nat_add_distrib)
  qed simp
qed simp

lemma index_of_mem: "y \<in> set xs \<Longrightarrow> 0 \<le> index_of xs y"
  by (induction xs) (auto simp: Let_def)

lemma index_of_distinct: "distinct xs \<Longrightarrow> i < length xs \<Longrightarrow> index_of xs (xs ! i) = int i"
  using index_of_at [of xs "xs ! i"] index_of_mem [of "xs ! i" xs] by (metis distinct_Ex1 int_nat_eq nth_mem)

lemma chart_column_step:
  "fold (put_point xs) (pts @ [p]) col = put_point xs p (fold (put_point xs) pts col)"
  by simp

lemma chart_column_spec:
  assumes "distinct xs"
  shows "length (chart_column xs s) = length xs \<and>
    (\<forall>i < length xs. chart_column xs s ! i = (case map_of (rev (sr_points s)) (xs ! i) of None \<Rightarrow> None | Some v \<Rightarrow> v))"
proof -
  have "length (fold (put_point xs) pts (replicate (length xs) None)) = length xs \<and>
      (\<forall>i < length xs. fold (put_point xs) pts (replicate (length xs) None) ! i =
         (case map_of (rev pts) (xs ! i) of None \<Rightarrow> None | Some v \<Rightarrow> v))" for pts
  proof (induction pts rule: rev_induct)
    case (snoc p pts)
    define col where "col = fold (put_point xs) pts (replicate (length xs) None)"
    have ih: "length col = length xs" "\<And>i. i < length xs \<Longrightarrow> col ! i = (case map_of (rev pts) (xs ! i) of None \<Rightarrow> None | Some v \<Rightarrow> v)"
      using snoc by (simp_all add: col_def)
    have "put_point xs p col ! i = (case map_of (p # rev pts) (xs ! i) of None \<Rightarrow> None | Some v \<Rightarrow> v)" if "i < length xs" for i
    proof (cases "xs ! i = fst p")
      case True
      then have "index_of xs (fst p) = int i" using index_of_distinct [OF assms that] by simp
      then show ?thesis using True that ih(1) by (simp add: put_point_def Let_def)
    next
      case False
      have "nat (index_of xs (fst p)) \<noteq> i" if "0 \<le> index_of xs (fst p)" using index_of_at [OF that] False by auto
      then show ?thesis using False ih(2) [OF that] ih(1) by (cases p) (simp add: put_point_def Let_def)
    qed
    moreover have "length (put_point xs p col) = length xs" using ih(1) by (simp add: put_point_def Let_def)
    ultimately show ?case unfolding chart_column_step col_def [symmetric] by simp
  qed simp
  then show ?thesis by (simp add: chart_column_def)
qed

text \<open>A chart draws its series as they are. The time axis lists the times of all points once, in order; every series has a
  value for every time of the axis, which is the value of its last point at that time and null where it has none.\<close>

theorem chart_data_aligned:
  "let (xs, cols) = chart_data series in
     sorted xs \<and> distinct xs \<and> set xs = (\<Union>s \<in> set series. fst ` set (sr_points s)) \<and> length cols = length series \<and>
     list_all2 (\<lambda>s col. length col = length xs \<and>
       list_all (\<lambda>i. col ! i = (case map_of (rev (sr_points s)) (xs ! i) of None \<Rightarrow> None | Some v \<Rightarrow> v)) [0..<length xs]) series cols"
proof -
  have d: "distinct (chart_xs series)" by (simp add: chart_xs_def uniq_def)
  have "set (chart_xs series) = (\<Union>s \<in> set series. fst ` set (sr_points s))" by (auto simp: chart_xs_def uniq_def)
  moreover have "sorted (chart_xs series)" by (simp add: chart_xs_def)
  ultimately show ?thesis
    using d chart_column_spec [OF d] by (simp add: chart_data_def Let_def list_all2_conv_all_nth list_all_iff)
qed

text \<open>The readout stays in the panel as long as it is not wider than the panel.\<close>

lemma tip_in_panel: "0 \<le> left \<Longrightarrow> left \<le> cw \<Longrightarrow> w \<le> cw \<Longrightarrow> 0 \<le> tip_left left w cw \<and> tip_left left w cw + w \<le> cw"
  by (auto simp: tip_left_def max_def)

section \<open>Filters of the telemetry page\<close>

lemma mon_set_node: "mon_node (mon_set [(''node'', None), (''gpu'', None)] ps) = None" "mon_gpu (mon_set [(''node'', None), (''gpu'', None)] ps) = None"
  by (simp_all only: mon_set_def mon_node_def mon_gpu_def get_change_fold) simp_all

text \<open>The node filter of the telemetry page. A node that the current tab does not list is dropped together with the card
  filter and one it lists is kept; but the rule also runs before the nodes have arrived, when it drops every node, so an
  address with a node filter opens unfiltered.\<close>

theorem node_filter_effect:
  "mon_node (drop_unknown_node data ps) =
     (case mon_node ps of
        None \<Rightarrow> None
      | Some n \<Rightarrow> if n \<in> mn_hostname ` set (mon_nodes (mon_tab ps) data) then Some n else None) \<and>
   mon_node (drop_unknown_node None ps) = None \<and>
   (case mon_node ps of None \<Rightarrow> True | Some _ \<Rightarrow> mon_gpu (drop_unknown_node None ps) = None)"
  by (auto simp: drop_unknown_node_def mon_set_node list_ex_iff mon_nodes_def image_iff split: option.splits)

text \<open>Picking a node forgets the picked card, so the cards shown are on the node.\<close>

lemma pick_node_cards:
  assumes "n \<noteq> []" and "d \<in> set (visibleCards (pick_node n ps) inventory)"
  shows "gi_node d = Some n"
proof -
  have "mon_node (pick_node n ps) = Some n"
    using assms(1) by (simp only: pick_node_def mon_set_def mon_node_def get_change_fold) simp
  then show ?thesis using assms(2) by (simp add: visibleCards_def cardsOnNode_def)
qed

text \<open>The meter is a share between 0 and 100, and the reading is the newest value the history has.\<close>

lemma meter_value_bounds: "0 \<le> meter_value v \<and> meter_value v \<le> 100"
  by (simp add: meter_value_def)

lemma lastOf_newest: "lastOf [] = None" "lastOf (pts @ [(t, Some v)]) = Some v" "lastOf (pts @ [(t, None)]) = lastOf pts"
  by (simp_all add: lastOf_def)

end
