(* ===== verification/Ui_Controls.thy ===== *)
theory Ui_Controls
  imports Rbac Js_Number
begin

text \<open>
  The controls every screen shares, as machines over what the user does: the confirmation and the prompt dialog
  (\<^verbatim>\<open>components/ConfirmDialog.tsx\<close>, \<^verbatim>\<open>PromptDialog.tsx\<close>), the guard of unsaved input (\<^verbatim>\<open>hooks/useUnsavedGuard.ts\<close>),
  the list box (\<^verbatim>\<open>components/SelectMenu.tsx\<close>, \<^verbatim>\<open>Select.tsx\<close>), the placement of menus (\<^verbatim>\<open>hooks/useAnchoredMenu.ts\<close>) and
  the copy button (\<^verbatim>\<open>components/CopyButton.tsx\<close>).
\<close>

section \<open>Confirmation\<close>

record confirm_options =
  cf_consequences :: "string list"
  cf_confirmText :: "string option"

text \<open>The provider's state: the open question with the promise it answers, the typed text, and the answers given, each
  with the question it was for and the text typed at that moment. A new question replaces an open one.\<close>

record confirm_dialog =
  cd_state :: "(confirm_options \<times> nat) option"
  cd_typed :: string
  cd_asked :: nat
  cd_answers :: "(nat \<times> confirm_options \<times> string \<times> bool) list"

definition needsTyping :: "confirm_options \<Rightarrow> bool" where
  "needsTyping opt = str_truthy (cf_confirmText opt)"

definition canConfirm :: "confirm_options \<Rightarrow> string \<Rightarrow> bool" where
  "canConfirm opt typed = (\<not> needsTyping opt \<or> Some (trim typed) = cf_confirmText opt)"

definition ask :: "confirm_options \<Rightarrow> confirm_dialog \<Rightarrow> confirm_dialog" where
  "ask opt d = d\<lparr>cd_typed := [], cd_state := Some (opt, cd_asked d), cd_asked := Suc (cd_asked d)\<rparr>"

definition close_confirm :: "bool \<Rightarrow> confirm_dialog \<Rightarrow> confirm_dialog" where
  "close_confirm ok d =
     (case cd_state d of
        None \<Rightarrow> d
      | Some (opt, i) \<Rightarrow> d\<lparr>cd_state := None, cd_answers := cd_answers d @ [(i, opt, cd_typed d, ok)]\<rparr>)"

datatype confirm_event = Ask confirm_options | TypeText string | PressEnter | PressEscape | ClickScrim | ClickCancel | ClickConfirm

fun confirm_step :: "confirm_dialog \<Rightarrow> confirm_event \<Rightarrow> confirm_dialog" where
  "confirm_step d (Ask opt) = ask opt d"
| "confirm_step d (TypeText s) =
     (case cd_state d of Some (opt, _) \<Rightarrow> if needsTyping opt then d\<lparr>cd_typed := s\<rparr> else d | None \<Rightarrow> d)"
| "confirm_step d PressEnter =
     (case cd_state d of
        Some (opt, _) \<Rightarrow> if needsTyping opt \<and> canConfirm opt (cd_typed d) then close_confirm True d else d
      | None \<Rightarrow> d)"
| "confirm_step d ClickConfirm =
     (case cd_state d of Some (opt, _) \<Rightarrow> if canConfirm opt (cd_typed d) then close_confirm True d else d | None \<Rightarrow> d)"
| "confirm_step d PressEscape = close_confirm False d"
| "confirm_step d ClickScrim = close_confirm False d"
| "confirm_step d ClickCancel = close_confirm False d"

definition confirm_init :: confirm_dialog where
  "confirm_init = \<lparr>cd_state = None, cd_typed = [], cd_asked = 0, cd_answers = []\<rparr>"

definition confirm_moves :: "confirm_dialog \<Rightarrow> confirm_dialog \<Rightarrow> bool" where
  "confirm_moves d d' = (\<exists>e. d' = confirm_step d e)"

lemma confirm_reach: "reach s confirm_moves d \<Longrightarrow> reach s confirm_moves (confirm_step d e)"
  by (rule reach_step) (auto simp: confirm_moves_def)

text \<open>Answers are given once, to questions that were asked and are no longer open; a yes was typed out when it had to be.\<close>

definition confirm_inv :: "confirm_dialog \<Rightarrow> bool" where
  "confirm_inv d =
     (distinct (map fst (cd_answers d)) \<and> list_all (\<lambda>(i, opt, typed, ok). i < cd_asked d \<and> (ok \<longrightarrow> canConfirm opt typed)) (cd_answers d) \<and>
      (case cd_state d of None \<Rightarrow> True | Some (_, i) \<Rightarrow> i < cd_asked d \<and> i \<notin> fst ` set (cd_answers d)))"

lemma close_confirm_inv:
  assumes "confirm_inv d" and "\<And>opt i. cd_state d = Some (opt, i) \<Longrightarrow> ok \<Longrightarrow> canConfirm opt (cd_typed d)"
  shows "confirm_inv (close_confirm ok d)"
  using assms by (auto simp: confirm_inv_def close_confirm_def split: option.splits)

lemma confirm_inv_step:
  assumes "confirm_inv d"
  shows "confirm_inv (confirm_step d e)"
proof (cases e)
  case (Ask opt)
  have "i \<noteq> cd_asked d" if "i \<in> fst ` set (cd_answers d)" for i
    using assms that by (auto simp: confirm_inv_def list_all_iff)
  then have "cd_asked d \<notin> fst ` set (cd_answers d)" by blast
  then show ?thesis using assms Ask by (auto simp: confirm_inv_def ask_def list_all_iff)
qed (use assms in \<open>auto intro!: close_confirm_inv split: option.splits\<close>, auto simp: confirm_inv_def)

interpretation confirm: inductive_invariant confirm_init confirm_moves confirm_inv
  by unfold_locales (auto simp: confirm_moves_def confirm_inv_step, simp add: confirm_inv_def confirm_init_def)

section \<open>Prompt\<close>

record prompt_options =
  po_defaultValue :: "string option"
  po_required :: bool

record prompt_dialog =
  pd_state :: "(prompt_options \<times> nat) option"
  pd_value :: string
  pd_asked :: nat
  pd_answers :: "(nat \<times> prompt_options \<times> string option) list"

definition canSubmit :: "prompt_options \<Rightarrow> string \<Rightarrow> bool" where
  "canSubmit opt v = (\<not> po_required opt \<or> 0 < length (trim v))"

definition prompt :: "prompt_options \<Rightarrow> prompt_dialog \<Rightarrow> prompt_dialog" where
  "prompt opt d =
     d\<lparr>pd_value := str_or (po_defaultValue opt) [], pd_state := Some (opt, pd_asked d), pd_asked := Suc (pd_asked d)\<rparr>"

definition close_prompt :: "string option \<Rightarrow> prompt_dialog \<Rightarrow> prompt_dialog" where
  "close_prompt v d =
     (case pd_state d of
        None \<Rightarrow> d
      | Some (opt, i) \<Rightarrow> d\<lparr>pd_state := None, pd_answers := pd_answers d @ [(i, opt, v)]\<rparr>)"

datatype prompt_event = Prompt prompt_options | EnterValue string | Submit | Dismiss

text \<open>\<open>Submit\<close> is the button or the Enter key, \<open>Dismiss\<close> the cancel button, Escape or a press on the scrim.\<close>

fun prompt_step :: "prompt_dialog \<Rightarrow> prompt_event \<Rightarrow> prompt_dialog" where
  "prompt_step d (Prompt opt) = prompt opt d"
| "prompt_step d (EnterValue s) = (if pd_state d = None then d else d\<lparr>pd_value := s\<rparr>)"
| "prompt_step d Submit =
     (case pd_state d of Some (opt, _) \<Rightarrow> if canSubmit opt (pd_value d) then close_prompt (Some (pd_value d)) d else d | None \<Rightarrow> d)"
| "prompt_step d Dismiss = close_prompt None d"

definition prompt_init :: prompt_dialog where
  "prompt_init = \<lparr>pd_state = None, pd_value = [], pd_asked = 0, pd_answers = []\<rparr>"

definition prompt_moves :: "prompt_dialog \<Rightarrow> prompt_dialog \<Rightarrow> bool" where
  "prompt_moves d d' = (\<exists>e. d' = prompt_step d e)"

definition prompt_inv :: "prompt_dialog \<Rightarrow> bool" where
  "prompt_inv d =
     (distinct (map fst (pd_answers d)) \<and>
      list_all (\<lambda>(i, opt, v). i < pd_asked d \<and> (case v of None \<Rightarrow> True | Some s \<Rightarrow> canSubmit opt s)) (pd_answers d) \<and>
      (case pd_state d of None \<Rightarrow> True | Some (_, i) \<Rightarrow> i < pd_asked d \<and> i \<notin> fst ` set (pd_answers d)))"

lemma prompt_inv_step:
  assumes "prompt_inv d"
  shows "prompt_inv (prompt_step d e)"
proof (cases e)
  case (Prompt opt)
  have "i \<noteq> pd_asked d" if "i \<in> fst ` set (pd_answers d)" for i
    using assms that by (auto simp: prompt_inv_def list_all_iff)
  then have "pd_asked d \<notin> fst ` set (pd_answers d)" by blast
  then show ?thesis using assms Prompt by (auto simp: prompt_inv_def prompt_def list_all_iff)
qed (use assms in \<open>auto simp: prompt_inv_def close_prompt_def split: option.splits\<close>)

interpretation prompt: inductive_invariant prompt_init prompt_moves prompt_inv
  by unfold_locales (auto simp: prompt_moves_def prompt_inv_step, simp add: prompt_inv_def prompt_init_def)

section \<open>Unsaved input\<close>

text \<open>The blocker of \<^verbatim>\<open>useUnsavedGuard(dirty, dirtyNow)\<close>: it asks before the pathname changes while there is unsaved input.\<close>

definition unsaved_blocks :: "bool \<Rightarrow> bool option \<Rightarrow> string \<Rightarrow> string \<Rightarrow> bool" where
  "unsaved_blocks dirty dirtyNow from to = (opt_else dirtyNow dirty \<and> from \<noteq> to)"

text \<open>\<^verbatim>\<open>useFormGuard(busy)\<close>: any input inside the form marks it dirty until it is cleared.\<close>

record form_guard =
  fg_dirty :: bool
  fg_busy :: bool

definition fg_blocks :: "form_guard \<Rightarrow> string \<Rightarrow> string \<Rightarrow> bool" where
  "fg_blocks g from to = unsaved_blocks False (Some (fg_dirty g \<and> \<not> fg_busy g)) from to"

definition fg_warns_on_close :: "form_guard \<Rightarrow> bool" where
  "fg_warns_on_close g = (fg_dirty g \<and> \<not> fg_busy g)"

datatype guard_event = Input | ClearGuard | SetBusy bool

fun guard_step :: "guard_event \<Rightarrow> form_guard \<Rightarrow> form_guard" where
  "guard_step Input g = g\<lparr>fg_dirty := True\<rparr>"
| "guard_step ClearGuard g = g\<lparr>fg_dirty := False\<rparr>"
| "guard_step (SetBusy b) g = g\<lparr>fg_busy := b\<rparr>"

definition guard_run :: "guard_event list \<Rightarrow> form_guard" where
  "guard_run es = fold guard_step es \<lparr>fg_dirty = False, fg_busy = False\<rparr>"

text \<open>A navigation and the user's answer when asked: whether the page is left.\<close>

definition navigate_away :: "form_guard \<Rightarrow> string \<Rightarrow> string \<Rightarrow> bool \<Rightarrow> bool" where
  "navigate_away g from to agreed = (if fg_blocks g from to then agreed else True)"

text \<open>What the guard is for: input after the last clearing, and no submission under way.\<close>

definition unsaved :: "guard_event list \<Rightarrow> bool" where
  "unsaved es = (\<exists>before after. es = before @ Input # after \<and> ClearGuard \<notin> set after)"

definition submitting :: "guard_event list \<Rightarrow> bool" where
  "submitting es = (\<exists>before after. es = before @ SetBusy True # after \<and> SetBusy False \<notin> set after)"

lemma unsaved_snoc: "unsaved (es @ [e]) \<longleftrightarrow> e = Input \<or> e \<noteq> ClearGuard \<and> unsaved es"
proof
  assume "unsaved (es @ [e])"
  then obtain before after where *: "es @ [e] = before @ Input # after" "ClearGuard \<notin> set after" unfolding unsaved_def by blast
  then show "e = Input \<or> e \<noteq> ClearGuard \<and> unsaved es" by (cases after rule: rev_cases) (auto simp: unsaved_def)
next
  assume "e = Input \<or> e \<noteq> ClearGuard \<and> unsaved es"
  then show "unsaved (es @ [e])"
  proof
    assume "e = Input"
    then show ?thesis unfolding unsaved_def by (intro exI [of _ es] exI [of _ "[]"]) simp
  next
    assume e: "e \<noteq> ClearGuard \<and> unsaved es"
    then obtain before after where "es = before @ Input # after" "ClearGuard \<notin> set after" unfolding unsaved_def by blast
    then show ?thesis unfolding unsaved_def using e by (intro exI [of _ before] exI [of _ "after @ [e]"]) auto
  qed
qed

lemma submitting_snoc: "submitting (es @ [e]) \<longleftrightarrow> e = SetBusy True \<or> e \<noteq> SetBusy False \<and> submitting es"
proof
  assume "submitting (es @ [e])"
  then obtain before after where *: "es @ [e] = before @ SetBusy True # after" "SetBusy False \<notin> set after"
    unfolding submitting_def by blast
  then show "e = SetBusy True \<or> e \<noteq> SetBusy False \<and> submitting es"
    by (cases after rule: rev_cases) (auto simp: submitting_def)
next
  assume "e = SetBusy True \<or> e \<noteq> SetBusy False \<and> submitting es"
  then show "submitting (es @ [e])"
  proof
    assume "e = SetBusy True"
    then show ?thesis unfolding submitting_def by (intro exI [of _ es] exI [of _ "[]"]) simp
  next
    assume e: "e \<noteq> SetBusy False \<and> submitting es"
    then obtain before after where "es = before @ SetBusy True # after" "SetBusy False \<notin> set after"
      unfolding submitting_def by blast
    then show ?thesis unfolding submitting_def using e by (intro exI [of _ before] exI [of _ "after @ [e]"]) auto
  qed
qed

lemma guard_run_snoc: "guard_run (es @ [e]) = guard_step e (guard_run es)"
  by (simp add: guard_run_def)

lemma guard_run_spec: "guard_run es = \<lparr>fg_dirty = unsaved es, fg_busy = submitting es\<rparr>"
proof (induction es rule: rev_induct)
  case Nil
  then show ?case by (simp add: guard_run_def unsaved_def submitting_def)
next
  case (snoc e es)
  then show ?case by (cases e) (auto simp: guard_run_snoc unsaved_snoc submitting_snoc)
qed

text \<open>C37: No input is lost without asking. After any sequence of edits, clearings and submissions, moving to another page
  leaves the form only if nothing was typed since the last clearing, or a submission is under way, or the user agreed; and
  closing the tab warns exactly when there is such unsaved input.\<close>

theorem form_guard_protects:
  "(navigate_away (guard_run es) from to agreed \<longleftrightarrow> from = to \<or> \<not> unsaved es \<or> submitting es \<or> agreed) \<and>
   (fg_warns_on_close (guard_run es) \<longleftrightarrow> unsaved es \<and> \<not> submitting es)"
  by (auto simp: navigate_away_def fg_blocks_def unsaved_blocks_def fg_warns_on_close_def guard_run_spec)

theorem form_guard_protects_witness:
  "\<not> navigate_away (guard_run [Input, SetBusy True, SetBusy False]) ''/a'' ''/b'' False"
proof -
  have "unsaved [Input, SetBusy True, SetBusy False]"
    unfolding unsaved_def by (intro exI [of _ "[]"] exI [of _ "[SetBusy True, SetBusy False]"]) simp
  moreover have "\<not> submitting [Input, SetBusy True, SetBusy False]"
    using submitting_snoc [of "[Input, SetBusy True]" "SetBusy False"] by simp
  ultimately show ?thesis
    using form_guard_protects [of "[Input, SetBusy True, SetBusy False]" "''/a''" "''/b''" False] by simp
qed

section \<open>List boxes\<close>

record SelectMenuOption =
  so_value :: string
  so_group :: "string option"
  so_disabled :: bool

text \<open>The control with its properties as last rendered, and its own state: open, and the keyboard cursor.\<close>

record select_menu =
  sm_options :: "SelectMenuOption list"
  sm_value :: string
  sm_disabled :: bool
  sm_open :: bool
  sm_active :: int

definition menu_selected :: "select_menu \<Rightarrow> SelectMenuOption option" where
  "menu_selected m =
     (case find (\<lambda>x. so_value x = sm_value m) (sm_options m) of
        Some x \<Rightarrow> Some x | None \<Rightarrow> (case sm_options m of [] \<Rightarrow> None | x # _ \<Rightarrow> Some x))"

text \<open>The effect on \<^verbatim>\<open>[open, options, value]\<close>: while open, the cursor is put on the current value.\<close>

definition cursor_effect :: "select_menu \<Rightarrow> select_menu" where
  "cursor_effect m =
     (if sm_open m then m\<lparr>sm_active := max 0 (index_of (map so_value (sm_options m)) (sm_value m))\<rparr> else m)"

definition set_open :: "bool \<Rightarrow> select_menu \<Rightarrow> select_menu" where
  "set_open b m = (if sm_open m = b then m else cursor_effect (m\<lparr>sm_open := b\<rparr>))"

text \<open>\<^verbatim>\<open>pick(v)\<close> hands the value to the caller and closes the list.\<close>

definition pick :: "string \<Rightarrow> select_menu \<Rightarrow> select_menu \<times> string option" where
  "pick v m = (set_open False m, Some v)"

definition option_at :: "select_menu \<Rightarrow> int \<Rightarrow> SelectMenuOption option" where
  "option_at m i = (if 0 \<le> i \<and> nat i < length (sm_options m) then Some (sm_options m ! nat i) else None)"

definition onTriggerKey :: "string \<Rightarrow> select_menu \<Rightarrow> select_menu \<times> string option" where
  "onTriggerKey k m =
     (if sm_disabled m then (m, None)
      else if \<not> sm_open m \<and> k \<in> {''ArrowDown'', ''Enter'', '' ''} then (set_open True m, None)
      else if \<not> sm_open m then (m, None)
      else if k = ''ArrowDown'' then (m\<lparr>sm_active := min (int (length (sm_options m)) - 1) (sm_active m + 1)\<rparr>, None)
      else if k = ''ArrowUp'' then (m\<lparr>sm_active := max 0 (sm_active m - 1)\<rparr>, None)
      else if k = ''Home'' then (m\<lparr>sm_active := 0\<rparr>, None)
      else if k = ''End'' then (m\<lparr>sm_active := int (length (sm_options m)) - 1\<rparr>, None)
      else if k = ''Enter'' \<or> k = '' ''
      then pick (case option_at m (sm_active m) of Some x \<Rightarrow> so_value x | None \<Rightarrow> []) m
      else if k = ''Tab'' then (set_open False m, None)
      else (m, None))"

datatype select_event =
    TriggerKey string | EscapeKey | PressOutside | ClickTrigger | Hover nat | ClickOption nat
  | Rendered "SelectMenuOption list" string bool

fun select_step :: "select_menu \<Rightarrow> select_event \<Rightarrow> select_menu \<times> string option" where
  "select_step m (TriggerKey k) = onTriggerKey k m"
| "select_step m EscapeKey = (set_open False m, None)"
| "select_step m PressOutside = (set_open False m, None)"
| "select_step m ClickTrigger = (if sm_disabled m then m else set_open (\<not> sm_open m) m, None)"
| "select_step m (Hover i) =
     (if sm_open m \<and> i < length (sm_options m) \<and> \<not> so_disabled (sm_options m ! i) then m\<lparr>sm_active := int i\<rparr> else m, None)"
| "select_step m (ClickOption i) =
     (if sm_open m \<and> i < length (sm_options m) \<and> \<not> so_disabled (sm_options m ! i)
      then pick (so_value (sm_options m ! i)) m else (m, None))"
| "select_step m (Rendered opts v dis) = (cursor_effect (m\<lparr>sm_options := opts, sm_value := v, sm_disabled := dis\<rparr>), None)"

definition select_init :: "SelectMenuOption list \<Rightarrow> string \<Rightarrow> bool \<Rightarrow> select_menu" where
  "select_init opts v dis = \<lparr>sm_options = opts, sm_value = v, sm_disabled = dis, sm_open = False, sm_active = 0\<rparr>"

definition select_moves :: "select_menu \<Rightarrow> select_menu \<Rightarrow> bool" where
  "select_moves m m' = (\<exists>e. m' = fst (select_step m e))"

definition select_inv :: "select_menu \<Rightarrow> bool" where
  "select_inv m = (sm_open m \<and> sm_options m \<noteq> [] \<longrightarrow> 0 \<le> sm_active m \<and> sm_active m < int (length (sm_options m)))"

lemma index_of_less: "index_of xs y < int (length xs)"
  by (induction xs) (auto simp: Let_def)

lemma cursor_effect_inv [simp]: "select_inv (cursor_effect m)"
  using index_of_less [of "map so_value (sm_options m)" "sm_value m"]
  by (auto simp: cursor_effect_def select_inv_def max_def)

lemma set_open_inv: "select_inv m \<Longrightarrow> select_inv (set_open b m)"
  by (simp add: set_open_def)

lemma if_both: "P a \<Longrightarrow> P b \<Longrightarrow> P (if c then a else b)"
  by simp

lemma onTriggerKey_inv:
  assumes "select_inv m"
  shows "select_inv (fst (onTriggerKey k m))"
  unfolding onTriggerKey_def
  by (intro if_both [where P = "\<lambda>r. select_inv (fst r)"])
    (use assms in \<open>simp_all add: pick_def set_open_inv\<close>, auto simp: select_inv_def)

lemma select_inv_step: "select_inv m \<Longrightarrow> select_inv (fst (select_step m e))"
  by (cases e) (auto simp: onTriggerKey_inv set_open_inv pick_def, auto simp: select_inv_def)

interpretation select: inductive_invariant "select_init opts v dis" select_moves select_inv for opts v dis
  by unfold_locales (auto simp: select_moves_def select_inv_step, simp add: select_inv_def select_init_def)

section \<open>Placement of menus\<close>

text \<open>The trigger's rectangle and the viewport, in pixels; the viewport and the menu have whole sizes.\<close>

record rect =
  re_left :: rat
  re_right :: rat
  re_top :: rat
  re_bottom :: rat

record menu_pos =
  mp_top :: "rat option"
  mp_bottom :: "rat option"
  mp_left :: "rat option"
  mp_right :: "rat option"

definition anchored_pos :: "rect \<Rightarrow> int \<Rightarrow> int \<Rightarrow> int \<Rightarrow> bool \<Rightarrow> bool \<Rightarrow> menu_pos" where
  "anchored_pos r innerWidth innerHeight menuWidth up align_left =
     (let gutter = 8; room = of_int innerWidth - of_int menuWidth - gutter in
      \<lparr>mp_top = (if up then None else Some (of_int (js_round (re_bottom r + 6)))),
       mp_bottom = (if up then Some (of_int (js_round (of_int innerHeight - re_top r + 6))) else None),
       mp_left = (if align_left then Some (of_int (js_round (max gutter (min (re_left r) room)))) else None),
       mp_right = (if align_left then None else Some (of_int (js_round (max gutter (min (of_int innerWidth - re_right r) room)))))\<rparr>)"

definition useAnchoredMenu :: "bool \<Rightarrow> rect option \<Rightarrow> int \<Rightarrow> int \<Rightarrow> int \<Rightarrow> bool \<Rightarrow> bool \<Rightarrow> menu_pos option" where
  "useAnchoredMenu is_open anchor innerWidth innerHeight menuWidth up align_left =
     (if is_open then map_option (\<lambda>r. anchored_pos r innerWidth innerHeight menuWidth up align_left) anchor else None)"

text \<open>The list box: upwards when there is little room below and more above, flush right in the right half.\<close>

definition list_pos :: "rect \<Rightarrow> rat \<Rightarrow> rat \<Rightarrow> menu_pos" where
  "list_pos r innerWidth innerHeight =
     (let spaceBelow = innerHeight - re_bottom r;
          openUp = (spaceBelow < 240 \<and> spaceBelow < re_top r);
          alignRight = (innerWidth / 2 < (re_left r + re_right r) / 2)
      in \<lparr>mp_top = (if openUp then None else Some (re_bottom r + 6)),
          mp_bottom = (if openUp then Some (innerHeight - re_top r + 6) else None),
          mp_left = (if alignRight then None else Some (max 8 (re_left r))),
          mp_right = (if alignRight then Some (max 8 (innerWidth - re_right r)) else None)\<rparr>)"

section \<open>Copying\<close>

datatype copy_state = Idle | Copied | CopyFailed

text \<open>\<open>clipboard\<close>: the Clipboard API accepted the text. \<open>exec\<close>: what the fallback command returned, \<open>None\<close> when it threw. The
  state after the click and the time it is shown for.\<close>

definition copy :: "bool \<Rightarrow> bool option \<Rightarrow> copy_state \<times> nat" where
  "copy clipboard exec = (let ok = (clipboard \<or> exec = Some True) in if ok then (Copied, 1600) else (CopyFailed, 4000))"

section \<open>What the controls guarantee\<close>

lemma trim_idem [simp]: "trim (trim s) = trim s"
proof -
  have strip: "dropWhile P (dropWhile P xs) = dropWhile P xs" for P and xs :: string
    by (induction xs) auto
  have keep: "dropWhile P (rev (dropWhile P (rev (dropWhile P xs)))) = rev (dropWhile P (rev (dropWhile P xs)))" for P and xs :: string
  proof (cases "dropWhile P xs")
    case (Cons c cs)
    then have c: "\<not> P c" by (metis dropWhile_eq_Cons_conv)
    have "dropWhile P (rev cs @ [c]) = dropWhile P (rev cs) @ [c]"
      using c by (induction "rev cs" arbitrary: cs) (auto simp: dropWhile_append)
    then show ?thesis using Cons c by simp
  next
    case Nil
    show ?thesis unfolding Nil by simp
  qed
  show ?thesis by (simp add: trim_def keep strip)
qed

text \<open>C13: A question is answered at most once, and yes only when it may be. Over any sequence of questions, typing, keys and
  clicks, every answer belongs to one question, and a question that demands a text is answered yes only while the typed
  text, up to surrounding blanks, is that text; a text that itself begins or ends with a blank can therefore never be
  confirmed.\<close>

theorem confirm_answers_sound:
  assumes "reach confirm_init confirm_moves d" and "(i, opt, typed, ok) \<in> set (cd_answers d)"
  shows "distinct (map fst (cd_answers d)) \<and> i < cd_asked d \<and> cd_state d \<noteq> Some (opt, i) \<and>
    (ok \<and> str_truthy (cf_confirmText opt) \<longrightarrow>
       cf_confirmText opt = Some (trim typed) \<and> trim (the (cf_confirmText opt)) = the (cf_confirmText opt))"
proof -
  have inv: "confirm_inv d" by (rule confirm.inv_reach [OF assms(1)])
  then have "i < cd_asked d" "ok \<longrightarrow> canConfirm opt typed" using assms(2) by (auto simp: confirm_inv_def list_all_iff)
  moreover have "cd_state d \<noteq> Some (opt, i)" using inv assms(2) by (force simp: confirm_inv_def split: option.splits)
  moreover have "distinct (map fst (cd_answers d))" using inv by (simp add: confirm_inv_def)
  ultimately show ?thesis by (auto simp: canConfirm_def needsTyping_def) (metis option.sel trim_idem)
qed

theorem confirm_answers_sound_witness:
  "let opt = \<lparr>cf_consequences = [], cf_confirmText = Some ''lab''\<rparr>;
       d = confirm_step (confirm_step (confirm_step confirm_init (Ask opt)) (TypeText '' lab'')) ClickConfirm
   in (0, opt, '' lab'', True) \<in> set (cd_answers d) \<and> trim '' lab'' = ''lab''"
proof -
  define opt where "opt = \<lparr>cf_consequences = [], cf_confirmText = Some ''lab''\<rparr>"
  define d where "d = confirm_step (confirm_step (confirm_step confirm_init (Ask opt)) (TypeText '' lab'')) ClickConfirm"
  have "reach confirm_init confirm_moves d"
    unfolding d_def by (intro confirm_reach reach_init)
  moreover have ans: "(0, opt, '' lab'', True) \<in> set (cd_answers d)"
    by (simp add: d_def opt_def confirm_init_def ask_def needsTyping_def canConfirm_def close_confirm_def trim_def js_space_def)
  ultimately have "cf_confirmText opt = Some (trim '' lab'')" using confirm_answers_sound [of d 0 opt "'' lab''" True] by (simp add: opt_def)
  then show ?thesis using ans by (simp add: d_def opt_def Let_def)
qed

text \<open>A prompt hands over a text only if it may be submitted, and answers once.\<close>

lemma prompt_answers_sound:
  assumes "reach prompt_init prompt_moves d" and "(i, opt, Some v) \<in> set (pd_answers d)"
  shows "distinct (map fst (pd_answers d)) \<and> (po_required opt \<longrightarrow> trim v \<noteq> [])"
  using prompt.inv_reach [OF assms(1)] assms(2) by (auto simp: prompt_inv_def list_all_iff canSubmit_def)

lemma chosen_value:
  assumes "select_inv m" and "snd (select_step m e) = Some v"
  shows "v \<in> so_value ` set (sm_options m) \<or> sm_options m = [] \<and> v = []"
proof -
  consider (key) "sm_open m" "v = (case option_at m (sm_active m) of Some x \<Rightarrow> so_value x | None \<Rightarrow> [])"
    | (mouse) i where "i < length (sm_options m)" "v = so_value (sm_options m ! i)"
    using assms(2) by (cases e) (auto simp: onTriggerKey_def pick_def split: if_splits)
  then show ?thesis
  proof cases
    case key
    then show ?thesis using assms(1) by (auto simp: option_at_def select_inv_def nat_less_iff)
  qed auto
qed

text \<open>A list box only ever hands over one of its options. Whatever is pressed or clicked, and however the options change
  while it is open, the keyboard cursor stays on an option of the list, a value handed to the caller is the value of an
  option shown, and a click on a disabled option is ignored.\<close>

theorem select_choices_valid:
  assumes "reach (select_init opts v dis) select_moves m"
  shows "(sm_open m \<and> sm_options m \<noteq> [] \<longrightarrow> 0 \<le> sm_active m \<and> sm_active m < int (length (sm_options m))) \<and>
    (snd (select_step m e) = Some w \<longrightarrow> w \<in> so_value ` set (sm_options m) \<or> sm_options m = [] \<and> w = []) \<and>
    (i < length (sm_options m) \<and> so_disabled (sm_options m ! i) \<longrightarrow> select_step m (ClickOption i) = (m, None))"
  using select.inv_reach [OF assms] chosen_value [of m e w] by (auto simp: select_inv_def)

theorem select_choices_valid_witness:
  "let m = fst (select_step (select_init [\<lparr>so_value = ''a'', so_group = None, so_disabled = False\<rparr>] ''a'' False) ClickTrigger)
   in sm_open m \<and> 0 \<le> sm_active m \<and> sm_active m < 1"
proof -
  define m0 where "m0 = select_init [\<lparr>so_value = ''a'', so_group = None, so_disabled = False\<rparr>] ''a'' False"
  define m where "m = fst (select_step m0 ClickTrigger)"
  have "reach m0 select_moves m" unfolding m_def select_moves_def by (rule reach_step [OF reach_init]) blast
  from select_choices_valid [OF this [unfolded m0_def], of undefined undefined 0]
  show ?thesis by (simp add: m_def m0_def select_init_def set_open_def cursor_effect_def Let_def)
qed

text \<open>The keyboard does not respect what the mouse does. Enter hands over the option under the cursor even when it is
  disabled and clicking it is refused, and the arrow keys stop on disabled options; and a new rendering of the control
  while it is open, which a page that ticks causes every second, moves the cursor back to the current value.\<close>

theorem select_keyboard_faults:
  assumes "sm_open m" and "\<not> sm_disabled m" and "sm_active m = int i" and "i < length (sm_options m)" and "so_disabled (sm_options m ! i)"
  shows "snd (select_step m (TriggerKey ''Enter'')) = Some (so_value (sm_options m ! i)) \<and>
    select_step m (ClickOption i) = (m, None) \<and>
    sm_active (fst (select_step m (Rendered (sm_options m) (sm_value m) False))) =
      max 0 (index_of (map so_value (sm_options m)) (sm_value m))"
  using assms by (simp add: onTriggerKey_def pick_def option_at_def cursor_effect_def)

theorem select_keyboard_faults_witness:
  "let opts = [\<lparr>so_value = ''exclusive'', so_group = None, so_disabled = False\<rparr>, \<lparr>so_value = ''mig'', so_group = None, so_disabled = True\<rparr>];
       m = fst (select_step (fst (select_step (select_init opts ''exclusive'' False) (TriggerKey ''Enter''))) (TriggerKey ''ArrowDown''))
   in snd (select_step m (TriggerKey ''Enter'')) = Some ''mig''"
proof -
  define opts where "opts = [\<lparr>so_value = ''exclusive'', so_group = None, so_disabled = False\<rparr>, \<lparr>so_value = ''mig'', so_group = None, so_disabled = True\<rparr>]"
  define m where "m = fst (select_step (fst (select_step (select_init opts ''exclusive'' False) (TriggerKey ''Enter''))) (TriggerKey ''ArrowDown''))"
  have m: "m = \<lparr>sm_options = opts, sm_value = ''exclusive'', sm_disabled = False, sm_open = True, sm_active = 1\<rparr>"
    by (simp add: m_def opts_def select_init_def onTriggerKey_def set_open_def cursor_effect_def)
  have "snd (select_step m (TriggerKey ''Enter'')) = Some (so_value (sm_options m ! 1))"
    by (rule select_keyboard_faults [THEN conjunct1]) (simp_all add: m opts_def)
  then show ?thesis unfolding Let_def opts_def [symmetric] m_def [symmetric] by (simp add: m opts_def)
qed

text \<open>A menu that fits the viewport with its gutters is placed inside it.\<close>

lemma js_round_of_int [simp]: "js_round (of_int k) = k"
proof -
  have "\<lfloor>(of_int k :: rat) + 1 / 2\<rfloor> = k" by (rule floor_unique) simp_all
  then show ?thesis by (simp add: js_round_def)
qed

lemma js_round_mono: "x \<le> y \<Longrightarrow> js_round x \<le> js_round y"
  by (simp add: js_round_def floor_mono)

lemma anchored_menu_on_screen:
  assumes "menuWidth + 16 \<le> innerWidth"
  shows "(\<exists>x. mp_left (anchored_pos r innerWidth innerHeight menuWidth up True) = Some (of_int x) \<and> 8 \<le> x \<and> x + menuWidth + 8 \<le> innerWidth) \<and>
    (\<exists>x. mp_right (anchored_pos r innerWidth innerHeight menuWidth up False) = Some (of_int x) \<and> 8 \<le> x \<and> x + menuWidth + 8 \<le> innerWidth)"
proof -
  let ?clamp = "\<lambda>y. js_round (max 8 (min y (of_int innerWidth - of_int menuWidth - 8)))"
  have "js_round (of_int 8) \<le> ?clamp y" for y by (rule js_round_mono) simp
  then have low: "8 \<le> ?clamp y" for y unfolding js_round_of_int .
  have "?clamp y \<le> js_round (of_int (innerWidth - menuWidth - 8))" for y
  proof (rule js_round_mono)
    have "(8 :: rat) \<le> of_int (innerWidth - menuWidth - 8)" using assms by linarith
    then show "max 8 (min y (of_int innerWidth - of_int menuWidth - 8)) \<le> of_int (innerWidth - menuWidth - 8)" by simp
  qed
  then have high: "?clamp y + menuWidth + 8 \<le> innerWidth" for y unfolding js_round_of_int by (simp add: algebra_simps)
  show ?thesis using low high by (auto simp: anchored_pos_def Let_def)
qed

end
