(* ===== verification/Session_List.thy ===== *)
theory Session_List
  imports Row_Order Format Infra_Hooks Ui_Controls
begin

text \<open>
  The screens over a user's own sessions: the list (\<^verbatim>\<open>features/session/SessionList.tsx\<close>), the detail page
  (\<^verbatim>\<open>SessionDetail.tsx\<close>), the connection page (\<^verbatim>\<open>ConnectModal.tsx\<close>) and the queue
  (\<^verbatim>\<open>features/queue/QueuePage.tsx\<close>). \<open>date\<close> reads a timestamp as milliseconds (\<open>None\<close> for an invalid date),
  \<open>now\<close> is the ticking clock of the page, \<open>coll\<close> the collation and \<open>ns\<close> the rendering of a number.
\<close>

section \<open>Rows\<close>

record Session =
  se_id :: string
  se_name :: "string option"
  se_status :: string
  se_resource_class :: string
  se_mode :: "string option"
  se_gpu_model :: "string option"
  se_gpu_mem_mb :: "int option"
  se_cluster_id :: "string option"
  se_created_at :: "string option"
  se_started_at :: "string option"
  se_terminated_at :: "string option"
  se_rate :: "rat option"
  se_occupancy :: "rat option"

text \<open>The statuses of the server (\<^verbatim>\<open>backend/app/api/schemas/session.py\<close>) and those the list calls active.\<close>

definition session_statuses :: "string list" where
  "session_statuses = [''pending'', ''preparing'', ''running'', ''paused'', ''terminating'', ''terminated'', ''error'']"

definition ACTIVE :: "string list" where
  "ACTIVE = [''pending'', ''preparing'', ''running'', ''paused'', ''terminating'']"

definition PAGE_SIZE :: nat where
  "PAGE_SIZE = 25"

definition TABS :: "string list" where
  "TABS = [''active'', ''running'', ''terminated'', ''all'']"

definition modeLabel :: "i18n \<Rightarrow> Session \<Rightarrow> string" where
  "modeLabel tr s =
     (if se_resource_class s \<noteq> ''gpu'' then ''CPU''
      else if se_mode s = Some ''mig'' then ''MIG''
      else i18n_t tr (if se_mode s = Some ''exclusive'' then ''session.modeExclusive'' else ''session.modeShared'') [])"

definition vramGb :: "int option \<Rightarrow> string" where
  "vramGb mb =
     (case mb of
        None \<Rightarrow> ''-''
      | Some m \<Rightarrow>
          if m = 0 then ''-''
          else if m mod 1024 = 0 then show_int (m div 1024) @ ''GB'' else to_fixed 1 (of_int m / 1024) @ ''GB'')"

text \<open>\<^verbatim>\<open>s.name || s.id\<close>\<close>

definition session_label :: "Session \<Rightarrow> string" where
  "session_label s = str_or (nonempty (se_name s)) (se_id s)"

section \<open>What the list shows\<close>

definition list_defaults :: table_defaults where
  "list_defaults = \<lparr>td_sort = Some ''live'', td_dir = Some ''desc'', td_tab = Some ''active''\<rparr>"

definition list_state :: "params \<Rightarrow> TableState" where
  "list_state ps = useTableState [] list_defaults ps"

definition list_tab :: "params \<Rightarrow> string" where
  "list_tab ps = str_or (ts_tab (list_state ps)) ''active''"

definition pool :: "string option \<Rightarrow> Session list \<Rightarrow> Session list" where
  "pool clusterId sessions =
     (if str_truthy clusterId then filter (\<lambda>s. se_cluster_id s = clusterId) sessions else sessions)"

text \<open>The badge of a tab, as \<^verbatim>\<open>counts[tab.key]\<close>.\<close>

definition counts :: "Session list \<Rightarrow> (string \<times> nat) list" where
  "counts pl =
     [(''active'', length (filter (\<lambda>s. se_status s \<in> set ACTIVE) pl)),
      (''running'', length (filter (\<lambda>s. se_status s = ''running'') pl)),
      (''terminated'', length (filter (\<lambda>s. se_status s = ''terminated'' \<or> se_status s = ''error'') pl)),
      (''all'', length pl)]"

definition inTab :: "string \<Rightarrow> Session list \<Rightarrow> Session list" where
  "inTab tab pl =
     (if tab = ''running'' then filter (\<lambda>s. se_status s = ''running'') pl
      else if tab = ''active'' then filter (\<lambda>s. se_status s \<in> set ACTIVE) pl
      else if tab = ''terminated'' then filter (\<lambda>s. se_status s = ''terminated'' \<or> se_status s = ''error'') pl
      else pl)"

definition LIST_FILTERS :: "string list" where
  "LIST_FILTERS = [''class'', ''model'']"

definition classOpts :: "Session list \<Rightarrow> string list" where
  "classOpts rows = distinct_values (\<lambda>s. Some (se_resource_class s)) rows"

definition modelOpts :: "Session list \<Rightarrow> string list" where
  "modelOpts rows = distinct_values se_gpu_model rows"

definition row_matches :: "params \<Rightarrow> Session \<Rightarrow> bool" where
  "row_matches ps s =
     (let query = to_lower (trim (ts_query (list_state ps)));
          klass = filter_values [] ps ''class''; model = filter_values [] ps ''model'' in
      if klass \<noteq> [] \<and> se_resource_class s \<noteq> klass then False
      else if model \<noteq> [] \<and> se_gpu_model s \<noteq> Some model then False
      else query = [] \<or> str_includes (to_lower (str_or (se_name s) [])) query \<or> str_includes (to_lower (se_id s)) query)"

definition matched :: "params \<Rightarrow> Session list \<Rightarrow> Session list" where
  "matched ps rows = filter (row_matches ps) rows"

section \<open>Cost\<close>

text \<open>Where the meter stands: the clock while the session runs, otherwise its end, or its start when it has none. \<open>None\<close> is
  an unreadable end.\<close>

definition end_ms :: "(string \<Rightarrow> rat option) \<Rightarrow> rat \<Rightarrow> Session \<Rightarrow> rat option" where
  "end_ms date now s =
     (if se_status s = ''running'' then Some now
      else case nonempty (se_terminated_at s) of Some e \<Rightarrow> date e | None \<Rightarrow> Option.bind (se_started_at s) date)"

text \<open>\<^verbatim>\<open>rate * occ * hoursElapsed(started_at, endMs)\<close>: an unreadable start elapses no hours, an unreadable end gives \<open>NaN\<close>.\<close>

definition spend :: "(string \<Rightarrow> rat option) \<Rightarrow> rat \<Rightarrow> Session \<Rightarrow> rat \<Rightarrow> rat option \<Rightarrow> jsnum" where
  "spend date now s rate endMs =
     (if Option.bind (nonempty (se_started_at s)) date = None then Fin 0
      else case endMs of
             None \<Rightarrow> NaN
           | Some e \<Rightarrow> Fin (rate * opt_else (se_occupancy s) 1 * hoursElapsed date now (se_started_at s) (Some e)))"

definition costOf :: "(string \<Rightarrow> rat option) \<Rightarrow> rat \<Rightarrow> Session \<Rightarrow> jsnum" where
  "costOf date now s =
     (let rate = opt_else (se_rate s) 0 in
      if rate = 0 \<or> \<not> str_truthy (se_started_at s) then Fin 0 else spend date now s rate (end_ms date now s))"

section \<open>Order\<close>

definition session_rank :: "Session \<Rightarrow> int" where
  "session_rank s = (if se_status s = ''running'' then 0 else if se_status s \<in> set ACTIVE then 1 else 2)"

fun date_num :: "rat option \<Rightarrow> jsnum" where
  "date_num None = NaN"
| "date_num (Some d) = Fin d"

definition created_ms :: "(string \<Rightarrow> rat option) \<Rightarrow> Session \<Rightarrow> jsnum" where
  "created_ms date s = (case nonempty (se_created_at s) of Some c \<Rightarrow> date_num (date c) | None \<Rightarrow> Fin 0)"

text \<open>\<^verbatim>\<open>rank(a) - rank(b) || at(b) - at(a)\<close>\<close>

definition live_compare :: "(string \<Rightarrow> rat option) \<Rightarrow> Session \<Rightarrow> Session \<Rightarrow> int" where
  "live_compare date a b =
     (let d = session_rank a - session_rank b in if d \<noteq> 0 then d else num_diff (created_ms date b) (created_ms date a))"

definition live_le :: "(string \<Rightarrow> rat option) \<Rightarrow> Session \<Rightarrow> Session \<Rightarrow> bool" where
  "live_le date a b = (live_compare date a b \<le> 0)"

definition sort_by :: "(string \<Rightarrow> rat option) \<Rightarrow> rat \<Rightarrow> string \<Rightarrow> (Session \<Rightarrow> sort_key) option" where
  "sort_by date now key =
     map_of
       [(''name'', \<lambda>s. KOther (session_label s)),
        (''resource'', \<lambda>s. KOther (se_resource_class s @ ''-'' @ str_or (se_mode s) [])),
        (''uptime'', \<lambda>s. KNum (case nonempty (se_started_at s) of Some b \<Rightarrow> date_num (date b) | None \<Rightarrow> PosInf)),
        (''cost'', \<lambda>s. KNum (costOf date now s)),
        (''status'', \<lambda>s. KOther (se_status s)),
        (''created'', \<lambda>s. KNum (created_ms date s))] key"

definition sorted_sessions ::
  "(string \<Rightarrow> string \<Rightarrow> int) \<Rightarrow> (jsnum \<Rightarrow> string) \<Rightarrow> (string \<Rightarrow> rat option) \<Rightarrow> rat \<Rightarrow> params \<Rightarrow> Session list \<Rightarrow> Session list" where
  "sorted_sessions coll ns date now ps rows =
     (let st = list_state ps in
      if str_or (ts_sort st) ''live'' = ''live'' then js_sort (live_le date) rows
      else sortRows coll ns rows (sort_by date now (str_or (ts_sort st) ''created'')) (ts_dir st))"

text \<open>The rows of the list for the current address, and those of the current page.\<close>

definition list_rows ::
  "(string \<Rightarrow> string \<Rightarrow> int) \<Rightarrow> (jsnum \<Rightarrow> string) \<Rightarrow> (string \<Rightarrow> rat option) \<Rightarrow> rat \<Rightarrow> params \<Rightarrow> string option \<Rightarrow> Session list \<Rightarrow> Session list" where
  "list_rows coll ns date now ps clusterId sessions =
     sorted_sessions coll ns date now ps (matched ps (inTab (list_tab ps) (pool clusterId sessions)))"

definition list_page_rows :: "params \<Rightarrow> Session list \<Rightarrow> Session list" where
  "list_page_rows ps rows = page_rows PAGE_SIZE (ts_page (list_state ps)) rows"

section \<open>Actions of the list\<close>

definition selectedActive :: "string set \<Rightarrow> Session list \<Rightarrow> Session list" where
  "selectedActive selected rows = filter (\<lambda>s. se_id s \<in> selected \<and> se_status s \<in> set ACTIVE) rows"

definition bulk_confirm :: "Session list \<Rightarrow> confirm_options" where
  "bulk_confirm rows =
     \<lparr>cf_consequences = map session_label (take 6 rows),
      cf_confirmText = (if 5 \<le> length rows then Some (show_nat (length rows)) else None)\<rparr>"

text \<open>\<open>ok\<close> is the answer of the dialog. The mutation sent, if any, and the selection after its answer \<open>res\<close>.\<close>

definition terminateSelected :: "bool \<Rightarrow> Session list \<Rightarrow> mutation_def option" where
  "terminateSelected ok rows = (if ok then Some (useBulkTerminateSessions (map se_id rows)) else None)"

definition after_bulk :: "'e + js \<Rightarrow> string set \<Rightarrow> string set" where
  "after_bulk res selected = (case res of Inr _ \<Rightarrow> {} | Inl _ \<Rightarrow> selected)"

datatype row_action = Connect | Connect_disabled | Resume | Pause | Restart | Terminate | Cleanup

definition list_actions :: "string \<Rightarrow> row_action list" where
  "list_actions st =
     (if st = ''running'' then [Connect] else []) @
     (if st = ''paused'' then [Resume] else []) @
     (if st = ''pending'' \<or> st = ''preparing'' then [Connect_disabled] else []) @
     (if st = ''running'' then [Pause] else []) @
     (if st \<in> set ACTIVE \<and> st \<noteq> ''terminating'' then [Terminate] else []) @
     (if st = ''error'' then [Cleanup] else [])"

text \<open>What an action sends; the termination asks first.\<close>

definition row_mutation :: "bool \<Rightarrow> row_action \<Rightarrow> string \<Rightarrow> mutation_def option" where
  "row_mutation ok a sid =
     (case a of
        Pause \<Rightarrow> Some (useStopSession sid)
      | Resume \<Rightarrow> Some (useStartSession sid)
      | Restart \<Rightarrow> Some (useRestartSession sid)
      | Cleanup \<Rightarrow> Some (useTerminateSession sid)
      | Terminate \<Rightarrow> (if ok then Some (useTerminateSession sid) else None)
      | _ \<Rightarrow> None)"

text \<open>The amount named before a termination, in hundredths: \<^verbatim>\<open>Math.round(cost * 100) / 100\<close>.\<close>

definition confirm_amount :: "jsnum \<Rightarrow> js" where
  "confirm_amount c = (case c of Fin r \<Rightarrow> JNum (of_int (js_round (r * 100)) / 100) | _ \<Rightarrow> JUndef)"

section \<open>The detail page\<close>

definition sessionEnded :: "string option \<Rightarrow> bool" where
  "sessionEnded st = (st = Some ''terminated'' \<or> st = Some ''error'')"

definition pendingStart :: "string \<Rightarrow> bool" where
  "pendingStart st = (st = ''pending'' \<or> st = ''preparing'')"

definition terminal :: "string \<Rightarrow> bool" where
  "terminal st = (st \<in> {''terminating'', ''terminated'', ''error''})"

definition detail_actions :: "string \<Rightarrow> row_action list" where
  "detail_actions st =
     (if st = ''running'' then [Pause] else []) @
     (if st = ''paused'' then [Resume] else []) @
     (if st = ''running'' then [Restart] else []) @
     (if \<not> terminal st then [Terminate] else []) @
     (if st = ''running'' then [Connect] else if \<not> terminal st then [Connect_disabled] else [])"

definition est_end_ms :: "(string \<Rightarrow> rat option) \<Rightarrow> rat \<Rightarrow> Session \<Rightarrow> rat option" where
  "est_end_ms date now s =
     (if se_status s = ''running'' then Some now
      else case nonempty (se_terminated_at s) of
             Some e \<Rightarrow> date e
           | None \<Rightarrow> (case nonempty (se_started_at s) of Some b \<Rightarrow> date b | None \<Rightarrow> Some now))"

definition estSpend :: "(string \<Rightarrow> rat option) \<Rightarrow> rat \<Rightarrow> Session \<Rightarrow> jsnum option" where
  "estSpend date now s =
     (let rate = opt_else (se_rate s) 0 in
      if rate \<noteq> 0 \<and> str_truthy (se_started_at s) then Some (spend date now s rate (est_end_ms date now s)) else None)"

text \<open>The scratch disk: a share of the limit, and the colour of the gauge.\<close>

definition diskPct :: "rat option \<Rightarrow> rat option \<Rightarrow> rat option" where
  "diskPct used limit =
     (case (used, limit) of (Some u, Some l) \<Rightarrow> if l \<noteq> 0 then Some (u / l * 100) else None | _ \<Rightarrow> None)"

definition disk_variant :: "rat \<Rightarrow> string" where
  "disk_variant pct = (if 95 \<le> pct then ''danger'' else if 80 \<le> pct then ''warn'' else ''free'')"

text \<open>
  The event stream of the page. The effect runs again whenever the id or the terminal-ness of the status changes: it first
  closes the previous source, then opens one unless there is no id or the session has ended.
\<close>

record detail_page =
  dp_id :: string
  dp_ended :: bool
  dp_source :: bool
  dp_live :: bool
  dp_last :: "js option"

datatype detail_event = Effect string bool | Opened | Message js | Failed | Unmounted

fun detail_step :: "detail_page \<Rightarrow> detail_event \<Rightarrow> detail_page \<times> cache_cmd list" where
  "detail_step p (Effect i ended) = (p\<lparr>dp_id := i, dp_ended := ended, dp_source := (i \<noteq> [] \<and> \<not> ended), dp_live := False\<rparr>, [])"
| "detail_step p Opened = (if dp_source p then (p\<lparr>dp_live := True\<rparr>, []) else (p, []))"
| "detail_step p (Message d) =
     (if dp_source p then (p\<lparr>dp_last := Some d\<rparr>, [InvalidateQueries (sessionKeys_detail (dp_id p))]) else (p, []))"
| "detail_step p Failed = (if dp_source p then (p\<lparr>dp_live := False\<rparr>, []) else (p, []))"
| "detail_step p Unmounted = (p\<lparr>dp_source := False, dp_live := False\<rparr>, [])"

definition detail_init :: detail_page where
  "detail_init = \<lparr>dp_id = [], dp_ended = False, dp_source = False, dp_live = False, dp_last = None\<rparr>"

definition detail_moves :: "detail_page \<Rightarrow> detail_page \<Rightarrow> bool" where
  "detail_moves p q = (\<exists>e. q = fst (detail_step p e))"

text \<open>The log: newest first, with the realized wait beside a promotion. Times compare as strings.\<close>

record TimelineEvent =
  ev_kind :: string
  ev_at :: "string option"

definition queued_at :: "TimelineEvent list \<Rightarrow> string \<Rightarrow> string option" where
  "queued_at timeline tm =
     (case filter (\<lambda>x. ev_kind x = ''queued'' \<and> (case ev_at x of None \<Rightarrow> False | Some y \<Rightarrow> y \<le> tm)) timeline of
        [] \<Rightarrow> None | xs \<Rightarrow> ev_at (last xs))"

definition queue_waited :: "(string \<Rightarrow> rat option) \<Rightarrow> rat \<Rightarrow> TimelineEvent list \<Rightarrow> TimelineEvent \<Rightarrow> string option" where
  "queue_waited date now timeline e =
     (if ev_kind e \<noteq> ''promoted'' then None
      else case nonempty (ev_at e) of
             None \<Rightarrow> None
           | Some tm \<Rightarrow>
               (case nonempty (queued_at timeline tm) of
                  None \<Rightarrow> None
                | Some qa \<Rightarrow>
                    Some (case date tm of
                            None \<Rightarrow> (if date qa = None then em_dash else ''NaNs'')
                          | Some ms \<Rightarrow> formatDuration date now (Some qa) (Some ms))))"

section \<open>The connection page\<close>

definition expired :: "(string \<Rightarrow> rat option) \<Rightarrow> rat \<Rightarrow> string option \<Rightarrow> bool" where
  "expired date now stamp = (case Option.bind (nonempty stamp) date of None \<Rightarrow> False | Some ms \<Rightarrow> ms \<le> now)"

text \<open>The label beside a connection, with the translation of the two messages left to \<open>tr\<close>.\<close>

definition expiry_label :: "i18n \<Rightarrow> (string \<Rightarrow> rat option) \<Rightarrow> rat \<Rightarrow> string option \<Rightarrow> string option" where
  "expiry_label tr date now stamp =
     (if str_truthy stamp
      then Some (if expired date now stamp then i18n_t tr ''connect.expired'' []
                 else i18n_t tr ''connect.expiresIn'' [(''time'', JStr (countdown date now stamp))])
      else None)"

section \<open>The queue\<close>

record QueueEntryView =
  qe_id :: string
  qe_session_id :: "string option"
  qe_session_name :: "string option"
  qe_req_name :: "string option"
  qe_position :: "int option"
  qe_enqueued_at :: "string option"

definition sessionLabel :: "QueueEntryView \<Rightarrow> string" where
  "sessionLabel q =
     str_or (or_else (nonempty (or_else (nonempty (qe_session_name q)) (qe_req_name q))) (nonempty (qe_session_id q))) ''-''"

definition queue_sort_by :: "(string \<Rightarrow> rat option) \<Rightarrow> string \<Rightarrow> (QueueEntryView \<Rightarrow> sort_key) option" where
  "queue_sort_by date key =
     map_of
       [(''session_name'', \<lambda>q. KOther (sessionLabel q)),
        (''position'', \<lambda>q. KNum (Fin (of_int (opt_else (qe_position q) 0)))),
        (''waiting'', \<lambda>q. KNum (case nonempty (qe_enqueued_at q) of Some e \<Rightarrow> date_num (date e) | None \<Rightarrow> Fin 0))] key"

definition queue_defaults :: table_defaults where
  "queue_defaults = \<lparr>td_sort = Some ''position'', td_dir = Some ''asc'', td_tab = None\<rparr>"

definition queue_rows ::
  "(string \<Rightarrow> string \<Rightarrow> int) \<Rightarrow> (jsnum \<Rightarrow> string) \<Rightarrow> (string \<Rightarrow> rat option) \<Rightarrow> params \<Rightarrow> QueueEntryView list \<Rightarrow> QueueEntryView list" where
  "queue_rows coll ns date ps data =
     (let st = useTableState [] queue_defaults ps in
      sortRows coll ns data (queue_sort_by date (str_or (ts_sort st) ''position'')) (ts_dir st))"

definition queue_page_rows :: "params \<Rightarrow> QueueEntryView list \<Rightarrow> QueueEntryView list" where
  "queue_page_rows ps rows = page_rows 25 (ts_page (useTableState [] queue_defaults ps)) rows"

definition onCancel :: "bool \<Rightarrow> QueueEntryView \<Rightarrow> mutation_def option" where
  "onCancel ok q = (if ok then Some (useCancelQueueEntry (qe_id q)) else None)"

section \<open>The order of the list\<close>

text \<open>Concrete rows for the examples below; the clock reads a stamp as its length.\<close>

definition sample_session :: "string \<Rightarrow> string \<Rightarrow> string \<Rightarrow> Session" where
  "sample_session i st created =
     \<lparr>se_id = i, se_name = None, se_status = st, se_resource_class = ''gpu'', se_mode = Some ''fractional'', se_gpu_model = None,
      se_gpu_mem_mb = Some 8192, se_cluster_id = None, se_created_at = Some created, se_started_at = Some created,
      se_terminated_at = None, se_rate = Some 2, se_occupancy = Some (1 / 2)\<rparr>"

definition sample_clock :: "string \<Rightarrow> rat option" where
  "sample_clock s = Some (of_nat (length s))"

definition dated :: "(string \<Rightarrow> rat option) \<Rightarrow> Session set" where
  "dated date = {s. created_ms date s \<noteq> NaN}"

lemma live_le_iff:
  "live_le date a b \<longleftrightarrow> session_rank a < session_rank b \<or>
     session_rank a = session_rank b \<and> num_diff (created_ms date b) (created_ms date a) \<le> 0"
  by (auto simp: live_le_def live_compare_def Let_def)

interpretation live: comparison "live_le date" "dated date" for date
proof
  show "live_le date x y \<or> live_le date y x" if "x \<in> dated date" "y \<in> dated date" for x y
    using that num_diff_total [of "created_ms date x" "created_ms date y"] by (auto simp: live_le_iff dated_def)
  show "live_le date x z"
    if "x \<in> dated date" "y \<in> dated date" "z \<in> dated date" "live_le date x y" "live_le date y z" for x y z
    using that num_diff_trans [of "created_ms date z" "created_ms date y" "created_ms date x"]
    by (auto simp: live_le_iff dated_def)
qed

lemma list_rows_set:
  "set (list_rows coll ns date now ps cl sessions) = set (matched ps (inTab (list_tab ps) (pool cl sessions)))"
  by (auto simp: list_rows_def sorted_sessions_def Let_def sortRows_def split: option.splits)

lemma mset_list_rows:
  "mset (list_rows coll ns date now ps cl sessions) = mset (matched ps (inTab (list_tab ps) (pool cl sessions)))"
  by (auto simp: list_rows_def sorted_sessions_def Let_def sortRows_def split: option.splits)

text \<open>The default order of the session list. When the creation times can be read, the list is the one arrangement of the
  sessions in view in which running sessions come first, other active ones next and finished ones last, the newest first
  within each band, sessions created at the same instant keeping the order the server sent them in.\<close>

theorem live_order_correct:
  assumes "str_or (ts_sort (list_state ps)) ''live'' = ''live''"
    and "\<forall>s \<in> set sessions. created_ms date s \<noteq> NaN"
  shows "(stably_sorted (live_le date) (matched ps (inTab (list_tab ps) (pool cl sessions))) rows \<longleftrightarrow>
      rows = list_rows coll ns date now ps cl sessions) \<and>
    (live_le date a b \<longleftrightarrow> session_rank a < session_rank b \<or>
      session_rank a = session_rank b \<and> num_diff (created_ms date b) (created_ms date a) \<le> 0)"
proof -
  define view where "view = matched ps (inTab (list_tab ps) (pool cl sessions))"
  have "set view \<subseteq> set sessions" by (auto simp: view_def matched_def inTab_def pool_def split: if_splits)
  then have "set view \<subseteq> dated date" using assms(2) by (auto simp: dated_def)
  then have "comparison (live_le date) (set view)" by (rule comparison_subset [OF live.comparison_axioms])
  moreover have "list_rows coll ns date now ps cl sessions = js_sort (live_le date) view"
    using assms(1) by (simp add: list_rows_def sorted_sessions_def Let_def view_def)
  ultimately show ?thesis
    using stably_sorted_js_sort [of "live_le date" view rows] by (simp add: view_def live_le_iff)
qed

lemma sample_created [simp]: "created_ms sample_clock (sample_session i st c) = Fin (of_nat (length c))"
  by (cases c) (simp_all add: sample_session_def created_ms_def sample_clock_def)

lemma sample_rank [simp]: "session_rank (sample_session i st c) = (if st = ''running'' then 0 else if st \<in> set ACTIVE then 1 else 2)"
  by (simp add: sample_session_def session_rank_def)

theorem live_order_correct_witness:
  "list_rows by_length (\<lambda>_. []) sample_clock 0 [(''tab'', ''all'')] None
     [sample_session ''a'' ''error'' ''123'', sample_session ''b'' ''running'' ''1'', sample_session ''c'' ''running'' ''12''] =
   [sample_session ''c'' ''running'' ''12'', sample_session ''b'' ''running'' ''1'', sample_session ''a'' ''error'' ''123'']"
proof -
  let ?ps = "[(''tab'', ''all'')]"
  have st: "list_state ?ps = \<lparr>ts_query = [], ts_sort = Some ''live'', ts_dir = ''desc'', ts_page = page_number None, ts_tab = Some ''all''\<rparr>"
    by (simp add: list_state_def useTableState_def list_defaults_def param_key_def usp_get_def)
  have view: "matched ?ps (inTab (list_tab ?ps) (pool None rows)) = rows" for rows
    by (simp add: matched_def row_matches_def Let_def st inTab_def list_tab_def pool_def filter_values_def usp_get_def
        param_key_def trim_def to_lower_def)
  define a b c where abc: "a = sample_session ''a'' ''error'' ''123''" "b = sample_session ''b'' ''running'' ''1''"
    "c = sample_session ''c'' ''running'' ''12''"
  have r: "session_rank a = 2" "session_rank b = 0" "session_rank c = 0" and
    m: "created_ms sample_clock a = Fin 3" "created_ms sample_clock b = Fin 1" "created_ms sample_clock c = Fin 2"
    by (simp_all add: abc ACTIVE_def)
  have "stably_sorted (live_le sample_clock) [a, b, c] [c, b, a]"
    by (simp add: stably_sorted_def tied_def live_le_iff r m)
  then show ?thesis
    using live_order_correct [of ?ps "[a, b, c]" sample_clock None "[c, b, a]" by_length "\<lambda>_. []" 0] r m
    unfolding view abc [symmetric] by (simp add: st)
qed

section \<open>Badges, cost and actions\<close>

text \<open>A tab's badge is the number of sessions the tab lists before any filter, whatever cluster is chosen; and when every
  status is one the server knows, the active and the finished tab together list every session once.\<close>

theorem badges_count_rows:
  "(\<forall>tab \<in> set TABS. map_of (counts (pool cl sessions)) tab = Some (length (inTab tab (pool cl sessions)))) \<and>
   ((\<forall>s \<in> set sessions. se_status s \<in> set session_statuses) \<longrightarrow>
      mset (inTab ''active'' (pool cl sessions)) + mset (inTab ''terminated'' (pool cl sessions)) = mset (inTab ''all'' (pool cl sessions)))"
proof -
  have "mset (filter (\<lambda>s. se_status s \<in> set ACTIVE) xs) + mset (filter (\<lambda>s. se_status s = ''terminated'' \<or> se_status s = ''error'') xs) = mset xs"
    if "\<forall>s \<in> set xs. se_status s \<in> set session_statuses" for xs
    using that by (induction xs) (auto simp: session_statuses_def ACTIVE_def)
  moreover have "\<forall>s \<in> set (pool cl sessions). se_status s \<in> set session_statuses"
    if "\<forall>s \<in> set sessions. se_status s \<in> set session_statuses"
    using that by (auto simp: pool_def)
  ultimately show ?thesis by (auto simp: TABS_def counts_def inTab_def)
qed

theorem badges_count_rows_witness:
  "map_of (counts (pool None [sample_session ''a'' ''paused'' [], sample_session ''b'' ''error'' []])) ''active'' =
     Some (length (inTab ''active'' [sample_session ''a'' ''paused'' [], sample_session ''b'' ''error'' []]))"
  using badges_count_rows [of None "[sample_session ''a'' ''paused'' [], sample_session ''b'' ''error'' []]"]
  by (simp add: TABS_def pool_def)

lemma end_ms_stopped: "se_status s \<noteq> ''running'' \<Longrightarrow> end_ms date now s = end_ms date now' s"
  by (simp add: end_ms_def)

lemma hoursElapsed_mono: "t \<le> t' \<Longrightarrow> hoursElapsed date n b (Some t) \<le> hoursElapsed date n' b (Some t')"
  by (cases "Option.bind (nonempty b) date") (auto simp: hoursElapsed_def max_def divide_right_mono not_le)

text \<open>The estimated cost of a session only moves while it runs, and then only upwards; the detail page shows the same
  estimate as the list, and leaves it out exactly when the session has no rate or no start.\<close>

theorem cost_estimates:
  assumes "0 \<le> opt_else (se_rate s) 0" and "0 \<le> opt_else (se_occupancy s) 1" and "now \<le> now'"
  shows "(if se_status s = ''running''
          then \<exists>c c'. costOf date now s = Fin c \<and> costOf date now' s = Fin c' \<and> 0 \<le> c \<and> c \<le> c'
          else costOf date now s = costOf date now' s) \<and>
    estSpend date now s = (if opt_else (se_rate s) 0 \<noteq> 0 \<and> str_truthy (se_started_at s) then Some (costOf date now s) else None)"
proof -
  have run: "\<exists>c c'. costOf date now s = Fin c \<and> costOf date now' s = Fin c' \<and> 0 \<le> c \<and> c \<le> c'" if "se_status s = ''running''"
    using that assms hoursElapsed_mono [OF assms(3), of date now "se_started_at s" now']
    by (auto simp: costOf_def Let_def spend_def end_ms_def hoursElapsed_def mult_left_mono split: option.splits)
  have stop: "costOf date now s = costOf date now' s" if "se_status s \<noteq> ''running''"
    by (auto simp: costOf_def Let_def spend_def end_ms_stopped [OF that, of date now now'] hoursElapsed_def split: option.splits)
  have "est_end_ms date now s = end_ms date now s" if "str_truthy (se_started_at s)"
    using that by (cases "se_started_at s") (auto simp: est_end_ms_def end_ms_def split: option.splits)
  then show ?thesis using run stop by (simp add: estSpend_def costOf_def Let_def)
qed

theorem cost_estimates_witness:
  "\<exists>c c'. costOf sample_clock 7200001 (sample_session ''a'' ''running'' ''t'') = Fin c \<and>
     costOf sample_clock 9000001 (sample_session ''a'' ''running'' ''t'') = Fin c' \<and> 0 \<le> c \<and> c \<le> c'"
  using cost_estimates [of "sample_session ''a'' ''running'' ''t''" 7200001 9000001 sample_clock]
  by (simp add: sample_session_def)

text \<open>The list and the detail page offer the same lifecycle actions. For every status of the server, pausing, resuming,
  terminating and connecting are offered on one exactly when they are on the other; only a running session can be paused
  or connected to, only a paused one resumed, and a session already ending or ended is never offered termination.\<close>

theorem actions_agree:
  assumes "st \<in> set session_statuses"
  shows "(\<forall>a \<in> {Pause, Resume, Terminate, Connect}. a \<in> set (list_actions st) \<longleftrightarrow> a \<in> set (detail_actions st)) \<and>
    (Pause \<in> set (list_actions st) \<longleftrightarrow> st = ''running'') \<and> (Resume \<in> set (list_actions st) \<longleftrightarrow> st = ''paused'') \<and>
    (Connect \<in> set (list_actions st) \<longleftrightarrow> st = ''running'') \<and>
    (Terminate \<in> set (list_actions st) \<longleftrightarrow> st \<notin> {''terminating'', ''terminated'', ''error''})"
  using assms by (auto simp: session_statuses_def list_actions_def detail_actions_def terminal_def ACTIVE_def)

theorem actions_agree_witness: "Terminate \<in> set (list_actions ''pending'') \<and> Terminate \<in> set (detail_actions ''pending'')"
  using actions_agree [of "''pending''"] by (auto simp: session_statuses_def)

section \<open>Terminating a selection\<close>

definition in_tab :: "string \<Rightarrow> Session \<Rightarrow> bool" where
  "in_tab tab s = (inTab tab [s] = [s])"

lemma in_tab_filter: "inTab tab pl = filter (in_tab tab) pl"
  by (induction pl) (auto simp: inTab_def in_tab_def split: if_splits)

lemma distinct_map_mset: "mset (map f xs) = mset (map f ys) \<Longrightarrow> distinct (map f ys) \<Longrightarrow> distinct (map f xs)"
  using mset_eq_imp_distinct_iff by blast

text \<open>C17: Terminating a selection ends what the user sees selected and nothing else. Once confirmed, the request names exactly
  the sessions that are selected, still active, on the chosen cluster, in the current tab and within the current filters and
  search, on whatever page of the list they are, each once; unconfirmed, nothing is sent. With five or more, the user
  has to type their number.\<close>

theorem bulk_terminate_exact:
  assumes "distinct (map se_id sessions)"
  shows "let rows = selectedActive selected (list_rows coll ns date now ps cl sessions) in
    terminateSelected False rows = None \<and>
    (\<exists>ids. terminateSelected True rows = Some (useBulkTerminateSessions ids) \<and> distinct ids \<and>
      set ids = {i. \<exists>s \<in> set sessions. se_id s = i \<and> i \<in> selected \<and> se_status s \<in> set ACTIVE \<and>
        (str_truthy cl \<longrightarrow> se_cluster_id s = cl) \<and> in_tab (list_tab ps) s \<and> row_matches ps s} \<and>
      cf_confirmText (bulk_confirm rows) = (if 5 \<le> card (set ids) then Some (show_nat (card (set ids))) else None))"
proof -
  define view where "view = matched ps (inTab (list_tab ps) (pool cl sessions))"
  define rows where "rows = selectedActive selected (list_rows coll ns date now ps cl sessions)"
  have "distinct (map se_id view)"
    using assms by (auto simp: view_def matched_def in_tab_filter pool_def distinct_map_filter)
  then have "distinct (map se_id (list_rows coll ns date now ps cl sessions))"
    by (rule distinct_map_mset [rotated]) (simp add: mset_list_rows view_def)
  then have d: "distinct (map se_id rows)" by (simp add: rows_def selectedActive_def distinct_map_filter)
  have s: "set (map se_id rows) = {i. \<exists>s \<in> set sessions. se_id s = i \<and> i \<in> selected \<and> se_status s \<in> set ACTIVE \<and>
        (str_truthy cl \<longrightarrow> se_cluster_id s = cl) \<and> in_tab (list_tab ps) s \<and> row_matches ps s}"
    by (auto simp: rows_def selectedActive_def list_rows_set matched_def in_tab_filter pool_def image_iff)
  have "length rows = card (set (map se_id rows))" using distinct_card [OF d] by simp
  then show ?thesis
    unfolding Let_def rows_def [symmetric]
    using d s by (intro conjI exI [of _ "map se_id rows"]) (simp_all add: terminateSelected_def bulk_confirm_def)
qed

theorem bulk_terminate_exact_witness:
  "\<exists>ids. terminateSelected True (selectedActive {''a'', ''b'', ''c''} (list_rows by_length (\<lambda>_. []) sample_clock 0 [] None
       [sample_session ''a'' ''running'' ''1'', sample_session ''b'' ''error'' ''1''])) = Some (useBulkTerminateSessions ids) \<and>
     ''b'' \<notin> set ids \<and> distinct ids"
proof -
  let ?s = "[sample_session ''a'' ''running'' ''1'', sample_session ''b'' ''error'' ''1'']"
  have d: "distinct (map se_id ?s)" by (simp add: sample_session_def)
  have "se_status s \<notin> set ACTIVE" if "s \<in> set ?s" "se_id s = ''b''" for s
    using that by (auto simp: sample_session_def ACTIVE_def)
  then have b: "''b'' \<notin> {i. \<exists>s \<in> set ?s. se_id s = i \<and> i \<in> sel \<and> se_status s \<in> set ACTIVE \<and> P s}" for sel P
    by blast
  from bulk_terminate_exact [OF d, of "{''a'', ''b'', ''c''}" by_length "\<lambda>_. []" sample_clock 0 "[]" None]
  obtain ids where ids: "terminateSelected True (selectedActive {''a'', ''b'', ''c''} (list_rows by_length (\<lambda>_. []) sample_clock 0 [] None ?s)) =
      Some (useBulkTerminateSessions ids)" "distinct ids"
    "set ids = {i. \<exists>s \<in> set ?s. se_id s = i \<and> i \<in> {''a'', ''b'', ''c''} \<and> se_status s \<in> set ACTIVE \<and>
        (str_truthy None \<longrightarrow> se_cluster_id s = None) \<and> in_tab (list_tab []) s \<and> row_matches [] s}"
    unfolding Let_def by (elim conjE exE)
  have "''b'' \<notin> set ids" unfolding ids(3) by (rule b)
  then show ?thesis using ids(1,2) by (intro exI [of _ ids] conjI)
qed

section \<open>The live mark of the detail page\<close>

definition detail_inv :: "detail_page \<Rightarrow> bool" where
  "detail_inv p = ((dp_source p \<longrightarrow> dp_id p \<noteq> [] \<and> \<not> dp_ended p) \<and> (dp_live p \<longrightarrow> dp_source p))"

interpretation detail: inductive_invariant detail_init detail_moves detail_inv
proof
  fix s t
  assume inv: "detail_inv s" and "detail_moves s t"
  then obtain e where "t = fst (detail_step s e)" by (auto simp: detail_moves_def)
  then show "detail_inv t" using inv by (cases e) (auto simp: detail_inv_def split: if_splits)
qed (simp add: detail_inv_def detail_init_def)

text \<open>The page is marked live only while a stream to a session that has not ended is open, and then every message makes the
  cached session stale.\<close>

lemma live_mark_sound:
  assumes "reach detail_init detail_moves p" and "dp_live p"
  shows "dp_source p \<and> dp_id p \<noteq> [] \<and> \<not> dp_ended p \<and>
    (\<forall>d. stale_after (snd (detail_step p (Message d))) (qd_key (useSession (dp_id p))))"
  using detail.inv_reach [OF assms(1)] assms(2) by (simp add: detail_inv_def useSession_def use_query_def prefix_key_def)

section \<open>The realized wait\<close>

text \<open>With a chronological log, the wait beside a promotion counts from the last time the session was queued before it.\<close>

lemma queued_at_latest:
  assumes "sorted_wrt (\<lambda>x y. \<forall>u v. ev_at x = Some u \<longrightarrow> ev_at y = Some v \<longrightarrow> u \<le> v) timeline"
    and "queued_at timeline tm = Some q"
  shows "q \<le> tm \<and> (\<exists>x \<in> set timeline. ev_kind x = ''queued'' \<and> ev_at x = Some q) \<and>
    (\<forall>x \<in> set timeline. \<forall>u. ev_kind x = ''queued'' \<longrightarrow> ev_at x = Some u \<longrightarrow> u \<le> tm \<longrightarrow> u \<le> q)"
proof -
  define qs where "qs = filter (\<lambda>x. ev_kind x = ''queued'' \<and> (case ev_at x of None \<Rightarrow> False | Some y \<Rightarrow> y \<le> tm)) timeline"
  have ne: "qs \<noteq> []" and q: "ev_at (last qs) = Some q"
    using assms(2) by (auto simp: queued_at_def qs_def [symmetric] split: list.splits)
  have "sorted_wrt (\<lambda>x y. \<forall>u v. ev_at x = Some u \<longrightarrow> ev_at y = Some v \<longrightarrow> u \<le> v) (butlast qs @ [last qs])"
    using assms(1) ne by (simp add: qs_def sorted_wrt_filter)
  then have early: "u \<le> q" if "x \<in> set (butlast qs)" "ev_at x = Some u" for x u
    using that q by (auto simp: sorted_wrt_append)
  have "u \<le> q" if "x \<in> set timeline" "ev_kind x = ''queued''" "ev_at x = Some u" "u \<le> tm" for x u
  proof -
    have "x \<in> set qs" using that by (simp add: qs_def)
    then have "x \<in> set (butlast qs) \<or> x = last qs" using ne by (metis Un_iff append_butlast_last_id empty_iff insert_iff list.set(1,2) set_append)
    then show ?thesis using early that(3) q by auto
  qed
  moreover have "last qs \<in> set qs" using ne by simp
  ultimately show ?thesis using q by (auto simp: qs_def)
qed

end
