(* ===== verification/Js_Date.thy ===== *)
theory Js_Date
  imports Js_Number
begin

text \<open>
  Calendar days as the console steps through them (\<^verbatim>\<open>new Date(y, m, d)\<close>, \<^verbatim>\<open>setDate\<close>, \<^verbatim>\<open>getFullYear\<close> and so on): a day is
  its year, month (1 to 12) and day of the month. The offset of the viewer's clock is fixed, so a step of one day never
  changes the time of day.
\<close>

type_synonym day = "int \<times> int \<times> int"

section \<open>The calendar\<close>

definition leap_year :: "int \<Rightarrow> bool" where
  "leap_year y = (y mod 4 = 0 \<and> (y mod 100 \<noteq> 0 \<or> y mod 400 = 0))"

definition days_in_month :: "int \<Rightarrow> int \<Rightarrow> int" where
  "days_in_month y m =
     (if m = 2 then (if leap_year y then 29 else 28) else if m \<in> {4, 6, 9, 11} then 30 else 31)"

definition valid_day :: "day \<Rightarrow> bool" where
  "valid_day d = (case d of (y, m, k) \<Rightarrow> 1 \<le> m \<and> m \<le> 12 \<and> 1 \<le> k \<and> k \<le> days_in_month y m)"

definition next_day :: "day \<Rightarrow> day" where
  "next_day d =
     (case d of (y, m, k) \<Rightarrow>
        if k < days_in_month y m then (y, m, k + 1) else if m < 12 then (y, m + 1, 1) else (y + 1, 1, 1))"

definition prev_day :: "day \<Rightarrow> day" where
  "prev_day d =
     (case d of (y, m, k) \<Rightarrow>
        if 1 < k then (y, m, k - 1) else if 1 < m then (y, m - 1, days_in_month y (m - 1)) else (y - 1, 12, 31))"

text \<open>The order of instants with the same time of day.\<close>

definition day_le :: "day \<Rightarrow> day \<Rightarrow> bool" where
  "day_le a b =
     (case (a, b) of ((y, m, k), (y', m', k')) \<Rightarrow> y < y' \<or> y = y' \<and> (m < m' \<or> m = m' \<and> k \<le> k'))"

text \<open>\<^verbatim>\<open>new Date(y, m - 1, 1)\<close> and \<^verbatim>\<open>new Date(y, m, 0)\<close>: months run over into years, and the years 0 to 99 mean the 1900s.\<close>

definition full_year :: "int \<Rightarrow> int" where
  "full_year y = (if 0 \<le> y \<and> y \<le> 99 then 1900 + y else y)"

definition month_start :: "int \<Rightarrow> int \<Rightarrow> day" where
  "month_start y m = (full_year y + (m - 1) div 12, (m - 1) mod 12 + 1, 1)"

definition month_end :: "int \<Rightarrow> int \<Rightarrow> day" where
  "month_end y m =
     (let yy = full_year y + (m - 1) div 12; mm = (m - 1) mod 12 + 1 in (yy, mm, days_in_month yy mm))"

definition iso_day :: "day \<Rightarrow> string" where
  "iso_day d =
     (case d of (y, m, k) \<Rightarrow>
        show_int y @ ''-'' @ pad_start 2 (CHR ''0'') (show_int m) @ ''-'' @ pad_start 2 (CHR ''0'') (show_int k))"

text \<open>A date input's value (\<^verbatim>\<open>2026-06-12\<close>), which the engine reads as midnight UTC: the local day is the previous one west of
  Greenwich. \<open>offset\<close> is local time minus UTC, in minutes.\<close>

definition date_fields :: "string \<Rightarrow> day option" where
  "date_fields s =
     (case split_on (CHR ''-'') s of
        [a, b, c] \<Rightarrow>
          if length a = 4 \<and> length b = 2 \<and> length c = 2 \<and> list_all is_digit (a @ b @ c)
          then (let d = (int (nat_of_digits a), int (nat_of_digits b), int (nat_of_digits c)) in if valid_day d then Some d else None)
          else None
      | _ \<Rightarrow> None)"

text \<open>The local day of midnight UTC on a clock that is \<open>offset\<close> from Greenwich all year: a zone without daylight saving. Where the
  clock changes between the two ends of a span, the ends also have different local times, which is not modelled.\<close>

definition local_day :: "int \<Rightarrow> day \<Rightarrow> day" where
  "local_day offset d = (if offset < 0 then prev_day d else d)"

section \<open>Stepping\<close>

lemma days_in_month_bounds [simp]: "28 \<le> days_in_month y m" "days_in_month y m \<le> 31" "1 \<le> days_in_month y m" "0 < days_in_month y m"
  by (simp_all add: days_in_month_def)

lemma valid_next_day: "valid_day d \<Longrightarrow> valid_day (next_day d)"
  using days_in_month_bounds(3) by (auto simp: valid_day_def next_day_def split: prod.splits)

lemma valid_prev_day: "valid_day d \<Longrightarrow> valid_day (prev_day d)"
  by (auto simp: valid_day_def prev_day_def days_in_month_def split: prod.splits)

lemma next_prev_day: "valid_day d \<Longrightarrow> next_day (prev_day d) = d"
  by (auto simp: valid_day_def next_day_def prev_day_def days_in_month_def split: prod.splits)

definition day_order :: "day \<Rightarrow> int" where
  "day_order d = (case d of (y, m, k) \<Rightarrow> (y * 13 + m) * 32 + k)"

lemma day_le_order: "valid_day a \<Longrightarrow> valid_day b \<Longrightarrow> day_le a b \<longleftrightarrow> day_order a \<le> day_order b"
proof -
  obtain y m k y' m' k' where ab: "a = (y, m, k)" "b = (y', m', k')" by (metis prod_cases3)
  assume "valid_day a" "valid_day b"
  then have v: "1 \<le> m" "m \<le> 12" "1 \<le> k" "k \<le> 31" "1 \<le> m'" "m' \<le> 12" "1 \<le> k'" "k' \<le> 31"
    by (auto simp: ab valid_day_def intro: order_trans [OF _ days_in_month_bounds(2)])
  show ?thesis
  proof (cases "y = y'")
    case True
    then show ?thesis using v by (cases "m = m'") (auto simp: ab day_le_def day_order_def)
  next
    case False
    then consider "y + 1 \<le> y'" | "y' + 1 \<le> y" by linarith
    then show ?thesis using v by cases (auto simp: ab day_le_def day_order_def)
  qed
qed

lemma next_day_order: "valid_day d \<Longrightarrow> day_order d < day_order (next_day d)"
  by (auto simp: valid_day_def next_day_def day_order_def days_in_month_def split: prod.splits if_splits)

lemma valid_days: "valid_day d \<Longrightarrow> valid_day ((next_day ^^ k) d)"
  by (induction k) (auto intro: valid_next_day)

lemma days_order:
  assumes "valid_day d"
  shows "day_order ((next_day ^^ i) d) \<le> day_order ((next_day ^^ j) d) \<longleftrightarrow> i \<le> j"
proof -
  have up: "day_order ((next_day ^^ i) d) < day_order ((next_day ^^ j) d)" if "i < j" for i j
    using that
  proof (induction j)
    case (Suc j)
    then show ?case using next_day_order [OF valid_days [OF assms, of j]] by (cases "i = j") auto
  qed simp
  show ?thesis using up [of i j] up [of j i] by (cases i j rule: linorder_cases) auto
qed

lemma days_le: "valid_day d \<Longrightarrow> day_le ((next_day ^^ i) d) ((next_day ^^ j) d) \<longleftrightarrow> i \<le> j"
  by (simp add: day_le_order valid_days days_order)

lemma prev_days: "valid_day d \<Longrightarrow> valid_day ((prev_day ^^ k) d) \<and> (next_day ^^ k) ((prev_day ^^ k) d) = d"
proof (induction k)
  case (Suc k)
  have "(next_day ^^ Suc k) (prev_day ((prev_day ^^ k) d)) = (next_day ^^ k) (next_day (prev_day ((prev_day ^^ k) d)))"
    by (simp only: funpow_Suc_right o_apply)
  then show ?case using Suc by (simp add: valid_prev_day next_prev_day del: funpow.simps(2)) (simp add: valid_prev_day)
qed simp

lemma month_days:
  assumes "1 \<le> m" and "m \<le> 12" and "k < nat (days_in_month y m)"
  shows "(next_day ^^ k) (y, m, 1) = (y, m, int k + 1)"
  using assms(3) by (induction k) (auto simp: next_day_def)

end
