(* ===== verification/Wallet_Page.thy ===== *)
theory Wallet_Page
  imports Session_List Js_Date Billing_Hooks
begin

text \<open>
  The wallet (\<^verbatim>\<open>features/wallet/WalletPage.tsx\<close>): the figures of the balance band, the ledger, the list of the caller's
  requests, the daily spend chart and the credit request form. Amounts are decimal strings the engine reads as numbers.
\<close>

section \<open>The ledger\<close>

record LedgerTxn =
  lt_id :: string
  lt_type :: string
  lt_amount :: string
  lt_balance_after :: string
  lt_ref :: "string option"
  lt_ref_name :: "string option"
  lt_created_at :: string
  lt_entry_count :: "nat option"
  lt_period_start :: "string option"
  lt_period_end :: "string option"
  lt_live :: bool

definition ledger_columns :: "(string \<Rightarrow> rat option) \<Rightarrow> (string \<times> (LedgerTxn \<Rightarrow> sort_key) option) list" where
  "ledger_columns date =
     [(''created_at'', Some (\<lambda>r. KNum (date_num (date (lt_created_at r))))),
      (''type'', Some (\<lambda>r. KOther (lt_type r))),
      (''amount'', Some (\<lambda>r. KNum (js_number (lt_amount r)))),
      (''balance_after'', Some (\<lambda>r. KNum (js_number (lt_balance_after r)))),
      (''ref'', None)]"

text \<open>The span a rolled-up row covers, and whether it prints one.\<close>

definition prints_span :: "LedgerTxn \<Rightarrow> bool" where
  "prints_span r =
     (1 < opt_else (lt_entry_count r) 1 \<and> str_truthy (lt_period_start r) \<and> str_truthy (lt_period_end r) \<and> \<not> lt_live r)"

text \<open>A hold is neutral: it moves balance into reserve.\<close>

definition amount_tone :: "LedgerTxn \<Rightarrow> string" where
  "amount_tone r =
     (if lt_type r = ''hold'' then ''text-muted''
      else case js_number (lt_amount r) of
             Fin n \<Rightarrow> (if 0 < n then ''text-free'' else if n < 0 then ''text-danger'' else [])
           | PosInf \<Rightarrow> ''text-free'' | NegInf \<Rightarrow> ''text-danger'' | NaN \<Rightarrow> [])"

definition wallet_defaults :: table_defaults where
  "wallet_defaults = \<lparr>td_sort = Some ''created_at'', td_dir = Some ''desc'', td_tab = None\<rparr>"

definition txnTypes :: "LedgerTxn list \<Rightarrow> string list" where
  "txnTypes txns = distinct_values (\<lambda>r. Some (lt_type r)) txns"

definition ledger_matched :: "params \<Rightarrow> string \<Rightarrow> LedgerTxn list \<Rightarrow> LedgerTxn list" where
  "ledger_matched ps typeFilter txns =
     (let q = to_lower (trim (ts_query (useTableState [] wallet_defaults ps))) in
      filter (\<lambda>r. (typeFilter = [] \<or> lt_type r = typeFilter) \<and>
        (q = [] \<or> str_includes (to_lower (str_or (lt_ref r) [])) q \<or> str_includes (to_lower (str_or (lt_ref_name r) [])) q)) txns)"

definition ledger_rows ::
  "(string \<Rightarrow> string \<Rightarrow> int) \<Rightarrow> (jsnum \<Rightarrow> string) \<Rightarrow> (string \<Rightarrow> rat option) \<Rightarrow> params \<Rightarrow> string \<Rightarrow> LedgerTxn list \<Rightarrow> LedgerTxn list" where
  "ledger_rows coll ns date ps typeFilter txns =
     (let st = useTableState [] wallet_defaults ps in
      sortRows coll ns (ledger_matched ps typeFilter txns)
        (Option.bind (Option.bind (ts_sort st) (map_of (ledger_columns date))) id) (ts_dir st))"

definition liveRows :: "LedgerTxn list \<Rightarrow> LedgerTxn list" where
  "liveRows txns = filter lt_live txns"

section \<open>Tabs\<close>

definition walletTab :: "params \<Rightarrow> string" where
  "walletTab ps = str_or (nonempty (usp_get ''tab'' ps)) ''overview''"

definition setWalletTab :: "string \<Rightarrow> params \<Rightarrow> params" where
  "setWalletTab v prev = (if v = ''overview'' then usp_delete ''tab'' prev else usp_set ''tab'' v prev)"

section \<open>Requests\<close>

record my_request =
  mr_id :: string
  mr_kind :: string
  mr_status :: string
  mr_created_at :: "string option"
  mr_amount :: string
  mr_level :: string

text \<open>One list for both funding paths; a top-up reads as a request at user level.\<close>

definition as_topup :: "my_request \<Rightarrow> my_request" where
  "as_topup r = r\<lparr>mr_level := ''user'', mr_kind := ''topup''\<rparr>"

definition myReqs :: "my_request list \<Rightarrow> my_request list \<Rightarrow> my_request list" where
  "myReqs allocs topups = map (\<lambda>r. r\<lparr>mr_kind := ''allocation''\<rparr>) allocs @ map as_topup topups"

definition pending_count :: "my_request list \<Rightarrow> nat" where
  "pending_count reqs = length (filter (\<lambda>r. mr_status r = ''pending'') reqs)"

definition request_ms :: "(string \<Rightarrow> rat option) \<Rightarrow> my_request \<Rightarrow> jsnum" where
  "request_ms date r = (case mr_created_at r of None \<Rightarrow> Fin 0 | Some c \<Rightarrow> date_num (date c))"

definition recentReqs :: "(string \<Rightarrow> rat option) \<Rightarrow> my_request list \<Rightarrow> my_request list" where
  "recentReqs date reqs = take 5 (js_sort (\<lambda>a b. num_diff (request_ms date b) (request_ms date a) \<le> 0) reqs)"

section \<open>Figures\<close>

definition low :: "rat option \<Rightarrow> rat option \<Rightarrow> bool" where
  "low available balance =
     (case (available, balance) of (Some a, Some bal) \<Rightarrow> 0 < bal \<and> a / bal < 1 / 10 | _ \<Rightarrow> False)"

definition runwayHours :: "rat option \<Rightarrow> burning list option \<Rightarrow> rat option" where
  "runwayHours available sessions =
     (let burn = sessionBurnPerHour sessions in if 0 < burn then map_option (\<lambda>a. a / burn) available else None)"

definition suggested_need :: "rat option \<Rightarrow> rat option \<Rightarrow> string option" where
  "suggested_need available balance =
     (if low available balance then Some (show_int (max 100 (js_round (opt_else balance 0 * (1 / 2))))) else None)"

section \<open>Daily spend\<close>

datatype spend_mode = Last30 | Month | Range

definition month_fields :: "string \<Rightarrow> (int \<times> int) option" where
  "month_fields s =
     (case split_on (CHR ''-'') s of
        [a, b] \<Rightarrow>
          if length a = 4 \<and> length b = 2 \<and> list_all is_digit (a @ b)
          then Some (int (nat_of_digits a), int (nat_of_digits b)) else None
      | _ \<Rightarrow> None)"

text \<open>The span of days; \<open>offset\<close> is the viewer's clock, the same all year, \<open>today\<close> the local day.\<close>

definition last30 :: "day \<Rightarrow> day \<times> day" where
  "last30 today = ((prev_day ^^ 29) today, today)"

definition spendRange :: "int \<Rightarrow> day \<Rightarrow> spend_mode \<Rightarrow> string \<Rightarrow> string \<Rightarrow> string \<Rightarrow> day \<times> day" where
  "spendRange offset today mode spendMonth spendFrom spendTo =
     (case mode of
        Month \<Rightarrow> (case month_fields spendMonth of Some (y, m) \<Rightarrow> (month_start y m, month_end y m) | None \<Rightarrow> last30 today)
      | Range \<Rightarrow>
          (case (date_fields spendFrom, date_fields spendTo) of
             (Some f, Some u) \<Rightarrow> if day_le (local_day offset f) (local_day offset u) then (local_day offset f, local_day offset u) else last30 today
           | _ \<Rightarrow> last30 today)
      | Last30 \<Rightarrow> last30 today)"

text \<open>\<^verbatim>\<open>while (cur <= to && guard++ < 400)\<close>\<close>

fun walk_days :: "nat \<Rightarrow> day \<Rightarrow> day \<Rightarrow> day list" where
  "walk_days 0 cur to = []"
| "walk_days (Suc guard) cur to = (if day_le cur to then cur # walk_days guard (next_day cur) to else [])"

text \<open>The columns of the chart; \<open>rows\<close> are the server's days and amounts, of which the last one of a day counts.\<close>

definition spendDays :: "(string \<times> rat) list \<Rightarrow> day \<times> day \<Rightarrow> (string \<times> rat) list" where
  "spendDays rows rng =
     map (\<lambda>d. (iso_day d, opt_else (map_of (rev rows) (iso_day d)) 0)) (walk_days 400 (fst rng) (snd rng))"

definition spend_total :: "(string \<times> rat) list \<Rightarrow> rat" where
  "spend_total days = foldl (\<lambda>sum d. sum + snd d) 0 days"

definition spend_max :: "(string \<times> rat) list \<Rightarrow> rat" where
  "spend_max days = foldr max (map snd days) 0"

definition column_height :: "(string \<times> rat) list \<Rightarrow> rat \<Rightarrow> rat" where
  "column_height days spent = spent / spend_max days * 100"

definition spend_ticks :: "nat \<Rightarrow> nat list" where
  "spend_ticks n = (if 4 \<le> n then [0, (n - 1) div 3, (n - 1) * 2 div 3, n - 1] else [0..<n])"

section \<open>The credit request form\<close>

definition hasApprover :: "string option \<Rightarrow> Membership option \<Rightarrow> bool" where
  "hasApprover activeId membership =
     (str_truthy activeId \<and> (case membership of None \<Rightarrow> True | Some m \<Rightarrow> mb_has_group_admin m \<noteq> Some False))"

fun num_pos :: "jsnum \<Rightarrow> bool" where
  "num_pos (Fin r) = (0 < r)"
| "num_pos PosInf = True"
| "num_pos _ = False"

fun num_le0 :: "jsnum \<Rightarrow> bool" where
  "num_le0 (Fin r) = (r \<le> 0)"
| "num_le0 NegInf = True"
| "num_le0 _ = False"

definition amount_error :: "string \<Rightarrow> bool" where
  "amount_error amount = (trim amount \<noteq> [] \<and> (\<not> is_finite (js_number amount) \<or> num_le0 (js_number amount)))"

definition credit_valid :: "string option \<Rightarrow> Membership option \<Rightarrow> string \<Rightarrow> string \<Rightarrow> bool" where
  "credit_valid activeId membership amount note =
     (trim amount \<noteq> [] \<and> num_pos (js_number amount) \<and> str_truthy activeId \<and> hasApprover activeId membership \<and> trim note \<noteq> [])"

datatype blocker = NoActiveGroup | MissingAmount | MissingReason

definition blockers :: "string option \<Rightarrow> string \<Rightarrow> string \<Rightarrow> blocker list" where
  "blockers activeId amount note =
     (if \<not> str_truthy activeId then [NoActiveGroup] else []) @
     (if trim amount = [] \<or> num_le0 (js_number amount) then [MissingAmount] else []) @
     (if trim note = [] then [MissingReason] else [])"

text \<open>Leaving the field rewrites it as a number between 1 and a million; \<open>ns\<close> renders the number.\<close>

fun clamp_amount :: "jsnum \<Rightarrow> rat" where
  "clamp_amount (Fin r) = (if r = 0 then 1 else min 1000000 (max 1 r))"
| "clamp_amount PosInf = 1000000"
| "clamp_amount NegInf = 1"
| "clamp_amount NaN = 1"

definition blur_amount :: "(rat \<Rightarrow> string) \<Rightarrow> string \<Rightarrow> string" where
  "blur_amount ns v = ns (clamp_amount (js_number v))"

definition submit_request :: "AuthState \<Rightarrow> string \<Rightarrow> string \<Rightarrow> mutation_def option" where
  "submit_request s amount note =
     (let membership = find (\<lambda>m. Some (mb_group_id m) = activeProjectId s) (memberships s) in
      if \<not> credit_valid (activeProjectId s) membership amount note then None
      else Some (useCreateAllocationRequest
             (JObj [(''level'', JStr ''user''), (''group_id'', js_opt (activeProjectId s)),
                    (''amount'', JStr (trim amount)), (''note'', JStr (trim note))])))"

definition request_guard :: "string \<Rightarrow> string \<Rightarrow> bool \<Rightarrow> bool" where
  "request_guard amount note pending = ((trim amount \<noteq> [] \<or> trim note \<noteq> []) \<and> \<not> pending)"

section \<open>The spend chart\<close>

lemma walk_days_span:
  assumes "valid_day d"
  shows "walk_days g ((next_day ^^ i) d) ((next_day ^^ n) d) = map (\<lambda>k. (next_day ^^ k) d) [i..<min (Suc n) (i + g)]"
proof (induction g arbitrary: i)
  case (Suc g)
  show ?case
  proof (cases "i \<le> n")
    case True
    have "walk_days (Suc g) ((next_day ^^ i) d) ((next_day ^^ n) d) = (next_day ^^ i) d # walk_days g ((next_day ^^ Suc i) d) ((next_day ^^ n) d)"
      using True days_le [OF assms, of i n] by simp
    also have "\<dots> = (next_day ^^ i) d # map (\<lambda>k. (next_day ^^ k) d) [Suc i..<min (Suc n) (Suc i + g)]"
      by (simp only: Suc.IH)
    also have "\<dots> = map (\<lambda>k. (next_day ^^ k) d) [i..<min (Suc n) (i + Suc g)]"
      using True by (subst (2) upt_conv_Cons) auto
    finally show ?thesis .
  next
    case False
    then show ?thesis using days_le [OF assms, of i n] by simp
  qed
qed simp

lemma month_start_valid: "valid_day (month_start y m)"
  using pos_mod_bound [of 12 "m - 1"] by (simp add: month_start_def valid_day_def)

lemma month_end_steps: "\<exists>n. 27 \<le> n \<and> n \<le> 30 \<and> month_end y m = (next_day ^^ n) (month_start y m)"
proof -
  let ?y = "full_year y + (m - 1) div 12" and ?m = "(m - 1) mod 12 + 1"
  let ?n = "nat (days_in_month ?y ?m) - 1"
  have m: "1 \<le> ?m" "?m \<le> 12" using pos_mod_bound [of 12 "m - 1"] pos_mod_sign [of 12 "m - 1"] by linarith+
  have "?n < nat (days_in_month ?y ?m)" using days_in_month_bounds(4) [of ?y ?m] by linarith
  from month_days [OF m this] have "(next_day ^^ ?n) (month_start y m) = month_end y m"
    using days_in_month_bounds(4) [of ?y ?m] by (simp add: month_start_def month_end_def Let_def)
  moreover have "27 \<le> ?n" "?n \<le> 30" using days_in_month_bounds(1,2) [of ?y ?m] by linarith+
  ultimately show ?thesis by metis
qed

lemma last30_steps: "valid_day today \<Longrightarrow> valid_day (fst (last30 today)) \<and> today = (next_day ^^ 29) (fst (last30 today))"
  using prev_days [of today 29] by (simp add: last30_def)

text \<open>C29: The spend chart has a column for every day of its span, in order, with the amount the server reports for that day or
  zero; the default span is thirty days ending today and a month's span is that month. But a span is cut after 400 days, so
  a longer custom range loses its last days, and west of Greenwich a custom range starts and ends a day early. The clock of the
  viewer is taken to have no daylight saving.\<close>

theorem spend_chart_days:
  assumes "valid_day from"
  shows "spendDays rows (from, (next_day ^^ n) from) =
      map (\<lambda>k. (iso_day ((next_day ^^ k) from), opt_else (map_of (rev rows) (iso_day ((next_day ^^ k) from))) 0)) [0..<min (Suc n) 400] \<and>
    (valid_day today \<longrightarrow> length (spendDays rows (spendRange offset today Last30 mo f u)) = 30 \<and>
       fst (last (spendDays rows (spendRange offset today Last30 mo f u))) = iso_day today) \<and>
    (month_fields mo = Some (y, m) \<longrightarrow> fst (hd (spendDays rows (spendRange offset today Month mo f u))) = iso_day (month_start y m) \<and>
       fst (last (spendDays rows (spendRange offset today Month mo f u))) = iso_day (month_end y m)) \<and>
    (date_fields f = Some from \<and> date_fields u = Some from \<and> offset < 0 \<longrightarrow>
       spendRange offset today Range mo f u = (prev_day from, prev_day from))"
proof -
  let ?col = "\<lambda>d. (iso_day d, opt_else (map_of (rev rows) (iso_day d)) 0)"
  have gen: "spendDays rows (d, (next_day ^^ n) d) = map (\<lambda>k. ?col ((next_day ^^ k) d)) [0..<min (Suc n) 400]" if "valid_day d" for d n
    using walk_days_span [OF that, of 400 0 n] by (simp add: spendDays_def del: upt_Suc)
  have dflt: "length (spendDays rows (last30 today)) = 30 \<and> fst (last (spendDays rows (last30 today))) = iso_day today" if "valid_day today"
  proof -
    define d where "d = fst (last30 today)"
    have d: "valid_day d" "(next_day ^^ 29) d = today" "last30 today = (d, today)"
      using last30_steps [OF that] by (simp_all add: d_def last30_def del: funpow.simps)
    have "spendDays rows (last30 today) = map (\<lambda>k. ?col ((next_day ^^ k) d)) [0..<30]"
      using gen [OF d(1), of 29] unfolding d(2,3) by simp
    then show ?thesis using d(2) by (simp add: last_map del: funpow.simps)
  qed
  have mon: "fst (hd (spendDays rows (month_start y m, month_end y m))) = iso_day (month_start y m) \<and>
      fst (last (spendDays rows (month_start y m, month_end y m))) = iso_day (month_end y m)"
  proof -
    obtain k where k: "k \<le> 30" "month_end y m = (next_day ^^ k) (month_start y m)" using month_end_steps by blast
    then show ?thesis using gen [OF month_start_valid, of y m k] by (simp add: hd_map last_map del: upt_Suc)
  qed
  have "day_le (prev_day from) (prev_day from)" by (simp add: day_le_def split: prod.splits)
  then show ?thesis using gen [OF assms] dflt mon by (simp add: spendRange_def local_day_def)
qed

theorem spend_chart_days_witness:
  "length (spendDays [] ((2024, 1, 1), (next_day ^^ 500) (2024, 1, 1))) = 400 \<and>
   spendRange (-300) (2026, 6, 12) Range [] ''2026-06-01'' ''2026-06-01'' = ((2026, 5, 31), (2026, 5, 31))"
proof -
  have "valid_day (2024, 1, 1)" "valid_day (2026, 6, 1)" by (simp_all add: valid_day_def days_in_month_def)
  note a = spend_chart_days [OF this(1), of "[]" 500] and b = spend_chart_days [OF this(2), of "[]" 0 "(2026, 6, 12)" "-300" "[]" "''2026-06-01''" "''2026-06-01''"]
  have f: "date_fields ''2026-06-01'' = Some (2026, 6, 1)"
    by (simp add: date_fields_def is_digit_def nat_of_digits_def digit_val_def valid_day_def days_in_month_def)
  have "length (spendDays [] ((2024, 1, 1), (next_day ^^ 500) (2024, 1, 1))) = 400"
    unfolding a [THEN conjunct1] by (simp del: upt_Suc)
  then show ?thesis using b f by (simp add: prev_day_def days_in_month_def)
qed

lemma spend_ticks_in_range: "i \<in> set (spend_ticks n) \<Longrightarrow> i < n"
  by (auto simp: spend_ticks_def split: if_splits)

lemma column_height_bounds:
  assumes "(k, x) \<in> set days" and "0 < x"
  shows "0 < column_height days x \<and> column_height days x \<le> 100"
proof -
  have "x \<le> foldr max (map snd ds) 0" if "(k, x) \<in> set ds" for ds
    using that by (induction ds) (auto simp: max_def)
  then have "x \<le> spend_max days" using assms(1) by (simp add: spend_max_def)
  then show ?thesis using assms(2) by (simp add: column_height_def divide_le_eq)
qed

section \<open>The ledger tab and the request form\<close>

text \<open>The wallet's tab and the ledger's table share one address parameter. While the ledger tab is open, the table counts
  itself as filtered although nothing is, so a wallet without transactions is told that nothing matches; and clearing
  that filter leaves the ledger for the overview.\<close>

theorem ledger_tab_is_a_filter:
  assumes "walletTab ps = ''ledger''"
  shows "isFiltered wallet_defaults (useTableState [] wallet_defaults ps) \<and> walletTab (clear_table [] ps) = ''overview''"
proof -
  have tab: "usp_get ''tab'' ps = Some ''ledger''"
    using assms by (cases "usp_get ''tab'' ps") (auto simp: walletTab_def nonempty_def split: if_splits)
  have "usp_get ''tab'' (clear_table [] ps) = None"
    by (simp add: clear_table_def set_params_def Let_def param_key_def change_one_def usp_get_delete)
  then show ?thesis using tab by (simp add: isFiltered_def useTableState_def wallet_defaults_def param_key_def walletTab_def)
qed

theorem ledger_tab_is_a_filter_witness: "isFiltered wallet_defaults (useTableState [] wallet_defaults (setWalletTab ''ledger'' []))"
proof -
  have "walletTab (setWalletTab ''ledger'' []) = ''ledger''" by (simp add: walletTab_def setWalletTab_def usp_get_set usp_get_def)
  from ledger_tab_is_a_filter [OF this] show ?thesis by simp
qed

text \<open>A credit request is sent only when it can be granted and read. What is sent asks for a positive amount for the active
  group, with a reason, and only if that group has someone to approve it; a form that cannot be sent names what is missing,
  except when the amount is not a number or nobody could approve.\<close>

theorem credit_request_gate:
  "(case submit_request s amount note of
      None \<Rightarrow> blockers (activeProjectId s) amount note \<noteq> [] \<or> js_number amount = NaN \<or>
        (\<exists>m \<in> set (memberships s). Some (mb_group_id m) = activeProjectId s \<and> mb_has_group_admin m = Some False)
    | Some mu \<Rightarrow> blockers (activeProjectId s) amount note = [] \<and> num_pos (js_number amount) \<and> trim note \<noteq> [] \<and>
        (\<exists>g. activeProjectId s = Some g \<and> g \<noteq> [] \<and>
           mu = useCreateAllocationRequest (JObj [(''level'', JStr ''user''), (''group_id'', JStr g),
             (''amount'', JStr (trim amount)), (''note'', JStr (trim note))])))"
proof -
  define mb where "mb = find (\<lambda>m. Some (mb_group_id m) = activeProjectId s) (memberships s)"
  have pos: "\<not> num_le0 n" if "num_pos n" for n using that by (cases n) auto
  have cases: "num_pos n \<or> num_le0 n \<or> n = NaN" for n by (cases n) auto
  have sub: "submit_request s amount note = (if \<not> credit_valid (activeProjectId s) mb amount note then None
      else Some (useCreateAllocationRequest (JObj [(''level'', JStr ''user''), (''group_id'', js_opt (activeProjectId s)),
        (''amount'', JStr (trim amount)), (''note'', JStr (trim note))])))"
    by (simp only: submit_request_def mb_def Let_def)
  show ?thesis
  proof (cases "credit_valid (activeProjectId s) mb amount note")
    case True
    then obtain g where g: "activeProjectId s = Some g" "g \<noteq> []" by (cases "activeProjectId s") (auto simp: credit_valid_def)
    have "blockers (activeProjectId s) amount note = []" "num_pos (js_number amount)" "trim note \<noteq> []"
      using True pos g by (auto simp: credit_valid_def blockers_def)
    then show ?thesis using sub True g by simp
  next
    case False
    then consider "trim amount = []" | "\<not> num_pos (js_number amount)" | "\<not> str_truthy (activeProjectId s)" | "trim note = []"
      | m where "mb = Some m" "mb_has_group_admin m = Some False"
      by (cases mb) (auto simp: credit_valid_def hasApprover_def)
    then have "blockers (activeProjectId s) amount note \<noteq> [] \<or> js_number amount = NaN \<or>
        (\<exists>m \<in> set (memberships s). Some (mb_group_id m) = activeProjectId s \<and> mb_has_group_admin m = Some False)"
    proof cases
      case 2
      then show ?thesis using cases [of "js_number amount"] by (auto simp: blockers_def)
    next
      case 5
      then show ?thesis by (auto simp: mb_def find_Some_iff)
    qed (auto simp: blockers_def)
    then show ?thesis using sub False by simp
  qed
qed

text \<open>Leaving the amount field always leaves a sendable amount.\<close>

theorem credit_request_gate_witness:
  "submit_request (initial_auth\<lparr>activeProjectId := Some ''g1''\<rparr>) ''7'' ''x'' \<noteq> None"
proof -
  have "js_number ''7'' = Fin 7" "trim ''7'' = ''7''" "trim ''x'' = ''x''"
    by (simp_all add: js_number_def Let_def trim_def js_space_def to_lower_def lower_char_def unsigned_literal_def is_digit_def
        exponent_of_def nat_of_digits_def digit_val_def)
  then show ?thesis
    using credit_request_gate [of "initial_auth\<lparr>activeProjectId := Some ''g1''\<rparr>" "''7''" "''x''"]
    by (auto simp: blockers_def split: option.splits)
qed

lemma clamp_amount_bounds: "1 \<le> clamp_amount n \<and> clamp_amount n \<le> 1000000"
  by (cases n) auto

end
