(* ===== verification/Number_Field.thy ===== *)
theory Number_Field
  imports Js_Number
begin

text \<open>
  The number fields of the admin forms. The browser's \<^verbatim>\<open>type="number"\<close> input holds the empty text or the text of a finite
  number; several fields replace their text when the focus leaves them, by the nearest value of their range. \<open>ns\<close> writes a
  number as \<^verbatim>\<open>String(n)\<close> does; what is relied on of it is that such a text reads back.
\<close>

section \<open>Number fields\<close>

text \<open>What leaving a field makes of its text, \<^verbatim>\<open>Math.min(m, Math.max(0, Number(v) || 0))\<close>.\<close>

fun clamp_num :: "rat \<Rightarrow> jsnum \<Rightarrow> rat" where
  "clamp_num m (Fin r) = min m (max 0 r)"
| "clamp_num m PosInf = m"
| "clamp_num m _ = 0"

definition blur_text :: "(rat \<Rightarrow> string) \<Rightarrow> rat \<Rightarrow> string \<Rightarrow> string" where
  "blur_text ns m v = ns (clamp_num m (js_number v))"

text \<open>A finite decimal, which is what a text field can hold.\<close>

definition decimal :: "rat \<Rightarrow> bool" where
  "decimal r = (\<exists>n f. r = of_nat n / 10 ^ f)"

definition reads_back :: "(rat \<Rightarrow> string) \<Rightarrow> bool" where
  "reads_back ns = (\<forall>r. decimal r \<longrightarrow> js_number (ns r) = Fin r)"

text \<open>What a number input can hold: the empty text, which reads as 0, or the text of a finite number.\<close>

definition number_text :: "string \<Rightarrow> bool" where
  "number_text v = is_finite (js_number v)"

section \<open>Decimals\<close>

lemma decimal_nat: "decimal (of_nat n)"
  unfolding decimal_def by (rule exI [of _ n], rule exI [of _ 0]) simp

lemma decimal_scale: "decimal (of_nat n / 10 ^ f * 10 ^ k)" and decimal_shrink: "decimal (of_nat n / 10 ^ f / 10 ^ k)"
proof -
  show "decimal (of_nat n / 10 ^ f * 10 ^ k)"
    unfolding decimal_def by (rule exI [of _ "n * 10 ^ k"], rule exI [of _ f]) simp
  show "decimal (of_nat n / 10 ^ f / 10 ^ k)"
    unfolding decimal_def by (rule exI [of _ n], rule exI [of _ "f + k"]) (simp add: power_add)
qed

lemma exponent_power: "exponent_of s = Some e \<Longrightarrow> (\<exists>k. e = 10 ^ k) \<or> (\<exists>k. e = 1 / 10 ^ k)"
  by (auto simp: exponent_of_def Let_def split: list.splits if_splits prod.splits intro: exI [of _ 0])

lemma unsigned_decimal: "unsigned_literal s = Some r \<Longrightarrow> decimal r"
proof -
  assume r: "unsigned_literal s = Some r"
  define parts where "parts = (case dropWhile is_digit s of c # q \<Rightarrow> if c = CHR ''.'' then (takeWhile is_digit q, dropWhile is_digit q)
      else ([], dropWhile is_digit s) | [] \<Rightarrow> ([], []))"
  obtain fp r2 where p: "parts = (fp, r2)" by (cases parts)
  obtain e where e: "exponent_of r2 = Some e" and req: "r = of_nat (nat_of_digits (takeWhile is_digit s @ fp)) / 10 ^ length fp * e"
    using r p unfolding unsigned_literal_def Let_def parts_def [symmetric] by (auto split: if_splits)
  show "decimal r" using exponent_power [OF e] decimal_scale decimal_shrink unfolding req by fastforce
qed

lemma radix_decimal: "radix_literal b ds = Fin r \<Longrightarrow> decimal r"
  by (auto simp: radix_literal_def decimal_nat split: if_splits)

lemma number_decimal: "js_number s = Fin r \<Longrightarrow> decimal r \<or> r \<le> 0"
proof -
  assume r: "js_number s = Fin r"
  have zero: "decimal 0" using decimal_nat [of 0] by simp
  have nn: "0 \<le> q" if "decimal q" for q using that by (auto simp: decimal_def)
  show "decimal r \<or> r \<le> 0"
    using r zero unsigned_decimal nn by (auto simp: js_number_def Let_def radix_decimal split: if_splits option.splits)
qed

lemma clamp_decimal: "decimal m \<Longrightarrow> decimal (clamp_num m (js_number s))"
proof (cases "js_number s")
  case (Fin r)
  moreover assume "decimal m"
  moreover have "decimal 0" using decimal_nat [of 0] by simp
  ultimately show ?thesis using number_decimal [of s r] by (cases "decimal r") (auto simp: min_def max_def)
qed (use decimal_nat [of 0] in simp_all)

lemma clamp_bounds: "0 \<le> m \<Longrightarrow> 0 \<le> clamp_num m x \<and> clamp_num m x \<le> m"
  by (cases x) auto

lemma decimal_nonneg: "decimal r \<Longrightarrow> 0 \<le> r"
  by (auto simp: decimal_def)

lemma blur_reads:
  assumes "reads_back ns" and "decimal m"
  shows "js_number (blur_text ns m v) = Fin (clamp_num m (js_number v))"
  using assms clamp_decimal [OF assms(2)] by (simp add: reads_back_def blur_text_def)

text \<open>A writing of decimals that is read back: the shortest number of places that is exact.\<close>

definition places :: "rat \<Rightarrow> nat" where
  "places r = (LEAST f. \<exists>n. r = of_nat n / 10 ^ f)"

definition write_decimal :: "rat \<Rightarrow> string" where
  "write_decimal r = fixed_digits (places r) (nat \<lfloor>r * 10 ^ places r\<rfloor>)"

lemma reads_back_decimal: "reads_back write_decimal"
proof -
  have "js_number (write_decimal r) = Fin r" if "decimal r" for r
  proof -
    have "\<exists>f n. r = of_nat n / 10 ^ f" using that by (auto simp: decimal_def)
    from LeastI_ex [OF this] obtain n where n: "r = of_nat n / 10 ^ places r" by (auto simp: places_def)
    then have "r * 10 ^ places r = of_nat n" by (metis nonzero_eq_divide_eq power_not_zero zero_neq_numeral)
    then have "nat \<lfloor>r * 10 ^ places r\<rfloor> = n" by simp
    then show ?thesis using n by (simp add: write_decimal_def js_number_fixed_digits)
  qed
  then show ?thesis by (simp add: reads_back_def)
qed

end
