(* ===== verification/Credit_Desk.thy ===== *)
theory Credit_Desk
  imports Wallet_Page Number_Field
begin

text \<open>
  Credit management of the admin console (\<^verbatim>\<open>features/admin/CreditAllocation.tsx\<close>) and the settlement report
  (\<^verbatim>\<open>SettlementReport.tsx\<close>): which pools an administrator manages, what each control sends, and the request inbox and
  history.
\<close>

section \<open>Pools\<close>

record ScopeWallet =
  sw_wallet_id :: string
  sw_scope :: string
  sw_owner_id :: "string option"
  sw_name :: string
  sw_balance :: "string option"
  sw_monthly_grant :: "string option"

definition orgPools :: "ScopeWallet list \<Rightarrow> ScopeWallet list" where
  "orgPools all_pools = filter (\<lambda>p. sw_scope p = ''org'') all_pools"

definition pools :: "ScopeWallet list \<Rightarrow> ScopeWallet list" where
  "pools all_pools = (if orgPools all_pools \<noteq> [] then orgPools all_pools else filter (\<lambda>p. sw_scope p = ''group'') all_pools)"

definition creditTab :: "params \<Rightarrow> string" where
  "creditTab ps = str_or (nonempty (usp_get ''tab'' ps)) ''alloc''"

definition set_credit_tab :: "string \<Rightarrow> params \<Rightarrow> params" where
  "set_credit_tab v prev = (if v = ''alloc'' then usp_delete ''tab'' prev else usp_set ''tab'' v prev)"

definition credit_tabs :: "bool \<Rightarrow> string list" where
  "credit_tabs canMint = [''alloc'', ''requests''] @ (if canMint then [''settlement''] else [])"

text \<open>The children of a pool are rendered fifty at first and two hundred more per press.\<close>

definition child_key :: "string \<Rightarrow> (ScopeWallet \<Rightarrow> sort_key) option" where
  "child_key key =
     map_of [(''name'', \<lambda>c. KOther (sw_name c)),
             (''balance'', \<lambda>c. KNum (js_number (str_or (sw_balance c) ''0''))),
             (''grant'', \<lambda>c. KNum (js_number (str_or (sw_monthly_grant c) ''0'')))] key"

definition pool_rows ::
  "(string \<Rightarrow> string \<Rightarrow> int) \<Rightarrow> (jsnum \<Rightarrow> string) \<Rightarrow> params \<Rightarrow> ScopeWallet \<Rightarrow> nat \<Rightarrow> ScopeWallet list \<Rightarrow> ScopeWallet list" where
  "pool_rows coll ns ps pl presses kids =
     (let st = useTableState (''pool-'' @ sw_wallet_id pl) \<lparr>td_sort = Some ''name'', td_dir = Some ''asc'', td_tab = None\<rparr> ps in
      take (50 + 200 * presses) (sortRows coll ns kids (Option.bind (ts_sort st) child_key) (ts_dir st)))"

definition shows_more :: "nat \<Rightarrow> ScopeWallet list \<Rightarrow> bool" where
  "shows_more presses kids = (50 + 200 * presses < length kids)"

section \<open>What the controls send\<close>



definition amtOk :: "string \<Rightarrow> bool" where
  "amtOk amt = num_pos (js_number amt)"

text \<open>\<^verbatim>\<open>grant || '0'\<close>\<close>

definition doGrant :: "string \<Rightarrow> string \<Rightarrow> mutation_def" where
  "doGrant walletId grant = useSetMonthlyGrant walletId (str_or (nonempty (Some grant)) ''0'')"



definition setTotalGrant :: "string option \<Rightarrow> string \<Rightarrow> mutation_def option" where
  "setTotalGrant sys total_amount = map_option (\<lambda>w. useSetMonthlyGrant w (str_or (nonempty (Some total_amount)) ''0'')) sys"



text \<open>The day and the hour come from lists of numbers, so both read as numbers.\<close>

definition set_schedule :: "nat option \<Rightarrow> nat option \<Rightarrow> string \<Rightarrow> string \<Rightarrow> mutation_def option" where
  "set_schedule day hour d h =
     (case (js_number (str_or (nonempty (Some d)) (show_nat (case day of Some n \<Rightarrow> if n = 0 then 1 else n | None \<Rightarrow> 1))),
            js_number (str_or (nonempty (Some h)) (show_nat (opt_else hour 0)))) of
        (Fin x, Fin y) \<Rightarrow> Some (useSetRefillSchedule x y) | _ \<Rightarrow> None)"


definition bulk_grant :: "ScopeWallet \<Rightarrow> string \<Rightarrow> mutation_def option" where
  "bulk_grant pl grant =
     (case nonempty (sw_owner_id pl) of
        None \<Rightarrow> None
      | Some g \<Rightarrow> if grant = [] then None else Some (useBulkMonthlyGrant (JObj [(''group_id'', JStr g), (''amount'', JStr grant)])))"




section \<open>Requests\<close>

record AllocRequest =
  ar_id :: string
  ar_created_at :: "string option"
  ar_status :: string

record TopupRow =
  tr_id :: string
  tr_created_at :: "string option"
  tr_status :: string

datatype InboxRow = InAlloc AllocRequest | InTopup TopupRow

fun inbox_id :: "InboxRow \<Rightarrow> string" where
  "inbox_id (InAlloc a) = ar_id a"
| "inbox_id (InTopup p) = tr_id p"

fun inbox_created :: "InboxRow \<Rightarrow> string option" where
  "inbox_created (InAlloc a) = ar_created_at a"
| "inbox_created (InTopup p) = tr_created_at p"

definition inbox_ms :: "(string \<Rightarrow> rat option) \<Rightarrow> InboxRow \<Rightarrow> jsnum" where
  "inbox_ms date r = (case inbox_created r of None \<Rightarrow> Fin 0 | Some c \<Rightarrow> date_num (date c))"

definition newer_first :: "(string \<Rightarrow> rat option) \<Rightarrow> InboxRow \<Rightarrow> InboxRow \<Rightarrow> bool" where
  "newer_first date x y = (num_diff (inbox_ms date y) (inbox_ms date x) \<le> 0)"

definition inbox_rows :: "(string \<Rightarrow> rat option) \<Rightarrow> bool \<Rightarrow> AllocRequest list \<Rightarrow> TopupRow list \<Rightarrow> InboxRow list" where
  "inbox_rows date canMint incoming topups =
     js_sort (newer_first date) (map InAlloc incoming @ map InTopup (if canMint then topups else []))"

definition history_rows :: "(string \<Rightarrow> rat option) \<Rightarrow> bool \<Rightarrow> AllocRequest list \<Rightarrow> TopupRow list \<Rightarrow> InboxRow list" where
  "history_rows date canMint handled allTopups =
     js_sort (newer_first date)
       (map InAlloc handled @ map InTopup (if canMint then filter (\<lambda>r. tr_status r \<noteq> ''pending'') allTopups else allTopups))"

text \<open>The chip on the tab: \<open>topups\<close> are the pending top-ups the caller may see.\<close>

definition pending_chip :: "TopupRow list \<Rightarrow> nat option" where
  "pending_chip topups = (if topups = [] then None else Some (length topups))"

fun onApprove :: "string \<Rightarrow> InboxRow \<Rightarrow> mutation_def" where
  "onApprove key (InAlloc a) = useApproveRequest (ar_id a) JUndef key"
| "onApprove key (InTopup p) = useApproveTopupRequest (tr_id p) key"

text \<open>\<open>reason\<close> is the answer of the prompt.\<close>

definition onReject :: "string \<Rightarrow> string option \<Rightarrow> InboxRow \<Rightarrow> mutation_def option" where
  "onReject key reason r =
     (case nonempty reason of
        None \<Rightarrow> None
      | Some why \<Rightarrow>
          Some (case r of InAlloc a \<Rightarrow> useRejectRequest (ar_id a) (JObj [(''reason'', JStr why)]) key
                 | InTopup p \<Rightarrow> useRejectTopupRequest (tr_id p) why))"

section \<open>The settlement report\<close>

text \<open>\<open>inst\<close> turns the value of a date-time field into the instant it names.\<close>

definition run_report :: "(string \<Rightarrow> string) \<Rightarrow> string \<Rightarrow> string \<Rightarrow> string \<Rightarrow> string \<Rightarrow> string \<Rightarrow> BillingReportQuery option" where
  "run_report inst scope scopeId from to groupBy =
     (if from = [] \<or> to = [] then None
      else Some \<lparr>br_scope = scope, br_scope_id = nonempty (Some (trim scopeId)), br_from = inst from, br_to = inst to,
                 br_group_by = Some groupBy, br_format = Some ''json''\<rparr>)"

section \<open>What the desk guarantees\<close>











definition inbox_dated :: "(string \<Rightarrow> rat option) \<Rightarrow> InboxRow set" where
  "inbox_dated date = {r. inbox_ms date r \<noteq> NaN}"

interpretation inbox: comparison "newer_first date" "inbox_dated date" for date
proof
  show "newer_first date x y \<or> newer_first date y x" if "x \<in> inbox_dated date" "y \<in> inbox_dated date" for x y
    using that num_diff_total [of "inbox_ms date x" "inbox_ms date y"] by (auto simp: newer_first_def inbox_dated_def)
  show "newer_first date x z"
    if "x \<in> inbox_dated date" "y \<in> inbox_dated date" "z \<in> inbox_dated date" "newer_first date x y" "newer_first date y z" for x y z
    using that num_diff_trans [of "inbox_ms date z" "inbox_ms date y" "inbox_ms date x"] by (auto simp: newer_first_def inbox_dated_def)
qed

text \<open>The inbox and the history are made of the rows the queries deliver, which is at most the first hundred of each: the top-up
  listing stops after one page, and the allocation query asks for one page of a hundred. Of those rows the inbox keeps every
  one, newest first; approving or rejecting a row addresses that request at the service of its kind, and a rejection is sent
  only with a reason.\<close>

lemma inbox_of_delivered:
  assumes "\<forall>r \<in> set (map InAlloc incoming @ map InTopup topups). inbox_ms date r \<noteq> NaN"
  shows "mset (inbox_rows date True incoming topups) = mset (map InAlloc incoming) + mset (map InTopup topups) \<and>
    set (inbox_rows date False incoming topups) = InAlloc ` set incoming \<and>
    sorted_wrt (\<lambda>x y. num_diff (inbox_ms date y) (inbox_ms date x) \<le> 0) (inbox_rows date True incoming topups) \<and>
    rq_params (mu_request (onApprove key r)) = [(''request_id'', inbox_id r)] \<and>
    (case onReject key reason r of
       None \<Rightarrow> \<not> str_truthy reason
     | Some m \<Rightarrow> str_truthy reason \<and> rq_params (mu_request m) = [(''request_id'', inbox_id r)] \<and>
         rq_body (mu_request m) = Some (JObj [(''reason'', js_opt reason)]))"
proof -
  have "set (map InAlloc incoming @ map InTopup topups) \<subseteq> inbox_dated date" using assms by (auto simp: inbox_dated_def)
  from inbox.sort_sorted [OF this]
  have sorted_rows: "sorted_wrt (\<lambda>x y. num_diff (inbox_ms date y) (inbox_ms date x) \<le> 0) (inbox_rows date True incoming topups)"
    by (simp add: inbox_rows_def newer_first_def [abs_def])
  have decide: "rq_params (mu_request (onApprove key r)) = [(''request_id'', inbox_id r)]"
    "(case onReject key reason r of None \<Rightarrow> \<not> str_truthy reason
      | Some m \<Rightarrow> str_truthy reason \<and> rq_params (mu_request m) = [(''request_id'', inbox_id r)] \<and>
          rq_body (mu_request m) = Some (JObj [(''reason'', js_opt reason)]))"
    by (cases r; cases reason;
        auto simp: onReject_def nonempty_def useApproveRequest_def useRejectRequest_def reqAction_def useApproveTopupRequest_def
          useRejectTopupRequest_def use_mutation_def http_send_def)+
  have "mset (inbox_rows date True incoming topups) = mset (map InAlloc incoming) + mset (map InTopup topups)"
    "set (inbox_rows date False incoming topups) = InAlloc ` set incoming"
    by (simp_all add: inbox_rows_def)
  then show ?thesis using sorted_rows decide by blast
qed

text \<open>A blank field resets what it shows. The set buttons of the monthly figures are enabled with an empty field whose
  placeholder is the current value, and then send zero.\<close>

theorem blank_grant_resets:
  "doGrant w [] = useSetMonthlyGrant w ''0'' \<and> setTotalGrant (Some w) [] = Some (useSetMonthlyGrant w ''0'') \<and>
   \<not> amtOk [] \<and> bulk_grant pl [] = None"
  by (simp add: doGrant_def setTotalGrant_def bulk_grant_def amtOk_def js_number_def Let_def trim_def split: option.splits)

text \<open>The chip counts top-ups only: for an administrator who cannot mint it ignores every request of the inbox and counts
  requests of their own.\<close>

lemma chip_misses_inbox:
  assumes "topups \<noteq> []"
  shows "pending_chip topups = Some (length topups) \<and> length (inbox_rows date False incoming topups) = length incoming \<and>
    pending_chip [] = None"
  using assms by (simp add: pending_chip_def inbox_rows_def)

end
