(* ===== verification/Volume_Page.thy ===== *)
theory Volume_Page
  imports Row_Order Format Resource_Hooks Ui_Controls
begin

text \<open>
  The volume screen (\<^verbatim>\<open>features/volume/VolumePage.tsx\<close>): the list with its actions, the form for a new volume, the
  sharing form with its staged changes, and the quota form. The rules of the server these forms anticipate
  (\<^verbatim>\<open>backend/app/api/volumes_router.py\<close>) are modelled beside them: the storage limit and the permission table.
\<close>

section \<open>The list\<close>

record Vol =
  vo_id :: string
  vo_name :: "string option"
  vo_scope :: "string option"
  vo_scope_id :: "string option"
  vo_type :: "string option"
  vo_access_mode :: "string option"
  vo_quota_gb :: "rat option"
  vo_used_gb :: "rat option"
  vo_role :: "string option"
  vo_mount_locked :: bool
  vo_owner_name :: "string option"

definition VOLUME_TYPES :: "string list" where
  "VOLUME_TYPES = [''home'', ''group'', ''dataset'', ''scratch'']"

definition volumeTypeLabel :: "i18n \<Rightarrow> string option \<Rightarrow> string" where
  "volumeTypeLabel tr type =
     (case nonempty type of
        None \<Rightarrow> ''-''
      | Some v \<Rightarrow> if v \<in> set VOLUME_TYPES then i18n_t tr (''volume.type.'' @ v) [] else v)"

text \<open>\<^verbatim>\<open>v.name || v.id\<close>\<close>

definition vol_title :: "Vol \<Rightarrow> string" where
  "vol_title v = str_or (nonempty (vo_name v)) (vo_id v)"

definition projectName :: "Membership list \<Rightarrow> string option \<Rightarrow> string" where
  "projectName ms pid =
     (case find (\<lambda>m. Some (mb_group_id m) = pid) ms of Some m \<Rightarrow> mb_project_name m | None \<Rightarrow> str_or pid ''-'')"

definition scopeText :: "i18n \<Rightarrow> Membership list \<Rightarrow> string \<Rightarrow> Vol \<Rightarrow> string" where
  "scopeText tr ms userId v =
     (if vo_scope v = Some ''global'' then i18n_t tr ''volume.scopeGlobal'' []
      else if vo_scope v = Some ''group'' then i18n_t tr ''volume.scopeGroup'' [(''name'', JStr (projectName ms (vo_scope_id v)))]
      else if vo_scope v = Some ''user'' then
        (if vo_scope_id v = Some userId then i18n_t tr ''volume.scopeMine'' []
         else i18n_t tr ''volume.scopeShared'' [(''name'', js_opt (or_else (vo_owner_name v) (vo_scope_id v)))])
      else scopeLabel tr (vo_scope v))"

definition isSharedToMe :: "string \<Rightarrow> Vol \<Rightarrow> bool" where
  "isSharedToMe userId v = (vo_scope v = Some ''user'' \<and> vo_scope_id v \<noteq> Some userId)"

definition vol_matches :: "string \<Rightarrow> Vol \<Rightarrow> bool" where
  "vol_matches query v =
     (let q = to_lower (trim query) in
      q = [] \<or> str_includes (to_lower (str_or (vo_name v) [])) q \<or> str_includes (to_lower (vo_id v)) q \<or>
      str_includes (to_lower (str_or (vo_type v) [])) q)"

text \<open>\<^verbatim>\<open>v.quota_gb ? (v.used_gb ?? 0) / v.quota_gb : 0\<close>\<close>

definition fill_ratio :: "Vol \<Rightarrow> rat" where
  "fill_ratio v =
     (case vo_quota_gb v of None \<Rightarrow> 0 | Some q \<Rightarrow> if q = 0 then 0 else opt_else (vo_used_gb v) 0 / q)"

definition vol_key :: "i18n \<Rightarrow> Membership list \<Rightarrow> string \<Rightarrow> string \<Rightarrow> (Vol \<Rightarrow> sort_key) option" where
  "vol_key tr ms userId key =
     map_of [(''id'', \<lambda>v. KOther (vol_title v)),
             (''scope'', \<lambda>v. KOther (scopeText tr ms userId v)),
             (''access_mode'', \<lambda>v. KOther (str_or (vo_access_mode v) [])),
             (''quota'', \<lambda>v. KNum (Fin (opt_else (vo_quota_gb v) 0))),
             (''used'', \<lambda>v. KNum (Fin (fill_ratio v)))] key"

definition volume_defaults :: table_defaults where
  "volume_defaults = \<lparr>td_sort = Some ''id'', td_dir = Some ''asc'', td_tab = None\<rparr>"

definition volume_rows ::
  "(string \<Rightarrow> string \<Rightarrow> int) \<Rightarrow> (jsnum \<Rightarrow> string) \<Rightarrow> i18n \<Rightarrow> AuthState \<Rightarrow> params \<Rightarrow> Vol list \<Rightarrow> Vol list" where
  "volume_rows coll ns tr s ps vols =
     (let st = useTableState [] volume_defaults ps in
      sortRows coll ns (filter (vol_matches (ts_query st)) vols)
        (vol_key tr (memberships s) (str_or (jc_sub (claims s)) []) (opt_else (ts_sort st) ''id'')) (ts_dir st))"

definition usage_percent :: "Vol \<Rightarrow> int" where
  "usage_percent v = (case vo_quota_gb v of None \<Rightarrow> 0 | Some q \<Rightarrow> if q = 0 then 0 else min 100 (js_round (fill_ratio v * 100)))"

datatype vol_action = Leave | Share | Expand | ToggleLock | Delete

definition vol_actions :: "string \<Rightarrow> Vol \<Rightarrow> vol_action list" where
  "vol_actions userId v =
     (if isSharedToMe userId v then [Leave]
      else if vo_role v \<noteq> Some ''owner'' then []
      else [Share, Expand, ToggleLock, Delete])"

text \<open>What a press sends; \<open>ok\<close> is the answer of the confirmation. Sharing and expanding open a form.\<close>

definition onLeave :: "string \<Rightarrow> bool \<Rightarrow> Vol \<Rightarrow> mutation_def option" where
  "onLeave userId ok v = (if ok then Some (useLeaveShare (vo_id v) userId) else None)"

definition delete_question :: "Vol \<Rightarrow> confirm_options" where
  "delete_question v =
     \<lparr>cf_consequences = [''volume.consequenceData'', ''volume.consequenceSnapshots''],
      cf_confirmText = (if vo_access_mode v = Some ''ROX'' \<or> vo_scope v = Some ''group'' then Some (vol_title v) else None)\<rparr>"

definition onDelete :: "bool \<Rightarrow> Vol \<Rightarrow> mutation_def option" where
  "onDelete ok v = (if ok then Some (useDeleteVolume (vo_id v) False) else None)"

definition press_lock :: "Vol \<Rightarrow> mutation_def" where
  "press_lock v = useSetVolumeLock (vo_id v) (\<not> vo_mount_locked v)"

fun action_request :: "string \<Rightarrow> bool \<Rightarrow> Vol \<Rightarrow> vol_action \<Rightarrow> mutation_def option" where
  "action_request userId ok v Leave = onLeave userId ok v"
| "action_request userId ok v Delete = onDelete ok v"
| "action_request userId ok v ToggleLock = Some (press_lock v)"
| "action_request userId ok v Share = None"
| "action_request userId ok v Expand = None"

text \<open>The panel below a row: a second click closes it.\<close>

definition toggle_expanded :: "Vol \<Rightarrow> Vol option \<Rightarrow> Vol option" where
  "toggle_expanded v cur = (if map_option vo_id cur = Some (vo_id v) then None else Some v)"

record active_mount =
  am_session_id :: string
  am_name :: "string option"
  am_owner_user_id :: "string option"
  am_mode :: string

text \<open>A mount links to its session only for the session's owner.\<close>

definition mount_link :: "string option \<Rightarrow> active_mount \<Rightarrow> string option" where
  "mount_link myId m = (if am_owner_user_id m = myId then Some (''/sessions/'' @ am_session_id m) else None)"

definition mount_mode :: "active_mount \<Rightarrow> string" where
  "mount_mode m = (if am_mode m = ''ro'' then ''RO'' else ''RW'')"

section \<open>A new volume\<close>

record new_volume =
  nv_scope :: string
  nv_projectId :: string
  nv_name :: string
  nv_type :: string
  nv_accessMode :: string
  nv_quota :: string

definition adminMemberships :: "AuthState \<Rightarrow> Membership list" where
  "adminMemberships s =
     filter (\<lambda>m. mb_role m \<in> {''group_admin'', ''org_admin''} \<or> jc_global_role (claims s) = Some ''super_admin'' \<or>
                 (case mb_org_id m of None \<Rightarrow> False | Some oid \<Rightarrow> oid \<in> set (orgAdminOrgs s))) (memberships s)"

definition canCreateGroup :: "AuthState \<Rightarrow> bool" where
  "canCreateGroup s = (adminMemberships s \<noteq> [])"

definition canCreateGlobal :: "AuthState \<Rightarrow> bool" where
  "canCreateGlobal s = (jc_global_role (claims s) = Some ''super_admin'')"

definition new_volume_init :: "AuthState \<Rightarrow> new_volume" where
  "new_volume_init s =
     \<lparr>nv_scope = ''user'', nv_projectId = (case adminMemberships s of [] \<Rightarrow> [] | m # _ \<Rightarrow> mb_group_id m), nv_name = [],
      nv_type = ''dataset'', nv_accessMode = ''RWX'', nv_quota = ''10''\<rparr>"

definition new_scope_id :: "AuthState \<Rightarrow> new_volume \<Rightarrow> string" where
  "new_scope_id s f =
     (if nv_scope f = ''user'' then str_or (jc_sub (claims s)) []
      else if nv_scope f = ''global'' then ''global'' else nv_projectId f)"

definition scope_takes :: "string \<Rightarrow> string \<Rightarrow> bool" where
  "scope_takes scope v = (if scope = ''global'' then v = ''dataset'' else if scope = ''user'' then v \<noteq> ''group'' else v \<noteq> ''home'')"

definition typeAllowed :: "string \<Rightarrow> string \<Rightarrow> bool" where
  "typeAllowed scope v = (v \<noteq> ''scratch'' \<and> scope_takes scope v)"

definition availableTypes :: "string \<Rightarrow> string list" where
  "availableTypes scope = filter (typeAllowed scope) VOLUME_TYPES"

text \<open>Choosing a scope replaces a type the scope does not offer, and shared volumes start read-only.\<close>

definition choose_scope :: "string \<Rightarrow> new_volume \<Rightarrow> new_volume" where
  "choose_scope nxt f =
     f\<lparr>nv_scope := nxt, nv_type := (if scope_takes nxt (nv_type f) then nv_type f else ''dataset''),
       nv_accessMode := (if nxt = ''global'' then ''ROX'' else nv_accessMode f)\<rparr>"

definition offered_scopes :: "AuthState \<Rightarrow> string list" where
  "offered_scopes s =
     ''user'' # (if canCreateGroup s then [''group''] else []) @ (if canCreateGlobal s then [''global''] else [])"

inductive new_volume_step :: "AuthState \<Rightarrow> new_volume \<Rightarrow> new_volume \<Rightarrow> bool" for s where
  pick_scope: "nxt \<in> set (offered_scopes s) \<Longrightarrow> new_volume_step s f (choose_scope nxt f)"
| pick_group: "g \<in> mb_group_id ` set (adminMemberships s) \<Longrightarrow> new_volume_step s f (f\<lparr>nv_projectId := g\<rparr>)"
| pick_type: "v \<in> set (availableTypes (nv_scope f)) \<Longrightarrow> new_volume_step s f (f\<lparr>nv_type := v\<rparr>)"
| pick_mode: "a \<in> {''RWX'', ''ROX''} \<Longrightarrow> new_volume_step s f (f\<lparr>nv_accessMode := a\<rparr>)"
| type_name: "new_volume_step s f (f\<lparr>nv_name := n\<rparr>)"
| type_quota: "new_volume_step s f (f\<lparr>nv_quota := q\<rparr>)"

text \<open>The storage headroom as the server reports it; \<open>None\<close> is an absent figure.\<close>

record quota_usage =
  qu_has_limit :: bool
  qu_remaining_gb :: "rat option"
  qu_physical_remaining_gb :: "rat option"

text \<open>\<^verbatim>\<open>n > r\<close> and \<^verbatim>\<open>n >= 0\<close> on numbers, \<^verbatim>\<open>n || 0\<close>, and a number as JSON writes it.\<close>

fun num_over :: "jsnum \<Rightarrow> rat \<Rightarrow> bool" where
  "num_over (Fin x) r = (r < x)"
| "num_over PosInf r = True"
| "num_over _ r = False"

fun num_ge0 :: "jsnum \<Rightarrow> bool" where
  "num_ge0 (Fin x) = (0 \<le> x)"
| "num_ge0 PosInf = True"
| "num_ge0 _ = False"

definition num_or0 :: "jsnum \<Rightarrow> jsnum" where
  "num_or0 n = (if num_truthy n then n else Fin 0)"

fun num_json :: "jsnum \<Rightarrow> js" where
  "num_json (Fin x) = JNum x"
| "num_json _ = JNull"

definition overLimit :: "quota_usage option \<Rightarrow> string \<Rightarrow> bool" where
  "overLimit u quota =
     (case u of None \<Rightarrow> False
      | Some x \<Rightarrow> qu_has_limit x \<and> (case qu_remaining_gb x of None \<Rightarrow> False | Some r \<Rightarrow> num_over (num_or0 (js_number quota)) r))"

definition overPhysical :: "quota_usage option \<Rightarrow> string \<Rightarrow> bool" where
  "overPhysical u quota =
     (case Option.bind u qu_physical_remaining_gb of None \<Rightarrow> False | Some r \<Rightarrow> num_over (num_or0 (js_number quota)) r)"

definition new_volume_valid :: "AuthState \<Rightarrow> quota_usage option \<Rightarrow> new_volume \<Rightarrow> bool" where
  "new_volume_valid s u f =
     (trim (new_scope_id s f) \<noteq> [] \<and> trim (nv_name f) \<noteq> [] \<and> num_ge0 (js_number (nv_quota f)) \<and>
      \<not> overLimit u (nv_quota f) \<and> \<not> overPhysical u (nv_quota f))"

datatype volume_blocker = BName | BTarget | BOverLimit | BOverPhysical

definition volume_blockers :: "AuthState \<Rightarrow> quota_usage option \<Rightarrow> new_volume \<Rightarrow> volume_blocker list" where
  "volume_blockers s u f =
     (if trim (nv_name f) = [] then [BName] else []) @ (if trim (new_scope_id s f) = [] then [BTarget] else []) @
     (if overLimit u (nv_quota f) then [BOverLimit] else []) @ (if overPhysical u (nv_quota f) then [BOverPhysical] else [])"

definition new_volume_dirty :: "new_volume \<Rightarrow> bool" where
  "new_volume_dirty f = (trim (nv_name f) \<noteq> [] \<or> nv_quota f \<noteq> ''10'')"

definition submit_volume :: "AuthState \<Rightarrow> quota_usage option \<Rightarrow> new_volume \<Rightarrow> mutation_def option" where
  "submit_volume s u f =
     (if \<not> new_volume_valid s u f then None
      else Some (useCreateVolume (JObj [(''scope'', JStr (nv_scope f)), (''scope_id'', JStr (trim (new_scope_id s f))),
             (''name'', JStr (trim (nv_name f))), (''type'', JStr (nv_type f)), (''access_mode'', JStr (nv_accessMode f)),
             (''quota_gb'', num_json (js_number (nv_quota f)))])))"

text \<open>How much the scope can still provision: the policy headroom capped by the pool.\<close>

definition creatable :: "quota_usage \<Rightarrow> rat option" where
  "creatable u =
     (case (if qu_has_limit u then qu_remaining_gb u else None) of
        Some r \<Rightarrow> Some (case qu_physical_remaining_gb u of Some p \<Rightarrow> min r p | None \<Rightarrow> r)
      | None \<Rightarrow> qu_physical_remaining_gb u)"

section \<open>The quota form\<close>

definition policyCeiling :: "rat \<Rightarrow> quota_usage option \<Rightarrow> rat option" where
  "policyCeiling cur u =
     (case u of None \<Rightarrow> None | Some x \<Rightarrow> if qu_has_limit x then map_option (\<lambda>r. cur + r) (qu_remaining_gb x) else None)"

definition physicalCeiling :: "rat \<Rightarrow> quota_usage option \<Rightarrow> rat option" where
  "physicalCeiling cur u = map_option (\<lambda>r. cur + r) (Option.bind u qu_physical_remaining_gb)"

text \<open>\<open>None\<close> is \<^verbatim>\<open>Infinity\<close>.\<close>

definition quota_ceiling :: "rat \<Rightarrow> quota_usage option \<Rightarrow> rat" where
  "quota_ceiling cur u =
     (let cap = (\<lambda>c m. case c of None \<Rightarrow> m | Some x \<Rightarrow> min x m) in cap (policyCeiling cur u) (cap (physicalCeiling cur u) 1048576))"

definition boundIsPhysical :: "rat \<Rightarrow> quota_usage option \<Rightarrow> bool" where
  "boundIsPhysical cur u =
     (case (physicalCeiling cur u, policyCeiling cur u) of
        (_, None) \<Rightarrow> True | (None, Some _) \<Rightarrow> False | (Some x, Some y) \<Rightarrow> x \<le> y)"

definition quota_target :: "string \<Rightarrow> rat option" where
  "quota_target gb =
     (case js_number gb of Fin r \<Rightarrow> if gb \<noteq> [] \<and> r = of_int \<lfloor>r\<rfloor> then Some r else None | _ \<Rightarrow> None)"

datatype quota_problem = NoShrink | OverPhysical | OverPolicy

definition quota_error :: "rat \<Rightarrow> quota_usage option \<Rightarrow> string \<Rightarrow> quota_problem option" where
  "quota_error cur u gb =
     (case quota_target gb of
        None \<Rightarrow> None
      | Some r \<Rightarrow>
          if r < max 1 cur then Some NoShrink
          else if quota_ceiling cur u < r then Some (if boundIsPhysical cur u then OverPhysical else OverPolicy) else None)"

definition quota_valid :: "rat \<Rightarrow> quota_usage option \<Rightarrow> string \<Rightarrow> bool" where
  "quota_valid cur u gb =
     (case quota_target gb of None \<Rightarrow> False | Some r \<Rightarrow> \<not> r < max 1 cur \<and> \<not> quota_ceiling cur u < r \<and> r \<noteq> cur)"

definition submit_quota :: "string \<Rightarrow> rat \<Rightarrow> quota_usage option \<Rightarrow> string \<Rightarrow> mutation_def option" where
  "submit_quota vid cur u gb =
     (if quota_valid cur u gb then map_option (useUpdateVolumeQuota vid) (quota_target gb) else None)"

text \<open>The field follows the volume until the user has typed.\<close>

definition seed_quota :: "(rat \<Rightarrow> string) \<Rightarrow> bool \<Rightarrow> Vol \<Rightarrow> string \<Rightarrow> string" where
  "seed_quota ns touched v gb = (if touched then gb else ns (opt_else (vo_quota_gb v) 0))"

section \<open>The server's storage rule\<close>

text \<open>
  A scope's limit is the effective policy's \<^verbatim>\<open>volume_gb\<close> (\<open>None\<close> for unlimited) and \<open>cap\<close> what the storage pool can back (\<open>None\<close>
  when no storage node reports); both are resolved elsewhere and are arguments here.
\<close>

record db_volume =
  dv_id :: string
  dv_scope :: string
  dv_scope_id :: string
  dv_quota :: int

definition quota_sum :: "(db_volume \<Rightarrow> bool) \<Rightarrow> db_volume list \<Rightarrow> int" where
  "quota_sum p vols = sum_list (map dv_quota (filter p vols))"

definition scope_allocated :: "db_volume list \<Rightarrow> string \<Rightarrow> string \<Rightarrow> string option \<Rightarrow> int" where
  "scope_allocated vols scope sid excl =
     quota_sum (\<lambda>v. dv_scope v = scope \<and> dv_scope_id v = sid \<and> Some (dv_id v) \<noteq> excl) vols"

definition storage_quota_usage :: "int option \<Rightarrow> int option \<Rightarrow> db_volume list \<Rightarrow> string \<Rightarrow> string \<Rightarrow> quota_usage" where
  "storage_quota_usage limit cap vols scope sid =
     \<lparr>qu_has_limit = (limit \<noteq> None),
      qu_remaining_gb = map_option (\<lambda>l. of_int (max 0 (l - scope_allocated vols scope sid None))) limit,
      qu_physical_remaining_gb = map_option (\<lambda>c. of_int (max 0 (c - quota_sum (\<lambda>_. True) vols))) cap\<rparr>"

datatype storage_error = ValidationFailed | StorageCapacityExceeded | QuotaExceeded | VolumeShrinkNotAllowed

definition assert_storage_quota ::
  "int option \<Rightarrow> int option \<Rightarrow> db_volume list \<Rightarrow> string \<Rightarrow> string \<Rightarrow> int \<Rightarrow> string option \<Rightarrow> storage_error + unit" where
  "assert_storage_quota limit cap vols scope sid target excl =
     (let exclude = (case excl of None \<Rightarrow> 0 | Some i \<Rightarrow> quota_sum (\<lambda>v. dv_id v = i) vols) in
      if (case cap of None \<Rightarrow> False | Some c \<Rightarrow> c < (quota_sum (\<lambda>_. True) vols - exclude) + target) then Inl StorageCapacityExceeded
      else if scope = ''global'' then Inr ()
      else case limit of None \<Rightarrow> Inr ()
           | Some l \<Rightarrow> if l < scope_allocated vols scope sid excl + target then Inl QuotaExceeded else Inr ())"

definition patch_quota :: "int option \<Rightarrow> int option \<Rightarrow> db_volume list \<Rightarrow> db_volume \<Rightarrow> int \<Rightarrow> storage_error + unit" where
  "patch_quota limit cap vols v new =
     (if new = dv_quota v then Inr ()
      else if new < dv_quota v then Inl VolumeShrinkNotAllowed
      else assert_storage_quota limit cap vols (dv_scope v) (dv_scope_id v) new (Some (dv_id v)))"

text \<open>
  The request schemas read \<^verbatim>\<open>quota_gb\<close> as a whole number of at least 0 (a new volume) or 1 (a change); anything else, a
  fraction or the \<^verbatim>\<open>null\<close> that JSON makes of a number that is not finite, is refused before the handler runs.
\<close>

definition decode_gb :: "int \<Rightarrow> js \<Rightarrow> storage_error + int" where
  "decode_gb lo j =
     (case j of JNum q \<Rightarrow> if q = of_int \<lfloor>q\<rfloor> \<and> of_int lo \<le> q then Inr \<lfloor>q\<rfloor> else Inl ValidationFailed
      | _ \<Rightarrow> Inl ValidationFailed)"

definition create_volume_answer ::
  "int option \<Rightarrow> int option \<Rightarrow> db_volume list \<Rightarrow> string \<Rightarrow> string \<Rightarrow> js \<Rightarrow> storage_error + unit" where
  "create_volume_answer limit cap vols scope sid j =
     bind_res (decode_gb 0 j) (\<lambda>n. assert_storage_quota limit cap vols scope sid n None)"

definition patch_volume_answer ::
  "int option \<Rightarrow> int option \<Rightarrow> db_volume list \<Rightarrow> db_volume \<Rightarrow> js \<Rightarrow> storage_error + unit" where
  "patch_volume_answer limit cap vols v j = bind_res (decode_gb 1 j) (patch_quota limit cap vols v)"

section \<open>Sharing\<close>

text \<open>The test \<^verbatim>\<open>/.+@.+\..+/\<close> on one line of text.\<close>

fun dot_inside :: "bool \<Rightarrow> string \<Rightarrow> bool" where
  "dot_inside seen [] = False"
| "dot_inside seen (c # cs) = (seen \<and> c = CHR ''.'' \<and> cs \<noteq> [] \<or> dot_inside True cs)"

fun at_inside :: "bool \<Rightarrow> string \<Rightarrow> bool" where
  "at_inside seen [] = False"
| "at_inside seen (c # cs) = (seen \<and> c = CHR ''@'' \<and> dot_inside False cs \<or> at_inside True cs)"

definition share_email_valid :: "string \<Rightarrow> bool" where
  "share_email_valid uid = at_inside False (trim uid)"

record recipient =
  rc_id :: string
  rc_name :: string
  rc_email :: string

record staged_add = recipient +
  sa_role :: string

record volume_perm =
  vp_user_id :: string
  vp_role :: string

text \<open>
  The form with its data: the loaded permissions and whether the volume is read-only; a lookup in flight holds the ids that
  counted as shared when it started, a save in flight what it captured.
\<close>

record share_form =
  sf_uid :: string
  sf_role :: string
  sf_readOnly :: bool
  sf_perms :: "volume_perm list"
  sf_lookup :: "(string \<times> string list) option"
  sf_resolved :: "recipient option"
  sf_adds :: "staged_add list"
  sf_removes :: "string list"
  sf_saving :: "(string list \<times> staged_add list) option"

definition share_init :: share_form where
  "share_init =
     \<lparr>sf_uid = [], sf_role = ''rw'', sf_readOnly = False, sf_perms = [], sf_lookup = None, sf_resolved = None, sf_adds = [],
      sf_removes = [], sf_saving = None\<rparr>"

text \<open>The effect on \<^verbatim>\<open>[readOnlyVolume, role]\<close>, which runs after every render.\<close>

definition role_effect :: "share_form \<Rightarrow> share_form" where
  "role_effect f = (if sf_readOnly f \<and> sf_role f \<noteq> ''ro'' then f\<lparr>sf_role := ''ro''\<rparr> else f)"

definition visible_perms :: "share_form \<Rightarrow> volume_perm list" where
  "visible_perms f = filter (\<lambda>p. vp_role p \<noteq> ''owner'') (sf_perms f)"

definition already_shared :: "share_form \<Rightarrow> string list" where
  "already_shared f =
     map vp_user_id (filter (\<lambda>p. vp_user_id p \<notin> set (sf_removes f)) (sf_perms f)) @ map rc_id (sf_adds f)"

definition offered_roles :: "share_form \<Rightarrow> string list" where
  "offered_roles f = (if sf_readOnly f then [] else [''rw'', ''ro''])"

text \<open>\<^verbatim>\<open>lookup\<close> in two parts: the call leaves, and its answer arrives (\<open>None\<close> where nobody was found).\<close>

definition can_look_up :: "share_form \<Rightarrow> bool" where
  "can_look_up f = (trim (sf_uid f) \<noteq> [] \<and> share_email_valid (sf_uid f) \<and> sf_lookup f = None)"

definition lookup_start :: "share_form \<Rightarrow> share_form" where
  "lookup_start f = f\<lparr>sf_lookup := Some (trim (sf_uid f), already_shared f)\<rparr>"

definition lookup_done :: "string option \<Rightarrow> (string \<times> string \<times> string option) option \<Rightarrow> share_form \<Rightarrow> share_form" where
  "lookup_done myId answer f =
     (case (sf_lookup f, answer) of
        (Some (typed, taken), Some (uid, name, email)) \<Rightarrow>
          if Some uid = myId \<or> uid \<in> set taken then f\<lparr>sf_lookup := None\<rparr>
          else f\<lparr>sf_lookup := None, sf_resolved := Some \<lparr>rc_id = uid, rc_name = name, rc_email = str_or email typed\<rparr>\<rparr>
      | _ \<Rightarrow> f\<lparr>sf_lookup := None\<rparr>)"

definition stageAdd :: "share_form \<Rightarrow> share_form" where
  "stageAdd f =
     (case sf_resolved f of
        None \<Rightarrow> f
      | Some r \<Rightarrow> f\<lparr>sf_adds := sf_adds f @ [\<lparr>rc_id = rc_id r, rc_name = rc_name r, rc_email = rc_email r, sa_role = sf_role f\<rparr>],
                    sf_resolved := None, sf_uid := [], sf_role := ''rw''\<rparr>)"

definition submit_row :: "share_form \<Rightarrow> share_form" where
  "submit_row f =
     (if \<not> can_look_up f then f else if sf_resolved f \<noteq> None then stageAdd f else lookup_start f)"

definition share_dirty :: "share_form \<Rightarrow> bool" where
  "share_dirty f = (sf_adds f \<noteq> [] \<or> sf_removes f \<noteq> [])"

definition save_start :: "share_form \<Rightarrow> share_form" where
  "save_start f = (if share_dirty f \<and> sf_saving f = None then f\<lparr>sf_saving := Some (sf_removes f, sf_adds f)\<rparr> else f)"

definition save_done :: "bool \<Rightarrow> share_form \<Rightarrow> share_form" where
  "save_done ok f = (if ok then f\<lparr>sf_saving := None, sf_adds := [], sf_removes := []\<rparr> else f\<lparr>sf_saving := None\<rparr>)"

definition cancel_share :: "share_form \<Rightarrow> share_form" where
  "cancel_share f = f\<lparr>sf_adds := [], sf_removes := [], sf_resolved := None, sf_uid := []\<rparr>"

datatype share_event =
    TypeUid string
  | PickRole string
  | VolumeArrives bool
  | PermsArrive "volume_perm list"
  | SubmitRow
  | LookupDone "(string \<times> string \<times> string option) option"
  | AddResolved
  | DropResolved
  | RevokeRow string
  | UndoRevoke string
  | UndoAdd string
  | SaveStart
  | SaveDone bool
  | CancelShare

fun share_event_apply :: "string option \<Rightarrow> share_event \<Rightarrow> share_form \<Rightarrow> share_form" where
  "share_event_apply me (TypeUid v) f = f\<lparr>sf_uid := v, sf_resolved := None\<rparr>"
| "share_event_apply me (PickRole r) f = (if r \<in> set (offered_roles f) then f\<lparr>sf_role := r\<rparr> else f)"
| "share_event_apply me (VolumeArrives ro) f = f\<lparr>sf_readOnly := ro\<rparr>"
| "share_event_apply me (PermsArrive ps) f = f\<lparr>sf_perms := ps\<rparr>"
| "share_event_apply me SubmitRow f = submit_row f"
| "share_event_apply me (LookupDone a) f = lookup_done me a f"
| "share_event_apply me AddResolved f = stageAdd f"
| "share_event_apply me DropResolved f = f\<lparr>sf_resolved := None\<rparr>"
| "share_event_apply me (RevokeRow u) f =
     (if u \<in> vp_user_id ` set (visible_perms f) \<and> u \<notin> set (sf_removes f) then f\<lparr>sf_removes := sf_removes f @ [u]\<rparr> else f)"
| "share_event_apply me (UndoRevoke u) f =
     (if u \<in> vp_user_id ` set (visible_perms f) then f\<lparr>sf_removes := filter (\<lambda>x. x \<noteq> u) (sf_removes f)\<rparr> else f)"
| "share_event_apply me (UndoAdd u) f = f\<lparr>sf_adds := filter (\<lambda>a. rc_id a \<noteq> u) (sf_adds f)\<rparr>"
| "share_event_apply me SaveStart f = save_start f"
| "share_event_apply me (SaveDone ok) f = (if sf_saving f = None then f else save_done ok f)"
| "share_event_apply me CancelShare f = (if share_dirty f \<and> sf_saving f = None then cancel_share f else f)"

inductive share_step :: "string option \<Rightarrow> share_form \<Rightarrow> share_form \<Rightarrow> bool" for me where
  share_event: "share_step me f (role_effect (share_event_apply me e f))"

text \<open>The calls of a save, one after the other until one fails, against the server's permission table.\<close>

datatype share_call = RevokeCall string | GrantCall string string

definition save_calls :: "string list \<Rightarrow> staged_add list \<Rightarrow> share_call list" where
  "save_calls rms ads = map RevokeCall rms @ map (\<lambda>a. GrantCall (rc_id a) (sa_role a)) ads"

fun call_mutation :: "string \<Rightarrow> share_call \<Rightarrow> mutation_def" where
  "call_mutation vid (RevokeCall u) = useRevokePermission vid u"
| "call_mutation vid (GrantCall u r) = useGrantPermission vid (JObj [(''user_id'', JStr u), (''role'', JStr r)])"

datatype perm_error = PermNotFound | LastOwner | OwnerHasAccess

fun perm_call :: "string option \<Rightarrow> share_call \<Rightarrow> (string \<times> string) list \<Rightarrow> perm_error + (string \<times> string) list" where
  "perm_call owner (GrantCall u r) tbl = (if Some u = owner then Inl OwnerHasAccess else Inr (AList.update u r tbl))"
| "perm_call owner (RevokeCall u) tbl =
     (case map_of tbl u of
        None \<Rightarrow> Inl PermNotFound
      | Some r \<Rightarrow>
          if r = ''owner'' \<and> length (filter (\<lambda>e. snd e = ''owner'') tbl) \<le> 1 then Inl LastOwner
          else Inr (AList.delete u tbl))"

fun run_save :: "string option \<Rightarrow> share_call list \<Rightarrow> (string \<times> string) list \<Rightarrow> (string \<times> string) list \<times> perm_error option" where
  "run_save owner [] tbl = (tbl, None)"
| "run_save owner (c # cs) tbl =
     (case perm_call owner c tbl of Inl e \<Rightarrow> (tbl, Some e) | Inr tbl' \<Rightarrow> run_save owner cs tbl')"

section \<open>What the list guarantees\<close>

lemma usage_percent_bounds: "0 \<le> opt_else (vo_used_gb v) 0 \<Longrightarrow> 0 \<le> opt_else (vo_quota_gb v) 0 \<Longrightarrow> 0 \<le> usage_percent v \<and> usage_percent v \<le> 100"
  by (auto simp: usage_percent_def fill_ratio_def js_round_def split: option.splits)

text \<open>Somebody else's data is never deleted from the list: a volume that reached it through a share offers leaving only, which
  addresses the caller's own permission; a volume the caller does not own offers nothing; deletion is confirmed first, for a
  shared volume by typing its name.\<close>

theorem volume_actions_safe:
  "(case action_request userId ok v a of
      None \<Rightarrow> True
    | Some m \<Rightarrow> a \<notin> set (vol_actions userId v) \<or>
        (if isSharedToMe userId v then ok \<and> m = useLeaveShare (vo_id v) userId
         else vo_role v = Some ''owner'' \<and>
           (m = useSetVolumeLock (vo_id v) (\<not> vo_mount_locked v) \<or>
            ok \<and> m = useDeleteVolume (vo_id v) False \<and>
            cf_confirmText (delete_question v) =
              (if vo_access_mode v = Some ''ROX'' \<or> vo_scope v = Some ''group'' then Some (vol_title v) else None))))"
  by (cases a) (auto simp: vol_actions_def onLeave_def onDelete_def press_lock_def delete_question_def split: option.splits if_splits)

section \<open>What the form for a new volume guarantees\<close>

definition new_volume_inv :: "AuthState \<Rightarrow> new_volume \<Rightarrow> bool" where
  "new_volume_inv s f =
     (nv_scope f \<in> set (offered_scopes s) \<and> typeAllowed (nv_scope f) (nv_type f) \<and> nv_type f \<in> set VOLUME_TYPES \<and>
      nv_accessMode f \<in> {''RWX'', ''ROX''} \<and> (canCreateGroup s \<longrightarrow> nv_projectId f \<in> mb_group_id ` set (adminMemberships s)))"

lemma new_volume_inv_step:
  assumes "new_volume_inv s f" and "new_volume_step s f g"
  shows "new_volume_inv s g"
  using assms(2)
proof cases
  case (pick_scope nxt)
  then show ?thesis
    using assms(1) by (auto simp: new_volume_inv_def choose_scope_def typeAllowed_def scope_takes_def VOLUME_TYPES_def)
qed (use assms(1) in \<open>auto simp: new_volume_inv_def availableTypes_def\<close>)

interpretation new_vol: inductive_invariant "new_volume_init s" "new_volume_step s" "new_volume_inv s" for s
proof
  show "new_volume_inv s (new_volume_init s)"
    by (auto simp: new_volume_inv_def new_volume_init_def offered_scopes_def typeAllowed_def scope_takes_def VOLUME_TYPES_def
        canCreateGroup_def split: list.splits)
qed (rule new_volume_inv_step)

text \<open>C23: A volume is created only where the caller may create one, and only within what is left. Whatever was chosen and typed, a
  request that leaves names the caller's own account, a group the caller administers, or, for the system administrator,
  the shared scope; its type is one that scope offers, its name is not blank, and its size is not negative and within
  both headrooms the server reported.\<close>

theorem new_volume_sound:
  assumes "reach (new_volume_init s) (new_volume_step s) f" and "submit_volume s u f = Some m"
  shows "\<exists>scope sid name type mode. m = useCreateVolume (JObj [(''scope'', JStr scope), (''scope_id'', JStr (trim sid)), (''name'', JStr name),
        (''type'', JStr type), (''access_mode'', JStr mode), (''quota_gb'', num_json (js_number (nv_quota f)))]) \<and>
      (scope = ''user'' \<and> Some sid = jc_sub (claims s) \<or>
       scope = ''group'' \<and> sid \<in> mb_group_id ` set (adminMemberships s) \<or>
       scope = ''global'' \<and> sid = ''global'' \<and> jc_global_role (claims s) = Some ''super_admin'') \<and>
      type \<in> set (availableTypes scope) \<and> mode \<in> {''RWX'', ''ROX''} \<and> name \<noteq> [] \<and> trim name = name \<and>
      num_ge0 (js_number (nv_quota f)) \<and> \<not> overLimit u (nv_quota f) \<and> \<not> overPhysical u (nv_quota f)"
proof -
  have inv: "new_volume_inv s f" using new_vol.inv_reach assms(1) .
  have valid: "new_volume_valid s u f" and m: "m = useCreateVolume (JObj [(''scope'', JStr (nv_scope f)),
      (''scope_id'', JStr (trim (new_scope_id s f))), (''name'', JStr (trim (nv_name f))), (''type'', JStr (nv_type f)),
      (''access_mode'', JStr (nv_accessMode f)), (''quota_gb'', num_json (js_number (nv_quota f)))])"
    using assms(2) by (auto simp: submit_volume_def split: if_splits)
  have sid: "nv_scope f = ''user'' \<and> Some (new_scope_id s f) = jc_sub (claims s) \<or>
       nv_scope f = ''group'' \<and> new_scope_id s f \<in> mb_group_id ` set (adminMemberships s) \<or>
       nv_scope f = ''global'' \<and> new_scope_id s f = ''global'' \<and> jc_global_role (claims s) = Some ''super_admin''"
    using inv valid
    by (cases "jc_sub (claims s)")
      (auto simp: new_volume_inv_def new_volume_valid_def new_scope_id_def offered_scopes_def canCreateGlobal_def trim_def split: if_splits)
  have "nv_type f \<in> set (availableTypes (nv_scope f))" "nv_accessMode f \<in> {''RWX'', ''ROX''}"
    using inv by (simp_all add: new_volume_inv_def availableTypes_def)
  moreover have "trim (nv_name f) \<noteq> []" "trim (trim (nv_name f)) = trim (nv_name f)" "num_ge0 (js_number (nv_quota f))"
    "\<not> overLimit u (nv_quota f)" "\<not> overPhysical u (nv_quota f)"
    using valid by (simp_all add: new_volume_valid_def trim_idem)
  ultimately show ?thesis using sid m by blast
qed

theorem new_volume_sound_witness:
  "\<exists>m. submit_volume (initial_auth\<lparr>claims := no_claims\<lparr>jc_sub := Some ''u1''\<rparr>\<rparr>) None
         (new_volume_init (initial_auth\<lparr>claims := no_claims\<lparr>jc_sub := Some ''u1''\<rparr>\<rparr>)\<lparr>nv_name := ''d''\<rparr>) = Some m \<and>
       js_get ''type'' (the (rq_body (mu_request m))) \<in> {JStr ''home'', JStr ''dataset''}"
proof -
  let ?s = "initial_auth\<lparr>claims := no_claims\<lparr>jc_sub := Some ''u1''\<rparr>\<rparr>"
  let ?f = "new_volume_init ?s\<lparr>nv_name := ''d''\<rparr>"
  have n: "js_number ''10'' = Fin 10"
    by (simp add: js_number_def Let_def trim_def js_space_def to_lower_def lower_char_def unsigned_literal_def is_digit_def
        exponent_of_def nat_of_digits_def digit_val_def)
  have "new_volume_step ?s (new_volume_init ?s) ?f" by (rule type_name)
  with reach_init have r: "reach (new_volume_init ?s) (new_volume_step ?s) ?f" by (rule reach_step)
  obtain m where m: "submit_volume ?s None ?f = Some m"
    using n by (simp add: submit_volume_def new_volume_valid_def new_volume_init_def new_scope_id_def overLimit_def overPhysical_def
        adminMemberships_def trim_def js_space_def)
  from new_volume_sound [OF r m] obtain scope sid name type mode where
    b: "m = useCreateVolume (JObj [(''scope'', JStr scope), (''scope_id'', JStr (trim sid)), (''name'', JStr name),
        (''type'', JStr type), (''access_mode'', JStr mode), (''quota_gb'', num_json (js_number (nv_quota ?f)))])"
      and "type \<in> set (availableTypes scope)"
      and "scope = ''user'' \<or> scope = ''group'' \<and> sid \<in> mb_group_id ` set (adminMemberships ?s) \<or>
        jc_global_role (claims ?s) = Some ''super_admin''"
    by blast
  then have "type \<in> {''home'', ''dataset''}"
    by (auto simp: availableTypes_def VOLUME_TYPES_def typeAllowed_def scope_takes_def adminMemberships_def no_claims_def)
  then show ?thesis using m b by (auto simp: useCreateVolume_def use_mutation_def http_send_def)
qed

section \<open>The forms and the server's storage rule\<close>

lemma quota_sum_Cons: "quota_sum p (v # vols) = (if p v then dv_quota v else 0) + quota_sum p vols"
  by (simp add: quota_sum_def)

lemma quota_sum_split:
  assumes "v \<in> set vols" and "distinct (map dv_id vols)"
  shows "quota_sum p vols = quota_sum (\<lambda>x. p x \<and> dv_id x \<noteq> dv_id v) vols + (if p v then dv_quota v else 0)"
  using assms
proof (induction vols)
  case (Cons w vols)
  show ?case
  proof (cases "v = w")
    case True
    have "quota_sum p vols = quota_sum (\<lambda>x. p x \<and> dv_id x \<noteq> dv_id w) vols"
      using Cons.prems(2) unfolding quota_sum_def by (intro arg_cong [of _ _ sum_list] arg_cong [of _ _ "map dv_quota"] filter_cong) (auto simp: image_iff)
    then show ?thesis using True by (simp add: quota_sum_Cons)
  next
    case False
    then have "dv_id w \<noteq> dv_id v" "v \<in> set vols" using Cons.prems by auto
    then show ?thesis using Cons.IH Cons.prems(2) by (simp add: quota_sum_Cons)
  qed
qed simp

lemma volume_excluded:
  assumes "v \<in> set vols" and "distinct (map dv_id vols)"
  shows "quota_sum (\<lambda>x. dv_id x = dv_id v) vols = dv_quota v"
    and "scope_allocated vols (dv_scope v) (dv_scope_id v) (Some (dv_id v)) = scope_allocated vols (dv_scope v) (dv_scope_id v) None - dv_quota v"
proof -
  have "quota_sum (\<lambda>x. dv_id x = dv_id v \<and> dv_id x \<noteq> dv_id v) vols = 0" by (simp add: quota_sum_def)
  then show "quota_sum (\<lambda>x. dv_id x = dv_id v) vols = dv_quota v"
    using quota_sum_split [OF assms, of "\<lambda>x. dv_id x = dv_id v"] by simp
  show "scope_allocated vols (dv_scope v) (dv_scope_id v) (Some (dv_id v)) = scope_allocated vols (dv_scope v) (dv_scope_id v) None - dv_quota v"
    using quota_sum_split [OF assms, of "\<lambda>x. dv_scope x = dv_scope v \<and> dv_scope_id x = dv_scope_id v"]
    by (simp add: scope_allocated_def conj_assoc)
qed

text \<open>What the form for a new volume checks of the size.\<close>

definition size_fits :: "quota_usage option \<Rightarrow> string \<Rightarrow> bool" where
  "size_fits u gb = (num_ge0 (js_number gb) \<and> \<not> overLimit u gb \<and> \<not> overPhysical u gb)"

lemma num_or0_Fin: "num_or0 (Fin q) = Fin q"
  by (simp add: num_or0_def)

lemma size_fits_whole:
  assumes "js_number gb = Fin (of_int n)"
  shows "size_fits (Some (storage_quota_usage limit cap vols scope sid)) gb \<longleftrightarrow>
     0 \<le> n \<and> (\<forall>l. limit = Some l \<longrightarrow> n \<le> max 0 (l - scope_allocated vols scope sid None)) \<and>
     (\<forall>c. cap = Some c \<longrightarrow> n \<le> max 0 (c - quota_sum (\<lambda>_. True) vols))"
proof -
  have "num_over (num_or0 (Fin (of_int n))) (of_int x) \<longleftrightarrow> x < n" for x :: int by (simp add: num_or0_Fin)
  then show ?thesis
    by (cases limit; cases cap)
      (simp_all add: assms size_fits_def overLimit_def overPhysical_def storage_quota_usage_def not_less le_max_iff_disj del: of_int_max)
qed

lemma create_whole:
  assumes "scope \<noteq> ''global''"
  shows "create_volume_answer limit cap vols scope sid (num_json (js_number gb)) = Inr () \<longleftrightarrow>
     (\<exists>n. js_number gb = Fin (of_int n) \<and> 0 \<le> n \<and> (\<forall>l. limit = Some l \<longrightarrow> scope_allocated vols scope sid None + n \<le> l) \<and>
        (\<forall>c. cap = Some c \<longrightarrow> quota_sum (\<lambda>_. True) vols + n \<le> c))"
proof (cases "\<exists>n. js_number gb = Fin (of_int n)")
  case True
  then obtain n where n: "js_number gb = Fin (of_int n)" by blast
  show ?thesis
    using assms by (auto simp: n create_volume_answer_def decode_gb_def assert_storage_quota_def bind_res_Inr_iff not_less
        split: option.splits)
next
  case False
  then have "q \<noteq> of_int \<lfloor>q\<rfloor>" if "js_number gb = Fin q" for q using that by metis
  then have "\<not> create_volume_answer limit cap vols scope sid (num_json (js_number gb)) = Inr ()"
    by (cases "js_number gb") (simp_all add: create_volume_answer_def decode_gb_def)
  with False show ?thesis by blast
qed

lemma quota_form_exact:
  assumes "v \<in> set vols" and "distinct (map dv_id vols)" and "0 \<le> dv_quota v" and "dv_scope v \<noteq> ''global''"
    and num: "js_number gb = Fin (of_int n)" and "gb \<noteq> []" and "1 \<le> n" and "n \<le> 1048576"
  shows "quota_valid (of_int (dv_quota v)) (Some (storage_quota_usage limit cap vols (dv_scope v) (dv_scope_id v))) gb \<longleftrightarrow>
       n \<noteq> dv_quota v \<and> patch_quota limit cap vols v n = Inr ()"
proof -
  let ?u = "storage_quota_usage limit cap vols (dv_scope v) (dv_scope_id v)"
  let ?a = "scope_allocated vols (dv_scope v) (dv_scope_id v) None" and ?t = "quota_sum (\<lambda>_. True) vols"
  have tgt: "quota_target gb = Some (of_int n)" using num assms(6) by (simp add: quota_target_def)
  have ceil: "quota_ceiling (of_int (dv_quota v)) (Some ?u) < of_int n \<longleftrightarrow>
      (\<exists>l. limit = Some l \<and> dv_quota v + max 0 (l - ?a) < n) \<or> (\<exists>c. cap = Some c \<and> dv_quota v + max 0 (c - ?t) < n)"
  proof -
    have "(of_int (dv_quota v) + of_int (max 0 (l - a)) :: rat) < of_int n \<longleftrightarrow> dv_quota v + max 0 (l - a) < n" for l a
      by (simp only: of_int_add [symmetric] of_int_less_iff)
    moreover have "\<not> (1048576 :: rat) < of_int n" using assms(8) by simp
    ultimately show ?thesis
      by (cases limit; cases cap)
        (simp_all add: quota_ceiling_def policyCeiling_def physicalCeiling_def storage_quota_usage_def Let_def min_less_iff_disj)
  qed
  show ?thesis
  proof (cases "n \<le> dv_quota v")
    case True
    then have "n \<noteq> dv_quota v \<Longrightarrow> (of_int n :: rat) < max 1 (of_int (dv_quota v))" by (simp add: less_max_iff_disj)
    then show ?thesis using True tgt by (auto simp: quota_valid_def patch_quota_def)
  next
    case False
    then have "\<not> (of_int n :: rat) < max 1 (of_int (dv_quota v))" using assms(7) by simp
    then have "quota_valid (of_int (dv_quota v)) (Some ?u) gb \<longleftrightarrow> \<not> quota_ceiling (of_int (dv_quota v)) (Some ?u) < of_int n"
      using False tgt by (simp add: quota_valid_def)
    also have "\<dots> \<longleftrightarrow> assert_storage_quota limit cap vols (dv_scope v) (dv_scope_id v) n (Some (dv_id v)) = Inr ()"
      unfolding ceil using volume_excluded [OF assms(1,2)] False assms(3,4)
      by (auto simp: assert_storage_quota_def Let_def split: option.splits)
    finally show ?thesis using False by (simp add: patch_quota_def)
  qed
qed

text \<open>The quota form, whatever was typed: outside whole numbers from 1 to the cap, both sides say no.\<close>

lemma js_number_Nil: "js_number [] = Fin 0"
  by (simp add: js_number_def trim_def Let_def)

lemma quota_ceiling_cap: "quota_ceiling cur u \<le> 1048576"
  by (auto simp: quota_ceiling_def Let_def min_def split: option.splits)

lemma quota_form_all:
  assumes "v \<in> set vols" and "distinct (map dv_id vols)" and "0 \<le> dv_quota v" and "dv_scope v \<noteq> ''global''"
  shows "quota_valid (of_int (dv_quota v)) (Some (storage_quota_usage limit cap vols (dv_scope v) (dv_scope_id v))) gb \<longleftrightarrow>
       (\<exists>q. js_number gb = Fin q \<and> q \<noteq> of_int (dv_quota v) \<and> q \<le> 1048576 \<and> patch_volume_answer limit cap vols v (JNum q) = Inr ())"
    (is "?form \<longleftrightarrow> ?server")
proof (cases "\<exists>n. js_number gb = Fin (of_int n) \<and> 1 \<le> n \<and> n \<le> 1048576")
  case True
  then obtain n where n: "js_number gb = Fin (of_int n)" "1 \<le> n" "n \<le> 1048576" by blast
  then have "gb \<noteq> []" using js_number_Nil by auto
  then show ?thesis
    using quota_form_exact [OF assms n(1) _ n(2,3)] n by (simp add: patch_volume_answer_def decode_gb_def bind_res_Inr_iff)
next
  case False
  have "\<not> ?form"
  proof
    assume ?form
    then obtain q where q: "js_number gb = Fin q" "q = of_int \<lfloor>q\<rfloor>" "1 \<le> q"
        "q \<le> quota_ceiling (of_int (dv_quota v)) (Some (storage_quota_usage limit cap vols (dv_scope v) (dv_scope_id v)))"
      by (auto simp: quota_valid_def quota_target_def not_less split: option.splits jsnum.splits if_splits)
    then have "q \<le> 1048576" using quota_ceiling_cap order_trans by blast
    then have "1 \<le> \<lfloor>q\<rfloor>" "\<lfloor>q\<rfloor> \<le> 1048576" using q(2,3) by (simp_all add: le_floor_iff floor_le_iff)
    then show False using False q(1,2) by metis
  qed
  moreover have "\<not> ?server"
  proof
    assume ?server
    then obtain q where q: "js_number gb = Fin q" "q \<le> 1048576" "q = of_int \<lfloor>q\<rfloor>" "1 \<le> q"
      by (auto simp: patch_volume_answer_def decode_gb_def bind_res_Inr_iff split: if_splits)
    then have "1 \<le> \<lfloor>q\<rfloor>" "\<lfloor>q\<rfloor> \<le> 1048576" by (simp_all add: le_floor_iff floor_le_iff)
    then show False using False q(1,3) by metis
  qed
  ultimately show ?thesis by blast
qed

lemma size_literals: "js_number ''11'' = Fin 11" "js_number ''1.5'' = Fin (3 / 2)" "js_number ''0'' = Fin 0"
  by (simp_all add: js_number_def Let_def trim_def js_space_def to_lower_def lower_char_def unsigned_literal_def is_digit_def
      exponent_of_def nat_of_digits_def digit_val_def)

lemma size_examples:
  "size_fits (Some (storage_quota_usage None None [] ''user'' ''u'')) ''1.5''"
  "create_volume_answer None None [] ''user'' ''u'' (num_json (js_number ''1.5'')) = Inl ValidationFailed"
  "size_fits (Some (storage_quota_usage (Some 5) None [\<lparr>dv_id = ''w'', dv_scope = ''user'', dv_scope_id = ''u'', dv_quota = 10\<rparr>] ''user'' ''u'')) ''0''"
  "create_volume_answer (Some 5) None [\<lparr>dv_id = ''w'', dv_scope = ''user'', dv_scope_id = ''u'', dv_quota = 10\<rparr>] ''user'' ''u''
     (num_json (js_number ''0'')) = Inl QuotaExceeded"
  "\<not> size_fits (Some (storage_quota_usage (Some 10) None [] ''global'' ''global'')) ''11''"
  "create_volume_answer (Some 10) None [] ''global'' ''global'' (num_json (js_number ''11'')) = Inr ()"
proof -
  have "\<lfloor>3 / 2 :: rat\<rfloor> = 1" by (simp add: floor_eq_iff)
  then show "create_volume_answer None None [] ''user'' ''u'' (num_json (js_number ''1.5'')) = Inl ValidationFailed"
    by (simp add: create_volume_answer_def decode_gb_def size_literals)
qed (simp_all add: size_fits_def overLimit_def overPhysical_def storage_quota_usage_def num_or0_Fin scope_allocated_def quota_sum_def
      create_volume_answer_def decode_gb_def assert_storage_quota_def size_literals Let_def)

text \<open>C9: How far the storage forms anticipate the server, for the figures the server reports about a scope. The quota form
  lets a text through exactly when it is a number other than the current quota, at most the form's own cap of 1048576, and
  the server takes the change (whole, not a shrink, within the policy and the pool, this volume not counted twice). The
  form for a new volume lets through every size the server takes; what it lets through and the server refuses is a size
  that is not a whole number, such as 1.5, or 0 in a scope or pool that is already over-allocated. In the shared scope it
  is the other way round: the form applies a policy limit the server does not.\<close>

theorem storage_forms_match_server:
  "(v \<in> set vols \<and> distinct (map dv_id vols) \<and> 0 \<le> dv_quota v \<and> dv_scope v \<noteq> ''global'' \<longrightarrow>
      (quota_valid (of_int (dv_quota v)) (Some (storage_quota_usage limit cap vols (dv_scope v) (dv_scope_id v))) gb \<longleftrightarrow>
       (\<exists>q. js_number gb = Fin q \<and> q \<noteq> of_int (dv_quota v) \<and> q \<le> 1048576 \<and>
          patch_volume_answer limit cap vols v (JNum q) = Inr ()))) \<and>
   (scope \<noteq> ''global'' \<longrightarrow>
      (create_volume_answer limit cap vols scope sid (num_json (js_number gb)) = Inr () \<longrightarrow>
         size_fits (Some (storage_quota_usage limit cap vols scope sid)) gb) \<and>
      (size_fits (Some (storage_quota_usage limit cap vols scope sid)) gb \<and>
       create_volume_answer limit cap vols scope sid (num_json (js_number gb)) \<noteq> Inr () \<longrightarrow>
         (\<nexists>n. js_number gb = Fin (of_int n)) \<or>
         (js_number gb = Fin 0 \<and> ((\<exists>l. limit = Some l \<and> l < scope_allocated vols scope sid None) \<or>
                                    (\<exists>c. cap = Some c \<and> c < quota_sum (\<lambda>_. True) vols))))) \<and>
   (size_fits (Some (storage_quota_usage None None [] ''user'' ''u'')) ''1.5'' \<and>
      create_volume_answer None None [] ''user'' ''u'' (num_json (js_number ''1.5'')) = Inl ValidationFailed) \<and>
   (let full = [\<lparr>dv_id = ''w'', dv_scope = ''user'', dv_scope_id = ''u'', dv_quota = 10\<rparr>] in
      size_fits (Some (storage_quota_usage (Some 5) None full ''user'' ''u'')) ''0'' \<and>
      create_volume_answer (Some 5) None full ''user'' ''u'' (num_json (js_number ''0'')) = Inl QuotaExceeded) \<and>
   (\<not> size_fits (Some (storage_quota_usage (Some 10) None [] ''global'' ''global'')) ''11'' \<and>
      create_volume_answer (Some 10) None [] ''global'' ''global'' (num_json (js_number ''11'')) = Inr ())"
proof (intro conjI impI)
  let ?u = "Some (storage_quota_usage limit cap vols scope sid)"
  show "size_fits ?u gb" if "scope \<noteq> ''global''" "create_volume_answer limit cap vols scope sid (num_json (js_number gb)) = Inr ()"
    using create_whole [OF that(1)] that(2) size_fits_whole by fastforce
  show "(\<nexists>n. js_number gb = Fin (of_int n)) \<or>
         (js_number gb = Fin 0 \<and> ((\<exists>l. limit = Some l \<and> l < scope_allocated vols scope sid None) \<or>
                                    (\<exists>c. cap = Some c \<and> c < quota_sum (\<lambda>_. True) vols)))"
    if h: "scope \<noteq> ''global''" "size_fits ?u gb \<and> create_volume_answer limit cap vols scope sid (num_json (js_number gb)) \<noteq> Inr ()"
  proof (cases "\<exists>n. js_number gb = Fin (of_int n)")
    case True
    then obtain n where n: "js_number gb = Fin (of_int n)" by blast
    have fits: "0 \<le> n" "\<forall>l. limit = Some l \<longrightarrow> n \<le> max 0 (l - scope_allocated vols scope sid None)"
        "\<forall>c. cap = Some c \<longrightarrow> n \<le> max 0 (c - quota_sum (\<lambda>_. True) vols)"
      using h(2) size_fits_whole [OF n] by blast+
    consider l where "limit = Some l" "l < scope_allocated vols scope sid None + n"
      | c where "cap = Some c" "c < quota_sum (\<lambda>_. True) vols + n"
      using h create_whole [OF h(1), of limit cap vols sid gb] n fits(1) by (meson not_less)
    then have "n = 0 \<and> ((\<exists>l. limit = Some l \<and> l < scope_allocated vols scope sid None) \<or>
        (\<exists>c. cap = Some c \<and> c < quota_sum (\<lambda>_. True) vols))"
      using fits by cases (fastforce simp: max_def split: if_splits)+
    then show ?thesis using n by simp
  qed blast
qed (simp_all add: quota_form_all size_examples Let_def)

definition sample_db_volume :: db_volume where
  "sample_db_volume = \<lparr>dv_id = ''v1'', dv_scope = ''user'', dv_scope_id = ''u1'', dv_quota = 10\<rparr>"

theorem storage_forms_match_server_witness:
  "quota_valid 10 (Some (storage_quota_usage (Some 20) (Some 15) [sample_db_volume] ''user'' ''u1'')) ''11'' \<and>
   \<not> quota_valid 10 (Some (storage_quota_usage (Some 20) (Some 10) [sample_db_volume] ''user'' ''u1'')) ''11'' \<and>
   size_fits (Some (storage_quota_usage (Some 21) None [sample_db_volume] ''user'' ''u1'')) ''11''"
proof -
  have p: "patch_volume_answer (Some 20) (Some 15) [sample_db_volume] sample_db_volume (JNum 11) = Inr ()"
    "patch_volume_answer (Some 20) (Some 10) [sample_db_volume] sample_db_volume (JNum 11) = Inl StorageCapacityExceeded"
    "create_volume_answer (Some 21) None [sample_db_volume] ''user'' ''u1'' (num_json (js_number ''11'')) = Inr ()"
    by (simp_all add: patch_volume_answer_def create_volume_answer_def decode_gb_def patch_quota_def assert_storage_quota_def
        sample_db_volume_def quota_sum_def scope_allocated_def size_literals)
  note q = storage_forms_match_server [of sample_db_volume "[sample_db_volume]" _ _ "''11''", THEN conjunct1]
  note c = storage_forms_match_server [of sample_db_volume "[sample_db_volume]" "Some 21" None "''11''" "''user''" "''u1''"]
  show ?thesis
    using q [of "Some 20" "Some 15"] q [of "Some 20" "Some 10"] c p by (simp add: sample_db_volume_def size_literals)
qed

section \<open>What sharing guarantees\<close>

definition share_inv :: "string option \<Rightarrow> share_form \<Rightarrow> bool" where
  "share_inv me f =
     (distinct (map rc_id (sf_adds f)) \<and> distinct (sf_removes f) \<and> me \<notin> Some ` rc_id ` set (sf_adds f) \<and>
      sf_role f \<in> {''rw'', ''ro''} \<and> sa_role ` set (sf_adds f) \<subseteq> {''rw'', ''ro''} \<and> (sf_readOnly f \<longrightarrow> sf_role f = ''ro'') \<and>
      (case sf_resolved f of None \<Rightarrow> True | Some r \<Rightarrow> rc_id r \<notin> rc_id ` set (sf_adds f) \<and> Some (rc_id r) \<noteq> me \<and> sf_lookup f = None) \<and>
      (case sf_lookup f of None \<Rightarrow> True | Some (typed, taken) \<Rightarrow> rc_id ` set (sf_adds f) \<subseteq> set taken))"

lemma role_effect_inv:
  assumes "share_inv me (f\<lparr>sf_role := ''ro''\<rparr>)" and "sf_role f \<in> {''rw'', ''ro''}"
  shows "share_inv me (role_effect f)"
  using assms by (auto simp: share_inv_def role_effect_def split: option.splits)

lemma share_inv_weaken: "share_inv me f \<Longrightarrow> share_inv me (f\<lparr>sf_role := ''ro''\<rparr>)"
  by (auto simp: share_inv_def split: option.splits)

lemma stageAdd_inv:
  assumes "share_inv me f"
  shows "share_inv me ((stageAdd f)\<lparr>sf_role := ''ro''\<rparr>)" and "sf_role (stageAdd f) \<in> {''rw'', ''ro''}"
  using assms by (auto simp: share_inv_def stageAdd_def split: option.splits)

lemma lookup_inv:
  assumes "share_inv me f"
  shows "share_inv me ((lookup_done me a f)\<lparr>sf_role := ''ro''\<rparr>)" and "sf_role (lookup_done me a f) = sf_role f"
    and "sf_resolved f = None \<Longrightarrow> share_inv me ((lookup_start f)\<lparr>sf_role := ''ro''\<rparr>)"
  using assms
  by (auto simp: share_inv_def lookup_done_def lookup_start_def already_shared_def split: option.splits prod.splits)

lemma share_inv_event:
  assumes "share_inv me f"
  shows "share_inv me (role_effect (share_event_apply me e f))"
proof (rule role_effect_inv)
  have role: "sf_role f \<in> {''rw'', ''ro''}" using assms by (simp add: share_inv_def)
  show "sf_role (share_event_apply me e f) \<in> {''rw'', ''ro''}"
    using role stageAdd_inv(2) [OF assms] lookup_inv(2) [OF assms]
    by (cases e) (auto simp: offered_roles_def submit_row_def lookup_start_def save_start_def save_done_def cancel_share_def split: if_splits)
  show "share_inv me ((share_event_apply me e f)\<lparr>sf_role := ''ro''\<rparr>)"
  proof (cases e)
    case SubmitRow
    then show ?thesis
      using share_inv_weaken [OF assms] stageAdd_inv(1) [OF assms] lookup_inv(3) [OF assms] by (simp add: submit_row_def)
  next
    case (LookupDone a)
    then show ?thesis using lookup_inv(1) [OF assms] by simp
  next
    case AddResolved
    then show ?thesis using stageAdd_inv(1) [OF assms] by simp
  next
    case (UndoAdd u)
    have "distinct (map rc_id (filter (\<lambda>a. rc_id a \<noteq> u) (sf_adds f)))"
      using assms by (simp add: share_inv_def distinct_map_filter)
    then show ?thesis using assms UndoAdd by (auto simp: share_inv_def split: option.splits)
  qed (use assms in \<open>auto simp: share_inv_def save_start_def save_done_def cancel_share_def split: option.splits\<close>)
qed

interpretation share: inductive_invariant share_init "share_step me" "share_inv me" for me
proof
  show "share_inv me share_init" by (simp add: share_inv_def share_init_def)
qed (auto elim!: share_step.cases intro: share_inv_event)

lemma revokes_run:
  assumes "distinct rms" and "\<forall>u \<in> set rms. map_of tbl u \<noteq> None \<and> map_of tbl u \<noteq> Some ''owner''"
  shows "\<exists>tbl'. run_save owner (map RevokeCall rms @ cs) tbl = run_save owner cs tbl' \<and>
    (\<forall>u. map_of tbl' u = (if u \<in> set rms then None else map_of tbl u))"
  using assms
proof (induction rms arbitrary: tbl)
  case (Cons r rms)
  have del: "map_of (AList.delete r tbl) u = (if u = r then None else map_of tbl u)" for u
    by (simp add: AList.delete_conv')
  have "\<forall>u \<in> set rms. map_of (AList.delete r tbl) u \<noteq> None \<and> map_of (AList.delete r tbl) u \<noteq> Some ''owner''"
    using Cons.prems by (auto simp: del)
  with Cons.IH [of "AList.delete r tbl"] Cons.prems(1) obtain tbl' where
    t: "run_save owner (map RevokeCall rms @ cs) (AList.delete r tbl) = run_save owner cs tbl'"
      "\<forall>u. map_of tbl' u = (if u \<in> set rms then None else map_of (AList.delete r tbl) u)" by auto
  have "perm_call owner (RevokeCall r) tbl = Inr (AList.delete r tbl)" using Cons.prems(2) by auto
  then show ?case using t by (intro exI [of _ tbl']) (auto simp: del)
qed auto

lemma grants_run:
  assumes "distinct (map rc_id ads)" and "owner \<notin> Some ` rc_id ` set ads"
  shows "\<exists>tbl'. run_save owner (map (\<lambda>a. GrantCall (rc_id a) (sa_role a)) ads) tbl = (tbl', None) \<and>
    (\<forall>u. map_of tbl' u = (case map_of (map (\<lambda>a. (rc_id a, sa_role a)) ads) u of None \<Rightarrow> map_of tbl u | Some r \<Rightarrow> Some r))"
  using assms
proof (induction ads arbitrary: tbl)
  case (Cons a ads)
  from Cons.IH [of "AList.update (rc_id a) (sa_role a) tbl"] Cons.prems obtain tbl' where
    t: "run_save owner (map (\<lambda>a. GrantCall (rc_id a) (sa_role a)) ads) (AList.update (rc_id a) (sa_role a) tbl) = (tbl', None)"
      "\<forall>u. map_of tbl' u = (case map_of (map (\<lambda>a. (rc_id a, sa_role a)) ads) u of
         None \<Rightarrow> map_of (AList.update (rc_id a) (sa_role a) tbl) u | Some r \<Rightarrow> Some r)" by auto
  have "map_of (map (\<lambda>a. (rc_id a, sa_role a)) ads) (rc_id a) = None"
    using Cons.prems(1) by (auto simp: map_of_eq_None_iff image_image)
  then show ?case using t Cons.prems(2) by (auto simp: AList.update_conv' split: option.splits)
qed simp

text \<open>C10: Saving the sharing form does what it shows. From any state the form can reach, for a permission table in which the rows
  to be revoked are there and not owners and nobody staged is the owner, a save goes through: afterwards the people staged
  hold the role staged for them, those revoked hold none, and everybody else what they held. The caller is never staged and
  nobody twice.\<close>

theorem share_save_refines:
  assumes "reach share_init (share_step me) f" and "owner \<notin> Some ` rc_id ` set (sf_adds f)"
    and "\<forall>u \<in> set (sf_removes f). map_of tbl u \<noteq> None \<and> map_of tbl u \<noteq> Some ''owner''"
  shows "\<exists>tbl'. run_save owner (save_calls (sf_removes f) (sf_adds f)) tbl = (tbl', None) \<and>
      (\<forall>u. map_of tbl' u = (case map_of (map (\<lambda>a. (rc_id a, sa_role a)) (sf_adds f)) u of
              Some r \<Rightarrow> Some r | None \<Rightarrow> if u \<in> set (sf_removes f) then None else map_of tbl u)) \<and>
      distinct (map rc_id (sf_adds f)) \<and> me \<notin> Some ` rc_id ` set (sf_adds f)"
proof -
  have inv: "share_inv me f" using share.inv_reach assms(1) .
  then have d: "distinct (map rc_id (sf_adds f))" "distinct (sf_removes f)" "me \<notin> Some ` rc_id ` set (sf_adds f)"
    by (simp_all add: share_inv_def)
  from revokes_run [OF d(2) assms(3)] obtain t1 where
    t1: "run_save owner (save_calls (sf_removes f) (sf_adds f)) tbl = run_save owner (map (\<lambda>a. GrantCall (rc_id a) (sa_role a)) (sf_adds f)) t1"
      "\<forall>u. map_of t1 u = (if u \<in> set (sf_removes f) then None else map_of tbl u)" unfolding save_calls_def by blast
  from grants_run [OF d(1) assms(2)] obtain t2 where
    t2: "run_save owner (map (\<lambda>a. GrantCall (rc_id a) (sa_role a)) (sf_adds f)) t1 = (t2, None)"
      "\<forall>u. map_of t2 u = (case map_of (map (\<lambda>a. (rc_id a, sa_role a)) (sf_adds f)) u of None \<Rightarrow> map_of t1 u | Some r \<Rightarrow> Some r)" by blast
  show ?thesis using t1 t2 d(1,3) by (intro exI [of _ t2]) (auto split: option.splits)
qed

definition sample_share :: share_form where
  "sample_share =
     role_effect (share_event_apply None (RevokeRow ''u2'')
       (role_effect (share_event_apply None (PermsArrive [\<lparr>vp_user_id = ''u2'', vp_role = ''rw''\<rparr>]) share_init)))"

theorem share_save_refines_witness:
  "\<exists>tbl'. run_save (Some ''u1'') (save_calls (sf_removes sample_share) (sf_adds sample_share)) [(''u2'', ''rw''), (''u3'', ''ro'')] = (tbl', None) \<and>
     map_of tbl' ''u2'' = None \<and> map_of tbl' ''u3'' = Some ''ro''"
proof -
  have r: "reach share_init (share_step None) sample_share"
    unfolding sample_share_def by (rule reach_step, rule reach_step, rule reach_init, rule share_event, rule share_event)
  have f: "sf_removes sample_share = [''u2'']" "sf_adds sample_share = []"
    by (simp_all add: sample_share_def share_init_def role_effect_def visible_perms_def)
  from share_save_refines [OF r, of "Some ''u1''" "[(''u2'', ''rw''), (''u3'', ''ro'')]"] show ?thesis by (auto simp: f)
qed

lemma run_save_absent:
  assumes "map_of tbl u = None" and "\<forall>r. GrantCall u r \<notin> set cs"
  shows "map_of (fst (run_save owner cs tbl)) u = None"
  using assms
proof (induction cs arbitrary: tbl)
  case (Cons c cs)
  show ?case
  proof (cases "perm_call owner c tbl")
    case (Inr tb)
    have "map_of tb u = None"
    proof (cases c)
      case (RevokeCall w)
      then show ?thesis using Inr Cons.prems(1) by (auto simp: AList.delete_conv' split: option.splits if_splits)
    next
      case (GrantCall w r)
      then have "w \<noteq> u" using Cons.prems(2) by auto
      then show ?thesis using Inr GrantCall Cons.prems(1) by (auto simp: AList.update_conv' split: if_splits)
    qed
    then show ?thesis using Inr Cons by simp
  qed (use Cons.prems in simp)
qed simp

text \<open>A save that fails half-way cannot be repeated. When the first staged revocation went through and a later call failed, the
  form still holds all that was staged, and saving again stops at that revocation with nothing changed. The revoked person is
  no longer listed, so the revocation cannot be taken back singly.\<close>

theorem share_retry_stuck:
  assumes "sf_removes f = u # rms" and "distinct (sf_removes f)" and "u \<notin> rc_id ` set (sf_adds f)"
    and "map_of tbl u \<noteq> None" and "map_of tbl u \<noteq> Some ''owner''"
    and "run_save owner (save_calls (sf_removes f) (sf_adds f)) tbl = (tbl', Some e)"
    and "sf_perms g = filter (\<lambda>p. map_of tbl' (vp_user_id p) \<noteq> None) ps" and "sf_removes g = sf_removes f"
  shows "sf_removes (save_done False f) = sf_removes f \<and> sf_adds (save_done False f) = sf_adds f \<and>
    run_save owner (save_calls (sf_removes f) (sf_adds f)) tbl' = (tbl', Some PermNotFound) \<and>
    u \<in> set (sf_removes (share_event_apply me (UndoRevoke u) g))"
proof -
  have first: "perm_call owner (RevokeCall u) tbl = Inr (AList.delete u tbl)" using assms(4,5) by auto
  have "map_of (AList.delete u tbl) u = None" by (simp add: AList.delete_conv')
  moreover have "run_save owner (save_calls rms (sf_adds f)) (AList.delete u tbl) = (tbl', Some e)"
    using assms(1,6) first by (simp add: save_calls_def del: perm_call.simps)
  moreover have "\<forall>r. GrantCall u r \<notin> set (save_calls rms (sf_adds f))" using assms(3) by (auto simp: save_calls_def)
  ultimately have gone: "map_of tbl' u = None" using run_save_absent [of "AList.delete u tbl" u "save_calls rms (sf_adds f)" owner] by simp
  then have "u \<notin> vp_user_id ` set (visible_perms g)" using assms(7) by (auto simp: visible_perms_def)
  then show ?thesis using gone assms(1,8) by (simp add: save_done_def save_calls_def)
qed

theorem share_retry_stuck_witness:
  "\<exists>f :: share_form. run_save (Some ''u1'') (save_calls (sf_removes f) (sf_adds f)) [] = ([], Some PermNotFound) \<and> sf_removes f = [''u2'']"
proof -
  let ?f = "share_init\<lparr>sf_removes := [''u2''], sf_adds := [\<lparr>rc_id = ''u1'', rc_name = [], rc_email = [], sa_role = ''rw''\<rparr>]\<rparr>"
  have "run_save (Some ''u1'') (save_calls (sf_removes ?f) (sf_adds ?f)) [(''u2'', ''rw'')] = ([], Some OwnerHasAccess)"
    by (simp add: save_calls_def)
  note ran = this
  have "sf_removes ?f = [''u2'']" "distinct (sf_removes ?f)" "''u2'' \<notin> rc_id ` set (sf_adds ?f)"
    "map_of [(''u2'', ''rw'')] ''u2'' \<noteq> None" "map_of [(''u2'', ''rw'')] ''u2'' \<noteq> Some ''owner''"
    "sf_perms ?f = filter (\<lambda>p. map_of [] (vp_user_id p) \<noteq> None) []"
    by (simp_all add: share_init_def)
  note share_retry_stuck [OF this(1-5) ran this(6) refl, of None]
  then show ?thesis by (intro exI [of _ ?f]) simp
qed

text \<open>The controls stay live while a save runs, and its success clears everything staged: what was added meanwhile is dropped
  without having been sent.\<close>

lemma staged_while_saving_lost:
  assumes "sf_saving f = Some (rms, ads)" and "sf_resolved f = Some r"
  shows "rc_id r \<in> rc_id ` set (sf_adds (stageAdd f)) \<and> sf_saving (stageAdd f) = Some (rms, ads) \<and>
    sf_adds (share_event_apply me (SaveDone True) (stageAdd f)) = []"
  using assms by (simp add: stageAdd_def save_done_def)

end
