(* ===== verification/Account_Screens.thy ===== *)
theory Account_Screens
  imports Volume_Page Api_Client Infra_Hooks
begin

text \<open>
  Signing in and signing up (\<^verbatim>\<open>features/auth/AuthPages.tsx\<close>), changing the password there and on its own page
  (\<^verbatim>\<open>features/account/PasswordPage.tsx\<close>), the account screen (\<^verbatim>\<open>AccountPage.tsx\<close>) and the request for a larger quota
  (\<^verbatim>\<open>QuotaRequestPage.tsx\<close>). A handler is modelled with the answers of its calls as arguments; what it returns is the page,
  the store and where the router is sent.
\<close>

section \<open>Signing in and signing up\<close>

datatype login_tab = SignIn | SignUp

record login_page =
  lg_email :: string
  lg_pw :: string
  lg_name :: string
  lg_tab :: login_tab
  lg_emailTouched :: bool
  lg_busy :: bool
  lg_error :: "string option"
  lg_done :: "string option"

definition login_page_init :: login_page where
  "login_page_init =
     \<lparr>lg_email = [], lg_pw = [], lg_name = [], lg_tab = SignIn, lg_emailTouched = False, lg_busy = False, lg_error = None,
      lg_done = None\<rparr>"

text \<open>\<^verbatim>\<open>/^[^@\s]+@[^@\s]+\.[^@\s]+$/\<close>\<close>

definition address_shape :: "string \<Rightarrow> bool" where
  "address_shape s =
     (list_all (\<lambda>c. \<not> js_space c) s \<and>
      (case split_on (CHR ''@'') s of [local, domain] \<Rightarrow> local \<noteq> [] \<and> dot_inside False domain | _ \<Rightarrow> False))"

definition emailMalformed :: "login_page \<Rightarrow> bool" where
  "emailMalformed p = (lg_emailTouched p \<and> trim (lg_email p) \<noteq> [] \<and> \<not> address_shape (trim (lg_email p)))"

definition signupOpen :: "string option \<Rightarrow> bool" where
  "signupOpen mode = (str_or mode ''closed'' \<noteq> ''closed'')"

definition submitDisabled :: "login_page \<Rightarrow> bool" where
  "submitDisabled p =
     (lg_busy p \<or> lg_email p = [] \<or> lg_pw p = [] \<or> emailMalformed p \<or>
      lg_tab p = SignUp \<and> (trim (lg_name p) = [] \<or> length (lg_pw p) < 8))"

definition login_pick_tab :: "login_tab \<Rightarrow> login_page \<Rightarrow> login_page" where
  "login_pick_tab k p = p\<lparr>lg_tab := k, lg_error := None, lg_done := None\<rparr>"

definition login_reasons :: "login_page \<Rightarrow> string list" where
  "login_reasons p =
     (if lg_tab p = SignUp \<and> trim (lg_name p) = [] then [''auth.name''] else []) @
     (if lg_email p = [] then [''auth.email''] else []) @ (if lg_pw p = [] then [''auth.password''] else [])"

text \<open>A failed sign-in: a 401, or a failure without a status, is the generic text; anything else its own message.\<close>

definition login_message :: "i18n \<Rightarrow> (rat \<Rightarrow> string) \<Rightarrow> api_error \<Rightarrow> string" where
  "login_message tr sf err =
     (case ae_status err of
        Some st \<Rightarrow> if st \<noteq> 0 \<and> st \<noteq> 401 then humanizeError tr sf err else i18n_t tr ''auth.invalidCredentials'' []
      | None \<Rightarrow> i18n_t tr ''auth.invalidCredentials'' [])"

record outcome =
  oc_page :: login_page
  oc_auth :: AuthState
  oc_goto :: "string option"
  oc_toast :: "string option"

definition returnUrl :: "string option \<Rightarrow> string" where
  "returnUrl url = str_or url ''/''"

definition handlePassword ::
  "i18n \<Rightarrow> (rat \<Rightarrow> string) \<Rightarrow> (string \<Rightarrow> JwtClaims) \<Rightarrow> string option \<Rightarrow> api_error + string \<Rightarrow> login_page \<Rightarrow> AuthState \<Rightarrow> outcome" where
  "handlePassword tr sf parse url answer p s =
     (let (s', cmds, err) = loginPassword parse answer s in
      case err of
        None \<Rightarrow> \<lparr>oc_page = p\<lparr>lg_error := None, lg_busy := False\<rparr>, oc_auth = s',
                 oc_goto = Some (if jc_must_change_password (claims s') then ''/change-password'' else returnUrl url), oc_toast = None\<rparr>
      | Some e \<Rightarrow> (let msg = login_message tr sf e in
                   \<lparr>oc_page = p\<lparr>lg_error := Some msg, lg_busy := False\<rparr>, oc_auth = s', oc_goto = None, oc_toast = Some msg\<rparr>))"

text \<open>The request of a sign-up; its answer is the new account's status, and an active account is signed in at once.\<close>

definition signup_request :: "login_page \<Rightarrow> mutation_def" where
  "signup_request p = useSignup (trim (lg_email p)) (trim (lg_name p)) (lg_pw p)"

definition handleSignup ::
  "i18n \<Rightarrow> (rat \<Rightarrow> string) \<Rightarrow> (string \<Rightarrow> JwtClaims) \<Rightarrow> string option \<Rightarrow> api_error + string \<Rightarrow> api_error + string \<Rightarrow> login_page \<Rightarrow> AuthState \<Rightarrow> outcome" where
  "handleSignup tr sf parse url registered answer p s =
     (let failed = (\<lambda>q e. (let msg = humanizeError tr sf e in
            \<lparr>oc_page = q\<lparr>lg_error := Some msg, lg_busy := False\<rparr>, oc_auth = s, oc_goto = None, oc_toast = Some msg\<rparr>))
      in case registered of
           Inl e \<Rightarrow> failed (p\<lparr>lg_error := None\<rparr>) e
         | Inr status \<Rightarrow>
             (let q = p\<lparr>lg_error := None, lg_done := Some status\<rparr> in
              if status = ''active'' then
                (let (s', cmds, err) = loginPassword parse answer s in
                 case err of
                   None \<Rightarrow> \<lparr>oc_page = q\<lparr>lg_busy := False\<rparr>, oc_auth = s', oc_goto = Some (returnUrl url), oc_toast = None\<rparr>
                 | Some e \<Rightarrow> failed q e)
              else \<lparr>oc_page = q\<lparr>lg_busy := False\<rparr>, oc_auth = s, oc_goto = None, oc_toast = None\<rparr>))"

section \<open>Changing the password\<close>

record pw_page =
  pw_cur :: string
  pw_new :: string
  pw_again :: string
  pw_busy :: bool

definition tooShort :: "pw_page \<Rightarrow> bool" where
  "tooShort p = (pw_new p \<noteq> [] \<and> length (pw_new p) < 8)"

definition mismatch :: "pw_page \<Rightarrow> bool" where
  "mismatch p = (pw_again p \<noteq> [] \<and> pw_new p \<noteq> pw_again p)"

text \<open>The screen outside the shell: a forced change leaves the current password out.\<close>

definition change_disabled :: "pw_page \<Rightarrow> bool" where
  "change_disabled p = (pw_busy p \<or> pw_new p = [] \<or> pw_again p = [] \<or> tooShort p \<or> mismatch p)"

definition change_submit :: "AuthState \<Rightarrow> pw_page \<Rightarrow> request option" where
  "change_submit s p =
     (if length (pw_new p) < 8 \<or> pw_new p \<noteq> pw_again p then None
      else map_option (\<lambda>tok. changePassword_request tok (pw_new p) (if jc_must_change_password (claims s) then None else Some (pw_cur p)))
             (changePassword_start s))"

text \<open>The page inside the shell always sends the current password.\<close>

definition password_disabled :: "pw_page \<Rightarrow> bool" where
  "password_disabled p = (pw_busy p \<or> pw_cur p = [] \<or> pw_new p = [] \<or> pw_again p = [] \<or> tooShort p \<or> mismatch p)"

definition password_submit :: "AuthState \<Rightarrow> pw_page \<Rightarrow> request option" where
  "password_submit s p =
     (if length (pw_new p) < 8 then None
      else if pw_new p \<noteq> pw_again p then None
      else map_option (\<lambda>tok. changePassword_request tok (pw_new p) (Some (pw_cur p))) (changePassword_start s))"

text \<open>Where the answer leads: \<open>home\<close> is the dashboard or the account screen.\<close>

definition change_answer :: "(string \<Rightarrow> JwtClaims) \<Rightarrow> string \<Rightarrow> api_error + string \<Rightarrow> AuthState \<Rightarrow> AuthState \<times> string option" where
  "change_answer parse home answer s =
     (let (s', err) = changePassword_done parse answer s in (s', if err = None then Some home else None))"

section \<open>The account screen\<close>

record Profile =
  pf_name :: "string option"
  pf_global_role :: "string option"
  pf_global_roles :: "string list"
  pf_memberships :: "Membership list"

definition profile_orgs :: "Profile \<Rightarrow> string list" where
  "profile_orgs p = uniq (map the (filter str_truthy (map mb_org_name (pf_memberships p))))"

definition roleText :: "i18n \<Rightarrow> Profile option \<Rightarrow> string" where
  "roleText tr profile =
     (let globals = (case profile of None \<Rightarrow> []
            | Some p \<Rightarrow> if pf_global_roles p \<noteq> [] then pf_global_roles p else if str_truthy (pf_global_role p) then [the (pf_global_role p)] else []);
          held = (case profile of None \<Rightarrow> [] | Some p \<Rightarrow> map mb_role (pf_memberships p));
          text = join '', '' (map (\<lambda>r. roleLabel tr (Some r)) (uniq (globals @ held)))
      in if text = [] then i18n_t tr ''account.defaultRole'' [] else text)"

definition profile_dirty :: "Profile option \<Rightarrow> string \<Rightarrow> bool" where
  "profile_dirty profile name =
     (case profile of None \<Rightarrow> False | Some p \<Rightarrow> trim name \<noteq> str_or (pf_name p) [] \<and> trim name \<noteq> [])"

definition saveProfile :: "string \<Rightarrow> Profile option \<Rightarrow> string \<Rightarrow> mutation_def option" where
  "saveProfile userId profile name =
     (if profile_dirty profile name then Some (useUpdateProfile userId (JObj [(''name'', JStr (trim name))])) else None)"

text \<open>The effect on the loaded name.\<close>

definition seed_name :: "Profile option \<Rightarrow> string \<Rightarrow> string" where
  "seed_name profile name = (case Option.bind profile pf_name of Some n \<Rightarrow> if n \<noteq> [] then n else name | None \<Rightarrow> name)"

text \<open>A limit of the effective policy: zero and absent are unlimited; the idle windows are shown in minutes.\<close>

definition limit_shown :: "rat option \<Rightarrow> rat option" where
  "limit_shown v = (case v of Some r \<Rightarrow> if r = 0 then None else Some r | None \<Rightarrow> None)"

definition window_minutes :: "rat option \<Rightarrow> int option" where
  "window_minutes v = (case v of Some r \<Rightarrow> if r = 0 then None else Some (js_round (r / 60)) | None \<Rightarrow> None)"

definition notification_page :: "jsnum \<Rightarrow> 'a list \<Rightarrow> 'a list" where
  "notification_page page items = page_rows 10 page items"

section \<open>Asking for a larger quota\<close>

record quota_form =
  qf_cpu :: string
  qf_memGb :: string
  qf_storageGb :: string
  qf_gpuMemGb :: string
  qf_gpuCores :: string
  qf_note :: string

definition quota_fields :: "quota_form \<Rightarrow> string list" where
  "quota_fields f = [qf_cpu f, qf_memGb f, qf_storageGb f, qf_gpuMemGb f, qf_gpuCores f]"

definition anyTarget :: "quota_form \<Rightarrow> bool" where
  "anyTarget f = list_ex (\<lambda>s. trim s \<noteq> []) (quota_fields f)"

definition target_ok :: "string \<Rightarrow> bool" where
  "target_ok s = (trim s = [] \<or> is_finite (js_number s) \<and> (case js_number s of Fin r \<Rightarrow> 0 < r | _ \<Rightarrow> False))"

definition quota_form_valid :: "quota_form \<Rightarrow> bool" where
  "quota_form_valid f = (anyTarget f \<and> list_all target_ok (quota_fields f) \<and> trim (qf_note f) \<noteq> [])"

definition quota_form_blockers :: "quota_form \<Rightarrow> string list" where
  "quota_form_blockers f =
     (if anyTarget f then [] else [''quota.anyTargetBlocker'']) @ (if trim (qf_note f) = [] then [''common.reason''] else [])"

text \<open>\<^verbatim>\<open>s.trim() ? Number(s) : undefined\<close>, scaled to the unit the server uses.\<close>

definition quota_number :: "rat \<Rightarrow> string \<Rightarrow> js" where
  "quota_number scale s =
     (if trim s = [] then JUndef else case js_number s of Fin r \<Rightarrow> JNum (r * scale) | n \<Rightarrow> num_json n)"

definition submit_quota_request :: "string option \<Rightarrow> quota_form \<Rightarrow> mutation_def option" where
  "submit_quota_request activeId f =
     (if \<not> quota_form_valid f then None
      else Some (useCreateResourceRequest (JObj
        [(''group_id'', case activeId of None \<Rightarrow> JNull | Some g \<Rightarrow> JStr g), (''cpu'', quota_number 1 (qf_cpu f)),
         (''mem_gb'', quota_number 1 (qf_memGb f)), (''storage_gb'', quota_number 1 (qf_storageGb f)),
         (''gpu_mem_mb'', quota_number 1024 (qf_gpuMemGb f)), (''gpu_cores'', quota_number 1 (qf_gpuCores f)),
         (''note'', JStr (trim (qf_note f)))])))"

definition current_limit :: "rat option \<Rightarrow> rat \<Rightarrow> int option" where
  "current_limit v scale = (case v of Some r \<Rightarrow> if 0 < r then Some (js_round (r / scale)) else None | None \<Rightarrow> None)"

section \<open>What the screens guarantee\<close>

text \<open>What the sign-in form does with an answer. A token signs the store in and sends the router to the password screen if the
  account has to change its password and otherwise to the page it was turned away from; past \<^verbatim>\<open>RequireAuth\<close>, the guards of
  that page still decide. A failure leaves the store and the page, and its message stays on the form: the generic one for
  rejected credentials, and also for a failure without a status, such as a connection that could not be made.\<close>

lemma sign_in_outcome:
  "(case answer of
      Inr tok \<Rightarrow>
        isAuthed (oc_auth (handlePassword tr sf parse url answer p s)) \<and>
        accessToken (oc_auth (handlePassword tr sf parse url answer p s)) = Some tok \<and>
        lg_error (oc_page (handlePassword tr sf parse url answer p s)) = None \<and>
        oc_goto (handlePassword tr sf parse url answer p s) =
          Some (if jc_must_change_password (parse tok) then ''/change-password'' else returnUrl url) \<and>
        RequireAuth (returnUrl url) (oc_auth (handlePassword tr sf parse url answer p s)) =
          (if jc_must_change_password (parse tok) then ToChangePassword else Shell)
    | Inl e \<Rightarrow>
        oc_auth (handlePassword tr sf parse url answer p s) = s \<and>
        oc_goto (handlePassword tr sf parse url answer p s) = None \<and>
        lg_error (oc_page (handlePassword tr sf parse url answer p s)) = oc_toast (handlePassword tr sf parse url answer p s) \<and>
        oc_toast (handlePassword tr sf parse url answer p s) =
          Some (if ae_status e \<in> {None, Some 0, Some 401} then i18n_t tr ''auth.invalidCredentials'' [] else humanizeError tr sf e)) \<and>
   \<not> lg_busy (oc_page (handlePassword tr sf parse url answer p s))"
  by (auto simp: handlePassword_def loginPassword_def applyTokens_def RequireAuth_def login_message_def Let_def split: sum.splits option.splits)

text \<open>A sign-up signs in only an account the server made active, and an error of either call is shown; what is registered is
  the trimmed address and name with a password of at least eight characters.\<close>

theorem sign_up_outcome:
  assumes "lg_tab p = SignUp" and "\<not> submitDisabled p"
  shows "rq_body (mu_request (signup_request p)) =
      Some (JObj [(''email'', JStr (trim (lg_email p))), (''name'', JStr (trim (lg_name p))), (''password'', JStr (lg_pw p))]) \<and>
    trim (lg_name p) \<noteq> [] \<and> 8 \<le> length (lg_pw p) \<and>
    (oc_goto (handleSignup tr sf parse url reg answer p s) \<noteq> None \<longleftrightarrow> reg = Inr ''active'' \<and> (\<exists>tok. answer = Inr tok)) \<and>
    (oc_auth (handleSignup tr sf parse url reg answer p s) \<noteq> s \<longrightarrow> reg = Inr ''active'') \<and>
    (lg_error (oc_page (handleSignup tr sf parse url reg answer p s)) \<noteq> None \<longleftrightarrow>
       (\<exists>e. reg = Inl e \<or> reg = Inr ''active'' \<and> answer = Inl e)) \<and>
    lg_done (oc_page (handleSignup tr sf parse url (Inr status) answer p s)) = Some status"
  using assms
  by (auto simp: submitDisabled_def signup_request_def useSignup_def use_mutation_def http_send_def handleSignup_def loginPassword_def Let_def
      split: sum.splits option.splits)

theorem sign_up_outcome_witness:
  "oc_goto (handleSignup \<lparr>i18n_exists = \<lambda>_. False, i18n_t = \<lambda>k _. k\<rparr> (\<lambda>_. []) (\<lambda>_. no_claims) None (Inr ''active'') (Inr ''tok'')
     (login_page_init\<lparr>lg_email := ''a@b.c'', lg_name := ''n'', lg_pw := ''12345678'', lg_tab := SignUp\<rparr>) initial_auth) \<noteq> None"
proof -
  let ?p = "login_page_init\<lparr>lg_email := ''a@b.c'', lg_name := ''n'', lg_pw := ''12345678'', lg_tab := SignUp\<rparr>"
  have "lg_tab ?p = SignUp" "\<not> submitDisabled ?p"
    by (simp_all add: login_page_init_def submitDisabled_def emailMalformed_def trim_def js_space_def)
  from sign_up_outcome [OF this] show ?thesis by simp
qed

text \<open>C30: A password is changed only to one of at least eight characters that was typed twice alike, by whoever holds the session's
  token, and with the current password unless the account has to change it; a failure leaves the store as it was and the
  page open. A button that is enabled sends the request.\<close>

theorem password_change_checked:
  "(case change_submit s p of
      None \<Rightarrow> change_disabled p \<or> \<not> str_truthy (accessToken s)
    | Some rq \<Rightarrow> 8 \<le> length (pw_new p) \<and> pw_new p = pw_again p \<and>
        (\<exists>tok. accessToken s = Some tok \<and>
           rq = changePassword_request tok (pw_new p) (if jc_must_change_password (claims s) then None else Some (pw_cur p)))) \<and>
   (case password_submit s p of
      None \<Rightarrow> password_disabled p \<or> \<not> str_truthy (accessToken s)
    | Some rq \<Rightarrow> 8 \<le> length (pw_new p) \<and> pw_new p = pw_again p \<and>
        (\<exists>tok. accessToken s = Some tok \<and> rq = changePassword_request tok (pw_new p) (Some (pw_cur p)))) \<and>
   (case answer of
      Inl e \<Rightarrow> change_answer parse home answer s = (s, None)
    | Inr tok \<Rightarrow> change_answer parse home answer s = (applyTokens parse tok s, Some home))"
  by (auto simp: change_submit_def password_submit_def change_disabled_def password_disabled_def tooShort_def mismatch_def
      changePassword_start_def change_answer_def changePassword_done_def split: option.splits sum.splits)

theorem password_change_checked_witness:
  "change_submit (initial_auth\<lparr>accessToken := Some ''t''\<rparr>) \<lparr>pw_cur = ''old'', pw_new = ''12345678'', pw_again = ''12345678'', pw_busy = False\<rparr> \<noteq> None"
  using password_change_checked [where s = "initial_auth\<lparr>accessToken := Some ''t''\<rparr>" and answer = "Inr ''t''" and
      p = "\<lparr>pw_cur = ''old'', pw_new = ''12345678'', pw_again = ''12345678'', pw_busy = False\<rparr>"
      and parse = "\<lambda>_. no_claims" and home = "''/''"]
  by (auto simp: change_disabled_def tooShort_def mismatch_def split: option.splits)

lemma profile_saved_once: "saveProfile u (Some p) name = Some m \<Longrightarrow> saveProfile u (Some (p\<lparr>pf_name := Some (trim name)\<rparr>)) name = None"
  by (simp add: saveProfile_def profile_dirty_def)

text \<open>Every figure of a request for a larger quota is a positive number, at least one is given, and there is a reason; video
  memory is asked for in megabytes. A figure that is not one blocks the form without being named.\<close>

theorem quota_request_sound:
  "(case submit_quota_request activeId f of
      None \<Rightarrow> quota_form_blockers f \<noteq> [] \<or> \<not> list_all target_ok (quota_fields f)
    | Some m \<Rightarrow> quota_form_blockers f = [] \<and>
        (let body = the (rq_body (mu_request m)) in
         list_all (\<lambda>(k, s, scale). if trim s = [] then js_get k body = JUndef
                                    else \<exists>r. js_number s = Fin r \<and> 0 < r \<and> js_get k body = JNum (r * scale))
           [(''cpu'', qf_cpu f, 1), (''mem_gb'', qf_memGb f, 1), (''storage_gb'', qf_storageGb f, 1),
            (''gpu_mem_mb'', qf_gpuMemGb f, 1024), (''gpu_cores'', qf_gpuCores f, 1)] \<and>
         js_get ''note'' body = JStr (trim (qf_note f)) \<and> trim (qf_note f) \<noteq> [] \<and>
         list_ex (\<lambda>s. trim s \<noteq> []) (quota_fields f)))"
proof -
  have num: "if trim s = [] then quota_number scale s = JUndef else \<exists>r. js_number s = Fin r \<and> 0 < r \<and> quota_number scale s = JNum (r * scale)"
    if "target_ok s" for s scale
    using that by (cases "js_number s") (auto simp: target_ok_def quota_number_def)
  show ?thesis
    using num [of "qf_cpu f" 1] num [of "qf_memGb f" 1] num [of "qf_storageGb f" 1] num [of "qf_gpuMemGb f" 1024] num [of "qf_gpuCores f" 1]
    by (auto simp: submit_quota_request_def quota_form_valid_def quota_form_blockers_def anyTarget_def quota_fields_def
        useCreateResourceRequest_def use_mutation_def http_send_def Let_def split: if_splits)
qed

theorem quota_request_sound_witness:
  "\<exists>m. submit_quota_request None \<lparr>qf_cpu = ''7'', qf_memGb = [], qf_storageGb = [], qf_gpuMemGb = [], qf_gpuCores = [], qf_note = ''x''\<rparr> = Some m \<and>
     js_get ''cpu'' (the (rq_body (mu_request m))) = JNum 7"
proof -
  let ?f = "\<lparr>qf_cpu = ''7'', qf_memGb = [], qf_storageGb = [], qf_gpuMemGb = [], qf_gpuCores = [], qf_note = ''x''\<rparr>"
  have n: "js_number ''7'' = Fin 7" "trim ''7'' = ''7''" "trim ''x'' = ''x''" "trim [] = []"
    by (simp_all add: js_number_def Let_def trim_def js_space_def to_lower_def lower_char_def unsigned_literal_def is_digit_def
        exponent_of_def nat_of_digits_def digit_val_def)
  then have "quota_form_blockers ?f = []" "list_all target_ok (quota_fields ?f)"
    by (simp_all add: quota_form_blockers_def anyTarget_def quota_fields_def target_ok_def)
  then show ?thesis using quota_request_sound [where activeId = None and f = ?f] n by (auto simp: Let_def split: option.splits)
qed

end
