(* ===== verification/Bulk_Import.thy ===== *)
theory Bulk_Import
  imports Console_Queries Js_Number
begin

text \<open>
  The roster import of the admin console (\<^verbatim>\<open>features/admin/UsersBulkImport.tsx\<close>): reading a CSV of addresses
  and names, the preview's checks, the upload in chunks of 200 with one idempotency key per chunk, the
  state of the page, and the credentials file. The CSV tokenizer (Papa Parse) is the parameter \<open>papa\<close>: the
  table of cells of a text.
\<close>

section \<open>Reading the file\<close>

text \<open>The search \<^verbatim>\<open>/\S+@\S+\.\S+/\<close>: after the \<^verbatim>\<open>@\<close> a run of non-space characters with an inner dot that is followed by one.\<close>

fun dot_follows :: "bool \<Rightarrow> string \<Rightarrow> bool" where
  "dot_follows seen [] = False"
| "dot_follows seen (c # s) =
     (\<not> js_space c \<and> ((seen \<and> c = CHR ''.'' \<and> s \<noteq> [] \<and> \<not> js_space (hd s)) \<or> dot_follows True s))"

fun has_address :: "bool \<Rightarrow> string \<Rightarrow> bool" where
  "has_address prev [] = False"
| "has_address prev (c # s) =
     ((prev \<and> c = CHR ''@'' \<and> dot_follows False s) \<or> has_address (\<not> js_space c) s)"

definition emailOk :: "string \<Rightarrow> bool" where
  "emailOk e = (has_address False (trim e) \<and> \<not> ends_with (trim e) ''.'')"

definition CHUNK :: nat where
  "CHUNK = 200"

datatype row_problem = Invalid_email | Duplicate | Missing_name

record ParsedRow =
  pr_line :: nat
  pr_email :: string
  pr_name :: string
  pr_problem :: "row_problem option"

definition isHeaderCell :: "string \<Rightarrow> bool" where
  "isHeaderCell cell = (CHR ''@'' \<notin> set cell \<and> str_includes (to_lower cell) ''mail'')"

text \<open>\<^verbatim>\<open>text.replace(/^\uFEFF/, '')\<close>, with the text as its UTF-8 bytes.\<close>

definition strip_bom :: "string \<Rightarrow> string" where
  "strip_bom text = (if take 3 text = [CHR 0xEF, CHR 0xBB, CHR 0xBF] then drop 3 text else text)"

text \<open>The i-th cell, \<^verbatim>\<open>''\<close> where the row is shorter.\<close>

definition cell_at :: "nat \<Rightarrow> string list \<Rightarrow> string" where
  "cell_at i cols = (if i < length cols then cols ! i else [])"

definition row_problem_of :: "string list \<Rightarrow> string \<Rightarrow> string \<Rightarrow> row_problem option" where
  "row_problem_of seen email name =
     (if \<not> emailOk email then Some Invalid_email
      else if email \<in> set seen then Some Duplicate
      else if name = [] then Some Missing_name
      else None)"

text \<open>The \<^verbatim>\<open>forEach\<close> over the parsed records: \<open>i\<close> is the index (the code shows \<open>i + 1\<close> as the line; a quoted cell with a
  line break makes one record of several lines), \<open>first\<close> and \<open>seen\<close> the loop's variables.\<close>

fun parse_rows :: "nat \<Rightarrow> bool \<Rightarrow> string list \<Rightarrow> string list list \<Rightarrow> ParsedRow list" where
  "parse_rows i first seen [] = []"
| "parse_rows i first seen (cols # rest) =
     (if list_all (\<lambda>c. trim c = []) cols then parse_rows (Suc i) first seen rest
      else
        (let email = to_lower (trim (cell_at 0 cols)); name = trim (cell_at 1 cols) in
         if first \<and> isHeaderCell email then parse_rows (Suc i) False seen rest
         else
           (let problem = row_problem_of seen email name in
            \<lparr>pr_line = i + 1, pr_email = email, pr_name = name, pr_problem = problem\<rparr> #
            parse_rows (Suc i) False (if problem = None then email # seen else seen) rest)))"

definition parseCsv :: "(string \<Rightarrow> string list list) \<Rightarrow> string \<Rightarrow> ParsedRow list" where
  "parseCsv papa text = parse_rows 0 True [] (papa (strip_bom text))"

definition valid_rows :: "ParsedRow list \<Rightarrow> ParsedRow list" where
  "valid_rows rows = filter (\<lambda>r. pr_problem r = None) rows"

text \<open>The credentials file: created accounts whose one-time password the response carries.\<close>

definition credentialsCsv :: "(rat \<Rightarrow> string) \<Rightarrow> js list \<Rightarrow> string" where
  "credentialsCsv sf results =
     join [CHR 0x0A]
       (''email,initial_password'' #
        map (\<lambda>r. js_to_string sf (js_get ''email'' r) @ '','' @ js_to_string sf (js_get ''initial_password'' r))
          (filter (\<lambda>r. js_get ''status'' r = JStr ''created'' \<and> truthy (js_get ''initial_password'' r)) results))"

section \<open>The page\<close>

record import_page =
  ip_group :: string
  ip_rows :: "ParsedRow list"
  ip_progress :: "(nat \<times> nat) option"
  ip_results :: "js list option"
  ip_batch :: string

definition import_init :: import_page where
  "import_init = \<lparr>ip_group = [], ip_rows = [], ip_progress = None, ip_results = None, ip_batch = []\<rparr>"

text \<open>Choosing a file: \<open>batch\<close> is \<^verbatim>\<open>name:size:now\<close>, \<open>rows\<close> what its text parses to.\<close>

definition onFile :: "string \<Rightarrow> ParsedRow list \<Rightarrow> import_page \<Rightarrow> import_page" where
  "onFile batch rows p = p\<lparr>ip_results := None, ip_batch := batch, ip_rows := rows\<rparr>"

definition setGroupId :: "string \<Rightarrow> import_page \<Rightarrow> import_page" where
  "setGroupId g p = p\<lparr>ip_group := g\<rparr>"

text \<open>The submit button is rendered and not disabled.\<close>

definition can_submit :: "import_page \<Rightarrow> bool" where
  "can_submit p =
     (ip_rows p \<noteq> [] \<and> ip_results p = None \<and> ip_group p \<noteq> [] \<and> valid_rows (ip_rows p) \<noteq> [] \<and> ip_progress p = None)"

definition bulk_request :: "string \<Rightarrow> string \<Rightarrow> ParsedRow list \<Rightarrow> nat \<Rightarrow> request" where
  "bulk_request gid batch chunk i =
     mu_request (useBulkCreateUsers
       (JObj [(''group_id'', JStr gid), (''initial_role'', JStr ''member''),
              (''rows'', JArr (map (\<lambda>r. JObj [(''email'', JStr (pr_email r)), (''name'', JStr (pr_name r))]) chunk))])
       (batch @ '':'' @ show_nat i))"

text \<open>The upload loop over the start indices \<open>i\<close>: the collected results or the failure, the last progress figure
  shown, and the requests it sent, in order.\<close>

function upload_loop ::
  "(request \<Rightarrow> 'e + js) \<Rightarrow> string \<Rightarrow> string \<Rightarrow> ParsedRow list \<Rightarrow> nat \<Rightarrow> js list \<Rightarrow> nat \<Rightarrow>
   ('e + js list) \<times> nat \<times> request list" where
  "upload_loop send gid batch valid i collected progress =
     (if length valid \<le> i then (Inr collected, progress, [])
      else
        (let rq = bulk_request gid batch (take CHUNK (drop i valid)) i in
         case send rq of
           Inl e \<Rightarrow> (Inl e, progress, [rq])
         | Inr d \<Rightarrow>
             (case upload_loop send gid batch valid (i + CHUNK) (collected @ js_elems (js_get ''results'' d))
                 (min (i + CHUNK) (length valid)) of (res, shown, sent) \<Rightarrow> (res, shown, rq # sent))))"
  by pat_completeness auto
termination
  by (relation "measure (\<lambda>(_, _, _, valid, i, _, _). length valid - i)") (auto simp: CHUNK_def)

declare upload_loop.simps [simp del]

text \<open>Pressing the button: the page afterwards and the requests sent.\<close>

definition submit :: "(request \<Rightarrow> 'e + js) \<Rightarrow> import_page \<Rightarrow> import_page \<times> request list" where
  "submit send p =
     (let valid = valid_rows (ip_rows p) in
      if ip_group p = [] \<or> valid = [] then (p, [])
      else case upload_loop send (ip_group p) (ip_batch p) valid 0 [] 0 of
             (Inr collected, shown, sent) \<Rightarrow>
               (p\<lparr>ip_progress := Some (shown, length valid), ip_results := Some collected\<rparr>, sent)
           | (Inl e, _, sent) \<Rightarrow> (p\<lparr>ip_progress := None\<rparr>, sent))"

section \<open>What the preview accepts\<close>

lemma parse_rows_valid:
  "r \<in> set (valid_rows (parse_rows i first seen rows)) \<Longrightarrow>
     emailOk (pr_email r) \<and> pr_email r \<notin> set seen \<and> pr_name r \<noteq> []"
proof (induction rows arbitrary: i first seen)
  case (Cons cols rest)
  have IH: "r \<in> set (valid_rows (parse_rows (Suc i) f s rest)) \<Longrightarrow> set seen \<subseteq> set s \<Longrightarrow>
      emailOk (pr_email r) \<and> pr_email r \<notin> set seen \<and> pr_name r \<noteq> []" for f s
    using Cons.IH [of "Suc i" f s] by blast
  show ?case
    using Cons.prems IH [of _ seen] IH [of _ "to_lower (trim (cell_at 0 cols)) # seen"]
    by (auto simp: valid_rows_def row_problem_of_def Let_def split: if_splits)
qed (simp add: valid_rows_def)

lemma parse_rows_distinct: "distinct (map pr_email (valid_rows (parse_rows i first seen rows)))"
proof (induction rows arbitrary: i first seen)
  case (Cons cols rest)
  let ?email = "to_lower (trim (cell_at 0 cols))"
  have "?email \<notin> pr_email ` set (valid_rows (parse_rows (Suc i) False (?email # seen) rest))"
    by (metis imageE list.set_intros(1) parse_rows_valid)
  then show ?case using Cons.IH by (auto simp: valid_rows_def Let_def)
qed (simp add: valid_rows_def)

lemma parse_rows_lines: "r \<in> set (parse_rows i first seen rows) \<Longrightarrow> i < pr_line r \<and> pr_line r \<le> i + length rows"
  by (induction rows arbitrary: i first seen) (fastforce simp: Let_def split: if_splits)+

lemma parse_rows_sorted: "sorted_wrt (<) (map pr_line (parse_rows i first seen rows))"
proof (induction rows arbitrary: i first seen)
  case (Cons cols rest)
  have "\<forall>r \<in> set (parse_rows (Suc i) f s rest). i + 1 < pr_line r" for f s
    using parse_rows_lines by fastforce
  then show ?case using Cons.IH by (auto simp: Let_def)
qed simp

definition blank_line :: "string list \<Rightarrow> bool" where
  "blank_line cols = list_all (\<lambda>c. trim c = []) cols"

text \<open>Which records have a row: the ones that are not blank, except a header, which only the first of those can be.\<close>

lemma parse_rows_at:
  "(\<exists>r \<in> set (parse_rows i first seen rows). pr_line r = i + j + 1) \<longleftrightarrow>
   j < length rows \<and> \<not> blank_line (rows ! j) \<and>
   \<not> (first \<and> (\<forall>k < j. blank_line (rows ! k)) \<and> isHeaderCell (to_lower (trim (cell_at 0 (rows ! j)))))"
proof (induction rows arbitrary: i first seen j)
  case (Cons cols rest)
  have later: "\<not> (\<exists>r \<in> set (parse_rows (Suc i) f s rest). pr_line r = i + 1)" for f s
    using parse_rows_lines by fastforce
  show ?case
  proof (cases j)
    case 0
    then show ?thesis using later by (auto simp: Let_def blank_line_def)
  next
    case (Suc k)
    have all_less: "(\<forall>k' < Suc k. blank_line ((cols # rest) ! k')) \<longleftrightarrow> blank_line cols \<and> (\<forall>k' < k. blank_line (rest ! k'))"
      by (auto simp: less_Suc_eq_0_disj)
    have IH: "(\<exists>r \<in> set (parse_rows (Suc i) f s rest). pr_line r = Suc (Suc (i + k))) \<longleftrightarrow>
        k < length rest \<and> \<not> blank_line (rest ! k) \<and>
        \<not> (f \<and> (\<forall>k' < k. blank_line (rest ! k')) \<and> isHeaderCell (to_lower (trim (cell_at 0 (rest ! k)))))" for f s
      using Cons.IH [of "Suc i" f s k] by simp
    show ?thesis
      unfolding Suc all_less using IH [of first seen] IH [of False] by (auto simp: Let_def blank_line_def)
  qed
qed simp

lemma parse_rows_content:
  "r \<in> set (parse_rows i first seen rows) \<Longrightarrow> pr_line r = i + j + 1 \<Longrightarrow>
   pr_email r = to_lower (trim (cell_at 0 (rows ! j))) \<and> pr_name r = trim (cell_at 1 (rows ! j))"
proof (induction rows arbitrary: i first seen j)
  case (Cons cols rest)
  show ?case
  proof (cases j)
    case 0
    then have "\<not> r \<in> set (parse_rows (Suc i) f s rest)" for f s using Cons.prems(2) parse_rows_lines by fastforce
    then show ?thesis using Cons.prems(1) 0 by (auto simp: Let_def split: if_splits)
  next
    case (Suc k)
    then show ?thesis using Cons.IH [of "Suc i" _ _ k] Cons.prems by (auto simp: Let_def split: if_splits)
  qed
qed simp

text \<open>What a row is reported for depends on the rows above it only through the addresses already taken.\<close>

lemma row_problem_of_cong: "set seen = set seen' \<Longrightarrow> row_problem_of seen e n = row_problem_of seen' e n"
  by (simp add: row_problem_of_def)

lemma parse_rows_problem:
  "parse_rows i first seen rows = pre @ r # post \<Longrightarrow>
   pr_problem r = row_problem_of (map pr_email (valid_rows pre) @ seen) (pr_email r) (pr_name r)"
proof (induction rows arbitrary: i first seen pre)
  case (Cons cols rest)
  let ?email = "to_lower (trim (cell_at 0 cols))" and ?name = "trim (cell_at 1 cols)"
  show ?case
  proof (cases "blank_line cols \<or> first \<and> isHeaderCell ?email")
    case True
    then show ?thesis using Cons by (auto simp: Let_def blank_line_def split: if_splits)
  next
    case False
    let ?row = "\<lparr>pr_line = i + 1, pr_email = ?email, pr_name = ?name, pr_problem = row_problem_of seen ?email ?name\<rparr>"
    let ?seen = "if row_problem_of seen ?email ?name = None then ?email # seen else seen"
    have nb: "\<not> list_all (\<lambda>c. trim c = []) cols" and nh: "\<not> (first \<and> isHeaderCell ?email)"
      using False by (auto simp: blank_line_def)
    have eq: "?row # parse_rows (Suc i) False ?seen rest = pre @ r # post"
      using Cons.prems by (simp only: parse_rows.simps Let_def nb nh if_False)
    show ?thesis
    proof (cases pre)
      case Nil
      then have "r = ?row" using eq by simp
      then show ?thesis using Nil by (simp add: valid_rows_def)
    next
      case (Cons x pre')
      then have x: "x = ?row" and rest: "parse_rows (Suc i) False ?seen rest = pre' @ r # post" using eq by simp_all
      have "set (map pr_email (valid_rows pre') @ ?seen) = set (map pr_email (valid_rows pre) @ seen)"
        using Cons x by (auto simp: valid_rows_def)
      then show ?thesis using Cons.IH [OF rest] row_problem_of_cong by metis
    qed
  qed
qed simp

text \<open>C28: The preview of a roster is sound and complete, record by record of the parsed table. A record has a row exactly when
  it is not blank and is not the header: only the first record that is not blank can be one, and a later line that merely
  looks like a header (\<^verbatim>\<open>kim.gmail.com\<close>) is kept and reported. The row carries the record's number and its trimmed,
  lower-cased address and trimmed name, in the order of the file; it is reported as an invalid address, a duplicate of an
  acceptable row above it, or a missing name, in that order of precedence, and offered for upload otherwise. So the rows
  offered have pairwise different well-formed addresses and a name each. The number is the file's own line as long as no
  quoted cell holds a line break.\<close>

theorem parseCsv_sound_complete:
  "(\<forall>j. (\<exists>r \<in> set (parseCsv papa text). pr_line r = j + 1) \<longleftrightarrow>
      j < length (papa (strip_bom text)) \<and> \<not> blank_line (papa (strip_bom text) ! j) \<and>
      \<not> ((\<forall>k < j. blank_line (papa (strip_bom text) ! k)) \<and> isHeaderCell (to_lower (trim (cell_at 0 (papa (strip_bom text) ! j)))))) \<and>
   (\<forall>j. \<forall>r \<in> set (parseCsv papa text). pr_line r = j + 1 \<longrightarrow>
      pr_email r = to_lower (trim (cell_at 0 (papa (strip_bom text) ! j))) \<and> pr_name r = trim (cell_at 1 (papa (strip_bom text) ! j))) \<and>
   sorted_wrt (<) (map pr_line (parseCsv papa text)) \<and>
   (\<forall>pre r post. parseCsv papa text = pre @ r # post \<longrightarrow>
      pr_problem r = (if \<not> emailOk (pr_email r) then Some Invalid_email
                      else if pr_email r \<in> pr_email ` set (valid_rows pre) then Some Duplicate
                      else if pr_name r = [] then Some Missing_name else None)) \<and>
   distinct (map pr_email (valid_rows (parseCsv papa text))) \<and>
   list_all (\<lambda>r. emailOk (pr_email r) \<and> pr_name r \<noteq> []) (valid_rows (parseCsv papa text))"
proof (intro conjI allI ballI impI)
  let ?t = "papa (strip_bom text)"
  show "(\<exists>r \<in> set (parseCsv papa text). pr_line r = j + 1) \<longleftrightarrow> j < length ?t \<and> \<not> blank_line (?t ! j) \<and>
      \<not> ((\<forall>k < j. blank_line (?t ! k)) \<and> isHeaderCell (to_lower (trim (cell_at 0 (?t ! j)))))" for j
    using parse_rows_at [of 0 True "[]" ?t j] by (simp add: parseCsv_def)
  show "pr_problem r = (if \<not> emailOk (pr_email r) then Some Invalid_email
        else if pr_email r \<in> pr_email ` set (valid_rows pre) then Some Duplicate
        else if pr_name r = [] then Some Missing_name else None)" if "parseCsv papa text = pre @ r # post" for pre r post
    using parse_rows_problem [of 0 True "[]" ?t pre r post] that by (simp add: parseCsv_def row_problem_of_def)
qed (use parse_rows_content [of _ 0 True "[]"] parse_rows_sorted [of 0 True "[]"] parse_rows_distinct [of 0 True "[]"]
      parse_rows_valid [of _ 0 True "[]"] in \<open>auto simp: parseCsv_def list_all_iff\<close>)

text \<open>A header, a mistyped address, and a later line that looks like a header: the last two have their rows.\<close>

theorem parseCsv_sound_complete_witness:
  "(\<exists>r \<in> set (parseCsv (\<lambda>_. [[''email'', ''name''], [''kim-at-u'', ''Kim''], [''lee.gmail.com'', ''Lee'']]) []).
     pr_line r = 2 + 1 \<and> pr_problem r = Some Invalid_email) \<and>
   \<not> (\<exists>r \<in> set (parseCsv (\<lambda>_. [[''email'', ''name''], [''kim-at-u'', ''Kim''], [''lee.gmail.com'', ''Lee'']]) []). pr_line r = 0 + 1)"
proof -
  let ?t = "[[''email'', ''name''], [''kim-at-u'', ''Kim''], [''lee.gmail.com'', ''Lee'']]"
  note sc = parseCsv_sound_complete [of "\<lambda>_. ?t" "[]"]
  note prob = sc [THEN conjunct2, THEN conjunct2, THEN conjunct2, THEN conjunct1, rule_format]
  have t: "\<not> blank_line (?t ! 2)" "\<not> blank_line (?t ! 0)" "isHeaderCell (to_lower (trim (cell_at 0 (?t ! 0))))"
    "\<not> emailOk (to_lower (trim (cell_at 0 (?t ! 2))))"
    by code_simp+
  then have "\<not> (\<forall>k < (2 :: nat). blank_line (?t ! k))" by (metis zero_less_numeral)
  then obtain r where r: "r \<in> set (parseCsv (\<lambda>_. ?t) [])" "pr_line r = 2 + 1"
    using conjunct1 [OF sc, THEN spec, of 2] t(1) by auto
  then have "pr_email r = to_lower (trim (cell_at 0 (?t ! 2)))" using sc by blast
  moreover obtain pre post where "parseCsv (\<lambda>_. ?t) [] = pre @ r # post" using r(1) by (meson split_list)
  ultimately have "pr_problem r = Some Invalid_email" using prob t(4) by metis
  then have "\<exists>r \<in> set (parseCsv (\<lambda>_. ?t) []). pr_line r = 2 + 1 \<and> pr_problem r = Some Invalid_email" using r by blast
  moreover have "\<not> (\<exists>r \<in> set (parseCsv (\<lambda>_. ?t) []). pr_line r = 0 + 1)" using conjunct1 [OF sc, THEN spec, of 0] t(3) by simp
  ultimately show ?thesis by blast
qed

section \<open>The upload\<close>

text \<open>The rows of a request's body, and the address a result names (up to case and surrounding space).\<close>

definition sent_rows :: "request \<Rightarrow> js list" where
  "sent_rows rq = (case rq_body rq of None \<Rightarrow> [] | Some b \<Rightarrow> js_elems (js_get ''rows'' b))"

definition names_address :: "js \<Rightarrow> js \<Rightarrow> bool" where
  "names_address d e =
     (case (js_get ''email'' d, e) of (JStr s, JStr t) \<Rightarrow> to_lower (trim s) = to_lower (trim t) | _ \<Rightarrow> False)"

text \<open>
  A request the roster endpoint takes (\<^verbatim>\<open>users_router.BulkUserCreate\<close>): its path and key, a group, the role of a
  member, and 1 to 200 rows of an address and a name. The endpoint answers such a request with one result per row, in the order of the rows, each
  naming the row's address. The contract leaves open which of the accounts exist already, and says that the request is
  within the rate limit, the group exists and the names are at most 100 characters long.
\<close>

fun is_jstr :: "js \<Rightarrow> bool" where
  "is_jstr (JStr s) = True"
| "is_jstr _ = False"

definition bulk_request_ok :: "request \<Rightarrow> bool" where
  "bulk_request_ok rq =
     (rq_method rq = POST \<and> rq_path rq = ''/api/v1/users/bulk'' \<and>
      get_header ''Idempotency-Key'' (rq_headers rq) \<noteq> None \<and>
      (case rq_body rq of
         None \<Rightarrow> False
       | Some b \<Rightarrow> truthy (js_get ''group_id'' b) \<and> js_get ''initial_role'' b = JStr ''member'') \<and>
      0 < length (sent_rows rq) \<and> length (sent_rows rq) \<le> 200 \<and>
      list_all (\<lambda>row. is_jstr (js_get ''email'' row) \<and> is_jstr (js_get ''name'' row)) (sent_rows rq))"

definition answers_rows :: "(request \<Rightarrow> 'e + js) \<Rightarrow> bool" where
  "answers_rows send \<longleftrightarrow>
     (\<forall>rq. bulk_request_ok rq \<longrightarrow>
        (\<exists>d. send rq = Inr d \<and>
           list_all2 (\<lambda>r row. names_address r (js_get ''email'' row)) (js_elems (js_get ''results'' d)) (sent_rows rq)))"

text \<open>The chunk that starts at \<open>i\<close>, and the requests for \<open>n\<close> chunks in a row.\<close>

abbreviation row_json :: "ParsedRow \<Rightarrow> js" where
  "row_json r \<equiv> JObj [(''email'', JStr (pr_email r)), (''name'', JStr (pr_name r))]"

definition chunk_requests :: "string \<Rightarrow> string \<Rightarrow> ParsedRow list \<Rightarrow> nat \<Rightarrow> nat \<Rightarrow> request list" where
  "chunk_requests gid batch valid i n =
     map (\<lambda>k. bulk_request gid batch (take CHUNK (drop (i + k * CHUNK) valid)) (i + k * CHUNK)) [0..<n]"

lemma chunk_requests_Suc:
  "chunk_requests gid batch valid i (Suc n) =
     bulk_request gid batch (take CHUNK (drop i valid)) i # chunk_requests gid batch valid (i + CHUNK) n"
  by (simp add: chunk_requests_def upt_conv_Cons map_Suc_upt [symmetric] comp_def add.assoc del: upt_Suc)

lemma sent_rows_bulk [simp]: "sent_rows (bulk_request gid batch chunk i) = map row_json chunk"
  by (simp add: sent_rows_def bulk_request_def useBulkCreateUsers_def)

lemma bulk_request_key [simp]:
  "get_header ''Idempotency-Key'' (rq_headers (bulk_request g b chunk i)) = Some (b @ '':'' @ show_nat i)"
  by (simp add: bulk_request_def useBulkCreateUsers_def)

lemma bulk_request_ok_chunk:
  assumes "gid \<noteq> []" and "i < length valid"
  shows "bulk_request_ok (bulk_request gid batch (take CHUNK (drop i valid)) i)"
  unfolding bulk_request_ok_def bulk_request_key sent_rows_bulk using assms
  by (simp add: bulk_request_def useBulkCreateUsers_def CHUNK_def list_all_iff)

text \<open>What the loop sends, whatever the server answers: a chunk after the other from \<open>i\<close> on, to the end unless one fails.\<close>

lemma upload_loop_sent:
  "upload_loop send gid batch valid i collected progress = (res, shown, sent) \<Longrightarrow>
   \<exists>n. sent = chunk_requests gid batch valid i n \<and> (n = 0 \<or> i + (n - 1) * CHUNK < length valid) \<and>
     (\<not> isl res \<longrightarrow> length valid \<le> i + n * CHUNK)"
proof (induction send gid batch valid i collected progress arbitrary: res shown sent rule: upload_loop.induct)
  case (1 send gid batch valid i collected progress)
  let ?rq = "bulk_request gid batch (take CHUNK (drop i valid)) i"
  show ?case
  proof (cases "length valid \<le> i")
    case True
    then show ?thesis using "1.prems" by (intro exI [of _ 0]) (simp add: upload_loop.simps chunk_requests_def)
  next
    case False
    show ?thesis
    proof (cases "send ?rq")
      case (Inl e)
      then have "res = Inl e" "sent = [?rq]"
        using "1.prems" False by (auto simp: upload_loop.simps [of send gid batch valid i] Let_def)
      then show ?thesis using False by (intro exI [of _ 1]) (simp add: chunk_requests_def)
    next
      case (Inr d)
      obtain sent' where rest: "upload_loop send gid batch valid (i + CHUNK) (collected @ js_elems (js_get ''results'' d))
          (min (i + CHUNK) (length valid)) = (res, shown, sent')" and sent: "sent = ?rq # sent'"
        using "1.prems" False Inr by (auto simp: upload_loop.simps [of send gid batch valid i] Let_def split: prod.splits)
      obtain n where "sent' = chunk_requests gid batch valid (i + CHUNK) n"
          "n = 0 \<or> i + CHUNK + (n - 1) * CHUNK < length valid" "\<not> isl res \<longrightarrow> length valid \<le> i + CHUNK + n * CHUNK"
        using "1.IH" [OF False refl Inr rest] by blast
      then show ?thesis using sent False
        by (intro exI [of _ "Suc n"]) (cases n; auto simp: chunk_requests_Suc)
    qed
  qed
qed

text \<open>Under the contract the loop reaches the end, with one result per row.\<close>

lemma upload_loop_answers:
  assumes "answers_rows send" and "gid \<noteq> []"
  shows "list_all2 (\<lambda>d r. names_address d (JStr (pr_email r))) collected (take i valid) \<Longrightarrow>
    \<exists>all sent. upload_loop send gid batch valid i collected (min i (length valid)) = (Inr all, length valid, sent) \<and>
      list_all2 (\<lambda>d r. names_address d (JStr (pr_email r))) all valid"
proof (induction "length valid - i" arbitrary: i collected rule: less_induct)
  case less
  let ?rq = "bulk_request gid batch (take CHUNK (drop i valid)) i"
  show ?case
  proof (cases "length valid \<le> i")
    case True
    then show ?thesis using less.prems by (simp add: upload_loop.simps)
  next
    case False
    then obtain d where d: "send ?rq = Inr d"
        "list_all2 (\<lambda>r row. names_address r (js_get ''email'' row)) (js_elems (js_get ''results'' d)) (sent_rows ?rq)"
      using assms bulk_request_ok_chunk [of gid i valid batch] unfolding answers_rows_def by (meson not_le)
    let ?all = "collected @ js_elems (js_get ''results'' d)"
    have "list_all2 (\<lambda>d r. names_address d (JStr (pr_email r))) ?all (take (i + CHUNK) valid)"
      unfolding take_add using less.prems d(2) by (intro list_all2_appendI) (simp_all add: list_all2_map2)
    moreover have "length valid - (i + CHUNK) < length valid - i" using False by (simp add: CHUNK_def)
    ultimately show ?thesis using less.hyps [of "i + CHUNK" ?all] False d(1)
      by (subst upload_loop.simps) (auto simp: Let_def)
  qed
qed

text \<open>The chunks cover the rows exactly once, and their keys are different.\<close>

lemma chunk_rows:
  "concat (map sent_rows (chunk_requests gid batch valid i n)) = map row_json (take (n * CHUNK) (drop i valid))"
proof (induction n arbitrary: i)
  case (Suc n)
  have "take (Suc n * CHUNK) (drop i valid) = take CHUNK (drop i valid) @ take (n * CHUNK) (drop (i + CHUNK) valid)"
    by (simp add: take_add [of CHUNK] add.commute [of _ i])
  then show ?case using Suc by (simp add: chunk_requests_Suc)
qed (simp add: chunk_requests_def)

lemma chunk_keys:
  "distinct (map (\<lambda>rq. get_header ''Idempotency-Key'' (rq_headers rq)) (chunk_requests gid batch valid i n))"
  by (auto simp: chunk_requests_def comp_def distinct_map inj_on_def CHUNK_def)

lemma chunk_requests_ok:
  assumes "gid \<noteq> []" and "n = 0 \<or> i + (n - 1) * CHUNK < length valid"
  shows "list_all bulk_request_ok (chunk_requests gid batch valid i n)"
proof -
  have "i + k * CHUNK < length valid" if "k < n" for k
  proof -
    have "k * CHUNK \<le> (n - 1) * CHUNK" using that by (intro mult_le_mono1) simp
    then show ?thesis using assms(2) that by linarith
  qed
  then show ?thesis using assms(1) by (auto simp: list_all_iff chunk_requests_def intro!: bulk_request_ok_chunk)
qed

text \<open>C36: A roster of any length is uploaded completely, in order, and in requests the server takes. Whatever the server
  answers, the requests sent are requests of the roster endpoint with 1 to 200 rows each, under pairwise different keys,
  and the rows on the wire are a beginning of the valid rows of the preview (address and name), none sent twice. When the
  server answers each of them with a result per row, exactly the valid rows are sent, the page ends with one result per
  row in the order of the file, each naming its row's address, and with the full progress figure.\<close>

theorem submit_uploads_all:
  assumes "ip_group p \<noteq> []" and "valid_rows (ip_rows p) \<noteq> []"
  shows "(case submit send p of (q, sent) \<Rightarrow>
      list_all bulk_request_ok sent \<and>
      distinct (map (\<lambda>rq. get_header ''Idempotency-Key'' (rq_headers rq)) sent) \<and>
      (\<exists>n. concat (map sent_rows sent) =
         map (\<lambda>r. JObj [(''email'', JStr (pr_email r)), (''name'', JStr (pr_name r))]) (take n (valid_rows (ip_rows p)))) \<and>
      (answers_rows send \<longrightarrow>
         concat (map sent_rows sent) =
           map (\<lambda>r. JObj [(''email'', JStr (pr_email r)), (''name'', JStr (pr_name r))]) (valid_rows (ip_rows p)) \<and>
         (\<exists>results. ip_results q = Some results \<and>
            list_all2 (\<lambda>d r. names_address d (JStr (pr_email r))) results (valid_rows (ip_rows p))) \<and>
         ip_progress q = Some (length (valid_rows (ip_rows p)), length (valid_rows (ip_rows p)))))"
proof -
  let ?valid = "valid_rows (ip_rows p)"
  obtain res shown sent where loop: "upload_loop send (ip_group p) (ip_batch p) ?valid 0 [] 0 = (res, shown, sent)"
    by (cases "upload_loop send (ip_group p) (ip_batch p) ?valid 0 [] 0") auto
  obtain n where n: "sent = chunk_requests (ip_group p) (ip_batch p) ?valid 0 n"
      "n = 0 \<or> 0 + (n - 1) * CHUNK < length ?valid" "\<not> isl res \<longrightarrow> length ?valid \<le> 0 + n * CHUNK"
    using upload_loop_sent [OF loop] by blast
  have rows: "concat (map sent_rows sent) = map row_json (take (n * CHUNK) ?valid)" using n(1) chunk_rows [of _ _ ?valid 0] by simp
  have ok: "list_all bulk_request_ok sent" and keys: "distinct (map (\<lambda>rq. get_header ''Idempotency-Key'' (rq_headers rq)) sent)"
    using n(1,2) chunk_requests_ok assms(1) chunk_keys by auto
  have page: "submit send p = (case res of Inr all \<Rightarrow> (p\<lparr>ip_progress := Some (shown, length ?valid), ip_results := Some all\<rparr>, sent)
      | Inl e \<Rightarrow> (p\<lparr>ip_progress := None\<rparr>, sent))"
    using loop assms by (auto simp: submit_def Let_def split: sum.splits)
  then have snd: "snd (submit send p) = sent" by (simp split: sum.splits)
  have all: "concat (map sent_rows sent) = map row_json ?valid \<and>
      (\<exists>results. ip_results (fst (submit send p)) = Some results \<and>
         list_all2 (\<lambda>d r. names_address d (JStr (pr_email r))) results ?valid) \<and>
      ip_progress (fst (submit send p)) = Some (length ?valid, length ?valid)" if "answers_rows send"
    using upload_loop_answers [OF that assms(1), of "[]" 0 ?valid "ip_batch p"] loop n(3) rows page by auto
  show ?thesis using snd ok keys rows all by (auto simp: case_prod_beta)
qed

definition demo_row :: ParsedRow where
  "demo_row = \<lparr>pr_line = 1, pr_email = ''a@u.kr'', pr_name = ''Kim'', pr_problem = None\<rparr>"

definition demo_page :: import_page where
  "demo_page = \<lparr>ip_group = ''g1'', ip_rows = [demo_row], ip_progress = None, ip_results = None, ip_batch = ''b''\<rparr>"

text \<open>A server that creates every account, and a roster of 250 people: the contract holds of it and all of them are sent.\<close>

definition demo_server :: "request \<Rightarrow> string + js" where
  "demo_server rq =
     Inr (JObj [(''results'', JArr (map (\<lambda>row. JObj [(''email'', js_get ''email'' row), (''status'', JStr ''created'')]) (sent_rows rq)))])"

lemma demo_server_answers: "answers_rows demo_server"
proof -
  have "names_address (JObj [(''email'', js_get ''email'' row), (''status'', JStr ''created'')]) (js_get ''email'' row)"
    if "is_jstr (js_get ''email'' row)" for row
    using that by (cases "js_get ''email'' row") (simp_all add: names_address_def)
  then show ?thesis
    by (auto simp: answers_rows_def demo_server_def bulk_request_ok_def list_all2_map1 list_all_iff list_all2_same)
qed

theorem submit_uploads_all_witness:
  "concat (map sent_rows (snd (submit demo_server (demo_page\<lparr>ip_rows := replicate 250 demo_row\<rparr>)))) =
     replicate 250 (JObj [(''email'', JStr ''a@u.kr''), (''name'', JStr ''Kim'')])"
proof -
  have "valid_rows (replicate 250 demo_row) = replicate 250 demo_row" by (simp add: valid_rows_def demo_row_def)
  then show ?thesis
    using submit_uploads_all [of "demo_page\<lparr>ip_rows := replicate 250 demo_row\<rparr>" demo_server] demo_server_answers
    by (auto simp: case_prod_beta demo_page_def demo_row_def)
qed

text \<open>After a successful import the page cannot import another file: the progress figure is only cleared on failure, so
  whatever file is chosen next, the submit button stays disabled until the page is left.\<close>

theorem second_import_blocked:
  assumes "ip_results (fst (submit send p)) \<noteq> None" and "ip_results p = None"
  shows "\<not> can_submit (onFile batch rows (fst (submit send p)))"
  using assms by (auto simp: submit_def onFile_def can_submit_def Let_def split: prod.splits sum.splits if_splits)

theorem second_import_blocked_witness:
  "\<not> can_submit (onFile ''b2'' [demo_row] (fst (submit (\<lambda>_. Inr (JObj [(''results'', JArr [])]) :: string + js) demo_page)))"
proof -
  have ok: "upload_loop (\<lambda>_. Inr (JObj [(''results'', JArr [])]) :: string + js) ''g1'' ''b'' [demo_row] 0 [] 0 =
      (Inr [], 1, [bulk_request ''g1'' ''b'' [demo_row] 0])"
    by (simp add: upload_loop.simps CHUNK_def demo_row_def Let_def)
  show ?thesis
    by (rule second_import_blocked)
      (use ok in \<open>simp_all add: submit_def demo_page_def valid_rows_def demo_row_def Let_def\<close>)
qed

section \<open>Retrying a failed upload\<close>

text \<open>
  The server keeps the answer to a key and replays it (\<^verbatim>\<open>users_router.bulk_create_users\<close>): the first request
  with a key is executed, later ones get the stored answer whatever their body.
\<close>

definition replaying :: "(string \<rightharpoonup> js) \<Rightarrow> (request \<Rightarrow> js) \<Rightarrow> request \<Rightarrow> nat + js" where
  "replaying stored exec rq =
     (case get_header ''Idempotency-Key'' (rq_headers rq) of
        None \<Rightarrow> Inl 400
      | Some k \<Rightarrow> (case stored k of Some d \<Rightarrow> Inr d | None \<Rightarrow> Inr (exec rq)))"

text \<open>The key of a chunk names the file and the chunk but not the group. Retrying a failed upload of the same file replays
  the chunks that went through, as intended, also after another group was chosen: the accounts of those chunks stay in
  the first group while the rest go to the second.\<close>

theorem retry_ignores_new_group:
  assumes "stored (batch @ '':'' @ show_nat i) = Some d"
  shows "replaying stored exec (bulk_request gid batch chunk i) = Inr d \<and>
         replaying stored exec (bulk_request gid2 batch chunk i) = Inr d"
  using assms by (simp add: replaying_def bulk_request_key)

theorem retry_ignores_new_group_witness:
  "replaying [''b:0'' \<mapsto> JStr ''in g1''] (\<lambda>_. JStr ''in g2'') (bulk_request ''g2'' ''b'' [demo_row] 0) = Inr (JStr ''in g1'')"
proof -
  have "''b'' @ '':'' @ show_nat 0 = ''b:0''" by code_simp
  then show ?thesis
    using retry_ignores_new_group [of "[''b:0'' \<mapsto> JStr ''in g1'']" "''b''" 0 "JStr ''in g1''" "\<lambda>_. JStr ''in g2''" "''g1''" "[demo_row]" "''g2''"]
    by simp
qed

section \<open>The credentials file\<close>

definition created_rows :: "js list \<Rightarrow> js list" where
  "created_rows results = filter (\<lambda>r. js_get ''status'' r = JStr ''created'' \<and> truthy (js_get ''initial_password'' r)) results"

lemma credentials_lines:
  assumes "\<And>r. r \<in> set (created_rows results) \<Longrightarrow>
      CHR 0x0A \<notin> set (js_to_string sf (js_get ''email'' r)) \<and> CHR 0x0A \<notin> set (js_to_string sf (js_get ''initial_password'' r))"
  shows "split_on (CHR 0x0A) (credentialsCsv sf results) =
    ''email,initial_password'' # map (\<lambda>r. js_to_string sf (js_get ''email'' r) @ '','' @ js_to_string sf (js_get ''initial_password'' r))
      (created_rows results)"
  unfolding credentialsCsv_def created_rows_def [symmetric]
  by (rule split_on_join) (use assms in auto)

end
