(* ===== verification/User_Admin.thy ===== *)
theory User_Admin
  imports Row_Order Format Bulk_Import Ui_Controls
begin

text \<open>
  User management of the admin console (\<^verbatim>\<open>features/admin/Users.tsx\<close>): the list with its server-side search and its filters, the
  actions on an account, and the forms that approve, create, edit and delete one.
\<close>

section \<open>The list\<close>

record user_membership =
  um_group_id :: string
  um_group_name :: string
  um_org_id :: string
  um_org_name :: string
  um_role :: string

record AdminUser =
  au_id :: string
  au_name :: string
  au_email :: string
  au_status :: string
  au_global_role :: "string option"
  au_global_roles :: "string list"
  au_org_admins :: "(string \<times> string) list"
  au_memberships :: "user_membership list"
  au_created_at :: "string option"

text \<open>A key and a label per role; \<^verbatim>\<open>i18n.t\<close> words the administrator of an organization.\<close>

definition mid_dot :: string where
  "mid_dot = [CHR 0x20, CHR 0xC2, CHR 0xB7, CHR 0x20]"

definition allRoles :: "i18n \<Rightarrow> AdminUser \<Rightarrow> (string \<times> string) list" where
  "allRoles tr u =
     (let globals = (if au_global_roles u \<noteq> [] then au_global_roles u
                     else if str_truthy (au_global_role u) then [the (au_global_role u)] else [])
      in map (\<lambda>r. (''g:'' @ r, roleLabel tr (Some r))) globals @
         map (\<lambda>(i, n). (''o:'' @ i, i18n_t tr ''admin.users.orgAdminOf'' [(''org'', JStr n)])) (au_org_admins u) @
         map (\<lambda>m. (''m:'' @ um_group_id m, roleLabel tr (Some (um_role m)) @ mid_dot @ um_group_name m)) (au_memberships u))"

definition user_orgs :: "AdminUser \<Rightarrow> string list" where
  "user_orgs u = uniq (map um_org_name (au_memberships u) @ map snd (au_org_admins u))"

definition user_columns :: "i18n \<Rightarrow> (string \<Rightarrow> rat option) \<Rightarrow> AdminUser Column list" where
  "user_columns tr date =
     (let col = (\<lambda>k f. \<lparr>co_key = k, co_sortBy = Some f, co_sortable = None\<rparr>) in
      [col ''name'' (\<lambda>u. KOther (au_name u)),
       col ''org'' (\<lambda>u. KOther (join '', '' (user_orgs u))),
       col ''dept'' (\<lambda>u. KOther (join '', '' (map um_group_name (au_memberships u)))),
       col ''roles'' (\<lambda>u. KOther (join '', '' (map snd (allRoles tr u)))),
       col ''status'' (\<lambda>u. KOther (au_status u)),
       col ''created_at'' (\<lambda>u. KNum (case nonempty (au_created_at u) of None \<Rightarrow> Fin 0
          | Some c \<Rightarrow> (case date c of None \<Rightarrow> NaN | Some ms \<Rightarrow> Fin ms))),
       \<lparr>co_key = ''actions'', co_sortBy = None, co_sortable = Some False\<rparr>])"

definition user_defaults :: table_defaults where
  "user_defaults = \<lparr>td_sort = Some ''name'', td_dir = Some ''asc'', td_tab = None\<rparr>"

text \<open>The page: the query string, the search as last debounced, and the two select filters.\<close>

record users_page_state =
  us_params :: params
  us_debounced :: string
  us_org :: string
  us_group :: string

record users_request =
  ur_status :: string
  ur_q :: "string option"
  ur_org_id :: "string option"
  ur_group_id :: "string option"
  ur_page :: jsnum

definition users_request_of :: "users_page_state \<Rightarrow> users_request" where
  "users_request_of u =
     (let st = useTableState [] user_defaults (us_params u) in
      \<lparr>ur_status = str_or (ts_tab st) [], ur_q = nonempty (Some (us_debounced u)), ur_org_id = nonempty (Some (us_org u)),
       ur_group_id = nonempty (Some (us_group u)), ur_page = ts_page st\<rparr>)"

definition settle_search :: "users_page_state \<Rightarrow> users_page_state" where
  "settle_search u = u\<lparr>us_debounced := trim (ts_query (useTableState [] user_defaults (us_params u)))\<rparr>"

definition pick_org :: "string \<Rightarrow> users_page_state \<Rightarrow> users_page_state" where
  "pick_org i u = u\<lparr>us_org := i, us_group := []\<rparr>"

definition pick_group_filter :: "string \<Rightarrow> users_page_state \<Rightarrow> users_page_state" where
  "pick_group_filter i u = u\<lparr>us_group := i\<rparr>"

definition filterGroups :: "(string \<times> string) list \<Rightarrow> users_page_state \<Rightarrow> string list" where
  "filterGroups groups u = map fst (filter (\<lambda>(g, org). us_org u = [] \<or> org = us_org u) groups)"

definition user_rows ::
  "(string \<Rightarrow> string \<Rightarrow> int) \<Rightarrow> (jsnum \<Rightarrow> string) \<Rightarrow> i18n \<Rightarrow> (string \<Rightarrow> rat option) \<Rightarrow> users_page_state \<Rightarrow> AdminUser list \<Rightarrow> AdminUser list" where
  "user_rows coll ns tr date u rows =
     (let st = useTableState [] user_defaults (us_params u) in
      sortRows coll ns rows (sortAccessor (\<lambda>_ _. KNull) (user_columns tr date) (ts_sort st)) (ts_dir st))"

datatype empty_kind = NoUsers | NothingMatches

definition empty_users :: "users_page_state \<Rightarrow> empty_kind" where
  "empty_users u = (if isFiltered user_defaults (useTableState [] user_defaults (us_params u)) then NothingMatches else NoUsers)"

definition clear_users :: "users_page_state \<Rightarrow> users_page_state" where
  "clear_users u = u\<lparr>us_params := clear_table [] (us_params u)\<rparr>"

section \<open>Actions\<close>

definition is_super :: "AuthState \<Rightarrow> bool" where
  "is_super s = (jc_global_role (claims s) = Some ''super_admin'')"

definition isOrgAdmin :: "AuthState \<Rightarrow> bool" where
  "isOrgAdmin s = (is_super s \<or> orgAdminOrgs s \<noteq> [] \<or> list_ex (\<lambda>m. mb_role m = ''org_admin'') (memberships s))"

datatype user_action = Approve | Edit | Suspend | Activate | GoDelete

definition user_actions :: "AuthState \<Rightarrow> AdminUser \<Rightarrow> user_action list" where
  "user_actions s u =
     (if au_status u = ''pending'' then [Approve] else []) @ [Edit] @
     (if isOrgAdmin s then [if au_status u \<noteq> ''suspended'' then Suspend else Activate, GoDelete] else [])"

definition toggleStatus :: "bool \<Rightarrow> AdminUser \<Rightarrow> mutation_def option" where
  "toggleStatus ok u =
     (let toSuspend = (au_status u \<noteq> ''suspended'') in
      if toSuspend \<and> \<not> ok then None
      else Some (useUpdateUser (au_id u) (JObj [(''status'', JStr (if toSuspend then ''suspended'' else ''active''))])))"

text \<open>Approving. The role select is shown only beside a chosen group, but what was picked there stays in the state, and the role is
  sent with or without a group.\<close>

record approve_form =
  ap_groupId :: string
  ap_role :: string

definition approve_init :: approve_form where
  "approve_init = \<lparr>ap_groupId = [], ap_role = ''member''\<rparr>"

definition approve_roles :: "approve_form \<Rightarrow> string list" where
  "approve_roles f = (if ap_groupId f = [] then [] else [''member'', ''group_admin'', ''org_admin''])"

inductive approve_step :: "string list \<Rightarrow> approve_form \<Rightarrow> approve_form \<Rightarrow> bool" for groups where
  ap_pick_group: "g \<in> insert [] (set groups) \<Longrightarrow> approve_step groups f (f\<lparr>ap_groupId := g\<rparr>)"
| ap_pick_role: "r \<in> set (approve_roles f) \<Longrightarrow> approve_step groups f (f\<lparr>ap_role := r\<rparr>)"

definition approve_user :: "approve_form \<Rightarrow> AdminUser \<Rightarrow> mutation_def" where
  "approve_user f u =
     useApproveUser (au_id u)
       (JObj [(''group_id'', case nonempty (Some (ap_groupId f)) of None \<Rightarrow> JNull | Some g \<Rightarrow> JStr g), (''initial_role'', JStr (ap_role f))])"

text \<open>Issuing a password: the form shows the one that was answered, and offers no second reset while it does.\<close>

definition reset_offered :: "string option \<Rightarrow> bool" where
  "reset_offered issued = (nonempty issued = None)"

definition reset_password :: "(request \<Rightarrow> 'e + js) \<Rightarrow> string \<Rightarrow> AdminUser \<Rightarrow> string option \<Rightarrow> 'e option \<times> string option" where
  "reset_password send key u issued =
     (case send (mu_request (useResetUserPassword (au_id u) key)) of
        Inl e \<Rightarrow> (Some e, issued)
      | Inr out \<Rightarrow> (None, case js_get ''temporary_password'' out of JStr p \<Rightarrow> Some p | _ \<Rightarrow> None))"

text \<open>The panel of an account: the roles, organizations and groups it lists, and the video memory in use, in tenths of a gibibyte.\<close>

definition or_dash :: "string \<Rightarrow> string" where
  "or_dash s = (if s = [] then ''-'' else s)"

definition detail_orgs :: "AdminUser \<Rightarrow> string" where
  "detail_orgs u = or_dash (join '', '' (filter (\<lambda>n. n \<noteq> []) (user_orgs u)))"

definition detail_groups :: "i18n \<Rightarrow> AdminUser \<Rightarrow> string" where
  "detail_groups tr u = or_dash (join '', '' (map (\<lambda>m. um_group_name m @ '' ('' @ roleLabel tr (Some (um_role m)) @ '')'') (au_memberships u)))"

definition detail_roles :: "i18n \<Rightarrow> AdminUser \<Rightarrow> string" where
  "detail_roles tr u = or_dash (join '', '' (map snd (allRoles tr u)))"

definition usage_vram :: "rat \<Rightarrow> rat" where
  "usage_vram mb = of_int (js_round (mb / (1024 / 10))) / 10"

definition typedOk :: "AdminUser option \<Rightarrow> string \<Rightarrow> bool" where
  "typedOk user typed = (case user of None \<Rightarrow> False | Some u \<Rightarrow> trim typed = au_email u)"

definition delete_user :: "AdminUser option \<Rightarrow> string \<Rightarrow> mutation_def option" where
  "delete_user user typed = (if typedOk user typed then map_option (\<lambda>u. useDeleteUser (au_id u)) user else None)"

section \<open>A new account\<close>

record new_user =
  nu_email :: string
  nu_name :: string
  nu_orgId :: string
  nu_groupId :: string
  nu_password :: string

definition new_user_init :: new_user where
  "new_user_init = \<lparr>nu_email = [], nu_name = [], nu_orgId = [], nu_groupId = [], nu_password = []\<rparr>"

text \<open>The groups offered; the select is disabled until an organization is chosen.\<close>

definition new_user_groups :: "(string \<times> string) list \<Rightarrow> new_user \<Rightarrow> string list" where
  "new_user_groups groups f = map fst (filter (\<lambda>(g, org). nu_orgId f = [] \<or> org = nu_orgId f) groups)"

inductive new_user_step :: "string list \<Rightarrow> (string \<times> string) list \<Rightarrow> new_user \<Rightarrow> new_user \<Rightarrow> bool" for orgs groups where
  nu_pick_org: "i \<in> insert [] (set orgs) \<Longrightarrow> new_user_step orgs groups f (f\<lparr>nu_orgId := i, nu_groupId := []\<rparr>)"
| nu_pick_group: "nu_orgId f \<noteq> [] \<Longrightarrow> g \<in> insert [] (set (new_user_groups groups f)) \<Longrightarrow> new_user_step orgs groups f (f\<lparr>nu_groupId := g\<rparr>)"
| nu_type_email: "new_user_step orgs groups f (f\<lparr>nu_email := v\<rparr>)"
| nu_type_name: "new_user_step orgs groups f (f\<lparr>nu_name := v\<rparr>)"
| nu_type_password: "new_user_step orgs groups f (f\<lparr>nu_password := v\<rparr>)"

definition new_user_valid :: "new_user \<Rightarrow> bool" where
  "new_user_valid f = (emailOk (nu_email f) \<and> trim (nu_name f) \<noteq> [] \<and> nu_groupId f \<noteq> [] \<and> 8 \<le> length (nu_password f))"

definition new_user_blockers :: "new_user \<Rightarrow> string list" where
  "new_user_blockers f =
     (if emailOk (nu_email f) then [] else [''common.email'']) @ (if trim (nu_name f) = [] then [''common.name''] else []) @
     (if nu_groupId f = [] then [''common.group''] else []) @ (if length (nu_password f) < 8 then [''admin.users.initialPassword''] else [])"

definition email_error :: "bool \<Rightarrow> new_user \<Rightarrow> bool" where
  "email_error touched f = (touched \<and> trim (nu_email f) \<noteq> [] \<and> \<not> emailOk (nu_email f))"

definition password_error :: "bool \<Rightarrow> new_user \<Rightarrow> bool" where
  "password_error touched f = (touched \<and> nu_password f \<noteq> [] \<and> length (nu_password f) < 8)"

definition create_user :: "new_user \<Rightarrow> mutation_def option" where
  "create_user f =
     (if \<not> new_user_valid f then None
      else Some (useCreateUser (JObj [(''email'', JStr (trim (nu_email f))), (''name'', JStr (trim (nu_name f))),
             (''group_id'', JStr (nu_groupId f)), (''initial_role'', JStr ''member''), (''password'', JStr (nu_password f))])))"

section \<open>Editing\<close>

record edit_user =
  eu_name :: string
  eu_email :: string
  eu_orgId :: string
  eu_groupId :: string
  eu_status :: string

definition curStatus :: "AdminUser \<Rightarrow> string" where
  "curStatus u = (if au_status u = ''suspended'' then ''suspended'' else ''active'')"

definition curGroupId :: "AdminUser \<Rightarrow> string" where
  "curGroupId u = (case au_memberships u of [] \<Rightarrow> [] | m # _ \<Rightarrow> um_group_id m)"

definition multipleMemberships :: "AdminUser \<Rightarrow> bool" where
  "multipleMemberships u = (1 < length (au_memberships u))"

definition edit_user_init :: "AdminUser \<Rightarrow> edit_user" where
  "edit_user_init u =
     \<lparr>eu_name = au_name u, eu_email = au_email u, eu_orgId = (case au_memberships u of [] \<Rightarrow> [] | m # _ \<Rightarrow> um_org_id m),
      eu_groupId = curGroupId u, eu_status = curStatus u\<rparr>"

definition deptOptions :: "bool \<Rightarrow> (string \<times> string) list \<Rightarrow> edit_user \<Rightarrow> string list" where
  "deptOptions isSuper groups f = map fst (if isSuper then filter (\<lambda>(g, org). eu_orgId f = [] \<or> org = eu_orgId f) groups else groups)"

definition emailInvalid :: "bool \<Rightarrow> edit_user \<Rightarrow> bool" where
  "emailInvalid isSuper f = (isSuper \<and> trim (eu_email f) \<noteq> [] \<and> \<not> emailOk (eu_email f))"

text \<open>The fields of the first call, in the order the code adds them.\<close>

definition user_patch :: "bool \<Rightarrow> bool \<Rightarrow> AdminUser \<Rightarrow> edit_user \<Rightarrow> (string \<times> js) list" where
  "user_patch isSuper canEditDept u f =
     (if isSuper \<and> trim (eu_name f) \<noteq> [] \<and> trim (eu_name f) \<noteq> au_name u then [(''name'', JStr (trim (eu_name f)))] else []) @
     (if isSuper \<and> trim (eu_email f) \<noteq> [] \<and> to_lower (trim (eu_email f)) \<noteq> au_email u then [(''email'', JStr (trim (eu_email f)))] else []) @
     (if canEditDept \<and> eu_status f \<noteq> curStatus u then [(''status'', JStr (eu_status f))] else [])"

definition didDept :: "bool \<Rightarrow> AdminUser \<Rightarrow> edit_user \<Rightarrow> bool" where
  "didDept canEditDept u f = (canEditDept \<and> \<not> multipleMemberships u \<and> eu_groupId f \<noteq> curGroupId u)"

definition edit_calls :: "bool \<Rightarrow> bool \<Rightarrow> AdminUser \<Rightarrow> edit_user \<Rightarrow> mutation_def list" where
  "edit_calls isSuper canEditDept u f =
     (if user_patch isSuper canEditDept u f \<noteq> [] then [useUpdateUser (au_id u) (JObj (user_patch isSuper canEditDept u f))] else []) @
     (if didDept canEditDept u f then [useSetUserDepartment (au_id u) (nonempty (Some (eu_groupId f)))] else [])"

datatype edit_end = Updated | Unchanged | Failed

text \<open>The calls one after the other; the first that throws ends the save with its error.\<close>

fun run_edit :: "(request \<Rightarrow> 'e + js) \<Rightarrow> mutation_def list \<Rightarrow> 'e option" where
  "run_edit send [] = None"
| "run_edit send (m # ms) = (case send (mu_request m) of Inl e \<Rightarrow> Some e | Inr _ \<Rightarrow> run_edit send ms)"

definition submit_edit :: "(request \<Rightarrow> 'e + js) \<Rightarrow> bool \<Rightarrow> bool \<Rightarrow> AdminUser \<Rightarrow> edit_user \<Rightarrow> edit_end" where
  "submit_edit send isSuper canEditDept u f =
     (let calls = edit_calls isSuper canEditDept u f in
      if run_edit send calls \<noteq> None then Failed else if calls \<noteq> [] then Updated else Unchanged)"

definition edit_dirty :: "bool \<Rightarrow> bool \<Rightarrow> AdminUser \<Rightarrow> edit_user \<Rightarrow> bool" where
  "edit_dirty isSuper canEditDept u f =
     (isSuper \<and> (trim (eu_name f) \<noteq> au_name u \<or> to_lower (trim (eu_email f)) \<noteq> au_email u) \<or>
      canEditDept \<and> eu_status f \<noteq> curStatus u \<or> canEditDept \<and> \<not> multipleMemberships u \<and> eu_groupId f \<noteq> curGroupId u)"

definition edit_can_save :: "bool \<Rightarrow> bool \<Rightarrow> AdminUser \<Rightarrow> edit_user \<Rightarrow> bool" where
  "edit_can_save isSuper canEditDept u f = (\<not> emailInvalid isSuper f \<and> edit_dirty isSuper canEditDept u f)"

section \<open>What user management guarantees\<close>

text \<open>
  The server's side of an edit (\<^verbatim>\<open>users_router.update_user\<close>, \<^verbatim>\<open>set_user_department\<close>): the account, the caller with the role
  the principal carries per group (an administrator of an organization is one in each of its groups), and the two
  endpoints, with \<open>others\<close> the addresses of the other accounts and \<open>groups\<close> the groups that exist. A refusal leaves the
  account as it was.
\<close>

record user_account =
  ac_name :: string
  ac_email :: string
  ac_status :: string
  ac_groups :: "string list"

record user_caller =
  uc_id :: string
  uc_super :: bool
  uc_roles :: "(string \<times> string) list"

datatype edit_refusal = Edit_forbidden | Edit_invalid | Edit_conflict | Edit_missing

definition org_admin_in :: "user_caller \<Rightarrow> string \<Rightarrow> bool" where
  "org_admin_in c g = (map_of (uc_roles c) g = Some ''org_admin'')"

definition admin_in :: "user_caller \<Rightarrow> string \<Rightarrow> bool" where
  "admin_in c g = (org_admin_in c g \<or> map_of (uc_roles c) g = Some ''group_admin'')"

text \<open>\<^verbatim>\<open>validation.clean_text\<close> with the length of a display name; \<^verbatim>\<open>_valid_email\<close>.\<close>

definition control_char :: "char \<Rightarrow> bool" where
  "control_char ch = ((of_char ch :: nat) < 32 \<and> (of_char ch :: nat) \<notin> {9, 10, 13} \<or> (of_char ch :: nat) = 127)"

definition clean_name :: "string \<Rightarrow> bool" where
  "clean_name n = (trim n \<noteq> [] \<and> length n \<le> 80 \<and> \<not> list_ex control_char n)"

definition server_email_ok :: "string \<Rightarrow> bool" where
  "server_email_ok e =
     (let after = dropWhile (\<lambda>ch. ch \<noteq> CHR ''@'') e in
      after \<noteq> [] \<and> after \<noteq> e \<and> CHR ''.'' \<in> set (tl after) \<and> \<not> ends_with e ''.'')"

definition str_field :: "string \<Rightarrow> js \<Rightarrow> string option" where
  "str_field k body = (case js_get k body of JStr v \<Rightarrow> Some v | _ \<Rightarrow> None)"

text \<open>A field of the body that is there and differs from the account.\<close>

definition changes_to :: "string option \<Rightarrow> string \<Rightarrow> bool" where
  "changes_to new old = (new \<noteq> None \<and> new \<noteq> Some old)"

definition patch_user :: "user_caller \<Rightarrow> string list \<Rightarrow> string \<Rightarrow> js \<Rightarrow> user_account \<Rightarrow> edit_refusal + user_account" where
  "patch_user c others uid body a =
     (let name = str_field ''name'' body; email = str_field ''email'' body; status = str_field ''status'' body;
          name' = map_option trim name; email' = map_option (\<lambda>e. to_lower (trim e)) email in
      if (name \<noteq> None \<and> \<not> clean_name (the name)) \<or> (email \<noteq> None \<and> \<not> (3 \<le> length (the email) \<and> length (the email) \<le> 254))
      then Inl Edit_invalid
      else if \<not> (uc_id c = uid \<or> uc_super c \<or> list_ex (admin_in c) (ac_groups a)) then Inl Edit_forbidden
      else if changes_to name' (ac_name a) \<and> \<not> (uc_id c = uid \<or> uc_super c) then Inl Edit_forbidden
      else if changes_to email' (ac_email a) \<and> \<not> uc_super c then Inl Edit_forbidden
      else if changes_to email' (ac_email a) \<and> \<not> server_email_ok (the email') then Inl Edit_invalid
      else if changes_to email' (ac_email a) \<and> the email' \<in> set others then Inl Edit_conflict
      else if changes_to status (ac_status a) \<and> \<not> (uc_super c \<or> list_ex (org_admin_in c) (ac_groups a)) then Inl Edit_forbidden
      else if changes_to status (ac_status a) \<and> the status \<notin> {''invited'', ''pending'', ''active'', ''suspended''} then Inl Edit_invalid
      else Inr (a\<lparr>ac_name := (case name' of None \<Rightarrow> ac_name a | Some n \<Rightarrow> n),
                  ac_email := (case email' of None \<Rightarrow> ac_email a | Some e \<Rightarrow> e),
                  ac_status := (case status of None \<Rightarrow> ac_status a | Some st \<Rightarrow> st)\<rparr>))"

definition put_department :: "user_caller \<Rightarrow> string list \<Rightarrow> string option \<Rightarrow> user_account \<Rightarrow> edit_refusal + user_account" where
  "put_department c groups target a =
     (if \<not> (uc_super c \<or> list_ex (\<lambda>(g, _). org_admin_in c g) (uc_roles c)) then Inl Edit_forbidden
      else if target \<noteq> None \<and> the target \<notin> set groups then Inl Edit_missing
      else if target \<noteq> None \<and> \<not> uc_super c \<and> \<not> org_admin_in c (the target) then Inl Edit_forbidden
      else if \<not> uc_super c \<and> ac_groups a \<noteq> [] \<and> \<not> list_ex (org_admin_in c) (ac_groups a) then Inl Edit_forbidden
      else Inr (a\<lparr>ac_groups :=
          filter (\<lambda>g. Some g = target \<or> \<not> (uc_super c \<or> org_admin_in c g)) (ac_groups a) @
          (case target of None \<Rightarrow> [] | Some t \<Rightarrow> if t \<in> set (ac_groups a) then [] else [t])\<rparr>))"

text \<open>The two routes, on the request as it is sent.\<close>

definition serve_account ::
  "user_caller \<Rightarrow> string list \<Rightarrow> string list \<Rightarrow> string \<Rightarrow> request \<Rightarrow> user_account \<Rightarrow> edit_refusal + user_account" where
  "serve_account c others groups uid rq a =
     (case rq_body rq of
        None \<Rightarrow> Inl Edit_invalid
      | Some body \<Rightarrow>
          if map_of (rq_params rq) ''user_id'' \<noteq> Some uid then Inl Edit_missing
          else if rq_method rq = PATCH \<and> rq_path rq = ''/api/v1/users/{user_id}'' then patch_user c others uid body a
          else if rq_method rq = PUT \<and> rq_path rq = ''/api/v1/users/{user_id}/department''
          then put_department c groups (str_field ''group_id'' body) a
          else Inl Edit_missing)"

text \<open>The calls of the form against an account, up to the first that is refused.\<close>

fun run_account :: "(request \<Rightarrow> user_account \<Rightarrow> edit_refusal + user_account) \<Rightarrow> mutation_def list \<Rightarrow> user_account \<Rightarrow>
    edit_refusal option \<times> user_account" where
  "run_account serve [] a = (None, a)"
| "run_account serve (m # ms) a =
     (case serve (mu_request m) a of Inl e \<Rightarrow> (Some e, a) | Inr a' \<Rightarrow> run_account serve ms a')"

lemma run_account_append:
  "run_account serve (xs @ ys) a =
     (case run_account serve xs a of (None, b) \<Rightarrow> run_account serve ys b | (Some e, b) \<Rightarrow> (Some e, b))"
  by (induction xs arbitrary: a) (auto split: sum.splits)

text \<open>An address the form accepts is one the server accepts, unless it starts with the \<^verbatim>\<open>@\<close>.\<close>

lemma dot_follows_dot: "dot_follows seen s \<Longrightarrow> CHR ''.'' \<in> set s"
  by (induction seen s rule: dot_follows.induct) auto

lemma has_address_dot: "has_address prev s \<Longrightarrow> \<exists>pre post. s = pre @ CHR ''@'' # post \<and> CHR ''.'' \<in> set post"
proof (induction prev s rule: has_address.induct)
  case (2 prev c s)
  then consider "c = CHR ''@''" "dot_follows False s" | "has_address (\<not> js_space c) s" by auto
  then show ?case
  proof cases
    case 1
    then show ?thesis using dot_follows_dot by (intro exI [of _ "[]"] exI [of _ s]) auto
  next
    case 2
    then show ?thesis using "2.IH" by (metis append_Cons)
  qed
qed simp

lemma lower_char_keeps:
  assumes "(of_char k :: nat) < 65"
  shows "lower_char ch = k \<longleftrightarrow> ch = k"
proof (cases "65 \<le> (of_char ch :: nat) \<and> (of_char ch :: nat) \<le> 90")
  case True
  then have "(of_char (lower_char ch) :: nat) = of_char ch + 32" by (simp add: lower_char_def)
  then show ?thesis using True assms by auto
next
  case False
  then show ?thesis by (auto simp: lower_char_def)
qed

lemma lower_char_at: "lower_char ch = CHR ''@'' \<longleftrightarrow> ch = CHR ''@''"
  by (rule lower_char_keeps) simp

lemma lower_char_dot: "lower_char ch = CHR ''.'' \<longleftrightarrow> ch = CHR ''.''"
  by (rule lower_char_keeps) simp

lemma dropWhile_at_dot:
  assumes "s = pre @ CHR ''@'' # post" and "CHR ''.'' \<in> set post"
  shows "dropWhile (\<lambda>ch. ch \<noteq> CHR ''@'') s \<noteq> [] \<and> CHR ''.'' \<in> set (tl (dropWhile (\<lambda>ch. ch \<noteq> CHR ''@'') s))"
  unfolding assms(1)
proof (induction pre)
  case (Cons x pre)
  then show ?case using assms(2) by auto
qed (use assms(2) in simp)

lemma emailOk_server:
  assumes "emailOk e" and "\<not> starts_with (trim e) ''@''"
  shows "server_email_ok (to_lower (trim e)) \<and> 3 \<le> length (trim e)"
proof -
  obtain pre post where split: "trim e = pre @ CHR ''@'' # post" "CHR ''.'' \<in> set post"
    using assms(1) has_address_dot unfolding emailOk_def by blast
  then have low: "to_lower (trim e) = to_lower pre @ CHR ''@'' # to_lower post"
    using lower_char_at by (simp add: to_lower_def)
  have dot: "CHR ''.'' \<in> set (to_lower post)"
    using split(2) lower_char_dot unfolding to_lower_def set_map by (metis image_eqI)
  obtain x rest where pre: "pre = x # rest" "x \<noteq> CHR ''@''"
    using assms(2) split(1) by (cases pre) (auto simp: starts_with_def)
  have first: "dropWhile (\<lambda>ch. ch \<noteq> CHR ''@'') (to_lower (trim e)) \<noteq> to_lower (trim e)"
    unfolding low pre(1) dropWhile_eq_self_iff using lower_char_at [of x] pre(2) by (simp add: to_lower_def)
  have "last (trim e) \<noteq> CHR ''.''"
  proof
    assume "last (trim e) = CHR ''.''"
    then have "trim e = butlast (trim e) @ ''.''" using split(1) by (metis append_butlast_last_id append_is_Nil_conv list.distinct(1))
    then have "suffix ''.'' (trim e)" by (metis suffixI)
    then show False using assms(1) by (simp add: emailOk_def ends_with_suffix)
  qed
  then have "last (to_lower (trim e)) \<noteq> CHR ''.''"
    using split(1) lower_char_dot unfolding to_lower_def by (subst last_map) simp_all
  then have no_end: "\<not> ends_with (to_lower (trim e)) ''.''"
    unfolding ends_with_suffix suffix_def by (metis last_snoc)
  have "post \<noteq> []" using split(2) by auto
  then have "3 \<le> length (trim e)" using split(1) pre(1) by (cases post) simp_all
  then show ?thesis using dropWhile_at_dot [OF low dot] first no_end by (simp add: server_email_ok_def Let_def)
qed

lemma serve_patch:
  "serve_account c others groups uid (mu_request (useUpdateUser uid body)) a = patch_user c others uid body a"
  by (simp add: serve_account_def useUpdateUser_def use_mutation_def http_send_def)

lemma serve_dept:
  "serve_account c others groups uid (mu_request (useSetUserDepartment uid g)) a = put_department c groups g a"
  by (cases g) (simp_all add: serve_account_def useSetUserDepartment_def use_mutation_def http_send_def str_field_def)

lemma patch_user_accepts:
  assumes "str_field ''name'' body = name" "str_field ''email'' body = email" "str_field ''status'' body = status"
    and "uc_super c \<or> list_ex (admin_in c) (ac_groups a)"
    and name: "name \<noteq> None \<Longrightarrow> clean_name (the name) \<and> uc_super c"
    and email: "email \<noteq> None \<Longrightarrow> 3 \<le> length (the email) \<and> length (the email) \<le> 254 \<and> uc_super c \<and>
      server_email_ok (to_lower (trim (the email))) \<and> to_lower (trim (the email)) \<notin> set others"
    and status: "status \<noteq> None \<Longrightarrow> the status \<in> {''active'', ''suspended''} \<and> (uc_super c \<or> list_ex (org_admin_in c) (ac_groups a))"
  shows "patch_user c others uid body a =
    Inr (a\<lparr>ac_name := (case map_option trim name of None \<Rightarrow> ac_name a | Some n \<Rightarrow> n),
           ac_email := (case map_option (\<lambda>e. to_lower (trim e)) email of None \<Rightarrow> ac_email a | Some e \<Rightarrow> e),
           ac_status := (case status of None \<Rightarrow> ac_status a | Some st \<Rightarrow> st)\<rparr>)"
proof -
  have "\<not> (name \<noteq> None \<and> \<not> clean_name (the name))"
      "\<not> (email \<noteq> None \<and> \<not> (3 \<le> length (the email) \<and> length (the email) \<le> 254))"
      "\<not> (changes_to (map_option trim name) (ac_name a) \<and> \<not> (uc_id c = uid \<or> uc_super c))"
      "\<not> (changes_to (map_option (\<lambda>e. to_lower (trim e)) email) (ac_email a) \<and> \<not> uc_super c)"
      "\<not> (changes_to (map_option (\<lambda>e. to_lower (trim e)) email) (ac_email a) \<and>
          \<not> server_email_ok (the (map_option (\<lambda>e. to_lower (trim e)) email)))"
      "\<not> (changes_to (map_option (\<lambda>e. to_lower (trim e)) email) (ac_email a) \<and>
          the (map_option (\<lambda>e. to_lower (trim e)) email) \<in> set others)"
      "\<not> (changes_to status (ac_status a) \<and> \<not> (uc_super c \<or> list_ex (org_admin_in c) (ac_groups a)))"
      "\<not> (changes_to status (ac_status a) \<and> the status \<notin> {''invited'', ''pending'', ''active'', ''suspended''})"
    using name email status by (cases name; cases email; cases status; auto simp: changes_to_def)+
  then show ?thesis unfolding patch_user_def Let_def assms(1-3) using assms(4) by (simp only: if_False simp_thms de_Morgan_disj not_not)
qed

lemma js_get_patch:
  "str_field ''name'' (JObj (user_patch isSuper canEditDept u f)) =
     (if isSuper \<and> trim (eu_name f) \<noteq> [] \<and> trim (eu_name f) \<noteq> au_name u then Some (trim (eu_name f)) else None)"
  "str_field ''email'' (JObj (user_patch isSuper canEditDept u f)) =
     (if isSuper \<and> trim (eu_email f) \<noteq> [] \<and> to_lower (trim (eu_email f)) \<noteq> au_email u then Some (trim (eu_email f)) else None)"
  "str_field ''status'' (JObj (user_patch isSuper canEditDept u f)) =
     (if canEditDept \<and> eu_status f \<noteq> curStatus u then Some (eu_status f) else None)"
  by (auto simp: str_field_def user_patch_def)

text \<open>C24: Saving the form of an account changes in the account exactly what was changed in the form, against the server's own
  checks. Of a caller with the authority the form shows (a system administrator, or an administrator of an organization the
  account is in), with a clean name of at most 80 characters, an address that does not start with the \<^verbatim>\<open>@\<close> and is not taken,
  and an existing group the caller administers, every call is accepted; afterwards the name and the address are those of the
  form, trimmed and the address in lower case, when a system administrator saved, the status and the only group those of the form
  when an administrator of organizations did, and everything else is as before. A blanked name or address is left as it was, and so
  is the group of an account that is in several. When only such a field changed, nothing is sent although the save button is
  enabled; in every other case a save that is enabled sends something.\<close>

theorem edit_reaches_account:
  assumes shown: "ac_name a = au_name u" "ac_email a = au_email u" "ac_status a = au_status u"
      "ac_groups a = map um_group_id (au_memberships u)"
    and save: "edit_can_save isSuper canEditDept u f"
    and authority: "isSuper = uc_super c" "canEditDept \<Longrightarrow> uc_super c \<or> list_ex (org_admin_in c) (ac_groups a)"
    and fields: "trim (eu_name f) = [] \<or> clean_name (trim (eu_name f))" "\<not> starts_with (trim (eu_email f)) ''@''"
      "length (trim (eu_email f)) \<le> 254" "to_lower (trim (eu_email f)) \<notin> set others"
      "eu_status f \<in> {''active'', ''suspended''}"
    and group: "eu_groupId f = [] \<or> eu_groupId f \<in> set groups \<and> (uc_super c \<or> org_admin_in c (eu_groupId f))"
  shows "run_account (serve_account c others groups (au_id u)) (edit_calls isSuper canEditDept u f) a =
      (None,
       \<lparr>ac_name = (if isSuper \<and> trim (eu_name f) \<noteq> [] then trim (eu_name f) else ac_name a),
        ac_email = (if isSuper \<and> trim (eu_email f) \<noteq> [] then to_lower (trim (eu_email f)) else ac_email a),
        ac_status = (if canEditDept \<and> eu_status f \<noteq> curStatus u then eu_status f else ac_status a),
        ac_groups = (if canEditDept \<and> length (au_memberships u) \<le> 1 \<and> eu_groupId f \<noteq> curGroupId u
                     then (if eu_groupId f = [] then [] else [eu_groupId f]) else ac_groups a)\<rparr>) \<and>
    (edit_calls isSuper canEditDept u f = [] \<longleftrightarrow>
       (isSuper \<longrightarrow> trim (eu_name f) \<in> {[], au_name u} \<and> (trim (eu_email f) = [] \<or> to_lower (trim (eu_email f)) = au_email u)) \<and>
       (canEditDept \<longrightarrow> eu_status f = curStatus u \<and> (length (au_memberships u) \<le> 1 \<longrightarrow> eu_groupId f = curGroupId u)))"
proof
  let ?name = "if isSuper \<and> trim (eu_name f) \<noteq> [] then trim (eu_name f) else ac_name a"
  let ?email = "if isSuper \<and> trim (eu_email f) \<noteq> [] then to_lower (trim (eu_email f)) else ac_email a"
  let ?status = "if canEditDept \<and> eu_status f \<noteq> curStatus u then eu_status f else ac_status a"
  let ?b = "a\<lparr>ac_name := ?name, ac_email := ?email, ac_status := ?status\<rparr>"
  have email: "server_email_ok (to_lower (trim (eu_email f))) \<and> 3 \<le> length (trim (eu_email f))"
    if "isSuper" "trim (eu_email f) \<noteq> []"
    using emailOk_server [of "eu_email f"] save fields(2) that by (auto simp: edit_can_save_def emailInvalid_def)
  have scope: "uc_super c \<or> list_ex (admin_in c) (ac_groups a)" if "isSuper \<or> canEditDept"
    using that authority by (auto simp: list_ex_iff admin_in_def)
  let ?sn = "isSuper \<and> trim (eu_name f) \<noteq> [] \<and> trim (eu_name f) \<noteq> au_name u"
    and ?se = "isSuper \<and> trim (eu_email f) \<noteq> [] \<and> to_lower (trim (eu_email f)) \<noteq> au_email u"
    and ?ss = "canEditDept \<and> eu_status f \<noteq> curStatus u"
  have patch: "patch_user c others (au_id u) (JObj (user_patch isSuper canEditDept u f)) a = Inr ?b"
    if "user_patch isSuper canEditDept u f \<noteq> []"
  proof -
    have any: "isSuper \<or> canEditDept" using that by (auto simp: user_patch_def split: if_splits)
    have "patch_user c others (au_id u) (JObj (user_patch isSuper canEditDept u f)) a =
        Inr (a\<lparr>ac_name := (case map_option trim (if ?sn then Some (trim (eu_name f)) else None) of None \<Rightarrow> ac_name a | Some n \<Rightarrow> n),
          ac_email := (case map_option (\<lambda>e. to_lower (trim e)) (if ?se then Some (trim (eu_email f)) else None) of
            None \<Rightarrow> ac_email a | Some e \<Rightarrow> e),
          ac_status := (case (if ?ss then Some (eu_status f) else None) of None \<Rightarrow> ac_status a | Some st \<Rightarrow> st)\<rparr>)"
      by (rule patch_user_accepts [OF js_get_patch scope [OF any]])
        (use email authority fields in \<open>simp_all split: if_splits\<close>)
    then show ?thesis using shown(1,2) by auto
  qed
  have same: "?b = a" if "user_patch isSuper canEditDept u f = []"
    using that shown by (auto simp: user_patch_def split: if_splits)
  have dept: "put_department c groups (nonempty (Some (eu_groupId f))) ?b =
      Inr (?b\<lparr>ac_groups := (if eu_groupId f = [] then [] else [eu_groupId f])\<rparr>)" if "didDept canEditDept u f"
  proof -
    have one: "length (ac_groups a) \<le> 1" and new: "eu_groupId f \<notin> set (ac_groups a)"
      using that shown(4) by (cases "au_memberships u"; cases "tl (au_memberships u)";
          auto simp: didDept_def multipleMemberships_def curGroupId_def)+
    then show ?thesis
      using that authority group by (cases "ac_groups a") (auto simp: put_department_def didDept_def nonempty_def org_admin_in_def list_ex_iff dest: map_of_SomeD)
  qed
  let ?serve = "serve_account c others groups (au_id u)"
  have first: "run_account ?serve (if user_patch isSuper canEditDept u f \<noteq> []
      then [useUpdateUser (au_id u) (JObj (user_patch isSuper canEditDept u f))] else []) a = (None, ?b)"
    using patch same by (cases "user_patch isSuper canEditDept u f = []") (simp_all only: run_account.simps serve_patch if_True if_False simp_thms sum.case)
  have second: "run_account ?serve (if didDept canEditDept u f
      then [useSetUserDepartment (au_id u) (nonempty (Some (eu_groupId f)))] else []) ?b =
      (None, ?b\<lparr>ac_groups := (if didDept canEditDept u f then (if eu_groupId f = [] then [] else [eu_groupId f]) else ac_groups a)\<rparr>)"
    using dept by (cases "didDept canEditDept u f") (simp_all only: run_account.simps serve_dept if_True if_False sum.case, simp)
  show "run_account ?serve (edit_calls isSuper canEditDept u f) a =
      (None, \<lparr>ac_name = ?name, ac_email = ?email, ac_status = ?status,
        ac_groups = (if canEditDept \<and> length (au_memberships u) \<le> 1 \<and> eu_groupId f \<noteq> curGroupId u
                     then (if eu_groupId f = [] then [] else [eu_groupId f]) else ac_groups a)\<rparr>)"
    unfolding edit_calls_def run_account_append first prod.case option.case second by (simp add: didDept_def multipleMemberships_def not_less)
qed (auto simp: edit_calls_def user_patch_def didDept_def multipleMemberships_def)

text \<open>A rename together with a new address and another group, by a system administrator: all three arrive.\<close>

definition edit_demo :: AdminUser where
  "edit_demo = \<lparr>au_id = ''u1'', au_name = ''Kim'', au_email = ''kim@u.kr'', au_status = ''active'', au_global_role = None, au_global_roles = [],
     au_org_admins = [], au_memberships = [\<lparr>um_group_id = ''g1'', um_group_name = [], um_org_id = ''o1'', um_org_name = [], um_role = ''member''\<rparr>],
     au_created_at = None\<rparr>"

theorem edit_reaches_account_witness:
  "run_account (serve_account \<lparr>uc_id = ''root'', uc_super = True, uc_roles = []\<rparr> [''lee@u.kr''] [''g1'', ''g2''] ''u1'')
     (edit_calls True True edit_demo \<lparr>eu_name = '' Kim A '', eu_email = ''Kim.A@u.kr'', eu_orgId = ''o1'', eu_groupId = ''g2'', eu_status = ''active''\<rparr>)
     \<lparr>ac_name = ''Kim'', ac_email = ''kim@u.kr'', ac_status = ''active'', ac_groups = [''g1'']\<rparr> =
   (None, \<lparr>ac_name = ''Kim A'', ac_email = ''kim.a@u.kr'', ac_status = ''active'', ac_groups = [''g2'']\<rparr>)"
proof -
  let ?f = "\<lparr>eu_name = '' Kim A '', eu_email = ''Kim.A@u.kr'', eu_orgId = ''o1'', eu_groupId = ''g2'', eu_status = ''active''\<rparr>"
  have t: "trim '' Kim A '' = ''Kim A''" "trim ''Kim.A@u.kr'' = ''Kim.A@u.kr''" "to_lower ''Kim.A@u.kr'' = ''kim.a@u.kr''"
    "clean_name ''Kim A''" "edit_can_save True True edit_demo ?f" "\<not> starts_with ''Kim.A@u.kr'' ''@''"
    by code_simp+
  show ?thesis
    using edit_reaches_account [of "\<lparr>ac_name = ''Kim'', ac_email = ''kim@u.kr'', ac_status = ''active'', ac_groups = [''g1'']\<rparr>" edit_demo
        True True ?f "\<lparr>uc_id = ''root'', uc_super = True, uc_roles = []\<rparr>" "[''lee@u.kr'']" "[''g1'', ''g2'']"] t
    by (simp add: edit_demo_def curStatus_def curGroupId_def)
qed

lemma untouched_edit_sends_nothing:
  "trim (au_name u) = au_name u \<Longrightarrow> to_lower (trim (au_email u)) = au_email u \<Longrightarrow> edit_calls isSuper canEditDept u (edit_user_init u) = []"
  by (simp add: edit_calls_def user_patch_def didDept_def edit_user_init_def)

definition new_user_inv :: "(string \<times> string) list \<Rightarrow> new_user \<Rightarrow> bool" where
  "new_user_inv groups f = (nu_groupId f = [] \<or> nu_orgId f \<noteq> [] \<and> (nu_groupId f, nu_orgId f) \<in> set groups)"

interpretation new_user: inductive_invariant new_user_init "new_user_step orgs groups" "new_user_inv groups" for orgs groups
proof
  show "new_user_inv groups new_user_init" by (simp add: new_user_inv_def new_user_init_def)
  show "new_user_inv groups t" if "new_user_inv groups f" "new_user_step orgs groups f t" for f t
    using that(2,1) by cases (auto simp: new_user_inv_def new_user_groups_def)
qed

text \<open>A new account lands in a group of the organization that was chosen for it, with an address of the accepted form and an
  initial password of eight characters; and when the button is disabled the form names everything that is missing.\<close>

theorem new_user_sound:
  assumes "reach new_user_init (new_user_step orgs groups) f"
  shows "(case create_user f of
      None \<Rightarrow> new_user_blockers f \<noteq> []
    | Some m \<Rightarrow> new_user_blockers f = [] \<and> (nu_groupId f, nu_orgId f) \<in> set groups \<and> emailOk (nu_email f) \<and> 8 \<le> length (nu_password f) \<and>
        rq_body (mu_request m) = Some (JObj [(''email'', JStr (trim (nu_email f))), (''name'', JStr (trim (nu_name f))),
          (''group_id'', JStr (nu_groupId f)), (''initial_role'', JStr ''member''), (''password'', JStr (nu_password f))]))"
proof -
  have "new_user_inv groups f" using new_user.inv_reach assms .
  then show ?thesis
    by (auto simp: create_user_def new_user_valid_def new_user_blockers_def new_user_inv_def useCreateUser_def use_mutation_def http_send_def)
qed

theorem new_user_sound_witness: "create_user new_user_init = None \<and> new_user_blockers new_user_init \<noteq> []"
  using new_user_sound [OF reach_init [of new_user_init "new_user_step [] []"]] by (auto simp: create_user_def new_user_valid_def new_user_init_def split: option.splits)

text \<open>The select filters do not restart the paging. Choosing an organization or a group asks for the same page number of a
  shorter list, so a search that stood on a later page shows nothing although accounts match; it then says that there are no
  accounts, and clearing the filters leaves both selections as they are. A search or a status restarts it.\<close>

theorem user_filters_keep_page:
  "ur_page (users_request_of (pick_org i u)) = ur_page (users_request_of u) \<and>
   ur_page (users_request_of (pick_group_filter g u)) = ur_page (users_request_of u) \<and>
   empty_users (pick_group_filter g u) = empty_users u \<and>
   ur_org_id (users_request_of (clear_users u)) = ur_org_id (users_request_of u) \<and>
   ur_group_id (users_request_of (clear_users u)) = ur_group_id (users_request_of u) \<and>
   ur_page (users_request_of (u\<lparr>us_params := setQuery [] q (us_params u)\<rparr>)) = Fin 1 \<and>
   ur_page (users_request_of (u\<lparr>us_params := setTab [] t (us_params u)\<rparr>)) = Fin 1"
  by (simp add: users_request_of_def pick_org_def pick_group_filter_def empty_users_def clear_users_def Let_def table_refines_set)

text \<open>An account is suspended only after a confirmation and deleted only after its address was typed; reactivating needs neither.
  Approving one without a group is possible, and then carries whatever role was picked before the group was taken back.\<close>

theorem account_actions_guarded:
  "(toggleStatus False u = None \<longleftrightarrow> au_status u \<noteq> ''suspended'') \<and>
   (delete_user (Some u) typed \<noteq> None \<longleftrightarrow> trim typed = au_email u) \<and> delete_user None typed = None \<and>
   (GoDelete \<in> set (user_actions s u) \<longleftrightarrow> isOrgAdmin s) \<and> (Approve \<in> set (user_actions s u) \<longleftrightarrow> au_status u = ''pending'') \<and>
   (\<exists>f :: approve_form. reach approve_init (approve_step [''g'']) f \<and>
        rq_body (mu_request (approve_user f u)) = Some (JObj [(''group_id'', JNull), (''initial_role'', JStr ''org_admin'')]))"
proof -
  have a: "approve_step [''g''] approve_init \<lparr>ap_groupId = ''g'', ap_role = ''member''\<rparr>"
    using ap_pick_group [of "''g''" "[''g'']" approve_init] by (simp add: approve_init_def)
  have b: "approve_step [''g''] \<lparr>ap_groupId = ''g'', ap_role = ''member''\<rparr> \<lparr>ap_groupId = ''g'', ap_role = ''org_admin''\<rparr>"
    using ap_pick_role [of "''org_admin''" "\<lparr>ap_groupId = ''g'', ap_role = ''member''\<rparr>" "[''g'']"] by (simp add: approve_roles_def)
  have c: "approve_step [''g''] \<lparr>ap_groupId = ''g'', ap_role = ''org_admin''\<rparr> \<lparr>ap_groupId = [], ap_role = ''org_admin''\<rparr>"
    using ap_pick_group [of "[]" "[''g'']" "\<lparr>ap_groupId = ''g'', ap_role = ''org_admin''\<rparr>"] by simp
  have "reach approve_init (approve_step [''g'']) \<lparr>ap_groupId = [], ap_role = ''org_admin''\<rparr>"
    using a b c by (blast intro: reach_init reach_step)
  then have "\<exists>f :: approve_form. reach approve_init (approve_step [''g'']) f \<and>
        rq_body (mu_request (approve_user f u)) = Some (JObj [(''group_id'', JNull), (''initial_role'', JStr ''org_admin'')])"
    by (intro exI conjI, assumption) (simp add: approve_user_def useApproveUser_def use_mutation_def http_send_def)
  then show ?thesis by (auto simp: toggleStatus_def delete_user_def typedOk_def user_actions_def)
qed

end
