(* ===== verification/Group_Admin.thy ===== *)
theory Group_Admin
  imports User_Admin
begin

text \<open>
  Groups and organizations of the admin console (\<^verbatim>\<open>features/admin/Groups.tsx\<close>, \<^verbatim>\<open>features/admin/Orgs.tsx\<close>) and the user picker
  both use (\<^verbatim>\<open>components/UserSearchPicker.tsx\<close>): the lists, the panels of administrators and members, and the forms. The rules of
  the server about the last administrator (\<^verbatim>\<open>groups_router.py\<close>) are mirrored, so that the buttons can be compared with them.
\<close>

section \<open>The group list\<close>

record Project =
  pj_id :: string
  pj_org_id :: string
  pj_org_name :: "string option"
  pj_name :: string
  pj_status :: "string option"
  pj_created_at :: "string option"
  pj_wallet_id :: "string option"
  pj_member_count :: "nat option"
  pj_default_member_credit :: "string option"

text \<open>\<^verbatim>\<open>Map.set\<close> in a loop: an organization keeps the position of its first group and the name of its last.\<close>

definition orgOptions :: "(string \<Rightarrow> string \<Rightarrow> int) \<Rightarrow> Project list \<Rightarrow> (string \<times> string) list" where
  "orgOptions coll ps =
     js_sort (\<lambda>a b. coll (snd a) (snd b) \<le> 0)
       (fold (\<lambda>p m. AList.update (pj_org_id p) (str_or (pj_org_name p) (pj_org_id p)) m) ps [])"

definition orgName :: "(string \<times> string) list \<Rightarrow> string \<Rightarrow> string" where
  "orgName orgs i = (case map_of orgs i of None \<Rightarrow> i | Some n \<Rightarrow> n)"

definition group_columns :: "(string \<times> string) list \<Rightarrow> (string \<Rightarrow> rat option) \<Rightarrow> Project Column list" where
  "group_columns orgs date =
     (let col = (\<lambda>k f. \<lparr>co_key = k, co_sortBy = Some f, co_sortable = None\<rparr>) in
      [col ''org_id'' (\<lambda>p. KOther (str_or (pj_org_name p) (orgName orgs (pj_org_id p)))),
       col ''name'' (\<lambda>p. KOther (pj_name p)),
       col ''wallet_id'' (\<lambda>p. KOther (str_or (pj_wallet_id p) [])),
       col ''member_count'' (\<lambda>p. KNum (Fin (of_nat (opt_else (pj_member_count p) 0)))),
       col ''status'' (\<lambda>p. case pj_status p of None \<Rightarrow> KNull | Some s \<Rightarrow> KOther s),
       col ''created_at'' (\<lambda>p. KNum (case nonempty (pj_created_at p) of None \<Rightarrow> Fin 0
          | Some c \<Rightarrow> (case date c of None \<Rightarrow> NaN | Some ms \<Rightarrow> Fin ms))),
       \<lparr>co_key = ''actions'', co_sortBy = None, co_sortable = Some False\<rparr>])"

record groups_page =
  gs_params :: params
  gs_org :: string

definition visible_groups :: "groups_page \<Rightarrow> Project list \<Rightarrow> Project list" where
  "visible_groups g = filter (\<lambda>p. gs_org g = [] \<or> pj_org_id p = gs_org g)"

definition group_matches :: "string \<Rightarrow> Project \<Rightarrow> bool" where
  "group_matches query p =
     (let q = to_lower (trim query) in
      q = [] \<or> str_includes (to_lower (pj_name p)) q \<or> str_includes (to_lower (pj_id p)) q \<or> str_includes (to_lower (str_or (pj_org_name p) [])) q)"

definition group_rows ::
  "(string \<Rightarrow> string \<Rightarrow> int) \<Rightarrow> (jsnum \<Rightarrow> string) \<Rightarrow> (string \<times> string) list \<Rightarrow> (string \<Rightarrow> rat option) \<Rightarrow> groups_page \<Rightarrow> Project list \<Rightarrow> Project list" where
  "group_rows coll ns orgs date g ps =
     (let st = useTableState [] user_defaults (gs_params g) in
      sortRows coll ns (filter (group_matches (ts_query st)) (visible_groups g ps))
        (sortAccessor (\<lambda>_ _. KNull) (group_columns orgs date) (ts_sort st)) (ts_dir st))"

definition clear_groups :: "groups_page \<Rightarrow> groups_page" where
  "clear_groups g = g\<lparr>gs_params := clear_table [] (gs_params g)\<rparr>"

definition toggle_group :: "bool \<Rightarrow> Project \<Rightarrow> mutation_def option" where
  "toggle_group ok p =
     (let next = (if pj_status p = Some ''inactive'' then ''active'' else ''inactive'') in
      if next = ''inactive'' \<and> \<not> ok then None else Some (useUpdateProject (pj_id p) (JObj [(''status'', JStr next)])))"

definition group_typedOk :: "Project option \<Rightarrow> string \<Rightarrow> bool" where
  "group_typedOk project typed = (case project of None \<Rightarrow> False | Some p \<Rightarrow> trim typed = pj_name p)"

definition delete_group :: "Project option \<Rightarrow> string \<Rightarrow> mutation_def option" where
  "delete_group project typed = (if group_typedOk project typed then map_option (\<lambda>p. useDeleteProject (pj_id p)) project else None)"

section \<open>Members and administrators\<close>

record member =
  gm_id :: string
  gm_user_id :: string
  gm_user_name :: "string option"
  gm_role :: string
  gm_expires_at :: "string option"

definition is_admin :: "member \<Rightarrow> bool" where
  "is_admin m = (gm_role m = ''group_admin'')"

definition group_admins :: "member list \<Rightarrow> member list" where
  "group_admins = filter is_admin"

definition admin_candidates :: "string \<Rightarrow> member list \<Rightarrow> member list" where
  "admin_candidates q = filter (\<lambda>m. \<not> is_admin m \<and> (trim q = [] \<or> str_includes (to_lower (str_or (gm_user_name m) [])) (to_lower (trim q))))"

definition pick_candidate :: "string \<Rightarrow> member \<Rightarrow> string" where
  "pick_candidate userId m = (if gm_user_id m = userId then [] else gm_user_id m)"

definition designate :: "string \<Rightarrow> string \<Rightarrow> member list \<Rightarrow> mutation_def option" where
  "designate groupId userId members =
     (if userId = [] then None
      else map_option (\<lambda>m. useUpdateMembership groupId (gm_id m) ''group_admin'') (find (\<lambda>m. gm_user_id m = userId) members))"

definition demote_enabled :: "member list \<Rightarrow> bool" where
  "demote_enabled members = (1 < length (group_admins members))"

definition demote :: "string \<Rightarrow> member \<Rightarrow> mutation_def" where
  "demote groupId m = useUpdateMembership groupId (gm_id m) ''member''"

definition undo_demote :: "string \<Rightarrow> member \<Rightarrow> mutation_def" where
  "undo_demote groupId m = useUpdateMembership groupId (gm_id m) ''group_admin''"

definition isLastAdmin :: "member list \<Rightarrow> member \<Rightarrow> bool" where
  "isLastAdmin members m = (is_admin m \<and> length (group_admins members) \<le> 1)"

definition removeMember :: "string \<Rightarrow> member \<Rightarrow> mutation_def" where
  "removeMember groupId m = useRemoveMembership groupId (gm_id m)"

text \<open>The members a panel shows: filtered, and cut after the first fifty; each press shows two hundred more.\<close>

definition member_matches :: "string \<Rightarrow> member \<Rightarrow> bool" where
  "member_matches query m =
     (let q = to_lower (trim query) in q = [] \<or> str_includes (to_lower (str_or (gm_user_name m) [])) q \<or> str_includes (to_lower (gm_user_id m)) q)"

record members_view =
  mv_query :: string
  mv_shown :: nat

definition members_view_init :: members_view where
  "members_view_init = \<lparr>mv_query = [], mv_shown = 50\<rparr>"

definition search_members :: "string \<Rightarrow> members_view \<Rightarrow> members_view" where
  "search_members q v = v\<lparr>mv_query := q, mv_shown := 50\<rparr>"

definition show_more :: "members_view \<Rightarrow> members_view" where
  "show_more v = v\<lparr>mv_shown := mv_shown v + 200\<rparr>"

definition shown_members :: "members_view \<Rightarrow> member list \<Rightarrow> member list" where
  "shown_members v ms = take (mv_shown v) (filter (member_matches (mv_query v)) ms)"

definition more_offered :: "members_view \<Rightarrow> member list \<Rightarrow> bool" where
  "more_offered v ms = (mv_shown v < length (filter (member_matches (mv_query v)) ms))"

text \<open>Adding a member: the picker asks for twenty accounts and leaves out the excluded ones.\<close>

definition picker_filter :: "string option \<Rightarrow> string \<Rightarrow> UserListFilter" where
  "picker_filter orgId q = \<lparr>uf_q = nonempty (Some (trim q)), uf_status = None, uf_org_id = orgId, uf_group_id = None, uf_page = None, uf_size = Some 20\<rparr>"

definition picker_list :: "string set option \<Rightarrow> string list \<Rightarrow> string list" where
  "picker_list excluded users = (case excluded of None \<Rightarrow> users | Some ex \<Rightarrow> filter (\<lambda>u. u \<notin> ex) users)"

definition add_member :: "string \<Rightarrow> string \<Rightarrow> string \<Rightarrow> mutation_def option" where
  "add_member groupId userId role =
     (if userId = [] then None else Some (useAddMembership groupId (JObj [(''user_id'', JStr userId), (''role'', JStr role)])))"

definition ROLE_OPTIONS :: "string list" where
  "ROLE_OPTIONS = [''member'']"

section \<open>What the server does with a membership\<close>

text \<open>
  The memberships of one group with the accounts that were soft-deleted, and the caller as the request's principal: system
  administrator or not, and the role in the group. An administrator of the organization has \<^verbatim>\<open>org_admin\<close> in each of its groups
  (\<^verbatim>\<open>rbac.resolve_principal\<close>); an expired membership gives no role.
\<close>

record group_db =
  gd_members :: "member list"
  gd_deleted :: "string list"

record group_caller =
  gc_super :: bool
  gc_role :: "string option"

record group_person =
  pe_id :: string
  pe_super :: bool
  pe_org_admin :: bool

definition has_expired :: "(string \<Rightarrow> bool) \<Rightarrow> member \<Rightarrow> bool" where
  "has_expired expired m = (case gm_expires_at m of None \<Rightarrow> False | Some t \<Rightarrow> expired t)"

definition resolve_principal :: "(string \<Rightarrow> bool) \<Rightarrow> group_person \<Rightarrow> group_db \<Rightarrow> group_caller" where
  "resolve_principal expired p db =
     \<lparr>gc_super = pe_super p,
      gc_role = (if pe_org_admin p then Some ''org_admin''
                 else map_option gm_role (find (\<lambda>m. gm_user_id m = pe_id p \<and> \<not> has_expired expired m) (gd_members db)))\<rparr>"

definition role_rank :: "string \<Rightarrow> int" where
  "role_rank r = (if r = ''guest'' then 0 else if r = ''member'' then 1 else if r = ''group_admin'' then 2
                  else if r = ''org_admin'' then 3 else -1)"

text \<open>\<^verbatim>\<open>principal.require(action="membership.update", group_id=...)\<close> and \<^verbatim>\<open>_guard_grant_rank\<close>.\<close>

definition may_manage :: "group_caller \<Rightarrow> bool" where
  "may_manage c = (gc_super c \<or> (case gc_role c of None \<Rightarrow> False | Some r \<Rightarrow> role_rank ''group_admin'' \<le> role_rank r))"

definition guard_grant_rank :: "group_caller \<Rightarrow> string \<Rightarrow> bool" where
  "guard_grant_rank c role =
     (gc_super c \<or> role \<noteq> ''org_admin'' \<and> role_rank role \<le> (case gc_role c of None \<Rightarrow> -1 | Some r \<Rightarrow> role_rank r))"

text \<open>The list the panels fetch leaves out deleted accounts, and so does the count of the last-administrator guard.\<close>

definition listed :: "group_db \<Rightarrow> member list" where
  "listed db = filter (\<lambda>m. gm_user_id m \<notin> set (gd_deleted db)) (gd_members db)"

definition last_admin_guard :: "string \<Rightarrow> group_db \<Rightarrow> bool" where
  "last_admin_guard mid db = (filter (\<lambda>m. is_admin m \<and> gm_id m \<noteq> mid) (listed db) \<noteq> [])"

datatype member_error = Not_permitted | No_membership | Bad_role | Last_admin

text \<open>
  A change of a role checks first and writes then, without a lock between the two: \<open>check_update\<close> reads the memberships at the
  time of the check, \<open>write_role\<close> changes those of the time of the write. \<open>update_membership\<close> is a request nothing comes
  between.
\<close>

definition check_update :: "group_caller \<Rightarrow> string \<Rightarrow> string \<Rightarrow> group_db \<Rightarrow> member_error option" where
  "check_update c mid role db =
     (if \<not> may_manage c then Some Not_permitted
      else
        (case find (\<lambda>m. gm_id m = mid) (gd_members db) of
           None \<Rightarrow> Some No_membership
         | Some m \<Rightarrow>
             if role \<notin> {''group_admin'', ''member'', ''guest''} then Some Bad_role
             else if \<not> guard_grant_rank c role then Some Not_permitted
             else if is_admin m \<and> role \<noteq> ''group_admin'' \<and> \<not> last_admin_guard mid db then Some Last_admin
             else None))"

definition write_role :: "string \<Rightarrow> string \<Rightarrow> group_db \<Rightarrow> group_db" where
  "write_role mid role db = db\<lparr>gd_members := map (\<lambda>x. if gm_id x = mid then x\<lparr>gm_role := role\<rparr> else x) (gd_members db)\<rparr>"

definition update_membership :: "group_caller \<Rightarrow> string \<Rightarrow> string \<Rightarrow> group_db \<Rightarrow> member_error + group_db" where
  "update_membership c mid role db =
     (case check_update c mid role db of Some e \<Rightarrow> Inl e | None \<Rightarrow> Inr (write_role mid role db))"

definition remove_membership :: "group_caller \<Rightarrow> string \<Rightarrow> group_db \<Rightarrow> member_error + group_db" where
  "remove_membership c mid db =
     (if \<not> may_manage c then Inl Not_permitted
      else
        (case find (\<lambda>m. gm_id m = mid) (gd_members db) of
           None \<Rightarrow> Inl No_membership
         | Some m \<Rightarrow>
             if is_admin m \<and> \<not> last_admin_guard mid db then Inl Last_admin
             else Inr (db\<lparr>gd_members := filter (\<lambda>x. gm_id x \<noteq> mid) (gd_members db)\<rparr>)))"

text \<open>The two routes, on the request as it is sent.\<close>

definition serve_group :: "group_caller \<Rightarrow> string \<Rightarrow> request \<Rightarrow> group_db \<Rightarrow> member_error + group_db" where
  "serve_group c g rq db =
     (case map_of (rq_params rq) ''membership_id'' of
        None \<Rightarrow> Inl No_membership
      | Some mid \<Rightarrow>
          if rq_path rq \<noteq> ''/api/v1/projects/{group_id}/memberships/{membership_id}'' \<or>
             map_of (rq_params rq) ''group_id'' \<noteq> Some g then Inl No_membership
          else if rq_method rq = PATCH
          then (case map_option (str_field ''role'') (rq_body rq) of
                  Some (Some role) \<Rightarrow> update_membership c mid role db | _ \<Rightarrow> Inl Bad_role)
          else if rq_method rq = DELETE then remove_membership c mid db
          else Inl No_membership)"

text \<open>
  Other endpoints change the memberships of a group as well, and have no guard of their own: \<^verbatim>\<open>PUT /users/{id}/department\<close> takes
  the account out of its other groups, and deleting an account marks it deleted.
\<close>

definition leave_group :: "string \<Rightarrow> group_db \<Rightarrow> group_db" where
  "leave_group uid db = db\<lparr>gd_members := filter (\<lambda>m. gm_user_id m \<noteq> uid) (gd_members db)\<rparr>"

definition soft_delete :: "string \<Rightarrow> group_db \<Rightarrow> group_db" where
  "soft_delete uid db = db\<lparr>gd_deleted := uid # gd_deleted db\<rparr>"

text \<open>
  The panels over time: the memberships of the server, the list as last fetched, and the members whose demotion can be undone
  from a notice. A mutation counts as pending until the list was fetched again, so an own change is followed by a fresh list;
  other administrators use the two membership endpoints at any time. The caller of a step is arbitrary: whoever may not do it is
  refused. The requests are handled one after the other.
\<close>

record group_panel =
  gp_server :: group_db
  gp_view :: "member list"
  gp_undo :: "member list"

definition panel_open :: "group_db \<Rightarrow> group_panel" where
  "panel_open db = \<lparr>gp_server = db, gp_view = listed db, gp_undo = []\<rparr>"

definition settle_panel :: "group_db \<Rightarrow> group_panel \<Rightarrow> group_panel" where
  "settle_panel db p = p\<lparr>gp_server := db, gp_view := listed db\<rparr>"

inductive panel_step :: "string \<Rightarrow> group_panel \<Rightarrow> group_panel \<Rightarrow> bool" for g where
  panel_appoint: "m \<in> set (admin_candidates q (gp_view p)) \<Longrightarrow> designate g (gm_user_id m) (gp_view p) = Some mu \<Longrightarrow>
     serve_group c g (mu_request mu) (gp_server p) = Inr db \<Longrightarrow> panel_step g p (settle_panel db p)"
| panel_demote: "m \<in> set (group_admins (gp_view p)) \<Longrightarrow> demote_enabled (gp_view p) \<Longrightarrow>
     serve_group c g (mu_request (demote g m)) (gp_server p) = Inr db \<Longrightarrow> panel_step g p ((settle_panel db p)\<lparr>gp_undo := m # gp_undo p\<rparr>)"
| panel_undo: "m \<in> set (gp_undo p) \<Longrightarrow> serve_group c g (mu_request (undo_demote g m)) (gp_server p) = Inr db \<Longrightarrow>
     panel_step g p (settle_panel db p)"
| panel_remove: "m \<in> set (gp_view p) \<Longrightarrow> \<not> isLastAdmin (gp_view p) m \<Longrightarrow>
     serve_group c g (mu_request (removeMember g m)) (gp_server p) = Inr db \<Longrightarrow> panel_step g p (settle_panel db p)"
| panel_add: "gm_id m \<notin> gm_id ` set (gd_members (gp_server p)) \<Longrightarrow> gm_role m = ''member'' \<Longrightarrow>
     panel_step g p (settle_panel ((gp_server p)\<lparr>gd_members := gd_members (gp_server p) @ [m]\<rparr>) p)"
| panel_elsewhere: "serve_group c g rq (gp_server p) = Inr db \<Longrightarrow> panel_step g p (p\<lparr>gp_server := db\<rparr>)"
| panel_refused: "panel_step g p p"
| panel_refetch: "panel_step g p (p\<lparr>gp_view := listed (gp_server p)\<rparr>)"

section \<open>The forms\<close>

record new_group =
  ng_name :: string
  ng_orgId :: string
  ng_withPool :: bool
  ng_welcomeCredit :: string

definition new_group_init :: new_group where
  "new_group_init = \<lparr>ng_name = [], ng_orgId = [], ng_withPool = False, ng_welcomeCredit = ''0''\<rparr>"

definition new_group_valid :: "new_group \<Rightarrow> bool" where
  "new_group_valid f = (trim (ng_name f) \<noteq> [] \<and> ng_orgId f \<noteq> [])"

definition new_group_blockers :: "new_group \<Rightarrow> string list" where
  "new_group_blockers f =
     (if ng_orgId f = [] then [''admin.groups.ownerOrg''] else []) @ (if trim (ng_name f) = [] then [''admin.groups.nameLabel''] else [])"

definition credit_or_zero :: "string \<Rightarrow> string" where
  "credit_or_zero c = str_or (nonempty (Some (trim c))) ''0''"

definition create_group :: "new_group \<Rightarrow> mutation_def option" where
  "create_group f =
     (if \<not> new_group_valid f then None
      else Some (useCreateProject (JObj [(''org_id'', JStr (ng_orgId f)), (''name'', JStr (trim (ng_name f))),
             (''create_node_pool'', JBool (ng_withPool f)), (''default_member_credit'', JStr (credit_or_zero (ng_welcomeCredit f)))])))"

record edit_group =
  eg_name :: string
  eg_status :: string
  eg_welcomeCredit :: string

text \<open>The form is filled when the project arrives, and not again while its id stays the same.\<close>

definition edit_group_fill :: "Project \<Rightarrow> edit_group" where
  "edit_group_fill p = \<lparr>eg_name = pj_name p, eg_status = str_or (pj_status p) ''active'', eg_welcomeCredit = str_or (pj_default_member_credit p) ''0''\<rparr>"

text \<open>\<^verbatim>\<open>x !== y\<close> on numbers; NaN differs from itself.\<close>

definition num_neq :: "jsnum \<Rightarrow> jsnum \<Rightarrow> bool" where
  "num_neq x y = (x = NaN \<or> y = NaN \<or> x \<noteq> y)"

definition edit_group_dirty :: "Project \<Rightarrow> edit_group \<Rightarrow> bool" where
  "edit_group_dirty p f =
     (trim (eg_name f) \<noteq> pj_name p \<or> eg_status f \<noteq> str_or (pj_status p) ''active'' \<or>
      num_neq (if eg_welcomeCredit f = [] then Fin 0 else js_number (eg_welcomeCredit f))
              (case pj_default_member_credit p of None \<Rightarrow> Fin 0 | Some c \<Rightarrow> js_number c))"

definition edit_group_save :: "Project \<Rightarrow> edit_group \<Rightarrow> mutation_def option" where
  "edit_group_save p f =
     (if trim (eg_name f) = [] \<or> \<not> edit_group_dirty p f then None
      else Some (useUpdateProject (pj_id p)
             (JObj [(''name'', JStr (str_or (nonempty (Some (trim (eg_name f)))) (pj_name p))), (''status'', JStr (eg_status f)),
                    (''default_member_credit'', JStr (credit_or_zero (eg_welcomeCredit f)))])))"

section \<open>Organizations\<close>

record Org =
  or_id :: string
  or_name :: string
  or_status :: "string option"
  or_created_at :: "string option"
  or_group_count :: "nat option"
  or_user_count :: "nat option"

definition org_columns :: "(string \<Rightarrow> rat option) \<Rightarrow> Org Column list" where
  "org_columns date =
     (let col = (\<lambda>k f. \<lparr>co_key = k, co_sortBy = Some f, co_sortable = None\<rparr>) in
      [col ''name'' (\<lambda>o1. KOther (or_name o1)),
       col ''group_count'' (\<lambda>o1. KNum (Fin (of_nat (opt_else (or_group_count o1) 0)))),
       col ''user_count'' (\<lambda>o1. KNum (Fin (of_nat (opt_else (or_user_count o1) 0)))),
       col ''status'' (\<lambda>o1. KOther (str_or (or_status o1) ''active'')),
       col ''created_at'' (\<lambda>o1. KNum (case nonempty (or_created_at o1) of None \<Rightarrow> Fin 0
          | Some c \<Rightarrow> (case date c of None \<Rightarrow> NaN | Some ms \<Rightarrow> Fin ms))),
       \<lparr>co_key = ''actions'', co_sortBy = None, co_sortable = None\<rparr>])"

definition org_matches :: "string \<Rightarrow> Org \<Rightarrow> bool" where
  "org_matches query o1 = (let q = to_lower (trim query) in q = [] \<or> str_includes (to_lower (or_name o1)) q \<or> str_includes (to_lower (or_id o1)) q)"

text \<open>This list reads the accessor of the sorted column directly; a column without one leaves the order as it came.\<close>

definition org_rows ::
  "(string \<Rightarrow> string \<Rightarrow> int) \<Rightarrow> (jsnum \<Rightarrow> string) \<Rightarrow> (string \<Rightarrow> rat option) \<Rightarrow> params \<Rightarrow> Org list \<Rightarrow> Org list" where
  "org_rows coll ns date ps os =
     (let st = useTableState [] user_defaults ps in
      sortRows coll ns (filter (org_matches (ts_query st)) os)
        (case find (\<lambda>c. Some (co_key c) = ts_sort st) (org_columns date) of None \<Rightarrow> None | Some c \<Rightarrow> co_sortBy c) (ts_dir st))"

definition org_question :: "Org \<Rightarrow> confirm_options" where
  "org_question o1 =
     \<lparr>cf_consequences = [''admin.orgs.consequenceGroups'', ''admin.orgs.consequenceUsers'', ''admin.orgs.consequenceCredits''],
      cf_confirmText = Some (or_name o1)\<rparr>"

definition delete_org :: "bool \<Rightarrow> Org \<Rightarrow> mutation_def option" where
  "delete_org ok o1 = (if ok then Some (useDeleteOrganization (or_id o1)) else None)"

definition toggle_org :: "bool \<Rightarrow> Org \<Rightarrow> mutation_def option" where
  "toggle_org ok o1 =
     (let next = (if str_or (or_status o1) ''active'' = ''inactive'' then ''active'' else ''inactive'') in
      if next = ''inactive'' \<and> \<not> ok then None else Some (useUpdateOrganization (or_id o1) (JObj [(''status'', JStr next)])))"

definition add_org_admin :: "string \<Rightarrow> string \<Rightarrow> mutation_def option" where
  "add_org_admin orgId userId = (if userId = [] then None else Some (useAddOrgAdmin orgId userId))"

definition remove_org_admin :: "string \<Rightarrow> string \<Rightarrow> mutation_def" where
  "remove_org_admin orgId uid = useRemoveOrgAdmin orgId uid"

definition undo_remove_org_admin :: "string \<Rightarrow> string \<Rightarrow> mutation_def" where
  "undo_remove_org_admin orgId uid = useAddOrgAdmin orgId uid"

definition org_dirty :: "Org \<Rightarrow> string \<Rightarrow> string \<Rightarrow> bool" where
  "org_dirty o1 name status = (trim name \<noteq> or_name o1 \<or> status \<noteq> str_or (or_status o1) ''active'')"

definition save_org :: "Org \<Rightarrow> string \<Rightarrow> string \<Rightarrow> mutation_def option" where
  "save_org o1 name status =
     (if trim name = [] \<or> \<not> org_dirty o1 name status then None
      else Some (useUpdateOrganization (or_id o1) (JObj [(''name'', JStr (trim name)), (''status'', JStr status)])))"

definition create_org :: "string \<Rightarrow> bool \<Rightarrow> mutation_def option" where
  "create_org name withPool =
     (if trim name = [] then None
      else Some (useCreateOrganization (JObj [(''name'', JStr (trim name)), (''create_node_pool'', JBool withPool)])))"

definition org_groups :: "string \<Rightarrow> Project list \<Rightarrow> Project list" where
  "org_groups orgId = filter (\<lambda>p. pj_org_id p = orgId)"

section \<open>What group administration guarantees\<close>

lemma find_id: "distinct (map gm_id ms) \<Longrightarrow> m \<in> set ms \<Longrightarrow> find (\<lambda>x. gm_id x = gm_id m) ms = Some m"
  by (induction ms) auto

lemma find_user: "distinct (map gm_user_id ms) \<Longrightarrow> m \<in> set ms \<Longrightarrow> find (\<lambda>x. gm_user_id x = gm_user_id m) ms = Some m"
  by (induction ms) auto

lemma find_map: "find P (map f xs) = map_option f (find (\<lambda>x. P (f x)) xs)"
  by (induction xs) auto

lemma listed_distinct: "distinct (map gm_id (gd_members db)) \<Longrightarrow> distinct (map gm_id (listed db))"
  by (simp add: listed_def distinct_map_filter)

lemma listed_member: "m \<in> set (listed db) \<Longrightarrow> m \<in> set (gd_members db)"
  by (simp add: listed_def)

lemma admins_except:
  "distinct (map gm_id ms) \<Longrightarrow> m \<in> set ms \<Longrightarrow> is_admin m \<Longrightarrow>
   filter (\<lambda>x. is_admin x \<and> gm_id x \<noteq> gm_id m) ms \<noteq> [] \<longleftrightarrow> 1 < length (group_admins ms)"
proof (induction ms)
  case (Cons x ms)
  show ?case
  proof (cases "m = x")
    case True
    then have "filter (\<lambda>y. is_admin y \<and> gm_id y \<noteq> gm_id m) ms = filter is_admin ms"
      using Cons.prems(1) by (intro filter_cong) (auto simp: image_iff)
    then show ?thesis using Cons.prems True by (simp add: group_admins_def)
  next
    case False
    then have m: "m \<in> set ms" "gm_id x \<noteq> gm_id m" using Cons.prems by auto
    then have "0 < length (group_admins ms)" using Cons.prems(3) by (auto simp: group_admins_def filter_empty_conv)
    then show ?thesis using Cons.IH Cons.prems m by (simp add: group_admins_def)
  qed
qed simp

lemma other_admins:
  "distinct (map gm_id (gd_members db)) \<Longrightarrow> m \<in> set (listed db) \<Longrightarrow> is_admin m \<Longrightarrow>
   last_admin_guard (gm_id m) db \<longleftrightarrow> 1 < length (group_admins (listed db))"
  unfolding last_admin_guard_def by (intro admins_except listed_distinct)

text \<open>What a request of the panels asks the server for.\<close>

lemma serve_update [simp]: "serve_group c g (mu_request (useUpdateMembership g mid role)) db = update_membership c mid role db"
  by (simp add: serve_group_def useUpdateMembership_def use_mutation_def http_send_def str_field_def)

lemma serve_remove [simp]: "serve_group c g (mu_request (useRemoveMembership g mid)) db = remove_membership c mid db"
  by (simp add: serve_group_def useRemoveMembership_def use_mutation_def http_send_def)

lemma serve_group_cases:
  assumes "serve_group c g rq db = Inr db'"
  obtains mid role where "update_membership c mid role db = Inr db'" | mid where "remove_membership c mid db = Inr db'"
  using assms by (auto simp: serve_group_def split: option.splits if_splits)

lemma role_rank_values [simp]:
  "role_rank ''member'' = 1" "role_rank ''group_admin'' = 2" "role_rank ''org_admin'' = 3"
  by (simp_all add: role_rank_def)

lemma may_manage_grants: "may_manage c \<Longrightarrow> guard_grant_rank c ''member'' \<and> guard_grant_rank c ''group_admin''"
  by (cases "gc_role c") (auto simp: may_manage_def guard_grant_rank_def)

text \<open>The buttons agree with the server. For a caller who manages the group and on a list that is up to date, an administrator can
  be demoted, and a member removed, exactly when the server accepts it; and whoever is picked from the candidates is a member
  that the server promotes.\<close>

theorem admin_buttons_match_server:
  assumes "may_manage c" and "distinct (map gm_id (gd_members db))" and "distinct (map gm_user_id (gd_members db))"
    and "m \<in> set (listed db)" and "gm_user_id m \<noteq> []"
  shows "(is_admin m \<longrightarrow> (demote_enabled (listed db) \<longleftrightarrow> (\<exists>r. serve_group c g (mu_request (demote g m)) db = Inr r))) \<and>
     (\<not> isLastAdmin (listed db) m \<longleftrightarrow> (\<exists>r. serve_group c g (mu_request (removeMember g m)) db = Inr r)) \<and>
     (m \<in> set (admin_candidates q (listed db)) \<longrightarrow>
        (\<exists>mu r. designate g (gm_user_id m) (listed db) = Some mu \<and> serve_group c g (mu_request mu) db = Inr r \<and>
           m\<lparr>gm_role := ''group_admin''\<rparr> \<in> set (gd_members r)))"
proof -
  have dist: "distinct (map gm_user_id (listed db))" using assms(3) by (simp add: listed_def distinct_map_filter)
  then have u: "find (\<lambda>x. gm_user_id x = gm_user_id m) (listed db) = Some m" using assms(4) by (rule find_user)
  have f: "find (\<lambda>x. gm_id x = gm_id m) (gd_members db) = Some m" using assms(2,4) find_id listed_member by blast
  have in_r: "m\<lparr>gm_role := ''group_admin''\<rparr> \<in> set (gd_members (write_role (gm_id m) ''group_admin'' db))"
    using listed_member [OF assms(4)] by (force simp: write_role_def)
  show ?thesis
    using assms u f in_r may_manage_grants [OF assms(1)] other_admins [OF assms(2,4)]
    by (auto simp: update_membership_def check_update_def remove_membership_def demote_enabled_def isLastAdmin_def designate_def demote_def removeMember_def)
qed

definition administered :: "group_db \<Rightarrow> bool" where
  "administered db = (distinct (map gm_id (gd_members db)) \<and> group_admins (listed db) \<noteq> [])"

lemma administeredI: "distinct (map gm_id (gd_members db)) \<Longrightarrow> a \<in> set (listed db) \<Longrightarrow> is_admin a \<Longrightarrow> administered db"
  by (auto simp: administered_def group_admins_def filter_empty_conv)

lemma administeredE:
  assumes "administered db"
  obtains a where "distinct (map gm_id (gd_members db))" "a \<in> set (listed db)" "is_admin a"
  using assms by (auto simp: administered_def group_admins_def filter_empty_conv)

lemma map_role_id: "map gm_id (map (\<lambda>x. if gm_id x = mid then x\<lparr>gm_role := r\<rparr> else x) ms) = map gm_id ms"
  by (induction ms) auto

lemma write_role_ids: "map gm_id (gd_members (write_role mid r db)) = map gm_id (gd_members db)"
  unfolding write_role_def by (simp add: map_role_id del: map_map)

lemma write_role_listed: "listed (write_role mid r db) = map (\<lambda>x. if gm_id x = mid then x\<lparr>gm_role := r\<rparr> else x) (listed db)"
  by (auto simp: write_role_def listed_def filter_map comp_def intro!: arg_cong [where f = "map _"] filter_cong)

lemma update_membership_keeps:
  assumes "update_membership c mid r db = Inr db'" and "administered db"
  shows "administered db'"
proof -
  obtain a where a: "distinct (map gm_id (gd_members db))" "a \<in> set (listed db)" "is_admin a" using assms(2) by (rule administeredE)
  obtain m where m: "find (\<lambda>x. gm_id x = mid) (gd_members db) = Some m"
    and ok: "is_admin m \<and> r \<noteq> ''group_admin'' \<longrightarrow> last_admin_guard mid db" and db': "db' = write_role mid r db"
    using assms(1) by (auto simp: update_membership_def check_update_def split: option.splits if_splits)
  have ids: "distinct (map gm_id (gd_members db'))" using a(1) db' write_role_ids by metis
  have mem: "m \<in> set (gd_members db)" "gm_id m = mid" using m by (auto simp: find_Some_iff)
  have keeps: "x \<in> set (listed db')" if "x \<in> set (listed db)" "gm_id x \<noteq> mid" for x
    using that by (force simp: db' write_role_listed)
  consider "gm_id a \<noteq> mid" | "gm_id a = mid" "r = ''group_admin''" | "gm_id a = mid" "r \<noteq> ''group_admin''" by blast
  then show ?thesis
  proof cases
    case 1
    then show ?thesis using administeredI [OF ids keeps] a by blast
  next
    case 2
    then have "a\<lparr>gm_role := r\<rparr> \<in> set (listed db')" using a(2) by (force simp: db' write_role_listed)
    then show ?thesis using administeredI [OF ids] 2(2) by (simp add: is_admin_def)
  next
    case 3
    then have "a = m" using a(1,2) mem listed_member by (auto simp: distinct_map inj_on_def)
    then obtain b where "b \<in> set (listed db)" "is_admin b" "gm_id b \<noteq> mid"
      using ok a(3) 3(2) by (auto simp: last_admin_guard_def filter_empty_conv)
    then show ?thesis using administeredI [OF ids keeps] by blast
  qed
qed

lemma remove_membership_keeps:
  assumes "remove_membership c mid db = Inr db'" and "administered db"
  shows "administered db'"
proof -
  obtain a where a: "distinct (map gm_id (gd_members db))" "a \<in> set (listed db)" "is_admin a" using assms(2) by (rule administeredE)
  obtain m where m: "find (\<lambda>x. gm_id x = mid) (gd_members db) = Some m" and ok: "is_admin m \<longrightarrow> last_admin_guard mid db"
    and db': "db' = db\<lparr>gd_members := filter (\<lambda>x. gm_id x \<noteq> mid) (gd_members db)\<rparr>"
    using assms(1) by (auto simp: remove_membership_def split: option.splits if_splits)
  have mem: "m \<in> set (gd_members db)" "gm_id m = mid" using m by (auto simp: find_Some_iff)
  have "\<exists>b \<in> set (listed db). is_admin b \<and> gm_id b \<noteq> mid"
  proof (cases "gm_id a = mid")
    case True
    then have "a = m" using a(1,2) mem listed_member by (auto simp: distinct_map inj_on_def)
    then show ?thesis using ok a(3) by (auto simp: last_admin_guard_def filter_empty_conv)
  qed (use a in blast)
  then show ?thesis using a(1) by (auto simp: db' listed_def distinct_map_filter intro!: administeredI)
qed

interpretation panel: inductive_invariant "panel_open db" "panel_step g" "\<lambda>p. administered db \<longrightarrow> administered (gp_server p)" for db g
proof
  show "administered db \<longrightarrow> administered (gp_server p')" if "administered db \<longrightarrow> administered (gp_server p)" "panel_step g p p'" for p p'
  proof -
    have served: "administered db'" if "serve_group c g rq (gp_server p) = Inr db'" "administered (gp_server p)" for c rq db'
      using that by (auto elim!: serve_group_cases dest: update_membership_keeps remove_membership_keeps)
    from that(2,1) show ?thesis
    proof cases
      case (panel_add m)
      then show ?thesis using that(1) by (auto simp: administered_def settle_panel_def group_admins_def listed_def)
    qed (auto simp: settle_panel_def dest: served)
  qed
qed (simp add: panel_open_def)

text \<open>C14: A group that has an administrator keeps one as long as its memberships are changed through the membership endpoints one
  request after the other, whatever is appointed, demoted, undone, removed or added in the panels, by whom, also from a list that
  is out of date and beside other administrators; and no membership appears twice. The guard does not reach further, and the
  theorem says so: moving the only administrator to another group, or deleting the account, leaves the group with none, and of
  two administrators who are demoted by requests that overlap both demotions pass the check and both are written.\<close>

theorem group_keeps_admin:
  "(\<forall>p. reach (panel_open db) (panel_step g) p \<and> group_admins (listed db) \<noteq> [] \<and> distinct (map gm_id (gd_members db)) \<longrightarrow>
      group_admins (listed (gp_server p)) \<noteq> [] \<and> distinct (map gm_id (gd_members (gp_server p)))) \<and>
   (\<forall>m. group_admins (listed db) = [m] \<longrightarrow>
      group_admins (listed (leave_group (gm_user_id m) db)) = [] \<and> group_admins (listed (soft_delete (gm_user_id m) db)) = []) \<and>
   (\<forall>m n c. group_admins (listed db) = [m, n] \<and> distinct (map gm_id (gd_members db)) \<and> may_manage c \<longrightarrow>
      check_update c (gm_id m) ''member'' db = None \<and> check_update c (gm_id n) ''member'' db = None \<and>
      group_admins (listed (write_role (gm_id n) ''member'' (write_role (gm_id m) ''member'' db))) = [])"
proof (intro conjI allI impI; (elim conjE)?)
  fix p
  assume "reach (panel_open db) (panel_step g) p" "group_admins (listed db) \<noteq> []" "distinct (map gm_id (gd_members db))"
  then show "group_admins (listed (gp_server p)) \<noteq> []" "distinct (map gm_id (gd_members (gp_server p)))"
    using panel.inv_reach [of db g p] by (simp_all add: administered_def)
next
  fix m
  assume one: "group_admins (listed db) = [m]"
  have only: "x = m" if "x \<in> set (listed db)" "is_admin x" for x
    using that arg_cong [OF one, where f = set] by (auto simp: group_admins_def)
  show "group_admins (listed (leave_group (gm_user_id m) db)) = []" "group_admins (listed (soft_delete (gm_user_id m) db)) = []"
    using only by (auto simp: group_admins_def filter_empty_conv listed_def leave_group_def soft_delete_def)
next
  fix m n c
  assume two: "group_admins (listed db) = [m, n]" and dist: "distinct (map gm_id (gd_members db))" and c: "may_manage c"
  have both: "{x \<in> set (listed db). is_admin x} = {m, n}" using arg_cong [OF two, where f = set] by (simp add: group_admins_def)
  then have mem: "m \<in> set (listed db)" "is_admin m" "n \<in> set (listed db)" "is_admin n" by blast+
  have check: "check_update c (gm_id x) ''member'' db = None" if "x \<in> set (listed db)" "is_admin x" for x
    using find_id [OF dist listed_member [OF that(1)]] other_admins [OF dist that] two c may_manage_grants [OF c]
    by (simp add: check_update_def)
  then show "check_update c (gm_id m) ''member'' db = None" "check_update c (gm_id n) ''member'' db = None" using mem by blast+
  have only: "x = m \<or> x = n" if "x \<in> set (listed db)" "is_admin x" for x
    using that both by blast
  then show "group_admins (listed (write_role (gm_id n) ''member'' (write_role (gm_id m) ''member'' db))) = []"
    by (auto simp: group_admins_def filter_empty_conv write_role_listed is_admin_def)
qed

definition two_admins :: group_db where
  "two_admins = \<lparr>gd_members = [\<lparr>gm_id = ''1'', gm_user_id = ''u1'', gm_user_name = None, gm_role = ''group_admin'', gm_expires_at = None\<rparr>,
     \<lparr>gm_id = ''2'', gm_user_id = ''u2'', gm_user_name = None, gm_role = ''group_admin'', gm_expires_at = None\<rparr>], gd_deleted = []\<rparr>"

text \<open>A system administrator demotes the first of two administrators: the group still has one.\<close>

theorem group_keeps_admin_witness:
  "\<exists>p. reach (panel_open two_admins) (panel_step ''g'') p \<and> gp_undo p \<noteq> [] \<and> group_admins (listed (gp_server p)) \<noteq> []"
proof -
  let ?m = "hd (gd_members two_admins)" and ?c = "\<lparr>gc_super = True, gc_role = None\<rparr>"
  let ?db = "write_role (gm_id ?m) ''member'' two_admins"
  have "serve_group ?c ''g'' (mu_request (demote ''g'' ?m)) two_admins = Inr ?db"
    by (simp add: demote_def update_membership_def check_update_def may_manage_def guard_grant_rank_def last_admin_guard_def listed_def two_admins_def is_admin_def)
  then have "panel_step ''g'' (panel_open two_admins) ((settle_panel ?db (panel_open two_admins))\<lparr>gp_undo := [?m]\<rparr>)"
    using panel_demote [of ?m "panel_open two_admins" ?c "''g''" ?db]
    by (simp add: panel_open_def two_admins_def listed_def group_admins_def is_admin_def demote_enabled_def)
  then have r: "reach (panel_open two_admins) (panel_step ''g'') ((settle_panel ?db (panel_open two_admins))\<lparr>gp_undo := [?m]\<rparr>)"
    using reach_init reach_step by metis
  then show ?thesis using group_keeps_admin [of two_admins "''g''"]
    by (intro exI [of _ "(settle_panel ?db (panel_open two_admins))\<lparr>gp_undo := [?m]\<rparr>"])
      (auto simp: two_admins_def listed_def group_admins_def is_admin_def)
qed

theorem admin_buttons_match_server_witness:
  "demote_enabled (listed two_admins) \<and>
   (\<exists>r. serve_group \<lparr>gc_super = True, gc_role = None\<rparr> ''g'' (mu_request (demote ''g'' (hd (gd_members two_admins)))) two_admins = Inr r)"
  using admin_buttons_match_server [where db = two_admins and m = "hd (gd_members two_admins)" and q = "[]" and g = "''g''" and
      c = "\<lparr>gc_super = True, gc_role = None\<rparr>"]
  by (simp add: two_admins_def demote_enabled_def group_admins_def is_admin_def listed_def may_manage_def)

lemma write_role_back:
  assumes "distinct (map gm_id (gd_members db))" and "m \<in> set (gd_members db)" and "is_admin m"
  shows "write_role (gm_id m) ''group_admin'' (write_role (gm_id m) ''member'' db) = db"
proof -
  have "m\<lparr>gm_role := ''group_admin''\<rparr> = m" using assms(3) by (cases m) (simp add: is_admin_def)
  then have "x\<lparr>gm_role := ''group_admin''\<rparr> = x" if "x \<in> set (gd_members db)" "gm_id x = gm_id m" for x
    using assms(1,2) that by (auto simp: distinct_map inj_on_def)
  then have "map (\<lambda>x. if gm_id x = gm_id m then x\<lparr>gm_role := ''group_admin''\<rparr> else x)
      (map (\<lambda>x. if gm_id x = gm_id m then x\<lparr>gm_role := ''member''\<rparr> else x) (gd_members db)) = gd_members db"
    by (auto intro!: map_idI)
  then show ?thesis by (simp add: write_role_def)
qed

text \<open>Who may still manage the group after a demotion, when their role is read again.\<close>

lemma resolve_after_demotion:
  assumes "distinct (map gm_id (gd_members db))" and "distinct (map gm_user_id (gd_members db))" and "m \<in> set (gd_members db)"
  shows "may_manage (resolve_principal expired p (write_role (gm_id m) ''member'' db)) \<longleftrightarrow>
    pe_super p \<or> pe_org_admin p \<or> gm_user_id m \<noteq> pe_id p \<and> may_manage (resolve_principal expired p db)"
proof -
  let ?P = "\<lambda>x. gm_user_id x = pe_id p \<and> \<not> has_expired expired x"
  let ?f = "\<lambda>x. if gm_id x = gm_id m then x\<lparr>gm_role := ''member''\<rparr> else x"
  have "find ?P (map ?f xs) = map_option ?f (find ?P xs)" for xs by (induction xs) (auto simp: has_expired_def)
  then have "find ?P (gd_members (write_role (gm_id m) ''member'' db)) = map_option ?f (find ?P (gd_members db))"
    by (simp add: write_role_def)
  moreover have "x = m \<longleftrightarrow> gm_user_id m = pe_id p" "gm_id x = gm_id m \<longleftrightarrow> x = m" if "find ?P (gd_members db) = Some x" for x
  proof -
    have x: "x \<in> set (gd_members db)" "gm_user_id x = pe_id p" using that by (auto simp: find_Some_iff)
    then show "x = m \<longleftrightarrow> gm_user_id m = pe_id p" "gm_id x = gm_id m \<longleftrightarrow> x = m"
      using assms by (auto simp: distinct_map inj_on_def)
  qed
  ultimately show ?thesis
    by (cases "find ?P (gd_members db)") (auto simp: may_manage_def resolve_principal_def)
qed

text \<open>C33: Undoing a demotion restores the group exactly, unless the administrator demoted themself. After an accepted demotion, the
  request of the undo notice, with the caller's role read afresh, is accepted and brings the memberships back as they were when the
  caller is a system administrator, an administrator of the organization, or demoted somebody else; somebody who demoted themself is
  refused. While the server still uses the role it read before the demotion (it keeps it for up to 30 seconds), the undo is accepted
  in every case.\<close>

theorem demote_undo_roundtrip:
  assumes "distinct (map gm_id (gd_members db))" and "distinct (map gm_user_id (gd_members db))" and "m \<in> set (gd_members db)" and "is_admin m"
    and demoted: "serve_group (resolve_principal expired p db) g (mu_request (demote g m)) db = Inr db'"
  shows "serve_group (resolve_principal expired p db') g (mu_request (undo_demote g m)) db' =
      (if pe_super p \<or> pe_org_admin p \<or> gm_user_id m \<noteq> pe_id p then Inr db else Inl Not_permitted) \<and>
    serve_group (resolve_principal expired p db) g (mu_request (undo_demote g m)) db' = Inr db"
proof -
  have f: "find (\<lambda>x. gm_id x = gm_id m) (gd_members db) = Some m" using assms(1,3) by (rule find_id)
  have db': "db' = write_role (gm_id m) ''member'' db" and may: "may_manage (resolve_principal expired p db)"
    using demoted by (auto simp: demote_def update_membership_def check_update_def split: option.splits if_splits)
  have undo: "update_membership c (gm_id m) ''group_admin'' db' = (if may_manage c then Inr db else Inl Not_permitted)" for c
    using f may_manage_grants [of c] write_role_back [OF assms(1,3,4)]
    by (simp add: update_membership_def check_update_def db' write_role_def find_map cong: if_cong)
  have "may_manage (resolve_principal expired p db') \<longleftrightarrow> pe_super p \<or> pe_org_admin p \<or> gm_user_id m \<noteq> pe_id p"
    using resolve_after_demotion [OF assms(1-3)] may unfolding db' by auto
  then show ?thesis using undo may by (simp add: undo_demote_def)
qed

text \<open>The first of two administrators demotes themself and presses the undo after the server has read the role again.\<close>

theorem demote_undo_roundtrip_witness:
  "serve_group (resolve_principal (\<lambda>_. False) \<lparr>pe_id = ''u1'', pe_super = False, pe_org_admin = False\<rparr> (write_role ''1'' ''member'' two_admins)) ''g''
     (mu_request (undo_demote ''g'' (hd (gd_members two_admins)))) (write_role ''1'' ''member'' two_admins) = Inl Not_permitted"
proof -
  let ?p = "\<lparr>pe_id = ''u1'', pe_super = False, pe_org_admin = False\<rparr>" and ?m = "hd (gd_members two_admins)"
  have "serve_group (resolve_principal (\<lambda>_. False) ?p two_admins) ''g'' (mu_request (demote ''g'' ?m)) two_admins =
      Inr (write_role ''1'' ''member'' two_admins)"
    by (simp add: demote_def update_membership_def check_update_def may_manage_def guard_grant_rank_def resolve_principal_def has_expired_def
        last_admin_guard_def listed_def two_admins_def is_admin_def)
  then show ?thesis
    using demote_undo_roundtrip [where db = two_admins and m = ?m and p = ?p and expired = "\<lambda>_. False" and g = "''g''"]
    by (simp add: two_admins_def is_admin_def)
qed

lemma show_more_iter: "mv_shown ((show_more ^^ n) v) = mv_shown v + 200 * n \<and> mv_query ((show_more ^^ n) v) = mv_query v"
  by (induction n) (simp_all add: show_more_def)

text \<open>Every member can be brought up. Whatever was searched, the panel shows the first matches in order, never one that does not
  match, offers more exactly while some are hidden, and shows all of them after enough presses.\<close>

theorem members_all_reachable:
  "(\<exists>n. shown_members ((show_more ^^ n) v) ms = filter (member_matches (mv_query v)) ms \<and> \<not> more_offered ((show_more ^^ n) v) ms) \<and>
   (more_offered v ms \<longleftrightarrow> shown_members v ms \<noteq> filter (member_matches (mv_query v)) ms) \<and>
   (\<exists>rest. shown_members v ms @ rest = filter (member_matches (mv_query v)) ms)"
proof -
  let ?fs = "filter (member_matches (mv_query v)) ms"
  have "take (mv_shown v + 200 * length ?fs) ?fs = ?fs" by (intro take_all) simp
  then have "shown_members ((show_more ^^ length ?fs) v) ms = ?fs \<and> \<not> more_offered ((show_more ^^ length ?fs) v) ms"
    by (simp add: shown_members_def more_offered_def show_more_iter)
  moreover have "mv_shown v < length ?fs \<longleftrightarrow> take (mv_shown v) ?fs \<noteq> ?fs"
    by (metis linorder_not_less nat_less_le take_all_iff)
  moreover have "\<exists>rest. take (mv_shown v) ?fs @ rest = ?fs" by (rule exI [of _ "drop (mv_shown v) ?fs"]) simp
  ultimately show ?thesis unfolding shown_members_def [of v] more_offered_def [of v] by blast
qed

text \<open>The picker can hide everyone. It leaves out excluded accounts after the server has cut the answer to twenty, so when the first
  twenty matches are members already it says that nobody matches, although others do.\<close>

theorem picker_hides_matches:
  "(picker_list (Some ex) (take 20 matches) = [] \<longleftrightarrow> set (take 20 matches) \<subseteq> ex) \<and> uf_size (picker_filter org q) = Some 20 \<and>
   (\<exists>found members. distinct found \<and> picker_list (Some members) (take 20 found) = [] \<and> filter (\<lambda>u. u \<notin> members) found \<noteq> [])"
proof -
  let ?id = "\<lambda>i. replicate i (CHR ''x'')"
  let ?found = "map ?id [0..<21]" and ?members = "?id ` {0..<20}"
  have inj: "inj ?id" by (rule injI) (metis length_replicate)
  have "distinct ?found" using inj by (simp add: distinct_map inj_on_def inj_def del: upt_Suc upt_rec_numeral)
  moreover have "picker_list (Some ?members) (take 20 ?found) = []"
    by (auto simp: picker_list_def filter_empty_conv take_map simp del: upt_Suc upt_rec_numeral)
  moreover have "?id 20 \<in> set ?found" "?id 20 \<notin> ?members" using inj by (auto simp: inj_def simp del: upt_Suc upt_rec_numeral)
  then have "filter (\<lambda>u. u \<notin> ?members) ?found \<noteq> []" unfolding filter_empty_conv by blast
  ultimately have "\<exists>found members. distinct found \<and> picker_list (Some members) (take 20 found) = [] \<and> filter (\<lambda>u. u \<notin> members) found \<noteq> []"
    by blast
  moreover have "picker_list (Some ex) (take 20 matches) = [] \<longleftrightarrow> set (take 20 matches) \<subseteq> ex" by (auto simp: picker_list_def filter_empty_conv)
  ultimately show ?thesis by (simp only: picker_filter_def UserListFilter.select_convs simp_thms)
qed

text \<open>A second edit takes back the first. Saving a group does not refresh the query its form is filled from, so a form opened again
  from the cached project shows the old name; changing only the status then sends the old name with it.\<close>

theorem group_edit_reverts:
  assumes "edit_group_save p f = Some m" and "trim (pj_name p) = pj_name p" and "pj_name p \<noteq> []" and "s \<noteq> str_or (pj_status p) ''active''"
  shows "\<not> stale_after (mu_done m answer) (qd_key (useProject (Some (pj_id p)) :: 'e query_def)) \<and>
     (\<exists>m2. edit_group_save p ((edit_group_fill p)\<lparr>eg_status := s\<rparr>) = Some m2 \<and> js_get ''name'' (the (rq_body (mu_request m2))) = JStr (pj_name p))"
  using assms
  by (auto simp: edit_group_save_def edit_group_fill_def edit_group_dirty_def useUpdateProject_def useProject_def use_mutation_def http_send_def
      use_query_def skey_def prefix_key_def split: if_splits)

definition sample_project :: Project where
  "sample_project = \<lparr>pj_id = ''p'', pj_org_id = ''o'', pj_org_name = None, pj_name = ''lab'', pj_status = None, pj_created_at = None,
     pj_wallet_id = None, pj_member_count = None, pj_default_member_credit = None\<rparr>"

theorem group_edit_reverts_witness:
  "\<exists>m2. edit_group_save sample_project ((edit_group_fill sample_project)\<lparr>eg_status := ''inactive''\<rparr>) = Some m2 \<and>
     js_get ''name'' (the (rq_body (mu_request m2))) = JStr ''lab''"
proof -
  let ?f = "(edit_group_fill sample_project)\<lparr>eg_name := ''lab2''\<rparr>"
  have "\<exists>m. edit_group_save sample_project ?f = Some m"
    by (simp add: edit_group_save_def edit_group_dirty_def sample_project_def edit_group_fill_def trim_def js_space_def)
  then obtain m where "edit_group_save sample_project ?f = Some m" ..
  from group_edit_reverts [where answer = JNull and s = "''inactive''", OF this] show ?thesis
    by (auto simp: sample_project_def trim_def js_space_def)
qed

text \<open>Deactivating asks first, deleting a group or an organization takes its name, and a form sends only a named record; the
  organization filter of the group list is neither counted as a filter nor cleared.\<close>

theorem group_actions_guarded:
  "(toggle_group False p = None \<longleftrightarrow> pj_status p \<noteq> Some ''inactive'') \<and> (toggle_org False o1 = None \<longleftrightarrow> str_or (or_status o1) ''active'' \<noteq> ''inactive'') \<and>
   (delete_group (Some p) typed \<noteq> None \<longleftrightarrow> trim typed = pj_name p) \<and> needsTyping (org_question o1) = (or_name o1 \<noteq> []) \<and>
   (create_group f = None \<longleftrightarrow> new_group_blockers f \<noteq> []) \<and> (create_org name pool = None \<longleftrightarrow> trim name = []) \<and>
   gs_org (clear_groups g) = gs_org g"
  by (auto simp: toggle_group_def toggle_org_def delete_group_def group_typedOk_def needsTyping_def org_question_def create_group_def
      new_group_valid_def new_group_blockers_def create_org_def clear_groups_def Let_def)

end
