(* ===== verification/Catalog_Admin.thy ===== *)
theory Catalog_Admin
  imports Credit_Desk Account_Screens Group_Admin
begin

text \<open>
  Resource settings (\<^verbatim>\<open>features/admin/Resources.tsx\<close>): the price catalogue (offerings), the presets, the resource policies and the
  inbox of quota requests. \<open>ns\<close> writes a number as \<^verbatim>\<open>String(n)\<close> does.
\<close>

section \<open>Offerings\<close>

record catalog_offering =
  co_id :: string
  co_name :: string
  co_class :: string
  co_gpu_model :: "string option"
  co_mem_mb :: "rat option"
  co_cores :: "rat option"
  co_cpu :: "rat option"
  co_mem_gb :: "rat option"
  co_disk_gb :: "rat option"
  co_credit_per_hour :: "string option"
  co_min_cuda :: "string option"
  co_status :: string

definition catalog_offerings :: "catalog_offering list \<Rightarrow> catalog_offering list" where
  "catalog_offerings = filter (\<lambda>o1. co_class o1 \<noteq> ''cpu'')"

definition offering_text :: "catalog_offering \<Rightarrow> string" where
  "offering_text o1 = to_lower (co_name o1 @ '' '' @ str_or (co_gpu_model o1) [])"

definition text_matches :: "('a \<Rightarrow> string) \<Rightarrow> string \<Rightarrow> 'a \<Rightarrow> bool" where
  "text_matches txt query r = (trim query = [] \<or> str_includes (txt r) (to_lower (trim query)))"

definition CATALOG_PAGE :: nat where
  "CATALOG_PAGE = 25"

definition catalog_rows ::
  "(string \<Rightarrow> string \<Rightarrow> int) \<Rightarrow> (jsnum \<Rightarrow> string) \<Rightarrow> (string \<Rightarrow> 'r \<Rightarrow> sort_key) \<Rightarrow> 'r Column list \<Rightarrow> ('r \<Rightarrow> string) \<Rightarrow> string \<Rightarrow> params \<Rightarrow> 'r list \<Rightarrow> 'r list" where
  "catalog_rows coll nn field cols txt pre ps rows =
     (let st = useTableState pre user_defaults ps;
          sorted = sortRows coll nn (filter (text_matches txt (ts_query st)) rows) (sortAccessor field cols (ts_sort st)) (ts_dir st)
      in page_rows CATALOG_PAGE (ts_page st) sorted)"

definition plain_column :: "string \<Rightarrow> 'r Column" where
  "plain_column k = \<lparr>co_key = k, co_sortBy = None, co_sortable = None\<rparr>"

definition offering_columns :: "catalog_offering Column list" where
  "offering_columns =
     map plain_column [''name'', ''gpu_model'', ''spec'', ''resource_class'', ''credit_per_hour'', ''min_cuda'', ''status'', ''actions'']"

definition offering_question :: "catalog_offering \<Rightarrow> confirm_options" where
  "offering_question o1 = \<lparr>cf_consequences = [''admin.resources.consequenceOffering''], cf_confirmText = Some (co_name o1)\<rparr>"

definition delete_offering :: "bool \<Rightarrow> catalog_offering \<Rightarrow> mutation_def option" where
  "delete_offering ok o1 = (if ok then Some (useDeleteOffering (co_id o1)) else None)"

record offering_form =
  of_fname :: string
  of_rc :: string
  of_model :: string
  of_memMb :: string
  of_cores :: string
  of_cph :: string
  of_minCuda :: string

definition offering_init :: offering_form where
  "offering_init = \<lparr>of_fname = [], of_rc = ''gpu'', of_model = ''RTX-4090'', of_memMb = ''8192'', of_cores = ''50'', of_cph = ''120.00'', of_minCuda = []\<rparr>"

definition offering_valid :: "offering_form \<Rightarrow> bool" where
  "offering_valid f = (trim (of_fname f) \<noteq> [] \<and> (of_rc f = ''cpu'' \<or> trim (of_model f) \<noteq> [] \<and> num_pos (js_number (of_memMb f))))"

definition offering_blockers :: "offering_form \<Rightarrow> string list" where
  "offering_blockers f =
     (if trim (of_fname f) = [] then [''common.name''] else []) @
     (if of_rc f \<noteq> ''cpu'' \<and> trim (of_model f) = [] then [''admin.resources.gpuModel''] else []) @
     (if of_rc f \<noteq> ''cpu'' \<and> \<not> num_pos (js_number (of_memMb f)) then [''VRAM(MB)''] else [])"

definition offering_body :: "offering_form \<Rightarrow> js" where
  "offering_body f =
     (if of_rc f = ''cpu''
      then JObj [(''name'', JStr (trim (of_fname f))), (''resource_class'', JStr ''cpu''), (''gpu_model'', JNull), (''gpu_mem_mb'', JNum 0),
             (''gpu_cores'', JNum 0), (''credit_per_hour'', JStr ''0.00'')]
      else JObj [(''name'', JStr (trim (of_fname f))), (''resource_class'', JStr ''gpu''), (''gpu_model'', JStr (trim (of_model f))),
             (''gpu_mem_mb'', num_json (js_number (of_memMb f))), (''gpu_cores'', num_json (js_number (of_cores f))),
             (''credit_per_hour'', JStr (trim (of_cph f))),
             (''min_cuda'', case nonempty (Some (trim (of_minCuda f))) of None \<Rightarrow> JNull | Some c \<Rightarrow> JStr c)])"

definition create_offering :: "offering_form \<Rightarrow> mutation_def option" where
  "create_offering f = (if offering_valid f then Some (useCreateOffering (offering_body f)) else None)"

record offering_edit =
  oe_name :: string
  oe_model :: string
  oe_memMb :: string
  oe_cores :: string
  oe_cpu :: string
  oe_mem :: string
  oe_disk :: string
  oe_cph :: string
  oe_minCuda :: string
  oe_status :: string

definition offering_edit_init :: "(rat \<Rightarrow> string) \<Rightarrow> catalog_offering \<Rightarrow> offering_edit" where
  "offering_edit_init ns o1 =
     \<lparr>oe_name = co_name o1, oe_model = str_or (co_gpu_model o1) [], oe_memMb = ns (opt_else (co_mem_mb o1) 0),
      oe_cores = ns (opt_else (co_cores o1) 0), oe_cpu = ns (opt_else (co_cpu o1) 0), oe_mem = ns (opt_else (co_mem_gb o1) 0),
      oe_disk = ns (opt_else (co_disk_gb o1) 0), oe_cph = str_or (co_credit_per_hour o1) ''0'', oe_minCuda = str_or (co_min_cuda o1) [],
      oe_status = (if co_status o1 = ''inactive'' then ''inactive'' else ''active'')\<rparr>"

definition offering_patch :: "catalog_offering \<Rightarrow> offering_edit \<Rightarrow> (string \<times> js) list" where
  "offering_patch o1 f =
     (if co_class o1 = ''cpu''
      then [(''name'', JStr (trim (oe_name f))), (''cpu'', num_json (js_number (oe_cpu f))), (''mem_gb'', num_json (js_number (oe_mem f))),
            (''disk_gb'', num_json (js_number (oe_disk f))), (''status'', JStr (oe_status f))]
      else [(''name'', JStr (trim (oe_name f))), (''gpu_model'', JStr (trim (oe_model f))), (''gpu_mem_mb'', num_json (js_number (oe_memMb f))),
            (''gpu_cores'', num_json (js_number (oe_cores f))), (''cpu'', num_json (js_number (oe_cpu f))),
            (''mem_gb'', num_json (js_number (oe_mem f))), (''disk_gb'', num_json (js_number (oe_disk f))),
            (''credit_per_hour'', JStr (trim (oe_cph f))), (''status'', JStr (oe_status f)), (''min_cuda'', JStr (trim (oe_minCuda f)))])"

definition save_offering :: "catalog_offering \<Rightarrow> offering_edit \<Rightarrow> mutation_def option" where
  "save_offering o1 f = (if trim (oe_name f) = [] then None else Some (useUpdateOffering (co_id o1) (JObj (offering_patch o1 f))))"

section \<open>Presets\<close>

record preset =
  ps_id :: string
  ps_name :: string
  ps_kind :: string
  ps_cpu :: "rat option"
  ps_mem_gb :: "rat option"
  ps_disk_gb :: "rat option"
  ps_gpu_frac :: "rat option"
  ps_gpu_cores :: "rat option"
  ps_mode :: "string option"

definition preset_text :: "preset \<Rightarrow> string" where
  "preset_text p = to_lower (ps_name p @ '' '' @ ps_kind p)"

definition preset_rows :: "(preset list \<Rightarrow> preset list) \<Rightarrow> string \<Rightarrow> preset list \<Rightarrow> preset list \<times> preset list" where
  "preset_rows ordered query ps =
     (let sorted = ordered (filter (text_matches preset_text query) ps)
      in (filter (\<lambda>p. ps_kind p \<noteq> ''gpu'') sorted, filter (\<lambda>p. ps_kind p = ''gpu'') sorted))"

definition preset_columns :: "preset Column list" where
  "preset_columns = map plain_column [''name'', ''spec'', ''actions'']"

definition preset_sorted :: "(string \<Rightarrow> string \<Rightarrow> int) \<Rightarrow> (jsnum \<Rightarrow> string) \<Rightarrow> (string \<Rightarrow> preset \<Rightarrow> sort_key) \<Rightarrow> params \<Rightarrow> preset list \<Rightarrow> preset list" where
  "preset_sorted coll nn field ps rows =
     (let st = useTableState ''pre'' user_defaults ps in sortRows coll nn rows (sortAccessor field preset_columns (ts_sort st)) (ts_dir st))"

definition preset_question :: "preset \<Rightarrow> confirm_options" where
  "preset_question p = \<lparr>cf_consequences = [''admin.resources.consequencePreset''], cf_confirmText = Some (ps_name p)\<rparr>"

definition delete_preset :: "bool \<Rightarrow> preset \<Rightarrow> mutation_def option" where
  "delete_preset ok p = (if ok then Some (useDeletePreset (ps_id p)) else None)"

record preset_form =
  pr_kind :: string
  pr_name :: string
  pr_cpu :: string
  pr_mem :: string
  pr_disk :: string
  pr_fracPct :: string
  pr_cores :: string
  pr_mode :: string

definition preset_init :: preset_form where
  "preset_init = \<lparr>pr_kind = ''gpu'', pr_name = [], pr_cpu = ''8'', pr_mem = ''64'', pr_disk = ''200'', pr_fracPct = ''25'', pr_cores = ''25'',
     pr_mode = ''fractional''\<rparr>"

fun num_in :: "rat \<Rightarrow> rat \<Rightarrow> jsnum \<Rightarrow> bool" where
  "num_in lo hi (Fin r) = (lo < r \<and> r \<le> hi)"
| "num_in lo hi _ = False"

fun num_at_least :: "rat \<Rightarrow> jsnum \<Rightarrow> bool" where
  "num_at_least lo (Fin r) = (lo \<le> r)"
| "num_at_least lo PosInf = True"
| "num_at_least lo _ = False"

definition preset_valid :: "preset_form \<Rightarrow> bool" where
  "preset_valid f =
     (trim (pr_name f) \<noteq> [] \<and>
      (if pr_kind f = ''compute'' then num_at_least 1 (js_number (pr_cpu f)) \<and> num_at_least 1 (js_number (pr_mem f))
       else num_in 0 100 (js_number (pr_fracPct f))))"

definition preset_blockers :: "preset_form \<Rightarrow> string list" where
  "preset_blockers f =
     (if trim (pr_name f) = [] then [''common.name''] else []) @
     (if pr_kind f = ''compute'' \<and> \<not> num_at_least 1 (js_number (pr_cpu f)) then [''CPU''] else []) @
     (if pr_kind f = ''compute'' \<and> \<not> num_at_least 1 (js_number (pr_mem f)) then [''MEM(GiB)''] else []) @
     (if pr_kind f \<noteq> ''compute'' \<and> \<not> num_in 0 100 (js_number (pr_fracPct f)) then [''admin.resources.gpuFractionBlocker''] else [])"

fun num_div :: "jsnum \<Rightarrow> rat \<Rightarrow> jsnum" where
  "num_div (Fin r) q = Fin (r / q)"
| "num_div x q = x"

definition preset_figures :: "preset_form \<Rightarrow> (string \<times> js) list" where
  "preset_figures f =
     (if pr_kind f = ''compute''
      then [(''cpu'', num_json (js_number (pr_cpu f))), (''mem_gb'', num_json (js_number (pr_mem f))), (''disk_gb'', num_json (js_number (pr_disk f)))]
      else [(''gpu_frac'', num_json (num_div (js_number (pr_fracPct f)) 100)),
            (''gpu_cores'', if pr_mode f = ''exclusive'' then JNum 100 else num_json (js_number (pr_cores f))), (''mode'', JStr (pr_mode f))])"

definition create_preset :: "preset_form \<Rightarrow> mutation_def option" where
  "create_preset f =
     (if preset_valid f then Some (useCreatePreset (JObj ([(''name'', JStr (trim (pr_name f))), (''kind'', JStr (pr_kind f))] @ preset_figures f))) else None)"

text \<open>What the two fields of a card fraction show: both read one hundred and are locked in exclusive mode.\<close>

definition shown_frac :: "preset_form \<Rightarrow> string" where
  "shown_frac f = (if pr_mode f = ''exclusive'' then ''100'' else pr_fracPct f)"

definition shown_cores :: "preset_form \<Rightarrow> string" where
  "shown_cores f = (if pr_mode f = ''exclusive'' then ''100'' else pr_cores f)"

definition edit_preset_init :: "(rat \<Rightarrow> string) \<Rightarrow> preset \<Rightarrow> preset_form" where
  "edit_preset_init ns p =
     \<lparr>pr_kind = ps_kind p, pr_name = ps_name p, pr_cpu = ns (opt_else (ps_cpu p) 0), pr_mem = ns (opt_else (ps_mem_gb p) 0),
      pr_disk = ns (opt_else (ps_disk_gb p) 0), pr_fracPct = ns (of_int (js_round (opt_else (ps_gpu_frac p) 0 * 100))),
      pr_cores = ns (opt_else (ps_gpu_cores p) 0), pr_mode = (if ps_mode p = Some ''exclusive'' then ''exclusive'' else ''fractional'')\<rparr>"

definition save_preset :: "preset \<Rightarrow> preset_form \<Rightarrow> mutation_def option" where
  "save_preset p f =
     (if trim (pr_name f) = [] then None
      else Some (useUpdatePreset (ps_id p)
        (JObj ((''name'', JStr (trim (pr_name f))) #
          (if ps_kind p = ''gpu'' then preset_figures (f\<lparr>pr_kind := ''gpu''\<rparr>) else preset_figures (f\<lparr>pr_kind := ''compute''\<rparr>)))))) "

section \<open>Policies\<close>

datatype policy_field =
    MaxConcurrent | MaxQueued | MaxRuntime | IdleTimeout | LimitCpu | LimitMem | LimitVramGb | LimitCores | LimitStorage | LimitVolume

text \<open>The ceiling each number field is clamped to.\<close>

fun field_max :: "policy_field \<Rightarrow> rat" where
  "field_max MaxConcurrent = 1000"
| "field_max MaxQueued = 1000"
| "field_max MaxRuntime = 43200"
| "field_max IdleTimeout = 604800"
| "field_max LimitCpu = 100000"
| "field_max LimitMem = 1000000"
| "field_max LimitVramGb = 100000"
| "field_max LimitCores = 100000"
| "field_max LimitStorage = 10000000"
| "field_max LimitVolume = 10000000"

record policy =
  pc_id :: string
  pc_scope :: string
  pc_scope_id :: string
  pc_figure :: "policy_field \<Rightarrow> rat"
  pc_vram_mb :: rat
  pc_shared_pool :: "bool option"
  pc_allow_privileged :: "bool option"

text \<open>The state of either form: a text per number field (a \<^verbatim>\<open>useState\<close> each in the source), the two boxes, and the field that has the focus.\<close>

record policy_form =
  pf_text :: "policy_field \<Rightarrow> string"
  pf_sharedPool :: bool
  pf_allowPrivileged :: bool
  pf_focus :: "policy_field option"

fun policy_default :: "policy_field \<Rightarrow> string" where
  "policy_default MaxConcurrent = ''3''"
| "policy_default MaxQueued = ''5''"
| "policy_default MaxRuntime = ''1440''"
| "policy_default IdleTimeout = ''1800''"
| "policy_default LimitCpu = ''16''"
| "policy_default LimitMem = ''128''"
| "policy_default LimitVramGb = ''48''"
| "policy_default LimitCores = ''300''"
| "policy_default LimitStorage = ''500''"
| "policy_default LimitVolume = ''500''"

definition policy_new_init :: policy_form where
  "policy_new_init = \<lparr>pf_text = policy_default, pf_sharedPool = True, pf_allowPrivileged = False, pf_focus = None\<rparr>"

text \<open>The video memory is stored in megabytes and edited in gigabytes, with one decimal.\<close>

definition vram_gb :: "rat \<Rightarrow> rat" where
  "vram_gb mb = of_int (js_round (mb / 1024 * 10)) / 10"

definition policy_edit_init :: "(rat \<Rightarrow> string) \<Rightarrow> policy \<Rightarrow> policy_form" where
  "policy_edit_init ns p =
     \<lparr>pf_text = (\<lambda>fd. ns (if fd = LimitVramGb then vram_gb (pc_vram_mb p) else pc_figure p fd)),
      pf_sharedPool = (pc_shared_pool p \<noteq> Some False), pf_allowPrivileged = (pc_allow_privileged p = Some True), pf_focus = None\<rparr>"

text \<open>Leaving a field clamps it; entering another one leaves the first.\<close>

definition leave_field :: "(rat \<Rightarrow> string) \<Rightarrow> policy_form \<Rightarrow> policy_form" where
  "leave_field ns f =
     (case pf_focus f of
        None \<Rightarrow> f
      | Some fd \<Rightarrow> f\<lparr>pf_text := (pf_text f)(fd := blur_text ns (field_max fd) (pf_text f fd)), pf_focus := None\<rparr>)"

inductive policy_step :: "(rat \<Rightarrow> string) \<Rightarrow> policy_form \<Rightarrow> policy_form \<Rightarrow> bool" for ns where
  policy_focus: "policy_step ns f ((leave_field ns f)\<lparr>pf_focus := Some fd\<rparr>)"
| policy_type: "pf_focus f = Some fd \<Longrightarrow> policy_step ns f (f\<lparr>pf_text := (pf_text f)(fd := v)\<rparr>)"
| policy_leave: "policy_step ns f (leave_field ns f)"
| policy_pool: "policy_step ns f ((leave_field ns f)\<lparr>pf_sharedPool := b\<rparr>)"
| policy_root: "policy_step ns f ((leave_field ns f)\<lparr>pf_allowPrivileged := b\<rparr>)"

fun num_mb :: "jsnum \<Rightarrow> jsnum" where
  "num_mb (Fin r) = Fin (of_int (js_round (r * 1024)))"
| "num_mb x = x"

definition policy_number :: "policy_form \<Rightarrow> policy_field \<Rightarrow> jsnum" where
  "policy_number f fd = (if fd = LimitVramGb then num_mb (js_number (pf_text f fd)) else js_number (pf_text f fd))"

definition policy_figures :: "policy_form \<Rightarrow> (string \<times> js) list" where
  "policy_figures f =
     (let n = (\<lambda>fd. num_json (policy_number f fd)) in
      [(''max_concurrent'', n MaxConcurrent), (''max_queued'', n MaxQueued), (''max_runtime_min'', n MaxRuntime), (''idle_timeout_sec'', n IdleTimeout),
       (''limits'', JObj [(''cpu'', n LimitCpu), (''mem_gb'', n LimitMem), (''gpu_mem_mb'', n LimitVramGb), (''gpu_cores'', n LimitCores),
          (''storage_gb'', n LimitStorage), (''volume_gb'', n LimitVolume), (''shared_pool'', JBool (pf_sharedPool f)),
          (''allow_privileged'', JBool (pf_allowPrivileged f))])])"

definition save_policy :: "policy \<Rightarrow> policy_form \<Rightarrow> mutation_def" where
  "save_policy p f = useUpdatePolicy (pc_id p) (JObj (policy_figures f))"

text \<open>The target of a new policy; the lists of organizations, groups and users carry an id and a label.\<close>

record policy_targets =
  pt_orgs :: "(string \<times> string) list"
  pt_groups :: "(string \<times> string) list"
  pt_users :: "(string \<times> string) list"

definition scope_targets :: "policy_targets \<Rightarrow> string \<Rightarrow> (string \<times> string) list" where
  "scope_targets ts scope =
     (if scope = ''org'' then pt_orgs ts else if scope = ''group'' then pt_groups ts else if scope = ''user'' then pt_users ts else [])"

definition effScopeId :: "policy_targets \<Rightarrow> string \<times> string \<Rightarrow> string" where
  "effScopeId ts t =
     (if fst t = ''global'' then ''*''
      else str_or (nonempty (Some (snd t))) (case scope_targets ts (fst t) of [] \<Rightarrow> [] | x # _ \<Rightarrow> fst x))"

inductive target_step :: "policy_targets \<Rightarrow> string \<times> string \<Rightarrow> string \<times> string \<Rightarrow> bool" for ts where
  target_scope: "sc \<in> {''global'', ''org'', ''group'', ''user''} \<Longrightarrow> target_step ts t (sc, [])"
| target_pick: "i \<in> fst ` set (scope_targets ts scope) \<Longrightarrow> target_step ts (scope, j) (scope, i)"

definition policy_valid :: "policy_targets \<Rightarrow> string \<times> string \<Rightarrow> bool" where
  "policy_valid ts t = (fst t = ''global'' \<or> effScopeId ts t \<noteq> [])"

definition create_policy :: "policy_targets \<Rightarrow> string \<times> string \<Rightarrow> policy_form \<Rightarrow> mutation_def option" where
  "create_policy ts t f =
     (if policy_valid ts t
      then Some (useCreatePolicy (JObj ([(''scope'', JStr (fst t)), (''scope_id'', JStr (effScopeId ts t))] @ policy_figures f))) else None)"

definition policyConflictMessage :: "api_error \<Rightarrow> string \<Rightarrow> string option" where
  "policyConflictMessage e scope =
     (if ae_code e \<noteq> JStr ''conflict'' then None
      else Some (if scope = ''org'' then ''admin.resources.policyExistsOrg'' else if scope = ''group'' then ''admin.resources.policyExistsGroup''
                 else if scope = ''user'' then ''admin.resources.policyExistsUser'' else ''admin.resources.policyExistsGlobal''))"

text \<open>The label of a policy's target: a group is named with its organization where that is known.\<close>

definition targetLabel :: "policy_targets \<Rightarrow> (string \<Rightarrow> string option) \<Rightarrow> policy \<Rightarrow> string option" where
  "targetLabel ts org_of p =
     (if pc_scope p = ''org'' then map_of (pt_orgs ts) (pc_scope_id p)
      else if pc_scope p = ''group'' then
        (case map_of (pt_groups ts) (pc_scope_id p) of
           None \<Rightarrow> None
         | Some g \<Rightarrow> Some (case Option.bind (org_of (pc_scope_id p)) (map_of (pt_orgs ts)) of None \<Rightarrow> g | Some o1 \<Rightarrow> o1 @ '' / '' @ g))
      else if pc_scope p = ''user'' then map_of (pt_users ts) (pc_scope_id p) else None)"

definition policy_text :: "policy \<Rightarrow> string" where
  "policy_text p = to_lower (pc_scope p @ '' '' @ pc_scope_id p)"

definition policy_question :: "string \<Rightarrow> policy \<Rightarrow> confirm_options" where
  "policy_question globalName p =
     \<lparr>cf_consequences = [if pc_scope p = ''global'' then ''admin.resources.consequenceGlobalPolicy'' else ''admin.resources.consequencePolicy''],
      cf_confirmText = (if pc_scope p = ''global'' then Some globalName else None)\<rparr>"

definition delete_policy :: "bool \<Rightarrow> policy \<Rightarrow> mutation_def option" where
  "delete_policy ok p = (if ok then Some (useDeletePolicy (pc_id p)) else None)"

definition policies_view :: "params \<Rightarrow> string" where
  "policies_view ps = (if usp_get ''view'' ps = Some ''requests'' then ''requests'' else ''policies'')"

section \<open>Quota requests\<close>

record quota_row =
  qr_id :: string
  qr_cpu :: "rat option"
  qr_mem_gb :: "rat option"
  qr_storage_gb :: "rat option"
  qr_gpu_mem_mb :: "rat option"
  qr_gpu_cores :: "rat option"
  qr_status :: string

definition quota_line :: "(rat \<Rightarrow> string) \<Rightarrow> quota_row \<Rightarrow> string" where
  "quota_line ns r =
     join mid_dot (concat [
       (case qr_cpu r of None \<Rightarrow> [] | Some c \<Rightarrow> [''CPU '' @ ns c]),
       (case qr_mem_gb r of None \<Rightarrow> [] | Some m \<Rightarrow> [''MEM '' @ ns m @ ''GiB'']),
       (case qr_storage_gb r of None \<Rightarrow> [] | Some d \<Rightarrow> [''DISK '' @ ns d @ ''GB''])])"

definition pendingCount :: "quota_row list \<Rightarrow> nat" where
  "pendingCount rows = length (filter (\<lambda>r. qr_status r = ''pending'') rows)"

definition onApproveQuota :: "quota_row \<Rightarrow> mutation_def" where
  "onApproveQuota r = useDecideResourceRequest (qr_id r) True None"

definition onRejectQuota :: "string option \<Rightarrow> quota_row \<Rightarrow> mutation_def option" where
  "onRejectQuota reason r = map_option (\<lambda>x. useDecideResourceRequest (qr_id r) False (Some x)) reason"

section \<open>What resource settings guarantee\<close>

lemma field_max_decimal: "decimal (field_max fd)"
proof -
  have "field_max fd = of_nat (nat \<lfloor>field_max fd\<rfloor>)" by (cases fd) simp_all
  then show ?thesis using decimal_nat [of "nat \<lfloor>field_max fd\<rfloor>"] by metis
qed

definition field_ok :: "policy_form \<Rightarrow> policy_field \<Rightarrow> bool" where
  "field_ok f fd = (\<exists>r. js_number (pf_text f fd) = Fin r \<and> 0 \<le> r \<and> r \<le> field_max fd)"

text \<open>The stored figure a field of the edit form starts from.\<close>

definition stored_figure :: "policy \<Rightarrow> policy_field \<Rightarrow> rat" where
  "stored_figure p fd = (if fd = LimitVramGb then vram_gb (pc_vram_mb p) else pc_figure p fd)"

text \<open>Relative to the form as it was opened (\<open>f0\<close>): a field without the focus is in range, or still shows what it showed then.\<close>

definition policy_inv :: "policy_form \<Rightarrow> policy_form \<Rightarrow> bool" where
  "policy_inv f0 f = (\<forall>fd. pf_focus f \<noteq> Some fd \<longrightarrow> field_ok f fd \<or> pf_text f fd = pf_text f0 fd)"

lemma field_max_nonneg: "0 \<le> field_max fd"
  by (cases fd) simp_all

lemma blur_in_range:
  assumes "reads_back ns"
  shows "js_number (blur_text ns (field_max fd) v) = Fin (clamp_num (field_max fd) (js_number v))"
  using blur_reads [OF assms field_max_decimal] .

lemma leave_field_ok:
  assumes "reads_back ns" and "policy_inv f0 f"
  shows "field_ok (leave_field ns f) fd \<or> pf_text (leave_field ns f) fd = pf_text f0 fd"
  using assms(2) blur_in_range [OF assms(1)] clamp_bounds [OF field_max_nonneg]
  by (auto simp: leave_field_def policy_inv_def field_ok_def split: option.splits)

lemma policy_inv_step:
  assumes "reads_back ns" and "policy_inv f0 f" and "policy_step ns f g"
  shows "policy_inv f0 g"
proof -
  have left: "\<forall>fd. field_ok (leave_field ns f) fd \<or> pf_text (leave_field ns f) fd = pf_text f0 fd"
    using leave_field_ok [OF assms(1,2)] by blast
  show ?thesis using assms(3) by cases (use left assms(2) in \<open>auto simp: policy_inv_def field_ok_def\<close>)
qed

lemma show_literals:
  "show_nat 3 = ''3''"
  "show_nat 5 = ''5''"
  "show_nat 1440 = ''1440''"
  "show_nat 1800 = ''1800''"
  "show_nat 16 = ''16''"
  "show_nat 128 = ''128''"
  "show_nat 48 = ''48''"
  "show_nat 300 = ''300''"
  "show_nat 500 = ''500''"
  by code_simp+

lemma number_literals:
  "js_number ''3'' = Fin 3"
  "js_number ''5'' = Fin 5"
  "js_number ''1440'' = Fin 1440"
  "js_number ''1800'' = Fin 1800"
  "js_number ''16'' = Fin 16"
  "js_number ''128'' = Fin 128"
  "js_number ''48'' = Fin 48"
  "js_number ''300'' = Fin 300"
  "js_number ''500'' = Fin 500"
  subgoal using js_number_show_nat [of 3] by (simp only: show_literals of_nat_numeral)
  subgoal using js_number_show_nat [of 5] by (simp only: show_literals of_nat_numeral)
  subgoal using js_number_show_nat [of 1440] by (simp only: show_literals of_nat_numeral)
  subgoal using js_number_show_nat [of 1800] by (simp only: show_literals of_nat_numeral)
  subgoal using js_number_show_nat [of 16] by (simp only: show_literals of_nat_numeral)
  subgoal using js_number_show_nat [of 128] by (simp only: show_literals of_nat_numeral)
  subgoal using js_number_show_nat [of 48] by (simp only: show_literals of_nat_numeral)
  subgoal using js_number_show_nat [of 300] by (simp only: show_literals of_nat_numeral)
  subgoal using js_number_show_nat [of 500] by (simp only: show_literals of_nat_numeral)
  done

lemma default_ok: "field_ok policy_new_init fd"
  by (cases fd) (simp_all add: field_ok_def policy_new_init_def number_literals)

interpretation policy_forms: inductive_invariant f0 "policy_step ns" "\<lambda>f. reads_back ns \<longrightarrow> policy_inv f0 f" for f0 ns
proof
  show "reads_back ns \<longrightarrow> policy_inv f0 f0" by (simp add: policy_inv_def)
qed (use policy_inv_step in blast)

lemma stored_ok:
  assumes "reads_back ns" and "decimal (stored_figure p fd)" and "stored_figure p fd \<le> field_max fd"
    and "pf_text f fd = pf_text (policy_edit_init ns p) fd"
  shows "field_ok f fd"
  using assms decimal_nonneg [OF assms(2)]
  by (simp add: field_ok_def policy_edit_init_def reads_back_def stored_figure_def split: if_splits)

lemma policy_number_ok:
  assumes "field_ok f fd"
  shows "\<exists>r. policy_number f fd = Fin r \<and> 0 \<le> r \<and> r \<le> (if fd = LimitVramGb then 1024 * field_max fd else field_max fd)"
proof -
  obtain r where r: "js_number (pf_text f fd) = Fin r" "0 \<le> r" "r \<le> field_max fd" using assms by (auto simp: field_ok_def)
  show ?thesis
  proof (cases "fd = LimitVramGb")
    case True
    have "0 \<le> js_round (r * 1024)" using r(2) by (simp add: js_round_def)
    moreover have "js_round (r * 1024) \<le> 102400000"
      using r(3) True by (simp add: js_round_def floor_le_iff)
    ultimately show ?thesis using r True by (simp add: policy_number_def)
  qed (use r in \<open>simp add: policy_number_def\<close>)
qed

text \<open>C18: What the two policy forms send. Whatever was typed, in whatever order, a field that does not have the focus sends a
  number between zero and the ceiling of that field: leaving a field replaces its text by the nearest value in the range,
  and nothing that is not a number survives. The one exception is a field of the edit form that was never changed: a stored
  figure outside the range is shown as it is and sent back as it is, 5000 queued sessions included.\<close>

theorem policy_figures_bounded:
  assumes "reads_back ns" and "f0 = policy_new_init \<or> f0 = policy_edit_init ns p"
    and "reach f0 (policy_step ns) f" and "pf_focus f \<noteq> Some fd"
  shows "((\<exists>r. policy_number f fd = Fin r \<and> 0 \<le> r \<and> r \<le> (if fd = LimitVramGb then 1024 * field_max fd else field_max fd)) \<or>
          (f0 = policy_edit_init ns p \<and> pf_text f fd = ns (stored_figure p fd) \<and>
           \<not> (decimal (stored_figure p fd) \<and> stored_figure p fd \<le> field_max fd))) \<and>
         (pc_figure q MaxQueued = 5000 \<longrightarrow> policy_number (policy_edit_init ns q) MaxQueued = Fin 5000)"
proof
  have held: "field_ok f fd \<or> pf_text f fd = pf_text f0 fd"
    using policy_forms.inv_reach [OF assms(3)] assms(1,4) by (auto simp: policy_inv_def)
  show "(\<exists>r. policy_number f fd = Fin r \<and> 0 \<le> r \<and> r \<le> (if fd = LimitVramGb then 1024 * field_max fd else field_max fd)) \<or>
          (f0 = policy_edit_init ns p \<and> pf_text f fd = ns (stored_figure p fd) \<and>
           \<not> (decimal (stored_figure p fd) \<and> stored_figure p fd \<le> field_max fd))"
  proof (cases "field_ok f fd")
    case False
    then have same: "pf_text f fd = pf_text f0 fd" using held by simp
    then have "f0 \<noteq> policy_new_init" using False default_ok [of fd] by (auto simp: field_ok_def)
    then have "f0 = policy_edit_init ns p" using assms(2) by simp
    moreover have "pf_text f fd = ns (stored_figure p fd)"
      using same calculation by (simp add: policy_edit_init_def stored_figure_def)
    moreover have "\<not> (decimal (stored_figure p fd) \<and> stored_figure p fd \<le> field_max fd)"
      using stored_ok [OF assms(1)] False same calculation(1) by blast
    ultimately show ?thesis by blast
  qed (use policy_number_ok in blast)
  have "decimal 5000" using decimal_nat [of 5000] by simp
  then show "pc_figure q MaxQueued = 5000 \<longrightarrow> policy_number (policy_edit_init ns q) MaxQueued = Fin 5000"
    using assms(1) by (simp add: policy_number_def policy_edit_init_def reads_back_def)
qed

text \<open>The creation form in which 5000 was typed into the queue limit and the field left; and an edit form left untouched.\<close>

definition typed_queue :: "(rat \<Rightarrow> string) \<Rightarrow> policy_form" where
  "typed_queue ns =
     leave_field ns (policy_new_init\<lparr>pf_focus := Some MaxQueued, pf_text := (pf_text policy_new_init)(MaxQueued := ''5000'')\<rparr>)"

lemma reach_typed_queue: "reach policy_new_init (policy_step ns) (typed_queue ns)"
proof -
  let ?f = "policy_new_init\<lparr>pf_focus := Some MaxQueued\<rparr>"
  have "leave_field ns policy_new_init = policy_new_init" by (simp add: leave_field_def policy_new_init_def)
  then have a: "policy_step ns policy_new_init ?f" using policy_focus [of ns policy_new_init MaxQueued] by simp
  have b: "policy_step ns ?f (?f\<lparr>pf_text := (pf_text ?f)(MaxQueued := ''5000'')\<rparr>)" by (rule policy_type) simp
  have "policy_step ns (?f\<lparr>pf_text := (pf_text ?f)(MaxQueued := ''5000'')\<rparr>) (typed_queue ns)"
    using policy_leave [of ns "?f\<lparr>pf_text := (pf_text ?f)(MaxQueued := ''5000'')\<rparr>"] by (simp add: typed_queue_def)
  then show ?thesis using a b by (blast intro: reach_init reach_step)
qed

theorem policy_figures_bounded_witness:
  "(\<exists>r. policy_number (typed_queue write_decimal) MaxQueued = Fin r \<and> 0 \<le> r \<and> r \<le> 1000) \<and>
   policy_number (policy_edit_init write_decimal \<lparr>pc_id = ''p'', pc_scope = ''global'', pc_scope_id = ''*'',
     pc_figure = \<lambda>_. 5000, pc_vram_mb = 0, pc_shared_pool = None, pc_allow_privileged = None\<rparr>) MaxQueued = Fin 5000"
proof -
  have differ: "policy_new_init \<noteq> policy_edit_init write_decimal p" if "pc_shared_pool p = Some False" for p
    using that by (simp add: policy_new_init_def policy_edit_init_def)
  let ?p = "\<lparr>pc_id = ''p'', pc_scope = ''global'', pc_scope_id = ''*'', pc_figure = \<lambda>_. 5000, pc_vram_mb = 0,
     pc_shared_pool = Some False, pc_allow_privileged = None\<rparr>"
  have "pf_focus (typed_queue write_decimal) \<noteq> Some MaxQueued" by (simp add: typed_queue_def leave_field_def policy_new_init_def)
  then show ?thesis
    using policy_figures_bounded [OF reads_back_decimal disjI1 [OF refl] reach_typed_queue, of MaxQueued ?p
        "\<lparr>pc_id = ''p'', pc_scope = ''global'', pc_scope_id = ''*'', pc_figure = \<lambda>_. 5000, pc_vram_mb = 0,
          pc_shared_pool = None, pc_allow_privileged = None\<rparr>"] differ [of ?p]
    by simp
qed

text \<open>The field that has the focus is not clamped when the form is sent with the Enter key: a negative limit typed last is sent as it
  stands.\<close>

theorem enter_sends_unclamped:
  "\<exists>f. reach policy_new_init (policy_step ns) f \<and> policy_number f LimitCpu = Fin (- 5)"
proof -
  let ?f = "policy_new_init\<lparr>pf_focus := Some LimitCpu\<rparr>"
  let ?g = "?f\<lparr>pf_text := (pf_text ?f)(LimitCpu := ''-5'')\<rparr>"
  have "leave_field ns policy_new_init = policy_new_init" by (simp add: leave_field_def policy_new_init_def)
  then have a: "policy_step ns policy_new_init ?f" using policy_focus [of ns policy_new_init LimitCpu] by simp
  have b: "policy_step ns ?f ?g" by (rule policy_type) simp
  have "reach policy_new_init (policy_step ns) ?g" using a b by (blast intro: reach_init reach_step)
  moreover have "js_number ''-5'' = Fin (- 5)" by code_simp
  then have "policy_number ?g LimitCpu = Fin (- 5)" by (simp add: policy_number_def)
  ultimately show ?thesis by blast
qed

text \<open>Saving a policy that was opened and not touched moves its video memory by at most fifty-one megabytes, and not at all when it is
  a multiple of half a gigabyte; one thousand megabytes become one thousand and twenty-four.\<close>

theorem policy_vram_drift:
  assumes "reads_back ns" and "pc_vram_mb p = of_nat n"
  shows "\<exists>k :: int. policy_number (policy_edit_init ns p) LimitVramGb = Fin (of_int k) \<and> \<bar>k - int n\<bar> \<le> 51 \<and>
     (512 dvd n \<longrightarrow> k = int n) \<and> (n = 1000 \<longrightarrow> k = 1024)"
proof -
  define j where "j = js_round (of_nat n / 1024 * 10)"
  define k where "k = js_round (of_int j / 10 * 1024)"
  have j0: "0 \<le> j" by (simp add: j_def js_round_def)
  have "decimal (of_int j / 10)"
    unfolding decimal_def using j0 by (intro exI [of _ "nat j"] exI [of _ 1]) simp
  then have read: "js_number (ns (of_int j / 10)) = Fin (of_int j / 10)" using assms(1) by (simp add: reads_back_def)
  then have num: "policy_number (policy_edit_init ns p) LimitVramGb = Fin (of_int k)"
    using assms(2) by (simp add: policy_number_def policy_edit_init_def vram_gb_def j_def k_def)
  have "of_int j \<le> (of_nat n / 1024 * 10 :: rat) + 1 / 2" "(of_nat n / 1024 * 10 :: rat) + 1 / 2 < of_int j + 1"
    unfolding j_def js_round_def by linarith+
  moreover have "of_int k \<le> (of_int j / 10 * 1024 :: rat) + 1 / 2" "(of_int j / 10 * 1024 :: rat) + 1 / 2 < of_int k + 1"
    unfolding k_def js_round_def by linarith+
  ultimately have "of_int (k - int n) < (52 :: rat)" "of_int (int n - k) < (52 :: rat)" by simp_all
  then have bound: "\<bar>k - int n\<bar> \<le> 51" by (simp only: of_int_less_numeral_iff)
  have exact: "k = int n" if "512 dvd n"
  proof -
    from that obtain q where q: "n = 512 * q" by (auto simp: dvd_def)
    have "(of_nat n / 1024 * 10 :: rat) = of_int (5 * int q)" by (simp add: q)
    then have "j = 5 * int q" unfolding j_def by (simp only: js_round_of_int)
    then have "(of_int j / 10 * 1024 :: rat) = of_int (int n)" by (simp add: q)
    then show ?thesis unfolding k_def by (simp only: js_round_of_int)
  qed
  have "k = 1024" if "n = 1000"
  proof -
    have "j = 10" by (simp add: j_def js_round_def that floor_eq_iff)
    then show ?thesis by (simp add: k_def js_round_def floor_eq_iff)
  qed
  then show ?thesis using num bound exact by blast
qed

definition thousand_mb :: policy where
  "thousand_mb = \<lparr>pc_id = ''p'', pc_scope = ''user'', pc_scope_id = ''u'', pc_figure = (\<lambda>_. 0), pc_vram_mb = 1000, pc_shared_pool = None, pc_allow_privileged = None\<rparr>"

theorem policy_vram_drift_witness: "policy_number (policy_edit_init write_decimal thousand_mb) LimitVramGb = Fin 1024"
  using policy_vram_drift [OF reads_back_decimal, of thousand_mb 1000] by (auto simp: thousand_mb_def)

text \<open>C38: Opening a preset and saving it keeps its card fraction exactly when that is a whole number of percent; any other fraction, such as
  an eighth, is replaced by the nearest percent.\<close>

theorem preset_fraction_roundtrip:
  assumes "reads_back ns" and "ps_kind p = ''gpu''" and "ps_gpu_frac p = Some q" and "0 \<le> q"
    and "save_preset p (edit_preset_init ns p) = Some m"
  shows "js_get ''gpu_frac'' (the (rq_body (mu_request m))) = JNum q \<longleftrightarrow> q * 100 \<in> \<int>"
proof -
  define k where "k = js_round (q * 100)"
  have "0 \<le> k" using assms(4) by (simp add: k_def js_round_def)
  then have "decimal (of_int k)" using decimal_nat [of "nat k"] by simp
  then have "js_number (ns (of_int k)) = Fin (of_int k)" using assms(1) by (simp add: reads_back_def)
  then have sent: "js_get ''gpu_frac'' (the (rq_body (mu_request m))) = JNum (of_int k / 100)"
    using assms(2,3,5)
    by (auto simp: save_preset_def edit_preset_init_def preset_figures_def useUpdatePreset_def use_mutation_def http_send_def k_def split: if_splits)
  have "of_int k / 100 = q \<longleftrightarrow> q * 100 = of_int k" by (auto simp: field_simps)
  moreover have "q * 100 = of_int k" if "q * 100 \<in> \<int>"
  proof -
    from that obtain z where "q * 100 = of_int z" by (auto elim: Ints_cases)
    then show ?thesis by (simp add: k_def js_round_of_int)
  qed
  ultimately show ?thesis using sent by (auto simp: Ints_def)
qed

definition eighth_preset :: preset where
  "eighth_preset = \<lparr>ps_id = ''e'', ps_name = ''S'', ps_kind = ''gpu'', ps_cpu = None, ps_mem_gb = None, ps_disk_gb = None,
     ps_gpu_frac = Some (1 / 8), ps_gpu_cores = Some 12, ps_mode = Some ''fractional''\<rparr>"

theorem preset_fraction_roundtrip_witness:
  "\<exists>m. save_preset eighth_preset (edit_preset_init write_decimal eighth_preset) = Some m \<and>
     js_get ''gpu_frac'' (the (rq_body (mu_request m))) \<noteq> JNum (1 / 8)"
proof -
  have "trim ''S'' \<noteq> []" by (simp add: trim_def js_space_def)
  then obtain m where m: "save_preset eighth_preset (edit_preset_init write_decimal eighth_preset) = Some m"
    by (simp add: save_preset_def edit_preset_init_def eighth_preset_def)
  have "(25 / 2 :: rat) \<notin> \<int>"
  proof
    assume "(25 / 2 :: rat) \<in> \<int>"
    then obtain z where "(25 / 2 :: rat) = of_int z" by (auto elim: Ints_cases)
    then have "of_int (2 * z) = (25 :: rat)" by simp
    then have "2 * z = 25" by (simp only: of_int_eq_numeral_iff)
    then show False by presburger
  qed
  with m preset_fraction_roundtrip [OF reads_back_decimal _ _ _ m, of "1 / 8"] show ?thesis
    by (simp add: eighth_preset_def)
qed

text \<open>An exclusive preset does not carry what its form shows. In exclusive mode the fraction field reads one hundred and is locked, but
  the percentage typed before is what is sent: with the defaults, an exclusive preset of a quarter of a card.\<close>

theorem exclusive_preset_sends_fraction:
  assumes "create_preset f = Some m" and "pr_kind f = ''gpu''" and "pr_mode f = ''exclusive''"
  shows "shown_frac f = ''100'' \<and> shown_cores f = ''100'' \<and> js_get ''gpu_cores'' (the (rq_body (mu_request m))) = JNum 100 \<and>
     (\<exists>r. js_number (pr_fracPct f) = Fin r \<and> 0 < r \<and> r \<le> 100 \<and> js_get ''gpu_frac'' (the (rq_body (mu_request m))) = JNum (r / 100))"
proof -
  have "num_in 0 100 (js_number (pr_fracPct f))" using assms(1,2) by (auto simp: create_preset_def preset_valid_def split: if_splits)
  then obtain r where "js_number (pr_fracPct f) = Fin r" "0 < r" "r \<le> 100" by (cases "js_number (pr_fracPct f)") auto
  then show ?thesis using assms
    by (auto simp: create_preset_def preset_figures_def shown_frac_def shown_cores_def useCreatePreset_def use_mutation_def http_send_def split: if_splits)
qed

theorem exclusive_preset_sends_fraction_witness:
  "\<exists>m. create_preset (preset_init\<lparr>pr_name := ''XL'', pr_mode := ''exclusive''\<rparr>) = Some m \<and>
     js_get ''gpu_frac'' (the (rq_body (mu_request m))) = JNum (1 / 4)"
proof -
  let ?f = "preset_init\<lparr>pr_name := ''XL'', pr_mode := ''exclusive''\<rparr>"
  have n: "js_number ''25'' = Fin 25" by code_simp
  have "trim ''XL'' \<noteq> []" by (simp add: trim_def js_space_def)
  then obtain m where m: "create_preset ?f = Some m" by (simp add: create_preset_def preset_valid_def preset_init_def n)
  show ?thesis using exclusive_preset_sends_fraction [OF m] m by (auto simp: preset_init_def n)
qed

definition target_inv :: "policy_targets \<Rightarrow> string \<times> string \<Rightarrow> bool" where
  "target_inv ts t = (fst t \<in> {''global'', ''org'', ''group'', ''user''} \<and> (snd t = [] \<or> snd t \<in> fst ` set (scope_targets ts (fst t))))"

interpretation policy_target: inductive_invariant "(''group'', [])" "target_step ts" "target_inv ts" for ts
proof
  show "target_inv ts (''group'', [])" by (simp add: target_inv_def)
  show "target_inv ts u" if "target_inv ts t" "target_step ts t u" for t u
    using that(2,1) by cases (auto simp: target_inv_def)
qed

text \<open>A policy is created for a target of the chosen scope: the global one for the star, every other for an entry of the list that
  scope offers. The form refuses exactly when there is no such entry.\<close>

theorem policy_target_sound:
  assumes "reach (''group'', []) (target_step ts) t" and "list_all (\<lambda>x. fst x \<noteq> []) (scope_targets ts (fst t))"
  shows "(create_policy ts t f = None \<longleftrightarrow> fst t \<noteq> ''global'' \<and> scope_targets ts (fst t) = []) \<and>
     (if fst t = ''global'' then effScopeId ts t = ''*''
      else scope_targets ts (fst t) \<noteq> [] \<longrightarrow> effScopeId ts t \<in> fst ` set (scope_targets ts (fst t)))"
proof -
  have "target_inv ts t" using policy_target.inv_reach assms(1) .
  then show ?thesis
    using assms(2) by (cases "scope_targets ts (fst t)") (auto simp: target_inv_def create_policy_def policy_valid_def effScopeId_def nonempty_def)
qed

theorem policy_target_sound_witness:
  "create_policy \<lparr>pt_orgs = [], pt_groups = [(''g'', ''lab'')], pt_users = []\<rparr> (''group'', []) policy_new_init \<noteq> None"
  using policy_target_sound [OF reach_init, of "\<lparr>pt_orgs = [], pt_groups = [(''g'', ''lab'')], pt_users = []\<rparr>" policy_new_init]
  by (simp add: scope_targets_def)

text \<open>The inbox of quota requests does not show what it approves: the line of a request is the same whatever video memory and cores
  it asks for, and one that asks for nothing else has an empty line.\<close>

theorem quota_line_hides_gpu:
  "quota_line ns (r\<lparr>qr_gpu_mem_mb := a, qr_gpu_cores := b\<rparr>) = quota_line ns r \<and>
   quota_line ns \<lparr>qr_id = i, qr_cpu = None, qr_mem_gb = None, qr_storage_gb = None, qr_gpu_mem_mb = a, qr_gpu_cores = b, qr_status = st\<rparr> = [] \<and>
   mu_request (onApproveQuota (r\<lparr>qr_gpu_mem_mb := a, qr_gpu_cores := b\<rparr>)) = mu_request (onApproveQuota r)"
  by (simp add: quota_line_def onApproveQuota_def)

text \<open>The two preset tables split the matching presets: each is in exactly one of them, in the chosen order, and none is lost. The
  catalogue lists no CPU offering, so one created with the form never appears there and can be neither edited nor deleted.\<close>

theorem catalogue_shows:
  "mset (fst (preset_rows (preset_sorted coll nn field ps) q rows)) + mset (snd (preset_rows (preset_sorted coll nn field ps) q rows)) =
     mset (filter (text_matches preset_text q) rows) \<and>
   (of_rc f = ''cpu'' \<and> offering_valid f \<longrightarrow>
      (\<exists>m. create_offering f = Some m \<and> js_get ''resource_class'' (the (rq_body (mu_request m))) = JStr ''cpu'')) \<and>
   list_all (\<lambda>o1. co_class o1 \<noteq> ''cpu'') (catalog_offerings os)"
proof -
  have "mset (preset_sorted coll nn field ps xs) = mset xs" for xs
    by (auto simp: preset_sorted_def sortRows_def Let_def split: option.splits)
  moreover have "mset (filter (\<lambda>p. ps_kind p \<noteq> ''gpu'') xs) + mset (filter (\<lambda>p. ps_kind p = ''gpu'') xs) = mset xs" for xs
    by (induction xs) auto
  ultimately show ?thesis
    by (auto simp: preset_rows_def Let_def create_offering_def offering_body_def useCreateOffering_def use_mutation_def http_send_def
        catalog_offerings_def list_all_iff)
qed

theorem catalogue_shows_witness:
  "\<exists>m. create_offering (offering_init\<lparr>of_fname := ''host'', of_rc := ''cpu''\<rparr>) = Some m"
  using catalogue_shows [where f = "offering_init\<lparr>of_fname := ''host'', of_rc := ''cpu''\<rparr>" and rows = "[]" and os = "[]" and q = "[]" and ps = "[]"
      and coll = "\<lambda>_ _. 0" and nn = "\<lambda>_. []" and field = "\<lambda>_ _. KNull"]
  by (auto simp: offering_valid_def trim_def js_space_def)

text \<open>Each form names what is missing exactly when its button is disabled, and an administrator who deletes an offering, a preset or the
  global policy types a name first; any other policy takes one confirmation.\<close>

theorem catalogue_forms_explain:
  "(create_offering f = None \<longleftrightarrow> offering_blockers f \<noteq> []) \<and> (create_preset g = None \<longleftrightarrow> preset_blockers g \<noteq> []) \<and>
   (save_preset p g = None \<longleftrightarrow> trim (pr_name g) = []) \<and> (save_offering o1 e = None \<longleftrightarrow> trim (oe_name e) = []) \<and>
   needsTyping (offering_question o1) = (co_name o1 \<noteq> []) \<and> needsTyping (preset_question p) = (ps_name p \<noteq> []) \<and>
   needsTyping (policy_question globalName pol) = (pc_scope pol = ''global'' \<and> globalName \<noteq> [])"
  by (auto simp: create_offering_def offering_valid_def offering_blockers_def create_preset_def preset_valid_def preset_blockers_def
      save_preset_def save_offering_def needsTyping_def offering_question_def preset_question_def policy_question_def)

end
