(* ===== verification/Ops_Monitor.thy ===== *)
theory Ops_Monitor
  imports Session_List
begin

text \<open>
  The operations screens of the admin console: the session and queue monitor with its bulk actions and the page that ends one
  session by force (\<^verbatim>\<open>features/admin/Monitor.tsx\<close>), the overlay over one session (\<^verbatim>\<open>SessionMonitorDetail.tsx\<close>) and the list of cards
  (\<^verbatim>\<open>Gpus.tsx\<close>). \<open>date\<close> reads a timestamp as milliseconds, \<open>coll\<close> is the collation, \<open>ns\<close> writes a number, \<open>router\<close> is what the router
  makes of the updates of one handler.
\<close>

section \<open>The session monitor\<close>

record SessionRow =
  sr_id :: string
  sr_name :: "string option"
  sr_status :: string
  sr_owner_user_id :: "string option"
  sr_owner_name :: "string option"
  sr_group_id :: "string option"
  sr_group_name :: "string option"
  sr_org_id :: "string option"
  sr_org_name :: "string option"
  sr_created_at :: "string option"
  sr_started_at :: "string option"
  sr_terminated_at :: "string option"
  sr_status_changed_at :: "string option"

definition MONITOR_PAGE :: nat where
  "MONITOR_PAGE = 25"

definition MON_FILTERS :: "string list" where
  "MON_FILTERS = [''org'', ''group'']"

definition monitor_defaults :: table_defaults where
  "monitor_defaults = \<lparr>td_sort = Some ''started'', td_dir = Some ''desc'', td_tab = None\<rparr>"

definition monitor_queue_defaults :: table_defaults where
  "monitor_queue_defaults = \<lparr>td_sort = Some ''position'', td_dir = Some ''asc'', td_tab = None\<rparr>"

definition monitor_state :: "params \<Rightarrow> TableState" where
  "monitor_state ps = useTableState [] monitor_defaults ps"

definition monitor_view :: "params \<Rightarrow> string" where
  "monitor_view ps = (if usp_get ''view'' ps = Some ''queue'' then ''queue'' else ''sessions'')"

definition setView :: "string \<Rightarrow> params \<Rightarrow> params" where
  "setView v prev = (if v = ''sessions'' then usp_delete ''view'' prev else usp_set ''view'' v prev)"

text \<open>What is asked of the server: the status and the cluster are part of the query.\<close>

definition monitor_filter :: "params \<Rightarrow> string option \<Rightarrow> SessionMonitorFilter" where
  "monitor_filter ps clusterId =
     \<lparr>mf_status = nonempty (ts_tab (monitor_state ps)), mf_cluster_id = nonempty clusterId, mf_group_id = None, mf_owner_id = None,
      mf_node_id = None, mf_page = None, mf_size = None\<rparr>"

definition setMonitorStatus :: "string \<Rightarrow> params \<Rightarrow> params" where
  "setMonitorStatus v = setTab [] (nonempty (Some v))"

definition groupName :: "(string \<times> string) list \<Rightarrow> string option \<Rightarrow> string option" where
  "groupName projects i = (case nonempty i of None \<Rightarrow> None | Some g \<Rightarrow> Some (str_or (map_of projects g) g))"

definition last_change :: "SessionRow \<Rightarrow> string option" where
  "last_change s =
     or_else (sr_status_changed_at s) (or_else (sr_terminated_at s) (or_else (sr_started_at s) (sr_created_at s)))"

text \<open>A column without an accessor orders by the property of its own name; a row has no property \<^verbatim>\<open>org\<close>, \<^verbatim>\<open>group\<close> or \<^verbatim>\<open>resource\<close>.\<close>

definition monitor_field :: "string \<Rightarrow> SessionRow \<Rightarrow> sort_key" where
  "monitor_field key s = KNull"

definition sessionColumns :: "(string \<Rightarrow> rat option) \<Rightarrow> SessionRow Column list" where
  "sessionColumns date =
     [\<lparr>co_key = ''name'', co_sortBy = Some (\<lambda>s. KOther (str_or (sr_name s) (sr_id s))), co_sortable = None\<rparr>,
      \<lparr>co_key = ''status'', co_sortBy = Some (\<lambda>s. KOther (sr_status s)), co_sortable = None\<rparr>,
      \<lparr>co_key = ''owner_id'', co_sortBy = Some (\<lambda>s. KOther (str_or (or_else (sr_owner_name s) (sr_owner_user_id s)) [])), co_sortable = None\<rparr>,
      \<lparr>co_key = ''org'', co_sortBy = None, co_sortable = None\<rparr>,
      \<lparr>co_key = ''group'', co_sortBy = None, co_sortable = None\<rparr>,
      \<lparr>co_key = ''resource'', co_sortBy = None, co_sortable = None\<rparr>,
      \<lparr>co_key = ''status_changed_at'',
       co_sortBy = Some (\<lambda>s. KNum (case nonempty (last_change s) of Some v \<Rightarrow> date_num (date v) | None \<Rightarrow> Fin 0)), co_sortable = None\<rparr>,
      \<lparr>co_key = ''actions'', co_sortBy = None, co_sortable = Some False\<rparr>]"

definition orgOpts :: "(string \<Rightarrow> string \<Rightarrow> int) \<Rightarrow> SessionRow list \<Rightarrow> (string \<times> string) list" where
  "orgOpts coll sessions = distinctPairs coll sr_org_id sr_org_name sessions"

definition groupOpts :: "(string \<Rightarrow> string \<Rightarrow> int) \<Rightarrow> params \<Rightarrow> SessionRow list \<Rightarrow> (string \<times> string) list" where
  "groupOpts coll ps sessions =
     (let org = filter_values [] ps ''org'' in
      distinctPairs coll sr_group_id sr_group_name (filter (\<lambda>r. org = [] \<or> sr_org_id r = Some org) sessions))"

definition session_matches :: "params \<Rightarrow> SessionRow \<Rightarrow> bool" where
  "session_matches ps r =
     (let q = to_lower (trim (ts_query (monitor_state ps))); org = filter_values [] ps ''org''; group = filter_values [] ps ''group'' in
      if org \<noteq> [] \<and> sr_org_id r \<noteq> Some org then False
      else if group \<noteq> [] \<and> sr_group_id r \<noteq> Some group then False
      else q = [] \<or> str_includes (to_lower (str_or (sr_name r) [] @ '' '' @ sr_id r @ '' '' @ str_or (sr_owner_name r) [])) q)"

definition matchedSessions :: "params \<Rightarrow> SessionRow list \<Rightarrow> SessionRow list" where
  "matchedSessions ps sessions = filter (session_matches ps) sessions"

definition STATUS_RANK :: "(string \<times> int) list" where
  "STATUS_RANK = [(''running'', 0), (''preparing'', 1), (''pending'', 2), (''paused'', 3), (''terminating'', 4), (''error'', 5), (''terminated'', 6)]"

definition status_rank :: "SessionRow \<Rightarrow> int" where
  "status_rank s = opt_else (map_of STATUS_RANK (sr_status s)) 9"

text \<open>\<^verbatim>\<open>new Date(created_at ?? 0).getTime()\<close>\<close>

definition row_created :: "(string \<Rightarrow> rat option) \<Rightarrow> SessionRow \<Rightarrow> jsnum" where
  "row_created date s = (case sr_created_at s of None \<Rightarrow> Fin 0 | Some c \<Rightarrow> date_num (date c))"

definition fleet_compare :: "(string \<Rightarrow> rat option) \<Rightarrow> SessionRow \<Rightarrow> SessionRow \<Rightarrow> int" where
  "fleet_compare date a b =
     (let d = status_rank a - status_rank b in if d \<noteq> 0 then d else num_diff (row_created date b) (row_created date a))"

definition fleet_le :: "(string \<Rightarrow> rat option) \<Rightarrow> SessionRow \<Rightarrow> SessionRow \<Rightarrow> bool" where
  "fleet_le date a b = (fleet_compare date a b \<le> 0)"

definition sessionRows ::
  "(string \<Rightarrow> string \<Rightarrow> int) \<Rightarrow> (jsnum \<Rightarrow> string) \<Rightarrow> (string \<Rightarrow> rat option) \<Rightarrow> params \<Rightarrow> SessionRow list \<Rightarrow> SessionRow list" where
  "sessionRows coll ns date ps sessions =
     (case sortAccessor monitor_field (sessionColumns date) (ts_sort (monitor_state ps)) of
        Some acc \<Rightarrow> sortRows coll ns (matchedSessions ps sessions) (Some acc) (ts_dir (monitor_state ps))
      | None \<Rightarrow> js_sort (fleet_le date) (matchedSessions ps sessions))"

definition pagedSessions :: "params \<Rightarrow> SessionRow list \<Rightarrow> SessionRow list" where
  "pagedSessions ps rows = page_rows MONITOR_PAGE (ts_page (monitor_state ps)) rows"

section \<open>Acting on a selection\<close>

definition row_selectable :: "SessionRow \<Rightarrow> bool" where
  "row_selectable s = (sr_status s \<noteq> ''terminated'')"

definition selectedLive :: "string set \<Rightarrow> SessionRow list \<Rightarrow> SessionRow list" where
  "selectedLive selected rows = filter (\<lambda>s. sr_id s \<in> selected \<and> sr_status s \<notin> {''terminated'', ''error''}) rows"

definition selectedStale :: "string set \<Rightarrow> SessionRow list \<Rightarrow> SessionRow list" where
  "selectedStale selected rows = filter (\<lambda>s. sr_id s \<in> selected \<and> sr_status s = ''error'') rows"

definition consequence_line :: "SessionRow \<Rightarrow> string" where
  "consequence_line s = str_or (sr_name s) (sr_id s) @ '' - '' @ str_or (or_else (sr_owner_name s) (sr_owner_user_id s)) []"

definition terminate_question :: "SessionRow list \<Rightarrow> confirm_options" where
  "terminate_question live =
     \<lparr>cf_consequences = map consequence_line (take 6 live), cf_confirmText = Some (show_nat (length live))\<rparr>"

definition cleanup_question :: "SessionRow list \<Rightarrow> confirm_options" where
  "cleanup_question stale = \<lparr>cf_consequences = map consequence_line (take 6 stale), cf_confirmText = None\<rparr>"

text \<open>Pressing a bulk button: \<open>pending\<close> while a bulk request runs, \<open>ok\<close> the answer of the dialog. What is sent, if anything.\<close>

definition monitor_terminate :: "bool \<Rightarrow> bool \<Rightarrow> SessionRow list \<Rightarrow> mutation_def option" where
  "monitor_terminate pending ok live =
     (if pending \<or> live = [] then None else if \<not> ok then None else Some (useBulkTerminateSessions (map sr_id live)))"

definition cleanupAll :: "bool \<Rightarrow> bool \<Rightarrow> SessionRow list \<Rightarrow> mutation_def option" where
  "cleanupAll pending ok cleanupTargets =
     (if pending \<or> cleanupTargets = [] then None
      else if \<not> ok then None else Some (useBulkTerminateSessions (map sr_id cleanupTargets)))"

section \<open>Filters and the queue\<close>

text \<open>Choosing an organization: one update, or two when a group was chosen. Clearing is that of the other lists.\<close>

definition pick_monitor_org :: "string \<Rightarrow> params \<Rightarrow> (params \<Rightarrow> params) list" where
  "pick_monitor_org v ps =
     set_filter [] ''org'' v # (if filter_values [] ps ''group'' \<noteq> [] then [set_filter [] ''group'' []] else [])"

record MonitorQueueEntry = QueueEntryView +
  mq_status :: "string option"
  mq_priority :: rat
  mq_owner_name :: "string option"

definition monitor_queue :: "MonitorQueueEntry list \<Rightarrow> MonitorQueueEntry list" where
  "monitor_queue queueAll = filter (\<lambda>q. \<not> str_truthy (mq_status q) \<or> mq_status q = Some ''queued'') queueAll"

definition queueColumns :: "(string \<Rightarrow> rat option) \<Rightarrow> MonitorQueueEntry Column list" where
  "queueColumns date =
     [\<lparr>co_key = ''position'', co_sortBy = Some (\<lambda>q. KNum (Fin (of_int (opt_else (qe_position q) 0)))), co_sortable = None\<rparr>,
      \<lparr>co_key = ''session_id'', co_sortBy = Some (\<lambda>q. KOther (str_or (or_else (qe_session_name q) (qe_session_id q)) [])), co_sortable = None\<rparr>,
      \<lparr>co_key = ''owner'', co_sortBy = Some (\<lambda>q. KOther (str_or (mq_owner_name q) [])), co_sortable = None\<rparr>,
      \<lparr>co_key = ''priority'', co_sortBy = Some (\<lambda>q. KNum (Fin (mq_priority q))), co_sortable = None\<rparr>,
      \<lparr>co_key = ''enqueued_at'',
       co_sortBy = Some (\<lambda>q. KNum (case nonempty (qe_enqueued_at q) of Some e \<Rightarrow> date_num (date e) | None \<Rightarrow> Fin 0)), co_sortable = None\<rparr>,
      \<lparr>co_key = ''actions'', co_sortBy = None, co_sortable = None\<rparr>]"

definition monitor_queue_rows ::
  "(string \<Rightarrow> string \<Rightarrow> int) \<Rightarrow> (jsnum \<Rightarrow> string) \<Rightarrow> (string \<Rightarrow> rat option) \<Rightarrow> params \<Rightarrow> MonitorQueueEntry list \<Rightarrow> MonitorQueueEntry list" where
  "monitor_queue_rows coll ns date ps queueAll =
     (let st = useTableState ''q'' monitor_queue_defaults ps in
      sortRows coll ns (monitor_queue queueAll) (sortAccessor (\<lambda>_ _. KNull) (queueColumns date) (ts_sort st)) (ts_dir st))"

definition can_reprioritize :: "MonitorQueueEntry \<Rightarrow> bool" where
  "can_reprioritize q = (mq_status q = Some ''queued'')"

definition priority_question :: "(jsnum \<Rightarrow> string) \<Rightarrow> MonitorQueueEntry \<Rightarrow> prompt_options" where
  "priority_question ns q = \<lparr>po_defaultValue = Some (ns (Fin (mq_priority q))), po_required = True\<rparr>"

text \<open>The answer of the prompt: dismissed, refused with a message, or sent. A number that is not finite is \<^verbatim>\<open>null\<close> in the body.\<close>

datatype priority_outcome = Dismissed | Refused | SendPriority mutation_def

definition onPriority :: "MonitorQueueEntry \<Rightarrow> string option \<Rightarrow> priority_outcome" where
  "onPriority q raw =
     (case raw of
        None \<Rightarrow> Dismissed
      | Some txt \<Rightarrow>
          (case js_number txt of
             NaN \<Rightarrow> Refused
           | Fin p \<Rightarrow> SendPriority (useSetQueuePriority (qe_id q) p)
           | _ \<Rightarrow> SendPriority ((useSetQueuePriority (qe_id q) 0)
                     \<lparr>mu_request := (mu_request (useSetQueuePriority (qe_id q) 0))\<lparr>rq_body := Some (JObj [(''priority'', JNull)])\<rparr>\<rparr>)))"

section \<open>Ending one session\<close>

definition terminate_path :: "SessionRow \<Rightarrow> string" where
  "terminate_path s = ''/admin/monitor/sessions/'' @ sr_id s @ ''/terminate''"

text \<open>The link of a row, and the buttons of the overlay.\<close>

definition monitor_row_action :: "SessionRow \<Rightarrow> row_action option" where
  "monitor_row_action s =
     (if sr_status s = ''terminated'' then None else if sr_status s = ''error'' then Some Cleanup else Some Terminate)"

definition overlay_actions :: "string \<Rightarrow> row_action list" where
  "overlay_actions st =
     (if st = ''terminated'' then []
      else (if st = ''running'' then [Pause] else []) @ (if st = ''paused'' then [Resume] else []) @
           [if st = ''error'' then Cleanup else Terminate])"

definition overlay_press :: "SessionRow \<Rightarrow> row_action \<Rightarrow> string + mutation_def" where
  "overlay_press s a =
     (case a of
        Pause \<Rightarrow> Inr (useStopSession (sr_id s))
      | Resume \<Rightarrow> Inr (useStartSession (sr_id s))
      | _ \<Rightarrow> Inl (terminate_path s))"

text \<open>The overlay reads its row from the whole list, and asks for usage only while the session runs.\<close>

definition overlay_row :: "SessionRow list \<Rightarrow> string \<Rightarrow> SessionRow option" where
  "overlay_row sessions sid = find (\<lambda>x. sr_id x = sid) sessions"

definition overlay_running :: "SessionRow option \<Rightarrow> bool" where
  "overlay_running s = (map_option sr_status s = Some ''running'')"

definition overlay_usage :: "SessionRow list \<Rightarrow> string \<Rightarrow> 'e query_def" where
  "overlay_usage sessions sid =
     useSessionUsage (if overlay_running (overlay_row sessions sid) then Some sid else None)"

definition overlay_live :: "SessionRow list \<Rightarrow> string \<Rightarrow> 'e query_def" where
  "overlay_live sessions sid =
     (let running = overlay_running (overlay_row sessions sid) in useOwnSessionUsageLive (if running then Some sid else None) running)"

definition overlay_series :: "SessionRow list \<Rightarrow> string \<Rightarrow> RangeKey \<Rightarrow> 'e query_def" where
  "overlay_series sessions sid rng =
     useSessionUsageSeries (Some sid) rng (map_option sr_status (overlay_row sessions sid) \<noteq> Some ''terminated'')"

text \<open>The page that asks for a reason.\<close>

definition reason_missing :: "string \<Rightarrow> string list" where
  "reason_missing reason = (if length (trim reason) = 0 then [''common.reason''] else [])"

definition force_terminate :: "string \<Rightarrow> bool \<Rightarrow> string \<Rightarrow> string \<Rightarrow> mutation_def option" where
  "force_terminate key pending sid reason =
     (if length (trim reason) = 0 \<or> pending then None else Some (useForceTerminate sid (trim reason) key))"

definition terminate_title :: "SessionRow option \<Rightarrow> string" where
  "terminate_title s =
     (if map_option sr_status s = Some ''error'' then ''admin.monitor.cleanupTitle'' else ''admin.monitor.terminateTitle'')"

section \<open>What the monitor shows\<close>

lemma fleet_le_iff:
  "fleet_le date a b \<longleftrightarrow> status_rank a < status_rank b \<or>
     status_rank a = status_rank b \<and> num_diff (row_created date b) (row_created date a) \<le> 0"
  by (auto simp: fleet_le_def fleet_compare_def Let_def)

interpretation fleet: comparison "fleet_le date" "{s. row_created date s \<noteq> NaN}" for date
proof
  show "fleet_le date x y \<or> fleet_le date y x" if "x \<in> {s. row_created date s \<noteq> NaN}" "y \<in> {s. row_created date s \<noteq> NaN}" for x y
    using that num_diff_total [of "row_created date x" "row_created date y"] by (auto simp: fleet_le_iff)
  show "fleet_le date x z"
    if "x \<in> {s. row_created date s \<noteq> NaN}" "y \<in> {s. row_created date s \<noteq> NaN}" "z \<in> {s. row_created date s \<noteq> NaN}"
      "fleet_le date x y" "fleet_le date y z" for x y z
    using that num_diff_trans [of "row_created date z" "row_created date y" "row_created date x"] by (auto simp: fleet_le_iff)
qed

lemma mset_sessionRows: "mset (sessionRows coll ns date ps sessions) = mset (matchedSessions ps sessions)"
  by (simp add: sessionRows_def sortRows_def split: option.splits)

lemma set_sessionRows: "set (sessionRows coll ns date ps sessions) = set (matchedSessions ps sessions)"
  by (rule mset_eq_setD) (rule mset_sessionRows)

lemma js_sort_all_tied: "(\<And>x y. le x y) \<Longrightarrow> js_sort le xs = xs"
proof (induction xs)
  case (Cons x xs)
  then have "insert_row le x xs = x # xs" by (cases xs) auto
  then show ?case using Cons.IH Cons.prems unfolding js_sort_def foldr.simps comp_def by metis
qed (simp add: js_sort_def)

text \<open>Ordering the monitor. Untouched, it shows the one stable arrangement by status (running first, finished last) and, within a
  status, by creation, newest first; the default sort key names no column, so this order is what an address without a sort means.
  The headers of the organization, the group and the resource can be clicked but order nothing: they read a property that no row
  has.\<close>

theorem monitor_order:
  assumes "\<forall>s \<in> set sessions. row_created date s \<noteq> NaN"
  shows "(usp_get ''sort'' ps = None \<longrightarrow>
       (stably_sorted (fleet_le date) (matchedSessions ps sessions) rows \<longleftrightarrow> rows = sessionRows coll ns date ps sessions)) \<and>
    (\<forall>k \<in> {''org'', ''group'', ''resource''}. usp_get ''sort'' ps = Some k \<longrightarrow>
       sessionRows coll ns date ps sessions = matchedSessions ps sessions)"
proof (intro conjI impI ballI)
  assume "usp_get ''sort'' ps = None"
  then have "ts_sort (monitor_state ps) = Some ''started''"
    by (simp add: monitor_state_def useTableState_def monitor_defaults_def param_key_def or_else_def)
  then have rows: "sessionRows coll ns date ps sessions = js_sort (fleet_le date) (matchedSessions ps sessions)"
    by (simp add: sessionRows_def sortAccessor_def sessionColumns_def nonempty_def)
  have "set (matchedSessions ps sessions) \<subseteq> {s. row_created date s \<noteq> NaN}" using assms by (auto simp: matchedSessions_def)
  then have "comparison (fleet_le date) (set (matchedSessions ps sessions))" by (rule comparison_subset [OF fleet.comparison_axioms])
  then show "stably_sorted (fleet_le date) (matchedSessions ps sessions) rows \<longleftrightarrow> rows = sessionRows coll ns date ps sessions"
    unfolding rows by (rule stably_sorted_js_sort)
next
  fix k assume k: "k \<in> {''org'', ''group'', ''resource''}" and "usp_get ''sort'' ps = Some k"
  then have "ts_sort (monitor_state ps) = Some k"
    by (simp add: monitor_state_def useTableState_def monitor_defaults_def param_key_def or_else_def)
  then have "sortAccessor monitor_field (sessionColumns date) (ts_sort (monitor_state ps)) = Some (monitor_field k)"
    using k by (auto simp: sortAccessor_def sessionColumns_def nonempty_def)
  then show "sessionRows coll ns date ps sessions = matchedSessions ps sessions"
    by (simp add: sessionRows_def sortRows_def monitor_field_def row_le_def row_compare_def js_sort_all_tied)
qed

definition sample_row :: "string \<Rightarrow> string \<Rightarrow> SessionRow" where
  "sample_row i st =
     \<lparr>sr_id = i, sr_name = Some ''train'', sr_status = st, sr_owner_user_id = None, sr_owner_name = None, sr_group_id = None,
      sr_group_name = None, sr_org_id = None, sr_org_name = None, sr_created_at = None, sr_started_at = None,
      sr_terminated_at = None, sr_status_changed_at = None\<rparr>"

theorem monitor_order_witness:
  "sessionRows by_length (\<lambda>_. []) sample_clock [(''sort'', ''org'')] [sample_row ''a'' ''error'', sample_row ''b'' ''running''] =
     matchedSessions [(''sort'', ''org'')] [sample_row ''a'' ''error'', sample_row ''b'' ''running'']"
  using monitor_order [where date = sample_clock and sessions = "[sample_row ''a'' ''error'', sample_row ''b'' ''running'']"
      and ps = "[(''sort'', ''org'')]" and rows = "[]" and coll = by_length and ns = "\<lambda>_. []"]
  by (simp add: sample_row_def row_created_def usp_get_def)

section \<open>Bulk actions\<close>

lemma selected_ids:
  assumes "distinct (map sr_id sessions)"
  shows "distinct (map sr_id (filter P (sessionRows coll ns date ps sessions)))"
    and "set (map sr_id (filter P (sessionRows coll ns date ps sessions))) =
      {i. \<exists>s \<in> set sessions. sr_id s = i \<and> P s \<and> session_matches ps s}"
proof -
  have "distinct (map sr_id (matchedSessions ps sessions))" using assms by (simp add: matchedSessions_def distinct_map_filter)
  then have "distinct (map sr_id (sessionRows coll ns date ps sessions))"
    by (rule distinct_map_mset [rotated]) (simp add: mset_sessionRows)
  then show "distinct (map sr_id (filter P (sessionRows coll ns date ps sessions)))" by (simp add: distinct_map_filter)
  show "set (map sr_id (filter P (sessionRows coll ns date ps sessions))) =
      {i. \<exists>s \<in> set sessions. sr_id s = i \<and> P s \<and> session_matches ps s}"
    by (auto simp: set_sessionRows matchedSessions_def)
qed

text \<open>C34: The two bulk actions of the monitor split the selection. Force-terminating names exactly the selected sessions of the view
  that are neither ended nor failed, cleaning up exactly the failed ones, each once; together they cover what is selected in the
  view and not terminated, and a session hidden by a filter or the search is never touched. Both need the confirmation and an
  idle request; force-terminating also the typed number of sessions.\<close>

theorem monitor_bulk_exact:
  assumes "distinct (map sr_id sessions)"
  shows "let rows = sessionRows coll ns date ps sessions; live = selectedLive sel rows; stale = selectedStale sel rows in
    (\<exists>cut filed. distinct cut \<and> distinct filed \<and>
       monitor_terminate False True live = (if cut = [] then None else Some (useBulkTerminateSessions cut)) \<and>
       cleanupAll False True stale = (if filed = [] then None else Some (useBulkTerminateSessions filed)) \<and>
       set cut = {i. \<exists>s \<in> set sessions. sr_id s = i \<and> (sr_id s \<in> sel \<and> sr_status s \<notin> {''terminated'', ''error''}) \<and> session_matches ps s} \<and>
       set filed = {i. \<exists>s \<in> set sessions. sr_id s = i \<and> (sr_id s \<in> sel \<and> sr_status s = ''error'') \<and> session_matches ps s} \<and>
       set cut \<inter> set filed = {} \<and>
       set cut \<union> set filed = {sr_id s | s. s \<in> set sessions \<and> sr_id s \<in> sel \<and> row_selectable s \<and> session_matches ps s} \<and>
       cf_confirmText (terminate_question live) = Some (show_nat (card (set cut)))) \<and>
    monitor_terminate p False live = None \<and> cleanupAll p False stale = None \<and>
    monitor_terminate True ok live = None \<and> cleanupAll True ok stale = None"
proof -
  define rows where "rows = sessionRows coll ns date ps sessions"
  define cut where "cut = map sr_id (selectedLive sel rows)"
  define filed where "filed = map sr_id (selectedStale sel rows)"
  have c: "distinct cut" "set cut = {i. \<exists>s \<in> set sessions. sr_id s = i \<and> (sr_id s \<in> sel \<and> sr_status s \<notin> {''terminated'', ''error''}) \<and> session_matches ps s}"
    unfolding cut_def rows_def selectedLive_def by (rule selected_ids [OF assms])+
  have f: "distinct filed" "set filed = {i. \<exists>s \<in> set sessions. sr_id s = i \<and> (sr_id s \<in> sel \<and> sr_status s = ''error'') \<and> session_matches ps s}"
    unfolding filed_def rows_def selectedStale_def by (rule selected_ids [OF assms])+
  have "s = s'" if "s \<in> set sessions" "s' \<in> set sessions" "sr_id s = sr_id s'" for s s'
    using assms that by (auto simp: distinct_map inj_on_def)
  then have dis: "set cut \<inter> set filed = {}" unfolding c f by fastforce
  have un: "set cut \<union> set filed = {sr_id s | s. s \<in> set sessions \<and> sr_id s \<in> sel \<and> row_selectable s \<and> session_matches ps s}"
    unfolding c f row_selectable_def by auto
  have n: "length (selectedLive sel rows) = card (set cut)" using distinct_card [OF c(1)] by (simp add: cut_def)
  have "monitor_terminate False True (selectedLive sel rows) = (if cut = [] then None else Some (useBulkTerminateSessions cut))"
    "cleanupAll False True (selectedStale sel rows) = (if filed = [] then None else Some (useBulkTerminateSessions filed))"
    "cf_confirmText (terminate_question (selectedLive sel rows)) = Some (show_nat (card (set cut)))"
    by (simp_all add: monitor_terminate_def cleanupAll_def cut_def filed_def terminate_question_def n [unfolded cut_def])
  moreover have "monitor_terminate p False l = None" "cleanupAll p False l = None" "monitor_terminate True ok l = None" "cleanupAll True ok l = None" for l
    by (simp_all add: monitor_terminate_def cleanupAll_def)
  ultimately show ?thesis unfolding Let_def rows_def [symmetric] using c f dis un
    by (intro conjI exI [of _ cut] exI [of _ filed]) simp_all
qed

theorem monitor_bulk_exact_witness:
  "\<exists>cut filed. monitor_terminate False True (selectedLive {''a'', ''b'', ''c''} (sessionRows by_length (\<lambda>_. []) sample_clock []
       [sample_row ''a'' ''running'', sample_row ''b'' ''error''])) = (if cut = [] then None else Some (useBulkTerminateSessions cut)) \<and>
     set cut \<inter> set filed = {} \<and>
     set cut \<union> set filed = {sr_id s | s. s \<in> set [sample_row ''a'' ''running'', sample_row ''b'' ''error''] \<and> sr_id s \<in> {''a'', ''b'', ''c''} \<and>
       row_selectable s \<and> session_matches [] s}"
proof -
  have d: "distinct (map sr_id [sample_row ''a'' ''running'', sample_row ''b'' ''error''])" by (simp add: sample_row_def)
  show ?thesis
    using monitor_bulk_exact [OF d, where sel = "{''a'', ''b'', ''c''}" and coll = by_length and ns = "\<lambda>_. []" and date = sample_clock
        and ps = "[]" and p = False and ok = True]
    unfolding Let_def by (elim conjE exE) (intro exI conjI)
qed

section \<open>Filters and actions\<close>

text \<open>Choosing an organization while a group is chosen. The router computes every update of a handler from the parameters of the
  last render and keeps the last one, so the choice of the organization is lost: only the group is cleared. Without a group the
  choice takes effect.\<close>

theorem org_pick_lost:
  assumes router: "\<And>us u ps. router (us @ [u]) ps = u ps"
  shows "filter_values [] (router (pick_monitor_org v ps) ps) ''group'' = [] \<and>
    filter_values [] (router (pick_monitor_org v ps) ps) ''org'' = (if filter_values [] ps ''group'' = [] then v else filter_values [] ps ''org'')"
proof -
  have get: "filter_values [] (set_filter [] n w ps) m = (if m = n then w else filter_values [] ps m)"
    if "m \<in> {''org'', ''group''}" "n \<in> {''org'', ''group''}" for m n w
    using that by (auto simp: filter_values_def set_filter_def usp_get_delete usp_get_set param_key_def)
  show ?thesis
  proof (cases "filter_values [] ps ''group'' = []")
    case True
    then show ?thesis using router [of "[]" "set_filter [] ''org'' v" ps] by (simp add: pick_monitor_org_def get)
  next
    case False
    then show ?thesis using router [of "[set_filter [] ''org'' v]" "set_filter [] ''group'' []" ps] by (simp add: pick_monitor_org_def get)
  qed
qed

theorem org_pick_lost_witness:
  "filter_values [] (last (pick_monitor_org ''o2'' [(''org'', ''o1''), (''group'', ''g1'')]) [(''org'', ''o1''), (''group'', ''g1'')]) ''org'' = ''o1''"
  using org_pick_lost [where router = last and v = "''o2''" and ps = "[(''org'', ''o1''), (''group'', ''g1'')]"]
  by (simp add: filter_values_def usp_get_def param_key_def)

text \<open>What an administrator is offered for a session, beside what its owner is offered in the list: pausing and resuming under
  the same statuses, and an end or a cleanup for every session that is not terminated, also for one that is already terminating,
  where the owner has none. The end always leads to the page that asks for a reason, and no request leaves that page without
  one.\<close>

theorem admin_actions_agree:
  "(Pause \<in> set (overlay_actions st) \<longleftrightarrow> Pause \<in> set (list_actions st)) \<and>
   (Resume \<in> set (overlay_actions st) \<longleftrightarrow> Resume \<in> set (list_actions st)) \<and>
   (Cleanup \<in> set (overlay_actions st) \<longleftrightarrow> Cleanup \<in> set (list_actions st)) \<and>
   (st \<in> set session_statuses \<longrightarrow>
     (Terminate \<in> set (overlay_actions st) \<longleftrightarrow> Terminate \<in> set (list_actions st) \<or> st = ''terminating'')) \<and>
   (sr_status s = st \<longrightarrow> (monitor_row_action s = Some a \<longleftrightarrow> a \<in> {Terminate, Cleanup} \<and> a \<in> set (overlay_actions st))) \<and>
   (a \<in> {Terminate, Cleanup} \<longrightarrow> overlay_press s a = Inl (terminate_path s)) \<and>
   (force_terminate key pending sid reason = None \<longleftrightarrow> reason_missing reason \<noteq> [] \<or> pending)"
  by (auto simp: overlay_actions_def list_actions_def ACTIVE_def session_statuses_def monitor_row_action_def overlay_press_def
      force_terminate_def reason_missing_def)

theorem admin_actions_agree_witness: "Terminate \<in> set (overlay_actions ''terminating'') \<and> Terminate \<notin> set (list_actions ''terminating'')"
  using admin_actions_agree [where st = "''terminating''" and s = "sample_row ''a'' ''terminating''" and a = Terminate and key = "[]"
      and pending = False and sid = "''a''" and reason = "[]"]
  by (simp add: session_statuses_def sample_row_def list_actions_def)

text \<open>The prompt for a priority: a blank answer cannot be given, text that is no number is refused, and a number goes to the entry
  that was pressed.\<close>

lemma onPriority_sends:
  "onPriority q raw = SendPriority m \<Longrightarrow>
     (\<exists>txt. raw = Some txt \<and> js_number txt \<noteq> NaN) \<and> rq_params (mu_request m) = [(''queue_entry_id'', qe_id q)] \<and>
     mu_done m d = [InvalidateQueries (skey [''monitor'', ''queue''])]"
  by (auto simp: onPriority_def useSetQueuePriority_def use_mutation_def http_send_def split: option.splits jsnum.splits)

lemma monitor_view_switch:
  "v \<in> {''sessions'', ''queue''} \<Longrightarrow> monitor_view (setView v ps) = v"
  "useTableState p d (setView v ps) = useTableState p d ps"
  by (auto simp: monitor_view_def setView_def usp_get_delete usp_get_set useTableState_def param_key_def)

lemma overlay_usage_idle: "\<not> overlay_running (overlay_row sessions sid) \<Longrightarrow> \<not> qd_enabled (overlay_usage sessions sid) \<and> \<not> qd_enabled (overlay_live sessions sid)"
  by (simp add: overlay_usage_def overlay_live_def useSessionUsage_def useOwnSessionUsageLive_def Let_def)

section \<open>The list of cards\<close>

record DeviceRow =
  dv_id :: string
  dv_node_id :: "string option"
  dv_model :: "string option"
  dv_alias :: "string option"
  dv_mode :: "string option"
  dv_desired_mode :: "string option"
  dv_mode_state :: "string option"
  dv_status :: "string option"
  dv_node_status :: "string option"
  dv_total_mem_mb :: "rat option"
  dv_used_mem_mb :: "rat option"

definition MODES :: "string list" where
  "MODES = [''fractional'', ''exclusive'', ''mig'']"

definition models :: "DeviceRow list \<Rightarrow> string list" where
  "models devices = uniq (map (\<lambda>d. str_or (dv_model d) ''-'') devices)"

definition gpu_rows :: "string \<Rightarrow> DeviceRow list \<Rightarrow> DeviceRow list" where
  "gpu_rows modelFilter devices = filter (\<lambda>d. modelFilter = [] \<or> str_or (dv_model d) ''-'' = modelFilter) devices"

definition target_mode :: "DeviceRow \<Rightarrow> string" where
  "target_mode d = str_or (or_else (dv_desired_mode d) (dv_mode d)) ''fractional''"

definition onMode :: "DeviceRow \<Rightarrow> string \<Rightarrow> mutation_def option" where
  "onMode d mode =
     (if Some mode = or_else (dv_desired_mode d) (dv_mode d) then None else Some (useSetDeviceMode (dv_id d) (Some mode)))"

definition switching :: "DeviceRow \<Rightarrow> string option" where
  "switching d = (if str_truthy (dv_desired_mode d) \<and> dv_desired_mode d \<noteq> dv_mode d then dv_desired_mode d else None)"

definition vram_cell :: "DeviceRow \<Rightarrow> string" where
  "vram_cell d = to_fixed 1 (opt_else (dv_used_mem_mb d) 0 / 1024) @ '' / '' @ to_fixed 0 (opt_else (dv_total_mem_mb d) 0 / 1024) @ '' GiB''"

text \<open>The tags beside a card's status: the state of its node when that keeps sessions away, and a mode that is not ready.\<close>

definition state_tags :: "DeviceRow \<Rightarrow> string list" where
  "state_tags d =
     (if dv_node_status d \<in> {Some ''offline'', Some ''cordoned''} then [the (dv_node_status d)] else []) @
     (if str_truthy (dv_mode_state d) \<and> dv_mode_state d \<noteq> Some ''ready'' then [the (dv_mode_state d)] else [])"

definition alias_question :: "DeviceRow \<Rightarrow> prompt_options" where
  "alias_question d = \<lparr>po_defaultValue = Some (str_or (dv_alias d) []), po_required = False\<rparr>"

definition set_alias :: "DeviceRow \<Rightarrow> string option \<Rightarrow> mutation_def option" where
  "set_alias d v = map_option (\<lambda>w. useSetDeviceAlias (dv_id d) (nonempty (Some (trim w)))) v"

text \<open>The health button: a failed card is put back at once, marking one as failed asks first. \<open>ok\<close> is the answer.\<close>

definition health_asks :: "DeviceRow \<Rightarrow> bool" where
  "health_asks d = (dv_status d \<noteq> Some ''unhealthy'')"

definition press_health :: "bool \<Rightarrow> DeviceRow \<Rightarrow> mutation_def option" where
  "press_health ok d =
     (if dv_status d = Some ''unhealthy'' then Some (useSetDeviceHealth (dv_id d) ''ready'' None)
      else if \<not> ok then None else Some (useSetDeviceHealth (dv_id d) ''unhealthy'' None))"

lemma uniq_ok: "set (uniq xs) = set xs" "distinct (uniq xs)"
  by (simp_all add: uniq_def)

lemma length_filter_partition:
  "distinct ks \<Longrightarrow> f ` set xs \<subseteq> set ks \<Longrightarrow> sum_list (map (\<lambda>k. length (filter (\<lambda>x. f x = k) xs)) ks) = length xs"
proof (induction xs)
  case (Cons x xs)
  have "sum_list (map (\<lambda>k. length (filter (\<lambda>y. f y = k) (x # xs))) ks) =
      sum_list (map (\<lambda>k. (if k = f x then 1 else 0) + length (filter (\<lambda>y. f y = k) xs)) ks)"
    by (rule arg_cong [of _ _ sum_list]) auto
  also have "\<dots> = sum_list (map (\<lambda>k. if k = f x then 1 else 0) ks) + sum_list (map (\<lambda>k. length (filter (\<lambda>y. f y = k) xs)) ks)"
    by (rule sum_list_addf)
  also have "sum_list (map (\<lambda>k. if k = f x then 1 else 0) ks) = (1 :: nat)"
    using Cons.prems by (simp add: sum_list_distinct_conv_sum_set)
  finally show ?case using Cons by simp
qed simp

text \<open>The list of cards. The models of the filter split the cards: every card is listed under exactly one of them. A mode is
  requested only when it differs from the one the card has or is moving to, which is then not the one shown; a card is taken out of
  service only after a confirmation and put back without one; an alias is stored trimmed, and a blank answer removes it.\<close>

theorem card_actions:
  "distinct (models devices) \<and> ([] \<notin> set (models devices) \<longrightarrow>
     sum_list (map (\<lambda>m. length (gpu_rows m devices)) (models devices)) = length (gpu_rows [] devices)) \<and>
   (m \<noteq> target_mode d \<longrightarrow> onMode d m = Some (useSetDeviceMode (dv_id d) (Some m))) \<and>
   (onMode d m = None \<longleftrightarrow> m = target_mode d \<and> (dv_desired_mode d \<noteq> None \<or> dv_mode d \<noteq> None)) \<and>
   (press_health ok d \<noteq> None \<longleftrightarrow> ok \<or> \<not> health_asks d) \<and>
   press_health ok d \<in> {None, Some (useSetDeviceHealth (dv_id d) (if health_asks d then ''unhealthy'' else ''ready'') None)} \<and>
   set_alias d None = None \<and>
   set_alias d (Some w) = Some (useSetDeviceAlias (dv_id d) (if trim w = [] then None else Some (trim w)))"
proof -
  have part: "sum_list (map (\<lambda>m. length (gpu_rows m devices)) (models devices)) = length (gpu_rows [] devices)"
    if "[] \<notin> set (models devices)"
  proof -
    have eq: "map (\<lambda>m. length (gpu_rows m devices)) (models devices) =
        map (\<lambda>m. length (filter (\<lambda>d. str_or (dv_model d) ''-'' = m) devices)) (models devices)"
    proof (rule map_cong [OF refl])
      fix x assume "x \<in> set (models devices)"
      then have "x \<noteq> []" using that by blast
      then show "length (gpu_rows x devices) = length (filter (\<lambda>d. str_or (dv_model d) ''-'' = x) devices)" by (simp add: gpu_rows_def)
    qed
    have all: "gpu_rows [] devices = devices" by (simp add: gpu_rows_def)
    show ?thesis unfolding eq all by (rule length_filter_partition) (simp_all add: models_def uniq_ok)
  qed
  have modes: "m \<noteq> target_mode d \<longrightarrow> onMode d m = Some (useSetDeviceMode (dv_id d) (Some m))"
    "onMode d m = None \<longleftrightarrow> m = target_mode d \<and> (dv_desired_mode d \<noteq> None \<or> dv_mode d \<noteq> None)"
    by (cases "dv_desired_mode d"; cases "dv_mode d"; auto simp: target_mode_def onMode_def or_else_def)+
  show ?thesis using part modes by (simp add: models_def uniq_ok press_health_def health_asks_def set_alias_def nonempty_def)
qed

definition sample_card :: "string \<Rightarrow> string option \<Rightarrow> DeviceRow" where
  "sample_card i model =
     \<lparr>dv_id = i, dv_node_id = None, dv_model = model, dv_alias = None, dv_mode = Some ''fractional'', dv_desired_mode = None,
      dv_mode_state = None, dv_status = Some ''ready'', dv_node_status = None, dv_total_mem_mb = None, dv_used_mem_mb = None\<rparr>"

theorem card_actions_witness:
  "sum_list (map (\<lambda>m. length (gpu_rows m [sample_card ''1'' (Some ''A100''), sample_card ''2'' None])) [''A100'', ''-'']) = (2 :: nat) \<and>
   onMode (sample_card ''1'' None) ''mig'' = Some (useSetDeviceMode ''1'' (Some ''mig''))"
proof -
  let ?ds = "[sample_card ''1'' (Some ''A100''), sample_card ''2'' None]"
  have m: "models ?ds = [''A100'', ''-'']" "gpu_rows [] ?ds = ?ds" by (simp_all add: models_def uniq_def sample_card_def gpu_rows_def)
  have t: "target_mode (sample_card ''1'' None) = ''fractional''" by (simp add: target_mode_def sample_card_def or_else_def)
  show ?thesis
    using card_actions [where devices = ?ds and m = "''mig''" and d = "sample_card ''1'' None" and ok = False and w = "[]"]
    unfolding m t by (simp add: sample_card_def)
qed

end
