(* ===== verification/Audit_Log.thy ===== *)
theory Audit_Log
  imports Table_State Infra_Hooks
begin

text \<open>
  The audit log (\<^verbatim>\<open>features/admin/Audit.tsx\<close>): the wording of an entry, the filter kept in the address with its debounced fields, the
  query and the pager. \<open>tr\<close> are the translations, \<open>midnight\<close> reads a day as the viewer's midnight in milliseconds (\<open>None\<close> for an
  invalid date), \<open>stamp\<close> writes an instant, \<open>json\<close> is \<^verbatim>\<open>JSON.stringify\<close>, \<open>sf\<close> writes a fraction.
\<close>

section \<open>Wording\<close>

record AuditRow =
  ar_id :: string
  ar_actor_id :: "string option"
  ar_actor_name :: "string option"
  ar_action :: string
  ar_target :: "string option"
  ar_target_name :: "string option"
  ar_result :: "string option"
  ar_detail :: js

definition dots_to_underscores :: "string \<Rightarrow> string" where
  "dots_to_underscores s = map (\<lambda>c. if c = CHR ''.'' then CHR ''_'' else c) s"

definition actionLabel :: "i18n \<Rightarrow> string \<Rightarrow> string" where
  "actionLabel tr a = i18n_t tr (''admin.audit.actionLabel.'' @ dots_to_underscores a) [(''defaultValue'', JStr a)]"

definition detailKeyLabel :: "i18n \<Rightarrow> string \<Rightarrow> string" where
  "detailKeyLabel tr k = i18n_t tr (''admin.audit.detailKey.'' @ k) [(''defaultValue'', JStr k)]"

definition RESULT_TONES :: "(string \<times> string \<times> string) list" where
  "RESULT_TONES =
     [(''ok'', ''admin.audit.resultOk'', ''bg-free-soft text-free''),
      (''ready'', ''admin.audit.resultReady'', ''bg-free-soft text-free''),
      (''cordoned'', ''admin.audit.resultCordoned'', ''bg-free-soft text-free''),
      (''pending'', ''admin.audit.resultPending'', ''bg-warn-soft text-warn''),
      (''accepted'', ''admin.audit.resultAccepted'', ''bg-primary-soft text-primary''),
      (''succeeded'', ''admin.audit.resultSucceeded'', ''bg-free-soft text-free''),
      (''approved'', ''admin.audit.resultApproved'', ''bg-free-soft text-free''),
      (''rejected'', ''admin.audit.resultRejected'', ''bg-danger-soft text-danger''),
      (''failed'', ''admin.audit.resultFailed'', ''bg-danger-soft text-danger''),
      (''handoff_failed'', ''admin.audit.resultHandoffFailed'', ''bg-danger-soft text-danger''),
      (''escalated'', ''admin.audit.resultEscalated'', ''bg-warn-soft text-warn''),
      (''requested'', ''admin.audit.resultRequested'', ''bg-warn-soft text-warn'')]"

definition reads_failed :: "string \<Rightarrow> bool" where
  "reads_failed r = list_ex (str_includes (to_lower r)) [''error'', ''fail'', ''denied'', ''reject'']"

definition resultMeta :: "i18n \<Rightarrow> string option \<Rightarrow> string \<times> string" where
  "resultMeta tr r =
     (case nonempty r of
        None \<Rightarrow> (i18n_t tr ''admin.audit.resultOk'' [], ''bg-free-soft text-free'')
      | Some c \<Rightarrow>
          (case map_of RESULT_TONES c of
             Some (k, tone) \<Rightarrow> (i18n_t tr k [], tone)
           | None \<Rightarrow>
               if reads_failed c then (i18n_t tr ''admin.audit.resultFailed'' [], ''bg-danger-soft text-danger'')
               else (c, ''bg-surface-2 text-muted'')))"

text \<open>A value of the detail: what is absent is a dash, an identifier with a known name is shown with it.\<close>

fun detailValue :: "i18n \<Rightarrow> (js \<Rightarrow> string) \<Rightarrow> (rat \<Rightarrow> string) \<Rightarrow> (string \<times> string) list \<Rightarrow> js \<Rightarrow> string" where
  "detailValue tr json sf names JNull = ''-''"
| "detailValue tr json sf names JUndef = ''-''"
| "detailValue tr json sf names (JArr xs) =
     (if xs \<noteq> [] then join '', '' (map (detailValue tr json sf names) xs) else i18n_t tr ''admin.audit.none'' [])"
| "detailValue tr json sf names (JStr s) =
     (case nonempty (map_of names s) of Some n \<Rightarrow> n @ '' ('' @ s @ '')'' | None \<Rightarrow> s)"
| "detailValue tr json sf names (JObj kvs) = json (JObj kvs)"
| "detailValue tr json sf names v = js_to_string sf v"

text \<open>\<^verbatim>\<open>Object.entries\<close> of an object, or of an array with its indices; of anything else nothing, as the type test demands.\<close>

fun object_entries :: "js \<Rightarrow> (string \<times> js) list" where
  "object_entries (JObj kvs) = kvs"
| "object_entries (JArr xs) = zip (map show_nat [0..<length xs]) xs"
| "object_entries _ = []"

definition changeEntries :: "i18n \<Rightarrow> js \<Rightarrow> (string \<times> js \<times> js) list" where
  "changeEntries tr detail =
     map (\<lambda>(k, v). (detailKeyLabel tr k, js_get ''from'' v, js_get ''to'' v)) (object_entries (js_get ''changes'' detail))"

definition arrow :: string where
  "arrow = [CHR 0xE2, CHR 0x86, CHR 0x92]"

definition changesSummary :: "i18n \<Rightarrow> (js \<Rightarrow> string) \<Rightarrow> (rat \<Rightarrow> string) \<Rightarrow> (string \<times> string) list \<Rightarrow> js \<Rightarrow> string" where
  "changesSummary tr json sf names detail =
     join '', '' (map (\<lambda>(k, f, t). k @ '': '' @ detailValue tr json sf names f @ '' '' @ arrow @ '' '' @ detailValue tr json sf names t)
       (changeEntries tr detail))"

definition targetTypeLabel :: "i18n \<Rightarrow> string option \<Rightarrow> string option \<Rightarrow> string" where
  "targetTypeLabel tr target action =
     (case nonempty target of
        None \<Rightarrow> ''-''
      | Some tg \<Rightarrow>
          if starts_with tg ''GPU-'' then i18n_t tr ''admin.audit.gpuDevice'' []
          else
            let pfx = (if CHR ''_'' \<in> set tg then takeWhile (\<lambda>c. c \<noteq> CHR ''_'') tg else []);
                byPrefix = (if pfx \<noteq> [] \<and> i18n_exists tr (''admin.audit.targetKind.'' @ pfx)
                            then i18n_t tr (''admin.audit.targetKind.'' @ pfx) [] else []);
                domain = takeWhile (\<lambda>c. c \<noteq> CHR ''.'') (str_or action [])
            in if byPrefix \<noteq> [] then byPrefix
               else i18n_t tr (''admin.audit.actionDomain.'' @ domain) [(''defaultValue'', JStr (i18n_t tr ''admin.audit.other'' []))])"

fun str_of :: "js \<Rightarrow> string" where
  "str_of (JStr s) = s"
| "str_of _ = []"

definition target_given :: "AuditRow \<Rightarrow> string" where
  "target_given r = str_or (nonempty (ar_target_name r)) (str_of (js_get ''name'' (ar_detail r)))"

definition middle_dot :: string where
  "middle_dot = [CHR 0xC2, CHR 0xB7]"

definition targetDisplay :: "i18n \<Rightarrow> AuditRow \<Rightarrow> string" where
  "targetDisplay tr r =
     (let kind = targetTypeLabel tr (ar_target r) (Some (ar_action r)) in
      if target_given r \<noteq> [] then kind @ '' '' @ middle_dot @ '' '' @ target_given r else kind)"

definition targetPrimary :: "i18n \<Rightarrow> AuditRow \<Rightarrow> string" where
  "targetPrimary tr r = (if target_given r \<noteq> [] then target_given r else targetTypeLabel tr (ar_target r) (Some (ar_action r)))"

definition actorDisplay :: "AuditRow \<Rightarrow> string" where
  "actorDisplay r =
     (case nonempty (ar_actor_name r) of
        Some n \<Rightarrow> n
      | None \<Rightarrow> if starts_with (str_or (ar_actor_id r) []) ''operator'' then ''Operator'' else ''-'')"

definition result_line :: "i18n \<Rightarrow> string option \<Rightarrow> string" where
  "result_line tr r =
     (let label = fst (resultMeta tr r) in if Some label = r then label else label @ '' ('' @ str_or r ''ok'' @ '')'')"

definition toggle_detail :: "string option \<Rightarrow> string \<Rightarrow> string option" where
  "toggle_detail shown rid = (if shown = Some rid then None else Some rid)"

section \<open>The filter\<close>

definition AUDIT_PAGE_SIZE :: nat where
  "AUDIT_PAGE_SIZE = 20"

definition PERIOD_PRESETS :: "(string \<times> rat) list" where
  "PERIOD_PRESETS = [(''1h'', 1), (''24h'', 24), (''7d'', 24 * 7), (''30d'', 24 * 30)]"

text \<open>The actions the filter offers, by group.\<close>

definition AUDIT_ACTIONS :: "(string \<times> string list) list" where
  "AUDIT_ACTIONS =
     [(''user'', [''user.create'', ''user.bulk_create'', ''user.update'', ''user.change_password'', ''user.delete.soft'',
        ''user.delete.hard'', ''user.global_role.set'']),
      (''org'', [''org.create'', ''org.update'', ''org.delete'', ''org.admin.add'', ''org.admin.remove'']),
      (''group'', [''group.create'', ''group.update'', ''group.delete'', ''membership.create'', ''membership.update'',
        ''membership.delete'']),
      (''credit'', [''credit.topup'', ''credit.adjust'', ''credit.transfer'', ''credit.allocate'', ''credit.set_monthly_grant'',
        ''credit.bulk_allocate'', ''credit.bulk_monthly_grant'', ''credit.allocation_request'',
        ''credit.allocation_approve'', ''credit.allocation_reject'', ''credit.allocation_escalate'',
        ''credit.topup_request.approve'', ''credit.topup_request.reject'', ''credit.refill_schedule.set'']),
      (''budget'', [''budget.create'', ''budget.update'', ''budget.delete'']),
      (''session'', [''session.force_terminate'', ''session.pause'', ''pod.delete'', ''queue.cancel'', ''queue.priority.set'']),
      (''infra'', [''node.register'', ''node.cordon'', ''node.drain'', ''node.delete'', ''node.set_pool'', ''pool.create'',
        ''pool.update'', ''pool.delete'', ''pool.grant'', ''pool.revoke'', ''gpu_device.set_mode'',
        ''gpu_device.set_alias'', ''gpu_pool.set_targets'', ''cluster.register'', ''cluster.update'',
        ''cluster.deregister'', ''cluster.connection_test'']),
      (''catalog'', [''policy.create'', ''policy.update'', ''policy.delete'', ''policy.request'', ''policy.request.approve'',
        ''policy.request.reject'', ''image.create'', ''image.update'', ''image.delete'', ''image.import'',
        ''image.build.create'', ''image.build.finish'', ''session.create'', ''session.start'', ''session.stop'',
        ''session.restart'', ''session.terminate'', ''offering.create'', ''offering.update'', ''offering.delete'',
        ''preset.create'', ''preset.update'', ''preset.delete'']),
      (''storage'', [''storage.volume.delete'', ''storage.volume.force_delete'', ''storage.volume.lock'', ''storage.quota.approve'',
        ''storage.quota.reject'', ''storage.snapshot.restore'', ''storage.snapshot.delete'']),
      (''auth'', [''auth.login'']),
      (''system'', [''webhook.create'', ''webhook.delete'', ''audit.retention'', ''audit.export'', ''system.branding.set'',
        ''system.placement.set''])]"

definition audit_q :: "string \<Rightarrow> params \<Rightarrow> string" where
  "audit_q k ps = str_or (usp_get k ps) []"

definition setQ :: "(string \<times> string) list \<Rightarrow> params \<Rightarrow> params" where
  "setQ changes prev = usp_delete ''page'' (fold change_one (map (\<lambda>(k, v). (k, Some v)) changes) prev)"

definition audit_page_no :: "params \<Rightarrow> jsnum" where
  "audit_page_no ps = page_number (usp_get ''page'' ps)"

definition audit_setPage :: "int \<Rightarrow> params \<Rightarrow> params" where
  "audit_setPage n prev = (if 1 < n then usp_set ''page'' (show_int n) prev else usp_delete ''page'' prev)"

text \<open>A page number as the query string carries it.\<close>

fun query_num :: "jsnum \<Rightarrow> js" where
  "query_num (Fin r) = JNum r"
| "query_num NaN = JStr ''NaN''"
| "query_num PosInf = JStr ''Infinity''"
| "query_num NegInf = JStr ''-Infinity''"

text \<open>\<^verbatim>\<open>toISOString\<close> throws on an invalid date, and the filter is computed while the page renders.\<close>

datatype render_error = RangeError

definition stamp_or_throw :: "(rat \<Rightarrow> string) \<Rightarrow> rat option \<Rightarrow> render_error + js" where
  "stamp_or_throw stamp t = (case t of None \<Rightarrow> Inl RangeError | Some ms \<Rightarrow> Inr (JStr (stamp ms)))"

definition at_gte :: "(rat \<Rightarrow> string) \<Rightarrow> (string \<Rightarrow> rat option) \<Rightarrow> rat \<Rightarrow> params \<Rightarrow> render_error + js" where
  "at_gte stamp midnight now ps =
     (if audit_q ''period'' ps \<noteq> []
      then stamp_or_throw stamp (Some (now - opt_else (map_of PERIOD_PRESETS (audit_q ''period'' ps)) 24 * 3600000))
      else if audit_q ''from'' ps \<noteq> [] then stamp_or_throw stamp (midnight (audit_q ''from'' ps)) else Inr JUndef)"

definition at_lt :: "(rat \<Rightarrow> string) \<Rightarrow> (string \<Rightarrow> rat option) \<Rightarrow> params \<Rightarrow> render_error + js" where
  "at_lt stamp midnight ps =
     (if audit_q ''period'' ps \<noteq> [] then Inr JUndef
      else if audit_q ''to'' ps \<noteq> [] then stamp_or_throw stamp (map_option (\<lambda>m. m + 24 * 3600000) (midnight (audit_q ''to'' ps)))
      else Inr JUndef)"

definition audit_filter ::
  "(rat \<Rightarrow> string) \<Rightarrow> (string \<Rightarrow> rat option) \<Rightarrow> rat \<Rightarrow> string option \<Rightarrow> params \<Rightarrow> render_error + (string \<times> js) list" where
  "audit_filter stamp midnight now clusterId ps =
     (case at_gte stamp midnight now ps of
        Inl e \<Rightarrow> Inl e
      | Inr gte \<Rightarrow>
          (case at_lt stamp midnight ps of
             Inl e \<Rightarrow> Inl e
           | Inr lt \<Rightarrow> Inr
               [(''cluster_id'', js_opt clusterId),
                (''actor_q'', js_opt (nonempty (Some (trim (audit_q ''actor'' ps))))),
                (''action'', js_opt (nonempty (Some (trim (audit_q ''action'' ps))))),
                (''result'', js_opt (nonempty (Some (audit_q ''result'' ps)))),
                (''target'', js_opt (nonempty (Some (trim (audit_q ''target'' ps))))),
                (''at[gte]'', gte), (''at[lt]'', lt),
                (''page'', query_num (audit_page_no ps)), (''size'', JNum 20), (''sort'', JStr ''-at'')]))"

text \<open>The buttons of the pager on a finite page, and whether the filter can be cleared.\<close>

definition audit_prev :: "int \<Rightarrow> int option" where
  "audit_prev page = (if page \<le> 1 then None else Some (max 1 (page - 1)))"

definition audit_next :: "int \<Rightarrow> int \<Rightarrow> int option" where
  "audit_next total_pages page =
     (let totalPages = max 1 total_pages in if totalPages \<le> page then None else Some (min totalPages (page + 1)))"

definition clear_enabled :: "params \<Rightarrow> bool" where
  "clear_enabled ps = list_ex (\<lambda>k. audit_q k ps \<noteq> []) [''actor'', ''action'', ''target'', ''from'', ''to'', ''period'']"

definition audit_filtered :: "params \<Rightarrow> bool" where
  "audit_filtered ps = list_ex (\<lambda>k. audit_q k ps \<noteq> []) [''actor'', ''action'', ''target'', ''result'', ''from'', ''to'', ''period'']"

section \<open>The page\<close>

text \<open>The update a debounced control left behind; only one is pending at a time. The date pickers read their input when the
  timer fires. The update is a closure of the render in which it was started, and changes the address of that render
  (\<open>ap_base\<close>), not the one of the moment the timer fires.\<close>

datatype pending_update = ApplyActor string | ApplyTarget string | ReadFrom | ReadTo | ClearFilters

record audit_page =
  ap_params :: params
  ap_actorText :: string
  ap_targetText :: string
  ap_customPeriod :: bool
  ap_pending :: "pending_update option"
  ap_base :: params

definition audit_open :: "params \<Rightarrow> audit_page" where
  "audit_open ps =
     \<lparr>ap_params = ps, ap_actorText = audit_q ''actor'' ps, ap_targetText = audit_q ''target'' ps,
      ap_customPeriod = (audit_q ''from'' ps \<noteq> [] \<or> audit_q ''to'' ps \<noteq> []), ap_pending = None, ap_base = ps\<rparr>"

text \<open>A new address, and the two effects that copy a changed parameter into its text field.\<close>

definition with_params :: "params \<Rightarrow> audit_page \<Rightarrow> audit_page" where
  "with_params ps p =
     p\<lparr>ap_params := ps,
       ap_actorText := (if audit_q ''actor'' ps \<noteq> audit_q ''actor'' (ap_params p) then audit_q ''actor'' ps else ap_actorText p),
       ap_targetText := (if audit_q ''target'' ps \<noteq> audit_q ''target'' (ap_params p) then audit_q ''target'' ps else ap_targetText p)\<rparr>"

definition set_q :: "(string \<times> string) list \<Rightarrow> audit_page \<Rightarrow> audit_page" where
  "set_q changes p = with_params (setQ changes (ap_params p)) p"

definition set_base :: "(string \<times> string) list \<Rightarrow> audit_page \<Rightarrow> audit_page" where
  "set_base changes p = with_params (setQ changes (ap_base p)) p"

definition applyFilter :: "pending_update \<Rightarrow> audit_page \<Rightarrow> audit_page" where
  "applyFilter u p = p\<lparr>ap_pending := Some u, ap_base := ap_params p\<rparr>"

definition all_cleared :: "(string \<times> string) list" where
  "all_cleared = map (\<lambda>k. (k, [])) [''actor'', ''action'', ''target'', ''result'', ''from'', ''to'', ''period'']"

text \<open>\<open>held\<close> is what the two date inputs hold when the timer fires.\<close>

fun apply_pending :: "(string \<Rightarrow> string) \<Rightarrow> pending_update \<Rightarrow> audit_page \<Rightarrow> audit_page" where
  "apply_pending held (ApplyActor v) p = set_base [(''actor'', v)] p"
| "apply_pending held (ApplyTarget v) p = set_base [(''target'', v)] p"
| "apply_pending held ReadFrom p = set_base [(''from'', held ''from'')] p"
| "apply_pending held ReadTo p = set_base [(''to'', held ''to'')] p"
| "apply_pending held ClearFilters p = (set_base all_cleared p)\<lparr>ap_customPeriod := False\<rparr>"

datatype audit_event =
    TypeActor string | TypeTarget string | PickAction string | PickResult string | PressPreset string
  | PressCustom | PickFrom | PickTo | PressClear | PressEmptyClear | GoToPage int | Elapse "string \<Rightarrow> string"

fun audit_step :: "audit_page \<Rightarrow> audit_event \<Rightarrow> audit_page" where
  "audit_step p (TypeActor v) = applyFilter (ApplyActor v) (p\<lparr>ap_actorText := v\<rparr>)"
| "audit_step p (TypeTarget v) = applyFilter (ApplyTarget v) (p\<lparr>ap_targetText := v\<rparr>)"
| "audit_step p (PickAction v) = set_q [(''action'', v)] p"
| "audit_step p (PickResult v) = set_q [(''result'', v)] p"
| "audit_step p (PressPreset k) =
     (set_q [(''period'', if audit_q ''period'' (ap_params p) = k then [] else k), (''from'', []), (''to'', [])] p)\<lparr>ap_customPeriod := False\<rparr>"
| "audit_step p PressCustom =
     (if \<not> ap_customPeriod p then (set_q [(''period'', [])] p)\<lparr>ap_customPeriod := True\<rparr> else p\<lparr>ap_customPeriod := False\<rparr>)"
| "audit_step p PickFrom = (if ap_customPeriod p then applyFilter ReadFrom p else p)"
| "audit_step p PickTo = (if ap_customPeriod p then applyFilter ReadTo p else p)"
| "audit_step p PressClear = (if clear_enabled (ap_params p) then applyFilter ClearFilters p else p)"
| "audit_step p PressEmptyClear = (if audit_filtered (ap_params p) then applyFilter ClearFilters p else p)"
| "audit_step p (GoToPage n) = with_params (audit_setPage n (ap_params p)) p"
| "audit_step p (Elapse held) = (case ap_pending p of None \<Rightarrow> p | Some u \<Rightarrow> apply_pending held u (p\<lparr>ap_pending := None\<rparr>))"

section \<open>The fields and the address\<close>

lemma audit_q_setQ:
  "k \<noteq> ''page'' \<Longrightarrow> audit_q k (setQ cs ps) = (case map_of (rev cs) k of None \<Rightarrow> audit_q k ps | Some v \<Rightarrow> v)"
proof -
  assume k: "k \<noteq> ''page''"
  have "map_of (rev (map (\<lambda>(k, v). (k, Some v)) cs)) k = map_option Some (map_of (rev cs) k)" for cs :: "(string \<times> string) list"
    unfolding rev_map map_of_map [symmetric] by (simp add: map_of_map)
  then show ?thesis using k
    by (cases "map_of (rev cs) k") (simp_all add: audit_q_def setQ_def usp_get_delete get_change_fold nonempty_def)
qed

lemma audit_page_setQ: "audit_page_no (setQ cs ps) = Fin 1"
  by (simp add: audit_page_no_def setQ_def usp_get_delete)

lemma audit_q_setPage: "k \<noteq> ''page'' \<Longrightarrow> audit_q k (audit_setPage n ps) = audit_q k ps"
  by (simp add: audit_q_def audit_setPage_def usp_get_set usp_get_delete)

text \<open>The control a debounced event belongs to. Calm use never starts a second control while the update of another is pending.\<close>

datatype control = ActorField | TargetField | FromPicker | ToPicker | ClearButton

fun pending_control :: "pending_update \<Rightarrow> control" where
  "pending_control (ApplyActor v) = ActorField"
| "pending_control (ApplyTarget v) = TargetField"
| "pending_control ReadFrom = FromPicker"
| "pending_control ReadTo = ToPicker"
| "pending_control ClearFilters = ClearButton"

fun event_control :: "audit_event \<Rightarrow> control option" where
  "event_control (TypeActor v) = Some ActorField"
| "event_control (TypeTarget v) = Some TargetField"
| "event_control PickFrom = Some FromPicker"
| "event_control PickTo = Some ToPicker"
| "event_control PressClear = Some ClearButton"
| "event_control PressEmptyClear = Some ClearButton"
| "event_control _ = None"

definition calm :: "audit_page \<Rightarrow> audit_event \<Rightarrow> bool" where
  "calm p e = (ap_pending p = None \<or> event_control e = None \<or> map_option pending_control (ap_pending p) = event_control e)"

definition audit_moves :: "audit_page \<Rightarrow> audit_page \<Rightarrow> bool" where
  "audit_moves p q = (\<exists>e. calm p e \<and> q = audit_step p e)"

definition fields_inv :: "audit_page \<Rightarrow> bool" where
  "fields_inv p =
     (ap_actorText p = (case ap_pending p of Some (ApplyActor v) \<Rightarrow> v | _ \<Rightarrow> audit_q ''actor'' (ap_params p)) \<and>
      ap_targetText p = (case ap_pending p of Some (ApplyTarget v) \<Rightarrow> v | _ \<Rightarrow> audit_q ''target'' (ap_params p)) \<and>
      (ap_pending p \<noteq> None \<longrightarrow> audit_q ''actor'' (ap_base p) = audit_q ''actor'' (ap_params p) \<and>
         audit_q ''target'' (ap_base p) = audit_q ''target'' (ap_params p)))"

lemmas page_simps = set_q_def set_base_def applyFilter_def with_params_def audit_q_setQ audit_q_setPage

lemma fields_inv_step:
  assumes "fields_inv p" and "calm p e"
  shows "fields_inv (audit_step p e)"
proof (cases e)
  case (Elapse held)
  show ?thesis
  proof (cases "ap_pending p")
    case (Some u)
    then show ?thesis using assms unfolding Elapse by (cases u) (auto simp: fields_inv_def page_simps all_cleared_def)
  qed (use assms Elapse in simp)
qed (use assms in \<open>auto simp: fields_inv_def calm_def page_simps split: option.splits pending_update.splits\<close>)

interpretation audit_use: inductive_invariant "audit_open ps" audit_moves fields_inv for ps
proof
  show "fields_inv (audit_open ps)" by (simp add: fields_inv_def audit_open_def)
  show "fields_inv q" if "fields_inv p" "audit_moves p q" for p q
    using that fields_inv_step by (auto simp: audit_moves_def)
qed

text \<open>C39: The text fields of the audit filter. As long as the user lets one debounced control settle before using another, a field
  without a pending update shows exactly the filter that is applied, and every change of the filter starts again on the first
  page. A second control used within the delay discards the pending update of the first: the field then shows a text that is not
  applied and never will be.\<close>

theorem audit_fields_applied:
  assumes "reach (audit_open ps) audit_moves p"
  shows "(ap_pending p = None \<longrightarrow>
      ap_actorText p = audit_q ''actor'' (ap_params p) \<and> ap_targetText p = audit_q ''target'' (ap_params p)) \<and>
    (ap_params (audit_step p e) \<noteq> ap_params p \<and> (\<forall>n. e \<noteq> GoToPage n) \<longrightarrow> audit_page_no (ap_params (audit_step p e)) = Fin 1) \<and>
    (let q = foldl audit_step (audit_open []) [TypeActor v, TypeTarget w, Elapse held, Elapse held] in
      ap_pending q = None \<and> ap_actorText q = v \<and> audit_q ''actor'' (ap_params q) = [] \<and> audit_q ''target'' (ap_params q) = w)"
proof (intro conjI impI)
  have "fields_inv p" by (rule audit_use.inv_reach [OF assms])
  then show "ap_actorText p = audit_q ''actor'' (ap_params p)" "ap_targetText p = audit_q ''target'' (ap_params p)"
    if "ap_pending p = None" using that by (simp_all add: fields_inv_def)
  show "audit_page_no (ap_params (audit_step p e)) = Fin 1"
    if "ap_params (audit_step p e) \<noteq> ap_params p \<and> (\<forall>n. e \<noteq> GoToPage n)"
  proof (cases e)
    case (Elapse held)
    then show ?thesis using that
      by (cases "ap_pending p"; cases "the (ap_pending p)") (simp_all add: set_base_def with_params_def audit_page_setQ)
  qed (use that in \<open>auto simp: set_q_def applyFilter_def with_params_def audit_page_setQ split: if_splits\<close>)
  have "audit_q k [] = []" for k by (simp add: audit_q_def usp_get_def)
  then show "let q = foldl audit_step (audit_open []) [TypeActor v, TypeTarget w, Elapse held, Elapse held] in
      ap_pending q = None \<and> ap_actorText q = v \<and> audit_q ''actor'' (ap_params q) = [] \<and> audit_q ''target'' (ap_params q) = w"
    by (simp add: audit_open_def page_simps)
qed

theorem audit_fields_applied_witness:
  "ap_actorText (audit_open [(''actor'', ''kim'')]) = audit_q ''actor'' [(''actor'', ''kim'')] \<and>
   (let q = foldl audit_step (audit_open []) [TypeActor ''kim'', TypeTarget ''ses_1'', Elapse (\<lambda>_. []), Elapse (\<lambda>_. [])] in
      ap_actorText q = ''kim'' \<and> audit_q ''actor'' (ap_params q) = [])"
  using audit_fields_applied [OF reach.reach_init, where ps = "[(''actor'', ''kim'')]" and e = PressCustom and v = "''kim''"
      and w = "''ses_1''" and held = "\<lambda>_. []"]
  unfolding Let_def by (simp add: audit_open_def)

text \<open>A select changed while a text is pending is lost: the timer applies the text to the address of the keystroke, in which the
  select still had its old value.\<close>

theorem pending_text_reverts_select:
  "let q = foldl audit_step (audit_open []) [TypeActor v, PickAction a, Elapse held] in
     audit_q ''action'' (ap_params (foldl audit_step (audit_open []) [TypeActor v, PickAction a])) = a \<and>
     audit_q ''action'' (ap_params q) = [] \<and> audit_q ''actor'' (ap_params q) = v"
proof -
  have "audit_q k [] = []" for k by (simp add: audit_q_def usp_get_def)
  then show ?thesis by (simp add: audit_open_def page_simps)
qed

section \<open>The period\<close>

text \<open>Use of the page in which an input bound to the address holds the value of the address whenever a timer fires.\<close>

definition controlled_moves :: "audit_page \<Rightarrow> audit_page \<Rightarrow> bool" where
  "controlled_moves p q =
     (\<exists>e. (\<forall>held. e = Elapse held \<longrightarrow> (\<forall>k. held k = audit_q k (ap_params p))) \<and> q = audit_step p e)"

lemma range_step:
  assumes "\<forall>held. e = Elapse held \<longrightarrow> (\<forall>k. held k = audit_q k (ap_params p))" and "k \<in> {''from'', ''to''}"
  shows "audit_q k (ap_params (audit_step p e)) \<in> {[], audit_q k (ap_params p), audit_q k (ap_base p)} \<and>
    audit_q k (ap_base (audit_step p e)) \<in> {audit_q k (ap_params p), audit_q k (ap_base p)}"
proof (cases e)
  case (Elapse held)
  show ?thesis
  proof (cases "ap_pending p")
    case (Some u)
    then show ?thesis using assms unfolding Elapse by (cases u) (auto simp: page_simps all_cleared_def)
  qed (use Elapse in simp)
qed (use assms in \<open>auto simp: page_simps\<close>)

text \<open>A custom range can never be chosen on this page. The date pickers are bound to the address, which does not change while the
  update is pending, so when the timer fires (React keeps a controlled input at its bound value) the picker holds the old date
  again: along every run the two dates are those the page was opened with, or none.\<close>

theorem custom_range_inert:
  assumes "reach (audit_open ps) controlled_moves p" and "k \<in> {''from'', ''to''}"
  shows "audit_q k (ap_params p) \<in> {[], audit_q k ps}"
proof -
  have "audit_q k (ap_params p) \<in> {[], audit_q k ps} \<and> audit_q k (ap_base p) \<in> {[], audit_q k ps}"
    using assms(1)
  proof (induction rule: reach.induct)
    case (reach_step s t)
    then obtain e where "\<forall>held. e = Elapse held \<longrightarrow> (\<forall>k. held k = audit_q k (ap_params s))" "t = audit_step s e"
      by (auto simp: controlled_moves_def)
    then show ?case using range_step [OF _ assms(2), of e s] reach_step.IH by auto
  qed (simp add: audit_open_def)
  then show ?thesis by blast
qed

theorem custom_range_inert_witness:
  "audit_q ''from'' (ap_params (foldl audit_step (audit_open []) [PressCustom, PickFrom, Elapse (\<lambda>_. [])])) = []"
proof -
  let ?p1 = "audit_step (audit_open []) PressCustom"
  let ?p2 = "audit_step ?p1 PickFrom"
  have e: "audit_q k (ap_params ?p2) = []" for k
    by (cases "k = ''period''"; cases "k = ''page''")
      (simp_all add: audit_open_def page_simps audit_q_def usp_get_def setQ_def change_one_def nonempty_def usp_delete_def)
  have 1: "reach (audit_open []) controlled_moves ?p1"
    by (rule reach_step [OF reach_init]) (auto simp: controlled_moves_def intro!: exI [of _ PressCustom])
  have 2: "reach (audit_open []) controlled_moves ?p2"
    by (rule reach_step [OF 1]) (auto simp: controlled_moves_def intro!: exI [of _ PickFrom])
  have 3: "reach (audit_open []) controlled_moves (audit_step ?p2 (Elapse (\<lambda>_. [])))"
    by (rule reach_step [OF 2]) (unfold controlled_moves_def, intro exI [of _ "Elapse (\<lambda>_. [])"] conjI refl, simp add: e del: audit_step.simps)
  have n: "audit_q ''from'' [] = []" by (simp add: audit_q_def usp_get_def)
  show ?thesis using custom_range_inert [OF 3, of "''from''"] unfolding n by simp
qed

lemma audit_filter_throws:
  "audit_filter stamp midnight now cl ps = Inl RangeError \<longleftrightarrow>
     at_gte stamp midnight now ps = Inl RangeError \<or> at_lt stamp midnight ps = Inl RangeError"
  by (auto simp: audit_filter_def split: sum.splits) (metis render_error.exhaust)+

lemma audit_filter_parts:
  "audit_filter stamp midnight now cl ps = Inr flt \<Longrightarrow>
     \<exists>g l. at_gte stamp midnight now ps = Inr g \<and> at_lt stamp midnight ps = Inr l \<and>
       map_of flt ''at[gte]'' = Some g \<and> map_of flt ''at[lt]'' = Some l \<and>
       map_of flt ''page'' = Some (query_num (audit_page_no ps)) \<and> map_of flt ''cluster_id'' = Some (js_opt cl)"
  by (auto simp: audit_filter_def split: sum.splits)

text \<open>The window that is asked for. A preset reaches back from the clock and has no end, an unknown one is a day; a range starts at
  the midnight of its first day and ends a day of 24 hours after the midnight of its last. A date in the address that cannot be
  read does not show an empty list: computing the filter throws while the page renders, and nothing is shown.\<close>

theorem audit_window:
  "(audit_filter stamp midnight now cl ps = Inl RangeError \<longleftrightarrow>
      audit_q ''period'' ps = [] \<and> (\<exists>k \<in> {''from'', ''to''}. audit_q k ps \<noteq> [] \<and> midnight (audit_q k ps) = None)) \<and>
   (audit_filter stamp midnight now cl ps = Inr flt \<longrightarrow>
      (let win = (map_of flt ''at[gte]'', map_of flt ''at[lt]'') in
       if audit_q ''period'' ps \<noteq> [] then
         \<exists>h. h \<in> {1, 24, 7 * 24, 30 * 24} \<and> win = (Some (JStr (stamp (now - h * 3600000))), Some JUndef)
       else win =
         (Some (if audit_q ''from'' ps = [] then JUndef else JStr (stamp (the (midnight (audit_q ''from'' ps))))),
          Some (if audit_q ''to'' ps = [] then JUndef else JStr (stamp (the (midnight (audit_q ''to'' ps)) + 86400000))))) \<and>
      map_of flt ''page'' = Some (query_num (audit_page_no ps)) \<and> map_of flt ''cluster_id'' = Some (js_opt cl))"
proof (intro conjI impI)
  show "audit_filter stamp midnight now cl ps = Inl RangeError \<longleftrightarrow>
      audit_q ''period'' ps = [] \<and> (\<exists>k \<in> {''from'', ''to''}. audit_q k ps \<noteq> [] \<and> midnight (audit_q k ps) = None)"
    unfolding audit_filter_throws by (auto simp: at_gte_def at_lt_def stamp_or_throw_def split: option.splits)
  assume "audit_filter stamp midnight now cl ps = Inr flt"
  from audit_filter_parts [OF this] obtain g l where gl: "at_gte stamp midnight now ps = Inr g" "at_lt stamp midnight ps = Inr l"
    and flt: "map_of flt ''at[gte]'' = Some g" "map_of flt ''at[lt]'' = Some l" "map_of flt ''page'' = Some (query_num (audit_page_no ps))"
      "map_of flt ''cluster_id'' = Some (js_opt cl)" by blast
  show "map_of flt ''page'' = Some (query_num (audit_page_no ps))" "map_of flt ''cluster_id'' = Some (js_opt cl)" by (fact flt)+
  show "let win = (map_of flt ''at[gte]'', map_of flt ''at[lt]'') in
       if audit_q ''period'' ps \<noteq> [] then
         \<exists>h. h \<in> {1, 24, 7 * 24, 30 * 24} \<and> win = (Some (JStr (stamp (now - h * 3600000))), Some JUndef)
       else win =
         (Some (if audit_q ''from'' ps = [] then JUndef else JStr (stamp (the (midnight (audit_q ''from'' ps))))),
          Some (if audit_q ''to'' ps = [] then JUndef else JStr (stamp (the (midnight (audit_q ''to'' ps)) + 86400000))))"
  proof (cases "audit_q ''period'' ps = []")
    case True
    then show ?thesis using gl unfolding flt by (auto simp: at_gte_def at_lt_def stamp_or_throw_def split: option.splits if_splits)
  next
    case False
    let ?h = "opt_else (map_of PERIOD_PRESETS (audit_q ''period'' ps)) 24"
    have "?h \<in> {1, 24, 7 * 24, 30 * 24}" by (simp add: PERIOD_PRESETS_def opt_else_def)
    moreover have "g = JStr (stamp (now - ?h * 3600000))" "l = JUndef"
      using False gl by (simp_all add: at_gte_def at_lt_def stamp_or_throw_def)
    ultimately show ?thesis using False unfolding flt Let_def by (simp only: if_True not_False_eq_True) blast
  qed
qed

theorem audit_window_witness:
  "audit_filter (\<lambda>_. []) (\<lambda>_. None) 0 None [(''from'', ''soon'')] = Inl RangeError"
  using audit_window [where stamp = "\<lambda>_. []" and midnight = "\<lambda>_. None" and now = 0 and cl = None and ps = "[(''from'', ''soon'')]" and flt = "[]"]
  by (simp add: audit_q_def usp_get_def)

section \<open>Results, actions and clearing\<close>

text \<open>The colours of the known results agree with the rule for unknown ones: red exactly for those that read as a failure.\<close>

lemma result_tones_consistent: "list_all (\<lambda>(c, _, tone). tone = ''bg-danger-soft text-danger'' \<longleftrightarrow> reads_failed c) RESULT_TONES"
  by code_simp

lemma result_reads_failed:
  "snd (resultMeta tr (Some c)) = ''bg-danger-soft text-danger'' \<longleftrightarrow> c \<noteq> [] \<and> reads_failed c"
proof (cases "c = []")
  case False
  then show ?thesis
    using result_tones_consistent
    by (auto simp: resultMeta_def list_all_iff nonempty_def split: option.splits dest: map_of_SomeD)
qed (simp add: resultMeta_def nonempty_def)

lemma audit_actions_distinct: "distinct (concat (map snd AUDIT_ACTIONS))"
  by code_simp

text \<open>The clear button is dead when the result is the only filter, and closing the custom range keeps its dates applied.\<close>

lemma clear_ignores_result:
  "audit_filtered ps \<and> \<not> clear_enabled ps \<longleftrightarrow>
     audit_q ''result'' ps \<noteq> [] \<and> (\<forall>k \<in> {''actor'', ''action'', ''target'', ''from'', ''to'', ''period''}. audit_q k ps = [])"
  by (auto simp: audit_filtered_def clear_enabled_def)

lemma closing_custom_keeps_range: "ap_customPeriod p \<Longrightarrow> ap_params (audit_step p PressCustom) = ap_params p"
  by simp

lemma audit_pager_in_range:
  "audit_prev page = Some n \<Longrightarrow> 1 \<le> n \<and> n < page" "audit_next tot page = Some n \<Longrightarrow> page < n \<and> n \<le> max 1 tot"
  by (auto simp: audit_prev_def audit_next_def Let_def split: if_splits)

end
