(* ===== verification/Session_Tier.thy ===== *)
theory Session_Tier
  imports Js_Number
begin

text \<open>
  GPU tiers and what they occupy (\<^verbatim>\<open>features/session/tier.ts\<close>), CUDA versions (\<^verbatim>\<open>lib/cuda.ts\<close>), and the rules of the
  scheduler these mirror (\<^verbatim>\<open>backend/app/domain/scheduler.py\<close>, \<^verbatim>\<open>core/cuda.py\<close>).
\<close>

section \<open>Tiers\<close>

definition GPU_FALLBACK_MB :: rat where
  "GPU_FALLBACK_MB = 24576"

datatype gpu_mode = Fractional | Exclusive

record GpuTier =
  gt_id :: string
  gt_frac :: rat
  gt_mode :: gpu_mode
  gt_name :: "string option"
  gt_nameKey :: "string option"
  gt_hintKey :: "string option"

definition GPU_TIERS :: "GpuTier list" where
  "GPU_TIERS =
     [\<lparr>gt_id = ''s'', gt_frac = 1 / 8, gt_mode = Fractional, gt_name = None, gt_nameKey = Some ''tier.s'', gt_hintKey = Some ''tier.sHint''\<rparr>,
      \<lparr>gt_id = ''m'', gt_frac = 1 / 4, gt_mode = Fractional, gt_name = None, gt_nameKey = Some ''tier.m'', gt_hintKey = Some ''tier.mHint''\<rparr>,
      \<lparr>gt_id = ''l'', gt_frac = 1 / 2, gt_mode = Fractional, gt_name = None, gt_nameKey = Some ''tier.l'', gt_hintKey = Some ''tier.lHint''\<rparr>,
      \<lparr>gt_id = ''x'', gt_frac = 1, gt_mode = Exclusive, gt_name = None, gt_nameKey = Some ''tier.x'', gt_hintKey = Some ''tier.xHint''\<rparr>]"

definition tierVram :: "rat \<Rightarrow> rat \<Rightarrow> gpu_mode \<Rightarrow> rat" where
  "tierVram fr modelMem mode =
     (if mode = Exclusive then modelMem else max 512 (of_int \<lfloor>modelMem * fr / 512\<rfloor> * 512))"

definition tierCores :: "rat \<Rightarrow> rat" where
  "tierCores fr = min 100 (max 5 (of_int (js_round (fr * 100))))"

definition tierOccupancy :: "rat \<Rightarrow> rat \<Rightarrow> rat \<Rightarrow> int" where
  "tierOccupancy vram cores modelMem = js_round (max (vram / modelMem) (cores / 100) * 100)"

definition gbLabel :: "rat \<Rightarrow> string" where
  "gbLabel mb =
     (let gb = mb / 1024 in if gb = of_int \<lfloor>gb\<rfloor> then show_int \<lfloor>gb\<rfloor> @ ''GB'' else to_fixed 1 gb @ ''GB'')"

definition isImbalanced :: "rat \<Rightarrow> rat \<Rightarrow> rat \<Rightarrow> bool" where
  "isImbalanced vram cores modelMem =
     (let memFrac = vram / modelMem; coreFrac = cores / 100; hi = max memFrac coreFrac;
          lo = max (min memFrac coreFrac) (5 / 100)
      in 2 * lo < hi)"

text \<open>The scheduler's check of a fractional allocation, with its default settings (minimum 1024 MB, tolerance 2, floor 0.05).\<close>

datatype balance_error = VramBelowMinimum | ImbalancedAllocation

definition GPU_MIN_FRACTIONAL_MEM_MB :: rat where
  "GPU_MIN_FRACTIONAL_MEM_MB = 1024"

definition GPU_BALANCE_TOLERANCE :: rat where
  "GPU_BALANCE_TOLERANCE = 2"

definition GPU_BALANCE_FLOOR :: rat where
  "GPU_BALANCE_FLOOR = 5 / 100"

definition validate_balance :: "rat \<Rightarrow> rat \<Rightarrow> rat \<Rightarrow> balance_error + unit" where
  "validate_balance mem_mb cores ref_mem =
     (if mem_mb < GPU_MIN_FRACTIONAL_MEM_MB then Inl VramBelowMinimum
      else
        (let mem_frac = mem_mb / ref_mem; core_frac = cores / 100; hi = max mem_frac core_frac;
             lo = max (min mem_frac core_frac) GPU_BALANCE_FLOOR
         in if GPU_BALANCE_TOLERANCE * lo < hi then Inl ImbalancedAllocation else Inr ()))"

section \<open>CUDA versions\<close>

text \<open>The match of \<^verbatim>\<open>/^(\d+)(?:\.(\d+))?/\<close> on the trimmed text.\<close>

definition parseCuda :: "string option \<Rightarrow> (int \<times> int) option" where
  "parseCuda v =
     (if \<not> str_truthy v then None
      else
        (let s = trim (the v); major = takeWhile is_digit s; rest = dropWhile is_digit s;
             minor = (case rest of c # q \<Rightarrow> if c = CHR ''.'' then takeWhile is_digit q else [] | [] \<Rightarrow> [])
         in if major = [] then None else Some (int (nat_of_digits major), int (nat_of_digits minor))))"

definition version_le :: "int \<times> int \<Rightarrow> int \<times> int \<Rightarrow> bool" where
  "version_le m i = (fst m < fst i \<or> (fst i = fst m \<and> snd m \<le> snd i))"

definition cudaCompatible :: "string option \<Rightarrow> string option \<Rightarrow> bool" where
  "cudaCompatible imageCuda minCuda =
     (case (parseCuda imageCuda, parseCuda minCuda) of (Some iv, Some mv) \<Rightarrow> version_le mv iv | _ \<Rightarrow> True)"

text \<open>The server's reading of a version. Python's \<^verbatim>\<open>int\<close> takes white space around, one sign, and digits with single
  underscores between them; anything else raises, which the caller turns into no version.\<close>

definition py_int :: "string \<Rightarrow> int option" where
  "py_int s =
     (let t = trim s; neg = (take 1 t = ''-''); b = (if take 1 t \<in> {''-'', ''+''} then drop 1 t else t); groups = split_on (CHR ''_'') b
      in if list_all (\<lambda>g. g \<noteq> [] \<and> list_all is_digit g) groups
         then Some ((if neg then -1 else 1) * int (nat_of_digits (concat groups))) else None)"

definition parse_cuda :: "string option \<Rightarrow> (int \<times> int) option" where
  "parse_cuda v =
     (if \<not> str_truthy v then None
      else
        (let parts = split_on (CHR ''.'') (trim (the v)) in
         case py_int (hd parts) of
           None \<Rightarrow> None
         | Some major \<Rightarrow>
             if 1 < length parts \<and> parts ! 1 \<noteq> []
             then map_option (Pair major) (py_int (parts ! 1))
             else Some (major, 0)))"

definition cuda_compatible :: "string option \<Rightarrow> string option \<Rightarrow> bool" where
  "cuda_compatible image_cuda min_cuda =
     (case (parse_cuda image_cuda, parse_cuda min_cuda) of (Some iv, Some mv) \<Rightarrow> version_le mv iv | _ \<Rightarrow> True)"

section \<open>Tiers fit a card and pass the scheduler\<close>

lemma snap_le: "of_int \<lfloor>x / 512\<rfloor> * 512 \<le> (x :: rat)"
proof -
  have "of_int \<lfloor>x / 512\<rfloor> \<le> x / 512" by (rule of_int_floor_le)
  then show ?thesis by linarith
qed

lemma snap_two_thirds:
  assumes "1024 \<le> (x :: rat)"
  shows "1024 \<le> of_int \<lfloor>x / 512\<rfloor> * (512 :: rat)" and "2 / 3 * x \<le> of_int \<lfloor>x / 512\<rfloor> * 512"
proof -
  have two: "2 \<le> \<lfloor>x / 512\<rfloor>" using assms by (simp add: le_floor_iff)
  then have "(2 :: rat) \<le> of_int \<lfloor>x / 512\<rfloor>" by linarith
  then show "1024 \<le> of_int \<lfloor>x / 512\<rfloor> * (512 :: rat)" by linarith
  have "x / 512 < of_int \<lfloor>x / 512\<rfloor> + 1" by linarith
  then show "2 / 3 * x \<le> of_int \<lfloor>x / 512\<rfloor> * 512" using \<open>(2 :: rat) \<le> of_int \<lfloor>x / 512\<rfloor>\<close> by linarith
qed

lemma cores_near:
  assumes "0 < fr" and "fr \<le> 1"
  shows "tierCores fr / 100 \<le> max (5 / 100) (fr + 5 / 1000)" and "fr - 5 / 1000 \<le> tierCores fr / 100" and "5 / 100 \<le> tierCores fr / 100"
proof -
  have r: "of_int (js_round (fr * 100)) \<le> fr * 100 + 1 / 2" "fr * 100 - 1 / 2 \<le> of_int (js_round (fr * 100))"
    unfolding js_round_def by linarith+
  show "tierCores fr / 100 \<le> max (5 / 100) (fr + 5 / 1000)" using r by (auto simp: tierCores_def min_def max_def)
  show "fr - 5 / 1000 \<le> tierCores fr / 100" using r assms by (auto simp: tierCores_def min_def max_def)
  show "5 / 100 \<le> tierCores fr / 100" by (auto simp: tierCores_def min_def max_def)
qed

lemma tier_shares:
  assumes "0 < fr" and "fr \<le> 1" and "1024 \<le> modelMem * fr" and "0 < modelMem"
  shows "tierVram fr modelMem Fractional / modelMem \<le> fr" and "2 / 3 * fr \<le> tierVram fr modelMem Fractional / modelMem"
    and "1024 \<le> tierVram fr modelMem Fractional"
proof -
  have v: "tierVram fr modelMem Fractional = of_int \<lfloor>modelMem * fr / 512\<rfloor> * 512"
    using snap_two_thirds(1) [OF assms(3)] by (simp add: tierVram_def max_def)
  show "1024 \<le> tierVram fr modelMem Fractional" unfolding v by (rule snap_two_thirds(1) [OF assms(3)])
  show "tierVram fr modelMem Fractional / modelMem \<le> fr"
    using snap_le [of "modelMem * fr"] assms(4) unfolding v by (simp add: pos_divide_le_eq mult.commute)
  show "2 / 3 * fr \<le> tierVram fr modelMem Fractional / modelMem"
    using snap_two_thirds(2) [OF assms(3)] assms(4) unfolding v by (simp add: pos_le_divide_eq mult.commute mult.left_commute)
qed

lemma shares_balanced:
  fixes m c f :: rat
  assumes "m \<le> f" and "2 / 3 * f \<le> m" and "c \<le> max (5 / 100) (f + 5 / 1000)" and "f - 5 / 1000 \<le> c" and "5 / 100 \<le> c"
  shows "max m c \<le> 2 * max (min m c) (5 / 100)"
proof -
  have "m \<le> 2 * c" using assms(1,4,5) by linarith
  moreover have "c \<le> 2 * max m (5 / 100)"
  proof (cases "5 / 100 \<le> f + 5 / 1000")
    case True
    then have "c \<le> f + 5 / 1000" using assms(3) by simp
    then have "c \<le> 2 * m" using assms(2) True by linarith
    then show ?thesis by simp
  next
    case False
    then have "c \<le> 5 / 100" using assms(3) by simp
    then show ?thesis by linarith
  qed
  ultimately show ?thesis by (cases "m \<le> c") (simp_all add: max_def min_def)
qed

text \<open>C20: Every tier the wizard offers is one the scheduler accepts. A fractional tier of a share up to the whole card, whose
  memory before rounding is at least 1024 MB, becomes an allocation the balance check passes when it judges it against
  the same card; and as many tiers of one n-th as the card has parts fit on it together.\<close>

theorem tiers_accepted:
  assumes "0 < fr" and "fr \<le> 1" and "1024 \<le> modelMem * fr" and "0 < modelMem"
  shows "validate_balance (tierVram fr modelMem Fractional) (tierCores fr) modelMem = Inr () \<and>
    \<not> isImbalanced (tierVram fr modelMem Fractional) (tierCores fr) modelMem \<and>
    (fr = 1 / of_nat n \<longrightarrow> of_nat n * tierVram fr modelMem Fractional \<le> modelMem)"
proof -
  note shares = tier_shares [OF assms] and cores = cores_near [OF assms(1,2)]
  let ?m = "tierVram fr modelMem Fractional / modelMem" and ?c = "tierCores fr / 100"
  have "max ?m ?c \<le> 2 * max (min ?m ?c) (5 / 100)"
    by (rule shares_balanced [OF shares(1,2) cores])
  moreover have "of_nat n * tierVram fr modelMem Fractional \<le> modelMem" if "fr = 1 / of_nat n"
  proof -
    have "tierVram fr modelMem Fractional \<le> modelMem * fr" using shares(1) assms(4) by (simp add: pos_divide_le_eq mult.commute)
    moreover have "n \<noteq> 0" using that assms(1) by (cases n) auto
    ultimately show ?thesis using that by (simp add: pos_le_divide_eq mult.commute)
  qed
  ultimately show ?thesis
    using shares(3) by (auto simp: validate_balance_def isImbalanced_def GPU_MIN_FRACTIONAL_MEM_MB_def
        GPU_BALANCE_TOLERANCE_def GPU_BALANCE_FLOOR_def Let_def not_less)
qed

theorem tiers_accepted_witness:
  "validate_balance (tierVram (1 / 2) 48935 Fractional) (tierCores (1 / 2)) 48935 = Inr () \<and>
   of_nat 2 * tierVram (1 / 2) 48935 Fractional \<le> 48935"
  using tiers_accepted [of "1 / 2" 48935 2] by simp

section \<open>The console and the server agree on versions\<close>

text \<open>A version as administrators write it: unset, or a major number with an optional minor one.\<close>

fun plain_version :: "string option \<Rightarrow> bool" where
  "plain_version None = True"
| "plain_version (Some s) =
     (s = [] \<or> list_all (\<lambda>p. p \<noteq> [] \<and> list_all is_digit p) (split_on (CHR ''.'') s) \<and> length (split_on (CHR ''.'') s) \<le> 2)"

lemma py_int_digits:
  assumes "ds \<noteq> []" and "list_all is_digit ds"
  shows "py_int ds = Some (int (nat_of_digits ds))"
proof -
  have "trim ds = ds" using assms digits_not_space by (intro trim_no_space) (auto simp: list_all_iff)
  moreover have "CHR ''_'' \<notin> set ds" "hd ds \<notin> {CHR ''-'', CHR ''+''}"
    using assms by (cases ds, auto simp: list_all_iff is_digit_def)+
  moreover have "take 1 ds = [hd ds]" using assms(1) by (cases ds) auto
  ultimately show ?thesis using assms by (simp add: py_int_def Let_def split_on_nosep)
qed

lemma parse_plain:
  assumes "plain_version v"
  shows "parse_cuda v = parseCuda v"
proof (cases "str_truthy v")
  case True
  then obtain s where s: "v = Some s" "s \<noteq> []" by (cases v) auto
  let ?parts = "split_on (CHR ''.'') s"
  have parts: "list_all (\<lambda>p. p \<noteq> [] \<and> list_all is_digit p) ?parts" "length ?parts \<le> 2" using assms s by auto
  have join: "join ''.'' ?parts = s" by (rule join_split_on)
  consider a where "?parts = [a]" | a b where "?parts = [a, b]"
    using parts(2) split_on_not_Nil [of "CHR ''.''" s] by (cases ?parts rule: remdups_adj.cases) (auto simp: length_Suc_conv le_Suc_eq)
  then show ?thesis
  proof cases
    case (1 a)
    then have a: "s = a" "a \<noteq> []" "list_all is_digit a" using parts join by auto
    then have "trim a = a" using digits_not_space by (intro trim_no_space) (auto simp: list_all_iff)
    moreover have span: "takeWhile is_digit a = a" "dropWhile is_digit a = []" using digits_span [of a "[]"] a(3) by (simp_all only: append_Nil2 simp_thms)
    ultimately show ?thesis
      using a s 1 by (simp add: parseCuda_def parse_cuda_def py_int_digits span, simp add: nat_of_digits_def)
  next
    case (2 a b)
    then have ab: "s = a @ CHR ''.'' # b" "a \<noteq> []" "list_all is_digit a" "b \<noteq> []" "list_all is_digit b" using parts join by auto
    have "\<not> js_space (CHR ''.'')" by (simp add: js_space_def)
    then have "list_all (\<lambda>c. \<not> js_space c) s" using ab digits_not_space by (auto simp: list_all_iff)
    then have "trim s = s" by (rule trim_no_space)
    moreover have "takeWhile is_digit s = a" "dropWhile is_digit s = CHR ''.'' # b"
      unfolding ab(1) using digits_span [of a "CHR ''.'' # b"] ab(3) by (simp_all only: not_digit_chars list.sel simp_thms)
    moreover have bspan: "takeWhile is_digit b = b" using digits_span(1) [of b "[]"] ab(5) by (simp only: append_Nil2 simp_thms)
    ultimately show ?thesis using s 2 ab(2-5) by (simp add: parseCuda_def parse_cuda_def py_int_digits bspan)
  qed
qed (simp add: parse_cuda_def parseCuda_def)

text \<open>The wizard hides an image for its CUDA version exactly when the server would refuse it, for all versions written as
  numbers; only a malformed minor part, which the server ignores and the console reads as zero, is judged differently.\<close>

theorem cuda_mirrors_server:
  assumes "plain_version img" and "plain_version mn"
  shows "cudaCompatible img mn = cuda_compatible img mn \<and>
    cuda_compatible (Some ''11.x'') (Some ''12.0'') \<noteq> cudaCompatible (Some ''11.x'') (Some ''12.0'')"
proof -
  have "cuda_compatible (Some ''11.x'') (Some ''12.0'')" "\<not> cudaCompatible (Some ''11.x'') (Some ''12.0'')" by code_simp+
  then show ?thesis using parse_plain [OF assms(1)] parse_plain [OF assms(2)] by (simp add: cuda_compatible_def cudaCompatible_def)
qed

theorem cuda_mirrors_server_witness: "\<not> cuda_compatible (Some ''11.8'') (Some ''12'')"
proof -
  have "plain_version (Some ''11.8'')" "plain_version (Some ''12'')" "\<not> cudaCompatible (Some ''11.8'') (Some ''12'')" by code_simp+
  then show ?thesis using cuda_mirrors_server [of "Some ''11.8''" "Some ''12''"] by simp
qed

end
