(* ===== verification/Session_Wizard.thy ===== *)
theory Session_Wizard
  imports Session_Tier Resource_Hooks
begin

text \<open>
  The session wizard (\<^verbatim>\<open>features/session/SessionWizard.tsx\<close>): what it offers of the catalogue and the inventory, the
  tier it preselects, the request it sends, the walk through its screens, and the volume picker. The catalogue, the
  inventory, the presets and the policy are what the hooks of \<open>Resource_Hooks\<close> return; they are the fields of
  \<open>wizard_env\<close>, and a walk may take each step with other data.
\<close>

section \<open>Mount paths\<close>

definition path_char :: "char \<Rightarrow> bool" where
  "path_char c = (let k = of_char c :: nat in
     97 \<le> k \<and> k \<le> 122 \<or> 65 \<le> k \<and> k \<le> 90 \<or> is_digit c \<or> c \<in> {CHR ''.'', CHR ''_'', CHR ''-''})"

text \<open>\<^verbatim>\<open>/^(\/[A-Za-z0-9._-]{1,64})+$/\<close>, where \<open>n\<close> characters of the current segment have been read.\<close>

fun seg_match :: "nat \<Rightarrow> string \<Rightarrow> bool" where
  "seg_match n [] = (1 \<le> n)"
| "seg_match n (c # s) = (if c = CHR ''/'' then 1 \<le> n \<and> seg_match 0 s else path_char c \<and> n < 64 \<and> seg_match (Suc n) s)"

definition MOUNT_PATH_RE :: "string \<Rightarrow> bool" where
  "MOUNT_PATH_RE s = (case s of [] \<Rightarrow> False | c # r \<Rightarrow> c = CHR ''/'' \<and> seg_match 0 r)"

definition MOUNT_RESERVED :: "string list" where
  "MOUNT_RESERVED = [''/proc'', ''/sys'', ''/dev'', ''/etc'', ''/bin'', ''/sbin'', ''/usr'', ''/lib'', ''/lib64'']"

definition mountPathInvalid :: "string \<Rightarrow> bool" where
  "mountPathInvalid path =
     (if path = [] \<or> 255 < length path \<or> \<not> MOUNT_PATH_RE path then True
      else if list_ex (\<lambda>seg. seg = ''.'' \<or> seg = ''..'') (split_on (CHR ''/'') path) then True
      else
        (let stripped = rev (dropWhile (\<lambda>c. c = CHR ''/'') (rev path)); norm = (if stripped = [] then ''/'' else stripped)
         in list_ex (\<lambda>r. norm = r \<or> starts_with norm (r @ ''/'')) MOUNT_RESERVED))"

section \<open>Volumes\<close>

record Volume =
  vo_id :: string
  vo_type :: "string option"
  vo_access_mode :: "string option"
  vo_role :: "string option"

record VolumeMount =
  vm_volume_id :: string
  vm_mount_path :: string
  vm_mode :: string

text \<open>\<^verbatim>\<open>/rox|read.?only/i\<close>.\<close>

fun read_only_match :: "string \<Rightarrow> bool" where
  "read_only_match [] = False"
| "read_only_match (c # s) =
     (starts_with (c # s) ''rox'' \<or> starts_with (c # s) ''readonly'' \<or>
      (starts_with (c # s) ''read'' \<and> starts_with (drop 4 s) ''only'' \<and> s ! 3 \<notin> {CHR 0x0A, CHR 0x0D}) \<or> read_only_match s)"

definition volumeReadOnly :: "Volume \<Rightarrow> bool" where
  "volumeReadOnly v = read_only_match (to_lower (str_or (vo_access_mode v) []))"

definition canWriteVolume :: "Volume \<Rightarrow> bool" where
  "canWriteVolume v = (\<not> volumeReadOnly v \<and> vo_role v \<in> {Some ''owner'', Some ''rw''})"

definition mount_of :: "string \<Rightarrow> VolumeMount list \<Rightarrow> VolumeMount option" where
  "mount_of i mounts = find (\<lambda>m. vm_volume_id m = i) mounts"

definition toggle_volume :: "Volume \<Rightarrow> VolumeMount list \<Rightarrow> VolumeMount list" where
  "toggle_volume v mounts =
     (if mount_of (vo_id v) mounts \<noteq> None then filter (\<lambda>m. vm_volume_id m \<noteq> vo_id v) mounts
      else mounts @ [\<lparr>vm_volume_id = vo_id v,
        vm_mount_path = ''/data/'' @ (if str_truthy (vo_type v) then the (vo_type v) else ''vol''),
        vm_mode = (if canWriteVolume v then ''rw'' else ''ro'')\<rparr>])"

definition update_mount :: "string \<Rightarrow> (VolumeMount \<Rightarrow> VolumeMount) \<Rightarrow> VolumeMount list \<Rightarrow> VolumeMount list" where
  "update_mount i patch mounts = map (\<lambda>m. if vm_volume_id m = i then patch m else m) mounts"

section \<open>What the wizard works from\<close>

record Offering =
  of_id :: string
  of_name :: string
  of_resource_class :: string
  of_status :: "string option"
  of_gpu_model :: "string option"
  of_gpu_mem_mb :: "rat option"
  of_min_cuda :: "string option"

record Image =
  im_id :: string
  im_cuda_version :: "string option"
  im_supported_gpus :: "string list"
  im_gpu_ready :: bool

record Device =
  dv_mode :: string
  dv_total_mem_mb :: rat
  dv_free_mem_mb :: rat
  dv_total_cores :: rat
  dv_free_cores :: rat

record Availability =
  av_gpu_model :: string
  av_devices :: "Device list"

record ComputePreset =
  cp_id :: string
  cp_cpu :: "rat option"
  cp_mem_gb :: "rat option"
  cp_disk_gb :: "rat option"

record GpuPreset =
  gp_id :: string
  gp_name :: string
  gp_frac :: "rat option"
  gp_mode :: "string option"

record Policy =
  po_has_policy :: bool
  po_max_concurrent :: "rat option"
  po_active :: "rat option"
  po_gpu_mem_mb :: "rat option"
  po_gpu_cores :: "rat option"
  po_allow_privileged :: bool

text \<open>\<open>we_avail\<close> is the availability query for a cluster: whether it succeeded, and its data.\<close>

record wizard_env =
  we_offerings :: "Offering list"
  we_images :: "Image list"
  we_wallet :: "string option"
  we_avail :: "string option \<Rightarrow> bool \<times> Availability list"
  we_gpu_presets :: "GpuPreset list"
  we_compute_presets :: "ComputePreset list"
  we_policy :: "Policy option"
  we_activeProjectId :: "string option"
  we_activeClusterId :: "string option"
  we_clusters :: "string list"
  we_volumes :: "Volume list"

record WizardForm =
  wf_name :: "string option"
  wf_resource_class :: string
  wf_sharing_mode :: "gpu_mode option"
  wf_vram_mb :: "rat option"
  wf_core_percent :: "rat option"
  wf_compute_preset_id :: "string option"
  wf_offering_id :: "string option"
  wf_image_id :: "string option"
  wf_cluster_id :: "string option"
  wf_billing_wallet_id :: "string option"
  wf_volume_mounts :: "VolumeMount list"
  wf_privileged :: bool
  wf_cpu :: "rat option"
  wf_mem_gb :: "rat option"
  wf_disk_gb :: "rat option"

record wizard =
  wz_step :: nat
  wz_custom :: bool
  wz_tierId :: string
  wz_clusterTouched :: bool
  wz_form :: WizardForm

datatype StepKey = Compute | Gpu | SImage | Volumes | Review

definition CUSTOM_COMPUTE :: string where
  "CUSTOM_COMPUTE = ''__custom__''"

definition isGpu :: "WizardForm \<Rightarrow> bool" where
  "isGpu f = (wf_resource_class f = ''gpu'')"

definition wizardSteps :: "WizardForm \<Rightarrow> StepKey list" where
  "wizardSteps f = (if isGpu f then [Compute, Gpu, SImage, Volumes, Review] else [Compute, SImage, Volumes, Review])"

definition stepKey :: "wizard \<Rightarrow> StepKey" where
  "stepKey w = wizardSteps (wz_form w) ! (min (wz_step w) (length (wizardSteps (wz_form w))) - 1)"

definition wizard_init :: "string \<Rightarrow> string \<Rightarrow> wizard" where
  "wizard_init suggested rc =
     \<lparr>wz_step = 1, wz_custom = False, wz_tierId = [], wz_clusterTouched = False,
      wz_form = \<lparr>wf_name = Some suggested, wf_resource_class = (if rc = ''cpu'' then ''cpu'' else ''gpu''),
        wf_sharing_mode = Some Fractional, wf_vram_mb = None, wf_core_percent = None, wf_compute_preset_id = None,
        wf_offering_id = None, wf_image_id = None, wf_cluster_id = None, wf_billing_wallet_id = None,
        wf_volume_mounts = [], wf_privileged = False, wf_cpu = None, wf_mem_gb = None, wf_disk_gb = None\<rparr>\<rparr>"

definition avail_query :: "wizard_env \<Rightarrow> WizardForm \<Rightarrow> bool \<times> Availability list" where
  "avail_query env f = we_avail env (nonempty (wf_cluster_id f))"

text \<open>The GPU models on offer: active GPU offerings with a real device, one per model, the largest memory kept.\<close>

definition keep_model :: "bool \<times> Availability list \<Rightarrow> (string \<times> Offering) list \<Rightarrow> Offering \<Rightarrow> (string \<times> Offering) list" where
  "keep_model aq m o' =
     (if of_resource_class o' \<noteq> ''gpu'' \<or> of_status o' = Some ''inactive'' then m
      else if fst aq \<and> str_or (of_gpu_model o') [] \<notin> av_gpu_model ` set (snd aq) then m
      else
        (let key = opt_else (nonempty (of_gpu_model o')) (of_name o') in
         case map_of m key of
           None \<Rightarrow> AList.update key o' m
         | Some cur \<Rightarrow> if opt_else (of_gpu_mem_mb cur) 0 < opt_else (of_gpu_mem_mb o') 0 then AList.update key o' m else m))"

definition gpuModels :: "wizard_env \<Rightarrow> WizardForm \<Rightarrow> Offering list" where
  "gpuModels env f = map snd (foldl (keep_model (avail_query env f)) [] (we_offerings env))"

definition first_of :: "'a list \<Rightarrow> 'a option" where
  "first_of xs = (case xs of [] \<Rightarrow> None | x # _ \<Rightarrow> Some x)"

definition selectedOffering :: "wizard_env \<Rightarrow> WizardForm \<Rightarrow> Offering option" where
  "selectedOffering env f =
     (if isGpu f
      then or_else (find (\<lambda>o'. Some (of_id o') = wf_offering_id f) (gpuModels env f)) (first_of (gpuModels env f))
      else find (\<lambda>o'. of_resource_class o' = ''cpu'') (we_offerings env))"

definition gpuPresetTiers :: "wizard_env \<Rightarrow> GpuTier list" where
  "gpuPresetTiers env =
     map (\<lambda>p. \<lparr>gt_id = gp_id p, gt_frac = the (gp_frac p), gt_mode = (if gp_mode p = Some ''exclusive'' then Exclusive else Fractional),
            gt_name = Some (gp_name p), gt_nameKey = None, gt_hintKey = None\<rparr>)
       (filter (\<lambda>p. gp_frac p \<noteq> None) (we_gpu_presets env))"

definition gpuTiers :: "wizard_env \<Rightarrow> GpuTier list" where
  "gpuTiers env = (if gpuPresetTiers env \<noteq> [] then gpuPresetTiers env else GPU_TIERS)"

definition customCompute :: "WizardForm \<Rightarrow> bool" where
  "customCompute f = (wf_compute_preset_id f = Some CUSTOM_COMPUTE)"

definition compute_preset :: "wizard_env \<Rightarrow> WizardForm \<Rightarrow> ComputePreset option" where
  "compute_preset env f =
     (if customCompute f then None else find (\<lambda>c. Some (cp_id c) = wf_compute_preset_id f) (we_compute_presets env))"

definition avail :: "wizard_env \<Rightarrow> WizardForm \<Rightarrow> Availability option" where
  "avail env f =
     find (\<lambda>a. Some (av_gpu_model a) = Option.bind (selectedOffering env f) of_gpu_model) (snd (avail_query env f))"

text \<open>The largest reported card, else the offering's nominal memory, else the fallback; zero counts as missing.\<close>

definition modelMem :: "wizard_env \<Rightarrow> WizardForm \<Rightarrow> rat" where
  "modelMem env f =
     (let real = fold max (map dv_total_mem_mb (case avail env f of None \<Rightarrow> [] | Some a \<Rightarrow> av_devices a)) 0;
          nominal = opt_else (Option.bind (selectedOffering env f) of_gpu_mem_mb) 0
      in if real \<noteq> 0 then real else if nominal \<noteq> 0 then nominal else GPU_FALLBACK_MB)"

definition concurrencyFull :: "wizard_env \<Rightarrow> bool" where
  "concurrencyFull env =
     (case we_policy env of
        None \<Rightarrow> False
      | Some p \<Rightarrow> po_has_policy p \<and> (case po_max_concurrent p of None \<Rightarrow> False | Some m \<Rightarrow> m \<le> opt_else (po_active p) 0))"

section \<open>Which tiers can run\<close>

definition tierTooSmall :: "rat \<Rightarrow> GpuTier \<Rightarrow> bool" where
  "tierTooSmall mem t = (gt_mode t \<noteq> Exclusive \<and> mem * gt_frac t < 1024)"

definition tierVramFor :: "rat \<Rightarrow> GpuTier \<Rightarrow> rat" where
  "tierVramFor mem t = (if gt_mode t = Exclusive then mem else tierVram (gt_frac t) mem Fractional)"

definition tierCoresFor :: "GpuTier \<Rightarrow> rat" where
  "tierCoresFor t = (if gt_mode t = Exclusive then 100 else tierCores (gt_frac t))"

definition exceeds :: "rat \<Rightarrow> rat option \<Rightarrow> bool" where
  "exceeds x limit = (case limit of None \<Rightarrow> False | Some l \<Rightarrow> l < x)"

definition tierPolicyBlocked :: "Policy option \<Rightarrow> rat \<Rightarrow> GpuTier \<Rightarrow> bool" where
  "tierPolicyBlocked pol mem t =
     (case pol of
        None \<Rightarrow> False
      | Some p \<Rightarrow> po_has_policy p \<and> (exceeds (tierVramFor mem t) (po_gpu_mem_mb p) \<or> exceeds (tierCoresFor t) (po_gpu_cores p)))"

definition modeServiceable :: "bool \<Rightarrow> Availability option \<Rightarrow> gpu_mode \<Rightarrow> bool" where
  "modeServiceable success av m =
     (if \<not> success then True
      else case av of
             None \<Rightarrow> False
           | Some a \<Rightarrow>
               if m = Exclusive then list_ex (\<lambda>d. dv_mode d = ''exclusive'') (av_devices a)
               else list_ex (\<lambda>d. dv_mode d = ''fractional'' \<or> dv_mode d = ''mig'') (av_devices a))"

definition tierServiceable :: "bool \<Rightarrow> Availability option \<Rightarrow> GpuTier \<Rightarrow> bool" where
  "tierServiceable success av t =
     (if \<not> success then True
      else case av of
             None \<Rightarrow> False
           | Some a \<Rightarrow>
               if gt_mode t = Exclusive then list_ex (\<lambda>d. dv_mode d = ''exclusive'') (av_devices a)
               else list_ex (\<lambda>d. dv_mode d = ''fractional'' \<or> dv_mode d = ''mig'') (av_devices a))"

definition tierPossible :: "wizard_env \<Rightarrow> WizardForm \<Rightarrow> GpuTier \<Rightarrow> bool" where
  "tierPossible env f t =
     (if tierTooSmall (modelMem env f) t then False
      else if tierPolicyBlocked (we_policy env) (modelMem env f) t then False
      else if \<not> fst (avail_query env f) then True
      else if avail env f = None then False
      else tierServiceable (fst (avail_query env f)) (avail env f) t)"

definition tierFitsNow :: "wizard_env \<Rightarrow> WizardForm \<Rightarrow> GpuTier \<Rightarrow> bool" where
  "tierFitsNow env f t =
     (if \<not> fst (avail_query env f) then True
      else case avail env f of
             None \<Rightarrow> False
           | Some a \<Rightarrow>
               if gt_mode t = Exclusive
               then list_ex (\<lambda>d. dv_mode d = ''exclusive'' \<and> dv_total_mem_mb d \<le> dv_free_mem_mb d \<and> dv_total_cores d \<le> dv_free_cores d)
                      (av_devices a)
               else list_ex (\<lambda>d. dv_mode d = ''fractional'' \<and> tierVramFor (modelMem env f) t \<le> dv_free_mem_mb d \<and>
                                 tierCoresFor t \<le> dv_free_cores d) (av_devices a))"

text \<open>The preselected tier; \<open>possible\<close> and \<open>roomy\<close> are the two tests above.\<close>

definition default_tier :: "(GpuTier \<Rightarrow> bool) \<Rightarrow> (GpuTier \<Rightarrow> bool) \<Rightarrow> GpuTier list \<Rightarrow> string" where
  "default_tier possible roomy tiers =
     (let ps = filter possible tiers in
      if ps = [] then (case tiers of [] \<Rightarrow> [] | t # _ \<Rightarrow> gt_id t)
      else
        (let pref = tiers ! min 1 (length tiers - 1); fitting = filter roomy ps in
         if possible pref \<and> roomy pref then gt_id pref
         else if fitting \<noteq> [] then gt_id (hd fitting)
         else gt_id (last ps)))"

definition defaultTierId :: "wizard_env \<Rightarrow> WizardForm \<Rightarrow> string" where
  "defaultTierId env f = default_tier (tierPossible env f) (tierFitsNow env f) (gpuTiers env)"

definition effectiveTierId :: "wizard_env \<Rightarrow> wizard \<Rightarrow> string" where
  "effectiveTierId env w =
     (if wz_tierId w \<noteq> [] \<and> list_ex (\<lambda>x. gt_id x = wz_tierId w \<and> tierPossible env (wz_form w) x) (gpuTiers env)
      then wz_tierId w else defaultTierId env (wz_form w))"

definition effective_tier :: "wizard_env \<Rightarrow> wizard \<Rightarrow> GpuTier" where
  "effective_tier env w =
     (case find (\<lambda>x. gt_id x = effectiveTierId env w) (gpuTiers env) of Some t \<Rightarrow> t | None \<Rightarrow> hd (gpuTiers env))"

definition effMode :: "wizard_env \<Rightarrow> wizard \<Rightarrow> gpu_mode" where
  "effMode env w =
     (if wz_custom w then opt_else (wf_sharing_mode (wz_form w)) Fractional else gt_mode (effective_tier env w))"

definition effVram :: "wizard_env \<Rightarrow> wizard \<Rightarrow> rat" where
  "effVram env w =
     (let t = effective_tier env w; mem = modelMem env (wz_form w) in
      if wz_custom w then opt_else (wf_vram_mb (wz_form w)) (tierVram (gt_frac t) mem (effMode env w))
      else tierVram (gt_frac t) mem (gt_mode t))"

definition effCores :: "wizard_env \<Rightarrow> wizard \<Rightarrow> rat" where
  "effCores env w =
     (let t = effective_tier env w in
      if effMode env w = Exclusive then 100
      else if wz_custom w then opt_else (wf_core_percent (wz_form w)) (tierCores (gt_frac t)) else tierCores (gt_frac t))"

section \<open>Images and the request\<close>

definition isGpuImage :: "Image \<Rightarrow> bool" where
  "isGpuImage im = (str_truthy (im_cuda_version im) \<or> im_supported_gpus im \<noteq> [])"

definition availableImages :: "wizard_env \<Rightarrow> WizardForm \<Rightarrow> Image list" where
  "availableImages env f =
     filter (\<lambda>im.
       if \<not> isGpu f then \<not> isGpuImage im
       else if \<not> isGpuImage im then im_gpu_ready im
       else (im_supported_gpus im = [] \<or> str_or (Option.bind (selectedOffering env f) of_gpu_model) [] \<in> set (im_supported_gpus im)) \<and>
            cudaCompatible (im_cuda_version im) (Option.bind (selectedOffering env f) of_min_cuda))
       (we_images env)"

definition imageId :: "wizard_env \<Rightarrow> WizardForm \<Rightarrow> string option" where
  "imageId env f =
     (if str_truthy (wf_image_id f) \<and> list_ex (\<lambda>i. Some (im_id i) = wf_image_id f) (availableImages env f) then wf_image_id f
      else map_option im_id (first_of (availableImages env f)))"

definition offeringId :: "wizard_env \<Rightarrow> WizardForm \<Rightarrow> string option" where
  "offeringId env f = map_option of_id (selectedOffering env f)"

fun mode_text :: "gpu_mode \<Rightarrow> string" where
  "mode_text Fractional = ''fractional''"
| "mode_text Exclusive = ''exclusive''"

definition js_mount :: "VolumeMount \<Rightarrow> js" where
  "js_mount m = JObj [(''volume_id'', JStr (vm_volume_id m)), (''mount_path'', JStr (vm_mount_path m)), (''mode'', JStr (vm_mode m))]"

definition opt_num :: "string \<Rightarrow> rat option \<Rightarrow> (string \<times> js) list" where
  "opt_num k v = (case v of None \<Rightarrow> [] | Some x \<Rightarrow> [(k, JNum x)])"

text \<open>\<^verbatim>\<open>toBody\<close>. A property set to undefined is not sent; it is left out here.\<close>

definition opt_str :: "string \<Rightarrow> string option \<Rightarrow> (string \<times> js) list" where
  "opt_str k v = (case v of None \<Rightarrow> [] | Some s \<Rightarrow> [(k, JStr s)])"

definition toBody :: "wizard_env \<Rightarrow> wizard \<Rightarrow> (string \<times> js) list" where
  "toBody env w =
     (let f = wz_form w in
      opt_str ''name'' (nonempty (wf_name f)) @ [(''resource_class'', JStr (wf_resource_class f))] @
      opt_str ''cluster_id'' (nonempty (wf_cluster_id f)) @ opt_str ''group_id'' (nonempty (we_activeProjectId env)) @
      [(''cluster_mode'', JStr ''single'')] @
      opt_str ''offering_id'' (offeringId env f) @ opt_str ''image_id'' (imageId env f) @
      opt_str ''billing_wallet_id'' (or_else (nonempty (wf_billing_wallet_id f)) (we_wallet env)) @
      [(''volume_mounts'', JArr (map js_mount (wf_volume_mounts f)))] @
      (if wf_privileged f then [(''privileged'', JBool True)] else []) @
      (if isGpu f
       then (''mode'', JStr (mode_text (effMode env w))) #
         (if effMode env w = Fractional then [(''gpu_mem_mb'', JNum (effVram env w)), (''gpu_cores'', JNum (effCores env w))] else [])
       else []) @
      (if customCompute f
       then [(''cpu'', JNum (opt_else (wf_cpu f) 2)), (''mem_gb'', JNum (opt_else (wf_mem_gb f) 4)), (''disk_gb'', JNum (opt_else (wf_disk_gb f) 20))]
       else case compute_preset env f of
              None \<Rightarrow> []
            | Some c \<Rightarrow> opt_num ''cpu'' (cp_cpu c) @ opt_num ''mem_gb'' (cp_mem_gb c) @ opt_num ''disk_gb'' (cp_disk_gb c)))"

section \<open>The walk through the screens\<close>

definition modeUnserviceable :: "wizard_env \<Rightarrow> wizard \<Rightarrow> bool" where
  "modeUnserviceable env w =
     (isGpu (wz_form w) \<and> \<not> modeServiceable (fst (avail_query env (wz_form w))) (avail env (wz_form w)) (effMode env w))"

definition badMount :: "wizard \<Rightarrow> bool" where
  "badMount w = list_ex (\<lambda>m. mountPathInvalid (vm_mount_path m)) (wf_volume_mounts (wz_form w))"

text \<open>Why a screen cannot be left, as the translation keys of the reasons.\<close>

fun step_reasons :: "wizard_env \<Rightarrow> wizard \<Rightarrow> StepKey \<Rightarrow> string list" where
  "step_reasons env w Compute = (if str_truthy (wf_name (wz_form w)) then [] else [''wizard.nameLabel''])"
| "step_reasons env w Gpu =
     (if str_truthy (offeringId env (wz_form w)) then [] else [''wizard.offeringLabel'']) @
     (if modeUnserviceable env w then [''wizard.modeUnserviceable''] else [])"
| "step_reasons env w SImage = (if str_truthy (imageId env (wz_form w)) then [] else [''wizard.imageLabel''])"
| "step_reasons env w Volumes = (if badMount w then [''wizard.mountPathInvalid''] else [])"
| "step_reasons env w Review = []"

definition can_advance :: "wizard_env \<Rightarrow> wizard \<Rightarrow> bool" where
  "can_advance env w = (stepKey w \<noteq> Review \<and> step_reasons env w (stepKey w) = [])"

definition can_start :: "wizard_env \<Rightarrow> bool \<Rightarrow> wizard \<Rightarrow> bool" where
  "can_start env pending w =
     (stepKey w = Review \<and> \<not> pending \<and> \<not> concurrencyFull env \<and> \<not> badMount w \<and> \<not> modeUnserviceable env w)"

definition handleNext :: "wizard \<Rightarrow> wizard" where
  "handleNext w = w\<lparr>wz_step := min (length (wizardSteps (wz_form w))) (wz_step w + 1)\<rparr>"

definition handleBack :: "wizard \<Rightarrow> wizard" where
  "handleBack w = w\<lparr>wz_step := max 1 (wz_step w - 1)\<rparr>"

definition patch :: "(WizardForm \<Rightarrow> WizardForm) \<Rightarrow> wizard \<Rightarrow> wizard" where
  "patch p w = w\<lparr>wz_form := p (wz_form w)\<rparr>"

definition pickTier :: "wizard_env \<Rightarrow> GpuTier \<Rightarrow> wizard \<Rightarrow> wizard" where
  "pickTier env t w = (if tierPossible env (wz_form w) t then w\<lparr>wz_tierId := gt_id t, wz_custom := False\<rparr> else w)"

definition toggleCustom :: "wizard_env \<Rightarrow> wizard \<Rightarrow> wizard" where
  "toggleCustom env w =
     (if wz_custom w then w\<lparr>wz_custom := False\<rparr>
      else (patch (\<lambda>f. f\<lparr>wf_sharing_mode := Some (effMode env w), wf_vram_mb := Some (effVram env w),
              wf_core_percent := Some (effCores env w)\<rparr>) w)\<lparr>wz_custom := True\<rparr>)"

text \<open>The two effects: the first compute preset as a default, and the console's cluster until the user chose one.\<close>

definition default_preset :: "wizard_env \<Rightarrow> WizardForm \<Rightarrow> WizardForm" where
  "default_preset env f =
     (if str_truthy (wf_compute_preset_id f) then f
      else case we_compute_presets env of [] \<Rightarrow> f | c # _ \<Rightarrow> f\<lparr>wf_compute_preset_id := Some (cp_id c)\<rparr>)"

definition default_cluster :: "wizard_env \<Rightarrow> wizard \<Rightarrow> wizard" where
  "default_cluster env w =
     (case nonempty (we_activeClusterId env) of
        None \<Rightarrow> w
      | Some c \<Rightarrow>
          if \<not> wz_clusterTouched w \<and> \<not> str_truthy (wf_cluster_id (wz_form w)) \<and> c \<in> set (we_clusters env)
          then patch (\<lambda>f. f\<lparr>wf_cluster_id := Some c\<rparr>) w else w)"

text \<open>What each screen lets the user change.\<close>

inductive screen_edit :: "wizard_env \<Rightarrow> StepKey \<Rightarrow> wizard \<Rightarrow> wizard \<Rightarrow> bool" for env where
  edit_name: "screen_edit env Compute w (patch (\<lambda>f. f\<lparr>wf_name := Some n\<rparr>) w)"
| edit_cluster: "screen_edit env Compute w ((patch (\<lambda>f. f\<lparr>wf_cluster_id := nonempty (Some c)\<rparr>) w)\<lparr>wz_clusterTouched := True\<rparr>)"
| edit_privileged: "screen_edit env Compute w (patch (\<lambda>f. f\<lparr>wf_privileged := b\<rparr>) w)"
| edit_class: "rc \<in> {''gpu'', ''cpu''} \<Longrightarrow> screen_edit env Compute w (patch (\<lambda>f. f\<lparr>wf_resource_class := rc\<rparr>) w)"
| edit_preset: "screen_edit env Compute w (patch (\<lambda>f. f\<lparr>wf_compute_preset_id := Some i\<rparr>) w)"
| edit_cpu: "screen_edit env Compute w (patch (\<lambda>f. f\<lparr>wf_cpu := Some x\<rparr>) w)"
| edit_mem: "screen_edit env Compute w (patch (\<lambda>f. f\<lparr>wf_mem_gb := Some x\<rparr>) w)"
| edit_disk: "screen_edit env Compute w (patch (\<lambda>f. f\<lparr>wf_disk_gb := Some x\<rparr>) w)"
| edit_offering: "screen_edit env Gpu w (patch (\<lambda>f. f\<lparr>wf_offering_id := Some i\<rparr>) w)"
| edit_tier: "t \<in> set (gpuTiers env) \<Longrightarrow> screen_edit env Gpu w (pickTier env t w)"
| edit_custom: "screen_edit env Gpu w (toggleCustom env w)"
| edit_mode: "modeServiceable (fst (avail_query env (wz_form w))) (avail env (wz_form w)) m \<Longrightarrow>
    screen_edit env Gpu w (patch (\<lambda>f. f\<lparr>wf_sharing_mode := Some m\<rparr>) w)"
| edit_vram: "screen_edit env Gpu w (patch (\<lambda>f. f\<lparr>wf_vram_mb := Some x\<rparr>) w)"
| edit_cores: "screen_edit env Gpu w (patch (\<lambda>f. f\<lparr>wf_core_percent := Some x\<rparr>) w)"
| edit_image: "screen_edit env SImage w (patch (\<lambda>f. f\<lparr>wf_image_id := Some i\<rparr>) w)"
| edit_volume: "v \<in> set (we_volumes env) \<Longrightarrow>
    screen_edit env Volumes w (patch (\<lambda>f. f\<lparr>wf_volume_mounts := toggle_volume v (wf_volume_mounts f)\<rparr>) w)"
| edit_path: "v \<in> set (we_volumes env) \<Longrightarrow>
    screen_edit env Volumes w (patch (\<lambda>f. f\<lparr>wf_volume_mounts := update_mount (vo_id v) (\<lambda>m. m\<lparr>vm_mount_path := p\<rparr>) (wf_volume_mounts f)\<rparr>) w)"
| edit_rw: "v \<in> set (we_volumes env) \<Longrightarrow> canWriteVolume v \<Longrightarrow> md \<in> {''ro'', ''rw''} \<Longrightarrow>
    screen_edit env Volumes w (patch (\<lambda>f. f\<lparr>wf_volume_mounts := update_mount (vo_id v) (\<lambda>m. m\<lparr>vm_mode := md\<rparr>) (wf_volume_mounts f)\<rparr>) w)"

text \<open>A step of the walk with the data \<open>env\<close>: an edit of the screen that is shown, the two buttons, and the effects, which run on
  every screen.\<close>

inductive wizard_step :: "wizard_env \<Rightarrow> wizard \<Rightarrow> wizard \<Rightarrow> bool" for env where
  step_edit: "screen_edit env (stepKey w) w w' \<Longrightarrow> wizard_step env w w'"
| step_next: "can_advance env w \<Longrightarrow> wizard_step env w (handleNext w)"
| step_back: "1 < wz_step w \<Longrightarrow> wizard_step env w (handleBack w)"
| effect_preset: "wizard_step env w (patch (default_preset env) w)"
| effect_cluster: "wizard_step env w (default_cluster env w)"

text \<open>The fetched data may change between any two steps (the availability is fetched again every 15 seconds), so a walk takes
  each step with the data of that moment.\<close>

definition wizard_move :: "wizard \<Rightarrow> wizard \<Rightarrow> bool" where
  "wizard_move w w' \<longleftrightarrow> (\<exists>env. wizard_step env w w')"

text \<open>Where the answer to the start request leads: the kind of the toast, if one is shown, and the page.\<close>

definition handleSubmit :: "(rat \<Rightarrow> string) \<Rightarrow> api_error + js \<Rightarrow> string option \<times> string option" where
  "handleSubmit sf answer =
     (case answer of
        Inr session \<Rightarrow>
          (if truthy (js_get ''queue'' session) then (None, Some ''/queue'')
           else if truthy (js_get ''id'' session) then (None, Some (''/sessions/'' @ js_to_string sf (js_get ''id'' session)))
           else (None, Some ''/sessions''))
      | Inl err \<Rightarrow>
          (if ae_code err = JStr ''insufficient_credit'' then (Some ''error'', Some ''/wallet/request'')
           else if ae_code err = JStr ''no_capacity'' then (Some ''info'', Some ''/queue'')
           else (Some ''error'', None)))"

section \<open>What a valid mount path is\<close>

definition good_segment :: "string \<Rightarrow> bool" where
  "good_segment s = (1 \<le> length s \<and> length s \<le> 64 \<and> list_all path_char s \<and> s \<noteq> ''.'' \<and> s \<noteq> ''..'')"

definition reserved_names :: "string list" where
  "reserved_names = [''proc'', ''sys'', ''dev'', ''etc'', ''bin'', ''sbin'', ''usr'', ''lib'', ''lib64'']"

lemma reserved_slash: "MOUNT_RESERVED = map ((#) (CHR ''/'')) reserved_names"
  by (simp add: MOUNT_RESERVED_def reserved_names_def)

lemma slash_no_path_char: "\<not> path_char (CHR ''/'')"
  by (simp add: path_char_def is_digit_def)

lemma seg_match_split:
  "seg_match n s \<longleftrightarrow>
     list_all (list_all path_char) (split_on (CHR ''/'') s) \<and>
     1 \<le> n + length (hd (split_on (CHR ''/'') s)) \<and> n + length (hd (split_on (CHR ''/'') s)) \<le> max n 64 \<and>
     list_all (\<lambda>p. 1 \<le> length p \<and> length p \<le> 64) (tl (split_on (CHR ''/'') s))"
proof (induction s arbitrary: n)
  case (Cons c s)
  obtain p ps where sp: "split_on (CHR ''/'') s = p # ps" using split_on_not_Nil by (metis list.exhaust)
  show ?case
  proof (cases "c = CHR ''/''")
    case True
    then show ?thesis using Cons.IH [of 0] sp by auto
  next
    case False
    then show ?thesis using Cons.IH [of "Suc n"] sp by auto
  qed
qed auto

lemma MOUNT_PATH_RE_split:
  "MOUNT_PATH_RE s \<longleftrightarrow>
     (\<exists>segs. segs \<noteq> [] \<and> split_on (CHR ''/'') s = [] # segs \<and>
        list_all (\<lambda>p. 1 \<le> length p \<and> length p \<le> 64 \<and> list_all path_char p) segs)"
proof (cases s)
  case (Cons c r)
  obtain p ps where sp: "split_on (CHR ''/'') r = p # ps" using split_on_not_Nil by (metis list.exhaust)
  show ?thesis
  proof (cases "c = CHR ''/''")
    case True
    then show ?thesis using Cons sp seg_match_split [of 0 r] by (auto simp: MOUNT_PATH_RE_def list_all_iff)
  qed (use Cons sp in \<open>simp add: MOUNT_PATH_RE_def\<close>)
qed (simp add: MOUNT_PATH_RE_def)

lemma join_slash: "join ''/'' ([] # segs) = concat (map ((#) (CHR ''/'')) segs)"
proof (induction segs)
  case (Cons s segs)
  then show ?case by (cases segs) auto
qed simp

lemma split_path:
  "list_all (\<lambda>s. CHR ''/'' \<notin> set s) segs \<Longrightarrow> split_on (CHR ''/'') (concat (map ((#) (CHR ''/'')) segs)) = [] # segs"
proof (induction segs)
  case (Cons s segs)
  then show ?case
  proof (cases segs)
    case Nil
    then show ?thesis using Cons by (simp add: split_on_nosep)
  next
    case (Cons s' segs')
    have "split_on (CHR ''/'') (s @ CHR ''/'' # (s' @ concat (map ((#) (CHR ''/'')) segs'))) = s # s' # segs'"
      using Cons.IH Cons.prems Cons by (subst split_on_append) auto
    then show ?thesis using Cons by simp
  qed
qed simp

lemma good_no_slash: "list_all path_char s \<Longrightarrow> CHR ''/'' \<notin> set s"
  using slash_no_path_char by (auto simp: list_all_iff)

lemma path_first_segment:
  assumes "CHR ''/'' \<notin> set s" and "CHR ''/'' \<notin> set nm"
  shows "(CHR ''/'' # s @ concat (map ((#) (CHR ''/'')) segs) = CHR ''/'' # nm \<or>
      starts_with (CHR ''/'' # s @ concat (map ((#) (CHR ''/'')) segs)) (CHR ''/'' # nm @ ''/'')) \<longleftrightarrow> s = nm"
    (is "?eq \<or> ?pre \<longleftrightarrow> _")
proof
  let ?rest = "concat (map ((#) (CHR ''/'')) segs)"
  have tw: "takeWhile (\<lambda>c. c \<noteq> CHR ''/'') (x @ y) = x"
    if "CHR ''/'' \<notin> set x" "y = [] \<or> hd y = CHR ''/''" for x y :: string
    using that by (subst takeWhile_append2) (auto, cases y, auto)
  have rest: "?rest = [] \<or> hd ?rest = CHR ''/''" by (cases segs) auto
  assume "?eq \<or> ?pre"
  then obtain z where "s @ ?rest = nm @ z" "z = [] \<or> hd z = CHR ''/''"
    by (auto simp: starts_with_prefix prefix_def)
  then show "s = nm" using tw [OF assms(1) rest] tw [OF assms(2), of z] by simp
next
  assume "s = nm"
  then show "?eq \<or> ?pre" by (cases segs) (auto simp: starts_with_prefix)
qed

lemma strip_good:
  assumes "segs \<noteq> []" and "list_all (\<lambda>p. 1 \<le> length p \<and> CHR ''/'' \<notin> set p) segs"
  shows "rev (dropWhile (\<lambda>c. c = CHR ''/'') (rev (concat (map ((#) (CHR ''/'')) segs)))) = concat (map ((#) (CHR ''/'')) segs)"
proof -
  obtain init l where s: "segs = init @ [l]" using assms(1) by (metis rev_exhaust)
  then have "l \<noteq> []" "CHR ''/'' \<notin> set l" using assms(2) by auto
  then obtain l' c where "l = l' @ [c]" "c \<noteq> CHR ''/''" by (cases l rule: rev_cases) auto
  then show ?thesis using s by simp
qed

lemma reserved_prefix:
  assumes "CHR ''/'' \<notin> set s"
  shows "list_ex (\<lambda>r. concat (map ((#) (CHR ''/'')) (s # segs)) = r \<or> starts_with (concat (map ((#) (CHR ''/'')) (s # segs))) (r @ ''/''))
      MOUNT_RESERVED \<longleftrightarrow> s \<in> set reserved_names"
proof -
  have plain: "list_all (\<lambda>nm. CHR ''/'' \<notin> set nm) reserved_names" by (simp add: reserved_names_def)
  have "(CHR ''/'' # s @ concat (map ((#) (CHR ''/'')) segs) = CHR ''/'' # nm \<or>
      starts_with (CHR ''/'' # s @ concat (map ((#) (CHR ''/'')) segs)) (CHR ''/'' # nm @ ''/'')) \<longleftrightarrow> s = nm"
    if "nm \<in> set reserved_names" for nm
    using path_first_segment [OF assms] plain that by (auto simp: list_all_iff)
  then show ?thesis unfolding reserved_slash list_ex_iff by (simp del: list.inject)
qed

lemma path_segments:
  "MOUNT_PATH_RE path \<and> \<not> list_ex (\<lambda>seg. seg = ''.'' \<or> seg = ''..'') (split_on (CHR ''/'') path) \<longleftrightarrow>
     (\<exists>s segs. path = concat (map ((#) (CHR ''/'')) (s # segs)) \<and> list_all good_segment (s # segs))" (is "?l \<longleftrightarrow> ?r")
proof
  assume ?l
  then obtain segs where segs: "segs \<noteq> []" "split_on (CHR ''/'') path = [] # segs"
    "list_all (\<lambda>p. 1 \<le> length p \<and> length p \<le> 64 \<and> list_all path_char p) segs" by (auto simp: MOUNT_PATH_RE_split)
  then have "path = concat (map ((#) (CHR ''/'')) segs)" using join_split_on [of "CHR ''/''" path] join_slash by metis
  moreover have "list_all good_segment segs" using \<open>?l\<close> segs by (auto simp: good_segment_def list_all_iff list_ex_iff)
  ultimately show ?r using segs(1) by (metis list.exhaust)
next
  assume ?r
  then obtain s segs where segs: "path = concat (map ((#) (CHR ''/'')) (s # segs))" "list_all good_segment (s # segs)" by blast
  then have "list_all (\<lambda>s. CHR ''/'' \<notin> set s) (s # segs)" using good_no_slash by (auto simp: good_segment_def list_all_iff)
  then have "split_on (CHR ''/'') path = [] # s # segs" unfolding segs(1) by (rule split_path)
  then show ?l using segs(2) by (auto simp: MOUNT_PATH_RE_split good_segment_def list_all_iff list_ex_iff)
qed

text \<open>C21: The wizard accepts a mount path exactly when it is what it should be: an absolute path of at most 255 characters
  whose segments are 1 to 64 letters, digits, dots, underscores or dashes, none of them \<^verbatim>\<open>.\<close> or \<^verbatim>\<open>..\<close>, and whose first
  segment is not a system directory. No traversal and no path below a system directory gets through.\<close>

theorem mountPathInvalid_spec:
  "\<not> mountPathInvalid path \<longleftrightarrow>
     length path \<le> 255 \<and>
     (\<exists>s segs. path = concat (map ((#) (CHR ''/'')) (s # segs)) \<and> list_all good_segment (s # segs) \<and> s \<notin> set reserved_names)"
proof (cases "\<exists>s segs. path = concat (map ((#) (CHR ''/'')) (s # segs)) \<and> list_all good_segment (s # segs)")
  case True
  then obtain s segs where s: "path = concat (map ((#) (CHR ''/'')) (s # segs))" "list_all good_segment (s # segs)" by blast
  have plain: "list_all (\<lambda>s. CHR ''/'' \<notin> set s) (s # segs)" using s(2) good_no_slash by (auto simp: good_segment_def list_all_iff)
  have "rev (dropWhile (\<lambda>c. c = CHR ''/'') (rev path)) = path"
    unfolding s(1) by (rule strip_good) (use s(2) plain in \<open>auto simp: good_segment_def list_all_iff\<close>)
  moreover have "path \<noteq> []" using s(1) by simp
  moreover have "list_ex (\<lambda>r. path = r \<or> starts_with path (r @ ''/'')) MOUNT_RESERVED \<longleftrightarrow> s \<in> set reserved_names"
    unfolding s(1) by (rule reserved_prefix) (use plain in simp)
  ultimately have inv: "mountPathInvalid path \<longleftrightarrow> 255 < length path \<or> s \<in> set reserved_names"
    using path_segments [of path] True by (auto simp: mountPathInvalid_def Let_def)
  have "s' = s" if "path = concat (map ((#) (CHR ''/'')) (s' # segs'))" "list_all good_segment (s' # segs')" for s' segs'
  proof -
    have "list_all (\<lambda>s. CHR ''/'' \<notin> set s) (s' # segs')" using that(2) good_no_slash by (auto simp: good_segment_def list_all_iff)
    then show ?thesis using split_path plain that(1) s(1) by (metis list.inject)
  qed
  then show ?thesis using inv s by (metis not_le)
next
  case False
  then show ?thesis using path_segments [of path] by (auto simp: mountPathInvalid_def)
qed

section \<open>What has been checked when the review is reached\<close>

text \<open>What holds of a walk whatever the data did in the meantime: past the first screen the session has a name, and no volume is
  mounted twice.\<close>

definition walk_inv :: "wizard \<Rightarrow> bool" where
  "walk_inv w \<longleftrightarrow>
     1 \<le> wz_step w \<and> wz_step w \<le> length (wizardSteps (wz_form w)) \<and> (1 < wz_step w \<longrightarrow> str_truthy (wf_name (wz_form w))) \<and>
     distinct (map vm_volume_id (wf_volume_mounts (wz_form w)))"

lemma stepKey_cases:
  assumes "1 \<le> wz_step w" and "wz_step w \<le> length (wizardSteps (wz_form w))"
  shows "stepKey w = wizardSteps (wz_form w) ! (wz_step w - 1)"
  using assms by (simp add: stepKey_def)

lemma first_screen: "1 \<le> wz_step w \<Longrightarrow> wz_step w \<le> length (wizardSteps (wz_form w)) \<Longrightarrow> stepKey w = Compute \<longleftrightarrow> wz_step w = 1"
  by (auto simp: stepKey_cases wizardSteps_def nth_Cons split: if_splits nat.splits)

lemma toggle_distinct: "distinct (map vm_volume_id ms) \<Longrightarrow> distinct (map vm_volume_id (toggle_volume v ms))"
  by (auto simp: toggle_volume_def mount_of_def find_None_iff distinct_map inj_on_def)

lemma update_mount_ids:
  "(\<And>m. vm_volume_id (p m) = vm_volume_id m) \<Longrightarrow> map vm_volume_id (update_mount i p ms) = map vm_volume_id ms"
  by (simp add: update_mount_def)

lemma edit_basics:
  assumes "screen_edit env key w w'"
  shows "wz_step w' = wz_step w"
    and "key \<noteq> Compute \<Longrightarrow> wf_resource_class (wz_form w') = wf_resource_class (wz_form w) \<and> wf_name (wz_form w') = wf_name (wz_form w)"
    and "distinct (map vm_volume_id (wf_volume_mounts (wz_form w))) \<Longrightarrow> distinct (map vm_volume_id (wf_volume_mounts (wz_form w')))"
  using assms
  by (induction rule: screen_edit.induct) (auto simp: patch_def pickTier_def toggleCustom_def toggle_distinct update_mount_ids)

lemma effect_basics:
  shows "wz_step (default_cluster env w) = wz_step w" "wf_resource_class (wz_form (default_cluster env w)) = wf_resource_class (wz_form w)"
    "wf_name (wz_form (default_cluster env w)) = wf_name (wz_form w)"
    "wf_volume_mounts (wz_form (default_cluster env w)) = wf_volume_mounts (wz_form w)"
    and "wf_resource_class (default_preset env f) = wf_resource_class f" "wf_name (default_preset env f) = wf_name f"
    "wf_volume_mounts (default_preset env f) = wf_volume_mounts f"
  by (simp_all add: default_cluster_def default_preset_def patch_def split: option.splits list.splits)

lemma walk_edit:
  assumes "walk_inv w" and "screen_edit env (stepKey w) w w'"
  shows "walk_inv w'"
proof -
  have s: "1 \<le> wz_step w" "wz_step w \<le> length (wizardSteps (wz_form w))" using assms(1) by (auto simp: walk_inv_def)
  note basics = edit_basics [OF assms(2)]
  show ?thesis
  proof (cases "wz_step w = 1")
    case True
    then show ?thesis using basics(1,3) assms(1) by (auto simp: walk_inv_def wizardSteps_def)
  next
    case False
    then have "stepKey w \<noteq> Compute" using first_screen [OF s] by simp
    then show ?thesis using basics assms(1) by (auto simp: walk_inv_def wizardSteps_def isGpu_def)
  qed
qed

lemma walk_next:
  assumes "walk_inv w" and "can_advance env w"
  shows "walk_inv (handleNext w)"
proof -
  have s: "1 \<le> wz_step w" "wz_step w \<le> length (wizardSteps (wz_form w))" using assms(1) by (auto simp: walk_inv_def)
  have "str_truthy (wf_name (wz_form w))"
  proof (cases "wz_step w = 1")
    case True
    then have "step_reasons env w Compute = []" using assms(2) first_screen [OF s] by (simp add: can_advance_def)
    then show ?thesis by (simp split: if_splits)
  qed (use assms(1) s in \<open>simp add: walk_inv_def\<close>)
  then show ?thesis using assms(1) by (auto simp: walk_inv_def handleNext_def)
qed

interpretation walk: inductive_invariant "wizard_init suggested rc" wizard_move walk_inv for suggested rc
proof
  show "walk_inv (wizard_init suggested rc)" by (auto simp: walk_inv_def wizard_init_def wizardSteps_def)
  show "walk_inv w'" if inv: "walk_inv w" and move: "wizard_move w w'" for w w'
  proof -
    obtain env where "wizard_step env w w'" using move by (auto simp: wizard_move_def)
    then show ?thesis using inv
    proof cases
      case step_edit
      then show ?thesis using inv walk_edit by blast
    next
      case step_next
      then show ?thesis using inv walk_next by blast
    next
      case step_back
      then show ?thesis using inv by (auto simp: walk_inv_def handleBack_def)
    next
      case effect_preset
      then show ?thesis using inv by (simp add: walk_inv_def wizardSteps_def isGpu_def patch_def effect_basics)
    next
      case effect_cluster
      then show ?thesis using inv by (simp add: walk_inv_def wizardSteps_def isGpu_def effect_basics)
    qed
  qed
qed

section \<open>The request a start sends\<close>

lemma lookup_opt [simp]:
  "map_of (opt_str k v) x = (if x = k then map_option JStr v else None)"
  "map_of (opt_num k n) x = (if x = k then map_option JNum n else None)"
  by (simp_all add: opt_str_def opt_num_def split: option.splits)

lemma body_fields:
  "map_of (toBody env w) ''image_id'' = map_option JStr (imageId env (wz_form w))"
  "map_of (toBody env w) ''offering_id'' = map_option JStr (offeringId env (wz_form w))"
  "map_of (toBody env w) ''mode'' = (if isGpu (wz_form w) then Some (JStr (mode_text (effMode env w))) else None)"
  "map_of (toBody env w) ''gpu_mem_mb'' =
     (if isGpu (wz_form w) \<and> effMode env w = Fractional then Some (JNum (effVram env w)) else None)"
  "map_of (toBody env w) ''gpu_cores'' =
     (if isGpu (wz_form w) \<and> effMode env w = Fractional then Some (JNum (effCores env w)) else None)"
  by (simp_all add: toBody_def Let_def map_of_append map_add_def split: option.split)

lemma imageId_cases:
  "(case imageId env f of None \<Rightarrow> availableImages env f = [] | Some i \<Rightarrow> i \<in> im_id ` set (availableImages env f))"
proof (cases "str_truthy (wf_image_id f) \<and> list_ex (\<lambda>i. Some (im_id i) = wf_image_id f) (availableImages env f)")
  case True
  then obtain im where "im \<in> set (availableImages env f)" "Some (im_id im) = wf_image_id f" by (auto simp: list_ex_iff)
  moreover have "imageId env f = wf_image_id f" using True by (simp only: imageId_def simp_thms if_True)
  ultimately show ?thesis by (metis image_eqI option.simps(5))
next
  case False
  then have "imageId env f = map_option im_id (first_of (availableImages env f))" by (simp only: imageId_def if_False)
  then show ?thesis by (cases "availableImages env f") (simp_all add: first_of_def)
qed

text \<open>Once the availability is known, a sharing mode that can be served names a model on offer with a card in that mode.\<close>

definition serves :: "gpu_mode \<Rightarrow> Device \<Rightarrow> bool" where
  "serves m d = (if m = Exclusive then dv_mode d = ''exclusive'' else dv_mode d \<in> {''fractional'', ''mig''})"

lemma serviceable_model:
  assumes "isGpu f" and "fst (avail_query env f)" and "modeServiceable (fst (avail_query env f)) (avail env f) m"
  shows "\<exists>o' \<in> set (gpuModels env f). \<exists>a \<in> set (snd (avail_query env f)).
    offeringId env f = Some (of_id o') \<and> of_gpu_model o' = Some (av_gpu_model a) \<and> list_ex (serves m) (av_devices a)"
proof -
  obtain a where a: "avail env f = Some a" using assms(2,3) by (cases "avail env f") (simp_all add: modeServiceable_def)
  then have in_a: "a \<in> set (snd (avail_query env f))" "Some (av_gpu_model a) = Option.bind (selectedOffering env f) of_gpu_model"
    by (auto simp: avail_def find_Some_iff)
  then obtain o' where o: "selectedOffering env f = Some o'" "of_gpu_model o' = Some (av_gpu_model a)"
    by (cases "selectedOffering env f") auto
  have "o' \<in> set (gpuModels env f)" using o(1) assms(1)
    by (auto simp: selectedOffering_def or_else_def first_of_def find_Some_iff split: option.splits list.splits)
  moreover have "list_ex (serves m) (av_devices a)"
    using assms(2,3) a by (cases m) (auto simp: modeServiceable_def serves_def list_ex_iff)
  ultimately show ?thesis using in_a(1) o by (auto simp: offeringId_def)
qed

text \<open>The shortest walk of a CPU session: next, three times.\<close>

lemma cpu_walk:
  assumes "n \<noteq> []" and "availableImages env (wz_form (wizard_init n ''cpu'')) = im # ims" and "im_id im \<noteq> []"
  shows "reach (wizard_init n ''cpu'') wizard_move ((wizard_init n ''cpu'')\<lparr>wz_step := 4\<rparr>)"
proof -
  let ?w = "\<lambda>k. (wizard_init n ''cpu'')\<lparr>wz_step := k\<rparr>"
  let ?f = "wz_form (wizard_init n ''cpu'')"
  have f: "wizardSteps ?f = [Compute, SImage, Volumes, Review]" "wf_name ?f = Some n" "wf_volume_mounts ?f = []"
    by (simp_all add: wizardSteps_def isGpu_def wizard_init_def)
  have "wf_image_id ?f = None" by (simp add: wizard_init_def)
  then have img: "imageId env ?f = Some (im_id im)" using assms(2) by (simp add: imageId_def first_of_def)
  have nxt: "wizard_move (?w k) (?w (Suc k))" if "k = 1 \<or> k = 2 \<or> k = 3" for k
  proof -
    have "can_advance env (?w k)"
      using that assms(1,3) by (elim disjE) (simp_all add: can_advance_def stepKey_def f img badMount_def)
    moreover have "handleNext (?w k) = ?w (Suc k)" using that by (auto simp: handleNext_def f)
    ultimately have "wizard_step env (?w k) (?w (Suc k))" using step_next [of env "?w k"] by simp
    then show ?thesis unfolding wizard_move_def by blast
  qed
  have "wizard_init n ''cpu'' = ?w 1" by (simp add: wizard_init_def)
  then have "reach (wizard_init n ''cpu'') wizard_move (?w 1)" using reach_init by metis
  then have "reach (wizard_init n ''cpu'') wizard_move (?w (Suc 1))" by (rule reach_step) (rule nxt, simp)
  then have "reach (wizard_init n ''cpu'') wizard_move (?w (Suc (Suc 1)))" by (rule reach_step) (rule nxt, simp)
  then have "reach (wizard_init n ''cpu'') wizard_move (?w (Suc (Suc (Suc 1))))" by (rule reach_step) (rule nxt, simp)
  then show ?thesis by (simp add: eval_nat_numeral)
qed

definition bare_env :: wizard_env where
  "bare_env =
     \<lparr>we_offerings = [], we_images = [\<lparr>im_id = ''ubuntu'', im_cuda_version = None, im_supported_gpus = [], im_gpu_ready = True\<rparr>],
      we_wallet = Some ''w1'', we_avail = (\<lambda>_. (True, [])), we_gpu_presets = [], we_compute_presets = [], we_policy = None,
      we_activeProjectId = None, we_activeClusterId = None, we_clusters = [], we_volumes = []\<rparr>"

lemma bare_images: "availableImages bare_env (wz_form (wizard_init n ''cpu'')) =
    [\<lparr>im_id = ''ubuntu'', im_cuda_version = None, im_supported_gpus = [], im_gpu_ready = True\<rparr>]"
  by (simp add: availableImages_def bare_env_def wizard_init_def isGpu_def isGpuImage_def)

lemma cpu_can_start:
  assumes "\<not> concurrencyFull env"
  shows "can_start env False ((wizard_init n ''cpu'')\<lparr>wz_step := 4\<rparr>)"
  using assms by (simp add: can_start_def stepKey_def wizardSteps_def isGpu_def wizard_init_def badMount_def modeUnserviceable_def)

text \<open>C4: A session can only be started from an order that was checked, with the data of the moment it is started. However the user
  walked through the wizard and whatever was fetched again in between, when the start button is enabled the session has a
  name, no volume is mounted twice and every mount path is valid. The image sent is one that fits the chosen model according to
  the images at hand. A GPU session sends its sharing mode, and memory and cores exactly for a shared card; when the
  availability is known, it names a model on offer of which there is a card in that mode. What the button does not check is that
  there is an image: when the list has become empty since its screen was left, the order is sent without one.\<close>

theorem start_is_checked:
  assumes "reach (wizard_init suggested rc) wizard_move w" and "can_start env pending w"
  shows "str_truthy (wf_name (wz_form w)) \<and>
    distinct (map vm_volume_id (wf_volume_mounts (wz_form w))) \<and>
    list_all (\<lambda>m. \<not> mountPathInvalid (vm_mount_path m)) (wf_volume_mounts (wz_form w)) \<and>
    (case map_of (toBody env w) ''image_id'' of
       None \<Rightarrow> availableImages env (wz_form w) = []
     | Some v \<Rightarrow> v \<in> JStr ` im_id ` set (availableImages env (wz_form w))) \<and>
    (isGpu (wz_form w) \<longrightarrow>
       map_of (toBody env w) ''mode'' = Some (JStr (mode_text (effMode env w))) \<and>
       (map_of (toBody env w) ''gpu_mem_mb'' \<noteq> None \<longleftrightarrow> effMode env w = Fractional) \<and>
       (map_of (toBody env w) ''gpu_cores'' \<noteq> None \<longleftrightarrow> effMode env w = Fractional) \<and>
       (fst (avail_query env (wz_form w)) \<longrightarrow>
          (\<exists>o' \<in> set (gpuModels env (wz_form w)). \<exists>a \<in> set (snd (avail_query env (wz_form w))).
             map_of (toBody env w) ''offering_id'' = Some (JStr (of_id o')) \<and> of_gpu_model o' = Some (av_gpu_model a) \<and>
             list_ex (serves (effMode env w)) (av_devices a)))) \<and>
    (\<exists>v env'. reach (wizard_init ''s'' ''cpu'') wizard_move v \<and> can_start env' False v \<and> map_of (toBody env' v) ''image_id'' = None)"
proof -
  have inv: "walk_inv w" by (rule walk.inv_reach [OF assms(1)])
  then have s: "1 \<le> wz_step w" "wz_step w \<le> length (wizardSteps (wz_form w))" by (auto simp: walk_inv_def)
  have "wz_step w \<noteq> 1" using assms(2) first_screen [OF s] by (auto simp: can_start_def)
  then have named: "str_truthy (wf_name (wz_form w))" and dist: "distinct (map vm_volume_id (wf_volume_mounts (wz_form w)))"
    using inv s by (simp_all add: walk_inv_def)
  have paths: "list_all (\<lambda>m. \<not> mountPathInvalid (vm_mount_path m)) (wf_volume_mounts (wz_form w))"
    using assms(2) by (auto simp: can_start_def badMount_def list_ex_iff list_all_iff)
  have image: "case map_of (toBody env w) ''image_id'' of None \<Rightarrow> availableImages env (wz_form w) = []
      | Some v \<Rightarrow> v \<in> JStr ` im_id ` set (availableImages env (wz_form w))"
    using imageId_cases [of env "wz_form w"] by (auto simp: body_fields split: option.splits)
  have gpu: "\<exists>o' \<in> set (gpuModels env (wz_form w)). \<exists>a \<in> set (snd (avail_query env (wz_form w))).
      map_of (toBody env w) ''offering_id'' = Some (JStr (of_id o')) \<and> of_gpu_model o' = Some (av_gpu_model a) \<and>
      list_ex (serves (effMode env w)) (av_devices a)" if "isGpu (wz_form w)" "fst (avail_query env (wz_form w))"
  proof -
    have "modeServiceable (fst (avail_query env (wz_form w))) (avail env (wz_form w)) (effMode env w)"
      using assms(2) that(1) by (simp add: can_start_def modeUnserviceable_def)
    from serviceable_model [OF that this] show ?thesis by (auto simp: body_fields)
  qed
  have gap: "\<exists>v env'. reach (wizard_init ''s'' ''cpu'') wizard_move v \<and> can_start env' False v \<and> map_of (toBody env' v) ''image_id'' = None"
  proof (intro exI conjI)
    show "reach (wizard_init ''s'' ''cpu'') wizard_move ((wizard_init ''s'' ''cpu'')\<lparr>wz_step := 4\<rparr>)"
      by (rule cpu_walk [OF _ bare_images]) simp_all
    show "can_start (bare_env\<lparr>we_images := []\<rparr>) False ((wizard_init ''s'' ''cpu'')\<lparr>wz_step := 4\<rparr>)"
      by (rule cpu_can_start) (simp add: concurrencyFull_def bare_env_def)
    show "map_of (toBody (bare_env\<lparr>we_images := []\<rparr>) ((wizard_init ''s'' ''cpu'')\<lparr>wz_step := 4\<rparr>)) ''image_id'' = None"
      by (simp add: body_fields imageId_def availableImages_def first_of_def)
  qed
  show ?thesis using named dist paths image gpu gap by (cases "effMode env w") (simp_all add: body_fields)
qed

theorem start_is_checked_witness:
  "\<exists>w. reach (wizard_init ''cpu-1'' ''cpu'') wizard_move w \<and> can_start bare_env False w \<and>
     map_of (toBody bare_env w) ''image_id'' = Some (JStr ''ubuntu'')"
proof -
  let ?w = "(wizard_init ''cpu-1'' ''cpu'')\<lparr>wz_step := 4\<rparr>"
  have r: "reach (wizard_init ''cpu-1'' ''cpu'') wizard_move ?w" by (rule cpu_walk [OF _ bare_images]) simp_all
  have c: "can_start bare_env False ?w" by (rule cpu_can_start) (simp add: concurrencyFull_def bare_env_def)
  have "availableImages bare_env (wz_form ?w) = [\<lparr>im_id = ''ubuntu'', im_cuda_version = None, im_supported_gpus = [], im_gpu_ready = True\<rparr>]"
    using bare_images by simp
  then have "map_of (toBody bare_env ?w) ''image_id'' = Some (JStr ''ubuntu'')"
    using start_is_checked [OF r c] by (auto split: option.splits)
  then show ?thesis using r c by blast
qed

text \<open>A CPU session can be started without naming what it runs on: the CPU walk has no screen that checks the offering, so
  when the catalogue holds no CPU offering the start button is still enabled and the request carries no
  \<^verbatim>\<open>offering_id\<close>, which the API requires.\<close>

theorem cpu_start_without_offering:
  assumes "list_all (\<lambda>o'. of_resource_class o' \<noteq> ''cpu'') (we_offerings env)" and "\<not> concurrencyFull env" and "n \<noteq> []"
    and "availableImages env (wz_form (wizard_init n ''cpu'')) = im # ims" and "im_id im \<noteq> []"
  shows "\<exists>w. reach (wizard_init n ''cpu'') wizard_move w \<and> can_start env False w \<and>
     map_of (toBody env w) ''offering_id'' = None"
proof -
  have "selectedOffering env (wz_form (wizard_init n ''cpu'')) = None"
    using assms(1) by (auto simp: selectedOffering_def isGpu_def wizard_init_def find_None_iff list_all_iff)
  then have "map_of (toBody env ((wizard_init n ''cpu'')\<lparr>wz_step := 4\<rparr>)) ''offering_id'' = None"
    by (simp add: body_fields offeringId_def)
  then show ?thesis using cpu_walk [OF assms(3-5)] cpu_can_start [OF assms(2)] by blast
qed

theorem cpu_start_without_offering_witness:
  "\<exists>w. reach (wizard_init ''a'' ''cpu'') wizard_move w \<and> can_start bare_env False w \<and>
     map_of (toBody bare_env w) ''offering_id'' = None"
  by (rule cpu_start_without_offering [OF _ _ _ bare_images]) (simp_all add: bare_env_def concurrencyFull_def)

section \<open>The preselected tier\<close>

lemma hd_largest:
  assumes "sorted_wrt (\<lambda>a b. gt_frac b \<le> gt_frac a) tiers" and "filter P tiers \<noteq> []"
  shows "hd (filter P tiers) \<in> set tiers" and "P (hd (filter P tiers))" and "u \<in> set tiers \<Longrightarrow> P u \<Longrightarrow> gt_frac u \<le> gt_frac (hd (filter P tiers))"
  using assms by (induction tiers) (auto split: if_splits)

lemma last_smallest:
  fixes tiers :: "GpuTier list"
  assumes "sorted_wrt (\<lambda>a b. gt_frac b \<le> gt_frac a) tiers" and "filter P tiers \<noteq> []"
  shows "last (filter P tiers) \<in> set tiers" and "P (last (filter P tiers))" and "u \<in> set tiers \<Longrightarrow> P u \<Longrightarrow> gt_frac (last (filter P tiers)) \<le> gt_frac u"
proof -
  have sorted: "sorted_wrt (\<lambda>a b. gt_frac b \<le> gt_frac a) (filter P tiers)" by (rule sorted_wrt_filter [OF assms(1)])
  have "last (filter P tiers) \<in> set (filter P tiers)" using assms(2) by (rule last_in_set)
  then show "last (filter P tiers) \<in> set tiers" and "P (last (filter P tiers))" by simp_all
  have mono: "gt_frac (last xs) \<le> gt_frac x" if "sorted_wrt (\<lambda>a b. gt_frac b \<le> gt_frac a) xs" "x \<in> set xs" for xs :: "GpuTier list" and x
    using that by (induction xs) (auto split: if_splits)
  show "u \<in> set tiers \<Longrightarrow> P u \<Longrightarrow> gt_frac (last (filter P tiers)) \<le> gt_frac u" by (rule mono [OF sorted]) simp
qed

text \<open>The preselected tier can run, and with presets listed from large to small, as the server lists them, it is the one
  intended: the second preset if a card has room for it, otherwise the largest tier with room, otherwise the smallest
  possible one, which leaves the queue soonest. The built-in tiers are listed from small to large, so with them the rule
  turns around: with no room anywhere the whole card is preselected, and with room the smallest tier.\<close>

theorem default_tier_rule:
  assumes "sorted_wrt (\<lambda>a b. gt_frac b \<le> gt_frac a) tiers" and "list_ex possible tiers"
  shows "(\<exists>t. t \<in> set tiers \<and> default_tier possible roomy tiers = gt_id t \<and> possible t \<and>
      (t = tiers ! min 1 (length tiers - 1) \<and> roomy t \<or>
       roomy t \<and> list_all (\<lambda>u. possible u \<and> roomy u \<longrightarrow> gt_frac u \<le> gt_frac t) tiers \<or>
       \<not> list_ex (\<lambda>u. possible u \<and> roomy u) tiers \<and> list_all (\<lambda>u. possible u \<longrightarrow> gt_frac t \<le> gt_frac u) tiers)) \<and>
    default_tier (\<lambda>_. True) (\<lambda>_. False) GPU_TIERS = ''x'' \<and> default_tier (\<lambda>_. True) (\<lambda>t. gt_id t \<noteq> ''m'') GPU_TIERS = ''s''"
proof -
  have some: "filter possible tiers \<noteq> []" using assms(2) by (auto simp: filter_empty_conv list_ex_iff)
  let ?pref = "tiers ! min 1 (length tiers - 1)" and ?fit = "filter (\<lambda>u. possible u \<and> roomy u) tiers"
  have fit: "filter roomy (filter possible tiers) = ?fit" by (simp add: conj_commute)
  have "tiers \<noteq> []" using assms(2) by auto
  then have pref: "?pref \<in> set tiers" by (intro nth_mem) (cases tiers, auto)
  have builtin: "default_tier (\<lambda>_. True) (\<lambda>_. False) GPU_TIERS = ''x''" "default_tier (\<lambda>_. True) (\<lambda>t. gt_id t \<noteq> ''m'') GPU_TIERS = ''s''"
    by (simp_all add: default_tier_def GPU_TIERS_def)
  consider "possible ?pref \<and> roomy ?pref" | "\<not> (possible ?pref \<and> roomy ?pref)" "?fit \<noteq> []" | "\<not> (possible ?pref \<and> roomy ?pref)" "?fit = []"
    by blast
  then show ?thesis
  proof cases
    case 1
    then show ?thesis using some pref builtin by (auto simp: default_tier_def)
  next
    case 2
    have "default_tier possible roomy tiers = gt_id (hd ?fit)" using 2 some fit by (auto simp: default_tier_def Let_def)
    then show ?thesis
      using hd_largest [OF assms(1) 2(2)] builtin by (auto simp: list_all_iff intro!: exI [of _ "hd ?fit"])
  next
    case 3
    have "default_tier possible roomy tiers = gt_id (last (filter possible tiers))" using 3 some fit by (auto simp: default_tier_def Let_def)
    then show ?thesis
      using last_smallest [OF assms(1) some] 3(2) builtin
      by (auto simp: list_all_iff list_ex_iff filter_empty_conv intro!: exI [of _ "last (filter possible tiers)"])
  qed
qed

theorem default_tier_rule_witness:
  "\<exists>t \<in> set (rev GPU_TIERS). default_tier (\<lambda>t. gt_mode t = Fractional) (\<lambda>_. False) (rev GPU_TIERS) = gt_id t \<and> gt_mode t = Fractional"
proof -
  have "sorted_wrt (\<lambda>a b. gt_frac b \<le> gt_frac a) (rev GPU_TIERS)" "list_ex (\<lambda>t. gt_mode t = Fractional) (rev GPU_TIERS)"
    by (simp_all add: GPU_TIERS_def)
  from default_tier_rule [OF this, of "\<lambda>_. False"] show ?thesis by blast
qed

section \<open>Mounts\<close>

text \<open>Each volume is mounted at most once, and one the caller may not write is mounted read-only.\<close>

definition mounts_ok :: "Volume list \<Rightarrow> VolumeMount list \<Rightarrow> bool" where
  "mounts_ok vs ms \<longleftrightarrow>
     distinct (map vm_volume_id ms) \<and>
     (\<forall>v \<in> set vs. \<forall>m \<in> set ms. vm_volume_id m = vo_id v \<and> \<not> canWriteVolume v \<longrightarrow> vm_mode m = ''ro'')"

lemma same_volume: "distinct (map vo_id vs) \<Longrightarrow> v \<in> set vs \<Longrightarrow> u \<in> set vs \<Longrightarrow> vo_id v = vo_id u \<Longrightarrow> v = u"
  by (metis distinct_map inj_onD)

lemma mounts_ok_toggle:
  assumes "distinct (map vo_id vs)" and "v \<in> set vs" and "mounts_ok vs ms"
  shows "mounts_ok vs (toggle_volume v ms)"
proof (cases "mount_of (vo_id v) ms = None")
  case True
  then have "vo_id v \<notin> vm_volume_id ` set ms" by (auto simp: mount_of_def find_None_iff)
  then show ?thesis
    using True assms(3) same_volume [OF assms(1,2)] by (auto simp: mounts_ok_def toggle_volume_def)
next
  case False
  then show ?thesis using assms(3) by (auto simp: mounts_ok_def toggle_volume_def distinct_map inj_on_def)
qed

lemma mounts_ok_path: "mounts_ok vs ms \<Longrightarrow> mounts_ok vs (update_mount i (\<lambda>m. m\<lparr>vm_mount_path := p\<rparr>) ms)"
proof -
  assume ok: "mounts_ok vs ms"
  have "map vm_volume_id (update_mount i (\<lambda>m. m\<lparr>vm_mount_path := p\<rparr>) ms) = map vm_volume_id ms" by (simp add: update_mount_def)
  moreover have "vm_mode m = ''ro''" if "v \<in> set vs" "m \<in> set (update_mount i (\<lambda>m. m\<lparr>vm_mount_path := p\<rparr>) ms)"
      "vm_volume_id m = vo_id v" "\<not> canWriteVolume v" for v m
    using that ok by (auto simp: mounts_ok_def update_mount_def split: if_splits)
  ultimately show ?thesis using ok unfolding mounts_ok_def by metis
qed

lemma mounts_ok_mode:
  assumes "distinct (map vo_id vs)" and "v \<in> set vs" and "canWriteVolume v" and "mounts_ok vs ms"
  shows "mounts_ok vs (update_mount (vo_id v) (\<lambda>m. m\<lparr>vm_mode := md\<rparr>) ms)"
proof -
  have "map vm_volume_id (update_mount (vo_id v) (\<lambda>m. m\<lparr>vm_mode := md\<rparr>) ms) = map vm_volume_id ms" by (simp add: update_mount_def)
  moreover have "vm_mode m = ''ro''"
    if "u \<in> set vs" "m \<in> set (update_mount (vo_id v) (\<lambda>m. m\<lparr>vm_mode := md\<rparr>) ms)" "vm_volume_id m = vo_id u" "\<not> canWriteVolume u" for u m
  proof -
    have "vo_id u \<noteq> vo_id v" using same_volume [OF assms(1,2) that(1)] assms(3) that(4) by metis
    then have "m \<in> set ms" using that(2,3) by (auto simp: update_mount_def split: if_splits)
    then show ?thesis using assms(4) that by (auto simp: mounts_ok_def)
  qed
  ultimately show ?thesis using assms(4) unfolding mounts_ok_def by metis
qed

definition mounts_inv :: "wizard_env \<Rightarrow> wizard \<Rightarrow> bool" where
  "mounts_inv env w \<longleftrightarrow> (distinct (map vo_id (we_volumes env)) \<longrightarrow> mounts_ok (we_volumes env) (wf_volume_mounts (wz_form w)))"

lemma edit_mounts_inv:
  assumes "screen_edit env key w w'" and "mounts_inv env w"
  shows "mounts_inv env w'"
  using assms
  by (induction rule: screen_edit.induct)
    (auto simp: mounts_inv_def patch_def pickTier_def toggleCustom_def intro: mounts_ok_toggle mounts_ok_path mounts_ok_mode)

interpretation mounts: inductive_invariant "wizard_init suggested rc" "wizard_step env" "mounts_inv env" for env suggested rc
proof
  show "mounts_inv env (wizard_init suggested rc)" by (simp add: mounts_inv_def wizard_init_def mounts_ok_def)
  show "mounts_inv env w'" if "mounts_inv env w" "wizard_step env w w'" for w w'
    using that(2,1) by (cases rule: wizard_step.cases)
      (auto simp: handleNext_def handleBack_def mounts_inv_def patch_def effect_basics dest: edit_mounts_inv [unfolded mounts_inv_def])
qed

text \<open>As long as the list of volumes stays as it was fetched, a read-only volume is never mounted writable, and no volume is
  mounted twice, whatever the user clicks. But two
  volumes of one type are given the same mount path, and the wizard lets that order through.\<close>

theorem mounts_respect_rights:
  assumes "reach (wizard_init suggested rc) (wizard_step env) w" and "distinct (map vo_id (we_volumes env))"
  shows "distinct (map vm_volume_id (wf_volume_mounts (wz_form w))) \<and>
    (v \<in> set (we_volumes env) \<and> \<not> canWriteVolume v \<and> m \<in> set (wf_volume_mounts (wz_form w)) \<and> vm_volume_id m = vo_id v
       \<longrightarrow> vm_mode m = ''ro'') \<and>
    (wf_volume_mounts (wz_form w) = [] \<and> v \<noteq> u \<and> {v, u} \<subseteq> set (we_volumes env) \<and> vo_type v = vo_type u \<and>
       \<not> mountPathInvalid (''/data/'' @ (if str_truthy (vo_type v) then the (vo_type v) else ''vol'')) \<longrightarrow>
       (let ms = toggle_volume u (toggle_volume v (wf_volume_mounts (wz_form w))) in
        length ms = 2 \<and> \<not> distinct (map vm_mount_path ms) \<and> \<not> badMount (patch (\<lambda>f. f\<lparr>wf_volume_mounts := ms\<rparr>) w)))"
proof -
  have ok: "mounts_ok (we_volumes env) (wf_volume_mounts (wz_form w))"
    using mounts.inv_reach [OF assms(1)] assms(2) by (simp add: mounts_inv_def)
  have "vo_id v \<noteq> vo_id u" if "v \<noteq> u" "{v, u} \<subseteq> set (we_volumes env)" using that same_volume [OF assms(2)] by blast
  then show ?thesis using ok
    by (auto simp: mounts_ok_def toggle_volume_def mount_of_def badMount_def patch_def)
qed

theorem mounts_respect_rights_witness:
  "\<not> distinct (map vm_mount_path
     (toggle_volume \<lparr>vo_id = ''b'', vo_type = Some ''group'', vo_access_mode = None, vo_role = None\<rparr>
        (toggle_volume \<lparr>vo_id = ''a'', vo_type = Some ''group'', vo_access_mode = None, vo_role = None\<rparr>
           (wf_volume_mounts (wz_form (wizard_init ''n'' ''cpu''))))))"
proof -
  let ?v = "\<lambda>i. \<lparr>vo_id = i, vo_type = Some ''group'', vo_access_mode = None, vo_role = None\<rparr>"
  let ?env = "bare_env\<lparr>we_volumes := [?v ''a'', ?v ''b'']\<rparr>"
  have d: "distinct (map vo_id (we_volumes ?env))" by simp
  have "\<not> mountPathInvalid ''/data/group''" by code_simp
  then show ?thesis
    using mounts_respect_rights [OF reach_init d, of "''n''" "''cpu''" "?v ''a''" _ "?v ''b''"] by (simp add: wizard_init_def Let_def)
qed

end
