(* ===== verification/Node_Admin.thy ===== *)
theory Node_Admin
  imports Row_Order Infra_Hooks Ui_Controls
begin

text \<open>
  Nodes and node pools in the admin console (\<^verbatim>\<open>features/admin/Nodes.tsx\<close>): creating, granting and deleting pools, moving a node
  between pools, the inventory with its counters, cordoning, draining and removing nodes, and the device page. \<open>date\<close> reads a
  timestamp as milliseconds, \<open>key\<close> is the idempotency key of a call, \<open>ok\<close> the answer of a confirmation.
\<close>

section \<open>Pools\<close>

record NodePoolGrant =
  pg_id :: string
  pg_scope :: string
  pg_scope_id :: string
  pg_name :: string

record NodePool =
  np_id :: string
  np_cluster_id :: string
  np_name :: string
  np_node_count :: nat
  np_grants :: "NodePoolGrant list"

record pool_form =
  pl_clusterId :: string
  pl_name :: string
  pl_kind :: string
  pl_description :: string

definition effectiveCluster :: "string list \<Rightarrow> pool_form \<Rightarrow> string" where
  "effectiveCluster clusters f = str_or (nonempty (Some (pl_clusterId f))) (case clusters of [] \<Rightarrow> [] | c # _ \<Rightarrow> c)"

definition pool_blockers :: "string list \<Rightarrow> pool_form \<Rightarrow> string list" where
  "pool_blockers clusters f =
     (if effectiveCluster clusters f = [] then [''admin.nodes.pools.blockerCluster''] else []) @
     (if trim (pl_name f) = [] then [''admin.nodes.pools.blockerName''] else [])"

definition create_pool :: "string list \<Rightarrow> string \<Rightarrow> pool_form \<Rightarrow> mutation_def option" where
  "create_pool clusters key f =
     (if pool_blockers clusters f \<noteq> [] then None
      else Some (useCreateNodePool (JObj [(''cluster_id'', JStr (effectiveCluster clusters f)), (''name'', JStr (trim (pl_name f))),
             (''kind'', JStr (pl_kind f)), (''description'', js_opt (nonempty (Some (trim (pl_description f)))))]) key))"

text \<open>The grant form of a pool: organizations as their ids, groups with the organization they belong to.\<close>

definition granted :: "NodePool \<Rightarrow> (string \<times> string) set" where
  "granted pool = (\<lambda>g. (pg_scope g, pg_scope_id g)) ` set (np_grants pool)"

definition grantedOrgIds :: "NodePool \<Rightarrow> string list" where
  "grantedOrgIds pool = map pg_scope_id (filter (\<lambda>g. pg_scope g = ''org'') (np_grants pool))"

definition grant_targets :: "NodePool \<Rightarrow> bool \<Rightarrow> string list \<Rightarrow> (string \<times> string) list \<Rightarrow> string \<Rightarrow> string list" where
  "grant_targets pool isSuper orgs groups scope =
     (if scope = ''org'' then filter (\<lambda>i. (''org'', i) \<notin> granted pool) orgs
      else map fst (filter (\<lambda>(i, org). (isSuper \<or> org \<in> set (grantedOrgIds pool)) \<and> (''group'', i) \<notin> granted pool) groups))"

definition grant_effectiveId :: "string list \<Rightarrow> string \<Rightarrow> string" where
  "grant_effectiveId targets scopeId = str_or (nonempty (Some scopeId)) (case targets of [] \<Rightarrow> [] | x # _ \<Rightarrow> x)"

definition grant_init_scope :: "bool \<Rightarrow> string" where
  "grant_init_scope isSuper = (if isSuper then ''org'' else ''group'')"

text \<open>The form's state is the scope and the chosen target; changing the scope drops the target, and only a system administrator
  is shown the choice of scope.\<close>

inductive grant_step :: "NodePool \<Rightarrow> bool \<Rightarrow> string list \<Rightarrow> (string \<times> string) list \<Rightarrow> string \<times> string \<Rightarrow> string \<times> string \<Rightarrow> bool"
  for pool isSuper orgs groups where
  grant_scope: "isSuper \<Longrightarrow> sc \<in> {''org'', ''group''} \<Longrightarrow> grant_step pool isSuper orgs groups (scope, i) (sc, [])"
| grant_target: "j \<in> set (grant_targets pool isSuper orgs groups scope) \<Longrightarrow> grant_step pool isSuper orgs groups (scope, i) (scope, j)"

definition submit_grant ::
  "NodePool \<Rightarrow> bool \<Rightarrow> string list \<Rightarrow> (string \<times> string) list \<Rightarrow> string \<Rightarrow> string \<times> string \<Rightarrow> mutation_def option" where
  "submit_grant pool isSuper orgs groups key f =
     (let target = grant_effectiveId (grant_targets pool isSuper orgs groups (fst f)) (snd f) in
      if target = [] then None
      else Some (useGrantPool (np_id pool) (JObj [(''scope'', JStr (fst f)), (''scope_id'', JStr target)]) key))"

definition canRevoke :: "bool \<Rightarrow> NodePoolGrant \<Rightarrow> bool" where
  "canRevoke isSuper g = (isSuper \<or> pg_scope g = ''group'')"

definition onRevoke :: "string \<Rightarrow> bool \<Rightarrow> NodePool \<Rightarrow> NodePoolGrant \<Rightarrow> mutation_def option" where
  "onRevoke key ok pool g = (if ok then Some (useRevokePoolGrant (np_id pool) (pg_id g) key) else None)"

definition pool_delete_question :: "NodePool \<Rightarrow> confirm_options" where
  "pool_delete_question pool =
     \<lparr>cf_consequences = [''admin.nodes.pools.consequenceNodes'', ''admin.nodes.pools.consequenceGrants''], cf_confirmText = Some (np_name pool)\<rparr>"

definition delete_pool :: "string \<Rightarrow> bool \<Rightarrow> NodePool \<Rightarrow> mutation_def option" where
  "delete_pool key ok pool = (if ok then Some (useDeleteNodePool (np_id pool) key) else None)"

section \<open>The inventory\<close>

record GpuNode =
  gn_id :: string
  gn_hostname :: string
  gn_cluster_id :: "string option"
  gn_cluster_name :: "string option"
  gn_status :: string
  gn_role :: "string option"
  gn_gpu_mode :: "string option"
  gn_mode_counts :: "(string \<times> nat) list"
  gn_device_count :: nat
  gn_running_sessions :: "nat option"
  gn_cpu :: nat
  gn_heartbeat_at :: "string option"
  gn_pool_id :: "string option"
  gn_pool_name :: "string option"

text \<open>The mode column: nothing, one mode, or every mode with its count in a fixed order.\<close>

datatype mode_cell = NoModes | OneMode string | Modes "(string \<times> nat) list"

definition NodeModeCell :: "GpuNode \<Rightarrow> mode_cell" where
  "NodeModeCell n =
     (case gn_mode_counts n of
        [] \<Rightarrow> NoModes
      | [(m, _)] \<Rightarrow> OneMode m
      | cs \<Rightarrow> Modes (map (\<lambda>m. (m, opt_else (map_of cs m) 0)) (sort (map fst cs))))"

datatype pool_cell = NoPool | PoolName "string option" | PoolSelect "string list"

definition NodePoolCell :: "NodePool list \<Rightarrow> bool \<Rightarrow> GpuNode \<Rightarrow> pool_cell" where
  "NodePoolCell pools canManage n =
     (if gn_device_count n = 0 then NoPool
      else if \<not> canManage then PoolName (nonempty (gn_pool_name n))
      else PoolSelect ([] # map np_id (filter (\<lambda>p. Some (np_cluster_id p) = gn_cluster_id n) pools)))"

definition pick_pool :: "string \<Rightarrow> GpuNode \<Rightarrow> string \<Rightarrow> mutation_def" where
  "pick_pool key n v = useSetNodePool (gn_id n) (nonempty (Some v)) key"

definition nodes_tab :: "bool \<Rightarrow> params \<Rightarrow> string" where
  "nodes_tab isSuper ps = (if \<not> isSuper \<or> usp_get ''tab'' ps = Some ''pools'' then ''pools'' else ''nodes'')"

definition set_nodes_tab :: "string \<Rightarrow> params \<Rightarrow> params" where
  "set_nodes_tab v p = (if v = ''nodes'' then usp_delete ''tab'' p else usp_set ''tab'' v p)"

definition statusFilter :: "params \<Rightarrow> string" where
  "statusFilter ps = str_or (usp_get ''status'' ps) []"

definition setStatusFilter :: "string \<Rightarrow> params \<Rightarrow> params" where
  "setStatusFilter v p = (if v \<noteq> [] then usp_set ''status'' v p else usp_delete ''status'' p)"

text \<open>The updates of the clear button, in order.\<close>

definition clear_nodes :: "(params \<Rightarrow> params) list" where
  "clear_nodes = [clear_table [], setStatusFilter []]"

definition nodes_query :: "bool \<Rightarrow> params \<Rightarrow> string option \<Rightarrow> 'e query_def" where
  "nodes_query isSuper ps clusterId =
     useNodes_inventory \<lparr>nf_status = nonempty (Some (statusFilter ps)), nf_region = None, nf_cluster_id = nonempty clusterId\<rparr> isSuper"

record nodes_summary =
  sm_total :: nat
  sm_ready :: nat
  sm_cordoned :: nat
  sm_availGpus :: nat
  sm_offline :: nat
  sm_devices :: nat

definition node_summary :: "GpuNode list \<Rightarrow> nodes_summary" where
  "node_summary list =
     \<lparr>sm_total = length list,
      sm_ready = length (filter (\<lambda>n. gn_status n = ''ready'' \<or> gn_status n = ''busy'') list),
      sm_cordoned = length (filter (\<lambda>n. gn_status n = ''cordoned'') list),
      sm_availGpus = sum_list (map gn_device_count (filter (\<lambda>n. gn_status n = ''ready'') list)),
      sm_offline = length (filter (\<lambda>n. gn_status n = ''offline'') list),
      sm_devices = sum_list (map gn_device_count list)\<rparr>"

datatype node_action = DoCordon | DoUncordon | GoDrain | DoRemove

definition node_actions :: "GpuNode \<Rightarrow> node_action list" where
  "node_actions n =
     (if 0 < gn_device_count n then [if gn_status n = ''cordoned'' then DoUncordon else DoCordon, GoDrain] else []) @
     (if gn_status n = ''offline'' then [DoRemove] else [])"

definition remove_question :: "GpuNode \<Rightarrow> confirm_options" where
  "remove_question n = \<lparr>cf_consequences = [''admin.nodes.consequenceDelete''], cf_confirmText = Some (gn_hostname n)\<rparr>"

definition onDeleteNode :: "bool \<Rightarrow> GpuNode \<Rightarrow> mutation_def option" where
  "onDeleteNode ok n = (if ok then Some (useDeleteNode (gn_id n)) else None)"

definition toggleCordon :: "bool \<Rightarrow> GpuNode \<Rightarrow> mutation_def option" where
  "toggleCordon ok n =
     (let nxt = (gn_status n \<noteq> ''cordoned'') in
      if nxt \<and> \<not> ok then None else Some (useCordonNode (gn_id n) nxt None))"

definition node_matches :: "string \<Rightarrow> GpuNode \<Rightarrow> bool" where
  "node_matches query n =
     (let q = to_lower (trim query) in
      q = [] \<or> str_includes (to_lower (gn_hostname n)) q \<or> str_includes (to_lower (str_or (gn_cluster_name n) [])) q \<or>
      str_includes (to_lower (str_or (gn_pool_name n) [])) q)"

definition node_columns :: "(string \<Rightarrow> rat option) \<Rightarrow> GpuNode Column list" where
  "node_columns date =
     (let col = (\<lambda>k f. \<lparr>co_key = k, co_sortBy = Some f, co_sortable = None\<rparr>) in
      [col ''cluster'' (\<lambda>n. KOther (str_or (or_else (gn_cluster_name n) (gn_cluster_id n)) [])),
       col ''role'' (\<lambda>n. KOther (str_or (gn_role n) [])),
       col ''hostname'' (\<lambda>n. KOther (gn_hostname n)),
       col ''pool'' (\<lambda>n. KOther (str_or (gn_pool_name n) [])),
       col ''gpu_mode'' (\<lambda>n. KOther (str_or (gn_gpu_mode n) [])),
       col ''device_count'' (\<lambda>n. KNum (Fin (of_nat (gn_device_count n)))),
       col ''running_sessions'' (\<lambda>n. KNum (Fin (of_nat (opt_else (gn_running_sessions n) 0)))),
       col ''cpu'' (\<lambda>n. KNum (Fin (of_nat (gn_cpu n)))),
       col ''status'' (\<lambda>n. KOther (gn_status n)),
       col ''heartbeat_at'' (\<lambda>n. KNum (case nonempty (gn_heartbeat_at n) of None \<Rightarrow> Fin 0
          | Some h \<Rightarrow> (case date h of None \<Rightarrow> NaN | Some ms \<Rightarrow> Fin ms))),
       \<lparr>co_key = ''actions'', co_sortBy = None, co_sortable = Some False\<rparr>])"

definition node_defaults :: table_defaults where
  "node_defaults = \<lparr>td_sort = Some ''hostname'', td_dir = Some ''asc'', td_tab = None\<rparr>"

definition node_rows ::
  "(string \<Rightarrow> string \<Rightarrow> int) \<Rightarrow> (jsnum \<Rightarrow> string) \<Rightarrow> (string \<Rightarrow> rat option) \<Rightarrow> params \<Rightarrow> GpuNode list \<Rightarrow> GpuNode list" where
  "node_rows coll ns date ps all_nodes =
     (let st = useTableState [] node_defaults ps in
      sortRows coll ns (filter (node_matches (ts_query st)) all_nodes)
        (sortAccessor (\<lambda>_ _. KNull) (node_columns date) (ts_sort st)) (ts_dir st))"

section \<open>Draining, and the device page\<close>

datatype drain_mode = Reschedule | ForceTerminate

fun drain_text :: "drain_mode \<Rightarrow> string" where
  "drain_text Reschedule = ''reschedule''"
| "drain_text ForceTerminate = ''force_terminate''"

definition drain_question :: "GpuNode \<Rightarrow> confirm_options" where
  "drain_question n = \<lparr>cf_consequences = [], cf_confirmText = Some (gn_hostname n)\<rparr>"

definition submit_drain :: "GpuNode option \<Rightarrow> drain_mode \<Rightarrow> bool \<Rightarrow> mutation_def option" where
  "submit_drain node mode ok =
     (case node of
        None \<Rightarrow> None
      | Some n \<Rightarrow> if mode = ForceTerminate \<and> \<not> ok then None else Some (useDrainNode (gn_id n) (Some (drain_text mode)) None))"

definition host_percent :: "rat \<Rightarrow> rat \<Rightarrow> int" where
  "host_percent used total_amount = (if 0 < total_amount then min 100 (js_round (used / total_amount * 100)) else 0)"

record NodeSessionRow =
  ns_id :: string
  ns_status :: string
  ns_node_id :: "string option"
  ns_node_hostname :: "string option"

definition NODE_ACTIVE :: "string list" where
  "NODE_ACTIVE = [''pending'', ''preparing'', ''running'', ''paused'', ''terminating'']"

definition nodeSessions :: "string \<Rightarrow> GpuNode option \<Rightarrow> NodeSessionRow list \<Rightarrow> NodeSessionRow list" where
  "nodeSessions nodeId node rows =
     filter (\<lambda>x. ns_status x \<in> set NODE_ACTIVE \<and>
       (ns_node_id x = Some nodeId \<or>
        (case node of None \<Rightarrow> False | Some n \<Rightarrow> gn_hostname n \<noteq> [] \<and> ns_node_hostname x = Some (gn_hostname n)))) rows"

text \<open>The device's mode selector: what it offers, and that the hidden mode is shown but not selectable.\<close>

definition device_modes :: "string \<Rightarrow> string option \<Rightarrow> (string \<times> bool) list" where
  "device_modes mode desired =
     [(''fractional'', True), (''exclusive'', True)] @ (if str_or desired mode = ''mig'' then [(''mig'', False)] else [])"

definition pick_device_mode :: "string \<Rightarrow> string \<Rightarrow> mutation_def" where
  "pick_device_mode deviceId m = useSetDeviceMode deviceId (Some m)"

section \<open>What the screen guarantees\<close>

definition grant_inv :: "NodePool \<Rightarrow> bool \<Rightarrow> string list \<Rightarrow> (string \<times> string) list \<Rightarrow> string \<times> string \<Rightarrow> bool" where
  "grant_inv pool isSuper orgs groups f =
     (fst f \<in> {''org'', ''group''} \<and> (isSuper \<or> fst f = ''group'') \<and>
      snd f \<in> insert [] (set (grant_targets pool isSuper orgs groups (fst f))))"

interpretation grant: inductive_invariant "(grant_init_scope isSuper, [])" "grant_step pool isSuper orgs groups" "grant_inv pool isSuper orgs groups"
  for isSuper pool orgs groups
  by standard (auto simp: grant_inv_def grant_init_scope_def elim: grant_step.cases)

lemma granted_org: "org \<in> set (grantedOrgIds pool) \<longleftrightarrow> (''org'', org) \<in> granted pool"
  by (force simp: grantedOrgIds_def granted_def image_iff)

text \<open>C31: A pool is granted only where it is missing and may be granted. Whatever is chosen in the form, a request that leaves
  names a scope that holds no grant on the pool yet; a system administrator's goes to an organization or a group of the
  lists, anyone else's to a group of an organization that already holds a grant. Without such a target nothing is sent.\<close>

theorem pool_grants_sound:
  assumes "reach (grant_init_scope isSuper, []) (grant_step pool isSuper orgs groups) f"
    and "list_all (\<lambda>i. i \<noteq> []) (orgs @ map fst groups)"
  shows "case submit_grant pool isSuper orgs groups key f of
      None \<Rightarrow> grant_targets pool isSuper orgs groups (fst f) = []
    | Some m \<Rightarrow> (\<exists>i. m = useGrantPool (np_id pool) (JObj [(''scope'', JStr (fst f)), (''scope_id'', JStr i)]) key \<and>
        (fst f, i) \<notin> granted pool \<and>
        (fst f = ''org'' \<and> isSuper \<and> i \<in> set orgs \<or>
         fst f = ''group'' \<and> (\<exists>org. (i, org) \<in> set groups \<and> (isSuper \<or> (''org'', org) \<in> granted pool))))"
proof -
  let ?ts = "grant_targets pool isSuper orgs groups (fst f)"
  let ?t = "grant_effectiveId ?ts (snd f)"
  have inv: "grant_inv pool isSuper orgs groups f" using grant.inv_reach assms(1) .
  have ne: "list_all (\<lambda>i. i \<noteq> []) ?ts" using assms(2) by (auto simp: grant_targets_def list_all_iff)
  have t: "?t \<noteq> [] \<longleftrightarrow> ?ts \<noteq> []" "?t \<noteq> [] \<Longrightarrow> ?t \<in> set ?ts"
    using inv ne by (auto simp: grant_inv_def grant_effectiveId_def nonempty_def list_all_iff split: list.splits)
  have mem: "(fst f, i) \<notin> granted pool \<and> (fst f = ''org'' \<and> isSuper \<and> i \<in> set orgs \<or>
       fst f = ''group'' \<and> (\<exists>org. (i, org) \<in> set groups \<and> (isSuper \<or> (''org'', org) \<in> granted pool)))" if "i \<in> set ?ts" for i
    using that inv by (auto simp: grant_targets_def grant_inv_def granted_org split: if_splits)
  show ?thesis
  proof (cases "?t = []")
    case False
    then show ?thesis using mem [OF t(2)] by (simp add: submit_grant_def Let_def) blast
  qed (use t(1) in \<open>simp add: submit_grant_def\<close>)
qed

definition sample_node_pool :: NodePool where
  "sample_node_pool = \<lparr>np_id = ''p1'', np_cluster_id = ''c1'', np_name = ''a'', np_node_count = 1,
     np_grants = [\<lparr>pg_id = ''g1'', pg_scope = ''org'', pg_scope_id = ''o1'', pg_name = ''O''\<rparr>]\<rparr>"

theorem pool_grants_sound_witness:
  "submit_grant sample_node_pool True [''o1''] [] ''k'' (''org'', []) = None \<and>
   submit_grant sample_node_pool False [] [(''d1'', ''o1''), (''d2'', ''o2'')] ''k'' (''group'', []) =
     Some (useGrantPool ''p1'' (JObj [(''scope'', JStr ''group''), (''scope_id'', JStr ''d1'')]) ''k'')"
proof -
  have r: "reach (grant_init_scope True, []) (grant_step sample_node_pool True [''o1''] []) (''org'', [])"
    "reach (grant_init_scope False, []) (grant_step sample_node_pool False [] [(''d1'', ''o1''), (''d2'', ''o2'')]) (''group'', [])"
    using reach_init [of "(grant_init_scope True, [])"] reach_init [of "(grant_init_scope False, [])"] by (simp_all add: grant_init_scope_def)
  have "grant_targets sample_node_pool True [''o1''] [] ''org'' = []"
    "grant_targets sample_node_pool False [] [(''d1'', ''o1''), (''d2'', ''o2'')] ''group'' = [''d1'']"
    by (simp_all add: grant_targets_def granted_def grantedOrgIds_def sample_node_pool_def)
  with pool_grants_sound [OF r(1), of "''k''"] pool_grants_sound [OF r(2), of "''k''"] show ?thesis
    by (auto simp: submit_grant_def grant_effectiveId_def sample_node_pool_def split: option.splits)
qed

text \<open>What takes capacity away is asked about first. Cordoning and draining are offered only for nodes with cards and removal only
  for a node that is offline; cordoning and a draining that kills sessions are sent only when confirmed, removal and killing
  by typing the node's name; releasing a cordon needs no question.\<close>

theorem node_actions_confirmed:
  "(DoRemove \<in> set (node_actions n) \<longleftrightarrow> gn_status n = ''offline'') \<and>
   (GoDrain \<in> set (node_actions n) \<longleftrightarrow> 0 < gn_device_count n) \<and>
   (DoCordon \<in> set (node_actions n) \<or> DoUncordon \<in> set (node_actions n) \<longleftrightarrow> 0 < gn_device_count n) \<and>
   onDeleteNode False n = None \<and> cf_confirmText (remove_question n) = Some (gn_hostname n) \<and>
   (toggleCordon False n = None \<longleftrightarrow> gn_status n \<noteq> ''cordoned'') \<and>
   toggleCordon True n = Some (useCordonNode (gn_id n) (gn_status n \<noteq> ''cordoned'') None) \<and>
   submit_drain (Some n) ForceTerminate False = None \<and> cf_confirmText (drain_question n) = Some (gn_hostname n) \<and>
   submit_drain (Some n) Reschedule ok = Some (useDrainNode (gn_id n) (Some ''reschedule'') None) \<and>
   submit_drain None mode ok = None"
  by (auto simp: node_actions_def onDeleteNode_def remove_question_def toggleCordon_def submit_drain_def drain_question_def)

lemma sum_filter_le: "sum_list (map f (filter p xs)) \<le> sum_list (map f xs)" for f :: "'a \<Rightarrow> nat"
  by (induction xs) auto

lemma node_summary_bounds:
  "sm_ready (node_summary ns) + sm_cordoned (node_summary ns) + sm_offline (node_summary ns) \<le> sm_total (node_summary ns) \<and>
   sm_availGpus (node_summary ns) \<le> sm_devices (node_summary ns)"
  by (induction ns) (auto simp: node_summary_def sum_filter_le intro: trans_le_add2)

text \<open>The counters and the table are one set: the query that feeds both carries the chosen cluster and the status filter.
  But clearing the filters of the list clears the status only, since the router keeps the last of the two updates.\<close>

theorem clear_nodes_keeps_search:
  assumes router: "\<And>us u ps. router (us @ [u]) ps = u ps"
  shows "ts_query (useTableState [] node_defaults (router clear_nodes ps)) = ts_query (useTableState [] node_defaults ps) \<and>
    statusFilter (router clear_nodes ps) = []"
  using router [of "[clear_table []]" "setStatusFilter []" ps]
  by (simp add: clear_nodes_def setStatusFilter_def statusFilter_def useTableState_def usp_get_delete param_key_def)

theorem clear_nodes_keeps_search_witness:
  "ts_query (useTableState [] node_defaults (last clear_nodes [(''q'', ''gpu''), (''status'', ''offline'')])) = ''gpu''"
  using clear_nodes_keeps_search [of "\<lambda>us ps. last us ps" "[(''q'', ''gpu''), (''status'', ''offline'')]"]
  by (simp add: useTableState_def usp_get_def param_key_def)

end
