(* ===== verification/Fleet_Admin.thy ===== *)
theory Fleet_Admin
  imports Session_Wizard Volume_Page Node_Admin
begin

text \<open>
  What the fleet is made of, in the admin console: images (\<^verbatim>\<open>features/admin/Images.tsx\<close>), clusters (\<^verbatim>\<open>Clusters.tsx\<close>), storage pools
  (\<^verbatim>\<open>StoragePools.tsx\<close>) and every user's volumes (\<^verbatim>\<open>Volumes.tsx\<close>). The server's handler for a changed pool
  (\<^verbatim>\<open>backend/app/api/storage_pools_router.py\<close>) is modelled beside the form. \<open>date\<close> reads a timestamp as milliseconds, \<open>coll\<close> is the
  collation, \<open>ns\<close> writes a number, \<open>key\<close> is the idempotency key of a call, \<open>ok\<close> the answer of a confirmation.
\<close>

section \<open>Images\<close>

record ImageRow =
  ir_id :: string
  ir_name :: string
  ir_kind :: string
  ir_import_status :: "string option"
  ir_tags :: "(string \<times> js) list option"
  ir_cuda_version :: "string option"
  ir_supported_gpus :: "string list"
  ir_public :: "bool option"

definition images_defaults :: table_defaults where
  "images_defaults = \<lparr>td_sort = Some ''name'', td_dir = Some ''asc'', td_tab = Some ''images''\<rparr>"

definition images_state :: "params \<Rightarrow> TableState" where
  "images_state ps = useTableState [] images_defaults ps"

text \<open>The kind is kept on the page, the search in the address; both go into the query.\<close>

definition images_filter :: "params \<Rightarrow> string \<Rightarrow> ImageFilter" where
  "images_filter ps kind =
     \<lparr>if_kind = nonempty (Some kind), if_q = nonempty (Some (trim (ts_query (images_state ps)))), if_tag = None, if_public = None,
      if_mine = None, if_page = None, if_size = None\<rparr>"

text \<open>Every model with devices, and the CUDA floor of its offering: in the map the last offering of a model counts.\<close>

definition min_cuda_of :: "Offering list \<Rightarrow> string \<Rightarrow> string option" where
  "min_cuda_of offerings m =
     (case map_of (rev (map (\<lambda>ofr. (the (of_gpu_model ofr), of_min_cuda ofr)) (filter (\<lambda>ofr. str_truthy (of_gpu_model ofr)) offerings))) m of
        Some v \<Rightarrow> v
      | None \<Rightarrow> None)"

definition fleet_models :: "Availability list \<Rightarrow> Offering list \<Rightarrow> (string \<times> string option) list" where
  "fleet_models cards offerings = map (\<lambda>m. (m, min_cuda_of offerings m)) (uniq (map av_gpu_model cards))"

definition supported_models :: "ImageRow \<Rightarrow> (string \<times> string option) list \<Rightarrow> string list" where
  "supported_models r fleet =
     map fst (filter (\<lambda>(m, lo). (ir_supported_gpus r = [] \<or> m \<in> set (ir_supported_gpus r)) \<and> cudaCompatible (ir_cuda_version r) lo) fleet)"

datatype gpu_support = CpuOnly | UnknownFleet | EveryGpu | NoSupportedGpu | SupportedOn "string list"

definition support_cell :: "ImageRow \<Rightarrow> (string \<times> string option) list \<Rightarrow> gpu_support" where
  "support_cell r fleet =
     (if \<not> str_truthy (ir_cuda_version r) \<and> ir_supported_gpus r = [] then CpuOnly
      else if fleet = [] then UnknownFleet
      else let supported = supported_models r fleet in
           if length supported = length fleet then EveryGpu
           else if supported = [] then NoSupportedGpu else SupportedOn supported)"

definition RESERVED_TAG_KEYS :: "string list" where
  "RESERVED_TAG_KEYS = [''cuda_version'', ''supported_gpus'']"

definition shown_tags :: "ImageRow \<Rightarrow> (string \<times> js) list" where
  "shown_tags r = filter (\<lambda>(k, _). k \<notin> set RESERVED_TAG_KEYS) (opt_else (ir_tags r) [])"

definition togglePublic :: "ImageRow \<Rightarrow> mutation_def" where
  "togglePublic r = useUpdateImage (ir_id r) (JObj [(''public'', JBool (\<not> opt_else (ir_public r) True))])"

text \<open>No column of the image table has an accessor: each orders by the property of its key. A row has no property \<^verbatim>\<open>cuda\<close>, and the text
  of any tag object is the same.\<close>

definition image_field :: "string \<Rightarrow> ImageRow \<Rightarrow> sort_key" where
  "image_field key r =
     (if key = ''name'' then KOther (ir_name r)
      else if key = ''kind'' then KOther (ir_kind r)
      else if key = ''supported_gpus'' then KOther (join '','' (ir_supported_gpus r))
      else if key = ''tags'' then (if ir_tags r = None then KNull else KOther ''[object Object]'')
      else if key = ''import_status'' then (case ir_import_status r of None \<Rightarrow> KNull | Some s \<Rightarrow> KOther s)
      else if key = ''public'' then (case ir_public r of None \<Rightarrow> KNull | Some b \<Rightarrow> KOther (if b then ''true'' else ''false''))
      else KNull)"

definition imageColumns :: "ImageRow Column list" where
  "imageColumns =
     map (\<lambda>k. \<lparr>co_key = k, co_sortBy = None, co_sortable = None\<rparr>)
       [''name'', ''kind'', ''cuda'', ''supported_gpus'', ''tags'', ''import_status'', ''public'']"

definition imageRows :: "(string \<Rightarrow> string \<Rightarrow> int) \<Rightarrow> (jsnum \<Rightarrow> string) \<Rightarrow> params \<Rightarrow> ImageRow list \<Rightarrow> ImageRow list" where
  "imageRows coll ns ps images =
     sortRows coll ns images (sortAccessor image_field imageColumns (ts_sort (images_state ps))) (ts_dir (images_state ps))"

datatype list_screen = NoResultsScreen | EmptyScreen | RowsScreen

definition images_screen :: "params \<Rightarrow> ImageRow list \<Rightarrow> list_screen" where
  "images_screen ps rows =
     (if rows \<noteq> [] then RowsScreen else if isFiltered images_defaults (images_state ps) then NoResultsScreen else EmptyScreen)"

record import_form =
  mf_sourceType :: string
  mf_source :: string
  mf_name :: string
  mf_kind :: string
  mf_cudaVersion :: string

definition import_reset :: import_form where
  "import_reset = \<lparr>mf_sourceType = ''registry'', mf_source = [], mf_name = [], mf_kind = ''image'', mf_cudaVersion = []\<rparr>"

definition import_valid :: "import_form \<Rightarrow> bool" where
  "import_valid f = (0 < length (trim (mf_source f)) \<and> 0 < length (trim (mf_name f)))"

definition import_blockers :: "import_form \<Rightarrow> string list" where
  "import_blockers f =
     (if import_valid f then []
      else (if trim (mf_source f) = [] then [''admin.images.source''] else []) @ (if trim (mf_name f) = [] then [''common.name''] else []))"

definition import_body :: "import_form \<Rightarrow> js" where
  "import_body f =
     JObj ([(''source_type'', JStr (mf_sourceType f)), (''source'', JStr (trim (mf_source f))), (''name'', JStr (trim (mf_name f))),
            (''kind'', JStr (mf_kind f))] @
           (if trim (mf_cudaVersion f) \<noteq> [] then [(''cuda_version'', JStr (trim (mf_cudaVersion f)))] else []))"

text \<open>Submitting: what is sent, and the form after the answer.\<close>

definition import_submit :: "bool \<Rightarrow> import_form \<Rightarrow> mutation_def option" where
  "import_submit pending f = (if \<not> import_valid f \<or> pending then None else Some (useImportImage (import_body f)))"

definition import_answered :: "'e + js \<Rightarrow> import_form \<Rightarrow> import_form" where
  "import_answered res f = (case res of Inr _ \<Rightarrow> import_reset | Inl _ \<Rightarrow> f)"

section \<open>Clusters\<close>

record Cluster =
  cu_id :: string
  cu_name :: string
  cu_role :: string
  cu_status :: string
  cu_node_count :: "rat option"
  cu_api_server :: "string option"
  cu_session_domain :: "string option"

definition nodes_of :: "GpuNode list \<Rightarrow> string \<Rightarrow> GpuNode list" where
  "nodes_of nodes cid = filter (\<lambda>n. str_or (gn_cluster_id n) [] = cid) nodes"

definition gpu_total :: "GpuNode list \<Rightarrow> string \<Rightarrow> nat" where
  "gpu_total nodes cid = sum_list (map gn_device_count (nodes_of nodes cid))"

text \<open>Running sessions per cluster, from the cluster and the status of every session.\<close>

definition running_in :: "(string option \<times> string option) list \<Rightarrow> string \<Rightarrow> nat" where
  "running_in sessions cid =
     length (filter (\<lambda>(c, st). st = Some ''running'' \<and> str_truthy c \<and> c = Some cid) sessions)"

fun num_max :: "jsnum \<Rightarrow> jsnum \<Rightarrow> jsnum" where
  "num_max NaN y = NaN"
| "num_max x NaN = NaN"
| "num_max (Fin a) (Fin b) = Fin (max a b)"
| "num_max PosInf y = PosInf"
| "num_max x PosInf = PosInf"
| "num_max NegInf y = y"
| "num_max x NegInf = x"

definition node_beat :: "(string \<Rightarrow> rat option) \<Rightarrow> GpuNode \<Rightarrow> jsnum" where
  "node_beat date n =
     (case nonempty (gn_heartbeat_at n) of None \<Rightarrow> Fin 0 | Some h \<Rightarrow> (case date h of None \<Rightarrow> NaN | Some t \<Rightarrow> Fin t))"

definition last_beat :: "(string \<Rightarrow> rat option) \<Rightarrow> GpuNode list \<Rightarrow> string \<Rightarrow> jsnum" where
  "last_beat date nodes cid = foldl num_max (Fin 0) (map (node_beat date) (nodes_of nodes cid))"

definition clusters_defaults :: table_defaults where
  "clusters_defaults = \<lparr>td_sort = Some ''name'', td_dir = Some ''asc'', td_tab = None\<rparr>"

definition cluster_sort_by ::
  "(string \<Rightarrow> rat option) \<Rightarrow> GpuNode list \<Rightarrow> (string option \<times> string option) list \<Rightarrow> string option \<Rightarrow> (Cluster \<Rightarrow> sort_key) option" where
  "cluster_sort_by date nodes sessions key =
     Option.bind key (map_of
       [(''name'', \<lambda>c. KOther (cu_name c)), (''role'', \<lambda>c. KOther (cu_role c)),
        (''session_domain'', \<lambda>c. KOther (str_or (cu_session_domain c) [])), (''status'', \<lambda>c. KOther (cu_status c)),
        (''node_count'', \<lambda>c. KNum (Fin (opt_else (cu_node_count c) 0))), (''gpus'', \<lambda>c. KNum (Fin (of_nat (gpu_total nodes (cu_id c))))),
        (''running'', \<lambda>c. KNum (Fin (of_nat (running_in sessions (cu_id c))))), (''heartbeat'', \<lambda>c. KNum (last_beat date nodes (cu_id c)))])"

definition cluster_matches :: "string \<Rightarrow> Cluster \<Rightarrow> bool" where
  "cluster_matches query c =
     (let q = to_lower (trim query) in
      q = [] \<or> str_includes (to_lower (cu_name c)) q \<or> str_includes (to_lower (str_or (cu_api_server c) [])) q)"

definition cluster_rows ::
  "(string \<Rightarrow> string \<Rightarrow> int) \<Rightarrow> (jsnum \<Rightarrow> string) \<Rightarrow> (string \<Rightarrow> rat option) \<Rightarrow> params \<Rightarrow> GpuNode list \<Rightarrow>
   (string option \<times> string option) list \<Rightarrow> Cluster list \<Rightarrow> Cluster list" where
  "cluster_rows coll ns date ps nodes sessions clusters =
     (let st = useTableState [] clusters_defaults ps in
      sortRows coll ns (filter (cluster_matches (ts_query st)) clusters) (cluster_sort_by date nodes sessions (ts_sort st)) (ts_dir st))"

definition cluster_delete_question :: "Cluster \<Rightarrow> confirm_options" where
  "cluster_delete_question c =
     \<lparr>cf_consequences = [''admin.clusters.consequenceNodes'', ''admin.clusters.consequenceSessions''], cf_confirmText = Some (cu_name c)\<rparr>"

definition delete_cluster :: "bool \<Rightarrow> Cluster \<Rightarrow> mutation_def option" where
  "delete_cluster ok c = (if ok then Some (useDeleteCluster (cu_id c)) else None)"

text \<open>The form of a known cluster.\<close>

definition cluster_dirty :: "Cluster \<Rightarrow> string \<Rightarrow> string \<Rightarrow> bool" where
  "cluster_dirty c name role = (trim name \<noteq> cu_name c \<or> role \<noteq> cu_role c)"

definition edit_cluster :: "bool \<Rightarrow> Cluster \<Rightarrow> string \<Rightarrow> string \<Rightarrow> mutation_def option" where
  "edit_cluster pending c name role =
     (if pending \<or> trim name = [] \<or> \<not> cluster_dirty c name role then None
      else Some (useUpdateCluster (cu_id c) (JObj [(''name'', JStr (str_or (nonempty (Some (trim name))) (cu_name c))), (''role'', JStr role)])))"

definition edit_cluster_reasons :: "Cluster \<Rightarrow> string \<Rightarrow> string \<Rightarrow> string list" where
  "edit_cluster_reasons c name role =
     (if trim name \<noteq> [] then (if cluster_dirty c name role then [] else [''account.noChanges'']) else [''admin.clusters.nameLabel''])"

text \<open>Registering one: the search \<^verbatim>\<open>/\bclusters\s*:/\<close>; \<open>inside\<close> tells that the character before is part of a word.\<close>

definition word_char :: "char \<Rightarrow> bool" where
  "word_char c =
     (let n = (of_char c :: nat) in 48 \<le> n \<and> n \<le> 57 \<or> 65 \<le> n \<and> n \<le> 90 \<or> 97 \<le> n \<and> n \<le> 122 \<or> c = CHR ''_'')"

fun has_clusters :: "bool \<Rightarrow> string \<Rightarrow> bool" where
  "has_clusters inside [] = False"
| "has_clusters inside (c # s) =
     (\<not> inside \<and> starts_with (c # s) ''clusters'' \<and> starts_with (dropWhile js_space (drop 8 (c # s))) '':'' \<or> has_clusters (word_char c) s)"

definition kubeconfig_error :: "bool \<Rightarrow> string \<Rightarrow> bool" where
  "kubeconfig_error touched kubeconfig = (touched \<and> trim kubeconfig \<noteq> [] \<and> \<not> has_clusters False kubeconfig)"

definition register_cluster :: "string \<Rightarrow> bool \<Rightarrow> bool \<Rightarrow> string \<Rightarrow> string \<Rightarrow> mutation_def option" where
  "register_cluster key pending touched name kubeconfig =
     (if pending \<or> trim name = [] \<or> trim kubeconfig = [] \<or> kubeconfig_error touched kubeconfig then None
      else Some (useRegisterCluster (trim name) (trim kubeconfig) None key))"

definition register_reasons :: "string \<Rightarrow> string \<Rightarrow> string list" where
  "register_reasons name kubeconfig =
     (if trim name = [] then [''admin.clusters.nameLabel''] else []) @
     (if trim kubeconfig = [] then [''admin.clusters.kubeconfigLabel''] else [])"

section \<open>Volumes of all users\<close>

record FleetVol = Vol +
  fv_cluster_name :: "string option"
  fv_storage_class :: "string option"
  fv_pool_name :: "string option"

definition VOL_FILTERS :: "string list" where
  "VOL_FILTERS = [''scope'', ''mode'', ''type'', ''group'']"

definition volumes_defaults :: table_defaults where
  "volumes_defaults = \<lparr>td_sort = Some ''owner'', td_dir = Some ''asc'', td_tab = None\<rparr>"

definition volumes_tab :: "params \<Rightarrow> string" where
  "volumes_tab ps = (if usp_get ''tab'' ps = Some ''pools'' then ''pools'' else ''volumes'')"

definition set_volumes_tab :: "string \<Rightarrow> params \<Rightarrow> params" where
  "set_volumes_tab v p = (if v = ''volumes'' then usp_delete ''tab'' p else usp_set ''tab'' v p)"

definition group_options :: "FleetVol list \<Rightarrow> string list" where
  "group_options vols = distinct_values vo_scope_id (filter (\<lambda>v. vo_scope v = Some ''group'') vols)"

definition fleet_vol_matches :: "params \<Rightarrow> FleetVol \<Rightarrow> bool" where
  "fleet_vol_matches ps v =
     (let chosen = filter_values [] ps; q = to_lower (trim (ts_query (useTableState [] volumes_defaults ps))) in
      if chosen ''scope'' \<noteq> [] \<and> vo_scope v \<noteq> Some (chosen ''scope'') then False
      else if chosen ''mode'' \<noteq> [] \<and> vo_access_mode v \<noteq> Some (chosen ''mode'') then False
      else if chosen ''type'' \<noteq> [] \<and> vo_type v \<noteq> Some (chosen ''type'') then False
      else if chosen ''group'' \<noteq> [] \<and> \<not> (vo_scope v = Some ''group'' \<and> vo_scope_id v = Some (chosen ''group'')) then False
      else q = [] \<or> list_ex (\<lambda>x. str_includes (to_lower (str_or x [])) q)
        [vo_name v, Some (vo_id v), vo_owner_name v, vo_scope_id v, vo_type v, fv_pool_name v, fv_cluster_name v, fv_storage_class v])"

definition used_share :: "FleetVol \<Rightarrow> rat" where
  "used_share v = (let q = opt_else (vo_quota_gb v) 0 in if q \<noteq> 0 then opt_else (vo_used_gb v) 0 / q else 0)"

definition fleet_vol_sort_by :: "string \<Rightarrow> (FleetVol \<Rightarrow> sort_key) option" where
  "fleet_vol_sort_by key =
     map_of
       [(''name'', \<lambda>v. KOther (str_or (nonempty (vo_name v)) (vo_id v))),
        (''owner'', \<lambda>v. KOther (str_or (or_else (vo_owner_name v) (vo_scope_id v)) [])),
        (''scope'', \<lambda>v. KOther (str_or (vo_scope v) [])),
        (''quota'', \<lambda>v. KNum (Fin (used_share v))),
        (''storage'', \<lambda>v. KOther (str_or (or_else (fv_pool_name v) (fv_cluster_name v)) []))] key"

definition fleet_vol_rows :: "(string \<Rightarrow> string \<Rightarrow> int) \<Rightarrow> (jsnum \<Rightarrow> string) \<Rightarrow> params \<Rightarrow> FleetVol list \<Rightarrow> FleetVol list" where
  "fleet_vol_rows coll ns ps vols =
     (let st = useTableState [] volumes_defaults ps in
      sortRows coll ns (filter (fleet_vol_matches ps) vols) (fleet_vol_sort_by (str_or (ts_sort st) ''owner'')) (ts_dir st))"

definition fleet_vol_page :: "params \<Rightarrow> FleetVol list \<Rightarrow> FleetVol list" where
  "fleet_vol_page ps rows = page_rows 25 (ts_page (useTableState [] volumes_defaults ps)) rows"

definition gauge_pct :: "FleetVol \<Rightarrow> int" where
  "gauge_pct v = (if opt_else (vo_quota_gb v) 0 \<noteq> 0 then min 100 (js_round (used_share v * 100)) else 0)"

definition fleet_delete_question :: "FleetVol \<Rightarrow> confirm_options" where
  "fleet_delete_question v =
     \<lparr>cf_consequences = [''admin.volumes.consequenceOwner''], cf_confirmText = Some (str_or (nonempty (vo_name v)) (vo_id v))\<rparr>"

text \<open>Deleting: the answer to the question, the code of the error if the request failed, and the answer to the second question. The
  requests that are sent, in order.\<close>

definition fleet_delete :: "bool \<Rightarrow> bool \<Rightarrow> string option \<Rightarrow> bool \<Rightarrow> FleetVol \<Rightarrow> mutation_def list" where
  "fleet_delete isSuper ok failed force v =
     (if \<not> ok then []
      else useDeleteVolume (vo_id v) False #
        (if failed = Some ''volume_mounted'' \<and> isSuper \<and> force then [useDeleteVolume (vo_id v) True] else []))"

section \<open>Storage pools\<close>

record StoragePool =
  sp_id :: string
  sp_name :: string
  sp_cluster_id :: string
  sp_storage_class :: string
  sp_node_id :: "string option"
  sp_node_hostname :: "string option"
  sp_share_scope :: string
  sp_shared_with :: "string list"
  sp_manual_capacity_gb :: "rat option"

record storage_form =
  sf_name :: string
  sf_clusterId :: string
  sf_storageClass :: string
  sf_nodeId :: string
  sf_shareScope :: string
  sf_sharedWith :: "string list"
  sf_manualGb :: string

definition storage_init :: "(jsnum \<Rightarrow> string) \<Rightarrow> StoragePool option \<Rightarrow> storage_form" where
  "storage_init ns pool =
     (case pool of
        None \<Rightarrow> \<lparr>sf_name = [], sf_clusterId = [], sf_storageClass = [], sf_nodeId = [], sf_shareScope = ''all'', sf_sharedWith = [], sf_manualGb = []\<rparr>
      | Some p \<Rightarrow> \<lparr>sf_name = sp_name p, sf_clusterId = sp_cluster_id p, sf_storageClass = sp_storage_class p,
          sf_nodeId = str_or (sp_node_id p) [], sf_shareScope = sp_share_scope p, sf_sharedWith = sp_shared_with p,
          sf_manualGb = (case sp_manual_capacity_gb p of None \<Rightarrow> [] | Some g \<Rightarrow> ns (Fin g))\<rparr>)"

definition storage_cluster :: "string list \<Rightarrow> storage_form \<Rightarrow> string" where
  "storage_cluster clusters f = str_or (nonempty (Some (sf_clusterId f))) (case clusters of [] \<Rightarrow> [] | c # _ \<Rightarrow> c)"

text \<open>Nodes labelled for storage first, then by hostname.\<close>

definition node_le :: "(string \<Rightarrow> string \<Rightarrow> int) \<Rightarrow> GpuNode \<Rightarrow> GpuNode \<Rightarrow> bool" where
  "node_le coll a b =
     (let st = (\<lambda>n. if gn_role n = Some ''storage'' then 1 else 0 :: int); d = st b - st a in
      (if d \<noteq> 0 then d else coll (gn_hostname a) (gn_hostname b)) \<le> 0)"

definition nodeOptions :: "(string \<Rightarrow> string \<Rightarrow> int) \<Rightarrow> GpuNode list \<Rightarrow> GpuNode list" where
  "nodeOptions coll nodes = js_sort (node_le coll) nodes"

definition linkedNode :: "GpuNode list \<Rightarrow> storage_form \<Rightarrow> GpuNode option" where
  "linkedNode nodes f = find (\<lambda>n. gn_id n = sf_nodeId f) nodes"

definition otherClusters :: "string list \<Rightarrow> storage_form \<Rightarrow> string list" where
  "otherClusters clusters f = filter (\<lambda>c. c \<noteq> storage_cluster clusters f) clusters"

definition manualNum :: "storage_form \<Rightarrow> jsnum option" where
  "manualNum f = (if trim (sf_manualGb f) = [] then None else Some (js_number (sf_manualGb f)))"

fun capacity_bad :: "jsnum \<Rightarrow> bool" where
  "capacity_bad (Fin r) = (r < 0)"
| "capacity_bad _ = True"

definition storage_blockers :: "string list \<Rightarrow> GpuNode list \<Rightarrow> storage_form \<Rightarrow> string list" where
  "storage_blockers clusters nodes f =
     (if linkedNode nodes f = None \<and> trim (sf_name f) = [] then [''admin.storagePools.name''] else []) @
     (if storage_cluster clusters f = [] then [''common.cluster''] else []) @
     (if trim (sf_storageClass f) = [] then [''admin.storagePools.storageClass''] else []) @
     (if sf_shareScope f = ''selected'' \<and> sf_sharedWith f = [] then [''admin.storagePools.blockerSharedWith''] else []) @
     (case manualNum f of None \<Rightarrow> [] | Some n \<Rightarrow> if capacity_bad n then [''admin.storagePools.blockerCapacity''] else [])"

definition storage_body :: "string list \<Rightarrow> GpuNode list \<Rightarrow> storage_form \<Rightarrow> (string \<times> js) list" where
  "storage_body clusters nodes f =
     [(''name'', JStr (case linkedNode nodes f of Some n \<Rightarrow> gn_hostname n | None \<Rightarrow> trim (sf_name f))),
      (''cluster_id'', JStr (storage_cluster clusters f)),
      (''storage_class'', JStr (trim (sf_storageClass f))),
      (''node_id'', js_null_or (nonempty (Some (sf_nodeId f)))),
      (''share_scope'', JStr (sf_shareScope f)),
      (''shared_with'', JArr (if sf_shareScope f = ''selected'' then map JStr (sf_sharedWith f) else [])),
      (''manual_capacity_gb'', case manualNum f of None \<Rightarrow> JNull | Some n \<Rightarrow> num_json n)]"

definition storage_patch :: "string list \<Rightarrow> GpuNode list \<Rightarrow> storage_form \<Rightarrow> js" where
  "storage_patch clusters nodes f = JObj (filter (\<lambda>(k, _). k \<noteq> ''cluster_id'') (storage_body clusters nodes f))"

definition storage_submit ::
  "string \<Rightarrow> bool \<Rightarrow> string list \<Rightarrow> GpuNode list \<Rightarrow> StoragePool option \<Rightarrow> storage_form \<Rightarrow> mutation_def option" where
  "storage_submit key busy clusters nodes pool f =
     (if storage_blockers clusters nodes f \<noteq> [] \<or> busy then None
      else case pool of
             Some p \<Rightarrow> Some (useUpdateStoragePool (sp_id p) (storage_patch clusters nodes f) key)
           | None \<Rightarrow> Some (useCreateStoragePool (JObj (storage_body clusters nodes f)) key))"

definition storage_delete_question :: "StoragePool \<Rightarrow> confirm_options" where
  "storage_delete_question p =
     \<lparr>cf_consequences = [''admin.storagePools.consequenceVolumes'', ''admin.storagePools.consequenceGate''], cf_confirmText = Some (sp_name p)\<rparr>"

definition delete_storage :: "string \<Rightarrow> bool \<Rightarrow> StoragePool \<Rightarrow> mutation_def option" where
  "delete_storage key ok p = (if ok then Some (useDeleteStoragePool (sp_id p) key) else None)"

text \<open>What the user does with the form; the cluster of a known pool is fixed, a box belongs to another cluster.\<close>

inductive storage_step :: "string list \<Rightarrow> bool \<Rightarrow> storage_form \<Rightarrow> storage_form \<Rightarrow> bool" for clusters known where
  pick_cluster: "\<not> known \<Longrightarrow> c \<in> set clusters \<Longrightarrow> storage_step clusters known f (f\<lparr>sf_clusterId := c, sf_nodeId := [], sf_sharedWith := []\<rparr>)"
| pick_node: "storage_step clusters known f (f\<lparr>sf_nodeId := n\<rparr>)"
| enter_name: "storage_step clusters known f (f\<lparr>sf_name := v\<rparr>)"
| enter_class: "storage_step clusters known f (f\<lparr>sf_storageClass := v\<rparr>)"
| enter_capacity: "storage_step clusters known f (f\<lparr>sf_manualGb := v\<rparr>)"
| pick_share: "sc \<in> {''all'', ''selected''} \<Longrightarrow> storage_step clusters known f (f\<lparr>sf_shareScope := sc\<rparr>)"
| tick: "c \<in> set (otherClusters clusters f) \<Longrightarrow> sf_shareScope f = ''selected'' \<Longrightarrow> storage_step clusters known f
    (f\<lparr>sf_sharedWith := (if c \<in> set (sf_sharedWith f) then filter (\<lambda>x. x \<noteq> c) (sf_sharedWith f) else sf_sharedWith f @ [c])\<rparr>)"

text \<open>
  The server's handler of a change. A property that is \<^verbatim>\<open>null\<close> or missing leaves the pool as it is. \<open>taken\<close> tells whether another
  pool of the cluster has the class, \<open>node_of\<close> gives a node's cluster and hostname, \<open>known\<close> the clusters that exist. The measured
  capacity is not part of the record.
\<close>

definition patch_valid :: "js \<Rightarrow> bool" where
  "patch_valid body =
     ((case js_get ''name'' body of JStr s \<Rightarrow> 1 \<le> length s \<and> length s \<le> 80 | _ \<Rightarrow> True) \<and>
      (case js_get ''storage_class'' body of JStr s \<Rightarrow> 1 \<le> length s \<and> length s \<le> 200 | _ \<Rightarrow> True) \<and>
      (case js_get ''manual_capacity_gb'' body of JNum r \<Rightarrow> 0 \<le> r \<and> r = of_int \<lfloor>r\<rfloor> | _ \<Rightarrow> True))"

definition patch_class :: "(string \<Rightarrow> bool) \<Rightarrow> js \<Rightarrow> StoragePool \<Rightarrow> string + StoragePool" where
  "patch_class taken body p =
     (case js_get ''storage_class'' body of
        JStr s \<Rightarrow> if trim s = sp_storage_class p then Inr p
                  else if taken (trim s) then Inl ''already_exists'' else Inr (p\<lparr>sp_storage_class := trim s\<rparr>)
      | _ \<Rightarrow> Inr p)"

definition patch_node :: "(string \<Rightarrow> (string \<times> string) option) \<Rightarrow> js \<Rightarrow> StoragePool \<Rightarrow> string + StoragePool" where
  "patch_node node_of body p =
     (case js_get ''node_id'' body of
        JStr i \<Rightarrow>
          if i = [] then Inr (p\<lparr>sp_node_id := None, sp_node_hostname := None\<rparr>)
          else (case node_of i of
                  None \<Rightarrow> Inl ''not_found''
                | Some (c, h) \<Rightarrow> if c \<noteq> sp_cluster_id p then Inl ''validation_failed''
                                 else Inr (p\<lparr>sp_node_id := Some i, sp_node_hostname := Some h\<rparr>))
      | _ \<Rightarrow> Inr p)"

definition patch_name :: "js \<Rightarrow> StoragePool \<Rightarrow> StoragePool" where
  "patch_name body p =
     (let wanted = (case nonempty (sp_node_hostname p) of
                      Some h \<Rightarrow> h
                    | None \<Rightarrow> (case js_get ''name'' body of JStr s \<Rightarrow> trim s | _ \<Rightarrow> sp_name p))
      in if wanted \<noteq> [] then p\<lparr>sp_name := wanted\<rparr> else p)"

definition patch_capacity :: "js \<Rightarrow> StoragePool \<Rightarrow> StoragePool" where
  "patch_capacity body p =
     (case js_get ''manual_capacity_gb'' body of
        JNum r \<Rightarrow> if Some r = sp_manual_capacity_gb p then p else p\<lparr>sp_manual_capacity_gb := (if r = 0 then None else Some r)\<rparr>
      | _ \<Rightarrow> p)"

definition patch_scope :: "js \<Rightarrow> StoragePool \<Rightarrow> StoragePool" where
  "patch_scope body p = (case js_get ''share_scope'' body of JStr s \<Rightarrow> p\<lparr>sp_share_scope := s\<rparr> | _ \<Rightarrow> p)"

definition patch_shares :: "string set \<Rightarrow> js \<Rightarrow> StoragePool \<Rightarrow> string + StoragePool" where
  "patch_shares known body p =
     (case (js_get ''shared_with'' body, sp_share_scope p = ''all'') of
        (JArr xs, _) \<Rightarrow>
          (let wanted = (if sp_share_scope p = ''selected'' then filter (\<lambda>c. c \<noteq> [] \<and> c \<noteq> sp_cluster_id p) (map (js_to_string (\<lambda>_. [])) xs) else [])
           in if set wanted \<subseteq> known then Inr (p\<lparr>sp_shared_with := wanted\<rparr>) else Inl ''not_found'')
      | (_, True) \<Rightarrow> Inr (p\<lparr>sp_shared_with := []\<rparr>)
      | (_, False) \<Rightarrow> Inr p)"

definition then_res :: "'e + 'a \<Rightarrow> ('a \<Rightarrow> 'e + 'b) \<Rightarrow> 'e + 'b" where
  "then_res r g = (case r of Inl e \<Rightarrow> Inl e | Inr x \<Rightarrow> g x)"

definition update_pool ::
  "(string \<Rightarrow> bool) \<Rightarrow> (string \<Rightarrow> (string \<times> string) option) \<Rightarrow> string set \<Rightarrow> js \<Rightarrow> StoragePool \<Rightarrow> string + StoragePool" where
  "update_pool taken node_of known body p =
     (if \<not> patch_valid body then Inl ''validation_failed''
      else then_res (patch_class taken body p) (\<lambda>q. then_res (patch_node node_of body q) (\<lambda>r.
             patch_shares known body (patch_scope body (patch_capacity body (patch_name body r))))))"

section \<open>Editing a pool\<close>

text \<open>The form never shares a pool with its own cluster, and keeps the cluster of a known pool.\<close>

definition storage_inv :: "string list \<Rightarrow> storage_form \<Rightarrow> storage_form \<Rightarrow> bool" where
  "storage_inv clusters f0 f =
     (storage_cluster clusters f \<notin> set (sf_sharedWith f) \<and> [] \<notin> set (sf_sharedWith f) \<and> distinct (sf_sharedWith f) \<and>
      sf_shareScope f \<in> {''all'', ''selected''} \<and> sf_clusterId f = sf_clusterId f0)"

lemma storage_inv_step: "storage_step clusters True f g \<Longrightarrow> [] \<notin> set clusters \<Longrightarrow> storage_inv clusters f0 f \<Longrightarrow> storage_inv clusters f0 g"
  by (induction rule: storage_step.induct) (auto simp: storage_inv_def storage_cluster_def otherClusters_def)

interpretation storage_editing: inductive_invariant "storage_init ns pool" "storage_step clusters True"
    "\<lambda>f. [] \<notin> set clusters \<and> storage_inv clusters (storage_init ns pool) (storage_init ns pool) \<longrightarrow> storage_inv clusters (storage_init ns pool) f"
    for ns pool clusters
  by unfold_locales (use storage_inv_step in blast)+

lemma patch_fields:
  "js_get ''name'' (storage_patch clusters nodes f) = JStr (case linkedNode nodes f of Some n \<Rightarrow> gn_hostname n | None \<Rightarrow> trim (sf_name f))"
  "js_get ''storage_class'' (storage_patch clusters nodes f) = JStr (trim (sf_storageClass f))"
  "js_get ''node_id'' (storage_patch clusters nodes f) = js_null_or (nonempty (Some (sf_nodeId f)))"
  "js_get ''share_scope'' (storage_patch clusters nodes f) = JStr (sf_shareScope f)"
  "js_get ''shared_with'' (storage_patch clusters nodes f) = JArr (if sf_shareScope f = ''selected'' then map JStr (sf_sharedWith f) else [])"
  "js_get ''manual_capacity_gb'' (storage_patch clusters nodes f) = (case manualNum f of None \<Rightarrow> JNull | Some n \<Rightarrow> num_json n)"
  by (simp_all add: storage_patch_def storage_body_def)

lemma patch_class_form:
  "patch_class taken (storage_patch clusters nodes f) p = Inr q \<Longrightarrow> q = p\<lparr>sp_storage_class := trim (sf_storageClass f)\<rparr>"
  by (auto simp: patch_class_def patch_fields split: if_splits)

lemma patch_node_form:
  "patch_node node_of (storage_patch clusters nodes f) p = Inr q \<Longrightarrow>
     q = (if sf_nodeId f = [] then p else p\<lparr>sp_node_id := Some (sf_nodeId f), sp_node_hostname := map_option snd (node_of (sf_nodeId f))\<rparr>)"
  by (auto simp: patch_node_def patch_fields js_null_or_def nonempty_def split: option.splits if_splits prod.splits)

lemma patch_shares_form:
  "patch_shares known (storage_patch clusters nodes f) p = Inr q \<Longrightarrow>
     q = p\<lparr>sp_shared_with := (if sp_share_scope p = ''selected'' \<and> sf_shareScope f = ''selected''
       then filter (\<lambda>c. c \<noteq> [] \<and> c \<noteq> sp_cluster_id p) (sf_sharedWith f) else [])\<rparr>"
  by (auto simp: patch_shares_def patch_fields Let_def comp_def split: if_splits)

lemma patch_capacity_form:
  "patch_capacity (storage_patch clusters nodes f) p = p\<lparr>sp_manual_capacity_gb :=
     (case manualNum f of Some (Fin r) \<Rightarrow> if r = 0 then (if sp_manual_capacity_gb p = Some 0 then Some 0 else None) else Some r
      | _ \<Rightarrow> sp_manual_capacity_gb p)\<rparr>"
  by (auto simp: patch_capacity_def patch_fields split: option.splits jsnum.splits)

lemma patch_name_other:
  "sp_storage_class (patch_name b p) = sp_storage_class p" "sp_node_id (patch_name b p) = sp_node_id p"
  "sp_share_scope (patch_name b p) = sp_share_scope p" "sp_cluster_id (patch_name b p) = sp_cluster_id p"
  "sp_manual_capacity_gb (patch_name b p) = sp_manual_capacity_gb p" "sp_shared_with (patch_name b p) = sp_shared_with p"
  by (simp_all add: patch_name_def Let_def)

text \<open>C25: What saving the form of a storage pool does on the server. Whatever the user did with the form, an accepted save gives the pool
  the class and the sharing the form shows, never shared with its own cluster, and a linked node or a typed capacity as chosen.
  But the form clears a node or a capacity by sending \<^verbatim>\<open>null\<close>, which the server reads as no change: a pool keeps its node and its
  capacity when the form shows none, and a capacity with a fraction is refused by the server only.\<close>

theorem pool_edit_effect:
  assumes form: "reach (storage_init ns (Some p)) (storage_step clusters True) f"
    and pool: "sp_cluster_id p \<noteq> []" "[] \<notin> set clusters" "storage_inv clusters (storage_init ns (Some p)) (storage_init ns (Some p))"
    and sent: "storage_submit key False clusters nodes (Some p) f = Some m"
    and saved: "update_pool taken node_of known (storage_patch clusters nodes f) p = Inr p'"
  shows "rq_body (mu_request m) = Some (storage_patch clusters nodes f) \<and>
    sp_storage_class p' = trim (sf_storageClass f) \<and> sp_share_scope p' = sf_shareScope f \<and>
    (sf_shareScope f = ''selected'' \<longrightarrow> set (sp_shared_with p') = set (sf_sharedWith f)) \<and>
    (sf_shareScope f = ''all'' \<longrightarrow> sp_shared_with p' = []) \<and>
    sp_node_id p' = (if sf_nodeId f = [] then sp_node_id p else Some (sf_nodeId f)) \<and>
    (manualNum f = None \<longrightarrow> sp_manual_capacity_gb p' = sp_manual_capacity_gb p) \<and>
    (\<forall>r. manualNum f = Some (Fin r) \<and> 0 < r \<longrightarrow> sp_manual_capacity_gb p' = Some r \<and> r = of_int \<lfloor>r\<rfloor>)"
proof -
  let ?b = "storage_patch clusters nodes f"
  have "storage_inv clusters (storage_init ns (Some p)) f" using storage_editing.inv_reach [OF form] pool by blast
  then have own: "sp_cluster_id p \<notin> set (sf_sharedWith f)" "[] \<notin> set (sf_sharedWith f)"
    using pool(1) by (auto simp: storage_inv_def storage_init_def storage_cluster_def nonempty_def)
  from saved obtain q r where valid: "patch_valid ?b" and q: "patch_class taken ?b p = Inr q" and r: "patch_node node_of ?b q = Inr r"
    and p': "patch_shares known ?b (patch_scope ?b (patch_capacity ?b (patch_name ?b r))) = Inr p'"
    by (auto simp: update_pool_def then_res_def split: if_splits sum.splits)
  have scope: "patch_scope ?b x = x\<lparr>sp_share_scope := sf_shareScope f\<rparr>" for x by (simp add: patch_scope_def patch_fields)
  have q': "q = p\<lparr>sp_storage_class := trim (sf_storageClass f)\<rparr>" by (rule patch_class_form [OF q])
  have r': "r = (if sf_nodeId f = [] then q else q\<lparr>sp_node_id := Some (sf_nodeId f), sp_node_hostname := map_option snd (node_of (sf_nodeId f))\<rparr>)"
    by (rule patch_node_form [OF r])
  have eqs: "sp_storage_class r = trim (sf_storageClass f)" "sp_cluster_id r = sp_cluster_id p"
    "sp_node_id r = (if sf_nodeId f = [] then sp_node_id p else Some (sf_nodeId f))" "sp_manual_capacity_gb r = sp_manual_capacity_gb p"
    by (simp_all add: r' q')
  have whole: "x = of_int \<lfloor>x\<rfloor>" if "manualNum f = Some (Fin x)" for x using valid that by (simp add: patch_valid_def patch_fields)
  have body: "rq_body (mu_request m) = Some ?b"
    using sent by (auto simp: storage_submit_def useUpdateStoragePool_def use_mutation_def http_send_def split: if_splits)
  note p'' = patch_shares_form [OF p', unfolded scope patch_capacity_form]
  have "sp_storage_class p' = trim (sf_storageClass f)" "sp_share_scope p' = sf_shareScope f"
    "sp_node_id p' = (if sf_nodeId f = [] then sp_node_id p else Some (sf_nodeId f))"
    unfolding p'' by (simp_all add: patch_name_other eqs)
  moreover have "sf_shareScope f = ''selected'' \<longrightarrow> set (sp_shared_with p') = set (sf_sharedWith f)"
    "sf_shareScope f = ''all'' \<longrightarrow> sp_shared_with p' = []"
    unfolding p'' using own by (auto simp: patch_name_other eqs)
  moreover have "manualNum f = None \<longrightarrow> sp_manual_capacity_gb p' = sp_manual_capacity_gb p"
    "\<forall>x. manualNum f = Some (Fin x) \<and> 0 < x \<longrightarrow> sp_manual_capacity_gb p' = Some x \<and> x = of_int \<lfloor>x\<rfloor>"
    unfolding p'' using whole by (auto simp: patch_name_other eqs)
  ultimately show ?thesis using body by blast
qed

definition sample_pool :: StoragePool where
  "sample_pool =
     \<lparr>sp_id = ''sp_1'', sp_name = ''nas'', sp_cluster_id = ''c1'', sp_storage_class = ''fast'', sp_node_id = Some ''n1'',
      sp_node_hostname = Some ''nas'', sp_share_scope = ''all'', sp_shared_with = [], sp_manual_capacity_gb = Some 4000\<rparr>"

text \<open>The node is set to none and the capacity emptied; the server keeps both.\<close>

theorem pool_edit_effect_witness:
  "\<exists>f m p'. reach (storage_init (\<lambda>_. ''4000'') (Some sample_pool)) (storage_step [''c1''] True) f \<and>
     storage_submit ''k'' False [''c1''] [] (Some sample_pool) f = Some m \<and>
     update_pool (\<lambda>_. False) (\<lambda>_. None) {''c1''} (storage_patch [''c1''] [] f) sample_pool = Inr p' \<and>
     sf_nodeId f = [] \<and> manualNum f = None \<and> sp_node_id p' = Some ''n1'' \<and> sp_manual_capacity_gb p' = Some 4000"
proof -
  let ?start = "storage_init (\<lambda>_. ''4000'') (Some sample_pool)"
  let ?f = "?start\<lparr>sf_nodeId := [], sf_manualGb := []\<rparr>"
  have r: "reach ?start (storage_step [''c1''] True) ?f"
    by (rule reach_step [of _ _ "?start\<lparr>sf_nodeId := []\<rparr>"], rule reach_step [OF reach_init], rule pick_node,
        rule enter_capacity [of _ _ "?start\<lparr>sf_nodeId := []\<rparr>" "[]"])
  have i: "storage_inv [''c1''] ?start ?start" by (simp add: storage_inv_def storage_init_def sample_pool_def)
  have t: "trim ''nas'' = ''nas''" "trim ''fast'' = ''fast''" "trim [] = []" by code_simp+
  obtain m where m: "storage_submit ''k'' False [''c1''] [] (Some sample_pool) ?f = Some m"
    by (simp add: storage_submit_def storage_blockers_def linkedNode_def storage_init_def sample_pool_def storage_cluster_def manualNum_def nonempty_def t)
  obtain p' where p': "update_pool (\<lambda>_. False) (\<lambda>_. None) {''c1''} (storage_patch [''c1''] [] ?f) sample_pool = Inr p'"
    by (simp add: update_pool_def then_res_def patch_valid_def patch_class_def patch_node_def patch_shares_def patch_scope_def patch_fields
        linkedNode_def storage_init_def sample_pool_def manualNum_def js_null_or_def nonempty_def t patch_capacity_def patch_name_def)
  have "sp_node_id p' = Some ''n1'' \<and> sp_manual_capacity_gb p' = Some 4000"
    using pool_edit_effect [OF r _ _ i m p'] by (simp add: sample_pool_def manualNum_def t)
  moreover have "manualNum ?f = None" by (simp add: manualNum_def t)
  ultimately show ?thesis using r m p' by (intro exI [of _ ?f] exI [of _ m] exI [of _ p']) simp
qed

section \<open>Images and the wizard\<close>

lemma min_cuda_agrees:
  assumes "ofr \<in> set offerings" "of_gpu_model ofr = Some m" "m \<noteq> []"
    and "\<forall>x \<in> set offerings. of_gpu_model x = Some m \<longrightarrow> of_min_cuda x = of_min_cuda ofr"
  shows "min_cuda_of offerings m = of_min_cuda ofr"
proof -
  let ?ps = "rev (map (\<lambda>x. (the (of_gpu_model x), of_min_cuda x)) (filter (\<lambda>x. str_truthy (of_gpu_model x)) offerings))"
  have all: "v = of_min_cuda ofr" if "(m, v) \<in> set ?ps" for v using that assms(4) by (auto simp: str_truthy_def split: option.splits)
  have "(m, of_min_cuda ofr) \<in> set ?ps" using assms(1-3) by (force simp: image_iff)
  then obtain v where v: "map_of ?ps m = Some v" using weak_map_of_SomeI by force
  then show ?thesis using all [OF map_of_SomeD [OF v]] by (simp add: min_cuda_of_def)
qed

lemma filter_full: "length (filter P xs) = length xs \<Longrightarrow> filter P xs = xs"
proof (induction xs)
  case (Cons x xs)
  then show ?case using length_filter_le [of P xs] by (cases "P x") auto
qed simp

text \<open>C35: The column of supported cards against the wizard. For a GPU image and a model whose offerings agree on the CUDA floor, the admin
  column counts the model as supported exactly when the wizard offers the image for it. When they do not agree the two can
  contradict each other: the column takes the floor of the last offering of the model, retired ones included, the wizard that of
  the active one with the most memory.\<close>

theorem image_support_agrees:
  assumes wizard: "isGpu f" "selectedOffering env f = Some ofr" "of_gpu_model ofr = Some m" "m \<noteq> []"
    and fleet: "ofr \<in> set offerings" "m \<in> av_gpu_model ` set cards"
      "\<forall>x \<in> set offerings. of_gpu_model x = Some m \<longrightarrow> of_min_cuda x = of_min_cuda ofr"
    and image: "im \<in> set (we_images env)" "isGpuImage im" "ir_cuda_version r = im_cuda_version im" "ir_supported_gpus r = im_supported_gpus im"
  shows "(m \<in> set (supported_models r (fleet_models cards offerings)) \<longleftrightarrow> im \<in> set (availableImages env f)) \<and>
    (support_cell r (fleet_models cards offerings) = EveryGpu \<longrightarrow> im \<in> set (availableImages env f)) \<and>
    support_cell r (fleet_models cards offerings) \<noteq> CpuOnly"
proof -
  have lo: "min_cuda_of offerings m = of_min_cuda ofr" by (rule min_cuda_agrees [OF fleet(1) wizard(3,4) fleet(3)])
  have mem: "m \<in> set (supported_models r (fleet_models cards offerings)) \<longleftrightarrow>
      (im_supported_gpus im = [] \<or> m \<in> set (im_supported_gpus im)) \<and> cudaCompatible (im_cuda_version im) (of_min_cuda ofr)"
    using fleet(2) image(3,4) lo by (auto simp: supported_models_def fleet_models_def uniq_def image_iff)
  also have "\<dots> \<longleftrightarrow> im \<in> set (availableImages env f)"
    using wizard image(1,2) by (auto simp: availableImages_def)
  finally have eq: "m \<in> set (supported_models r (fleet_models cards offerings)) \<longleftrightarrow> im \<in> set (availableImages env f)" .
  have every: "m \<in> set (supported_models r (fleet_models cards offerings))" if "support_cell r (fleet_models cards offerings) = EveryGpu"
  proof -
    have "length (supported_models r (fleet_models cards offerings)) = length (fleet_models cards offerings)"
      using that by (auto simp: support_cell_def Let_def split: if_splits)
    then have "supported_models r (fleet_models cards offerings) = map fst (fleet_models cards offerings)"
      unfolding supported_models_def length_map by (simp only: filter_full)
    then show ?thesis using fleet(2) by (simp add: fleet_models_def uniq_def comp_def)
  qed
  have "support_cell r (fleet_models cards offerings) \<noteq> CpuOnly"
    using image by (auto simp: support_cell_def isGpuImage_def Let_def)
  then show ?thesis using eq every by blast
qed

definition sample_offering :: "string \<Rightarrow> string \<Rightarrow> rat \<Rightarrow> string option \<Rightarrow> Offering" where
  "sample_offering i st mem lo =
     \<lparr>of_id = i, of_name = ''H100'', of_resource_class = ''gpu'', of_status = Some st, of_gpu_model = Some ''H100'', of_gpu_mem_mb = Some mem, of_min_cuda = lo\<rparr>"

definition gpu_env :: "Offering list \<Rightarrow> wizard_env" where
  "gpu_env ofs =
     bare_env\<lparr>we_offerings := ofs, we_images := [\<lparr>im_id = ''torch'', im_cuda_version = Some ''11.8'', im_supported_gpus = [], im_gpu_ready = True\<rparr>]\<rparr>
     \<lparr>we_avail := \<lambda>_. (True, [\<lparr>av_gpu_model = ''H100'', av_devices = []\<rparr>])\<rparr>"

definition sample_image :: ImageRow where
  "sample_image =
     \<lparr>ir_id = ''torch'', ir_name = ''torch'', ir_kind = ''image'', ir_import_status = None, ir_tags = None, ir_cuda_version = Some ''11.8'',
      ir_supported_gpus = [], ir_public = None\<rparr>"

lemma sample_selected:
  "selectedOffering (gpu_env [sample_offering ''o1'' ''active'' 81920 lo]) (wz_form (wizard_init ''s'' ''gpu'')) = Some (sample_offering ''o1'' ''active'' 81920 lo)"
  by (simp add: selectedOffering_def isGpu_def wizard_init_def gpuModels_def gpu_env_def bare_env_def keep_model_def sample_offering_def
      avail_query_def first_of_def or_else_def)

theorem image_support_agrees_witness:
  "''H100'' \<in> set (supported_models sample_image (fleet_models [\<lparr>av_gpu_model = ''H100'', av_devices = []\<rparr>] [sample_offering ''o1'' ''active'' 81920 (Some ''11.0'')])) \<longleftrightarrow>
   \<lparr>im_id = ''torch'', im_cuda_version = Some ''11.8'', im_supported_gpus = [], im_gpu_ready = True\<rparr> \<in>
     set (availableImages (gpu_env [sample_offering ''o1'' ''active'' 81920 (Some ''11.0'')]) (wz_form (wizard_init ''s'' ''gpu'')))"
proof -
  have g: "isGpu (wz_form (wizard_init ''s'' ''gpu''))" by (simp add: isGpu_def wizard_init_def)
  show ?thesis
    using image_support_agrees [OF g sample_selected [of "Some ''11.0''"], where m = "''H100''"
        and offerings = "[sample_offering ''o1'' ''active'' 81920 (Some ''11.0'')]" and cards = "[\<lparr>av_gpu_model = ''H100'', av_devices = []\<rparr>]"
        and r = sample_image and im = "\<lparr>im_id = ''torch'', im_cuda_version = Some ''11.8'', im_supported_gpus = [], im_gpu_ready = True\<rparr>"]
    by (simp add: sample_offering_def gpu_env_def bare_env_def sample_image_def isGpuImage_def)
qed

text \<open>An instance of the contradiction: a retired offering without a floor stands last.\<close>

lemma image_support_contradicts:
  "let ofs = [sample_offering ''o1'' ''active'' 81920 (Some ''12.0''), sample_offering ''o2'' ''inactive'' 81920 None] in
   support_cell sample_image (fleet_models [\<lparr>av_gpu_model = ''H100'', av_devices = []\<rparr>] ofs) = EveryGpu \<and>
   availableImages (gpu_env ofs) (wz_form (wizard_init ''s'' ''gpu'')) = []"
proof -
  have c: "\<not> cudaCompatible (Some ''11.8'') (Some ''12.0'')" "cudaCompatible (Some ''11.8'') None" by code_simp+
  have s: "selectedOffering (gpu_env [sample_offering ''o1'' ''active'' 81920 (Some ''12.0''), sample_offering ''o2'' ''inactive'' 81920 None])
      (wz_form (wizard_init ''s'' ''gpu'')) = Some (sample_offering ''o1'' ''active'' 81920 (Some ''12.0''))"
    by (simp add: selectedOffering_def isGpu_def wizard_init_def gpuModels_def gpu_env_def bare_env_def keep_model_def sample_offering_def
        avail_query_def first_of_def or_else_def)
  show ?thesis unfolding Let_def
  proof
    show "support_cell sample_image (fleet_models [\<lparr>av_gpu_model = ''H100'', av_devices = []\<rparr>]
        [sample_offering ''o1'' ''active'' 81920 (Some ''12.0''), sample_offering ''o2'' ''inactive'' 81920 None]) = EveryGpu"
      using c by (simp add: support_cell_def supported_models_def fleet_models_def min_cuda_of_def uniq_def sample_image_def sample_offering_def)
    show "availableImages (gpu_env [sample_offering ''o1'' ''active'' 81920 (Some ''12.0''), sample_offering ''o2'' ''inactive'' 81920 None])
        (wz_form (wizard_init ''s'' ''gpu'')) = []"
      using c s unfolding availableImages_def by (simp add: gpu_env_def isGpuImage_def isGpu_def wizard_init_def sample_offering_def)
  qed
qed

text \<open>With a kind chosen and nothing of that kind, the page says that no image is registered at all.\<close>

lemma kind_filter_claims_empty: "usp_get ''q'' ps = None \<Longrightarrow> usp_get ''tab'' ps = None \<Longrightarrow> images_screen ps [] = EmptyScreen"
  by (simp add: images_screen_def isFiltered_def images_state_def useTableState_def images_defaults_def param_key_def or_else_def)

section \<open>Totals, deletions and registration\<close>

lemma sum_by_cluster:
  fixes g :: "'n \<Rightarrow> nat"
  assumes "distinct ks" and "f ` set ns \<subseteq> set ks"
  shows "sum_list (map (\<lambda>k. sum_list (map g (filter (\<lambda>n. f n = k) ns))) ks) = sum_list (map g ns)"
  using assms(2)
proof (induction ns)
  case (Cons n ns)
  have "sum_list (map (\<lambda>k. sum_list (map g (filter (\<lambda>m. f m = k) (n # ns)))) ks) =
      sum_list (map (\<lambda>k. (if k = f n then g n else 0) + sum_list (map g (filter (\<lambda>m. f m = k) ns))) ks)"
    by (rule arg_cong [of _ _ sum_list]) auto
  also have "\<dots> = sum_list (map (\<lambda>k. if k = f n then g n else 0) ks) + sum_list (map (\<lambda>k. sum_list (map g (filter (\<lambda>m. f m = k) ns))) ks)"
    by (rule sum_list_addf)
  also have "sum_list (map (\<lambda>k. if k = f n then g n else 0) ks) = g n"
    using Cons.prems assms(1) by (simp add: sum_list_distinct_conv_sum_set)
  finally show ?case using Cons by simp
qed simp

text \<open>The figures of the cluster list are a partition: when every node and every running session belongs to a listed cluster, the
  cards and the running sessions of the clusters add up to those of the fleet. Deleting a cluster or a volume needs the typed
  name; a volume that is still mounted is deleted by force only by a system administrator, after the first attempt failed for
  that reason and a second question.\<close>

theorem cluster_figures:
  assumes "distinct (map cu_id clusters)"
    and "\<forall>n \<in> set nodes. \<exists>c \<in> set clusters. gn_cluster_id n = Some (cu_id c)"
    and "\<forall>(c, st) \<in> set sessions. st = Some ''running'' \<longrightarrow> c \<noteq> Some [] \<and> (\<exists>k \<in> set clusters. c = Some (cu_id k))"
  shows "sum_list (map (\<lambda>c. gpu_total nodes (cu_id c)) clusters) = sum_list (map gn_device_count nodes) \<and>
    sum_list (map (\<lambda>c. running_in sessions (cu_id c)) clusters) = length (filter (\<lambda>s. snd s = Some ''running'') sessions) \<and>
    (delete_cluster ok k \<noteq> None \<longleftrightarrow> ok) \<and> cf_confirmText (cluster_delete_question k) = Some (cu_name k) \<and>
    (useDeleteVolume (vo_id v) True \<in> set (fleet_delete isSuper answer failed force v) \<longleftrightarrow>
       answer \<and> failed = Some ''volume_mounted'' \<and> isSuper \<and> force)"
proof -
  have gpus: "sum_list (map (\<lambda>k. sum_list (map gn_device_count (filter (\<lambda>n. str_or (gn_cluster_id n) [] = k) nodes))) (map cu_id clusters)) =
      sum_list (map gn_device_count nodes)"
    by (rule sum_by_cluster [OF assms(1)]) (use assms(2) in force)
  let ?run = "filter (\<lambda>s. snd s = Some ''running'') sessions"
  have "sum_list (map (\<lambda>k. sum_list (map (\<lambda>_. 1 :: nat) (filter (\<lambda>s. str_or (fst s) [] = k) ?run))) (map cu_id clusters)) =
      sum_list (map (\<lambda>_. 1) ?run)"
    by (rule sum_by_cluster [OF assms(1)]) (use assms(3) in force)
  moreover have "running_in sessions cid = length (filter (\<lambda>s. str_or (fst s) [] = cid) ?run)" for cid
  proof -
    have "filter (\<lambda>(c', st). st = Some ''running'' \<and> str_truthy c' \<and> c' = Some cid) sessions =
        filter (\<lambda>s. str_or (fst s) [] = cid \<and> snd s = Some ''running'') sessions"
      using assms(3) by (intro filter_cong) (auto simp: str_truthy_def split: option.splits)
    then show ?thesis by (simp add: running_in_def conj_commute)
  qed
  ultimately have run: "sum_list (map (\<lambda>c. running_in sessions (cu_id c)) clusters) = length ?run"
    by (simp add: sum_list_triv comp_def)
  have "(useDeleteVolume (vo_id v) True \<in> set (fleet_delete isSuper answer failed force v)) =
       (answer \<and> failed = Some ''volume_mounted'' \<and> isSuper \<and> force)"
    by (auto simp: fleet_delete_def useDeleteVolume_def use_mutation_def http_send_def)
  then show ?thesis using gpus run by (simp add: gpu_total_def nodes_of_def comp_def delete_cluster_def cluster_delete_question_def)
qed

theorem cluster_figures_witness:
  "running_in [(Some ''c1'', Some ''running''), (None, Some ''paused'')] ''c1'' = 1"
  using cluster_figures [where clusters = "[\<lparr>cu_id = ''c1'', cu_name = ''main'', cu_role = ''primary'', cu_status = ''ready'', cu_node_count = None,
      cu_api_server = None, cu_session_domain = None\<rparr>]" and nodes = "[]" and sessions = "[(Some ''c1'', Some ''running''), (None, Some ''paused'')]"
      and ok = True and k = "\<lparr>cu_id = ''c1'', cu_name = ''main'', cu_role = ''primary'', cu_status = ''ready'', cu_node_count = None,
      cu_api_server = None, cu_session_domain = None\<rparr>" and isSuper = True and answer = True and failed = None and force = True
      and v = "\<lparr>vo_id = ''v'', vo_name = None, vo_scope = None, vo_scope_id = None, vo_type = None, vo_access_mode = None, vo_quota_gb = None,
        vo_used_gb = None, vo_role = None, vo_mount_locked = False, vo_owner_name = None, fv_cluster_name = None, fv_storage_class = None,
        fv_pool_name = None\<rparr>"]
  by simp

text \<open>The check of a kubeconfig finds a \<^verbatim>\<open>clusters\<close> key wherever it stands, not one inside a longer word, and a name and a configuration
  are never sent blank.\<close>

lemma has_clusters_later: "has_clusters (if pre = [] then b else word_char (last pre)) t \<Longrightarrow> has_clusters b (pre @ t)"
proof (induction pre arbitrary: b)
  case (Cons c pre)
  have "has_clusters (word_char c) (pre @ t)" using Cons.prems by (intro Cons.IH) (simp split: if_splits)
  then show ?case by simp
qed simp

lemma has_clusters_key:
  assumes "list_all js_space sp"
  shows "has_clusters False (''clusters'' @ sp @ '':'' @ rest)"
proof -
  have colon: "\<not> js_space (CHR '':'')" by code_simp
  have "dropWhile js_space (sp @ '':'' @ rest) = '':'' @ rest" using assms colon by (induction sp) auto
  moreover have "drop 8 (''clusters'' @ sp @ '':'' @ rest) = sp @ '':'' @ rest" by simp
  moreover have "starts_with (''clusters'' @ sp @ '':'' @ rest) ''clusters''" by (simp add: starts_with_def)
  moreover have "starts_with ('':'' @ rest) '':''" by (simp add: starts_with_def)
  ultimately show ?thesis
    using has_clusters.simps(2) [of False "CHR ''c''" "''lusters'' @ sp @ '':'' @ rest"] by (simp del: has_clusters.simps)
qed

lemma has_clusters_found:
  "pre = [] \<or> \<not> word_char (last pre) \<Longrightarrow> list_all js_space sp \<Longrightarrow> has_clusters False (pre @ ''clusters'' @ sp @ '':'' @ rest)"
  using has_clusters_later [of pre False "''clusters'' @ sp @ '':'' @ rest"] has_clusters_key [of sp rest] by auto

lemma register_cluster_sound:
  "register_cluster key pending touched name kubeconfig = Some m \<Longrightarrow> register_reasons name kubeconfig = [] \<and> (touched \<longrightarrow> has_clusters False kubeconfig)"
  by (auto simp: register_cluster_def register_reasons_def kubeconfig_error_def split: if_splits)

lemma edit_cluster_reasons_explain: "edit_cluster False c name role = None \<longleftrightarrow> edit_cluster_reasons c name role \<noteq> []"
  by (auto simp: edit_cluster_def edit_cluster_reasons_def)

lemma import_blockers_explain: "import_submit False f = None \<longleftrightarrow> import_blockers f \<noteq> []"
  by (auto simp: import_submit_def import_blockers_def import_valid_def)

end
