(* ===== verification/System_Settings.thy ===== *)
theory System_Settings
  imports Table_State Infra_Hooks Ui_Controls
begin

text \<open>
  Instance-wide settings (\<^verbatim>\<open>features/admin/System.tsx\<close>): the name and the logo of the service, who may sign up, and where a slice of a
  card is placed; with the server's check of a logo (\<^verbatim>\<open>backend/app/api/system_router.py\<close>), which the form anticipates.
\<close>

section \<open>Sections\<close>

definition SECTIONS :: "string list" where
  "SECTIONS = [''branding'', ''signup'', ''placement'']"

definition system_section :: "params \<Rightarrow> string" where
  "system_section ps = (let raw = str_or (usp_get ''tab'' ps) [] in if raw \<in> set SECTIONS then raw else ''branding'')"

definition pick_section :: "string \<Rightarrow> params \<Rightarrow> params" where
  "pick_section k prev = usp_set ''tab'' k prev"

section \<open>Branding\<close>

definition name_dirty :: "string option \<Rightarrow> string \<Rightarrow> bool" where
  "name_dirty service_name name = (0 < length (trim name) \<and> trim name \<noteq> str_or service_name [])"

definition previewName :: "string option \<Rightarrow> string \<Rightarrow> string" where
  "previewName service_name name = str_or (or_else (nonempty (Some (trim name))) (nonempty service_name)) DEFAULT_SERVICE_NAME"

definition saveName :: "string option \<Rightarrow> string \<Rightarrow> mutation_def option" where
  "saveName service_name name =
     (if \<not> name_dirty service_name name then None else Some (useSetBranding (JObj [(''service_name'', JStr (trim name))])))"

definition LOGO_TYPES :: "string list" where
  "LOGO_TYPES = [''image/png'', ''image/jpeg'', ''image/webp'', ''image/svg+xml'']"

definition LOGO_MAX_BYTES :: nat where
  "LOGO_MAX_BYTES = 180 * 1024"

text \<open>A chosen file is its media type and its bytes; \<open>readable\<close> tells whether reading it succeeds. \<^verbatim>\<open>readAsDataURL\<close> yields the bytes
  in base64.\<close>

definition data_url :: "string \<Rightarrow> string \<Rightarrow> string" where
  "data_url type bytes = ''data:'' @ type @ '';base64,'' @ btoa bytes"

datatype logo_outcome = WrongType | TooBig | Unreadable | SendLogo mutation_def

definition pickLogo :: "bool \<Rightarrow> string \<Rightarrow> string \<Rightarrow> logo_outcome" where
  "pickLogo readable type bytes =
     (if type \<notin> set LOGO_TYPES then WrongType
      else if LOGO_MAX_BYTES < length bytes then TooBig
      else if \<not> readable then Unreadable
      else SendLogo (useSetBranding (JObj [(''logo'', JStr (data_url type bytes))])))"

definition removeLogo :: "bool \<Rightarrow> mutation_def option" where
  "removeLogo ok = (if ok then Some (useSetBranding (JObj [(''clear_logo'', JBool True)])) else None)"

text \<open>What the server takes as a logo.\<close>

definition MAX_LOGO_CHARS :: nat where
  "MAX_LOGO_CHARS = 256 * 1024"

definition payload_char :: "char \<Rightarrow> bool" where
  "payload_char c =
     (let n = (of_char c :: nat) in
      48 \<le> n \<and> n \<le> 57 \<or> 65 \<le> n \<and> n \<le> 90 \<or> 97 \<le> n \<and> n \<le> 122 \<or> c \<in> {CHR ''+'', CHR ''/'', CHR ''=''} \<or> js_space c)"

definition LOGO_RE :: "string \<Rightarrow> bool" where
  "LOGO_RE logo =
     list_ex (\<lambda>k. let pre = ''data:image/'' @ k @ '';base64,'' in
       starts_with logo pre \<and> drop (length pre) logo \<noteq> [] \<and> list_all payload_char (drop (length pre) logo))
     [''png'', ''jpeg'', ''webp'', ''svg+xml'']"

definition logo_accepted :: "string \<Rightarrow> bool" where
  "logo_accepted logo = (length (trim logo) \<le> MAX_LOGO_CHARS \<and> LOGO_RE (trim logo))"

section \<open>Sign-up and placement\<close>

definition SIGNUP_MODES :: "string list" where
  "SIGNUP_MODES = [''approval'', ''open'', ''closed'']"

record signup_policy =
  su_mode :: string
  su_allowed_domains :: "string list"

text \<open>\<^verbatim>\<open>replace(/^@/, '')\<close>\<close>

fun strip_at :: "string \<Rightarrow> string" where
  "strip_at (c # s) = (if c = CHR ''@'' then s else c # s)"
| "strip_at [] = []"

definition parsedDomains :: "string \<Rightarrow> string list" where
  "parsedDomains domains = filter (\<lambda>d. d \<noteq> []) (map (\<lambda>d. strip_at (trim d)) (split_on (CHR '','') domains))"

text \<open>The form as the policy fills it, and whether it differs from the policy.\<close>

definition signup_form :: "signup_policy \<Rightarrow> string \<times> string" where
  "signup_form p = (su_mode p, join '', '' (su_allowed_domains p))"

definition signup_dirty :: "signup_policy option \<Rightarrow> string \<times> string \<Rightarrow> bool" where
  "signup_dirty policy f =
     (case policy of
        None \<Rightarrow> False
      | Some p \<Rightarrow> fst f \<noteq> su_mode p \<or> join '','' (parsedDomains (snd f)) \<noteq> join '','' (su_allowed_domains p))"

definition save_signup :: "bool \<Rightarrow> signup_policy option \<Rightarrow> string \<times> string \<Rightarrow> mutation_def option" where
  "save_signup pending policy f =
     (if \<not> signup_dirty policy f \<or> pending then None
      else Some (useSetSignupPolicy (JObj [(''mode'', JStr (fst f)), (''allowed_domains'', JArr (map JStr (parsedDomains (snd f))))])))"

definition save_placement :: "bool \<Rightarrow> string option \<Rightarrow> string \<Rightarrow> mutation_def option" where
  "save_placement pending current packing =
     (case current of None \<Rightarrow> None | Some c \<Rightarrow> if packing = c \<or> pending then None else Some (useSetPlacement packing))"

section \<open>Logos\<close>

lemma b64_char_payload: "payload_char (b64_char n)"
proof -
  have up: "payload_char (char_of (k :: nat))" if "48 \<le> k \<and> k \<le> 57 \<or> 65 \<le> k \<and> k \<le> 90 \<or> 97 \<le> k \<and> k \<le> 122" for k
    using that by (auto simp: payload_char_def Let_def)
  have pl: "payload_char (CHR ''+'')" "payload_char (CHR ''/'')" by (simp_all add: payload_char_def)
  consider "n < 26" | "26 \<le> n" "n < 52" | "52 \<le> n" "n < 62" | "62 \<le> n" by linarith
  then show ?thesis
  proof cases
    case 1 then show ?thesis using up [of "n + 65"] by (simp add: b64_char_def)
  next
    case 2 then show ?thesis using up [of "n + 71"] by (simp add: b64_char_def)
  next
    case 3
    then have "48 \<le> n - 4" "n - 4 \<le> 57" by simp_all
    then show ?thesis using 3 up [of "n - 4"] by (simp add: b64_char_def)
  next
    case 4 then show ?thesis using pl by (simp add: b64_char_def)
  qed
qed

lemma length_sextets: "length (b64_sextets xs) \<le> 4 * ((length xs + 2) div 3)"
proof (induction xs rule: b64_sextets.induct)
  case (4 x y z rest)
  have "length (x # y # z # rest) + 2 = 3 + (length rest + 2)" by simp
  then have "(length (x # y # z # rest) + 2) div 3 = 1 + (length rest + 2) div 3" by simp
  then show ?case using 4 by simp
qed simp_all

lemma btoa_bounds:
  shows "length (btoa s) \<le> 4 * ((length s + 2) div 3) + 2" and "list_all payload_char (btoa s)" and "s \<noteq> [] \<Longrightarrow> btoa s \<noteq> []"
proof -
  have "(3 - length s mod 3) mod 3 < 3" by (rule mod_less_divisor) simp
  then have pad: "(3 - length s mod 3) mod 3 \<le> 2" by linarith
  show "length (btoa s) \<le> 4 * ((length s + 2) div 3) + 2"
    using length_sextets [of "map of_char s"] pad by (simp add: btoa_def b64_code_def)
  have payload_eq: "payload_char (CHR ''='')" by (simp add: payload_char_def)
  show "list_all payload_char (btoa s)"
    using b64_char_payload payload_eq by (auto simp: btoa_def b64_code_def list_all_iff)
  show "btoa s \<noteq> []" if "s \<noteq> []"
    using that by (cases "map (of_char :: char \<Rightarrow> nat) s" rule: b64_sextets.cases) (auto simp: btoa_def b64_code_def)
qed

lemma b64_no_space: "\<not> js_space (b64_char n)"
proof -
  have "js_space c \<Longrightarrow> \<not> (48 \<le> (of_char c :: nat) \<and> of_char c \<le> (57 :: nat) \<or> 65 \<le> (of_char c :: nat) \<and> of_char c \<le> (90 :: nat) \<or>
      97 \<le> (of_char c :: nat) \<and> of_char c \<le> (122 :: nat))" for c
    by (auto simp: js_space_def)
  then have up: "\<not> js_space (char_of (k :: nat))" if "48 \<le> k \<and> k \<le> 57 \<or> 65 \<le> k \<and> k \<le> 90 \<or> 97 \<le> k \<and> k \<le> 122" for k
    using that by fastforce
  have pl: "\<not> js_space (CHR ''+'')" "\<not> js_space (CHR ''/'')" by code_simp+
  consider "n < 26" | "26 \<le> n" "n < 52" | "52 \<le> n" "n < 62" | "62 \<le> n" by linarith
  then show ?thesis
  proof cases
    case 3
    then have "48 \<le> n - 4" "n - 4 \<le> 57" by simp_all
    then show ?thesis using 3 up [of "n - 4"] by (simp add: b64_char_def)
  qed (use up [of "n + 65"] up [of "n + 71"] pl in \<open>simp_all add: b64_char_def\<close>)
qed

lemma btoa_no_space: "list_all (\<lambda>c. \<not> js_space c) (btoa s)"
proof -
  have "\<not> js_space (CHR ''='')" by code_simp
  then show ?thesis by (auto simp: btoa_def b64_code_def list_all_iff b64_no_space)
qed

text \<open>C40: A logo the form sends is never refused by the server: for every file of an allowed type that is not empty and not larger than
  the form's limit, the data address is short enough and of the form the server demands. The limit leaves room for the base64
  coding and the prefix.\<close>

theorem logo_fits_server:
  assumes "pickLogo readable type bytes = SendLogo m" and "bytes \<noteq> []"
  shows "m = useSetBranding (JObj [(''logo'', JStr (data_url type bytes))]) \<and> logo_accepted (data_url type bytes)"
proof -
  have t: "type \<in> set LOGO_TYPES" "length bytes \<le> LOGO_MAX_BYTES" and m: "m = useSetBranding (JObj [(''logo'', JStr (data_url type bytes))])"
    using assms(1) by (auto simp: pickLogo_def split: if_splits)
  obtain k where k: "k \<in> {''png'', ''jpeg'', ''webp'', ''svg+xml''}" "type = ''image/'' @ k" using t(1) by (auto simp: LOGO_TYPES_def)
  let ?pre = "''data:image/'' @ k @ '';base64,''"
  have url: "data_url type bytes = ?pre @ btoa bytes" by (simp add: data_url_def k(2))
  have "list_all (\<lambda>c. \<not> js_space c) ''data:image/''" "list_all (\<lambda>c. \<not> js_space c) '';base64,''"
    "list_all (\<lambda>c. \<not> js_space c) ''png''" "list_all (\<lambda>c. \<not> js_space c) ''jpeg''" "list_all (\<lambda>c. \<not> js_space c) ''webp''"
    "list_all (\<lambda>c. \<not> js_space c) ''svg+xml''" by code_simp+
  then have "list_all (\<lambda>c. \<not> js_space c) (data_url type bytes)"
    unfolding url list_all_append using k(1) btoa_no_space [of bytes] by blast
  then have tr: "trim (data_url type bytes) = data_url type bytes" by (rule trim_no_space)
  have "length (btoa bytes) \<le> 4 * ((LOGO_MAX_BYTES + 2) div 3) + 2"
    using btoa_bounds(1) [of bytes] div_le_mono [of "length bytes + 2" "LOGO_MAX_BYTES + 2" 3] t(2) by linarith
  moreover have "length ?pre \<le> 30" using k(1) by auto
  ultimately have len: "length (data_url type bytes) \<le> MAX_LOGO_CHARS" unfolding url by (simp add: LOGO_MAX_BYTES_def MAX_LOGO_CHARS_def)
  have "starts_with (data_url type bytes) ?pre" "drop (length ?pre) (data_url type bytes) = btoa bytes" unfolding url by (simp_all add: starts_with_def)
  then have "LOGO_RE (data_url type bytes)"
    unfolding LOGO_RE_def list_ex_iff Let_def using k(1) btoa_bounds(2,3) [of bytes] assms(2) by (intro bexI [of _ k]) auto
  then show ?thesis using len tr m by (simp add: logo_accepted_def)
qed

theorem logo_fits_server_witness: "logo_accepted (data_url ''image/png'' ''PNG'')"
  using logo_fits_server [where readable = True and type = "''image/png''" and bytes = "''PNG''"
      and m = "useSetBranding (JObj [(''logo'', JStr (data_url ''image/png'' ''PNG''))])"]
  by (simp add: pickLogo_def LOGO_TYPES_def LOGO_MAX_BYTES_def)

section \<open>Domains\<close>

lemma trim_space_Cons: "trim (CHR '' '' # d) = trim d"
proof -
  have "js_space (CHR '' '')" by code_simp
  then show ?thesis by (simp add: trim_def)
qed

lemma parse_join:
  assumes "\<And>d. d \<in> set ds \<Longrightarrow> CHR '','' \<notin> set d \<and> trim d = d" and "ds \<noteq> []"
  shows "map trim (split_on (CHR '','') (join '', '' ds)) = ds"
  using assms
proof (induction "'', ''" ds rule: join.induct)
  case (3 x y ys)
  have "split_on (CHR '','') (x @ CHR '','' # CHR '' '' # join '', '' (y # ys)) = x # split_on (CHR '','') (CHR '' '' # join '', '' (y # ys))"
    using 3(2) [of x] by (intro split_on_append) simp
  moreover have "map trim (split_on (CHR '','') (CHR '' '' # z)) = map trim (split_on (CHR '','') z)" for z
    by (cases "split_on (CHR '','') z") (simp_all add: trim_space_Cons)
  ultimately show ?case using 3(1) 3(2) by simp
qed (simp_all add: split_on_nosep)

text \<open>The sign-up form follows the policy: filled from a policy whose domains are plain words, it reads back exactly those domains, so an
  untouched form has nothing to save. What it sends holds no blank domain.\<close>

theorem signup_form_roundtrip:
  assumes "\<forall>d \<in> set (su_allowed_domains p). d \<noteq> [] \<and> CHR '','' \<notin> set d \<and> trim d = d \<and> hd d \<noteq> CHR ''@''"
  shows "parsedDomains (snd (signup_form p)) = su_allowed_domains p \<and> save_signup pending (Some p) (signup_form p) = None \<and>
    [] \<notin> set (parsedDomains typed)"
proof -
  have "parsedDomains (snd (signup_form p)) = su_allowed_domains p"
  proof (cases "su_allowed_domains p = []")
    case True
    have "trim [] = []" by code_simp
    then show ?thesis using True by (simp add: parsedDomains_def signup_form_def)
  next
    case False
    have "map trim (split_on (CHR '','') (join '', '' (su_allowed_domains p))) = su_allowed_domains p"
      by (rule parse_join) (use assms False in auto)
    then have "map (\<lambda>d. strip_at (trim d)) (split_on (CHR '','') (join '', '' (su_allowed_domains p))) = map strip_at (su_allowed_domains p)"
      by (metis (no_types, lifting) comp_apply list.map_comp map_eq_conv)
    moreover have "strip_at d = d" if "d \<in> set (su_allowed_domains p)" for d using assms that by (cases d) auto
    ultimately show ?thesis using assms by (simp add: parsedDomains_def signup_form_def map_idI filter_id_conv)
  qed
  then show ?thesis by (simp add: save_signup_def signup_dirty_def signup_form_def) (simp add: parsedDomains_def)
qed

theorem signup_form_roundtrip_witness:
  "save_signup False (Some \<lparr>su_mode = ''open'', su_allowed_domains = [''a.kr'', ''b.kr'']\<rparr>)
     (signup_form \<lparr>su_mode = ''open'', su_allowed_domains = [''a.kr'', ''b.kr'']\<rparr>) = None"
proof -
  have t: "trim ''a.kr'' = ''a.kr''" "trim ''b.kr'' = ''b.kr''" by code_simp+
  show ?thesis
    using signup_form_roundtrip [where p = "\<lparr>su_mode = ''open'', su_allowed_domains = [''a.kr'', ''b.kr'']\<rparr>" and pending = False and typed = "[]"] t
    by simp
qed

lemma saveName_never_blank: "saveName svc name = Some m \<Longrightarrow> trim name \<noteq> [] \<and> Some (trim name) \<noteq> svc"
  by (auto simp: saveName_def name_dirty_def split: if_splits)

end
