(* ===== verification/Dashboards.thy ===== *)
theory Dashboards
  imports Wallet_Page Audit_Log
begin

text \<open>
  The two dashboards: what a user reads about credits, quotas, free cards, sessions and volumes (\<^verbatim>\<open>features/Dashboard.tsx\<close>) and what an
  operator reads about the fleet (\<^verbatim>\<open>features/admin/Dashboard.tsx\<close>), with the pager both share (\<^verbatim>\<open>components/DotPager.tsx\<close>).
\<close>

section \<open>Figures\<close>

definition pct :: "rat option \<Rightarrow> rat option \<Rightarrow> int" where
  "pct used tot =
     (if opt_else tot 0 > 0 then min 100 (js_round (opt_else used 0 / opt_else tot 0 * 100)) else 0)"

definition gb :: "rat option \<Rightarrow> rat" where
  "gb mb = of_int (js_round (opt_else mb 0 / 1024 * 10)) / 10"

definition congestion :: "rat option \<Rightarrow> rat option \<Rightarrow> string" where
  "congestion freeMb totalMb =
     (let free = opt_else freeMb 0; tot = opt_else totalMb 0 in
      if tot \<le> 0 \<or> free \<le> 0 then ''unavailable''
      else if free / tot \<ge> 6 / 10 then ''free''
      else if free / tot \<ge> 3 / 10 then ''moderate''
      else ''congested'')"

text \<open>A quota line: the percentage spelled out, the text that there is no limit, or neither.\<close>

datatype quota_note = Percent int | NoLimit | Idle

definition quota_bounded :: "rat option \<Rightarrow> bool" where
  "quota_bounded limit = (opt_else limit 0 > 0)"

definition QuotaRow :: "rat \<Rightarrow> rat option \<Rightarrow> quota_note" where
  "QuotaRow used limit =
     (let meter = (if quota_bounded limit then pct (Some used) limit else 0) in
      if \<not> quota_bounded limit then NoLimit else if 1 \<le> meter then Percent meter else Idle)"

text \<open>\<^verbatim>\<open>/^NVIDIA\s+(GeForce\s+)?/\<close>\<close>

definition drop_word :: "string \<Rightarrow> string \<Rightarrow> string option" where
  "drop_word w s =
     (if starts_with s w \<and> drop (length w) s \<noteq> [] \<and> js_space (hd (drop (length w) s))
      then Some (dropWhile js_space (drop (length w) s)) else None)"

definition shortModel :: "string \<Rightarrow> string" where
  "shortModel model =
     (case drop_word ''NVIDIA'' model of
        None \<Rightarrow> model
      | Some s \<Rightarrow> (case drop_word ''GeForce'' s of Some t \<Rightarrow> t | None \<Rightarrow> s))"

section \<open>The user's dashboard\<close>

definition REGION_PAGE :: nat where
  "REGION_PAGE = 6"

definition instLimit :: "rat option \<Rightarrow> rat \<Rightarrow> rat" where
  "instLimit total_instances active = opt_else total_instances (max active 1)"

definition ACTIVE_STATUSES :: "string list" where
  "ACTIVE_STATUSES = [''pending'', ''preparing'', ''running'', ''paused'', ''terminating'']"

definition mySessions :: "Session list option \<Rightarrow> Session list" where
  "mySessions sessions = take 5 (filter (\<lambda>x. se_status x \<in> set ACTIVE_STATUSES) (opt_else sessions []))"

definition recent_le :: "(string \<Rightarrow> string \<Rightarrow> int) \<Rightarrow> Session \<Rightarrow> Session \<Rightarrow> bool" where
  "recent_le coll a b = (coll (str_or (se_terminated_at b) []) (str_or (se_terminated_at a) []) \<le> 0)"

definition recent_runs :: "(string \<Rightarrow> string \<Rightarrow> int) \<Rightarrow> Session list option \<Rightarrow> Session list" where
  "recent_runs coll sessions =
     take 5 (js_sort (recent_le coll) (filter (\<lambda>x. se_status x = ''terminated'' \<or> se_status x = ''error'') (opt_else sessions [])))"

definition dash_runway :: "burning list option \<Rightarrow> rat option \<Rightarrow> rat option" where
  "dash_runway sessions available =
     (let burn = sessionBurnPerHour sessions in if 0 < burn \<and> available \<noteq> None then Some (the available / burn) else None)"

definition card_gb :: "rat \<Rightarrow> rat option \<Rightarrow> int" where
  "card_gb cards total_mb = (if 0 < cards then js_round (opt_else total_mb 0 / cards / 1024) else 0)"

text \<open>Pages of a short grid: the page count, the page in view (a shorter list can leave the chosen one past the end), and its items.\<close>

definition grid_pages :: "nat \<Rightarrow> 'a list \<Rightarrow> nat" where
  "grid_pages per items = max 1 (nat \<lceil>(of_nat (length items) :: rat) / of_nat per\<rceil>)"

definition grid_page :: "nat \<Rightarrow> nat \<Rightarrow> 'a list \<Rightarrow> nat" where
  "grid_page per chosen items = min chosen (grid_pages per items - 1)"

definition grid_items :: "nat \<Rightarrow> nat \<Rightarrow> 'a list \<Rightarrow> 'a list" where
  "grid_items per chosen items = (let p = grid_page per chosen items in take per (drop (p * per) items))"

text \<open>What pressing the pager can choose.\<close>

datatype dot_press = Previous | Dot nat | Next

definition DotPager :: "nat \<Rightarrow> nat \<Rightarrow> dot_press \<Rightarrow> nat option" where
  "DotPager page pages b =
     (if pages \<le> 1 then None
      else case b of
             Previous \<Rightarrow> if page = 0 then None else Some (page - 1)
           | Next \<Rightarrow> if pages - 1 \<le> page then None else Some (page + 1)
           | Dot i \<Rightarrow> if i < pages then Some i else None)"

definition storage_more :: "nat option \<Rightarrow> nat \<Rightarrow> nat option" where
  "storage_more volumes shown = (case volumes of None \<Rightarrow> None | Some n \<Rightarrow> if shown < n then Some (n - shown) else None)"

text \<open>The console's routes for a user, as path segments; a segment with a colon stands for any text. The links of the page.\<close>

definition page_routes :: "string list list" where
  "page_routes =
     [[''login''], [''change-password''], [], [''sessions'', ''new''], [''sessions''], [''sessions'', '':id''], [''sessions'', '':id'', ''connect''],
      [''queue''], [''wallet''], [''wallet'', ''request''], [''data''], [''account''], [''account'', ''password''], [''403''], [''error'']]"

definition segment_matches :: "string \<Rightarrow> string \<Rightarrow> bool" where
  "segment_matches pat seg = (starts_with pat '':'' \<and> seg \<noteq> [] \<or> pat = seg)"

definition route_exists :: "string list \<Rightarrow> bool" where
  "route_exists segs = list_ex (\<lambda>r. list_all2 segment_matches r segs) page_routes"

definition dashboard_links :: "Session list \<Rightarrow> string list \<Rightarrow> string list list" where
  "dashboard_links shown waiting =
     [[''sessions'', ''new''], [''queue''], [''sessions''], [''volumes'']] @ map (\<lambda>x. [''sessions'', se_id x]) shown @
     map (\<lambda>i. [''sessions'', i]) waiting"

section \<open>The operator's dashboard\<close>

record FleetDevice =
  fd_node_id :: "string option"
  fd_model :: "string option"
  fd_alias :: "string option"
  fd_mode :: "string option"
  fd_status :: "string option"
  fd_node_status :: "string option"
  fd_mode_state :: "string option"
  fd_total_mem_mb :: "rat option"
  fd_used_mem_mb :: "rat option"
  fd_used_cores :: "rat option"

definition DEVICE_PAGE :: nat where
  "DEVICE_PAGE = 6"

definition unavailableReason :: "string option \<Rightarrow> string option \<Rightarrow> string option \<Rightarrow> (string \<times> string) option" where
  "unavailableReason status nodeStatus modeState =
     (if str_truthy status \<and> status \<noteq> Some ''ready'' then Some (''enum.status.'' @ the status, the status)
      else if nodeStatus = Some ''offline'' \<or> nodeStatus = Some ''cordoned'' then Some (''enum.nodeStatus.'' @ the nodeStatus, the nodeStatus)
      else if str_truthy modeState \<and> modeState \<noteq> Some ''ready'' then Some (''enum.modeState.'' @ the modeState, the modeState)
      else None)"

definition free_mb :: "FleetDevice \<Rightarrow> rat" where
  "free_mb d = max 0 (opt_else (fd_total_mem_mb d) 0 - opt_else (fd_used_mem_mb d) 0)"

definition free_cores :: "FleetDevice \<Rightarrow> rat" where
  "free_cores d = max 0 (100 - opt_else (fd_used_cores d) 0)"

record device_tile =
  dt_variant :: string
  dt_meter :: rat
  dt_tag :: string
  dt_headroom :: "rat option"

definition DeviceTile :: "i18n \<Rightarrow> FleetDevice \<Rightarrow> device_tile" where
  "DeviceTile tr d =
     (let tot = opt_else (fd_total_mem_mb d) 0;
          usedPct = (if 0 < tot then (tot - free_mb d) / tot * 100 else 0);
          out = unavailableReason (fd_status d) (fd_node_status d) (fd_mode_state d);
          mode = str_or (fd_mode d) ''-''
      in \<lparr>dt_variant = (if out \<noteq> None then ''danger'' else if 90 \<le> usedPct then ''danger'' else if 70 \<le> usedPct then ''warn'' else ''primary''),
          dt_meter = (if out \<noteq> None then 100 else usedPct),
          dt_tag = (case out of Some (k, fb) \<Rightarrow> i18n_t tr k [(''defaultValue'', JStr fb)]
                    | None \<Rightarrow> i18n_t tr (''enum.deviceMode.'' @ mode) [(''defaultValue'', JStr mode)]),
          dt_headroom = (if out \<noteq> None then None else Some (free_cores d))\<rparr>)"

text \<open>Nodes are asked for only when there is a choice of clusters; \<open>nodes\<close> are their ids and clusters.\<close>

definition nodeCluster :: "(string \<times> string option) list \<Rightarrow> string \<Rightarrow> string option" where
  "nodeCluster nodes = map_of (rev (map (\<lambda>(i, c). (i, the c)) (filter (\<lambda>(_, c). str_truthy c) nodes)))"

definition gridDevices :: "string option \<Rightarrow> (string \<times> string option) list \<Rightarrow> FleetDevice list \<Rightarrow> FleetDevice list" where
  "gridDevices clusterId nodes devices =
     (if str_truthy clusterId then filter (\<lambda>d. nodeCluster nodes (str_or (fd_node_id d) []) = clusterId) devices else devices)"

definition device_model :: "FleetDevice \<Rightarrow> string" where
  "device_model d = str_or (fd_model d) ''-''"

text \<open>The running number of each card among those of its model, from zero.\<close>

fun number_from :: "(string \<Rightarrow> nat) \<Rightarrow> FleetDevice list \<Rightarrow> (FleetDevice \<times> string \<times> nat) list" where
  "number_from perModel [] = []"
| "number_from perModel (d # ds) =
     (d, device_model d, perModel (device_model d)) # number_from (perModel(device_model d := Suc (perModel (device_model d)))) ds"

definition numberedDevices :: "FleetDevice list \<Rightarrow> (FleetDevice \<times> string \<times> nat) list" where
  "numberedDevices ds = number_from (\<lambda>_. 0) ds"

definition tile_title :: "FleetDevice \<times> string \<times> nat \<Rightarrow> string" where
  "tile_title = (\<lambda>(d, model, idx). case nonempty (fd_alias d) of Some a \<Rightarrow> a | None \<Rightarrow> shortModel model @ '' #'' @ show_nat (Suc idx))"

definition capacity_pct :: "rat \<Rightarrow> rat \<Rightarrow> rat" where
  "capacity_pct used tot = (if 0 < tot then used / tot * 100 else 0)"

definition healthAlerts :: "(nat \<times> nat) option \<Rightarrow> nat" where
  "healthAlerts m = (case m of None \<Rightarrow> 0 | Some (cordoned, offline) \<Rightarrow> cordoned + offline)"

definition fleetCap :: "rat option \<Rightarrow> rat \<Rightarrow> rat" where
  "fleetCap capacity_gb disk_total = opt_else capacity_gb disk_total"

record PanelPool =
  sp_used_gb :: "rat option"
  sp_capacity_gb :: "rat option"

text \<open>A row of the storage panel: the fill it draws, if any, and its colour.\<close>

definition allocation_variant :: "rat \<Rightarrow> rat \<Rightarrow> string" where
  "allocation_variant used cap = (if cap < used then ''danger'' else ''primary'')"

definition fleet_row :: "rat \<Rightarrow> rat \<Rightarrow> (rat \<times> string) option" where
  "fleet_row used cap = Some (capacity_pct used cap, allocation_variant used cap)"

definition pool_row :: "PanelPool \<Rightarrow> (rat \<times> string) option" where
  "pool_row p =
     (let used = opt_else (sp_used_gb p) 0; cap = opt_else (sp_capacity_gb p) 0 in
      if 0 < cap then Some (used / cap * 100, allocation_variant used cap) else None)"

text \<open>The newest entries of the audit log, and how the panel names who acted.\<close>

definition recent_activity :: "bool \<Rightarrow> 'e query_def" where
  "recent_activity isSuper = useAuditLogs (if isSuper then [(''size'', JNum 8), (''sort'', JStr ''-at'')] else [])"

definition activity_actor :: "AuditRow \<Rightarrow> string" where
  "activity_actor r = str_or (ar_actor_name r) ''-''"

section \<open>What the figures say\<close>

lemma js_round_nonneg: "0 \<le> q \<Longrightarrow> 0 \<le> js_round q"
  by (simp add: js_round_def)

lemma pct_bounds:
  assumes "0 \<le> opt_else used 0"
  shows "0 \<le> pct used tot \<and> pct used tot \<le> 100"
  using assms by (simp add: pct_def js_round_nonneg)

lemma congestion_never_improves:
  assumes "0 < tot" "f1 \<le> f2"
  shows "congestion (Some f2) (Some tot) = ''unavailable'' \<Longrightarrow> congestion (Some f1) (Some tot) = ''unavailable''"
    and "congestion (Some f1) (Some tot) = ''free'' \<Longrightarrow> congestion (Some f2) (Some tot) = ''free''"
proof -
  have "f1 * 5 / tot \<le> f2 * 5 / tot" using assms by (simp add: divide_right_mono)
  then show "congestion (Some f1) (Some tot) = ''free'' \<Longrightarrow> congestion (Some f2) (Some tot) = ''free''"
    using assms by (auto simp: congestion_def opt_else_def Let_def split: if_splits)
  show "congestion (Some f2) (Some tot) = ''unavailable'' \<Longrightarrow> congestion (Some f1) (Some tot) = ''unavailable''"
    using assms by (auto simp: congestion_def opt_else_def Let_def split: if_splits)
qed

section \<open>Pages of cards\<close>

lemma grid_pages_cover:
  assumes "0 < per"
  shows "length xs \<le> grid_pages per xs * per"
  using page_count_covers [OF assms, of "length xs"] by (simp add: grid_pages_def page_count_def)

lemma grid_pages_tight:
  assumes "0 < per" "xs \<noteq> []" "p < grid_pages per xs"
  shows "p * per < length xs"
proof -
  have pos: "0 < (of_nat (length xs) :: rat) / of_nat per" using assms by simp
  have "int p < \<lceil>(of_nat (length xs) :: rat) / of_nat per\<rceil>"
  proof (cases "p = 0")
    case True
    then show ?thesis using pos by (simp add: less_ceiling_iff)
  next
    case False
    then show ?thesis using assms(3) by (simp add: grid_pages_def)
  qed
  then have "(of_nat p :: rat) < of_nat (length xs) / of_nat per" by (simp add: less_ceiling_iff)
  then have "(of_nat (p * per) :: rat) < of_nat (length xs)" using assms(1) by (simp add: pos_less_divide_eq)
  then show ?thesis by linarith
qed

text \<open>The card grids of both dashboards page safely. The pages in order show every card exactly once; whatever page was chosen
  before the list changed, the page on view is one of them, holds at most a page of cards and is never blank while there is a card;
  and every press of the pager's arrows and dots chooses an existing page, with no pager at all for a single page.
\<close>

theorem grid_pages_safe:
  fixes items :: "'a list"
  assumes "0 < per"
  shows "concat (map (\<lambda>p. grid_items per p items) [0..<grid_pages per items]) = items \<and>
         grid_page per chosen items < grid_pages per items \<and>
         length (grid_items per chosen items) \<le> per \<and>
         (items \<noteq> [] \<longrightarrow> grid_items per chosen items \<noteq> []) \<and>
         (\<forall>b n. DotPager (grid_page per chosen items) (grid_pages per items) b = Some n \<longrightarrow> n < grid_pages per items \<and> 1 < grid_pages per items)"
proof (intro conjI allI impI)
  have "map (\<lambda>p. grid_items per p items) [0..<grid_pages per items] = map (\<lambda>p. take per (drop (p * per) items)) [0..<grid_pages per items]"
    by (auto simp: grid_items_def grid_page_def min_def Let_def)
  then have "concat (map (\<lambda>p. grid_items per p items) [0..<grid_pages per items]) = take (grid_pages per items * per) items"
    by (simp only: concat_pages)
  then show "concat (map (\<lambda>p. grid_items per p items) [0..<grid_pages per items]) = items"
    using grid_pages_cover [OF assms, of items] by simp
  have "0 < grid_pages per items" by (simp add: grid_pages_def)
  then show p: "grid_page per chosen items < grid_pages per items" by (simp add: grid_page_def)
  show "length (grid_items per chosen items) \<le> per" by (simp add: grid_items_def Let_def)
  show "grid_items per chosen items \<noteq> []" if "items \<noteq> []"
    using grid_pages_tight [OF assms that p] assms by (simp add: grid_items_def Let_def)
  fix b n
  assume "DotPager (grid_page per chosen items) (grid_pages per items) b = Some n"
  then show "n < grid_pages per items" "1 < grid_pages per items"
    using p by (auto simp: DotPager_def split: dot_press.splits if_splits)
qed

theorem grid_pages_safe_witness:
  "concat (map (\<lambda>p. grid_items 6 p [0..<8]) [0..<grid_pages 6 [0..<8]]) = [0..<8::nat] \<and> grid_items 6 5 [0..<8] \<noteq> []"
  using grid_pages_safe [where per = 6 and items = "[0..<8]" and chosen = 5] by simp

section \<open>Cards\<close>

lemma number_from_spec:
  "number_from f ds =
     map (\<lambda>i. (ds ! i, device_model (ds ! i), f (device_model (ds ! i)) + length (filter (\<lambda>d. device_model d = device_model (ds ! i)) (take i ds))))
       [0..<length ds]"
proof (induction ds arbitrary: f)
  case Nil
  then show ?case by simp
next
  case (Cons d ds)
  show ?case
    by (simp add: Cons.IH upt_conv_Cons map_Suc_upt [symmetric] comp_def del: upt_Suc)
qed

definition seen_before :: "FleetDevice list \<Rightarrow> nat \<Rightarrow> nat" where
  "seen_before ds i = length (filter (\<lambda>d. device_model d = device_model (ds ! i)) (take i ds))"

lemma seen_before_less:
  assumes "i < j" "j < length ds" "device_model (ds ! i) = device_model (ds ! j)"
  shows "seen_before ds i < seen_before ds j"
proof -
  have "take j ds = take i ds @ ds ! i # drop (Suc i) (take j ds)"
    using id_take_nth_drop [of i "take j ds"] assms by (simp add: min_def)
  then obtain r where "take j ds = take i ds @ ds ! i # r" by blast
  then show ?thesis using assms(3) by (simp add: seen_before_def)
qed

lemma numbered_spec:
  "numberedDevices ds = map (\<lambda>i. (ds ! i, device_model (ds ! i), seen_before ds i)) [0..<length ds]"
  by (simp add: numberedDevices_def number_from_spec seen_before_def)

lemma numbers_distinct: "distinct (map snd (numberedDevices ds))"
proof -
  have "i = j" if "i < length ds" "j < length ds" "device_model (ds ! i) = device_model (ds ! j)" "seen_before ds i = seen_before ds j" for i j
    using that seen_before_less [of i j ds] seen_before_less [of j i ds] by (cases i j rule: linorder_cases) simp_all
  then show ?thesis by (simp add: numbered_spec distinct_map comp_def inj_on_def)
qed

text \<open>A card's number on the rack counts the cards of its model listed before it, so no two cards of a model share a number and none is
  skipped, and the cards keep their order. The tile of a card that cannot take work says why, is drawn full and in red and states no
  headroom; that of a card that can states its free cores, fills in proportion to the memory in use, between nothing and everything,
  and turns red exactly from 90 per cent.
\<close>

theorem fleet_tiles_truthful:
  assumes "i < length ds" "d = ds ! i" "tile = DeviceTile tr d"
    and "0 \<le> opt_else (fd_used_mem_mb d) 0" "out = unavailableReason (fd_status d) (fd_node_status d) (fd_mode_state d)"
  shows "numberedDevices ds ! i = (d, device_model d, length (filter (\<lambda>e. device_model e = device_model d) (take i ds))) \<and>
         distinct (map snd (numberedDevices ds)) \<and>
         0 \<le> dt_meter tile \<and> dt_meter tile \<le> 100 \<and>
         (case out of
            Some (k, fb) \<Rightarrow> dt_variant tile = ''danger'' \<and> dt_meter tile = 100 \<and> dt_headroom tile = None \<and>
              dt_tag tile = i18n_t tr k [(''defaultValue'', JStr fb)]
          | None \<Rightarrow> dt_headroom tile = Some (max 0 (100 - opt_else (fd_used_cores d) 0)) \<and>
              (dt_variant tile = ''danger'' \<longleftrightarrow> 90 \<le> dt_meter tile) \<and>
              (0 < opt_else (fd_total_mem_mb d) 0 \<and> opt_else (fd_used_mem_mb d) 0 \<le> opt_else (fd_total_mem_mb d) 0 \<longrightarrow>
                 dt_meter tile * opt_else (fd_total_mem_mb d) 0 = opt_else (fd_used_mem_mb d) 0 * 100))"
proof (intro conjI)
  show "numberedDevices ds ! i = (d, device_model d, length (filter (\<lambda>e. device_model e = device_model d) (take i ds)))"
    using assms(1,2) by (simp add: numbered_spec seen_before_def)
  show "distinct (map snd (numberedDevices ds))" by (rule numbers_distinct)
  show "0 \<le> dt_meter tile"
    using assms(4) by (auto simp: assms(3) DeviceTile_def free_mb_def Let_def divide_simps)
  show "dt_meter tile \<le> 100"
    by (auto simp: assms(3) DeviceTile_def free_mb_def Let_def divide_simps)
qed (auto simp: assms(3,5) DeviceTile_def free_mb_def free_cores_def Let_def split: option.splits prod.splits)

definition idle_card :: "string \<Rightarrow> FleetDevice" where
  "idle_card node = \<lparr>fd_node_id = Some node, fd_model = Some ''A100'', fd_alias = None, fd_mode = Some ''hami'', fd_status = Some ''ready'',
     fd_node_status = Some ''ready'', fd_mode_state = None, fd_total_mem_mb = Some 81920, fd_used_mem_mb = Some 20480, fd_used_cores = Some 25\<rparr>"

definition plain_i18n :: i18n where
  "plain_i18n = \<lparr>i18n_exists = (\<lambda>_. False), i18n_t = (\<lambda>k _. k)\<rparr>"

theorem fleet_tiles_truthful_witness:
  "numberedDevices [idle_card ''n1'', idle_card ''n2''] ! 1 = (idle_card ''n2'', ''A100'', 1) \<and>
   dt_headroom (DeviceTile plain_i18n (idle_card ''n2'')) = Some 75 \<and> dt_meter (DeviceTile plain_i18n (idle_card ''n2'')) = 25"
proof -
  have "unavailableReason (fd_status (idle_card ''n2'')) (fd_node_status (idle_card ''n2'')) (fd_mode_state (idle_card ''n2'')) = None"
    by (simp add: unavailableReason_def idle_card_def)
  then show ?thesis
    using fleet_tiles_truthful [where i = 1 and ds = "[idle_card ''n1'', idle_card ''n2'']" and d = "idle_card ''n2''" and tr = plain_i18n
        and tile = "DeviceTile plain_i18n (idle_card ''n2'')" and out = None]
    by (simp add: idle_card_def device_model_def opt_else_def str_or_def)
qed

text \<open>
  The numbering runs over the cards of the chosen cluster, not over the fleet: choosing a cluster renames the same card.
\<close>

theorem number_follows_cluster:
  "\<exists>nodes devices d. gridDevices (Some ''c2'') nodes devices = [d] \<and> d \<in> set (gridDevices None nodes devices) \<and>
     tile_title (numberedDevices (gridDevices (Some ''c2'') nodes devices) ! 0) = ''A100 #1'' \<and>
     tile_title (numberedDevices (gridDevices None nodes devices) ! 1) = ''A100 #2'' \<and>
     fst (numberedDevices (gridDevices None nodes devices) ! 1) = d"
proof -
  have n: "show_nat (Suc 0) = ''1''" "show_nat 2 = ''2''" by code_simp+
  let ?nodes = "[(''n1'', Some ''c1''), (''n2'', Some ''c2'')]"
  let ?ds = "[idle_card ''n1'', idle_card ''n2'']"
  have "gridDevices (Some ''c2'') ?nodes ?ds = [idle_card ''n2'']" "gridDevices None ?nodes ?ds = ?ds"
    by (simp_all add: gridDevices_def nodeCluster_def idle_card_def str_truthy_def str_or_def)
  moreover have "tile_title (numberedDevices [idle_card ''n2''] ! 0) = ''A100 #1''"
    "tile_title (numberedDevices ?ds ! 1) = ''A100 #2''" "fst (numberedDevices ?ds ! 1) = idle_card ''n2''"
    by (simp_all add: numberedDevices_def tile_title_def idle_card_def device_model_def shortModel_def drop_word_def
        starts_with_def nonempty_def str_truthy_def str_or_def n numeral_2_eq_2 [symmetric])
  ultimately show ?thesis by (intro exI [of _ ?nodes] exI [of _ ?ds] exI [of _ "idle_card ''n2''"]) simp
qed

section \<open>Agreement with the other screens\<close>

text \<open>Every link of the user's dashboard leads to a page, except the one above the storage list.\<close>

theorem dashboard_links_resolve:
  assumes "\<forall>x \<in> set shown. se_id x \<noteq> []" "\<forall>i \<in> set waiting. i \<noteq> []"
  shows "filter (\<lambda>l. \<not> route_exists l) (dashboard_links shown waiting) = [[''volumes'']]"
proof -
  have "route_exists [''sessions'', i]" if "i \<noteq> []" for i
    using that by (simp add: route_exists_def page_routes_def segment_matches_def starts_with_def)
  then have "filter (\<lambda>l. \<not> route_exists l) (map (\<lambda>x. [''sessions'', se_id x]) shown @ map (\<lambda>i. [''sessions'', i]) waiting) = []"
    using assms by (auto simp: filter_empty_conv)
  moreover have "route_exists [''sessions'', ''new'']" "route_exists [''queue'']" "route_exists [''sessions'']" "\<not> route_exists [''volumes'']"
    by (simp_all add: route_exists_def page_routes_def segment_matches_def starts_with_def)
  ultimately show ?thesis by (simp add: dashboard_links_def)
qed

theorem dashboard_links_resolve_witness:
  "filter (\<lambda>l. \<not> route_exists l) (dashboard_links [] [''q1'']) = [[''volumes'']]"
  using dashboard_links_resolve [where shown = "[]" and waiting = "[''q1'']"] by simp

text \<open>The time the credits last is the one the wallet page gives, and no row of either preview is invented or repeated.\<close>

lemma dashboard_runway_agrees: "dash_runway sessions available = runwayHours available sessions"
  by (auto simp: dash_runway_def runwayHours_def Let_def)

lemma previews_are_selections:
  shows "set (mySessions ss) \<subseteq> set (opt_else ss [])" "length (mySessions ss) \<le> 5"
    and "set (recent_runs coll ss) \<subseteq> set (opt_else ss [])" "length (recent_runs coll ss) \<le> 5"
proof -
  show "set (mySessions ss) \<subseteq> set (opt_else ss [])" by (auto simp: mySessions_def dest: in_set_takeD)
  show "set (recent_runs coll ss) \<subseteq> set (opt_else ss [])" by (auto simp: recent_runs_def set_js_sort dest: in_set_takeD)
qed (simp_all add: mySessions_def recent_runs_def)

text \<open>A pool is drawn over its capacity exactly when more is allocated than it holds, and a pool of unknown size draws no fill.\<close>

lemma pool_row_over:
  "map_option snd (pool_row p) = Some ''danger'' \<longleftrightarrow>
     0 < opt_else (sp_capacity_gb p) 0 \<and> opt_else (sp_capacity_gb p) 0 < opt_else (sp_used_gb p) 0"
  by (auto simp: pool_row_def allocation_variant_def Let_def)

text \<open>The activity panel names an actor as the audit list does, except that an entry of the operator itself has no name there.\<close>

lemma activity_actor_agrees:
  assumes "ar_actor_name r \<noteq> Some []"
  shows "activity_actor r \<noteq> actorDisplay r \<longleftrightarrow> ar_actor_name r = None \<and> starts_with (str_or (ar_actor_id r) []) ''operator''"
  using assms by (auto simp: activity_actor_def actorDisplay_def nonempty_def str_truthy_def str_or_def split: option.splits)

end
