(* ===== verification/Console_Frame.thy ===== *)
theory Console_Frame
  imports Account_Screens Navigation Ui_Store Ui_Controls Fleet_Charts Dashboards
begin

text \<open>
  What frames every screen: the account menu (\<^verbatim>\<open>components/AccountMenu.tsx\<close>), the choice of the cluster
  (\<^verbatim>\<open>ClusterSelector.tsx\<close>), the name and icon of the browser tab (\<^verbatim>\<open>BrandMark.tsx\<close>, \<^verbatim>\<open>BrandDocument.tsx\<close>), status pills and gauges
  (\<^verbatim>\<open>StatusPill.tsx\<close>, \<^verbatim>\<open>BlockGauge.tsx\<close>), and the small controls: select boxes written as options (\<^verbatim>\<open>Select.tsx\<close>), tabs, dialogs, form
  fields and the language switch.
\<close>

section \<open>Status pills and gauges\<close>

definition TONE :: "(string \<times> string) list" where
  "TONE =
     [(''running'', ''free''), (''ready'', ''free''), (''pending'', ''warn''), (''preparing'', ''warn''), (''queued'', ''warn''),
      (''busy'', ''warn''), (''cordoned'', ''warn''), (''draining'', ''warn''), (''applying'', ''warn''), (''error'', ''danger''),
      (''offline'', ''danger''), (''approved'', ''free''), (''rejected'', ''danger''), (''escalated'', ''warn''), (''creating'', ''warn''),
      (''failed'', ''danger''), (''paused'', ''muted''), (''terminating'', ''muted''), (''terminated'', ''muted''), (''active'', ''free''),
      (''invited'', ''warn''), (''suspended'', ''danger''), (''connected'', ''free''), (''live'', ''free''), (''polling'', ''warn''),
      (''succeeded'', ''free''), (''building'', ''warn''), (''pushing'', ''warn''), (''scanning'', ''warn''), (''importing'', ''warn''),
      (''free'', ''free''), (''moderate'', ''warn''), (''congested'', ''danger''), (''unavailable'', ''muted'')]"

definition TRANSITIONAL :: "string list" where
  "TRANSITIONAL = [''pending'', ''preparing'', ''terminating'', ''draining'', ''applying'', ''creating'']"

definition StatusPill :: "string \<Rightarrow> string \<times> bool" where
  "StatusPill kind = (str_or (map_of TONE kind) ''muted'', kind \<in> set TRANSITIONAL)"

definition gauge_filled :: "rat \<Rightarrow> nat \<Rightarrow> int" where
  "gauge_filled value cells =
     (let v = meter_value value in if v = 0 then 0 else max 1 (js_round (v / 100 * of_nat cells)))"

definition gauge_tone :: "rat \<Rightarrow> string" where
  "gauge_tone value =
     (let v = meter_value value in if 90 \<le> v then ''bg-danger'' else if 75 \<le> v then ''bg-warn'' else ''bg-primary'')"

text \<open>Which cells are lit.\<close>

definition BlockGauge :: "rat \<Rightarrow> nat \<Rightarrow> bool list" where
  "BlockGauge value cells = map (\<lambda>i. int i < gauge_filled value cells) [0..<cells]"

section \<open>Small controls\<close>

definition LanguageToggle :: "string option \<Rightarrow> string" where
  "LanguageToggle resolved = (if starts_with (str_or resolved ''en'') ''ko'' then ''en'' else ''ko'')"

record TabItem =
  ti_key :: string
  ti_disabled :: bool

definition Tabs :: "TabItem list \<Rightarrow> nat \<Rightarrow> string option" where
  "Tabs items i = (if i < length items \<and> \<not> ti_disabled (items ! i) then Some (ti_key (items ! i)) else None)"

text \<open>The ids that describe the control of a labelled field.\<close>

definition describedBy :: "string \<Rightarrow> bool \<Rightarrow> string option \<Rightarrow> string option" where
  "describedBy fid hint error =
     nonempty (Some (join '' '' ((if hint then [fid @ ''-hint''] else []) @ (if str_truthy error then [fid @ ''-error''] else []))))"

text \<open>The children of a \<^verbatim>\<open>Select\<close>: options, groups of options, other elements and plain text.\<close>

datatype child =
    OptionEl "string option" "bool option"
  | OptgroupEl "string option" "child list"
  | OtherEl "child list"
  | TextChild

fun collect_child :: "string option \<Rightarrow> child \<Rightarrow> SelectMenuOption list" where
  "collect_child grp (OptionEl v dis) = [\<lparr>so_value = str_or v [], so_group = grp, so_disabled = opt_else dis False\<rparr>]"
| "collect_child grp (OptgroupEl label cs) = concat (map (collect_child label) cs)"
| "collect_child grp (OtherEl cs) = concat (map (collect_child grp) cs)"
| "collect_child grp TextChild = []"

definition collect :: "child list \<Rightarrow> SelectMenuOption list" where
  "collect cs = concat (map (collect_child None) cs)"

definition Select :: "string option \<Rightarrow> child list \<Rightarrow> bool \<Rightarrow> select_menu" where
  "Select value children disabled = select_init (collect children) (str_or value []) disabled"

text \<open>The \<^verbatim>\<open>value\<close> properties of the options, in the order of the document.\<close>

fun option_values :: "child \<Rightarrow> string list" where
  "option_values (OptionEl v dis) = [str_or v []]"
| "option_values (OptgroupEl label cs) = concat (map option_values cs)"
| "option_values (OtherEl cs) = concat (map option_values cs)"
| "option_values TextChild = []"

section \<open>Overlays\<close>

text \<open>
  A dialog or a drawer closes on Escape, on its scrim and on its cross. A confirmation raised by the page, a list box inside it
  and the dialog each listen for Escape, the first two on the document, the dialog on the window, and none stops the event.
\<close>

datatype overlay_event = KeyDown string | ScrimClick | CrossClick

text \<open>Whether \<^verbatim>\<open>onClose\<close> is called; a closed dialog has no listener and renders nothing.\<close>

fun Dialog :: "bool \<Rightarrow> overlay_event \<Rightarrow> bool" where
  "Dialog shown (KeyDown k) = (shown \<and> k = ''Escape'')"
| "Dialog shown ScrimClick = shown"
| "Dialog shown CrossClick = shown"

record overlays =
  ov_confirm :: confirm_dialog
  ov_select :: select_menu
  ov_dialog :: bool

definition press_escape :: "overlays \<Rightarrow> overlays" where
  "press_escape p =
     p\<lparr>ov_confirm := confirm_step (ov_confirm p) PressEscape, ov_select := fst (select_step (ov_select p) EscapeKey),
       ov_dialog := ov_dialog p \<and> \<not> Dialog (ov_dialog p) (KeyDown ''Escape'')\<rparr>"

text \<open>The bubble with a reason: its own button toggles it, Escape, a press outside and its cross close it.\<close>

datatype bubble_event = BubbleToggle | BubbleEscape | BubbleOutside | BubbleCross

fun ReasonPopover :: "bool \<Rightarrow> bubble_event \<Rightarrow> bool" where
  "ReasonPopover shown BubbleToggle = (\<not> shown)"
| "ReasonPopover shown _ = False"

section \<open>The cluster in view\<close>

definition selector_value :: "ClusterSummary list \<Rightarrow> string option \<Rightarrow> string" where
  "selector_value clusters active =
     (if str_truthy active \<and> (\<exists>c \<in> set clusters. Some (cs_id c) = active) then the active else [])"

definition selector_options :: "ClusterSummary list \<Rightarrow> string list" where
  "selector_options clusters = [] # map cs_id clusters"

text \<open>Nothing is shown while there is no cluster; otherwise the value, and whether the pill is lit.\<close>

definition ClusterSelector :: "ClusterSummary list \<Rightarrow> UiState \<Rightarrow> (string \<times> bool) option" where
  "ClusterSelector clusters s =
     (if clusters = [] then None
      else let v = selector_value clusters (ui_activeClusterId s) in Some (v, v \<noteq> []))"

definition pick_cluster :: "string \<Rightarrow> UiState \<Rightarrow> UiState" where
  "pick_cluster v s = setActiveCluster (if v = [] then None else Some v) s"

section \<open>The account menu\<close>

definition menu_role :: "i18n \<Rightarrow> AuthState \<Rightarrow> string" where
  "menu_role tr s =
     (if jc_global_role (claims s) = Some ''super_admin'' then roleLabel tr (Some ''super_admin'')
      else let r = (case activeProject s of Some m \<Rightarrow> mb_role m | None \<Rightarrow> str_or (membershipRole s) []);
               label = roleLabel tr (Some r)
           in if label = [] then i18n_t tr ''account.defaultRole'' [] else label)"

definition menu_name :: "AuthState \<Rightarrow> string" where
  "menu_name s = str_or (or_else (displayName s) (jc_email (claims s))) ''-''"

definition initial_letter :: "string \<Rightarrow> char" where
  "initial_letter name = (case trim name of [] \<Rightarrow> CHR ''?'' | c # _ \<Rightarrow> c)"

record account_menu =
  am_open :: bool
  am_path :: string
  am_auth :: AuthState

datatype menu_event = MenuTrigger | Navigated string | MenuEscape | MenuOutside | PickAccount | PickPassword | SignOut

text \<open>Following a link closes the menu itself; a change of the path closes it in an effect.\<close>

definition go :: "string \<Rightarrow> account_menu \<Rightarrow> account_menu" where
  "go path m = (if path = am_path m then m else m\<lparr>am_path := path, am_open := False\<rparr>)"

fun menu_step :: "account_menu \<Rightarrow> menu_event \<Rightarrow> account_menu" where
  "menu_step m MenuTrigger = m\<lparr>am_open := \<not> am_open m\<rparr>"
| "menu_step m (Navigated path) = go path m"
| "menu_step m MenuEscape = m\<lparr>am_open := False\<rparr>"
| "menu_step m MenuOutside = m\<lparr>am_open := False\<rparr>"
| "menu_step m PickAccount = (if am_open m then go ''/account'' (m\<lparr>am_open := False\<rparr>) else m)"
| "menu_step m PickPassword = (if am_open m then go ''/account/password'' (m\<lparr>am_open := False\<rparr>) else m)"
| "menu_step m SignOut =
     (if am_open m then go ''/login'' (m\<lparr>am_open := False, am_auth := fst (logout (am_auth m))\<rparr>) else m)"

section \<open>The name and the icon of the tab\<close>

definition brandLetter :: "string \<Rightarrow> char" where
  "brandLetter name = (case trim name of [] \<Rightarrow> CHR ''g'' | c # _ \<Rightarrow> c)"

definition letterSvg :: "char \<Rightarrow> string" where
  "letterSvg letter =
     ''<svg xmlns=\"http://www.w3.org/2000/svg\" viewBox=\"0 0 64 64\">'' @
     ''<rect width=\"64\" height=\"64\" rx=\"14\" fill=\"#0a6a8c\"/>'' @
     ''<text x=\"32\" y=\"33\" fill=\"#ffffff\" font-size=\"38\" font-weight=\"700\" '' @
     ''font-family=\"Pretendard,system-ui,-apple-system,Segoe UI,Roboto,sans-serif\" '' @
     ''text-anchor=\"middle\" dominant-baseline=\"central\">'' @ [letter] @ ''</text></svg>''"

definition letterIcon :: "(string \<Rightarrow> string) \<Rightarrow> char \<Rightarrow> string" where
  "letterIcon encodeURIComponent letter = ''data:image/svg+xml,'' @ encodeURIComponent (letterSvg letter)"

record branding =
  br_service_name :: string
  br_logo :: "string option"

definition brand_name :: "branding option \<Rightarrow> string" where
  "brand_name b = (case nonempty (map_option br_service_name b) of Some n \<Rightarrow> n | None \<Rightarrow> DEFAULT_SERVICE_NAME)"

definition brand_logo :: "branding option \<Rightarrow> string option" where
  "brand_logo b = Option.bind b br_logo"

record icon_link =
  il_href :: "string option"
  il_type :: "string option"

text \<open>The document's head: its title and its icon links, with what the running effect was given and what it put aside.\<close>

record brand_document =
  bd_title :: string
  bd_links :: "icon_link list"
  bd_running :: "(string option \<times> string \<times> icon_link list) option"

definition declared_links :: "icon_link list \<Rightarrow> icon_link list" where
  "declared_links links = (if links = [] then [\<lparr>il_href = None, il_type = None\<rparr>] else links)"

definition painted :: "(string \<Rightarrow> string) \<Rightarrow> string option \<Rightarrow> string \<Rightarrow> icon_link" where
  "painted enc logo name =
     \<lparr>il_href = Some (case nonempty logo of Some l \<Rightarrow> l | None \<Rightarrow> letterIcon enc (brandLetter name)),
      il_type = Some (if str_truthy logo then [] else ''image/svg+xml'')\<rparr>"

definition icon_effect :: "(string \<Rightarrow> string) \<Rightarrow> string option \<Rightarrow> string \<Rightarrow> brand_document \<Rightarrow> brand_document" where
  "icon_effect enc logo name d =
     (let links = declared_links (bd_links d) in
      d\<lparr>bd_links := map (\<lambda>_. painted enc logo name) links, bd_running := Some (logo, name, links)\<rparr>)"

definition icon_cleanup :: "brand_document \<Rightarrow> brand_document" where
  "icon_cleanup d = (case bd_running d of None \<Rightarrow> d | Some (_, _, previous) \<Rightarrow> d\<lparr>bd_links := previous, bd_running := None\<rparr>)"

text \<open>A rendering with new data: an effect runs again only when the logo or the name changed.\<close>

definition BrandDocument :: "(string \<Rightarrow> string) \<Rightarrow> branding option \<Rightarrow> brand_document \<Rightarrow> brand_document" where
  "BrandDocument enc b d =
     (let name = brand_name b; logo = brand_logo b in
      if map_option (\<lambda>(l, n, _). (l, n)) (bd_running d) = Some (logo, name) then d
      else icon_effect enc logo name (icon_cleanup (d\<lparr>bd_title := name\<rparr>)))"

definition BrandMark :: "string option \<Rightarrow> string option \<Rightarrow> string + char" where
  "BrandMark logo name =
     (case nonempty logo of Some l \<Rightarrow> Inl l | None \<Rightarrow> Inr (brandLetter (str_or name DEFAULT_SERVICE_NAME)))"

section \<open>Readings\<close>

lemma transitional_known: "set TRANSITIONAL \<subseteq> fst ` set TONE"
  by (simp add: TRANSITIONAL_def TONE_def)

text \<open>The traffic light of the user's dashboard: every level has its own colour.\<close>

lemma congestion_tone:
  "fst (StatusPill (congestion f t)) =
     (if opt_else t 0 \<le> 0 \<or> opt_else f 0 \<le> 0 then ''muted''
      else if 6 / 10 \<le> opt_else f 0 / opt_else t 0 then ''free''
      else if 3 / 10 \<le> opt_else f 0 / opt_else t 0 then ''warn'' else ''danger'')"
  by (simp add: StatusPill_def congestion_def TONE_def str_or_def Let_def)

lemma gauge_filled_bounds:
  assumes "0 < cells"
  shows "0 \<le> gauge_filled v cells" "gauge_filled v cells \<le> int cells"
proof -
  have "meter_value v / 100 * of_nat cells \<le> of_nat cells"
    using meter_value_bounds [of v] mult_right_mono [of "meter_value v" 100 "of_nat cells"] by simp
  then have "js_round (meter_value v / 100 * of_nat cells) \<le> js_round (of_int (int cells))"
    by (intro js_round_mono) simp
  then show "gauge_filled v cells \<le> int cells"
    using assms by (simp add: gauge_filled_def Let_def js_round_of_int del: of_int_of_nat_eq)
qed (simp add: gauge_filled_def Let_def max_def)

text \<open>
  A gauge lights its cells from the left, as many as its reading, none exactly when nothing is used, and all of five from nine tenths.
\<close>

theorem gauge_reads:
  assumes "0 < cells"
  shows "length (filter id (BlockGauge v cells)) = nat (gauge_filled v cells) \<and>
    BlockGauge v cells = replicate (nat (gauge_filled v cells)) True @ replicate (cells - nat (gauge_filled v cells)) False \<and>
    (list_ex id (BlockGauge v cells) \<longleftrightarrow> 0 < v) \<and> (90 \<le> v \<longrightarrow> BlockGauge v 5 = replicate 5 True)"
proof -
  define n where "n = nat (gauge_filled v cells)"
  have n: "n \<le> cells" "\<And>i. int i < gauge_filled v cells \<longleftrightarrow> i < n"
    using gauge_filled_bounds [OF assms, of v] by (auto simp: n_def)
  have g: "BlockGauge v cells = replicate n True @ replicate (cells - n) False"
    by (rule nth_equalityI) (auto simp: BlockGauge_def n nth_append)
  have pos: "0 < n \<longleftrightarrow> 0 < v"
    by (auto simp: n_def gauge_filled_def meter_value_def Let_def)
  have full: "90 \<le> v \<longrightarrow> BlockGauge v 5 = replicate 5 True"
  proof
    assume that: "90 \<le> v"
    have "js_round (45 / 10) \<le> js_round (meter_value v / 100 * of_nat 5)"
      by (rule js_round_mono) (use that in \<open>simp add: meter_value_def\<close>)
    moreover have "js_round (45 / 10) = 5" by (simp add: js_round_def)
    moreover have "meter_value v \<noteq> 0" using that by (simp add: meter_value_def)
    ultimately have "5 \<le> gauge_filled v 5" by (simp add: gauge_filled_def Let_def)
    then show "BlockGauge v 5 = replicate 5 True" by (intro nth_equalityI) (auto simp: BlockGauge_def)
  qed
  have lit: "list_ex id (BlockGauge v cells) \<longleftrightarrow> 0 < v" unfolding g pos [symmetric] by (cases n) (simp_all add: list_ex_iff)
  have count: "length (filter id (BlockGauge v cells)) = n" unfolding g by simp
  from count g lit full show ?thesis unfolding n_def by (intro conjI)
qed

theorem gauge_reads_witness: "list_ex id (BlockGauge 1 5) \<and> BlockGauge 95 5 = replicate 5 True"
proof
  have "(0::nat) < 5 \<and> 0 < (1::rat) \<and> 90 \<le> (95::rat)" by simp
  then show "list_ex id (BlockGauge 1 5)" "BlockGauge 95 5 = replicate 5 True"
    using gauge_reads [where cells = 5 and v = 1] gauge_reads [where cells = 5 and v = 95] by blast+
qed

section \<open>Select boxes\<close>

lemma collect_child_values: "map so_value (collect_child grp c) = option_values c"
  by (induction grp c rule: collect_child.induct) (auto simp: map_concat comp_def intro!: arg_cong [where f = concat])

lemma collect_values: "map so_value (collect cs) = concat (map option_values cs)"
  by (simp add: collect_def map_concat comp_def collect_child_values)

text \<open>
  A select box offers the options it is written with, in their order and wherever they are nested, and hands over one of their
  values, whatever key or click it gets.
\<close>

lemma select_offers_children:
  assumes "reach (Select value cs0 dis) select_moves m" "sm_options m = collect cs" "snd (select_step m e) = Some w"
  shows "map so_value (sm_options m) = concat (map option_values cs) \<and>
         (w \<in> set (concat (map option_values cs)) \<or> concat (map option_values cs) = [] \<and> w = [])"
proof -
  have "w \<in> so_value ` set (collect cs) \<or> collect cs = [] \<and> w = []"
    using chosen_value [OF select.inv_reach [OF assms(1) [unfolded Select_def]] assms(3)] assms(2) by simp
  then have "w \<in> set (map so_value (collect cs)) \<or> map so_value (collect cs) = [] \<and> w = []" by simp
  then show ?thesis using assms(2) by (simp only: collect_values simp_thms)
qed

section \<open>Overlays\<close>

text \<open>
  Escape meant for a confirmation answers it with no, and also closes the dialog below it, with whatever was typed there; so does
  Escape meant for an open list box.
\<close>

lemma escape_closes_all:
  assumes "ov_dialog p" "cd_state (ov_confirm p) = Some q \<or> sm_open (ov_select p)"
  shows "\<not> ov_dialog (press_escape p) \<and> cd_state (ov_confirm (press_escape p)) = None \<and> \<not> sm_open (ov_select (press_escape p)) \<and>
    (cd_state (ov_confirm p) = Some (opt, i) \<longrightarrow>
       cd_answers (ov_confirm (press_escape p)) = cd_answers (ov_confirm p) @ [(i, opt, cd_typed (ov_confirm p), False)])"
  using assms by (auto simp: press_escape_def close_confirm_def set_open_def cursor_effect_def split: option.splits prod.splits)

section \<open>The cluster in view\<close>

text \<open>
  The cluster selector. It shows one of its choices and, once a choice is made, that one. With two clusters or more its pill is lit
  exactly while the screens are narrowed, to the cluster it names; with a single cluster the pill can be lit while no screen narrows.
\<close>

lemma cluster_pill:
  assumes "ClusterSelector clusters s = Some (v, lit)"
  shows "v \<in> set (selector_options clusters) \<and>
    (w \<in> set (selector_options clusters) \<longrightarrow> selector_value clusters (ui_activeClusterId (pick_cluster w s)) = w) \<and>
    (1 < length clusters \<longrightarrow> ac_id (useActiveCluster clusters (ui_activeClusterId s)) = (if lit then Some v else None)) \<and>
    (length clusters = 1 \<longrightarrow> ac_id (useActiveCluster clusters (ui_activeClusterId s)) = None \<and>
       (lit \<longleftrightarrow> ui_activeClusterId s = Some (cs_id (hd clusters)) \<and> cs_id (hd clusters) \<noteq> []))"
proof -
  have ne: "clusters \<noteq> []" and v: "v = selector_value clusters (ui_activeClusterId s)" and lit: "lit \<longleftrightarrow> v \<noteq> []"
    using assms by (auto simp: ClusterSelector_def Let_def split: if_splits)
  have 1: "v \<in> set (selector_options clusters)"
    by (cases "ui_activeClusterId s") (auto simp: v selector_value_def selector_options_def)
  have 2: "selector_value clusters (ui_activeClusterId (pick_cluster w s)) = w" if "w \<in> set (selector_options clusters)"
    using that by (auto simp: selector_value_def selector_options_def pick_cluster_def setActiveCluster_def str_truthy_def)
  have 3: "ac_id (useActiveCluster clusters (ui_activeClusterId s)) = (if lit then Some v else None)" if "1 < length clusters"
    using that by (auto simp: lit v selector_value_def useActiveCluster_def Let_def str_truthy_def split: option.splits)
  have 4: "ac_id (useActiveCluster clusters (ui_activeClusterId s)) = None \<and>
      (lit \<longleftrightarrow> ui_activeClusterId s = Some (cs_id (hd clusters)) \<and> cs_id (hd clusters) \<noteq> [])" if one: "length clusters = 1"
  proof -
    obtain c where "clusters = [c]" using one by (auto simp: length_Suc_conv)
    then show ?thesis by (auto simp: lit v selector_value_def useActiveCluster_def Let_def str_truthy_def split: option.splits)
  qed
  from 1 2 3 4 show ?thesis by blast
qed

section \<open>The account menu\<close>

text \<open>
  Signing out from the menu closes it, leads to the sign-in page and leaves nothing of the account in the store: the menu drawn from
  it names nobody and no role but the default one.
\<close>

lemma sign_out_forgets:
  assumes "am_open m" "m' = menu_step m SignOut"
  shows "\<not> am_open m' \<and> am_path m' = ''/login'' \<and> am_auth m' = initial_auth \<and> menu_name (am_auth m') = ''-'' \<and>
    activeProject (am_auth m') = None \<and> menu_role tr (am_auth m') = i18n_t tr ''account.defaultRole'' []"
proof -
  have a: "am_auth m' = initial_auth"
    using assms by (simp add: go_def logout_def initial_auth_def)
  have "menu_name initial_auth = ''-''" "activeProject initial_auth = None" "menu_role tr initial_auth = i18n_t tr ''account.defaultRole'' []"
    by (simp_all add: menu_name_def initial_auth_def no_claims_def activeProject_def menu_role_def roleLabel_def or_else_def str_or_def nonempty_def str_truthy_def)
  moreover have "\<not> am_open m'" "am_path m' = ''/login''" using assms by (simp_all add: go_def)
  ultimately show ?thesis by (simp only: a simp_thms)
qed

text \<open>
  The menu names the role of the active group even for an account that administers an organization: the top bar offers it the
  administration as an organization administrator while the menu calls it a member.
\<close>

lemma menu_role_hides_global:
  assumes "jc_global_role (claims s) = Some ''org_admin''" "activeProject s = Some m" "mb_role m = ''member''"
    and "roleLabel tr (Some ''member'') \<noteq> []"
  shows "adminRole s = Some ''org_admin'' \<and> menu_role tr s = roleLabel tr (Some ''member'')"
  using assms by (simp add: adminRole_def menu_role_def Let_def)

section \<open>The tab\<close>

definition brand_moves :: "(string \<Rightarrow> string) \<Rightarrow> brand_document \<Rightarrow> brand_document \<Rightarrow> bool" where
  "brand_moves enc d d' = ((\<exists>b. d' = BrandDocument enc b d) \<or> d' = icon_cleanup d)"

definition static_page :: "string \<Rightarrow> icon_link list \<Rightarrow> brand_document" where
  "static_page title links = \<lparr>bd_title = title, bd_links = links, bd_running = None\<rparr>"

definition brand_inv :: "(string \<Rightarrow> string) \<Rightarrow> icon_link list \<Rightarrow> brand_document \<Rightarrow> bool" where
  "brand_inv enc links d =
     (case bd_running d of
        None \<Rightarrow> declared_links (bd_links d) = declared_links links
      | Some (logo, name, previous) \<Rightarrow> bd_title d = name \<and> previous = declared_links links \<and>
          bd_links d = map (\<lambda>_. painted enc logo name) previous)"

lemma declared_links_idem [simp]: "declared_links (declared_links xs) = declared_links xs"
  by (simp add: declared_links_def)

lemma brand_inv_cleanup:
  assumes "brand_inv enc links d"
  shows "declared_links (bd_links (icon_cleanup d)) = declared_links links" "bd_running (icon_cleanup d) = None"
  using assms by (auto simp: brand_inv_def icon_cleanup_def split: option.splits)

lemma icon_cleanup_title: "bd_title (icon_cleanup d) = bd_title d"
  by (simp add: icon_cleanup_def split: option.splits)

lemma brand_inv_render:
  assumes "brand_inv enc links d"
  shows "brand_inv enc links (BrandDocument enc b d)"
    and "map_option (\<lambda>(l, n, _). (l, n)) (bd_running (BrandDocument enc b d)) = Some (brand_logo b, brand_name b)"
proof -
  have c: "declared_links (bd_links (icon_cleanup (d\<lparr>bd_title := t\<rparr>))) = declared_links links" for t
    using assms by (auto simp: brand_inv_def icon_cleanup_def split: option.splits)
  show "brand_inv enc links (BrandDocument enc b d)"
    using assms by (auto simp: BrandDocument_def Let_def icon_effect_def c brand_inv_def icon_cleanup_title)
  show "map_option (\<lambda>(l, n, _). (l, n)) (bd_running (BrandDocument enc b d)) = Some (brand_logo b, brand_name b)"
    by (simp add: BrandDocument_def Let_def icon_effect_def)
qed

interpretation brand_tab: inductive_invariant "static_page title links" "brand_moves enc" "brand_inv enc links" for title links enc
proof unfold_locales
  show "brand_inv enc links (static_page title links)" by (simp add: brand_inv_def static_page_def)
next
  fix s t
  assume "brand_inv enc links s" "brand_moves enc s t"
  moreover from this(1) have "brand_inv enc links (icon_cleanup s)"
    using brand_inv_cleanup [of enc links s] by (simp add: brand_inv_def [of _ _ "icon_cleanup s"])
  ultimately show "brand_inv enc links t" by (auto simp: brand_moves_def brand_inv_render)
qed

text \<open>
  The browser tab follows the branding. However often the branding changed and the painter was removed and drawn again, the title is
  the current service name and every icon of the page is the current logo, or without one the letter of the name; and removing the
  painter gives every icon declared by the page its address and type back.
\<close>

theorem tab_follows_branding:
  assumes "reach (static_page title links) (brand_moves enc) d" "d' = BrandDocument enc b d"
  shows "bd_title d' = brand_name b \<and> brand_name b \<noteq> [] \<and>
    bd_links d' = replicate (max 1 (length links)) (painted enc (brand_logo b) (brand_name b)) \<and>
    (links \<noteq> [] \<longrightarrow> bd_links (icon_cleanup d') = links)"
proof -
  have inv: "brand_inv enc links d'" and run: "map_option (\<lambda>(l, n, _). (l, n)) (bd_running d') = Some (brand_logo b, brand_name b)"
    using brand_inv_render [OF brand_tab.inv_reach [OF assms(1)], of b] assms(2) by simp_all
  then obtain prev where r: "bd_running d' = Some (brand_logo b, brand_name b, prev)" by auto
  then have d': "bd_title d' = brand_name b" "prev = declared_links links" "bd_links d' = map (\<lambda>_. painted enc (brand_logo b) (brand_name b)) prev"
    using inv by (simp_all add: brand_inv_def)
  have "length (declared_links links) = max 1 (length links)"
    by (cases links) (simp_all add: declared_links_def)
  then have "bd_links d' = replicate (max 1 (length links)) (painted enc (brand_logo b) (brand_name b))"
    by (simp add: d'(2,3) map_replicate_const)
  moreover have "brand_name b \<noteq> []"
    by (auto simp: brand_name_def DEFAULT_SERVICE_NAME_def nonempty_def str_truthy_def split: option.splits if_splits)
  moreover have "bd_links (icon_cleanup d') = links" if "links \<noteq> []"
    using that by (simp add: icon_cleanup_def r d'(2) declared_links_def)
  ultimately show ?thesis using d'(1) by simp
qed

theorem tab_follows_branding_witness:
  "bd_links (icon_cleanup (BrandDocument (\<lambda>x. x) None (static_page ''gShare'' [\<lparr>il_href = Some ''/i.png'', il_type = None\<rparr>]))) =
     [\<lparr>il_href = Some ''/i.png'', il_type = None\<rparr>]"
  using tab_follows_branding [where title = "''gShare''" and links = "[\<lparr>il_href = Some ''/i.png'', il_type = None\<rparr>]" and enc = "\<lambda>x. x"
      and b = None and d' = "BrandDocument (\<lambda>x. x) None (static_page ''gShare'' [\<lparr>il_href = Some ''/i.png'', il_type = None\<rparr>])", OF reach_init]
  by simp

text \<open>The letter is put into the drawing unescaped: a name that begins with markup yields a drawing that is not well formed.\<close>

lemma letter_unescaped: "\<exists>pre. letterSvg (brandLetter ''<gpu>'') = pre @ ''>'' @ ''<'' @ ''</text></svg>''"
  by (simp add: letterSvg_def brandLetter_def trim_def js_space_def)

section \<open>From a page that turned the visitor away, and back\<close>

text \<open>What a guard asks, said of the roles an account holds: the named role itself, or some role of sufficient rank.\<close>

fun demand_met :: "string list \<Rightarrow> guard \<Rightarrow> bool" where
  "demand_met roles (Some role, mn) = (role \<in> set roles)"
| "demand_met roles (None, Some need) = (\<exists>r \<in> set roles. atLeast_role (Some r) (Some need))"
| "demand_met roles (None, None) = True"

text \<open>The roles that count: the one the token names, or else those of \<^verbatim>\<open>/auth/me\<close> (none when that call fails).\<close>

definition counted_roles :: "string option \<Rightarrow> (Membership list \<times> string list \<times> string option) option \<Rightarrow> string list" where
  "counted_roles g me =
     (case g of Some r \<Rightarrow> [r] | None \<Rightarrow> (case me of None \<Rightarrow> [] | Some (ms, orgs, _) \<Rightarrow> held_roles ms orgs))"

lemma admin_guard_forms:
  assumes "map_of admin_routes u = Some gs" and "g \<in> set gs"
  shows "g \<in> {(Some ''super_admin'', None), (None, Some ''org_admin''), (None, Some ''group_admin'')}"
proof -
  have "(u, gs) \<in> set admin_routes" using assms(1) by (rule map_of_SomeD)
  then show ?thesis using assms(2) by (auto simp: admin_routes_def subtree_guard_def super_only_def min_role_def)
qed

lemma atLeast_super_iff: "atLeast_role (Some r) (Some ''super_admin'') \<longleftrightarrow> r = ''super_admin''"
  using rank_le_4 [of r] rank_inj [of r "''super_admin''"] by (auto simp: atLeast_role_def)

lemma demand_highest:
  assumes "g \<in> {(Some ''super_admin'', None), (None, Some ''org_admin''), (None, Some ''group_admin'')}"
  shows "guard_ok g (highestRole roles) \<longleftrightarrow> demand_met roles g"
proof -
  have "highestRole roles = Some ''super_admin'' \<longleftrightarrow> atLeast_role (highestRole roles) (Some ''super_admin'')"
    using atLeast_super_iff by (cases "highestRole roles") auto
  also have "\<dots> \<longleftrightarrow> ''super_admin'' \<in> set roles"
    using highestRole_gate [of "''super_admin''" roles] atLeast_super_iff by (auto simp: ROLE_ORDER_def)
  finally show ?thesis
    using assms highestRole_gate [of "''org_admin''" roles] highestRole_gate [of "''group_admin''" roles]
    by (auto simp: guard_ok_def ROLE_ORDER_def)
qed

lemma demand_token:
  assumes "g \<in> {(Some ''super_admin'', None), (None, Some ''org_admin''), (None, Some ''group_admin'')}"
  shows "guard_ok g (Some r) \<longleftrightarrow> demand_met [r] g"
  using assms by (auto simp: guard_ok_def)

lemma admin_route_settled:
  assumes "map_of admin_routes u = Some gs" and "meLoaded s \<or> str_truthy (jc_global_role (claims s))"
    and "effective_role (jc_global_role (claims s)) (membershipRole s) = Some r \<and> roles = [r] \<or>
         jc_global_role (claims s) = None \<and> membershipRole s = highestRole roles"
  shows "route_outcome u s = Some (if \<forall>g \<in> set gs. demand_met roles g then Admit else Forbidden)"
proof -
  note form = admin_guard_forms [OF assms(1)]
  let ?eff = "effective_role (jc_global_role (claims s)) (membershipRole s)"
  have ok: "list_all (\<lambda>g. guard_ok g ?eff) gs \<longleftrightarrow> (\<forall>g \<in> set gs. demand_met roles g)"
    using assms(3) form demand_highest demand_token by (auto simp: list_all_iff effective_role_def)
  have super: "list_all (\<lambda>g. guard_ok g ?eff) gs" if "jc_global_role (claims s) = Some ''super_admin''"
  proof -
    have "atLeast_role (Some ''super_admin'') (Some ''org_admin'')" "atLeast_role (Some ''super_admin'') (Some ''group_admin'')"
      by (simp_all add: atLeast_role_def)
    then show ?thesis using form that by (fastforce simp: list_all_iff guard_ok_def effective_role_def)
  qed
  show ?thesis
    using assms(1,2) ok super by (auto simp: route_outcome_def guards_outcome_ok)
qed

text \<open>C6: What happens to a visitor who opens an admin page signed out. The page sends them to the sign-in form with its own
  address; a failed sign-in leaves them there with the store untouched and the message on the form (the wrong-credentials
  text also when the call never reached the server). A successful one takes them to the password screen, and nowhere else,
  if the account must change its password, and otherwise back to that page. There they are never refused early: unless the
  token itself names a role, the page waits until \<^verbatim>\<open>/auth/me\<close> has answered; then it opens exactly when the roles the
  account holds meet every guard of the page, and shows 403 otherwise, also when that call fails.\<close>

theorem sign_in_lands:
  assumes "map_of admin_routes u = Some gs" and "RequireAuth u s = ToLogin url"
    and "out = handlePassword tr sf parse (Some url) answer p s"
  shows "case answer of
      Inl e \<Rightarrow> oc_auth out = s \<and> oc_goto out = None \<and> lg_error (oc_page out) = oc_toast out \<and>
        oc_toast out = Some (if ae_status e \<in> {None, Some 0, Some 401} then i18n_t tr ''auth.invalidCredentials'' []
                             else humanizeError tr sf e)
    | Inr tok \<Rightarrow>
        if jc_must_change_password (parse tok)
        then oc_goto out = Some ''/change-password'' \<and> RequireAuth u (oc_auth out) = ToChangePassword
        else oc_goto out = Some u \<and> RequireAuth u (oc_auth out) = Shell \<and>
          (\<not> str_truthy (jc_global_role (parse tok)) \<longrightarrow> route_outcome u (oc_auth out) = Some Loading) \<and>
          (\<forall>me. route_outcome u (me_answer me (oc_auth out)) =
             Some (if \<forall>g \<in> set gs. demand_met (counted_roles (jc_global_role (parse tok)) me) g then Admit else Forbidden))"
proof (cases answer)
  case (Inl e)
  then show ?thesis
    using assms(3) by (auto simp: handlePassword_def loginPassword_def login_message_def Let_def split: option.splits)
next
  case (Inr tok)
  have url: "url = u" using assms(2) by (auto simp: RequireAuth_def split: if_splits)
  define s1 where "s1 = oc_auth out"
  have s1: "claims s1 = parse tok" "isAuthed s1" "\<not> meLoaded s1" "memberships s1 = []" "orgAdminOrgs s1 = []"
      "membershipRole s1 = None"
    using Inr assms(3) by (simp_all add: s1_def handlePassword_def loginPassword_def applyTokens_def Let_def)
  have to: "oc_goto out = Some (if jc_must_change_password (parse tok) then ''/change-password'' else u)"
    using Inr assms(3) url by (simp add: handlePassword_def loginPassword_def applyTokens_def returnUrl_def Let_def)
  have gate: "RequireAuth u s1 = (if jc_must_change_password (parse tok) then ToChangePassword else Shell)"
    using s1 by (simp add: RequireAuth_def)
  have wait: "route_outcome u s1 = Some Loading" if "\<not> str_truthy (jc_global_role (parse tok))"
  proof -
    have "(u, gs) \<in> set admin_routes" using assms(1) by (rule map_of_SomeD)
    then have "gs \<noteq> []" by (auto simp: admin_routes_def)
    then show ?thesis using assms(1) that s1 by (auto simp: route_outcome_def guards_outcome_ok)
  qed
  have settled: "route_outcome u (me_answer me s1) =
      Some (if \<forall>g \<in> set gs. demand_met (counted_roles (jc_global_role (parse tok)) me) g then Admit else Forbidden)" for me
  proof (rule admin_route_settled [OF assms(1)])
    show "meLoaded (me_answer me s1) \<or> str_truthy (jc_global_role (claims (me_answer me s1)))"
      by (auto simp: me_answer_def setMeLoaded_def setMeContext_def setActiveProject_def Let_def split: option.splits)
    show "effective_role (jc_global_role (claims (me_answer me s1))) (membershipRole (me_answer me s1)) =
        Some (the (jc_global_role (parse tok))) \<and> counted_roles (jc_global_role (parse tok)) me = [the (jc_global_role (parse tok))] \<or>
      jc_global_role (claims (me_answer me s1)) = None \<and>
        membershipRole (me_answer me s1) = highestRole (counted_roles (jc_global_role (parse tok)) me)"
      using s1 by (auto simp: me_answer_def setMeLoaded_def setMeContext_def setActiveProject_def counted_roles_def effective_role_def
          Let_def split: option.splits)
  qed
  show ?thesis using Inr to gate wait settled unfolding s1_def by simp
qed

text \<open>An organization administrator who opened the node list signed out, and a member who opened it.\<close>

theorem sign_in_lands_witness:
  "(let s = oc_auth (handlePassword \<lparr>i18n_exists = \<lambda>_. False, i18n_t = \<lambda>k _. k\<rparr> (\<lambda>_. []) (\<lambda>_. no_claims) (Some ''/admin/nodes'')
              (Inr ''tok'') login_page_init initial_auth) in
      route_outcome ''/admin/nodes'' s = Some Loading \<and>
      route_outcome ''/admin/nodes'' (me_answer (Some ([], [''o1''], None)) s) = Some Admit \<and>
      route_outcome ''/admin/nodes'' (me_answer (Some ([], [], None)) s) = Some Forbidden)"
proof -
  have route: "map_of admin_routes ''/admin/nodes'' = Some [subtree_guard, (None, Some ''org_admin'')]"
    by (simp add: admin_routes_def min_role_def)
  have gate: "RequireAuth ''/admin/nodes'' initial_auth = ToLogin ''/admin/nodes''"
    by (simp add: RequireAuth_def initial_auth_def)
  note lands = sign_in_lands [OF route gate refl, of "\<lparr>i18n_exists = \<lambda>_. False, i18n_t = \<lambda>k _. k\<rparr>" "\<lambda>_. []" "\<lambda>_. no_claims"
      "Inr ''tok''" login_page_init]
  have roles: "counted_roles None (Some ([], [''o1''], None)) = [''org_admin'']" "counted_roles None (Some ([], [], None)) = []"
    by (simp_all add: counted_roles_def held_roles_def)
  show ?thesis
    using lands roles by (simp add: no_claims_def subtree_guard_def atLeast_role_def)
qed

end
