(* ===== verification/Spec2Isabelle.thy ===== *)
theory Spec2Isabelle
  imports Notice_Board Fleet_Charts Catalog_Admin Ops_Monitor Audit_Log Fleet_Admin System_Settings Console_Frame
begin

text \<open>
  A verification library for the console of gShare, a service that rents out slices of GPU cards as interactive sessions. The
  console is the TypeScript program under \<^verbatim>\<open>src/frontend/src\<close>; every path below is relative to that directory unless it starts
  with \<^verbatim>\<open>backend\<close>.

  \<^bold>\<open>The program.\<close> The console has no state of its own beyond the browser tab. It consists of
  \<^item> two stores, the account that is signed in (\<^verbatim>\<open>auth/authStore.ts\<close>) and the interface (\<^verbatim>\<open>store/uiStore.ts\<close>);
  \<^item> a client that adds the token and the idempotency key to every call and turns every failure into one error envelope
    (\<^verbatim>\<open>api/client.ts\<close>, \<^verbatim>\<open>lib/errors.ts\<close>);
  \<^item> hooks, one per query and per mutation of the API (\<^verbatim>\<open>api/hooks\<close>), which share one query cache: a query names its cache key
    and the calls that fill it, a mutation names its request and the keys it makes stale;
  \<^item> screens (\<^verbatim>\<open>features\<close>), which derive what they show from the data of the hooks and from the query string, and send the
    mutations; and the controls the screens share (\<^verbatim>\<open>components\<close>, \<^verbatim>\<open>hooks\<close>);
  \<^item> routes with their guards, and the navigation that leads to them (\<^verbatim>\<open>routes/router.tsx\<close>, \<^verbatim>\<open>components/Layout.tsx\<close>).

  A user action runs through all of them: the guard admits the account to a screen, a form accepts the input, a dialog asks for
  the confirmation, the mutation hook forms the request, the client sends it, a failure changes the store when it is a 401, and a
  success makes the affected queries fetch again.

  \<^bold>\<open>How the code is modelled.\<close> A struct of the code is a record, an enumeration a datatype or the strings the code compares, a
  handler a function from the state, the input and the answers of its calls to the new state and the requests it sends. A request
  is the value \<open>http_req\<close> of \<open>Gs_Prelude\<close>, a JSON value the datatype \<open>js\<close>, a number read from text the datatype \<open>jsnum\<close> with its
  \<open>NaN\<close> and infinities. A call that throws is \<open>Inl\<close> of the envelope. Where the order of actions matters (the store, the dialogs,
  the event stream, the forms with staged changes) the component is a step function or an inductive relation with its reachable
  states. The rules of the server that a form anticipates are translated beside the form
  (\<^verbatim>\<open>backend/app/api/deps.py\<close>, \<^verbatim>\<open>volumes_router.py\<close>, \<^verbatim>\<open>groups_router.py\<close>, \<^verbatim>\<open>users_router.py\<close>, \<^verbatim>\<open>system_router.py\<close>, \<^verbatim>\<open>auth/rbac.py\<close>,
  \<^verbatim>\<open>core/validation.py\<close>, \<^verbatim>\<open>domain/scheduler.py\<close>, \<^verbatim>\<open>core/cuda.py\<close>), so that the two can be compared. Where a form is compared with an
  endpoint (\<open>User_Admin\<close>, \<open>Group_Admin\<close>, \<open>Bulk_Import\<close>, \<open>Volume_Page\<close>, \<open>Fleet_Admin\<close>), the theorem runs the very requests the form sends.

  \<^bold>\<open>The theories.\<close>

  Foundations.
  \<^item> \<open>Gs_Prelude\<close>: JSON values, optional chaining, object spread, requests, results that may throw, list and option lemmas, and the
    interface \<open>inductive_invariant\<close> that every state machine of the library interprets.
  \<^item> \<open>Js_Number\<close>, \<open>Js_Date\<close>, \<open>Base64\<close>, \<open>Row_Order\<close>: what the code uses of the language: reading and rounding numbers, calendar days
    (on a clock without daylight saving), \<^verbatim>\<open>atob\<close> and \<^verbatim>\<open>btoa\<close>, stable sorting.
  \<^item> \<open>Number_Field\<close>: a number input that clamps its text when it is left, and what it then reads as.

  Account and transport.
  \<^item> \<open>Rbac\<close> (\<^verbatim>\<open>lib/rbac.ts\<close>), \<open>Auth_Store\<close> (\<^verbatim>\<open>auth\<close>, \<^verbatim>\<open>lib/jwt.ts\<close>): the role order, the store as a machine over actions, answers in
    flight and reloads, its invariant, the exactness of the guards, and that a sign-in forgets the previous account.
  \<^item> \<open>Api_Errors\<close>, \<open>Api_Client\<close>, \<open>Paging\<close>: the envelope of every failure, the reaction to every response, the bounded retries, the
    collection of a listing page by page (interface \<open>paged_listing\<close>, discharged on the server's own paging rule).

  Data.
  \<^item> \<open>Query_Core\<close>: what a hook hands to the query client, the interface \<open>query_matching\<close> of cache keys, and the cache as it is filled
    by fetches and by the answers a mutation writes into it, and emptied.
  \<^item> \<open>Session_Hooks\<close>, \<open>Billing_Hooks\<close>, \<open>Identity_Hooks\<close>, \<open>Resource_Hooks\<close>, \<open>Infra_Hooks\<close>: all hooks of \<^verbatim>\<open>api/hooks\<close>; idempotency keys on every
    money request, complete session lists, the event stream with its fall back to polling.
  \<^item> \<open>Console_Queries\<close>: all queries together; a key determines what is fetched across hooks, also beside the mutations that write
    their answers, and which queries the actions on a session fetch again.

  Shared controls.
  \<^item> \<open>Ui_Store\<close>, \<open>Ui_Controls\<close>: toasts and timers; dialogs, unsaved-input guards, list boxes, menu placement, copy button.
  \<^item> \<open>Table_State\<close>, \<open>Row_Order\<close>: search, filters, sorting and paging kept in the query string, as a refinement of an abstract view of
    a table; the order of rows; selections.
  \<^item> \<open>Format\<close>, \<open>Chart_Axis\<close>, \<open>Fleet_Charts\<close>, \<open>Notice_Board\<close>: labels and figures, charts, the telemetry page, the notification bell.
  \<^item> \<open>Navigation\<close>: the navigation and the routes agree.
  \<^item> \<open>Console_Frame\<close>: what frames every screen: the account menu, the cluster selector, the branding of the tab (an invariant of the
    page's icons), status pills, gauges, select boxes and dialogs.

  Screens.
  \<^item> \<open>Session_Tier\<close>, \<open>Session_Wizard\<close>, \<open>Session_List\<close>: ordering a session (tiers against the scheduler's checks, mounts, the walk through
    the wizard with data that may change at every step), the list, detail, connection and queue screens.
  \<^item> \<open>Wallet_Page\<close>, \<open>Credit_Desk\<close>, \<open>Volume_Page\<close>, \<open>Account_Screens\<close>: money, volumes with their sharing form, sign-in, passwords, quota
    requests.
  \<^item> \<open>Bulk_Import\<close>, \<open>User_Admin\<close>, \<open>Group_Admin\<close>, \<open>Node_Admin\<close>, \<open>Catalog_Admin\<close>, \<open>Ops_Monitor\<close>, \<open>Audit_Log\<close>, \<open>Fleet_Admin\<close>,
    \<open>System_Settings\<close>: the admin console. \<open>User_Admin\<close> and
    \<open>Group_Admin\<close> hold the server's side of an edited account and of a membership: who may do it, the last-administrator guard with
    its check apart from its write, and the endpoints that change memberships without that guard.
  \<^item> \<open>Dashboards\<close>: the figures, card tiles, card pages and links of the user's and the operator's dashboard.

  \<^bold>\<open>What the theorems show.\<close> Invariants of the state (the store, the wizard, the dialogs, the forms, the administrators of a
  group through the guarded endpoints, with what those do not cover); that nothing is sent without its guard (credit moves, bulk
  terminations, password changes, pool grants); that a list is complete and in one well-defined order; that a form and the server's rule agree, or exactly
  where they do not; refinements of abstract views (tables, shares, form guards, the account an edit leaves); round trips (tokens, base64, undo of a demotion,
  preset fractions); bounds of figures, tiers and chart spans; termination of the retries. A theorem whose statement contains a
  negative clause records a behaviour in which the code falls short of its comments.

  \<^bold>\<open>Bounds.\<close> They are the code's: a listing is collected in at most 20 pages of 100 rows, a failing query is tried three times,
  a roster is uploaded in chunks of 200, a spend chart has at most 400 days, pickers ask for 20 rows and the members of a group for
  pages of 50 or 200. The loops are structurally recursive on those counters; no fuel is chosen by the library.

  \<^bold>\<open>Parameters.\<close> Code outside the repository enters as arguments: the translations (\<open>i18n\<close>), the collation (\<open>coll\<close>), the engine's
  formatting of numbers and dates and its reading of timestamps (\<open>ns\<close>, \<open>date\<close>), the transport (\<open>fetch\<close>, \<open>send\<close>), the matching of cache
  keys (\<open>matches\<close>), the CSV tokenizer (\<open>papa\<close>), random keys and the clock. Where a theorem needs a law of one of them the law is a
  hypothesis, and its witness instantiates it.

  \<^bold>\<open>Not modelled.\<close> Markup, styles, focus handling and toasts, which carry no decision; the drawing library; the generated API types
  (\<^verbatim>\<open>api/schema.d.ts\<close>); the components that only lay out what they are given (headings, empty states, icons, drawers), the
  language files and the start of the application. The
  server, the Kubernetes operator, the node agent and the deployment files are separate programs in other languages; of the server
  only the rules named above are translated.
\<close>

end
